(* ===== verification/Prelude.thy ===== *)
theory Prelude
  imports Main "HOL-Library.AList" "HOL-Library.List_Lexorder" "HOL-Library.Product_Lexorder"
    "HOL-Library.Char_ord" "HOL-Library.Word" "HOL-Library.Multiset"
begin

text \<open>
  Shared vocabulary of the development.

  \<^item> Python's \<open>str\<close> is a sequence of Unicode code points: \<open>ustr\<close>, a list of naturals.
    A literal of the source is written \<open>u ''...''\<close>; \<open>u\<close> is injective, so two
    distinct literals are distinct strings without unfolding it.
  \<^item> Python's \<open>bytes\<close> is a list of 8-bit words.
  \<^item> A Python \<open>dict\<close> with its insertion order is an association list; reading is
    \<open>map_of\<close>, assignment is \<open>AList.update\<close> (an existing key keeps its place, a new key
    goes to the end).
  \<^item> A function that may raise returns a sum, \<open>Inl\<close> the exception. \<open>bindE\<close> sequences two
    such computations, \<open>ensureE\<close> is \<open>if not b: raise e\<close>, \<open>mapE\<close> is a list comprehension
    whose body may raise, \<open>foldE\<close> a loop with one loop-carried value.
\<close>

named_theorems codec_simps \<open>facts about the serializer and its reader\<close>
named_theorems store_simps \<open>facts about the parts of the file system an operation leaves alone\<close>

section \<open>Strings and bytes\<close>

type_synonym ustr = "nat list"
type_synonym byte = "8 word"
type_synonym bytes = "byte list"

definition u :: "string \<Rightarrow> ustr" where
  "u s = map of_char s"

lemma u_eq_iff [simp]: "u s = u t \<longleftrightarrow> s = t"
  by (auto simp: u_def inj_on_def)

lemma u_Nil [simp]: "u [] = []"
  by (simp add: u_def)

lemma u_eq_Nil_iff [simp]: "u s = [] \<longleftrightarrow> s = []" "[] = u s \<longleftrightarrow> s = []"
  by (auto simp: u_def)

lemma u_append: "u (s @ t) = u s @ u t"
  by (simp add: u_def)

lemma set_u_bound: "c \<in> set (u s) \<Longrightarrow> c < 256"
  by (auto simp: u_def)

section \<open>Computations that may raise\<close>

fun bindE :: "'e + 'a \<Rightarrow> ('a \<Rightarrow> 'e + 'b) \<Rightarrow> 'e + 'b" where
  "bindE (Inl e) f = Inl e"
| "bindE (Inr x) f = f x"

definition ensureE :: "bool \<Rightarrow> 'e \<Rightarrow> 'e + unit" where
  "ensureE b e = (if b then Inr () else Inl e)"

definition orE :: "'a option \<Rightarrow> 'e \<Rightarrow> 'e + 'a" where
  "orE x e = (case x of None \<Rightarrow> Inl e | Some y \<Rightarrow> Inr y)"

fun mapE :: "('a \<Rightarrow> 'e + 'b) \<Rightarrow> 'a list \<Rightarrow> 'e + 'b list" where
  "mapE f [] = Inr []"
| "mapE f (x # xs) = bindE (f x) (\<lambda>y. bindE (mapE f xs) (\<lambda>ys. Inr (y # ys)))"

fun foldE :: "('s \<Rightarrow> 'a \<Rightarrow> 'e + 's) \<Rightarrow> 's \<Rightarrow> 'a list \<Rightarrow> 'e + 's" where
  "foldE f s [] = Inr s"
| "foldE f s (x # xs) = bindE (f s x) (\<lambda>s'. foldE f s' xs)"

text \<open>\<open>any(...)\<close> and a filtering comprehension whose conditions may raise.\<close>

fun anyE :: "('e + bool) list \<Rightarrow> 'e + bool" where
  "anyE [] = Inr False"
| "anyE (c # cs) = bindE c (\<lambda>b. if b then Inr True else anyE cs)"

fun filterE :: "('a \<Rightarrow> 'e + bool) \<Rightarrow> 'a list \<Rightarrow> 'e + 'a list" where
  "filterE f [] = Inr []"
| "filterE f (x # xs) =
     bindE (f x) (\<lambda>b. bindE (filterE f xs) (\<lambda>ys. Inr (if b then x # ys else ys)))"

text \<open>\<open>a and b\<close>.\<close>

definition andE :: "'e + bool \<Rightarrow> 'e + bool \<Rightarrow> 'e + bool" where
  "andE a b = bindE a (\<lambda>x. if x then b else Inr False)"

fun mapErr :: "('e \<Rightarrow> 'f) \<Rightarrow> 'e + 'a \<Rightarrow> 'f + 'a" where
  "mapErr g (Inl e) = Inl (g e)"
| "mapErr g (Inr x) = Inr x"

lemma bindE_cong [fundef_cong]:
  assumes "m1 = m2" and "\<And>x. m2 = Inr x \<Longrightarrow> f1 x = f2 x"
  shows "bindE m1 f1 = bindE m2 f2"
  using assms by (cases m2) auto

lemma bindE_eq_Inr_iff [simp]: "bindE m f = Inr y \<longleftrightarrow> (\<exists>x. m = Inr x \<and> f x = Inr y)"
  by (cases m) auto

lemma bindE_eq_Inl_iff:
  "bindE m f = Inl e \<longleftrightarrow> m = Inl e \<or> (\<exists>x. m = Inr x \<and> f x = Inl e)"
  by (cases m) auto

lemma ensureE_eq_Inr_iff [simp]: "ensureE b e = Inr x \<longleftrightarrow> b"
  by (auto simp: ensureE_def)

lemma ensureE_simps [simp]: "ensureE True e = Inr ()" "ensureE False e = Inl e"
  by (auto simp: ensureE_def)

lemma orE_eq_Inr_iff [simp]: "orE x e = Inr y \<longleftrightarrow> x = Some y"
  by (auto simp: orE_def split: option.splits)

lemma orE_simps [simp]: "orE (Some x) e = Inr x" "orE None e = Inl e"
  by (auto simp: orE_def)

lemma mapErr_eq_Inr_iff [simp]: "mapErr g m = Inr x \<longleftrightarrow> m = Inr x"
  by (cases m) auto

lemma mapE_cong [fundef_cong]:
  assumes "xs = ys" and "\<And>x. x \<in> set ys \<Longrightarrow> f x = g x"
  shows "mapE f xs = mapE g ys"
  using assms(2) unfolding assms(1) by (induction ys) auto

lemma mapE_Inr_iff: "mapE f xs = Inr ys \<longleftrightarrow> list_all2 (\<lambda>x y. f x = Inr y) xs ys"
  by (induction xs arbitrary: ys) (auto simp: list_all2_Cons1)

lemma mapE_total: "mapE f xs = Inr ps \<longleftrightarrow> (\<forall>x \<in> set xs. \<exists>y. f x = Inr y) \<and> ps = map (\<lambda>x. projr (f x)) xs"
  by (induction xs arbitrary: ps) auto

lemma mapE_append: "mapE f (xs @ ys) =
    bindE (mapE f xs) (\<lambda>as. bindE (mapE f ys) (\<lambda>bs. Inr (as @ bs)))"
proof (induction xs)
  case Nil
  show ?case by (cases "mapE f ys") auto
next
  case (Cons x xs)
  then show ?case by (cases "f x"; cases "mapE f xs"; cases "mapE f ys") auto
qed

lemma foldE_append: "foldE f s (xs @ ys) = bindE (foldE f s xs) (\<lambda>s'. foldE f s' ys)"
proof (induction xs arbitrary: s)
  case (Cons x xs)
  then show ?case by (cases "f s x") auto
qed simp

lemma anyE_False_iff: "anyE cs = Inr False \<longleftrightarrow> (\<forall>c \<in> set cs. c = Inr False)"
proof (induction cs)
  case (Cons c cs)
  then show ?case by (cases c) (auto split: if_splits)
qed simp

lemma filterE_Inr: "(\<And>x. x \<in> set xs \<Longrightarrow> f x = Inr (P x)) \<Longrightarrow> filterE f xs = Inr (filter P xs)"
  by (induction xs) auto

lemma filterE_Inr_iff:
  "filterE f xs = Inr ys \<longleftrightarrow> (\<forall>x \<in> set xs. \<exists>b. f x = Inr b) \<and> ys = filter (\<lambda>x. f x = Inr True) xs"
proof (induction xs arbitrary: ys)
  case (Cons x xs)
  show ?case by (cases "f x") (auto simp: Cons.IH)
qed auto

section \<open>Sorting by key\<close>

lemma sort_key_distinct_perm:
  assumes "mset xs = mset ys" and "distinct (map f xs)"
  shows "sort_key f xs = sort_key f ys"
proof -
  have dys: "distinct (map f ys)"
    using assms by (metis distinct_map mset_eq_imp_distinct_iff set_mset_mset)
  have "set xs = set ys"
    using assms(1) by (metis set_mset_mset)
  with assms(2) dys show ?thesis
    by (intro map_sorted_distinct_set_unique [of f])
      (auto simp: distinct_map)
qed

lemma sort_key_id: "sorted (map f xs) \<Longrightarrow> sort_key f xs = xs"
  by (rule sort_key_id_if_sorted)

lemma distinct_map_sort_key [simp]: "distinct (map f (sort_key g xs)) = distinct (map f xs)"
  by (metis mset_eq_imp_distinct_iff mset_map mset_sort)

lemma map_of_sort_key:
  assumes "distinct (map fst xs)"
  shows "map_of (sort_key fst xs) = map_of xs"
  using assms by (intro map_of_eqI) (auto simp: distinct_map)

end
