(* ===== verification/Text.thy ===== *)
theory Text
  imports Prelude
begin

text \<open>
  The text layer the program gets from Python: strict UTF-8 encoding and decoding,
  \<open>str.splitlines\<close>, the newline translation of \<open>Path.read_text\<close>, and decimal and
  hexadecimal digits. Code points are naturals below \<open>0x110000\<close>; a surrogate
  (\<open>0xD800\<close> to \<open>0xDFFF\<close>) is a possible element of a Python string that strict UTF-8
  refuses, which is why encoding is partial.
\<close>

section \<open>UTF-8\<close>

definition surrogate :: "nat \<Rightarrow> bool" where
  "surrogate c \<longleftrightarrow> 0xD800 \<le> c \<and> c \<le> 0xDFFF"

definition encodable :: "nat \<Rightarrow> bool" where
  "encodable c \<longleftrightarrow> c < 0x110000 \<and> \<not> surrogate c"

definition utf8_char :: "nat \<Rightarrow> bytes" where
  "utf8_char c =
     (if c < 0x80 then [of_nat c]
      else if c < 0x800 then [of_nat (0xC0 + c div 64), of_nat (0x80 + c mod 64)]
      else if c < 0x10000 then
        [of_nat (0xE0 + c div 4096), of_nat (0x80 + c div 64 mod 64), of_nat (0x80 + c mod 64)]
      else
        [of_nat (0xF0 + c div 262144), of_nat (0x80 + c div 4096 mod 64),
         of_nat (0x80 + c div 64 mod 64), of_nat (0x80 + c mod 64)])"

definition utf8_encode :: "ustr \<Rightarrow> bytes option" where
  "utf8_encode s = (if list_all encodable s then Some (concat (map utf8_char s)) else None)"

definition continuation :: "byte \<Rightarrow> bool" where
  "continuation b \<longleftrightarrow> 0x80 \<le> unat b \<and> unat b < 0xC0"

definition payload :: "byte \<Rightarrow> nat" where
  "payload b = unat b - 0x80"

fun utf8_decode :: "bytes \<Rightarrow> ustr option" where
  "utf8_decode [] = Some []"
| "utf8_decode (b # bs) =
     (if unat b < 0x80 then map_option ((#) (unat b)) (utf8_decode bs)
      else if unat b < 0xC2 then None
      else if unat b < 0xE0 then
        (case bs of
           c # r \<Rightarrow>
             (if continuation c
              then map_option ((#) ((unat b - 0xC0) * 64 + payload c)) (utf8_decode r)
              else None)
         | _ \<Rightarrow> None)
      else if unat b < 0xF0 then
        (case bs of
           c # d # r \<Rightarrow>
             (let v = (unat b - 0xE0) * 4096 + payload c * 64 + payload d
              in if continuation c \<and> continuation d \<and> 0x800 \<le> v \<and> \<not> surrogate v
                 then map_option ((#) v) (utf8_decode r) else None)
         | _ \<Rightarrow> None)
      else if unat b < 0xF5 then
        (case bs of
           c # d # e # r \<Rightarrow>
             (let v = (unat b - 0xF0) * 262144 + payload c * 4096 + payload d * 64 + payload e
              in if continuation c \<and> continuation d \<and> continuation e
                    \<and> 0x10000 \<le> v \<and> v < 0x110000
                 then map_option ((#) v) (utf8_decode r) else None)
         | _ \<Rightarrow> None)
      else None)"

lemma unat_byte: "n < 256 \<Longrightarrow> unat (of_nat n :: byte) = n"
  by (simp add: take_bit_eq_mod unat_of_nat)

lemma continuation_byte: "n < 64 \<Longrightarrow> continuation (of_nat (0x80 + n))"
  using unat_byte [of "0x80 + n"] by (simp add: continuation_def)

lemma payload_byte: "n < 64 \<Longrightarrow> payload (of_nat (0x80 + n)) = n"
  using unat_byte [of "0x80 + n"] by (simp add: payload_def)

lemma sextets:
  fixes c :: nat
  shows "c div 4096 * 4096 + c div 64 mod 64 * 64 + c mod 64 = c"
    and "c div 262144 * 262144 + c div 4096 mod 64 * 4096 + c div 64 mod 64 * 64 + c mod 64 = c"
proof -
  have a: "c div 4096 = c div 64 div 64" and b: "c div 262144 = c div 4096 div 64"
    by (simp_all add: div_mult2_eq [symmetric])
  have "c div 64 * 64 + c mod 64 = c" "c div 64 div 64 * 64 + c div 64 mod 64 = c div 64"
    "c div 4096 div 64 * 64 + c div 4096 mod 64 = c div 4096"
    by (rule div_mult_mod_eq)+
  then show "c div 4096 * 4096 + c div 64 mod 64 * 64 + c mod 64 = c"
    and "c div 262144 * 262144 + c div 4096 mod 64 * 4096 + c div 64 mod 64 * 64 + c mod 64 = c"
    using a b by linarith+
qed

lemma utf8_decode_char:
  assumes "encodable c"
  shows "utf8_decode (utf8_char c @ rest) = map_option ((#) c) (utf8_decode rest)"
proof -
  have c: "c < 0x110000" "\<not> surrogate c"
    using assms by (auto simp: encodable_def)
  note bytes = unat_byte continuation_byte payload_byte
  consider "c < 0x80" | "0x80 \<le> c" "c < 0x800" | "0x800 \<le> c" "c < 0x10000" | "0x10000 \<le> c"
    by linarith
  then show ?thesis
  proof cases
    case 1
    then show ?thesis by (simp add: utf8_char_def unat_byte)
  next
    case 2
    have "unat (of_nat (0xC0 + c div 64) :: byte) = 0xC0 + c div 64"
      using 2 by (intro unat_byte) linarith
    moreover have lt: "\<not> c div 64 < 2" "c div 64 < 32"
      using 2 by linarith+
    moreover have "c div 64 * 64 + c mod 64 = c"
      by simp
    ultimately show ?thesis
      using 2 by (simp add: utf8_char_def bytes lt del: of_nat_add)
  next
    case 3
    have "unat (of_nat (0xE0 + c div 4096) :: byte) = 0xE0 + c div 4096"
      using 3 by (intro unat_byte) linarith
    moreover have "c div 4096 < 16"
      using 3 by linarith
    moreover have "c div 4096 * 4096 + c div 64 mod 64 * 64 + c mod 64 = c"
      by (rule sextets)
    ultimately show ?thesis
      using 3 c by (simp add: utf8_char_def bytes Let_def del: of_nat_add)
  next
    case 4
    have "unat (of_nat (0xF0 + c div 262144) :: byte) = 0xF0 + c div 262144"
      using c by (intro unat_byte) linarith
    moreover have "c div 262144 < 5"
      using c by linarith
    moreover have "c div 262144 * 262144 + c div 4096 mod 64 * 4096 + c div 64 mod 64 * 64
        + c mod 64 = c"
      by (rule sextets)
    ultimately show ?thesis
      using 4 c by (simp add: utf8_char_def bytes Let_def del: of_nat_add)
  qed
qed

lemma utf8_decode_append:
  assumes "utf8_encode s = Some b"
  shows "utf8_decode (b @ rest) = map_option ((@) s) (utf8_decode rest)"
  using assms
proof (induction s arbitrary: b)
  case Nil
  then show ?case by (simp add: utf8_encode_def option.map_ident)
next
  case (Cons c s)
  then have c: "encodable c" and b: "b = utf8_char c @ concat (map utf8_char s)"
    and s: "utf8_encode s = Some (concat (map utf8_char s))"
    by (auto simp: utf8_encode_def split: if_splits)
  show ?case
    using Cons.IH [OF s] by (simp add: b utf8_decode_char c option.map_comp comp_def)
qed

lemma utf8_roundtrip [codec_simps]: "utf8_encode s = Some b \<Longrightarrow> utf8_decode b = Some s"
  using utf8_decode_append [of s b "[]"] by simp

lemma utf8_encode_append:
  "utf8_encode (s @ t) =
     (case (utf8_encode s, utf8_encode t) of (Some a, Some b) \<Rightarrow> Some (a @ b) | _ \<Rightarrow> None)"
  by (auto simp: utf8_encode_def)

lemma utf8_encode_inj: "utf8_encode s = Some b \<Longrightarrow> utf8_encode t = Some b \<Longrightarrow> s = t"
  by (metis option.inject utf8_roundtrip)

lemma utf8_encode_newline: "utf8_encode [10] = Some [10]"
  by (simp add: utf8_encode_def encodable_def surrogate_def utf8_char_def)

lemma utf8_char_high:
  assumes "0x80 \<le> c" and "c < 0x110000" and "b \<in> set (utf8_char c)"
  shows "0x80 \<le> unat b"
proof -
  have "\<exists>n. b = of_nat (0x80 + n) \<and> n < 0x80"
  proof -
    consider "c < 0x800" | "0x800 \<le> c" "c < 0x10000" | "0x10000 \<le> c"
      by linarith
    then show ?thesis
    proof cases
      case 1
      then have "b = of_nat (0x80 + (0x40 + c div 64)) \<or> b = of_nat (0x80 + c mod 64)"
        using assms by (auto simp: utf8_char_def)
      moreover have "0x40 + c div 64 < 0x80" and "c mod 64 < 0x80"
        using 1 by linarith+
      ultimately show ?thesis by blast
    next
      case 2
      then have "b = of_nat (0x80 + (0x60 + c div 4096)) \<or> b = of_nat (0x80 + c div 64 mod 64)
          \<or> b = of_nat (0x80 + c mod 64)"
        using assms by (auto simp: utf8_char_def)
      moreover have "0x60 + c div 4096 < 0x80" and "c mod 64 < 0x80" and "c div 64 mod 64 < 0x80"
        using 2 by linarith+
      ultimately show ?thesis by blast
    next
      case 3
      then have "b = of_nat (0x80 + (0x70 + c div 262144)) \<or> b = of_nat (0x80 + c div 4096 mod 64)
          \<or> b = of_nat (0x80 + c div 64 mod 64) \<or> b = of_nat (0x80 + c mod 64)"
        using assms by (auto simp: utf8_char_def)
      moreover have "0x70 + c div 262144 < 0x80" and "c mod 64 < 0x80"
        and "c div 64 mod 64 < 0x80" and "c div 4096 mod 64 < 0x80"
        using assms(2) by linarith+
      ultimately show ?thesis by blast
    qed
  qed
  then obtain n where "b = of_nat (0x80 + n)" and "n < 0x80" by blast
  then show ?thesis
    using unat_byte [of "0x80 + n"] by simp
qed

lemma utf8_char_low:
  assumes "b \<in> set (utf8_char c)" and "c < 0x110000" and "unat b < 0x80"
  shows "unat b = c"
proof (cases "c < 0x80")
  case True
  then show ?thesis
    using assms by (simp add: utf8_char_def unat_byte)
next
  case False
  then show ?thesis
    using utf8_char_high [OF _ assms(2,1)] assms(3) by simp
qed

text \<open>An ASCII byte occurs in the encoding exactly where its character occurs in the text.\<close>

lemma utf8_encode_low:
  assumes "utf8_encode s = Some bs" and "b \<in> set bs" and "unat b < 0x80"
  shows "unat b \<in> set s"
proof -
  from assms obtain c where c: "c \<in> set s" "b \<in> set (utf8_char c)" "encodable c"
    by (auto simp: utf8_encode_def list_all_iff split: if_splits)
  then have "unat b = c"
    using assms(3) by (intro utf8_char_low) (auto simp: encodable_def)
  with c show ?thesis by simp
qed

section \<open>Lines\<close>

text \<open>
  \<open>str.splitlines\<close> breaks at every Unicode line boundary, not only at a newline: also at
  vertical tab, form feed, the three separators \<open>0x1C\<close> to \<open>0x1E\<close>, next line
  (\<open>0x85\<close>), line separator (\<open>0x2028\<close>) and paragraph separator (\<open>0x2029\<close>).
\<close>

definition is_linebreak :: "nat \<Rightarrow> bool" where
  "is_linebreak c \<longleftrightarrow> c \<in> {10, 11, 12, 13, 28, 29, 30, 0x85, 0x2028, 0x2029}"

fun split_lines :: "ustr \<Rightarrow> ustr \<Rightarrow> ustr list" where
  "split_lines acc [] = (if acc = [] then [] else [acc])"
| "split_lines acc (c # cs) =
     (if c = 13 then
        (case cs of
           [] \<Rightarrow> [acc]
         | d # ds \<Rightarrow> (if d = 10 then acc # split_lines [] ds else acc # split_lines [] cs))
      else if is_linebreak c then acc # split_lines [] cs
      else split_lines (acc @ [c]) cs)"

definition py_splitlines :: "ustr \<Rightarrow> ustr list" where
  "py_splitlines s = split_lines [] s"

fun universal_newlines :: "ustr \<Rightarrow> ustr" where
  "universal_newlines [] = []"
| "universal_newlines (c # cs) =
     (if c = 13 then
        (case cs of
           [] \<Rightarrow> [10]
         | d # ds \<Rightarrow> (if d = 10 then 10 # universal_newlines ds else 10 # universal_newlines cs))
      else c # universal_newlines cs)"

text \<open>\<open>Path.read_text(encoding="utf-8")\<close>: decode, then translate newlines.\<close>

definition read_text :: "bytes \<Rightarrow> ustr option" where
  "read_text b = map_option universal_newlines (utf8_decode b)"

lemma universal_newlines_id: "13 \<notin> set s \<Longrightarrow> universal_newlines s = s"
  by (induction s) auto

lemma split_lines_line:
  assumes "\<forall>c\<in>set l. \<not> is_linebreak c"
  shows "split_lines acc (l @ 10 # rest) = (acc @ l) # split_lines [] rest"
  using assms
proof (induction l arbitrary: acc)
  case Nil
  then show ?case by (simp add: is_linebreak_def)
next
  case (Cons c l)
  then have "c \<noteq> 13" by (auto simp: is_linebreak_def)
  with Cons show ?case by simp
qed

text \<open>A file of newline-terminated lines, none of which holds a line boundary, reads back as
  those lines.\<close>

lemma py_splitlines_lines:
  assumes "\<forall>l\<in>set ls. \<forall>c\<in>set l. \<not> is_linebreak c"
  shows "py_splitlines (concat (map (\<lambda>l. l @ [10]) ls)) = ls"
  using assms
  by (induction ls) (auto simp: py_splitlines_def split_lines_line)

text \<open>\<open>bytes.split(b"\n")\<close> for the byte-level reader of the coordination ledger.\<close>

fun split_newline :: "bytes \<Rightarrow> bytes \<Rightarrow> bytes list" where
  "split_newline acc [] = [acc]"
| "split_newline acc (b # bs) =
     (if b = 10 then acc # split_newline [] bs else split_newline (acc @ [b]) bs)"

lemma split_newline_line:
  "10 \<notin> set l \<Longrightarrow> split_newline acc (l @ 10 # rest) = (acc @ l) # split_newline [] rest"
  by (induction l arbitrary: acc) auto

lemma split_newline_tail: "10 \<notin> set t \<Longrightarrow> split_newline acc t = [acc @ t]"
  by (induction t arbitrary: acc) auto

lemma split_newline_lines:
  assumes "\<forall>l\<in>set ls. 10 \<notin> set l" and "10 \<notin> set t"
  shows "split_newline [] (concat (map (\<lambda>l. l @ [10]) ls) @ t) = ls @ [t]"
  using assms by (induction ls) (auto simp: split_newline_line split_newline_tail)

section \<open>Digits\<close>

fun dec_nat :: "nat \<Rightarrow> ustr" where
  "dec_nat n = (if n < 10 then [48 + n] else dec_nat (n div 10) @ [48 + n mod 10])"

declare dec_nat.simps [simp del]

definition dec_int :: "int \<Rightarrow> ustr" where
  "dec_int i = (if i < 0 then 45 # dec_nat (nat (- i)) else dec_nat (nat i))"

definition is_digit :: "nat \<Rightarrow> bool" where
  "is_digit c \<longleftrightarrow> 48 \<le> c \<and> c \<le> 57"

definition digits_value :: "nat \<Rightarrow> ustr \<Rightarrow> nat" where
  "digits_value a ds = foldl (\<lambda>a d. 10 * a + (d - 48)) a ds"

lemma dec_nat_digits: "d \<in> set (dec_nat n) \<Longrightarrow> is_digit d"
proof (induction n rule: dec_nat.induct)
  case (1 n)
  then show ?case
    by (subst (asm) (2) dec_nat.simps) (auto simp: is_digit_def split: if_splits)
qed

lemma dec_nat_nonempty: "dec_nat n \<noteq> []"
  by (subst dec_nat.simps) simp

lemma digits_value_dec_nat: "digits_value 0 (dec_nat n) = n"
proof (induction n rule: dec_nat.induct)
  case (1 n)
  show ?case
  proof (cases "n < 10")
    case True
    then show ?thesis by (subst dec_nat.simps) (simp add: digits_value_def)
  next
    case False
    then have "digits_value 0 (dec_nat (n div 10)) = n div 10"
      using "1.IH" by simp
    with False show ?thesis
      by (subst dec_nat.simps) (simp add: digits_value_def)
  qed
qed

lemma dec_nat_hd: "n > 0 \<Longrightarrow> hd (dec_nat n) \<noteq> 48"
proof (induction n rule: dec_nat.induct)
  case (1 n)
  show ?case
  proof (cases "n < 10")
    case True
    with 1 show ?thesis by (subst dec_nat.simps) simp
  next
    case False
    with 1 have "hd (dec_nat (n div 10)) \<noteq> 48" by simp
    with False show ?thesis
      by (subst dec_nat.simps) (simp add: hd_append dec_nat_nonempty)
  qed
qed

lemma dec_nat_0: "dec_nat 0 = [48]"
  by (subst dec_nat.simps) simp

definition hex_digit :: "nat \<Rightarrow> nat" where
  "hex_digit n = (if n < 10 then 48 + n else 87 + n)"

end
