(* ===== verification/Json.thy ===== *)
theory Json
  imports Text
begin

text \<open>
  Python values as the program handles them, and the two functions of the standard
  library's \<open>json\<close> module it calls: \<open>json.dumps\<close> with the arguments of
  \<open>canonical_json_bytes\<close> and \<open>json.loads\<close>. The round trip at the end of the theory is what
  makes every stored file readable again.
\<close>

section \<open>Values\<close>

text \<open>
  A value is one of the types \<open>json.loads\<close> returns, or one of the two things a caller can
  hand to the canonicalizer that it refuses: \<open>JObjBad\<close> is a \<open>dict\<close> whose first key that is
  not a string comes after the given items, and \<open>JOther\<close> any value of another type (a
  tuple, bytes, a set). A float is kept as its text; no operation of the model
  computes with it.
\<close>

datatype json =
  JNull
| JBool bool
| JInt int
| JFloat ustr
| JStr ustr
| JList "json list"
| JObj "(ustr \<times> json) list"
| JObjBad "(ustr \<times> json) list"
| JOther

fun jget :: "json \<Rightarrow> ustr \<Rightarrow> json option" where
  "jget (JObj kvs) k = map_of kvs k"
| "jget _ k = None"

definition jfield :: "json \<Rightarrow> string \<Rightarrow> json option" where
  "jfield v k = jget v (u k)"

fun is_obj :: "json \<Rightarrow> bool" where
  "is_obj (JObj _) = True"
| "is_obj _ = False"

fun jstr :: "json \<Rightarrow> ustr option" where
  "jstr (JStr s) = Some s"
| "jstr _ = None"

text \<open>Python's \<open>==\<close> on these values: \<open>True == 1\<close>, and the order of the keys of a \<open>dict\<close>
  does not matter. \<open>py_norm\<close> is the representative of an equality class.\<close>

fun py_norm :: "json \<Rightarrow> json" where
  "py_norm (JBool b) = JInt (if b then 1 else 0)"
| "py_norm (JList xs) = JList (map py_norm xs)"
| "py_norm (JObj kvs) = JObj (sort_key fst (map (\<lambda>(k, v). (k, py_norm v)) kvs))"
| "py_norm v = v"

definition py_eq :: "json \<Rightarrow> json \<Rightarrow> bool" where
  "py_eq v w \<longleftrightarrow> py_norm v = py_norm w"

lemma py_eq_refl [simp]: "py_eq v v"
  by (simp add: py_eq_def)

lemma py_eq_sym: "py_eq v w \<Longrightarrow> py_eq w v"
  by (simp add: py_eq_def)

lemma py_eq_trans: "py_eq v w \<Longrightarrow> py_eq w x \<Longrightarrow> py_eq v x"
  by (simp add: py_eq_def)

lemma py_eq_simps [simp]:
  "py_eq (JStr s) (JStr t) \<longleftrightarrow> s = t"
  "py_eq (JInt i) (JInt j) \<longleftrightarrow> i = j"
  "py_eq JNull (JStr t) = False" "py_eq (JStr t) JNull = False"
  "py_eq JNull (JInt i) = False" "py_eq (JInt i) JNull = False"
  "py_eq (JStr t) (JInt i) = False" "py_eq (JInt i) (JStr t) = False"
  by (auto simp: py_eq_def)

section \<open>Writing\<close>

text \<open>\<open>json.dumps(tree, ensure_ascii=False, allow_nan=False, separators=(",", ":"),
  sort_keys=True)\<close>. The last two constructors make \<open>json.dumps\<close> raise; the tree it is given
  never holds one (lemma \<open>canonical_tree_canon\<close> of theory Canonical).\<close>

definition escape_char :: "nat \<Rightarrow> ustr" where
  "escape_char c =
     (if c = 34 then [92, 34]
      else if c = 92 then [92, 92]
      else if c = 10 then [92, 110]
      else if c = 13 then [92, 114]
      else if c = 9 then [92, 116]
      else if c = 8 then [92, 98]
      else if c = 12 then [92, 102]
      else if c < 32 then [92, 117, 48, 48, hex_digit (c div 16), hex_digit (c mod 16)]
      else [c])"

definition dump_str :: "ustr \<Rightarrow> ustr" where
  "dump_str s = 34 # concat (map escape_char s) @ [34]"

fun join_with :: "nat \<Rightarrow> ustr list \<Rightarrow> ustr" where
  "join_with c [] = []"
| "join_with c [x] = x"
| "join_with c (x # y # r) = x @ c # join_with c (y # r)"

fun dumps :: "json \<Rightarrow> ustr" where
  "dumps JNull = u ''null''"
| "dumps (JBool b) = (if b then u ''true'' else u ''false'')"
| "dumps (JInt i) = dec_int i"
| "dumps (JFloat t) = t"
| "dumps (JStr s) = dump_str s"
| "dumps (JList xs) = 91 # join_with 44 (map dumps xs) @ [93]"
| "dumps (JObj kvs) =
     123 # join_with 44 (map (\<lambda>(k, t). dump_str k @ 58 # t)
       (sort_key fst (map (\<lambda>(k, v). (k, dumps v)) kvs))) @ [125]"
| "dumps (JObjBad kvs) = []"
| "dumps JOther = []"

text \<open>The trees the canonicalizer produces: no float, and the keys of every object strictly
  increasing by code point.\<close>

fun canon :: "json \<Rightarrow> bool" where
  "canon JNull = True"
| "canon (JBool b) = True"
| "canon (JInt i) = True"
| "canon (JFloat t) = False"
| "canon (JStr s) = True"
| "canon (JList xs) = (\<forall>x\<in>set xs. canon x)"
| "canon (JObj kvs) = (sorted (map fst kvs) \<and> distinct (map fst kvs) \<and> (\<forall>kv\<in>set kvs. canon (snd kv)))"
| "canon (JObjBad kvs) = False"
| "canon JOther = False"

lemma dumps_canon_obj:
  assumes "sorted (map fst kvs)"
  shows "dumps (JObj kvs) =
    123 # join_with 44 (map (\<lambda>(k, v). dump_str k @ 58 # dumps v) kvs) @ [125]"
proof -
  have "sort_key fst (map (\<lambda>(k, v). (k, dumps v)) kvs) = map (\<lambda>(k, v). (k, dumps v)) kvs"
    using assms by (intro sort_key_id) (simp add: comp_def case_prod_beta)
  then show ?thesis
    by (simp add: comp_def case_prod_unfold)
qed

section \<open>Reading\<close>

definition is_ws :: "nat \<Rightarrow> bool" where
  "is_ws c \<longleftrightarrow> c = 32 \<or> c = 9 \<or> c = 10 \<or> c = 13"

definition skip_ws :: "ustr \<Rightarrow> ustr" where
  "skip_ws s = dropWhile is_ws s"

definition hex_value :: "nat \<Rightarrow> nat option" where
  "hex_value c =
     (if 48 \<le> c \<and> c \<le> 57 then Some (c - 48)
      else if 97 \<le> c \<and> c \<le> 102 then Some (c - 87)
      else if 65 \<le> c \<and> c \<le> 70 then Some (c - 55)
      else None)"

definition hex4 :: "nat \<Rightarrow> nat \<Rightarrow> nat \<Rightarrow> nat \<Rightarrow> nat option" where
  "hex4 a b c d =
     (case (hex_value a, hex_value b, hex_value c, hex_value d) of
        (Some w, Some x, Some y, Some z) \<Rightarrow> Some (((w * 16 + x) * 16 + y) * 16 + z)
      | _ \<Rightarrow> None)"

definition simple_escape :: "nat \<Rightarrow> nat option" where
  "simple_escape e =
     (if e = 34 \<or> e = 92 \<or> e = 47 then Some e
      else if e = 98 then Some 8
      else if e = 102 then Some 12
      else if e = 110 then Some 10
      else if e = 114 then Some 13
      else if e = 116 then Some 9
      else None)"

definition high_surrogate :: "nat \<Rightarrow> bool" where
  "high_surrogate c \<longleftrightarrow> 0xD800 \<le> c \<and> c \<le> 0xDBFF"

definition low_surrogate :: "nat \<Rightarrow> bool" where
  "low_surrogate c \<longleftrightarrow> 0xDC00 \<le> c \<and> c \<le> 0xDFFF"

definition put :: "'a \<Rightarrow> ('a list \<times> 'b) option \<Rightarrow> ('a list \<times> 'b) option" where
  "put x r = map_option (\<lambda>(s, t). (x # s, t)) r"

text \<open>The text after an opening quote: the string it spells and what follows its closing
  quote. Strict mode refuses a raw control character. An escaped high surrogate directly
  followed by an escaped low one is one code point.\<close>

fun parse_str :: "ustr \<Rightarrow> (ustr \<times> ustr) option" where
  "parse_str [] = None"
| "parse_str (c # cs) =
     (if c = 34 then Some ([], cs)
      else if c = 92 then
        (case cs of
           [] \<Rightarrow> None
         | e # r \<Rightarrow>
             (if e = 117 then
                (case r of
                   h1 # h2 # h3 # h4 # r1 \<Rightarrow>
                     (case hex4 h1 h2 h3 h4 of
                        None \<Rightarrow> None
                      | Some x \<Rightarrow>
                          (if high_surrogate x then
                             (case r1 of
                                b # v # g1 # g2 # g3 # g4 # r2 \<Rightarrow>
                                  (if b = 92 \<and> v = 117 then
                                     (case hex4 g1 g2 g3 g4 of
                                        None \<Rightarrow> None
                                      | Some y \<Rightarrow>
                                          (if low_surrogate y
                                           then put (0x10000 + (x - 0xD800) * 1024 + (y - 0xDC00))
                                             (parse_str r2)
                                           else put x (parse_str r1)))
                                   else put x (parse_str r1))
                              | _ \<Rightarrow> put x (parse_str r1))
                           else put x (parse_str r1)))
                 | _ \<Rightarrow> None)
              else
                (case simple_escape e of
                   None \<Rightarrow> None
                 | Some x \<Rightarrow> put x (parse_str r))))
      else if c < 32 then None
      else put c (parse_str cs))"

text \<open>Numbers: \<open>(-?(?:0|[1-9][0-9]*))(\.[0-9]+)?([eE][-+]?[0-9]+)?\<close>.\<close>

definition span_digits :: "ustr \<Rightarrow> ustr \<times> ustr" where
  "span_digits s = (takeWhile is_digit s, dropWhile is_digit s)"

definition parse_frac :: "ustr \<Rightarrow> ustr \<times> ustr" where
  "parse_frac s =
     (case s of
        [] \<Rightarrow> ([], s)
      | c # r \<Rightarrow>
          (if c = 46 \<and> fst (span_digits r) \<noteq> []
           then (46 # fst (span_digits r), snd (span_digits r)) else ([], s)))"

definition parse_exp :: "ustr \<Rightarrow> ustr \<times> ustr" where
  "parse_exp s =
     (case s of
        [] \<Rightarrow> ([], s)
      | c # r \<Rightarrow>
          (if c = 101 \<or> c = 69 then
             (let sign = (case r of [] \<Rightarrow> [] | d # _ \<Rightarrow> if d = 43 \<or> d = 45 then [d] else []);
                  r' = drop (length sign) r
              in if fst (span_digits r') \<noteq> []
                 then (c # sign @ fst (span_digits r'), snd (span_digits r')) else ([], s))
           else ([], s)))"

definition parse_nat_digits :: "ustr \<Rightarrow> (ustr \<times> ustr) option" where
  "parse_nat_digits s =
     (case s of
        [] \<Rightarrow> None
      | c # r \<Rightarrow>
          (if c = 48 then Some ([48], r)
           else if is_digit c then Some (span_digits s) else None))"

definition parse_unsigned :: "bool \<Rightarrow> ustr \<Rightarrow> (json \<times> ustr) option" where
  "parse_unsigned neg s =
     (case parse_nat_digits s of
        None \<Rightarrow> None
      | Some (ds, r) \<Rightarrow>
          (let (f, r1) = parse_frac r; (e, r2) = parse_exp r1
           in if f = [] \<and> e = []
              then Some (JInt (if neg then - int (digits_value 0 ds) else int (digits_value 0 ds)), r)
              else Some (JFloat ((if neg then [45] else []) @ ds @ f @ e), r2)))"

definition strip_prefix :: "ustr \<Rightarrow> ustr \<Rightarrow> ustr option" where
  "strip_prefix p s = (if take (length p) s = p then Some (drop (length p) s) else None)"

definition parse_literal :: "ustr \<Rightarrow> (json \<times> ustr) option" where
  "parse_literal s =
     (case strip_prefix (u ''null'') s of Some r \<Rightarrow> Some (JNull, r) | None \<Rightarrow>
      (case strip_prefix (u ''true'') s of Some r \<Rightarrow> Some (JBool True, r) | None \<Rightarrow>
      (case strip_prefix (u ''false'') s of Some r \<Rightarrow> Some (JBool False, r) | None \<Rightarrow>
      (case strip_prefix (u ''NaN'') s of Some r \<Rightarrow> Some (JFloat (u ''NaN''), r) | None \<Rightarrow>
      (case strip_prefix (u ''Infinity'') s of Some r \<Rightarrow> Some (JFloat (u ''Infinity''), r) | None \<Rightarrow>
      (case strip_prefix (u ''-Infinity'') s of Some r \<Rightarrow> Some (JFloat (u ''-Infinity''), r) | None \<Rightarrow>
        (case s of
           [] \<Rightarrow> None
         | c # r \<Rightarrow> if c = 45 then parse_unsigned True r else parse_unsigned False s)))))))"

text \<open>The recursive part. Each call uses one unit of fuel, and every call but the first of
  two consecutive ones follows a character that was read, so \<open>2 * length s + 2\<close> is
  enough for any text \<open>s\<close> (lemma \<open>parse_fuel_enough\<close>).\<close>

fun parse_value :: "nat \<Rightarrow> ustr \<Rightarrow> (json \<times> ustr) option"
  and parse_elements :: "nat \<Rightarrow> ustr \<Rightarrow> (json list \<times> ustr) option"
  and parse_members :: "nat \<Rightarrow> ustr \<Rightarrow> ((ustr \<times> json) list \<times> ustr) option" where
  "parse_value 0 s = None"
| "parse_value (Suc n) s =
     (case s of
        [] \<Rightarrow> None
      | c # r \<Rightarrow>
          (if c = 34 then map_option (\<lambda>(t, r'). (JStr t, r')) (parse_str r)
           else if c = 91 then
             (case skip_ws r of
                [] \<Rightarrow> None
              | d # r' \<Rightarrow>
                  (if d = 93 then Some (JList [], r')
                   else map_option (\<lambda>(xs, q). (JList xs, q)) (parse_elements n (d # r'))))
           else if c = 123 then
             (case skip_ws r of
                [] \<Rightarrow> None
              | d # r' \<Rightarrow>
                  (if d = 125 then Some (JObj [], r')
                   else map_option
                     (\<lambda>(kvs, q). (JObj (foldl (\<lambda>m (k, v). AList.update k v m) [] kvs), q))
                     (parse_members n (d # r'))))
           else parse_literal s))"
| "parse_elements 0 s = None"
| "parse_elements (Suc n) s =
     (case parse_value n s of
        None \<Rightarrow> None
      | Some (v, r) \<Rightarrow>
          (case skip_ws r of
             [] \<Rightarrow> None
           | c # r' \<Rightarrow>
               (if c = 93 then Some ([v], r')
                else if c = 44 then put v (parse_elements n (skip_ws r'))
                else None)))"
| "parse_members 0 s = None"
| "parse_members (Suc n) s =
     (case s of
        [] \<Rightarrow> None
      | q # r \<Rightarrow>
          (if q \<noteq> 34 then None else
             (case parse_str r of
                None \<Rightarrow> None
              | Some (k, r1) \<Rightarrow>
                  (case skip_ws r1 of
                     [] \<Rightarrow> None
                   | c # r2 \<Rightarrow>
                       (if c \<noteq> 58 then None else
                          (case parse_value n (skip_ws r2) of
                             None \<Rightarrow> None
                           | Some (v, r3) \<Rightarrow>
                               (case skip_ws r3 of
                                  [] \<Rightarrow> None
                                | d # r4 \<Rightarrow>
                                    (if d = 125 then Some ([(k, v)], r4)
                                     else if d = 44 then put (k, v) (parse_members n (skip_ws r4))
                                     else None))))))))"

text \<open>\<open>json.loads\<close>; \<open>None\<close> is \<open>json.JSONDecodeError\<close>. A text that begins with a byte order
  mark is refused.\<close>

definition loads :: "ustr \<Rightarrow> json option" where
  "loads s =
     (if take 1 s = [0xFEFF] then None else
        (case parse_value (2 * length s + 2) (skip_ws s) of
           None \<Rightarrow> None
         | Some (v, r) \<Rightarrow> (if skip_ws r = [] then Some v else None)))"

section \<open>What is written reads back\<close>

lemma hex_value_digit: "n < 16 \<Longrightarrow> hex_value (hex_digit n) = Some n"
  by (auto simp: hex_value_def hex_digit_def)

lemma hex4_low: "c < 256 \<Longrightarrow> hex4 48 48 (hex_digit (c div 16)) (hex_digit (c mod 16)) = Some c"
proof -
  assume "c < 256"
  moreover have "hex_value 48 = Some 0"
    by (simp add: hex_value_def)
  ultimately show ?thesis
    by (simp add: hex4_def hex_value_digit)
qed

lemma put_Some [simp]: "put x (Some (s, t)) = Some (x # s, t)"
  by (simp add: put_def)

lemma put_eq_Some_iff: "put x r = Some (ys, t) \<longleftrightarrow> (\<exists>s. r = Some (s, t) \<and> ys = x # s)"
  by (auto simp: put_def)

lemma parse_str_escape:
  "parse_str (escape_char c @ r) = put c (parse_str r)"
proof -
  have "hex4 48 48 (hex_digit (c div 16)) (hex_digit (c mod 16)) = Some c" if "c < 32"
    using that by (intro hex4_low) simp
  then show ?thesis
    by (simp add: escape_char_def simple_escape_def high_surrogate_def)
qed

lemma parse_str_dump [codec_simps]:
  "parse_str (concat (map escape_char s) @ 34 # r) = Some (s, r)"
  by (induction s) (simp_all add: parse_str_escape)

definition stops :: "ustr \<Rightarrow> bool" where
  "stops r \<longleftrightarrow> (case r of [] \<Rightarrow> True | c # _ \<Rightarrow> \<not> is_digit c \<and> c \<noteq> 46 \<and> c \<noteq> 101 \<and> c \<noteq> 69)"

lemma stops_simps [simp]:
  "stops []" "stops (44 # r)" "stops (93 # r)" "stops (125 # r)" "stops (10 # r)"
  by (simp_all add: stops_def is_digit_def)

lemma span_digits_dec: "stops r \<Longrightarrow> span_digits (dec_nat n @ r) = (dec_nat n, r)"
proof -
  assume "stops r"
  then have "takeWhile is_digit r = []" "dropWhile is_digit r = r"
    by (auto simp: stops_def split: list.splits)
  moreover have "\<forall>d\<in>set (dec_nat n). is_digit d"
    using dec_nat_digits by blast
  ultimately show ?thesis
    by (simp add: span_digits_def)
qed

lemma parse_nat_digits_dec:
  assumes "stops r"
  shows "parse_nat_digits (dec_nat n @ r) = Some (dec_nat n, r)"
proof (cases "n = 0")
  case True
  then show ?thesis by (simp add: parse_nat_digits_def dec_nat_0)
next
  case False
  obtain c s where c: "dec_nat n = c # s"
    using dec_nat_nonempty by (cases "dec_nat n") auto
  moreover have "c \<noteq> 48"
    using dec_nat_hd [of n] False c by simp
  moreover have "is_digit c"
    using dec_nat_digits [of c n] c by simp
  ultimately show ?thesis
    using span_digits_dec [OF assms, of n] by (simp add: parse_nat_digits_def)
qed

lemma parse_unsigned_dec:
  assumes "stops r"
  shows "parse_unsigned neg (dec_nat n @ r) = Some (JInt (if neg then - int n else int n), r)"
proof -
  have "parse_frac r = ([], r)" "parse_exp r = ([], r)"
    using assms by (auto simp: stops_def parse_frac_def parse_exp_def split: list.splits)
  then show ?thesis
    by (simp add: parse_unsigned_def parse_nat_digits_dec [OF assms] digits_value_dec_nat)
qed

lemma strip_prefix_mismatch: "c \<noteq> p \<Longrightarrow> strip_prefix (p # ps) (c # s) = None"
  by (simp add: strip_prefix_def)

lemma u_Cons: "u (c # s) = of_char c # u s"
  by (simp add: u_def)

lemma parse_literal_int:
  assumes "stops r"
  shows "parse_literal (dec_int i @ r) = Some (JInt i, r)"
proof -
  obtain c s where c: "dec_nat (nat \<bar>i\<bar>) = c # s" "is_digit c"
    using dec_nat_nonempty [of "nat \<bar>i\<bar>"] dec_nat_digits [of _ "nat \<bar>i\<bar>"]
    by (cases "dec_nat (nat \<bar>i\<bar>)") auto
  have p: "parse_unsigned neg (c # s @ r) = Some (JInt (if neg then - \<bar>i\<bar> else \<bar>i\<bar>), r)" for neg
    using parse_unsigned_dec [OF assms, of neg "nat \<bar>i\<bar>"] c by simp
  from c(2) have "c \<noteq> 110" "c \<noteq> 116" "c \<noteq> 102" "c \<noteq> 78" "c \<noteq> 73" "c \<noteq> 45"
    by (auto simp: is_digit_def)
  then show ?thesis
    using c(1) p by (cases "i < 0")
      (simp_all add: parse_literal_def dec_int_def u_Cons strip_prefix_mismatch,
        simp add: strip_prefix_def)
qed

lemma parse_literal_words:
  "parse_literal (u ''null'' @ r) = Some (JNull, r)"
  "parse_literal (u ''true'' @ r) = Some (JBool True, r)"
  "parse_literal (u ''false'' @ r) = Some (JBool False, r)"
  by (simp_all add: parse_literal_def strip_prefix_def u_Cons)

text \<open>The first character of a written value is neither white space nor a closing bracket.\<close>

lemma dec_int_hd: "\<exists>c s. dec_int i = c # s \<and> (is_digit c \<or> c = 45)"
proof -
  have "\<exists>c s. dec_nat n = c # s \<and> is_digit c" for n
    using dec_nat_nonempty [of n] dec_nat_digits [of _ n] by (cases "dec_nat n") auto
  from this [of "nat i"] show ?thesis
    by (auto simp: dec_int_def)
qed

lemma dumps_hd:
  assumes "canon t"
  shows "\<exists>c s. dumps t = c # s \<and> \<not> is_ws c \<and> c \<noteq> 93 \<and> c \<noteq> 125 \<and> c \<noteq> 0xFEFF"
  using assms
proof (cases t)
  case (JInt i)
  then show ?thesis
    using dec_int_hd [of i] by (auto simp: is_digit_def is_ws_def)
qed (auto simp: is_ws_def dump_str_def u_Cons)

lemma skip_ws_dumps: "canon t \<Longrightarrow> skip_ws (dumps t @ r) = dumps t @ r"
  using dumps_hd [of t] by (auto simp: skip_ws_def)

lemma skip_ws_simps [simp]:
  "skip_ws [] = []" "skip_ws (44 # r) = 44 # r" "skip_ws (93 # r) = 93 # r"
  "skip_ws (125 # r) = 125 # r" "skip_ws (58 # r) = 58 # r" "skip_ws (34 # r) = 34 # r"
  by (simp_all add: skip_ws_def is_ws_def)

lemma foldl_update_distinct:
  "distinct (map fst (acc @ kvs)) \<Longrightarrow> foldl (\<lambda>m (k, v). AList.update k v m) acc kvs = acc @ kvs"
proof (induction kvs arbitrary: acc)
  case (Cons kv kvs)
  obtain k v where kv: "kv = (k, v)" by (cases kv)
  have "k \<notin> fst ` set acc" using Cons.prems kv by auto
  then have "AList.update k v acc = acc @ [(k, v)]"
    by (induction acc) auto
  with Cons kv show ?case by simp
qed simp

lemma parse_elements_dumps:
  assumes "xs \<noteq> []" and "\<forall>x\<in>set xs. canon x"
    and "\<And>x m q. x \<in> set xs \<Longrightarrow> stops q \<Longrightarrow> 2 * length (dumps x) \<le> m
           \<Longrightarrow> parse_value m (dumps x @ q) = Some (x, q)"
    and "2 * length (join_with 44 (map dumps xs)) + 2 \<le> n"
  shows "parse_elements n (join_with 44 (map dumps xs) @ 93 # r) = Some (xs, r)"
  using assms
proof (induction xs arbitrary: n)
  case (Cons x xs)
  from Cons.prems(4) obtain m where n: "n = Suc m" by (cases n) auto
  show ?case
  proof (cases xs)
    case Nil
    then show ?thesis
      using Cons.prems(3) [of x "93 # r" m] Cons.prems(4) by (simp add: n)
  next
    case (Cons y ys)
    let ?q = "join_with 44 (map dumps xs) @ 93 # r"
    have ws: "skip_ws ?q = ?q"
      using Cons.prems(2) skip_ws_dumps [of y] by (cases ys) (simp_all add: Cons)
    have "parse_value m (dumps x @ 44 # ?q) = Some (x, 44 # ?q)"
      using Cons.prems(3) [of x "44 # ?q" m] Cons.prems(4) by (simp add: n Cons)
    moreover have "parse_elements m ?q = Some (xs, r)"
      using Cons.prems Cons by (intro Cons.IH) (auto simp: n)
    ultimately show ?thesis
      using ws by (simp add: n Cons)
  qed
qed simp

definition dump_member :: "ustr \<times> json \<Rightarrow> ustr" where
  "dump_member kv = dump_str (fst kv) @ 58 # dumps (snd kv)"

lemma parse_members_dumps:
  assumes "kvs \<noteq> []" and "\<forall>kv\<in>set kvs. canon (snd kv)"
    and "\<And>kv m q. kv \<in> set kvs \<Longrightarrow> stops q \<Longrightarrow> 2 * length (dumps (snd kv)) \<le> m
           \<Longrightarrow> parse_value m (dumps (snd kv) @ q) = Some (snd kv, q)"
    and "2 * length (join_with 44 (map dump_member kvs)) + 2 \<le> n"
  shows "parse_members n (join_with 44 (map dump_member kvs) @ 125 # r) = Some (kvs, r)"
  using assms
proof (induction kvs arbitrary: n)
  case (Cons kv kvs)
  from Cons.prems(4) obtain m where n: "n = Suc m" by (cases n) auto
  have c: "canon (snd kv)" using Cons.prems(2) by simp
  show ?case
  proof (cases kvs)
    case Nil
    then show ?thesis
      using Cons.prems(3) [of kv "125 # r" m] Cons.prems(4)
      by (simp add: n dump_member_def dump_str_def parse_str_dump skip_ws_dumps c)
  next
    case (Cons y ys)
    let ?q = "join_with 44 (map dump_member kvs) @ 125 # r"
    have ws: "skip_ws ?q = ?q"
      by (cases ys) (simp_all add: Cons dump_member_def dump_str_def)
    have "parse_value m (dumps (snd kv) @ 44 # ?q) = Some (snd kv, 44 # ?q)"
      using Cons.prems(3) [of kv "44 # ?q" m] Cons.prems(4) by (simp add: n Cons dump_member_def)
    moreover have "parse_members m ?q = Some (kvs, r)"
      using Cons.prems Cons by (intro Cons.IH) (auto simp: n)
    ultimately show ?thesis
      using ws
      by (simp add: n Cons dump_member_def [of kv] dump_str_def parse_str_dump skip_ws_dumps c)
  qed
qed simp

lemma dumps_obj_members:
  "sorted (map fst kvs) \<Longrightarrow> dumps (JObj kvs) = 123 # join_with 44 (map dump_member kvs) @ [125]"
  by (simp add: dumps_canon_obj dump_member_def [abs_def] case_prod_unfold del: dumps.simps)

lemma parse_value_dumps:
  assumes "canon t" and "stops r" and "2 * length (dumps t) \<le> n"
  shows "parse_value n (dumps t @ r) = Some (t, r)"
  using assms
proof (induction t arbitrary: n r)
  case JNull
  then show ?case by (cases n) (auto simp: u_Cons parse_literal_words(1) [simplified u_Cons, simplified])
next
  case (JBool b)
  then show ?case
    by (cases n; cases b) (auto simp: u_Cons parse_literal_words(2,3) [simplified u_Cons, simplified])
next
  case (JInt i)
  obtain c s where c: "dec_int i = c # s" "is_digit c \<or> c = 45"
    using dec_int_hd by blast
  moreover from this JInt.prems obtain m where "n = Suc m" by (cases n) auto
  ultimately show ?case
    using parse_literal_int [OF JInt.prems(2), of i] by (auto simp: is_digit_def)
next
  case (JStr s)
  then obtain m where "n = Suc m" by (cases n) (auto simp: dump_str_def)
  then show ?case by (simp add: dump_str_def parse_str_dump)
next
  case (JList xs)
  from JList.prems(3) obtain m where n: "n = Suc m" by (cases n) auto
  show ?case
  proof (cases xs)
    case Nil
    then show ?thesis by (simp add: n)
  next
    case (Cons y ys)
    let ?j = "join_with 44 (map dumps xs)"
    have y: "canon y" using JList.prems Cons by simp
    obtain c s where c: "dumps y = c # s" "\<not> is_ws c" "c \<noteq> 93" using dumps_hd [OF y] by blast
    then obtain s' where j: "?j = c # s'" by (cases ys) (simp_all add: Cons)
    have "parse_elements m (?j @ 93 # r) = Some (xs, r)"
    proof (rule parse_elements_dumps)
      show "2 * length ?j + 2 \<le> m" using JList.prems(3) by (simp add: n)
    qed (use JList Cons in auto)
    then show ?thesis
      using j c by (simp add: n skip_ws_def)
  qed
next
  case (JObj kvs)
  from JObj.prems(3) obtain m where n: "n = Suc m" by (cases n) auto
  have sorted: "sorted (map fst kvs)" "distinct (map fst kvs)"
    using JObj.prems(1) by auto
  note d = dumps_obj_members [OF sorted(1)]
  show ?case
  proof (cases kvs)
    case Nil
    then show ?thesis by (simp add: n)
  next
    case (Cons y ys)
    let ?j = "join_with 44 (map dump_member kvs)"
    obtain s' where j: "?j = 34 # s'"
      by (cases ys) (simp_all add: Cons dump_member_def dump_str_def)
    have "parse_members m (?j @ 125 # r) = Some (kvs, r)"
    proof (rule parse_members_dumps)
      show "2 * length ?j + 2 \<le> m" using JObj.prems(3) by (simp add: n d del: dumps.simps)
      show "parse_value m' (dumps (snd kv) @ q) = Some (snd kv, q)"
        if "kv \<in> set kvs" "stops q" "2 * length (dumps (snd kv)) \<le> m'" for kv m' q
        using JObj.IH [of kv "snd kv"] that JObj.prems(1) by (cases kv) auto
    qed (use JObj Cons in auto)
    then show ?thesis
      using j sorted(2) foldl_update_distinct [of "[]" kvs]
      by (simp add: n d is_ws_def skip_ws_def del: dumps.simps)
  qed
qed auto

text \<open>\<open>json.loads\<close> inverts \<open>json.dumps\<close> on canonical trees, trailing white space allowed.\<close>

lemma loads_dumps [codec_simps]: "canon t \<Longrightarrow> loads (dumps t) = Some t"
  using parse_value_dumps [of t "[]" "2 * length (dumps t) + 2"] dumps_hd [of t]
    skip_ws_dumps [of t "[]"] by (auto simp: loads_def)

lemma dumps_inj: "canon s \<Longrightarrow> canon t \<Longrightarrow> dumps s = dumps t \<Longrightarrow> s = t"
  by (metis loads_dumps option.inject)

section \<open>The fuel is enough\<close>

text \<open>Every parser consumes what it reads, so more fuel than \<open>2 * length s + 2\<close> never
  changes an answer: a \<open>None\<close> of \<open>loads\<close> is always a syntax error.\<close>

lemma parse_str_step:
  assumes "parse_str (c # cs) = Some (t, r)"
  shows "r = cs \<or> (\<exists>s' t'. length s' \<le> length cs \<and> parse_str s' = Some (t', r))"
  using assms unfolding parse_str.simps(2)
  by (fastforce simp: put_eq_Some_iff simp del: parse_str.simps
      split: list.splits if_splits option.splits)

lemma parse_str_shorter: "parse_str s = Some (t, r) \<Longrightarrow> length r < length s"
proof (induction s arbitrary: t rule: length_induct)
  case (1 s)
  show ?case
  proof (cases s)
    case (Cons c cs)
    with 1 consider "r = cs" | s' t' where "length s' \<le> length cs" "parse_str s' = Some (t', r)"
      using parse_str_step [of c cs t r] by auto
    then show ?thesis
    proof cases
      case 2
      then have "length r < length s'"
        using 1(1) Cons by auto
      with 2 Cons show ?thesis by simp
    qed (simp add: Cons)
  qed (use 1 in simp)
qed

lemma skip_ws_length: "length (skip_ws s) \<le> length s"
  by (simp add: skip_ws_def length_dropWhile_le)

lemma span_digits_length: "length (snd (span_digits s)) \<le> length s"
  by (simp add: span_digits_def length_dropWhile_le)

lemma parse_frac_length: "parse_frac s = (f, r) \<Longrightarrow> length r \<le> length s"
  using span_digits_length [of "tl s"]
  by (auto simp: parse_frac_def split: list.splits if_splits)

lemma parse_exp_length: "parse_exp s = (f, r) \<Longrightarrow> length r \<le> length s"
proof -
  have "length (snd (span_digits q)) \<le> Suc (Suc (length q))"
    "length (snd (span_digits (x # q))) \<le> Suc (Suc (length q))"
    "length (snd (span_digits [])) \<le> Suc 0" for x q
    using span_digits_length [of q] span_digits_length [of "x # q"] span_digits_length [of "[]"]
    by simp_all
  then show "parse_exp s = (f, r) \<Longrightarrow> length r \<le> length s"
    by (auto simp: parse_exp_def Let_def split: list.splits if_splits)
qed

lemma parse_unsigned_length: "parse_unsigned neg s = Some (v, r) \<Longrightarrow> length r \<le> length s"
proof -
  assume a: "parse_unsigned neg s = Some (v, r)"
  then obtain ds q f r1 e r2 where q: "parse_nat_digits s = Some (ds, q)"
    and f: "parse_frac q = (f, r1)" "parse_exp r1 = (e, r2)" and r: "r = q \<or> r = r2"
    by (auto simp: parse_unsigned_def split: option.splits prod.splits if_splits)
  have "length q \<le> length s"
    using q span_digits_length [of s]
    by (auto simp: parse_nat_digits_def split: list.splits if_splits)
  with r parse_frac_length [OF f(1)] parse_exp_length [OF f(2)] show ?thesis by auto
qed

lemma strip_prefix_length: "strip_prefix p s = Some r \<Longrightarrow> length r \<le> length s"
  by (auto simp: strip_prefix_def split: if_splits)

lemma parse_literal_length: "parse_literal s = Some (v, r) \<Longrightarrow> length r \<le> length s"
  using parse_unsigned_length strip_prefix_length
  unfolding parse_literal_def
  by (fastforce split: option.splits list.splits if_splits)

lemma parse_length:
  "parse_value n s = Some (v, r) \<Longrightarrow> length r \<le> length s"
  "parse_elements n s = Some (vs, r) \<Longrightarrow> length r \<le> length s"
  "parse_members n s = Some (kvs, r) \<Longrightarrow> length r \<le> length s"
proof (induction n arbitrary: s v vs kvs r)
  case (Suc n)
  {
    case 1
    then obtain c q where s: "s = c # q" by (cases s) auto
    have "length t \<le> length q" if "skip_ws q = t" for t
      using that skip_ws_length [of q] by simp
    then show ?case
      using 1 Suc.IH(2,3) parse_str_shorter parse_literal_length
      by (fastforce simp: s split: if_splits list.splits)
  next
    case 2
    then obtain v q c q' where v: "parse_value n s = Some (v, q)" "skip_ws q = c # q'"
      and r: "r = q' \<or> (\<exists>vs. parse_elements n (skip_ws q') = Some (vs, r))"
      by (auto simp: put_eq_Some_iff split: option.splits list.splits if_splits)
    have "length q' < length s"
      using Suc.IH(1) [OF v(1)] skip_ws_length [of q] v(2) by simp
    with r Suc.IH(2) skip_ws_length [of q'] show ?case by fastforce
  next
    case 3
    then obtain c0 q k q1 c q2 w q3 d q4 where s: "s = c0 # q" "parse_str q = Some (k, q1)"
      "skip_ws q1 = c # q2" "parse_value n (skip_ws q2) = Some (w, q3)" "skip_ws q3 = d # q4"
      and r: "r = q4 \<or> (\<exists>kvs. parse_members n (skip_ws q4) = Some (kvs, r))"
      by (auto simp: put_eq_Some_iff split: option.splits list.splits if_splits)
    have "length q4 < length s"
      using s(1) parse_str_shorter [OF s(2)] skip_ws_length [of q1] s(3) skip_ws_length [of q2]
        Suc.IH(1) [OF s(4)] skip_ws_length [of q3] s(5) by simp
    with r Suc.IH(3) skip_ws_length [of q4] show ?case by fastforce
  }
qed simp_all

lemma parse_fuel_stable:
  "2 * length s + 2 \<le> n \<Longrightarrow> 2 * length s + 2 \<le> m \<Longrightarrow> parse_value n s = parse_value m s"
  "2 * length s + 3 \<le> n \<Longrightarrow> 2 * length s + 3 \<le> m \<Longrightarrow> parse_elements n s = parse_elements m s"
  "2 * length s + 3 \<le> n \<Longrightarrow> 2 * length s + 3 \<le> m \<Longrightarrow> parse_members n s = parse_members m s"
proof (induction n arbitrary: s m)
  case (Suc n)
  {
    case 1
    then obtain k where m: "m = Suc k" by (cases m) auto
    show ?case
    proof (cases s)
      case (Cons c q)
      have "parse_elements n t = parse_elements k t" "parse_members n t = parse_members k t"
        if "length t \<le> length q" for t
        using 1 Cons m that by (auto intro!: Suc.IH(2,3))
      with skip_ws_length [of q] show ?thesis
        by (auto simp: m Cons split: list.split)
    qed (simp add: m)
  next
    case 2
    then obtain k where m: "m = Suc k" by (cases m) auto
    have v: "parse_value n s = parse_value k s"
      using 2 m by (intro Suc.IH(1)) auto
    have e: "parse_elements n (skip_ws t) = parse_elements k (skip_ws t)"
      if "parse_value k s = Some (v, q)" "skip_ws q = c # t" for v q c t
      using parse_length(1) [OF that(1)] skip_ws_length [of q] that(2) skip_ws_length [of t] 2 m
      by (intro Suc.IH(2)) auto
    show ?case
      by (auto simp: m v e split: option.split list.split)
  next
    case 3
    then obtain k where m: "m = Suc k" by (cases m) auto
    have v: "parse_value n (skip_ws q2) = parse_value k (skip_ws q2)"
      if "s = c0 # q" "parse_str q = Some (l, q1)" "skip_ws q1 = c # q2" for c0 q l q1 c q2
      using that(1) parse_str_shorter [OF that(2)] skip_ws_length [of q1] that(3)
        skip_ws_length [of q2] 3 m
      by (intro Suc.IH(1)) auto
    have e: "parse_members n (skip_ws q4) = parse_members k (skip_ws q4)"
      if "s = c0 # q" "parse_str q = Some (l, q1)" "skip_ws q1 = c # q2"
        "parse_value k (skip_ws q2) = Some (w, q3)" "skip_ws q3 = d # q4" for c0 q l q1 c q2 w q3 d q4
      using that(1) parse_str_shorter [OF that(2)] skip_ws_length [of q1] that(3)
        skip_ws_length [of q2] parse_length(1) [OF that(4)] skip_ws_length [of q3] that(5)
        skip_ws_length [of q4] 3 m
      by (intro Suc.IH(3)) auto
    show ?case
      using v e by (auto simp: m split: option.split list.split)
  }
qed simp_all

lemma parse_fuel_enough:
  "2 * length s + 2 \<le> n \<Longrightarrow> parse_value n s = parse_value (2 * length s + 2) s"
  by (rule parse_fuel_stable(1)) auto

section \<open>Properties\<close>

text \<open>\<open>json.loads\<close> inverts \<open>json.dumps\<close> on canonical trees, any fuel above the one
  \<open>loads\<close> uses gives the same answer, and what follows the written value is left unread.\<close>

theorem json_round_trip:
  assumes "canon t" and "stops r" and "2 * length (dumps t @ r) + 2 \<le> n"
  shows "loads (dumps t) = Some t \<and> parse_value n (dumps t @ r) = Some (t, r)"
  using loads_dumps [OF assms(1)] parse_value_dumps [OF assms(1,2), of n] assms(3) by auto

theorem json_round_trip_witness:
  "loads (dumps (JObj [(u ''a'', JList [JInt (- 7), JStr [34, 10, 0x2028]])]))
     = Some (JObj [(u ''a'', JList [JInt (- 7), JStr [34, 10, 0x2028]])])"
  by (rule json_round_trip [where r = "[]", THEN conjunct1]) auto

text \<open>the fuel of \<open>loads\<close> is enough on every text: more fuel never changes the answer, so
  a refusal is a syntax error and never an unfinished parse.\<close>

theorem parse_total:
  "loads s =
     (if take 1 s = [0xFEFF] then None else
        (case parse_value (2 * length s + 2 + k) (skip_ws s) of
           None \<Rightarrow> None
         | Some (v, r) \<Rightarrow> (if skip_ws r = [] then Some v else None)))"
proof -
  have "parse_value (2 * length s + 2) (skip_ws s) = parse_value (2 * length s + 2 + k) (skip_ws s)"
    using skip_ws_length [of s] by (intro parse_fuel_stable(1)) auto
  then show ?thesis by (simp add: loads_def)
qed

end
