(* ===== verification/Canonical.thy ===== *)
theory Canonical
  imports Json
begin

text \<open>
  The canonical form every stored value is written in
  (\<open>state/canonicalize.py\<close>, profile MANOSUBE-CANONICAL-JSON-0.1): strings in NFC, keys
  sorted, the elements of set-like lists sorted by their own canonical bytes, no float, no
  secret-bearing key, no duplicate.

  What the code takes from Unicode tables and from the schema library is the record \<open>ext\<close>:
  \<open>unicodedata.normalize("NFC", s)\<close>, \<open>s.lower()\<close>, and whether a schema of the
  schema directory, named by its id, admits a value.
\<close>

record ext =
  ext_nfc :: "ustr \<Rightarrow> ustr"
  ext_lower :: "ustr \<Rightarrow> ustr"
  ext_schema :: "ustr \<Rightarrow> json \<Rightarrow> bool"

datatype canon_error =
  UnsupportedValueError
| InvalidUnicodeError
| NonStringKeyError
| SecretFieldError
| AmbiguousCollectionError
| SchemaValidationError
| UnicodeEncodeError

section \<open>The operations\<close>

definition set_like_fields :: "ustr list" where
  "set_like_fields =
     [u ''active_changes'', u ''blind_spots'', u ''constitutional_constraints'', u ''evidence'',
      u ''evidence_refs'', u ''identity_refs'', u ''open_differences'',
      u ''source_snapshot_refs'', u ''observation_scope_refs'', u ''warnings'']"

definition secret_keys :: "ustr list" where
  "secret_keys =
     [u ''api_key'', u ''authorization'', u ''authorization_header'', u ''credential'',
      u ''credentials'', u ''password'', u ''private_key'', u ''secret'',
      u ''session_cookie'', u ''token'']"

definition normalize_string :: "ext \<Rightarrow> ustr \<Rightarrow> canon_error + ustr" where
  "normalize_string E s =
     (let n = ext_nfc E s
      in if utf8_encode n = None then Inl InvalidUnicodeError else Inr n)"

text \<open>The characters \<open>str.strip\<close> removes.\<close>

definition is_space :: "nat \<Rightarrow> bool" where
  "is_space c \<longleftrightarrow> (9 \<le> c \<and> c \<le> 13) \<or> (28 \<le> c \<and> c \<le> 32) \<or> c = 0x85 \<or> c = 0xA0 \<or> c = 0x1680
     \<or> (0x2000 \<le> c \<and> c \<le> 0x200A) \<or> c = 0x2028 \<or> c = 0x2029 \<or> c = 0x202F \<or> c = 0x205F \<or> c = 0x3000"

definition py_strip :: "ustr \<Rightarrow> ustr" where
  "py_strip s = rev (dropWhile is_space (rev (dropWhile is_space s)))"

definition normalized_key_for_secret_check :: "ext \<Rightarrow> ustr \<Rightarrow> ustr" where
  "normalized_key_for_secret_check E key =
     map (\<lambda>c. if c = 45 \<or> c = 32 then 95 else c) (ext_lower E (py_strip key))"

definition secret_key :: "ext \<Rightarrow> ustr \<Rightarrow> bool" where
  "secret_key E key \<longleftrightarrow> normalized_key_for_secret_check E key \<in> set secret_keys"

definition set_like :: "ustr list \<Rightarrow> bool" where
  "set_like path \<longleftrightarrow> path \<noteq> [] \<and> last path \<in> set set_like_fields"

text \<open>\<open>json.dumps(tree, ...).encode("utf-8", errors="strict")\<close>.\<close>

definition encode_tree :: "json \<Rightarrow> canon_error + bytes" where
  "encode_tree t = orE (utf8_encode (dumps t)) UnicodeEncodeError"

text \<open>\<open>sorted(zip(encoded, items, strict=True))\<close>. The encodings are distinct where this is
  reached, so two items are never compared with each other.\<close>

definition sort_encoded :: "bytes list \<Rightarrow> json list \<Rightarrow> json list" where
  "sort_encoded encoded items = map snd (sort_key fst (zip encoded items))"

text \<open>One step of the loop over the items of a \<open>dict\<close>: the key is normalized, checked, and
  only then is its value visited.\<close>

definition admit_key :: "ext \<Rightarrow> (ustr \<times> json) list \<Rightarrow> ustr \<Rightarrow> canon_error + ustr" where
  "admit_key E normalized raw_key =
     bindE (normalize_string E raw_key) (\<lambda>key.
     bindE (ensureE (\<not> secret_key E key) SecretFieldError) (\<lambda>_.
     bindE (ensureE (key \<notin> fst ` set normalized) NonStringKeyError) (\<lambda>_. Inr key)))"

text \<open>The nesting of a value, which bounds the recursion of the canonicalizer.\<close>

fun depth :: "json \<Rightarrow> nat" where
  "depth (JList xs) = Suc (Max (insert 0 (set (map depth xs))))"
| "depth (JObj kvs) = Suc (Max (insert 0 (set (map (\<lambda>(k, v). depth v) kvs))))"
| "depth (JObjBad kvs) = Suc (Max (insert 0 (set (map (\<lambda>(k, v). depth v) kvs))))"
| "depth _ = 0"

lemma foldE_cong [fundef_cong]:
  assumes "s = s'" and "xs = ys" and "\<And>a x. x \<in> set ys \<Longrightarrow> f a x = g a x"
  shows "foldE f s xs = foldE g s' ys"
  using assms(3) unfolding assms(1,2)
proof (induction ys arbitrary: s')
  case (Cons y ys)
  then show ?case by (cases "g s' y") auto
qed simp

lemma depth_list: "x \<in> set xs \<Longrightarrow> depth x < depth (JList xs)"
  by (simp add: less_Suc_eq_le)

lemma depth_obj:
  "kv \<in> set kvs \<Longrightarrow> depth (snd kv) < depth (JObj kvs)"
  "kv \<in> set kvs \<Longrightarrow> depth (snd kv) < depth (JObjBad kvs)"
  by (auto simp: less_Suc_eq_le intro!: Max_ge image_eqI [of _ _ kv] split: prod.splits)

lemma depth_list_le: "depth (JList xs) \<le> Suc n \<longleftrightarrow> (\<forall>x\<in>set xs. depth x \<le> n)"
  by auto

lemma depth_obj_le: "depth (JObj kvs) \<le> Suc n \<longleftrightarrow> (\<forall>kv\<in>set kvs. depth (snd kv) \<le> n)"
  by fastforce

declare depth.simps(1-3) [simp del]

function canonical_tree :: "ext \<Rightarrow> ustr list \<Rightarrow> json \<Rightarrow> canon_error + json" where
  "canonical_tree E path JNull = Inr JNull"
| "canonical_tree E path (JBool b) = Inr (JBool b)"
| "canonical_tree E path (JInt i) = Inr (JInt i)"
| "canonical_tree E path (JFloat t) = Inl UnsupportedValueError"
| "canonical_tree E path (JStr s) = bindE (normalize_string E s) (\<lambda>n. Inr (JStr n))"
| "canonical_tree E path (JObj kvs) =
     bindE (foldE (\<lambda>normalized kv.
         bindE (admit_key E normalized (fst kv)) (\<lambda>key.
         bindE (canonical_tree E (path @ [key]) (snd kv)) (\<lambda>c.
         Inr (normalized @ [(key, c)])))) [] kvs)
       (\<lambda>normalized. Inr (JObj (sort_key fst normalized)))"
| "canonical_tree E path (JObjBad kvs) =
     bindE (foldE (\<lambda>normalized kv.
         bindE (admit_key E normalized (fst kv)) (\<lambda>key.
         bindE (canonical_tree E (path @ [key]) (snd kv)) (\<lambda>c.
         Inr (normalized @ [(key, c)])))) [] kvs)
       (\<lambda>normalized. Inl NonStringKeyError)"
| "canonical_tree E path (JList xs) =
     bindE (mapE (\<lambda>x. canonical_tree E (path @ [u ''[]'']) x) xs) (\<lambda>items.
       if set_like path then
         bindE (mapE (\<lambda>item. bindE (canonical_tree E [] item) encode_tree) items) (\<lambda>encoded.
         bindE (ensureE (distinct encoded) AmbiguousCollectionError) (\<lambda>_.
         Inr (JList (sort_encoded encoded items))))
       else Inr (JList items))"
| "canonical_tree E path JOther = Inl UnsupportedValueError"
  by pat_completeness auto

text \<open>The one nested call, on the already canonical items of a set-like list, is on values no
  deeper than the ones they came from; with that the recursion ends.\<close>

lemma foldE_append_result:
  assumes "foldE (\<lambda>acc x. bindE (f acc x) (\<lambda>k. bindE (g k x) (\<lambda>c. Inr (acc @ [(k, c)])))) acc xs = Inr r"
    and "kv \<in> set r"
  shows "kv \<in> set acc \<or> (\<exists>x\<in>set xs. \<exists>a. f a x = Inr (fst kv) \<and> g (fst kv) x = Inr (snd kv))"
  using assms
proof (induction xs arbitrary: acc)
  case (Cons x xs)
  then obtain k c where "f acc x = Inr k" "g k x = Inr c"
    and "foldE (\<lambda>acc x. bindE (f acc x) (\<lambda>k. bindE (g k x) (\<lambda>c. Inr (acc @ [(k, c)])))) (acc @ [(k, c)]) xs
      = Inr r" by auto
  with Cons.IH [OF this(3) Cons.prems(2)] show ?case by auto
qed simp

lemma mapE_set: "mapE f xs = Inr ys \<Longrightarrow> y \<in> set ys \<Longrightarrow> \<exists>x\<in>set xs. f x = Inr y"
  by (induction xs arbitrary: ys) auto

lemma mapE_length: "mapE f xs = Inr ys \<Longrightarrow> length ys = length xs"
  by (auto simp: mapE_Inr_iff dest: list_all2_lengthD)

lemma set_sort_encoded: "length bs = length xs \<Longrightarrow> set (sort_encoded bs xs) = set xs"
  by (metis map_snd_zip set_map set_sort sort_encoded_def)

lemma map_sort_key_pairs:
  "map snd (sort_key fst (map (\<lambda>i. (f i, i)) items)) = sort_key f items"
proof -
  have "insort_key fst (f x, x) (map (\<lambda>i. (f i, i)) ys) = map (\<lambda>i. (f i, i)) (insort_key f x ys)"
    for x ys
    by (induction ys) auto
  then have "sort_key fst (map (\<lambda>i. (f i, i)) items) = map (\<lambda>i. (f i, i)) (sort_key f items)"
    by (induction items) simp_all
  then show ?thesis by (simp add: comp_def del: set_sort)
qed

lemma canonical_tree_depth:
  "canonical_tree_dom (E, path, v) \<Longrightarrow> canonical_tree E path v = Inr t \<Longrightarrow> depth t \<le> depth v"
proof (induction arbitrary: t rule: canonical_tree.pinduct)
  case (6 E path kvs)
  obtain m where m: "depth (JObj kvs) = Suc m" by (simp add: depth.simps(1,2))
  from 6 obtain r where t: "t = JObj (sort_key fst r)"
    and r: "foldE (\<lambda>normalized kv.
         bindE (admit_key E normalized (fst kv)) (\<lambda>key.
         bindE (canonical_tree E (path @ [key]) (snd kv)) (\<lambda>c.
         Inr (normalized @ [(key, c)])))) [] kvs = Inr r"
    by (auto simp: canonical_tree.psimps)
  have "depth (snd kv) \<le> m" if kv: "kv \<in> set r" for kv
  proof -
    obtain x a where "x \<in> set kvs" "admit_key E a (fst x) = Inr (fst kv)"
      "canonical_tree E (path @ [fst kv]) (snd x) = Inr (snd kv)"
      using foldE_append_result [OF r kv] by auto
    then have "depth (snd kv) \<le> depth (snd x)"
      using "6.IH" by blast
    with depth_obj(1) [OF \<open>x \<in> set kvs\<close>] show ?thesis by (simp add: m)
  qed
  then show ?case by (simp add: t m depth_obj_le)
next
  case (8 E path xs)
  obtain m where m: "depth (JList xs) = Suc m" by (simp add: depth.simps(1,2))
  from 8 obtain items where items:
      "mapE (\<lambda>x. canonical_tree E (path @ [u ''[]'']) x) xs = Inr items"
    and t: "\<exists>ys. t = JList ys \<and> set ys = set items"
    by (fastforce simp: canonical_tree.psimps set_sort_encoded dest: mapE_length split: if_splits)
  have "depth i \<le> m" if i: "i \<in> set items" for i
  proof -
    obtain x where "x \<in> set xs" "canonical_tree E (path @ [u ''[]'']) x = Inr i"
      using mapE_set [OF items i] by auto
    then have "depth i \<le> depth x"
      using "8.IH"(1) by blast
    with depth_list [OF \<open>x \<in> set xs\<close>] show ?thesis by (simp add: m)
  qed
  with t show ?case by (auto simp: m depth_list_le)
qed (auto simp: canonical_tree.psimps)

termination canonical_tree
proof (relation "measure (\<lambda>(E, path, v). depth v)")
  fix E path xs items item
  assume items: "mapE (\<lambda>x. canonical_tree E (path @ [u ''[]'']) x) xs = Inr items"
    and item: "item \<in> set items"
    and dom: "\<And>x. x \<in> set xs \<Longrightarrow> canonical_tree_dom (E, path @ [u ''[]''], x)"
  from mapE_set [OF items item]
  obtain x where x: "x \<in> set xs" "canonical_tree E (path @ [u ''[]'']) x = Inr item"
    by auto
  from canonical_tree_depth [OF dom [OF x(1)] x(2)] have "depth item \<le> depth x" .
  then show "((E, [], item), (E, path, JList xs)) \<in> measure (\<lambda>(E, path, v). depth v)"
    using depth_list [OF x(1)] by simp
qed (simp_all add: depth_list depth_obj)

definition canonical_json_bytes :: "ext \<Rightarrow> json \<Rightarrow> canon_error + bytes" where
  "canonical_json_bytes E v = bindE (canonical_tree E [] v) encode_tree"


section \<open>What a canonical tree looks like\<close>

text \<open>One item of an object and what it becomes.\<close>

definition member_ok :: "ext \<Rightarrow> ustr list \<Rightarrow> ustr \<times> json \<Rightarrow> ustr \<times> json \<Rightarrow> bool" where
  "member_ok E path kv kc \<longleftrightarrow>
     normalize_string E (fst kv) = Inr (fst kc) \<and> \<not> secret_key E (fst kc)
     \<and> canonical_tree E (path @ [fst kc]) (snd kv) = Inr (snd kc)"

lemma foldE_members:
  "foldE (\<lambda>normalized kv.
       bindE (admit_key E normalized (fst kv)) (\<lambda>key.
       bindE (canonical_tree E (path @ [key]) (snd kv)) (\<lambda>c.
       Inr (normalized @ [(key, c)])))) acc kvs = Inr r \<longleftrightarrow>
   (\<exists>cs. r = acc @ cs \<and> list_all2 (member_ok E path) kvs cs
      \<and> distinct (map fst cs) \<and> fst ` set acc \<inter> fst ` set cs = {})"
proof (induction kvs arbitrary: acc)
  case Nil
  then show ?case by auto
next
  case (Cons kv kvs)
  have step: "admit_key E acc (fst kv) = Inr key \<and> canonical_tree E (path @ [key]) (snd kv) = Inr c
      \<longleftrightarrow> member_ok E path kv (key, c) \<and> key \<notin> fst ` set acc" for key c
    by (auto simp: admit_key_def member_ok_def)
  have "foldE (\<lambda>normalized kv.
       bindE (admit_key E normalized (fst kv)) (\<lambda>key.
       bindE (canonical_tree E (path @ [key]) (snd kv)) (\<lambda>c.
       Inr (normalized @ [(key, c)])))) acc (kv # kvs) = Inr r \<longleftrightarrow>
    (\<exists>key c cs. (admit_key E acc (fst kv) = Inr key \<and> canonical_tree E (path @ [key]) (snd kv) = Inr c)
       \<and> r = acc @ (key, c) # cs \<and> list_all2 (member_ok E path) kvs cs \<and> distinct (map fst cs)
       \<and> fst ` set (acc @ [(key, c)]) \<inter> fst ` set cs = {})"
    by (auto simp: Cons.IH)
  also have "\<dots> \<longleftrightarrow> (\<exists>cs. r = acc @ cs \<and> list_all2 (member_ok E path) (kv # kvs) cs
      \<and> distinct (map fst cs) \<and> fst ` set acc \<inter> fst ` set cs = {})"
    unfolding step by (fastforce simp: list_all2_Cons1)
  finally show ?case .
qed

lemma canonical_obj_iff:
  "canonical_tree E path (JObj kvs) = Inr t \<longleftrightarrow>
   (\<exists>cs. list_all2 (member_ok E path) kvs cs \<and> distinct (map fst cs) \<and> t = JObj (sort_key fst cs))"
  by (auto simp: foldE_members)

lemma canonical_list_iff:
  "canonical_tree E path (JList xs) = Inr t \<longleftrightarrow>
   (\<exists>items. list_all2 (\<lambda>x i. canonical_tree E (path @ [u ''[]'']) x = Inr i) xs items \<and>
     (if set_like path then
        (\<forall>i\<in>set items. \<exists>b. canonical_json_bytes E i = Inr b)
        \<and> distinct (map (\<lambda>i. projr (canonical_json_bytes E i)) items)
        \<and> t = JList (sort_key (\<lambda>i. projr (canonical_json_bytes E i)) items)
      else t = JList items))"
proof -
  have enc: "mapE (\<lambda>item. bindE (canonical_tree E [] item) encode_tree) items = Inr bs \<longleftrightarrow>
      (\<forall>i\<in>set items. \<exists>b. canonical_json_bytes E i = Inr b)
      \<and> bs = map (\<lambda>i. projr (canonical_json_bytes E i)) items" for items bs
    unfolding canonical_json_bytes_def [symmetric]
    by (induction items arbitrary: bs) auto
  have "map snd (sort_key fst (zip (map f items) items)) = sort_key f items"
    for items and f :: "json \<Rightarrow> bytes"
  proof -
    have "zip (map f items) items = map (\<lambda>i. (f i, i)) items"
      by (simp add: zip_map1 zip_same_conv_map)
    then show ?thesis by (simp add: map_sort_key_pairs)
  qed
  then show ?thesis
    by (auto simp: mapE_Inr_iff [of "\<lambda>x. canonical_tree E (path @ [u ''[]'']) x"] enc
        sort_encoded_def)
qed

lemma canonical_bad_obj [simp]: "canonical_tree E path (JObjBad kvs) \<noteq> Inr t"
  by simp

declare canonical_tree.simps(6-8) [simp del]

lemma members_canon:
  assumes "list_all2 (member_ok E path) kvs cs" and "distinct (map fst cs)"
    and "\<And>kv. kv \<in> set cs \<Longrightarrow> canon (snd kv)"
  shows "canon (JObj (sort_key fst cs))"
proof -
  show ?thesis
    using assms(2,3) by simp
qed

lemma list_all2_right: "list_all2 R xs ys \<Longrightarrow> y \<in> set ys \<Longrightarrow> \<exists>x\<in>set xs. R x y"
  by (induction rule: list_all2_induct) auto

lemma canonical_tree_canon: "canonical_tree E path v = Inr t \<Longrightarrow> canon t"
proof (induction v arbitrary: path t)
  case (JObj kvs)
  from JObj.prems obtain cs where cs: "list_all2 (member_ok E path) kvs cs"
    "distinct (map fst cs)" "t = JObj (sort_key fst cs)"
    unfolding canonical_obj_iff by blast
  have "canon (snd kc)" if "kc \<in> set cs" for kc
  proof -
    obtain kv where "kv \<in> set kvs" "member_ok E path kv kc"
      using list_all2_right [OF cs(1) \<open>kc \<in> set cs\<close>] by blast
    then show ?thesis
      using JObj.IH [of kv "snd kv"] by (auto simp: member_ok_def snds.simps)
  qed
  then show ?case
    unfolding cs(3) by (rule members_canon [OF cs(1,2)])
next
  case (JList xs)
  from JList.prems obtain items
    where i: "list_all2 (\<lambda>x i. canonical_tree E (path @ [u ''[]'']) x = Inr i) xs items"
      and "\<exists>ys. t = JList ys \<and> set ys = set items"
    unfolding canonical_list_iff by (cases "set_like path") auto
  moreover have "canon y" if "y \<in> set items" for y
    using list_all2_right [OF i that] JList.IH by blast
  ultimately show ?case by auto
qed auto

section \<open>Bytes\<close>

text \<open>Written text holds no control character, so neither \<open>str.splitlines\<close> nor newline
  translation can break it except at one of the three non-ASCII line boundaries.\<close>

lemma escape_char_no_control: "d \<in> set (escape_char c) \<Longrightarrow> 32 \<le> d"
  by (auto simp: escape_char_def hex_digit_def split: if_splits)

lemma dump_str_no_control: "d \<in> set (dump_str s) \<Longrightarrow> 32 \<le> d"
  using escape_char_no_control by (fastforce simp: dump_str_def)

lemma set_join_with: "set (join_with c xs) \<subseteq> insert c (\<Union> (set ` set xs))"
  by (induction c xs rule: join_with.induct) auto

lemma dumps_no_control: "canon t \<Longrightarrow> d \<in> set (dumps t) \<Longrightarrow> 32 \<le> d"
proof (induction t arbitrary: d)
  case (JInt i)
  then have "is_digit d \<or> d = 45"
    by (auto simp: dec_int_def dest: dec_nat_digits split: if_splits)
  then show ?case by (auto simp: is_digit_def)
next
  case (JList xs)
  then show ?case
    using set_join_with [of 44 "map dumps xs"] by (fastforce simp: subset_eq)
next
  case (JObj kvs)
  have s: "sorted (map fst kvs)" using JObj.prems(1) by simp
  have "32 \<le> d" if "kv \<in> set kvs" "d \<in> set (dump_member kv)" for kv
    using that JObj.prems(1) JObj.IH [of kv "snd kv" d] dump_str_no_control [of d "fst kv"]
    by (auto simp: dump_member_def snds.simps)
  then show ?case
    using JObj.prems(2) set_join_with [of 44 "map dump_member kvs"]
    unfolding dumps_obj_members [OF s] by auto
qed (auto simp: u_Cons dest: dump_str_no_control split: if_splits)

lemma universal_newlines_dumps: "canon t \<Longrightarrow> universal_newlines (dumps t) = dumps t"
  using dumps_no_control [of t 13] by (intro universal_newlines_id) auto

lemma canonical_json_bytes_iff:
  "canonical_json_bytes E v = Inr b \<longleftrightarrow>
   (\<exists>t. canonical_tree E [] v = Inr t \<and> utf8_encode (dumps t) = Some b)"
  by (auto simp: canonical_json_bytes_def encode_tree_def)

lemma canonical_read_back:
  assumes "canonical_tree E p v = Inr t" and "utf8_encode (dumps t) = Some b"
  shows "read_text b = Some (dumps t)" and "loads (dumps t) = Some t"
    and "10 \<notin> set b" and "b \<noteq> []"
proof -
  have c: "canon t" using assms(1) by (rule canonical_tree_canon)
  show "read_text b = Some (dumps t)"
    using assms(2) by (simp add: read_text_def utf8_roundtrip universal_newlines_dumps [OF c])
  show "loads (dumps t) = Some t" by (rule loads_dumps [OF c])
  show "10 \<notin> set b"
  proof
    assume "10 \<in> set b"
    then have "unat (10 :: byte) \<in> set (dumps t)"
      by (intro utf8_encode_low [OF assms(2)]) auto
    with dumps_no_control [OF c, of 10] show False by simp
  qed
  obtain c' s where "dumps t = c' # s"
    using dumps_hd [OF c] by blast
  then show "b \<noteq> []"
    using utf8_roundtrip [OF assms(2)] by auto
qed

lemma canonical_json_bytes_tree:
  assumes "canonical_json_bytes E v = Inr b" and "canonical_json_bytes E w = Inr b"
  shows "canonical_tree E [] v = canonical_tree E [] w"
proof -
  obtain s t where s: "canonical_tree E [] v = Inr s" "utf8_encode (dumps s) = Some b"
    and t: "canonical_tree E [] w = Inr t" "utf8_encode (dumps t) = Some b"
    using assms by (auto simp: canonical_json_bytes_iff)
  have "dumps s = dumps t"
    using s(2) t(2) by (rule utf8_encode_inj)
  then have "s = t"
    using dumps_inj canonical_tree_canon s(1) t(1) by blast
  with s t show ?thesis by simp
qed

section \<open>Canonicalizing twice\<close>

text \<open>NFC is idempotent (Unicode Standard Annex 15); the model takes it from \<open>ext\<close>, so the
  fact is a hypothesis.\<close>

definition nfc_idempotent :: "ext \<Rightarrow> bool" where
  "nfc_idempotent E \<longleftrightarrow> (\<forall>s. ext_nfc E (ext_nfc E s) = ext_nfc E s)"

lemma normalize_again:
  "nfc_idempotent E \<Longrightarrow> normalize_string E s = Inr n \<Longrightarrow> normalize_string E n = Inr n"
  by (auto simp: normalize_string_def nfc_idempotent_def Let_def split: if_splits)

lemma set_like_simps [simp]:
  "set_like [] = False" "set_like (p @ [u ''[]'']) = False"
  "set_like (p @ [k]) = (k \<in> set set_like_fields)"
  by (simp_all add: set_like_def set_like_fields_def)

lemma canonical_tree_again:
  assumes "nfc_idempotent E" and "canonical_tree E p v = Inr t" and "set_like q = set_like p"
  shows "canonical_tree E q t = Inr t"
  using assms(2,3)
proof (induction v arbitrary: p q t)
  case (JStr s)
  then show ?case
    using normalize_again [OF assms(1)] by auto
next
  case (JObj kvs)
  from JObj.prems(1) obtain cs where cs: "list_all2 (member_ok E p) kvs cs"
    "distinct (map fst cs)" "t = JObj (sort_key fst cs)"
    unfolding canonical_obj_iff by blast
  have "member_ok E q kc kc" if "kc \<in> set cs" for kc
  proof -
    obtain kv where kv: "kv \<in> set kvs" "member_ok E p kv kc"
      using list_all2_right [OF cs(1) \<open>kc \<in> set cs\<close>] by blast
    have "canonical_tree E (q @ [fst kc]) (snd kc) = Inr (snd kc)"
      by (rule JObj.IH [of kv "snd kv" "p @ [fst kc]"])
        (use kv in \<open>auto simp: member_ok_def snds.simps\<close>)
    with kv(2) normalize_again [OF assms(1)] show ?thesis
      by (auto simp: member_ok_def)
  qed
  then have "list_all2 (member_ok E q) (sort_key fst cs) (sort_key fst cs)"
    by (simp add: list_all2_same)
  then show ?case
    unfolding cs(3) canonical_obj_iff using cs(2)
    by (intro exI [of _ "sort_key fst cs"]) (simp add: sort_key_id)
next
  case (JList xs)
  let ?f = "\<lambda>i. projr (canonical_json_bytes E i)"
  from JList.prems(1) obtain items
    where i: "list_all2 (\<lambda>x i. canonical_tree E (p @ [u ''[]'']) x = Inr i) xs items"
      and s: "set_like p \<Longrightarrow> (\<forall>i\<in>set items. \<exists>b. canonical_json_bytes E i = Inr b)
        \<and> distinct (map ?f items) \<and> t = JList (sort_key ?f items)"
      and n: "\<not> set_like p \<Longrightarrow> t = JList items"
    unfolding canonical_list_iff by (cases "set_like p") auto
  have again: "canonical_tree E (q @ [u ''[]'']) y = Inr y" if "y \<in> set items" for y
    using list_all2_right [OF i that] JList.IH [of _ "p @ [u ''[]'']"] by auto
  have "list_all2 (\<lambda>x i. canonical_tree E (q @ [u ''[]'']) x = Inr i) ys ys"
    if "set ys = set items" for ys
    using that again by (simp add: list_all2_same)
  then have "list_all2 (\<lambda>x i. canonical_tree E (q @ [u ''[]'']) x = Inr i) items items"
    "list_all2 (\<lambda>x i. canonical_tree E (q @ [u ''[]'']) x = Inr i)
      (sort_key ?f items) (sort_key ?f items)" by simp_all
  then show ?case
    using s n JList.prems(2)
    by (cases "set_like p")
      (auto intro!: exI [of _ "sort_key ?f items"] simp: sort_key_id canonical_list_iff)
qed auto

lemma canonical_json_bytes_again:
  assumes "nfc_idempotent E" and "canonical_json_bytes E v = Inr b" and "loads s = Some w"
    and "utf8_decode b = Some s"
  shows "canonical_json_bytes E w = Inr b"
proof -
  obtain t where t: "canonical_tree E [] v = Inr t" "utf8_encode (dumps t) = Some b"
    using assms(2) by (auto simp: canonical_json_bytes_iff)
  then have "w = t"
    using assms(3,4) canonical_read_back [OF t] by (simp add: utf8_roundtrip)
  with t canonical_tree_again [OF assms(1) t(1)] show ?thesis
    by (auto simp: canonical_json_bytes_iff)
qed

section \<open>What the bytes depend on\<close>

text \<open>Two values that differ only in the order of the items of objects, at any depth, and in
  the order of the elements of set-like lists.\<close>

inductive same_value :: "ext \<Rightarrow> ustr list \<Rightarrow> json \<Rightarrow> json \<Rightarrow> bool" for E where
  same_refl: "same_value E p v v"
| same_obj: "list_all2 (\<lambda>a b. fst a = fst b \<and> same_value E (p @ [ext_nfc E (fst a)]) (snd a) (snd b))
      kvs kvs' \<Longrightarrow> mset kvs' = mset kvs'' \<Longrightarrow> same_value E p (JObj kvs) (JObj kvs'')"
| same_list: "list_all2 (same_value E (p @ [u ''[]''])) xs ys
      \<Longrightarrow> ys = zs \<or> set_like p \<and> mset ys = mset zs \<Longrightarrow> same_value E p (JList xs) (JList zs)"

lemma normalize_string_nfc: "normalize_string E s = Inr n \<Longrightarrow> n = ext_nfc E s"
  by (auto simp: normalize_string_def Let_def split: if_splits)

lemma member_ok_same:
  assumes "fst a = fst b" and "member_ok E p a c"
    and "\<And>x. canonical_tree E (p @ [ext_nfc E (fst a)]) (snd a) = Inr x
      \<Longrightarrow> canonical_tree E (p @ [ext_nfc E (fst a)]) (snd b) = Inr x"
  shows "member_ok E p b c"
  using assms normalize_string_nfc [of E "fst a" "fst c"] by (auto simp: member_ok_def)

lemma canonical_tree_same:
  "same_value E p v w \<Longrightarrow> canonical_tree E p v = Inr t \<Longrightarrow> canonical_tree E p w = Inr t"
proof (induction arbitrary: t rule: same_value.induct)
  case (same_obj p kvs kvs' kvs'')
  from same_obj.prems obtain cs where cs: "list_all2 (member_ok E p) kvs cs"
    "distinct (map fst cs)" "t = JObj (sort_key fst cs)"
    unfolding canonical_obj_iff by blast
  have "list_all2 (member_ok E p) kvs' cs"
    unfolding list_all2_conv_all_nth
  proof (intro conjI allI impI)
    show "length kvs' = length cs"
      using same_obj.IH cs(1) by (auto dest!: list_all2_lengthD)
    fix i assume i: "i < length kvs'"
    then have ab: "fst (kvs ! i) = fst (kvs' ! i)"
      "\<And>x. canonical_tree E (p @ [ext_nfc E (fst (kvs ! i))]) (snd (kvs ! i)) = Inr x
        \<Longrightarrow> canonical_tree E (p @ [ext_nfc E (fst (kvs ! i))]) (snd (kvs' ! i)) = Inr x"
      using same_obj.IH by (auto simp: list_all2_conv_all_nth)
    have "member_ok E p (kvs ! i) (cs ! i)"
      using cs(1) i same_obj.IH by (auto simp: list_all2_conv_all_nth)
    then show "member_ok E p (kvs' ! i) (cs ! i)"
      using member_ok_same [OF ab(1) _ ab(2)] by blast
  qed
  then obtain cs' where cs': "list_all2 (member_ok E p) kvs'' cs'" "mset cs' = mset cs"
    using list_all2_reorder_left_invariance same_obj.hyps by metis
  moreover have "distinct (map fst cs')" "sort_key fst cs' = sort_key fst cs"
    using cs(2) cs'(2) sort_key_distinct_perm [of cs cs' fst]
    by (metis mset_eq_imp_distinct_iff mset_map, metis)
  ultimately show ?case
    unfolding cs(3) canonical_obj_iff by metis
next
  case (same_list p xs ys zs)
  let ?f = "\<lambda>i. projr (canonical_json_bytes E i)"
  let ?R = "\<lambda>x i. canonical_tree E (p @ [u ''[]'']) x = Inr i"
  from same_list.prems obtain items
    where i: "list_all2 ?R xs items"
      and s: "set_like p \<Longrightarrow> (\<forall>i\<in>set items. \<exists>b. canonical_json_bytes E i = Inr b)
        \<and> distinct (map ?f items) \<and> t = JList (sort_key ?f items)"
      and n: "\<not> set_like p \<Longrightarrow> t = JList items"
    unfolding canonical_list_iff by (cases "set_like p") auto
  have ys: "list_all2 ?R ys items"
    using i same_list.IH by (auto simp: list_all2_conv_all_nth)
  show ?case
  proof (cases "set_like p")
    case False
    with ys n same_list.hyps show ?thesis unfolding canonical_list_iff by auto
  next
    case True
    then have "mset zs = mset ys" using same_list.hyps by auto
    then obtain items' where i': "list_all2 ?R zs items'" "mset items' = mset items"
      using list_all2_reorder_left_invariance [OF ys] by metis
    moreover have "set items' = set items" using i'(2) by (metis set_mset_mset)
    moreover have "distinct (map ?f items')" "sort_key ?f items' = sort_key ?f items"
      using s [OF True] i'(2) sort_key_distinct_perm [of items items' ?f]
      by (metis mset_eq_imp_distinct_iff mset_map, metis)
    ultimately show ?thesis
      unfolding canonical_list_iff using True s [OF True] by (intro exI [of _ items']) simp
  qed
qed simp

section \<open>The nodes of a tree\<close>

fun nodes :: "ustr list \<Rightarrow> json \<Rightarrow> (ustr list \<times> json) list" where
  "nodes p (JList xs) = (p, JList xs) # concat (map (nodes (p @ [u ''[]''])) xs)"
| "nodes p (JObj kvs) = (p, JObj kvs) # concat (map (\<lambda>(k, v). nodes (p @ [k]) v) kvs)"
| "nodes p v = [(p, v)]"

text \<open>Every node of a canonical tree is itself the canonical form of some node of the value.\<close>

lemma nodes_canonical:
  "canonical_tree E p v = Inr t \<Longrightarrow> (q, n) \<in> set (nodes p t) \<Longrightarrow> \<exists>w. canonical_tree E q w = Inr n"
proof (induction v arbitrary: p t)
  case (JStr s)
  then show ?case by (auto intro: exI [of _ "JStr s"])
next
  case (JObj kvs)
  from JObj.prems(1) obtain cs where cs: "list_all2 (member_ok E p) kvs cs"
    "t = JObj (sort_key fst cs)"
    unfolding canonical_obj_iff by blast
  show ?case
  proof (cases "(q, n) = (p, t)")
    case False
    then obtain kc where kc: "kc \<in> set cs" "(q, n) \<in> set (nodes (p @ [fst kc]) (snd kc))"
      using JObj.prems(2) cs(2) by auto
    then obtain kv where "kv \<in> set kvs" "member_ok E p kv kc"
      using list_all2_right [OF cs(1)] by blast
    then show ?thesis
      using JObj.IH [of kv "snd kv"] kc(2) by (auto simp: member_ok_def snds.simps)
  qed (use JObj.prems in auto)
next
  case (JList xs)
  from JList.prems(1) obtain items ys
    where i: "list_all2 (\<lambda>x i. canonical_tree E (p @ [u ''[]'']) x = Inr i) xs items"
      and t: "t = JList ys" "set ys = set items"
    unfolding canonical_list_iff by (cases "set_like p") auto
  show ?case
  proof (cases "(q, n) = (p, t)")
    case False
    then obtain y where "y \<in> set items" "(q, n) \<in> set (nodes (p @ [u ''[]'']) y)"
      using JList.prems(2) t by auto
    moreover obtain x where "x \<in> set xs" "canonical_tree E (p @ [u ''[]'']) x = Inr y"
      using list_all2_right [OF i \<open>y \<in> set items\<close>] by blast
    ultimately show ?thesis using JList.IH by blast
  qed (use JList.prems in auto)
qed (auto intro: exI [of _ JNull] exI [of _ "JBool _"] exI [of _ "JInt _"])

lemma canonical_obj_no_secret:
  "canonical_tree E p w = Inr (JObj kvs) \<Longrightarrow> k \<in> fst ` set kvs \<Longrightarrow> \<not> secret_key E k"
proof (cases w)
  case (JObj kvs')
  assume "canonical_tree E p w = Inr (JObj kvs)" "k \<in> fst ` set kvs"
  then obtain cs kc where "list_all2 (member_ok E p) kvs' cs" "kc \<in> set cs" "k = fst kc"
    using JObj by (auto simp: canonical_obj_iff)
  then show ?thesis
    using list_all2_right by (fastforce simp: member_ok_def)
qed (auto simp: canonical_list_iff split: if_splits)

lemma canonical_set_like_sorted:
  assumes "canonical_tree E p w = Inr (JList xs)" and "set_like p"
  shows "sorted (map (\<lambda>i. projr (canonical_json_bytes E i)) xs)"
    and "distinct (map (\<lambda>i. projr (canonical_json_bytes E i)) xs)"
    and "\<forall>i\<in>set xs. \<exists>b. canonical_json_bytes E i = Inr b"
  using assms by (cases w; auto simp: canonical_list_iff canonical_obj_iff)+

section \<open>A concrete environment\<close>

text \<open>On ASCII text NFC is the identity and \<open>str.lower\<close> lowers the letters; the schema of
  this environment admits everything.\<close>

definition ascii_lower :: "ustr \<Rightarrow> ustr" where
  "ascii_lower s = map (\<lambda>c. if 65 \<le> c \<and> c \<le> 90 then c + 32 else c) s"

definition ascii_ext :: ext where
  "ascii_ext = \<lparr> ext_nfc = (\<lambda>s. s), ext_lower = ascii_lower, ext_schema = (\<lambda>_ _. True) \<rparr>"

lemma ascii_ext_simps [simp]:
  "ext_nfc ascii_ext s = s" "ext_lower ascii_ext s = ascii_lower s" "ext_schema ascii_ext i v"
  by (simp_all add: ascii_ext_def)

lemma ascii_nfc_idempotent: "nfc_idempotent ascii_ext"
  by (simp add: nfc_idempotent_def)

text \<open>The definitions a concrete canonical form is computed with.\<close>

lemmas canonical_eval =
  canonical_json_bytes_def canonical_tree.simps(6-8) admit_key_def normalize_string_def Let_def
  secret_key_def normalized_key_for_secret_check_def secret_keys_def py_strip_def is_space_def
  ascii_lower_def encode_tree_def utf8_encode_def utf8_char_def encodable_def surrogate_def
  dump_str_def escape_char_def u_Cons set_like_def set_like_fields_def sort_encoded_def
  dec_int_def dec_nat.simps orE_def ensureE_def

section \<open>Properties\<close>

text \<open>C26: the canonical bytes of a value read back, as \<open>Path.read_text\<close> and \<open>json.loads\<close> read
  them, as the canonical tree they were written from; they are one line.\<close>

theorem canonical_bytes_roundtrip:
  assumes "canonical_json_bytes E v = Inr b"
  shows "\<exists>t s. canonical_tree E [] v = Inr t \<and> canon t \<and> read_text b = Some s \<and> loads s = Some t
    \<and> 10 \<notin> set b"
proof -
  obtain t where t: "canonical_tree E [] v = Inr t" "utf8_encode (dumps t) = Some b"
    using assms by (auto simp: canonical_json_bytes_iff)
  show ?thesis
    using t(1) canonical_tree_canon [OF t(1)] canonical_read_back [OF t] by auto
qed

theorem canonical_bytes_roundtrip_witness:
  "\<exists>t s. canonical_tree ascii_ext [] (JObj [(u ''b'', JInt 1), (u ''a'', JNull)]) = Inr t \<and> canon t
    \<and> read_text (map of_char ''{\"a\":null,\"b\":1}'') = Some s \<and> loads s = Some t
    \<and> 10 \<notin> set (map of_char ''{\"a\":null,\"b\":1}'' :: bytes)"
  by (rule canonical_bytes_roundtrip) (simp add: canonical_eval)

text \<open>equal canonical bytes mean equal canonical trees: the serialization is injective up
  to canonicalization.\<close>

theorem canonical_bytes_injective:
  assumes "canonical_json_bytes E v = Inr b" and "canonical_json_bytes E w = Inr b"
  shows "canonical_tree E [] v = canonical_tree E [] w"
  using assms by (rule canonical_json_bytes_tree)

theorem canonical_bytes_injective_witness:
  "canonical_tree ascii_ext [] (JObj [(u ''b'', JInt 1), (u ''a'', JNull)])
    = canonical_tree ascii_ext [] (JObj [(u ''a'', JNull), (u ''b'', JInt 1)])"
  by (rule canonical_bytes_injective [where b = "map of_char ''{\"a\":null,\"b\":1}''"])
    (simp_all add: canonical_eval)

text \<open>what was stored canonicalizes, once read, to the very bytes that were stored, so the
  store's comparison of canonical bytes accepts its own files.\<close>

theorem canonical_bytes_idempotent:
  assumes "nfc_idempotent E" and "canonical_json_bytes E v = Inr b"
  shows "\<exists>s w. read_text b = Some s \<and> loads s = Some w \<and> canonical_json_bytes E w = Inr b"
proof -
  obtain t where t: "canonical_tree E [] v = Inr t" "utf8_encode (dumps t) = Some b"
    using assms(2) by (auto simp: canonical_json_bytes_iff)
  have "canonical_json_bytes E t = Inr b"
    using canonical_tree_again [OF assms(1) t(1)] t(2) by (auto simp: canonical_json_bytes_iff)
  with canonical_read_back [OF t] show ?thesis by blast
qed

theorem canonical_bytes_idempotent_witness:
  "\<exists>s w. read_text (map of_char ''[1,2]'') = Some s \<and> loads s = Some w
    \<and> canonical_json_bytes ascii_ext w = Inr (map of_char ''[1,2]'')"
  by (rule canonical_bytes_idempotent [OF ascii_nfc_idempotent, where v = "JList [JInt 1, JInt 2]"])
    (simp add: canonical_eval)

text \<open>the bytes do not depend on the insertion order of any object's items, nor on the
  order in which the elements of a set-like list were given.\<close>

theorem canonical_bytes_order_free:
  assumes "same_value E [] v w" and "canonical_json_bytes E v = Inr b"
  shows "canonical_json_bytes E w = Inr b"
  using assms canonical_tree_same by (auto simp: canonical_json_bytes_iff)

lemma same_value_example:
  "same_value E [] (JObj [(u ''b'', JInt 1), (u ''a'', JNull)]) (JObj [(u ''a'', JNull), (u ''b'', JInt 1)])"
  by (rule same_obj [of _ _ _ "[(u ''b'', JInt 1), (u ''a'', JNull)]"])
    (auto intro: same_refl)

theorem canonical_bytes_order_free_witness:
  "canonical_json_bytes ascii_ext (JObj [(u ''a'', JNull), (u ''b'', JInt 1)])
    = Inr (map of_char ''{\"a\":null,\"b\":1}'')"
  by (rule canonical_bytes_order_free [OF same_value_example]) (simp add: canonical_eval)

text \<open>nowhere in a canonical tree is there a secret-bearing key, and every set-like list in
  it is strictly increasing by canonical bytes, hence free of duplicates.\<close>

theorem canonical_tree_safe:
  assumes "canonical_tree E [] v = Inr t"
  shows "\<forall>(q, n) \<in> set (nodes [] t).
    (\<forall>kvs. n = JObj kvs \<longrightarrow> (\<forall>k \<in> fst ` set kvs. \<not> secret_key E k))
    \<and> (\<forall>xs. n = JList xs \<and> set_like q \<longrightarrow>
         sorted (map (\<lambda>i. projr (canonical_json_bytes E i)) xs)
         \<and> distinct (map (\<lambda>i. projr (canonical_json_bytes E i)) xs))"
proof (clarify, intro conjI allI impI ballI)
  fix q n kvs k
  assume "(q, n) \<in> set (nodes [] t)" "n = JObj kvs" "k \<in> fst ` set kvs"
  then show "\<not> secret_key E k"
    using nodes_canonical [OF assms] canonical_obj_no_secret by blast
next
  fix q n xs
  assume "(q, n) \<in> set (nodes [] t)" and n: "n = JList xs \<and> set_like q"
  then obtain w where w: "canonical_tree E q w = Inr (JList xs)"
    using nodes_canonical [OF assms] by blast
  show "sorted (map (\<lambda>i. projr (canonical_json_bytes E i)) xs)"
    and "distinct (map (\<lambda>i. projr (canonical_json_bytes E i)) xs)"
    using canonical_set_like_sorted [OF w] n by blast+
qed

theorem canonical_tree_safe_witness:
  "\<not> secret_key ascii_ext (u ''warnings'')
   \<and> sorted (map (\<lambda>i. projr (canonical_json_bytes ascii_ext i)) [JInt 1, JInt 2])"
proof -
  have c: "canonical_tree ascii_ext [] (JObj [(u ''warnings'', JList [JInt 2, JInt 1])])
     = Inr (JObj [(u ''warnings'', JList [JInt 1, JInt 2])])"
    by (simp add: canonical_eval)
  have n: "set (nodes [] (JObj [(u ''warnings'', JList [JInt 1, JInt 2])])) =
      {([], JObj [(u ''warnings'', JList [JInt 1, JInt 2])]),
       ([u ''warnings''], JList [JInt 1, JInt 2]),
       ([u ''warnings'', u ''[]''], JInt 1), ([u ''warnings'', u ''[]''], JInt 2)}"
    by auto
  have "set_like [u ''warnings'']"
    by (simp add: set_like_def set_like_fields_def)
  with canonical_tree_safe [OF c] show ?thesis
    unfolding n by auto
qed

end
