(* ===== verification/Sha256.thy ===== *)
theory Sha256
  imports Text
begin

text \<open>
  SHA-256 as \<open>hashlib.sha256\<close> computes it, over lists of bytes with 32-bit words, and its
  hexadecimal digest. The fingerprints, receipt identities and ledger digests of the
  program are all taken with it; no property assumes that it is injective, and a
  property that would need it says so by naming the two inputs of a collision.
\<close>

unbundle bit_operations_syntax

type_synonym word32 = "32 word"

definition round_constants :: "word32 list" where
  "round_constants = [
    1116352408, 1899447441, 3049323471, 3921009573, 961987163, 1508970993, 2453635748,
    2870763221, 3624381080, 310598401, 607225278, 1426881987, 1925078388, 2162078206,
    2614888103, 3248222580, 3835390401, 4022224774, 264347078, 604807628, 770255983, 1249150122,
    1555081692, 1996064986, 2554220882, 2821834349, 2952996808, 3210313671, 3336571891,
    3584528711, 113926993, 338241895, 666307205, 773529912, 1294757372, 1396182291, 1695183700,
    1986661051, 2177026350, 2456956037, 2730485921, 2820302411, 3259730800, 3345764771,
    3516065817, 3600352804, 4094571909, 275423344, 430227734, 506948616, 659060556, 883997877,
    958139571, 1322822218, 1537002063, 1747873779, 1955562222, 2024104815, 2227730452,
    2361852424, 2428436474, 2756734187, 3204031479, 3329325298]"

definition initial_hash :: "word32 list" where
  "initial_hash = [
    1779033703, 3144134277, 1013904242, 2773480762, 1359893119, 2600822924, 528734635,
    1541459225]"

definition rotr :: "nat \<Rightarrow> word32 \<Rightarrow> word32" where
  "rotr n x = drop_bit n x OR push_bit (32 - n) x"

fun be_word :: "bytes \<Rightarrow> word32" where
  "be_word [a, b, c, d] =
     push_bit 24 (ucast a) OR push_bit 16 (ucast b) OR push_bit 8 (ucast c) OR ucast d"
| "be_word _ = 0"

definition word_bytes :: "word32 \<Rightarrow> bytes" where
  "word_bytes w = map (\<lambda>k. ucast (drop_bit k w)) [24, 16, 8, 0]"

definition length_bytes :: "nat \<Rightarrow> bytes" where
  "length_bytes n = map (\<lambda>k. ucast (drop_bit k (of_nat n :: 64 word))) [56, 48, 40, 32, 24, 16, 8, 0]"

definition pad_message :: "bytes \<Rightarrow> bytes" where
  "pad_message m =
     m @ [128] @ replicate ((119 - length m mod 64) mod 64) 0 @ length_bytes (8 * length m)"

fun blocks :: "nat \<Rightarrow> 'a list \<Rightarrow> 'a list list" where
  "blocks k xs = (if k = 0 \<or> xs = [] then [] else take k xs # blocks k (drop k xs))"

declare blocks.simps [simp del]

text \<open>The message schedule, extended by one word at a time: the word sixteen places back is
  the head of the last sixteen.\<close>

fun extend_schedule :: "nat \<Rightarrow> word32 list \<Rightarrow> word32 list" where
  "extend_schedule 0 ws = ws"
| "extend_schedule (Suc n) ws =
     (let l = length ws;
          a = ws ! (l - 15);
          b = ws ! (l - 2);
          s0 = rotr 7 a XOR rotr 18 a XOR drop_bit 3 a;
          s1 = rotr 17 b XOR rotr 19 b XOR drop_bit 10 b
      in extend_schedule n (ws @ [ws ! (l - 16) + s0 + ws ! (l - 7) + s1]))"

fun sha_round :: "word32 list \<Rightarrow> word32 \<times> word32 \<Rightarrow> word32 list" where
  "sha_round [a, b, c, d, e, f, g, h] (k, w) =
     (let s1 = rotr 6 e XOR rotr 11 e XOR rotr 25 e;
          choice = (e AND f) XOR (NOT e AND g);
          t1 = h + s1 + choice + k + w;
          s0 = rotr 2 a XOR rotr 13 a XOR rotr 22 a;
          majority = (a AND b) XOR (a AND c) XOR (b AND c)
      in [t1 + (s0 + majority), a, b, c, d + t1, e, f, g])"
| "sha_round st _ = st"

definition sha_block :: "word32 list \<Rightarrow> bytes \<Rightarrow> word32 list" where
  "sha_block h blk =
     map2 (+) h (foldl sha_round h
       (zip round_constants (extend_schedule 48 (map be_word (blocks 4 blk)))))"

definition sha256 :: "bytes \<Rightarrow> bytes" where
  "sha256 m = concat (map word_bytes (foldl sha_block initial_hash (blocks 64 (pad_message m))))"

definition hex_bytes :: "bytes \<Rightarrow> ustr" where
  "hex_bytes bs = concat (map (\<lambda>b. [hex_digit (unat b div 16), hex_digit (unat b mod 16)]) bs)"

definition sha256_hex :: "bytes \<Rightarrow> ustr" where
  "sha256_hex m = hex_bytes (sha256 m)"

lemma pad_message_blocks: "64 dvd length (pad_message m)"
proof -
  define q r where "q = length m div 64" and "r = length m mod 64"
  have m: "length m = 64 * q + r" and r: "r < 64"
    by (simp_all add: q_def r_def)
  have "(119 - r) mod 64 = (if r < 56 then 55 - r else 119 - r)"
  proof (cases "r < 56")
    case True
    then have "119 - r = 64 + (55 - r)" by linarith
    with True show ?thesis by (simp only: mod_add_self1) simp
  next
    case False
    with r show ?thesis by simp
  qed
  moreover have "length m mod 64 = r"
    by (simp add: r_def)
  ultimately have "length (pad_message m) = (if r < 56 then 64 * (q + 1) else 64 * (q + 2))"
    using r m by (simp add: pad_message_def length_bytes_def)
  then show ?thesis
    by (simp split: if_splits)
qed

lemma length_sha_round [simp]: "length h = 8 \<Longrightarrow> length (sha_round h kw) = 8"
  by (cases "(h, kw)" rule: sha_round.cases) (auto simp: Let_def)

lemma length_foldl_round: "length h = 8 \<Longrightarrow> length (foldl sha_round h kws) = 8"
  by (induction kws arbitrary: h) auto

lemma length_sha_block [simp]: "length h = 8 \<Longrightarrow> length (sha_block h b) = 8"
  by (simp add: sha_block_def length_foldl_round)

lemma length_foldl_block: "length h = 8 \<Longrightarrow> length (foldl sha_block h bs) = 8"
  by (induction bs arbitrary: h) auto

lemma length_sha256 [simp]: "length (sha256 m) = 32"
proof -
  have "length (concat (map word_bytes ws)) = 4 * length ws" for ws
    by (induction ws) (auto simp: word_bytes_def)
  then show ?thesis
    using length_foldl_block [of initial_hash] by (simp add: sha256_def initial_hash_def)
qed

lemma length_sha256_hex [simp]: "length (sha256_hex m) = 64"
proof -
  have "length (hex_bytes bs) = 2 * length bs" for bs
    by (induction bs) (auto simp: hex_bytes_def)
  then show ?thesis by (simp add: sha256_hex_def)
qed

text \<open>\<open>hexdigest().upper()\<close>.\<close>

definition ascii_upper :: "ustr \<Rightarrow> ustr" where
  "ascii_upper s = map (\<lambda>c. if 97 \<le> c \<and> c \<le> 122 then c - 32 else c) s"

end
