(* ===== verification/Fingerprint.thy ===== *)
theory Fingerprint
  imports Canonical Sha256
begin

text \<open>
  The semantic fingerprint of a project state (\<open>state/fingerprint.py\<close>) and the two
  validated byte forms it is taken over (\<open>state/canonicalize.py\<close>). Whether a schema
  admits a value is asked of \<open>ext_schema\<close>.
\<close>

section \<open>Validated bytes\<close>

definition semantic_state_schema_id :: ustr where
  "semantic_state_schema_id = u ''https://schemas.manosube.org/agent-civilization-os/v0.1/state/semantic_state.schema.json''"

definition project_state_schema_id :: ustr where
  "project_state_schema_id = u ''https://schemas.manosube.org/agent-civilization-os/v0.1/state/project_state.schema.json''"

definition validate :: "ext \<Rightarrow> json \<Rightarrow> ustr \<Rightarrow> canon_error + unit" where
  "validate E v schema_id = ensureE (ext_schema E schema_id v) SchemaValidationError"

definition canonical_semantic_value_bytes :: "ext \<Rightarrow> json \<Rightarrow> canon_error + bytes" where
  "canonical_semantic_value_bytes E semantic_state =
     bindE (validate E semantic_state semantic_state_schema_id) (\<lambda>_.
     canonical_json_bytes E semantic_state)"

definition canonical_semantic_state_bytes :: "ext \<Rightarrow> json \<Rightarrow> canon_error + bytes" where
  "canonical_semantic_state_bytes E project_state =
     bindE (validate E project_state project_state_schema_id) (\<lambda>_.
     bindE (orE (jfield project_state ''semantic_state'') SchemaValidationError) (\<lambda>semantic_state.
     bindE (validate E semantic_state semantic_state_schema_id) (\<lambda>_.
     canonical_json_bytes E semantic_state)))"

section \<open>Fingerprints\<close>

definition fingerprint_profile :: ustr where
  "fingerprint_profile = u ''MANOSUBE-STATE-SHA256-0.1''"

definition nul :: bytes where
  "nul = [0]"

definition ascii :: "string \<Rightarrow> bytes" where
  "ascii s = map of_char s"

definition domain_separator :: bytes where
  "domain_separator = ascii ''MANOSUBE_AGENT_CIVILIZATION_OS'' @ nul @ ascii ''STATE'' @ nul
     @ ascii ''0.1'' @ nul"

record semantic_fingerprint =
  fp_profile :: ustr
  fp_digest :: ustr

definition fingerprint_dict :: "semantic_fingerprint \<Rightarrow> json" where
  "fingerprint_dict f =
     JObj [(u ''profile'', JStr (fp_profile f)), (u ''digest'', JStr (fp_digest f))]"

definition digest_of :: "bytes \<Rightarrow> semantic_fingerprint" where
  "digest_of canonical_bytes =
     \<lparr> fp_profile = fingerprint_profile, fp_digest = sha256_hex (domain_separator @ canonical_bytes) \<rparr>"

definition fingerprint_project_state :: "ext \<Rightarrow> json \<Rightarrow> canon_error + semantic_fingerprint" where
  "fingerprint_project_state E project_state =
     bindE (canonical_semantic_state_bytes E project_state) (\<lambda>b. Inr (digest_of b))"

definition fingerprint_semantic_state :: "ext \<Rightarrow> json \<Rightarrow> canon_error + semantic_fingerprint" where
  "fingerprint_semantic_state E semantic_state =
     bindE (canonical_semantic_value_bytes E semantic_state) (\<lambda>b. Inr (digest_of b))"

datatype fingerprint_error =
  FingerprintProfileError
| FingerprintMismatchError
| FingerprintCanonError canon_error

definition verify_fingerprint ::
  "ext \<Rightarrow> json \<Rightarrow> json \<Rightarrow> fingerprint_error + semantic_fingerprint" where
  "verify_fingerprint E semantic_state recorded =
     bindE (ensureE (jfield recorded ''profile'' = Some (JStr fingerprint_profile))
       FingerprintProfileError) (\<lambda>_.
     bindE (mapErr FingerprintCanonError (fingerprint_semantic_state E semantic_state)) (\<lambda>expected.
     bindE (ensureE (jfield recorded ''digest'' = Some (JStr (fp_digest expected)))
       FingerprintMismatchError) (\<lambda>_.
     Inr expected)))"

section \<open>What a fingerprint shows\<close>

lemma fingerprint_dict_fields [simp]:
  "jfield (fingerprint_dict f) ''profile'' = Some (JStr (fp_profile f))"
  "jfield (fingerprint_dict f) ''digest'' = Some (JStr (fp_digest f))"
  by (simp_all add: jfield_def fingerprint_dict_def)

lemma fingerprint_semantic_state_iff:
  "fingerprint_semantic_state E v = Inr f \<longleftrightarrow>
   ext_schema E semantic_state_schema_id v \<and>
   (\<exists>b. canonical_json_bytes E v = Inr b \<and> f = digest_of b)"
  by (auto simp: fingerprint_semantic_state_def canonical_semantic_value_bytes_def validate_def)

lemma fingerprint_project_state_iff:
  "fingerprint_project_state E v = Inr f \<longleftrightarrow>
   ext_schema E project_state_schema_id v \<and>
   (\<exists>s. jfield v ''semantic_state'' = Some s \<and> fingerprint_semantic_state E s = Inr f)"
  by (auto simp: fingerprint_project_state_def canonical_semantic_state_bytes_def validate_def
      fingerprint_semantic_state_def canonical_semantic_value_bytes_def)

lemma digest_of_profile [simp]: "fp_profile (digest_of b) = fingerprint_profile"
  by (simp add: digest_of_def)

lemma verify_fingerprint_iff:
  "verify_fingerprint E v recorded = Inr f \<longleftrightarrow>
   fingerprint_semantic_state E v = Inr f
   \<and> jfield recorded ''profile'' = Some (JStr fingerprint_profile)
   \<and> jfield recorded ''digest'' = Some (JStr (fp_digest f))"
  by (auto simp: verify_fingerprint_def)

text \<open>A pair of byte strings that shows a collision of SHA-256.\<close>

definition sha256_collision :: "bytes \<Rightarrow> bytes \<Rightarrow> bool" where
  "sha256_collision a b \<longleftrightarrow> a \<noteq> b \<and> sha256_hex a = sha256_hex b"

lemma same_fingerprint_same_tree:
  assumes "fingerprint_semantic_state E v = Inr f" and "fingerprint_semantic_state E w = Inr f"
  shows "canonical_tree E [] v = canonical_tree E [] w \<or>
    (\<exists>a b. canonical_json_bytes E v = Inr a \<and> canonical_json_bytes E w = Inr b
       \<and> sha256_collision (domain_separator @ a) (domain_separator @ b))"
proof -
  obtain a b where a: "canonical_json_bytes E v = Inr a" "f = digest_of a"
    and b: "canonical_json_bytes E w = Inr b" "f = digest_of b"
    using assms by (auto simp: fingerprint_semantic_state_iff)
  show ?thesis
  proof (cases "a = b")
    case True
    with a b show ?thesis using canonical_json_bytes_tree by blast
  next
    case False
    with a b show ?thesis by (auto simp: sha256_collision_def digest_of_def)
  qed
qed

section \<open>Properties\<close>

text \<open>a recorded fingerprint verifies against every presentation of the same semantic
  state: reordering the items of objects or the elements of set-like lists does not change it.\<close>

theorem fingerprint_order_free:
  assumes "fingerprint_semantic_state E v = Inr f" and "same_value E [] v w"
    and "ext_schema E semantic_state_schema_id w"
  shows "verify_fingerprint E w (fingerprint_dict f) = Inr f"
proof -
  obtain b where b: "canonical_json_bytes E v = Inr b" "f = digest_of b"
    using assms(1) by (auto simp: fingerprint_semantic_state_iff)
  then have "canonical_json_bytes E w = Inr b"
    using canonical_tree_same [OF assms(2)] by (auto simp: canonical_json_bytes_iff)
  then show ?thesis
    using b(2) assms(3) by (simp add: verify_fingerprint_iff fingerprint_semantic_state_iff)
qed

lemma fingerprint_example:
  "fingerprint_semantic_state ascii_ext (JObj [(u ''b'', JInt 1), (u ''a'', JNull)])
     = Inr (digest_of (ascii ''{\"a\":null,\"b\":1}''))"
  "fingerprint_semantic_state ascii_ext (JObj [(u ''a'', JNull), (u ''b'', JInt 1)])
     = Inr (digest_of (ascii ''{\"a\":null,\"b\":1}''))"
  by (simp_all add: fingerprint_semantic_state_iff canonical_eval ascii_def)

theorem fingerprint_order_free_witness:
  "verify_fingerprint ascii_ext (JObj [(u ''a'', JNull), (u ''b'', JInt 1)])
     (fingerprint_dict (digest_of (ascii ''{\"a\":null,\"b\":1}'')))
   = Inr (digest_of (ascii ''{\"a\":null,\"b\":1}''))"
  by (rule fingerprint_order_free [OF fingerprint_example(1) same_value_example]) simp

text \<open>C40: if a recorded fingerprint verifies against two semantic states, then they have the
  same canonical tree, or their canonical bytes are a concrete collision of SHA-256.\<close>

theorem fingerprint_binding:
  assumes "verify_fingerprint E v recorded = Inr f" and "verify_fingerprint E w recorded = Inr g"
  shows "canonical_tree E [] v = canonical_tree E [] w \<or>
    (\<exists>a b. canonical_json_bytes E v = Inr a \<and> canonical_json_bytes E w = Inr b
       \<and> sha256_collision (domain_separator @ a) (domain_separator @ b))"
proof -
  have "fp_digest f = fp_digest g" and "fp_profile f = fp_profile g"
    using assms by (auto simp: verify_fingerprint_iff fingerprint_semantic_state_iff)
  then have "f = g"
    by (cases f, cases g) simp
  with assms show ?thesis
    by (intro same_fingerprint_same_tree [of E v g]) (auto simp: verify_fingerprint_iff)
qed

theorem fingerprint_binding_witness:
  "canonical_tree ascii_ext [] (JObj [(u ''b'', JInt 1), (u ''a'', JNull)])
     = canonical_tree ascii_ext [] (JObj [(u ''a'', JNull), (u ''b'', JInt 1)]) \<or>
    (\<exists>a b. canonical_json_bytes ascii_ext (JObj [(u ''b'', JInt 1), (u ''a'', JNull)]) = Inr a
       \<and> canonical_json_bytes ascii_ext (JObj [(u ''a'', JNull), (u ''b'', JInt 1)]) = Inr b
       \<and> sha256_collision (domain_separator @ a) (domain_separator @ b))"
  by (rule fingerprint_binding
      [where recorded = "fingerprint_dict (digest_of (ascii ''{\"a\":null,\"b\":1}''))"])
    (auto simp: verify_fingerprint_iff fingerprint_example)

end
