(* ===== verification/StoreBase.thy ===== *)
theory StoreBase
  imports Fingerprint
begin

text \<open>
  The file system of one project as \<open>store/file_store.py\<close> lays it out, the errors it raises
  (\<open>store/errors.py\<close>), and everything the store reads: the lineage, the recovery journals,
  the genesis receipt, the records. An operation that writes is a function from the file
  system to a result and the file system it leaves; an exception keeps what was written
  before it, which is what a crash leaves on disk. The exclusive lock makes every operation
  one step.

  \<open>recovery\<close> holds, by name, the directories of \<open>state/recovery/\<close> (or \<open>RFile\<close> for an entry
  that is not a directory); \<open>j_records\<close> the files of a journal's \<open>records/\<close> by their name
  without \<open>.json\<close>; \<open>fs_records\<close> the files \<open>records/<kind>/<id>.json\<close>; \<open>fs_ledger\<close> and
  \<open>fs_coord\<close> the coordination lane. A file is replaced as a whole by \<open>atomic_write\<close>. A name
  holds no \<open>/\<close>: the code checks record kinds and ids, and the identity schema admits only
  letters, digits and hyphens in transaction ids.
\<close>

section \<open>State and errors\<close>

datatype store_error =
  BoundaryError
| StateNotFoundError
| AlreadyInitializedError
| StaleStateError
| RevisionError
| TransactionConflictError
| RecordConflictError
| CorruptStoreError
| SimulatedCrash
| CoordinationTipConflictError
| CanonError canon_error
| DecodeError
| FileNotFoundError
| FileExistsError
| PyError

record journal =
  j_event :: "bytes option"
  j_state :: "bytes option"
  j_records :: "(ustr \<times> bytes) list"
  j_manifest :: "bytes option"
  j_intent :: bool
  j_committed :: bool

definition empty_journal :: journal where
  "empty_journal = \<lparr> j_event = None, j_state = None, j_records = [], j_manifest = None,
     j_intent = False, j_committed = False \<rparr>"

datatype rentry = RDir journal | RFile

type_synonym rkey = "ustr \<times> ustr"

record fs =
  fs_lineage :: "bytes option"
  fs_current :: "bytes option"
  fs_receipt :: "bytes option"
  fs_recovery :: "(ustr \<times> rentry) list"
  fs_records :: "(rkey \<times> bytes) list"
  fs_ledger :: "bytes option"
  fs_coord :: "(rkey \<times> bytes) list"

definition empty_fs :: fs where
  "empty_fs = \<lparr> fs_lineage = None, fs_current = None, fs_receipt = None, fs_recovery = [],
     fs_records = [], fs_ledger = None, fs_coord = [] \<rparr>"

type_synonym 'a read = "fs \<Rightarrow> store_error + 'a"
type_synonym 'a op = "fs \<Rightarrow> (store_error + 'a) \<times> fs"

section \<open>Sequencing\<close>

definition returnS :: "'a \<Rightarrow> 'a op" where
  "returnS x = (\<lambda>s. (Inr x, s))"

definition raiseS :: "store_error \<Rightarrow> 'a op" where
  "raiseS e = (\<lambda>s. (Inl e, s))"

definition liftS :: "store_error + 'a \<Rightarrow> 'a op" where
  "liftS r = (\<lambda>s. (r, s))"

definition readS :: "'a read \<Rightarrow> 'a op" where
  "readS r = (\<lambda>s. (r s, s))"

definition modifyS :: "(fs \<Rightarrow> fs) \<Rightarrow> unit op" where
  "modifyS f = (\<lambda>s. (Inr (), f s))"

definition bindS :: "'a op \<Rightarrow> ('a \<Rightarrow> 'b op) \<Rightarrow> 'b op" where
  "bindS m f = (\<lambda>s. case m s of (Inl e, s') \<Rightarrow> (Inl e, s') | (Inr x, s') \<Rightarrow> f x s')"

definition checkS :: "bool \<Rightarrow> store_error \<Rightarrow> unit op" where
  "checkS b e = (if b then returnS () else raiseS e)"

fun foldS :: "('s \<Rightarrow> 'a \<Rightarrow> 's op) \<Rightarrow> 's \<Rightarrow> 'a list \<Rightarrow> 's op" where
  "foldS f s [] = returnS s"
| "foldS f s (x # xs) = bindS (f s x) (\<lambda>s'. foldS f s' xs)"

lemma bindS_simps [simp]:
  "bindS (returnS x) f = f x"
  "bindS (raiseS e) f = raiseS e"
  "bindS (liftS (Inr x)) f = f x"
  "bindS (liftS (Inl e)) f = raiseS e"
  by (simp_all add: bindS_def returnS_def raiseS_def liftS_def)

lemma run_simps:
  "bindS (readS r) f s = (case r s of Inl e \<Rightarrow> (Inl e, s) | Inr x \<Rightarrow> f x s)"
  "bindS (modifyS g) k s = k () (g s)"
  "bindS (liftS q) f s = (case q of Inl e \<Rightarrow> (Inl e, s) | Inr x \<Rightarrow> f x s)"
  "bindS (checkS b e) k s = (if b then k () s else (Inl e, s))"
  "returnS x s = (Inr x, s)" "raiseS e s = (Inl e, s)" "modifyS g s = (Inr (), g s)"
  "readS r s = (r s, s)" "liftS q s = (q, s)"
  by (simp_all add: bindS_def readS_def modifyS_def liftS_def returnS_def raiseS_def checkS_def
      split: sum.splits)

lemma bindS_run:
  "m s = (Inr x, s') \<Longrightarrow> bindS m f s = f x s'"
  "m s = (Inl e, s') \<Longrightarrow> bindS m f s = (Inl e, s')"
  by (simp_all add: bindS_def)

lemma bindS_assoc: "bindS (bindS m f) g = bindS m (\<lambda>x. bindS (f x) g)"
  by (rule ext) (auto simp: bindS_def split: sum.splits prod.splits)

section \<open>Reading fields and files\<close>

text \<open>\<open>v["k"]\<close>, \<open>v.get("k")\<close> and \<open>v["k"] != w\<close>.\<close>

definition field :: "json \<Rightarrow> string \<Rightarrow> store_error + json" where
  "field v k = orE (jfield v k) PyError"

definition get_field :: "json \<Rightarrow> string \<Rightarrow> store_error + json option" where
  "get_field v k = (if is_obj v then Inr (jfield v k) else Inl PyError)"

definition differs :: "json \<Rightarrow> string \<Rightarrow> json \<Rightarrow> store_error + bool" where
  "differs v k w = bindE (field v k) (\<lambda>x. Inr (\<not> py_eq x w))"

definition is_some :: "json option \<Rightarrow> json \<Rightarrow> bool" where
  "is_some x w = (case x of None \<Rightarrow> False | Some v \<Rightarrow> py_eq v w)"

text \<open>\<open>json.loads(path.read_text(encoding="utf-8"))\<close> under
  \<open>except (OSError, json.JSONDecodeError)\<close>: undecodable bytes are not caught.\<close>

definition read_json :: "bytes \<Rightarrow> store_error + json" where
  "read_json b =
     bindE (orE (read_text b) DecodeError) (\<lambda>s. orE (loads s) CorruptStoreError)"

text \<open>The same read where nothing is caught: both decoders raise a \<open>ValueError\<close>.\<close>

definition read_json_raw :: "bytes \<Rightarrow> store_error + json" where
  "read_json_raw b =
     bindE (orE (read_text b) DecodeError) (\<lambda>s. orE (loads s) DecodeError)"

lemma read_json_raw_eq: "read_json b = Inr v \<Longrightarrow> read_json_raw b = Inr v"
  by (simp add: read_json_def read_json_raw_def)

definition canonical :: "ext \<Rightarrow> json \<Rightarrow> store_error + bytes" where
  "canonical E v = mapErr CanonError (canonical_json_bytes E v)"

definition has_slash :: "ustr \<Rightarrow> bool" where
  "has_slash s \<longleftrightarrow> 47 \<in> set s"

fun has_dotdot :: "ustr \<Rightarrow> bool" where
  "has_dotdot [] = False"
| "has_dotdot [c] = False"
| "has_dotdot (c # d # r) = (c = 46 \<and> d = 46 \<or> has_dotdot (d # r))"

definition name_ok :: "ustr \<Rightarrow> bool" where
  "name_ok s \<longleftrightarrow> s \<noteq> [] \<and> \<not> has_slash s \<and> \<not> has_dotdot s"

definition project_path :: "ustr \<Rightarrow> store_error + unit" where
  "project_path pid = ensureE (name_ok pid) BoundaryError"

definition record_path :: "ustr \<Rightarrow> ustr \<Rightarrow> store_error + rkey" where
  "record_path kind record_id =
     bindE (ensureE (name_ok record_id) BoundaryError) (\<lambda>_.
     bindE (ensureE (name_ok kind) BoundaryError) (\<lambda>_. Inr (kind, record_id)))"

definition journal_at :: "fs \<Rightarrow> ustr \<Rightarrow> journal option" where
  "journal_at fs tx = (case map_of (fs_recovery fs) tx of Some (RDir j) \<Rightarrow> Some j | _ \<Rightarrow> None)"

definition set_journal :: "ustr \<Rightarrow> journal \<Rightarrow> fs \<Rightarrow> fs" where
  "set_journal tx j fs = fs\<lparr> fs_recovery := AList.update tx (RDir j) (fs_recovery fs) \<rparr>"

text \<open>\<open>sorted(recovery.iterdir())\<close>, the entries that are directories.\<close>

definition journals :: "fs \<Rightarrow> (ustr \<times> journal) list" where
  "journals fs = concat (map (\<lambda>(n, e). case e of RDir j \<Rightarrow> [(n, j)] | RFile \<Rightarrow> [])
     (sort_key fst (fs_recovery fs)))"

section \<open>Manifests\<close>

text \<open>\<open>_read_manifest_entries\<close>.\<close>

definition manifest_member :: "rkey list \<Rightarrow> json \<Rightarrow> store_error + rkey list" where
  "manifest_member seen member =
     (case member of
        JList [JStr kind, JStr record_id] \<Rightarrow>
          (if kind = [] \<or> record_id = [] \<or> (kind, record_id) \<in> set seen
           then Inl CorruptStoreError else Inr (seen @ [(kind, record_id)]))
      | _ \<Rightarrow> Inl CorruptStoreError)"

definition read_manifest_entries :: "bytes \<Rightarrow> store_error + rkey list" where
  "read_manifest_entries b =
     bindE (read_json b) (\<lambda>v.
       case v of
         JList entries \<Rightarrow> foldE manifest_member [] entries
       | _ \<Rightarrow> Inl CorruptStoreError)"

definition manifest_json :: "rkey list \<Rightarrow> json" where
  "manifest_json members = JList (map (\<lambda>(kind, record_id). JList [JStr kind, JStr record_id]) members)"

definition manifest_digest_domain :: bytes where
  "manifest_digest_domain = ascii ''MANOSUBE_AGENT_CIVILIZATION_OS'' @ nul @ ascii ''GENESIS_MANIFEST''
     @ nul @ ascii ''0.1'' @ nul"

definition manifest_digest :: "ext \<Rightarrow> rkey list \<Rightarrow> store_error + ustr" where
  "manifest_digest E members =
     bindE (canonical E (manifest_json (sort members))) (\<lambda>payload.
     Inr (u ''sha256:'' @ sha256_hex (manifest_digest_domain @ payload)))"

definition transaction_manifest_keys :: "ustr \<Rightarrow> rkey list read" where
  "transaction_manifest_keys tx fs =
     (case journal_at fs tx of
        None \<Rightarrow> Inr []
      | Some j \<Rightarrow> (case j_manifest j of None \<Rightarrow> Inr [] | Some b \<Rightarrow> read_manifest_entries b))"

section \<open>The genesis receipt\<close>

definition genesis_transaction_id :: ustr where
  "genesis_transaction_id = u ''TX-GENESIS''"

definition transition_schema_id :: ustr where
  "transition_schema_id = u ''https://schemas.manosube.org/agent-civilization-os/v0.1/state/state_transition.schema.json''"

definition genesis_receipt_schema_id :: ustr where
  "genesis_receipt_schema_id = u ''https://schemas.manosube.org/agent-civilization-os/v0.1/state/genesis_receipt.schema.json''"

definition genesis_receipt_id_domain :: bytes where
  "genesis_receipt_id_domain = ascii ''MANOSUBE_AGENT_CIVILIZATION_OS'' @ nul
     @ ascii ''GENESIS_RECEIPT'' @ nul @ ascii ''0.1'' @ nul"

definition genesis_receipt_identity_fields :: "string list" where
  "genesis_receipt_identity_fields = [''schema_version'', ''project_id'', ''transaction_id'',
     ''genesis_mode'', ''manifest_member_count'', ''manifest_digest'']"

definition genesis_receipt_id :: "ext \<Rightarrow> json \<Rightarrow> store_error + ustr" where
  "genesis_receipt_id E body =
     bindE (mapE (\<lambda>k. bindE (field body k) (\<lambda>v. Inr (u k, v))) genesis_receipt_identity_fields)
       (\<lambda>payload.
     bindE (canonical E (JObj payload)) (\<lambda>b.
     Inr (u ''GENESIS-RECEIPT-'' @ ascii_upper (sha256_hex (genesis_receipt_id_domain @ b)))))"

definition validateS :: "ext \<Rightarrow> json \<Rightarrow> ustr \<Rightarrow> store_error + unit" where
  "validateS E v sid = mapErr CanonError (validate E v sid)"

definition read_genesis_receipt :: "ext \<Rightarrow> ustr \<Rightarrow> json option read" where
  "read_genesis_receipt E pid fs =
     (case fs_receipt fs of
        None \<Rightarrow> Inr None
      | Some b \<Rightarrow>
          bindE (read_json b) (\<lambda>receipt.
          bindE (ensureE (ext_schema E genesis_receipt_schema_id receipt) CorruptStoreError) (\<lambda>_.
          bindE (differs receipt ''project_id'' (JStr pid)) (\<lambda>foreign.
          if foreign then Inl CorruptStoreError else
          bindE (genesis_receipt_id E receipt) (\<lambda>recomputed.
          bindE (differs receipt ''genesis_receipt_id'' (JStr recomputed)) (\<lambda>wrong.
          if wrong then Inl CorruptStoreError else Inr (Some receipt)))))))"

definition verify_genesis_event_receipt_binding :: "json \<Rightarrow> json \<Rightarrow> store_error + unit" where
  "verify_genesis_event_receipt_binding event receipt =
     bindE (get_field event ''genesis_receipt_ref'') (\<lambda>ref.
     case ref of
       None \<Rightarrow> Inl CorruptStoreError
     | Some r \<Rightarrow>
         if \<not> is_obj r \<or> jfield r ''kind'' \<noteq> Some (JStr (u ''genesis_receipt'')) then Inl CorruptStoreError
         else
           bindE (field receipt ''genesis_receipt_id'') (\<lambda>rid.
           if \<not> is_some (jfield r ''id'') rid then Inl CorruptStoreError else
           bindE (field receipt ''project_id'') (\<lambda>rp.
           if \<not> is_some (jfield event ''project_id'') rp then Inl CorruptStoreError else
           bindE (field receipt ''transaction_id'') (\<lambda>rt.
           if \<not> is_some (jfield event ''transaction_id'') rt then Inl CorruptStoreError else
           Inr ()))))"

section \<open>The lineage\<close>

text \<open>\<open>_events\<close>: one JSON value per line of \<open>str.splitlines\<close>, empty lines skipped.\<close>

definition events_of :: "json list read" where
  "events_of fs =
     (case fs_lineage fs of
        None \<Rightarrow> Inr []
      | Some b \<Rightarrow>
          bindE (orE (read_text b) DecodeError) (\<lambda>s.
          mapE (\<lambda>line. orE (loads line) CorruptStoreError)
            (filter (\<lambda>l. l \<noteq> []) (py_splitlines s))))"

definition validate_state :: "ext \<Rightarrow> ustr \<Rightarrow> json \<Rightarrow> store_error + json" where
  "validate_state E pid state =
     bindE (mapErr CanonError (canonical_semantic_state_bytes E state)) (\<lambda>_.
     bindE (mapErr CanonError (fingerprint_project_state E state)) (\<lambda>actual.
     bindE (anyE [differs state ''project_id'' (JStr pid),
                  differs state ''semantic_fingerprint'' (fingerprint_dict actual)]) (\<lambda>bad.
     if bad then Inl CorruptStoreError else Inr state)))"

fun add_one :: "json \<Rightarrow> store_error + json" where
  "add_one (JInt i) = Inr (JInt (i + 1))"
| "add_one (JBool b) = Inr (JInt (if b then 2 else 1))"
| "add_one _ = Inl PyError"

definition verify_event :: "ext \<Rightarrow> ustr \<Rightarrow> json \<Rightarrow> json option \<Rightarrow> store_error + json" where
  "verify_event E pid event prior =
     bindE (validateS E event transition_schema_id) (\<lambda>_.
     bindE (field event ''after_state'') (\<lambda>after.
     bindE (validate_state E pid after) (\<lambda>state.
     bindE (field state ''semantic_fingerprint'') (\<lambda>fp.
     bindE (anyE [differs event ''project_id'' (JStr pid),
                  differs event ''after_fingerprint'' fp,
                  bindE (field state ''state_revision'') (differs event ''to_revision'')]) (\<lambda>mismatch.
     if mismatch then Inl CorruptStoreError else
     case prior of
       None \<Rightarrow>
         bindE (anyE [differs event ''event_type'' (JStr (u ''GENESIS'')),
                      bindE (field event ''from_revision'') (\<lambda>v. Inr (v \<noteq> JNull)),
                      bindE (field event ''before_fingerprint'') (\<lambda>v. Inr (v \<noteq> JNull)),
                      differs event ''to_revision'' (JInt 0)]) (\<lambda>bad.
         if bad then Inl RevisionError else Inr state)
     | Some p \<Rightarrow>
         bindE (anyE [differs event ''event_type'' (JStr (u ''TRANSITION'')),
                      bindE (field p ''state_revision'') (differs event ''from_revision''),
                      bindE (field p ''state_revision'') (\<lambda>r. bindE (add_one r) (differs event ''to_revision'')),
                      bindE (field p ''semantic_fingerprint'') (differs event ''before_fingerprint''),
                      bindE (field p ''semantic_fingerprint'') (differs state ''previous_state_fingerprint'')])
           (\<lambda>bad.
         if bad then Inl RevisionError else Inr state))))))"

section \<open>Which transactions are committed\<close>

text \<open>\<open>_find_genesis_event\<close>.\<close>

fun first_event_of :: "ustr \<Rightarrow> json list \<Rightarrow> store_error + json option" where
  "first_event_of tx [] = Inr None"
| "first_event_of tx (e # es) =
     bindE (get_field e ''transaction_id'') (\<lambda>t.
     if t = Some (JStr tx) then Inr (Some e) else first_event_of tx es)"

definition find_genesis_event :: "json option read" where
  "find_genesis_event fs = bindE (events_of fs) (first_event_of genesis_transaction_id)"

definition read_journal_event :: "journal \<Rightarrow> store_error + json" where
  "read_journal_event j = bindE (orE (j_event j) CorruptStoreError) read_json"

definition verify_genesis_journal :: "ext \<Rightarrow> ustr \<Rightarrow> journal \<Rightarrow> json read" where
  "verify_genesis_journal E pid j fs =
     bindE (read_journal_event j) (\<lambda>event.
     bindE (validateS E event transition_schema_id) (\<lambda>_.
     bindE (read_genesis_receipt E pid fs) (\<lambda>r.
     case r of
       None \<Rightarrow> Inl CorruptStoreError
     | Some receipt \<Rightarrow>
         bindE (differs receipt ''genesis_mode'' (JStr (u ''WITH_RECORDS''))) (\<lambda>other_mode.
         if other_mode then Inl CorruptStoreError else
         bindE (verify_genesis_event_receipt_binding event receipt) (\<lambda>_.
         case j_manifest j of
           None \<Rightarrow> Inl CorruptStoreError
         | Some m \<Rightarrow>
             bindE (read_manifest_entries m) (\<lambda>entries.
             bindE (anyE [differs receipt ''manifest_member_count'' (JInt (int (length entries))),
                          bindE (manifest_digest E entries) (\<lambda>d. differs receipt ''manifest_digest'' (JStr d))])
               (\<lambda>bad.
             if bad then Inl CorruptStoreError else Inr event)))))))"

definition genesis_transaction_committed :: "ext \<Rightarrow> ustr \<Rightarrow> bool read" where
  "genesis_transaction_committed E pid fs =
     (case map_of (fs_recovery fs) genesis_transaction_id of
        Some (RDir j) \<Rightarrow>
          (if \<not> j_committed j then Inr False else
             bindE (verify_genesis_journal E pid j fs) (\<lambda>journal_event.
             bindE (find_genesis_event fs) (\<lambda>l.
             case l of
               None \<Rightarrow> Inl CorruptStoreError
             | Some lineage_event \<Rightarrow>
                 bindE (canonical E journal_event) (\<lambda>a.
                 bindE (canonical E lineage_event) (\<lambda>b.
                 if a \<noteq> b then Inl CorruptStoreError else Inr True)))))
      | Some RFile \<Rightarrow> Inr False
      | None \<Rightarrow>
          bindE (read_genesis_receipt E pid fs) (\<lambda>r.
          bindE (find_genesis_event fs) (\<lambda>l.
          case r of
            None \<Rightarrow> (case l of None \<Rightarrow> Inr False | Some _ \<Rightarrow> Inl CorruptStoreError)
          | Some receipt \<Rightarrow>
              bindE (field receipt ''genesis_mode'') (\<lambda>mode.
              if py_eq mode (JStr (u ''WITH_RECORDS'')) then Inl CorruptStoreError
              else if py_eq mode (JStr (u ''BARE'')) then
                bindE (anyE [differs receipt ''manifest_member_count'' (JInt 0),
                             bindE (manifest_digest E []) (\<lambda>d. differs receipt ''manifest_digest'' (JStr d))])
                  (\<lambda>bad.
                if bad then Inl CorruptStoreError else
                case l of
                  None \<Rightarrow> Inr False
                | Some lineage_event \<Rightarrow>
                    bindE (verify_genesis_event_receipt_binding lineage_event receipt) (\<lambda>_. Inr True))
              else Inl CorruptStoreError))))"

definition transaction_committed :: "ext \<Rightarrow> ustr \<Rightarrow> json \<Rightarrow> bool read" where
  "transaction_committed E pid txv fs =
     (case txv of
        JStr tx \<Rightarrow>
          (if tx = genesis_transaction_id then genesis_transaction_committed E pid fs
           else Inr (case journal_at fs tx of None \<Rightarrow> False | Some j \<Rightarrow> j_committed j))
      | _ \<Rightarrow> Inl PyError)"

text \<open>\<open>_committed_events\<close>: the events up to the first whose transaction is not committed.\<close>

fun take_committed :: "ext \<Rightarrow> ustr \<Rightarrow> fs \<Rightarrow> json list \<Rightarrow> store_error + json list" where
  "take_committed E pid fs [] = Inr []"
| "take_committed E pid fs (e # es) =
     bindE (field e ''transaction_id'') (\<lambda>t.
     bindE (transaction_committed E pid t fs) (\<lambda>c.
     if c then bindE (take_committed E pid fs es) (\<lambda>r. Inr (e # r)) else Inr []))"

definition committed_events :: "ext \<Rightarrow> ustr \<Rightarrow> json list read" where
  "committed_events E pid fs = bindE (events_of fs) (take_committed E pid fs)"

definition replay_events :: "ext \<Rightarrow> ustr \<Rightarrow> json option \<Rightarrow> json list \<Rightarrow> store_error + json option" where
  "replay_events E pid = foldE (\<lambda>prior e. bindE (verify_event E pid e prior) (\<lambda>s. Inr (Some s)))"

definition reconstruct :: "ext \<Rightarrow> ustr \<Rightarrow> json read" where
  "reconstruct E pid fs =
     bindE (committed_events E pid fs) (\<lambda>es.
     bindE (replay_events E pid None es) (\<lambda>prior. orE prior CorruptStoreError))"

section \<open>Reading records and transactions\<close>

text \<open>\<open>_record_committed_by_any_transaction\<close>: every journal is visited; \<open>bodies\<close> is the set of
  bodies seen, \<open>any_committed\<close> whether a committed journal claims the record.\<close>

definition staged_stem :: "ustr \<Rightarrow> ustr \<Rightarrow> ustr" where
  "staged_stem kind record_id = kind @ u ''__'' @ record_id"

definition claim_step :: "ext \<Rightarrow> ustr \<Rightarrow> fs \<Rightarrow> rkey \<Rightarrow> bytes list \<times> bool \<Rightarrow> ustr \<times> journal
    \<Rightarrow> store_error + bytes list \<times> bool" where
  "claim_step E pid fs key acc nj =
     (case j_manifest (snd nj) of
        None \<Rightarrow> Inr acc
      | Some m \<Rightarrow>
          bindE (read_manifest_entries m) (\<lambda>entries.
          if key \<notin> set entries then Inr acc else
          bindE (transaction_committed E pid (JStr (fst nj)) fs) (\<lambda>c.
          let bodies = (case map_of (j_records (snd nj)) (staged_stem (fst key) (snd key)) of
                 None \<Rightarrow> fst acc | Some b \<Rightarrow> List.insert b (fst acc))
          in Inr (bodies, snd acc \<or> c))))"

definition record_committed :: "ext \<Rightarrow> ustr \<Rightarrow> rkey \<Rightarrow> bool read" where
  "record_committed E pid key fs =
     (if fs_recovery fs = [] then Inr False else
     bindE (record_path (fst key) (snd key)) (\<lambda>_.
     bindE (foldE (claim_step E pid fs key)
       ((case map_of (fs_records fs) key of None \<Rightarrow> [] | Some b \<Rightarrow> [b]), False) (journals fs)) (\<lambda>(bodies, any_committed).
     if \<not> any_committed then Inr False
     else if 1 < length bodies then Inl CorruptStoreError
     else Inr True)))"

definition resolve_record :: "ext \<Rightarrow> ustr \<Rightarrow> ustr \<Rightarrow> ustr \<Rightarrow> json option read" where
  "resolve_record E pid kind record_id fs =
     bindE (record_path kind record_id) (\<lambda>key.
     case map_of (fs_records fs) key of
       None \<Rightarrow> Inr None
     | Some b \<Rightarrow>
         bindE (record_committed E pid key fs) (\<lambda>c.
         if \<not> c then Inr None else
         bindE (read_json b) (\<lambda>v. if is_obj v then Inr (Some v) else Inl CorruptStoreError)))"

text \<open>\<open>list_committed_record_ids\<close>: the files of a kind in the order of their names.\<close>

definition list_committed_record_ids :: "ext \<Rightarrow> ustr \<Rightarrow> ustr \<Rightarrow> ustr list read" where
  "list_committed_record_ids E pid kind fs =
     bindE (ensureE (name_ok kind) BoundaryError) (\<lambda>_.
     bindE (filterE (\<lambda>i. record_committed E pid (kind, i) fs)
       (sort_key (\<lambda>i. i @ u ''.json'') (map (snd \<circ> fst) (filter (\<lambda>r. fst (fst r) = kind) (fs_records fs)))))
       (\<lambda>ids. Inr (sort ids)))"

definition resolve_transaction :: "ext \<Rightarrow> ustr \<Rightarrow> ustr \<Rightarrow> json option read" where
  "resolve_transaction E pid tx fs =
     bindE (transaction_committed E pid (JStr tx) fs) (\<lambda>c.
     if \<not> c then Inr None else bindE (events_of fs) (first_event_of tx))"

definition resolve_transaction_manifest :: "ext \<Rightarrow> ustr \<Rightarrow> ustr \<Rightarrow> rkey list option read" where
  "resolve_transaction_manifest E pid tx fs =
     bindE (transaction_committed E pid (JStr tx) fs) (\<lambda>c.
     if \<not> c then Inr None else bindE (transaction_manifest_keys tx fs) (\<lambda>ks. Inr (Some ks)))"

section \<open>The quiescence check\<close>

definition has_pending_transaction :: "fs \<Rightarrow> bool" where
  "has_pending_transaction fs \<longleftrightarrow> (\<exists>(n, j) \<in> set (journals fs). \<not> j_committed j)"

fun any_unexplained :: "fs \<Rightarrow> json list \<Rightarrow> store_error + bool" where
  "any_unexplained fs [] = Inr False"
| "any_unexplained fs (e # es) =
     bindE (field e ''transaction_id'') (\<lambda>t.
     case t of
       JStr tx \<Rightarrow>
         (if tx = genesis_transaction_id then any_unexplained fs es
          else if journal_at fs tx = None then Inr True
          else any_unexplained fs es)
     | _ \<Rightarrow> Inl PyError)"

definition has_unexplained_lineage_event :: "bool read" where
  "has_unexplained_lineage_event fs = bindE (events_of fs) (any_unexplained fs)"

definition read_current_consistent :: "ext \<Rightarrow> ustr \<Rightarrow> json read" where
  "read_current_consistent E pid fs =
     (if has_pending_transaction fs then Inl CorruptStoreError else
     bindE (has_unexplained_lineage_event fs) (\<lambda>unexplained.
     if unexplained then Inl CorruptStoreError else
     bindE (reconstruct E pid fs) (\<lambda>reconstructed.
     case fs_current fs of
       None \<Rightarrow> Inr reconstructed
     | Some b \<Rightarrow>
         bindE (read_json b) (\<lambda>v.
         bindE (validate_state E pid v) (\<lambda>current.
         bindE (canonical E current) (\<lambda>x.
         bindE (canonical E reconstructed) (\<lambda>y.
         if x \<noteq> y then Inl CorruptStoreError else Inr reconstructed)))))))"

end
