(* ===== verification/Store.thy ===== *)
theory Store
  imports StoreBase
begin

text \<open>
  The operations of \<open>store/file_store.py\<close> that write: \<open>initialize\<close>, \<open>commit\<close>, \<open>recover\<close> and
  \<open>load_current\<close>, each a sequence of durable steps with a fault boundary after each one. A
  fault injector answers a boundary with the exception to raise there, if any.
\<close>

section \<open>Boundaries and elementary writes\<close>

datatype stage =
  After_Journal_Created
| After_Staged_State_Written
| After_Staged_Records_Written
| After_Commit_Intent
| After_Lineage_Append
| After_Records_Promoted
| Before_Current_Replace
| After_Current_Replace
| Before_Committed_Marker

type_synonym fault = "stage \<Rightarrow> store_error option"

definition no_fault :: fault where
  "no_fault = (\<lambda>_. None)"

definition crash_at :: "stage \<Rightarrow> fault" where
  "crash_at k = (\<lambda>s. if s = k then Some SimulatedCrash else None)"

definition hit :: "fault \<Rightarrow> stage \<Rightarrow> unit op" where
  "hit fault s = (case fault s of None \<Rightarrow> returnS () | Some e \<Rightarrow> raiseS e)"

definition update_journal :: "ustr \<Rightarrow> (journal \<Rightarrow> journal) \<Rightarrow> unit op" where
  "update_journal tx f = modifyS (\<lambda>fs.
     case journal_at fs tx of None \<Rightarrow> fs | Some j \<Rightarrow> set_journal tx (f j) fs)"

text \<open>\<open>journal.mkdir(parents=True, exist_ok=...)\<close>.\<close>

definition make_journal :: "ustr \<Rightarrow> bool \<Rightarrow> unit op" where
  "make_journal tx exist_ok = (\<lambda>fs.
     case map_of (fs_recovery fs) tx of
       None \<Rightarrow> (Inr (), set_journal tx empty_journal fs)
     | Some (RDir j) \<Rightarrow> (if exist_ok then (Inr (), fs) else (Inl FileExistsError, fs))
     | Some RFile \<Rightarrow> (Inl FileExistsError, fs))"

text \<open>\<open>atomic_write(path, canonical_json_bytes(value))\<close>: the value is serialized first.\<close>

definition write_canonical :: "ext \<Rightarrow> json \<Rightarrow> (bytes \<Rightarrow> fs \<Rightarrow> fs) \<Rightarrow> unit op" where
  "write_canonical E v put_bytes = bindS (liftS (canonical E v)) (\<lambda>b. modifyS (put_bytes b))"

definition put_current :: "bytes \<Rightarrow> fs \<Rightarrow> fs" where
  "put_current b fs = fs\<lparr> fs_current := Some b \<rparr>"

definition put_receipt :: "bytes \<Rightarrow> fs \<Rightarrow> fs" where
  "put_receipt b fs = fs\<lparr> fs_receipt := Some b \<rparr>"

definition put_lineage :: "bytes \<Rightarrow> fs \<Rightarrow> fs" where
  "put_lineage b fs = fs\<lparr> fs_lineage := Some (b @ [10]) \<rparr>"

definition append_lineage :: "bytes \<Rightarrow> fs \<Rightarrow> fs" where
  "append_lineage b fs =
     fs\<lparr> fs_lineage := Some ((case fs_lineage fs of None \<Rightarrow> [] | Some l \<Rightarrow> l) @ b @ [10]) \<rparr>"

definition put_event :: "ustr \<Rightarrow> bytes \<Rightarrow> fs \<Rightarrow> fs" where
  "put_event tx b fs = snd (update_journal tx (\<lambda>j. j\<lparr> j_event := Some b \<rparr>) fs)"

definition put_state :: "ustr \<Rightarrow> bytes \<Rightarrow> fs \<Rightarrow> fs" where
  "put_state tx b fs = snd (update_journal tx (\<lambda>j. j\<lparr> j_state := Some b \<rparr>) fs)"

definition put_manifest :: "ustr \<Rightarrow> bytes \<Rightarrow> fs \<Rightarrow> fs" where
  "put_manifest tx b fs = snd (update_journal tx (\<lambda>j. j\<lparr> j_manifest := Some b \<rparr>) fs)"

definition put_record :: "rkey \<Rightarrow> bytes \<Rightarrow> fs \<Rightarrow> fs" where
  "put_record key b fs = fs\<lparr> fs_records := AList.update key b (fs_records fs) \<rparr>"

definition append_event :: "ext \<Rightarrow> json \<Rightarrow> unit op" where
  "append_event E event = write_canonical E event append_lineage"

section \<open>Staging and promoting records\<close>

type_synonym record_arg = "ustr \<times> ustr \<times> json"

definition stage_step :: "ext \<Rightarrow> fs \<Rightarrow> (rkey \<times> bytes) list \<times> rkey list \<Rightarrow> record_arg
    \<Rightarrow> store_error + (rkey \<times> bytes) list \<times> rkey list" where
  "stage_step E fs acc r =
     (let (staged, seen) = acc; (kind, record_id, body) = r; key = (kind, record_id)
      in if key \<in> set seen then Inl RecordConflictError else
         bindE (canonical E body) (\<lambda>b.
         bindE (record_path kind record_id) (\<lambda>path.
         case map_of (fs_records fs) path of
           Some existing \<Rightarrow>
             (if existing \<noteq> b then Inl RecordConflictError else Inr (staged, seen @ [key]))
         | None \<Rightarrow> Inr (staged @ [(key, b)], seen @ [key]))))"

definition write_staged :: "ustr \<Rightarrow> rkey \<times> bytes \<Rightarrow> fs \<Rightarrow> fs" where
  "write_staged tx kb fs = snd (update_journal tx (\<lambda>j.
     j\<lparr> j_records := AList.update (staged_stem (fst (fst kb)) (snd (fst kb))) (snd kb) (j_records j) \<rparr>) fs)"

definition stage_records :: "ext \<Rightarrow> ustr \<Rightarrow> record_arg list \<Rightarrow> unit op" where
  "stage_records E tx records =
     bindS (readS (\<lambda>fs. foldE (stage_step E fs) ([], []) records)) (\<lambda>(staged, seen).
     bindS (modifyS (fold (write_staged tx) staged)) (\<lambda>_.
     write_canonical E (manifest_json (sort seen)) (put_manifest tx)))"

text \<open>\<open>path.stem.partition("__")\<close>.\<close>

fun partition_stem :: "ustr \<Rightarrow> ustr \<times> ustr" where
  "partition_stem [] = ([], [])"
| "partition_stem [c] = ([c], [])"
| "partition_stem (c # d # r) =
     (if c = 95 \<and> d = 95 then ([], r)
      else let (k, i) = partition_stem (d # r) in (c # k, i))"

definition promote_one :: "ustr \<times> bytes \<Rightarrow> unit op" where
  "promote_one sb =
     bindS (liftS (let (kind, record_id) = partition_stem (fst sb) in record_path kind record_id)) (\<lambda>path.
     bindS (readS (\<lambda>fs. Inr (map_of (fs_records fs) path))) (\<lambda>target.
     case target of
       Some existing \<Rightarrow> checkS (existing = snd sb) CorruptStoreError
     | None \<Rightarrow> modifyS (put_record path (snd sb))))"

definition promote_staged_records :: "ustr \<Rightarrow> unit op" where
  "promote_staged_records tx =
     bindS (readS (\<lambda>fs. Inr (journal_at fs tx))) (\<lambda>j.
     foldS (\<lambda>_. promote_one) ()
       (case j of None \<Rightarrow> [] | Some j \<Rightarrow> sort_key (\<lambda>sb. fst sb @ u ''.json'') (j_records j)))"

section \<open>Initialization\<close>

definition receipt_fields :: "ustr \<Rightarrow> string \<Rightarrow> nat \<Rightarrow> ustr \<Rightarrow> (ustr \<times> json) list" where
  "receipt_fields pid mode n digest =
     [(u ''schema_version'', JStr (u ''0.1'')), (u ''project_id'', JStr pid),
      (u ''transaction_id'', JStr genesis_transaction_id), (u ''genesis_mode'', JStr (u mode)),
      (u ''manifest_member_count'', JInt (int n)), (u ''manifest_digest'', JStr digest)]"

definition genesis_event :: "ustr \<Rightarrow> json \<Rightarrow> json \<Rightarrow> json \<Rightarrow> ustr \<Rightarrow> json" where
  "genesis_event pid state fp recorded_at receipt_id = JObj
     [(u ''schema_version'', JStr (u ''0.1'')),
      (u ''transaction_id'', JStr genesis_transaction_id),
      (u ''event_type'', JStr (u ''GENESIS'')),
      (u ''project_id'', JStr pid),
      (u ''from_revision'', JNull),
      (u ''to_revision'', JInt 0),
      (u ''before_fingerprint'', JNull),
      (u ''after_fingerprint'', fp),
      (u ''after_state'', state),
      (u ''evidence_refs'', JList []),
      (u ''committed_at'', recorded_at),
      (u ''genesis_receipt_ref'',
        JObj [(u ''kind'', JStr (u ''genesis_receipt'')), (u ''id'', JStr receipt_id)])]"

definition genesis_members :: "record_arg list \<Rightarrow> rkey list" where
  "genesis_members records = sort (remdups (map (\<lambda>(kind, record_id, _). (kind, record_id)) records))"

definition genesis_plan :: "ext \<Rightarrow> ustr \<Rightarrow> json \<Rightarrow> record_arg list \<Rightarrow> store_error + json \<times> json \<times> json" where
  "genesis_plan E pid initial_state records =
     bindE (validate_state E pid initial_state) (\<lambda>state.
     bindE (anyE [differs state ''state_revision'' (JInt 0),
                  bindE (field state ''previous_state_fingerprint'') (\<lambda>v. Inr (v \<noteq> JNull))]) (\<lambda>bad.
     if bad then Inl RevisionError else
     let members = genesis_members records in
     bindE (manifest_digest E members) (\<lambda>digest.
     let fields = receipt_fields pid (if records = [] then ''BARE'' else ''WITH_RECORDS'')
           (length members) digest in
     bindE (genesis_receipt_id E (JObj fields)) (\<lambda>receipt_id.
     bindE (field state ''semantic_fingerprint'') (\<lambda>fp.
     bindE (bindE (field state ''state_metadata'') (\<lambda>m. field m ''recorded_at'')) (\<lambda>recorded_at.
     let event = genesis_event pid state fp recorded_at receipt_id in
     bindE (verify_event E pid event None) (\<lambda>_.
     Inr (state, event, JObj (fields @ [(u ''genesis_receipt_id'', JStr receipt_id)])))))))))"

definition initialize :: "ext \<Rightarrow> ustr \<Rightarrow> json \<Rightarrow> record_arg list \<Rightarrow> fault \<Rightarrow> json op" where
  "initialize E pid initial_state records fault =
     bindS (liftS (project_path pid)) (\<lambda>_.
     bindS (readS (\<lambda>fs. ensureE (fs_lineage fs = None) AlreadyInitializedError)) (\<lambda>_.
     bindS (liftS (genesis_plan E pid initial_state records)) (\<lambda>(state, event, receipt).
     let tx = genesis_transaction_id in
     if records \<noteq> [] then
       bindS (make_journal tx True) (\<lambda>_.
       bindS (write_canonical E event (put_event tx)) (\<lambda>_.
       bindS (hit fault After_Journal_Created) (\<lambda>_.
       bindS (write_canonical E state (put_state tx)) (\<lambda>_.
       bindS (hit fault After_Staged_State_Written) (\<lambda>_.
       bindS (stage_records E tx records) (\<lambda>_.
       bindS (write_canonical E receipt put_receipt) (\<lambda>_.
       bindS (hit fault After_Staged_Records_Written) (\<lambda>_.
       bindS (update_journal tx (\<lambda>j. j\<lparr> j_intent := True \<rparr>)) (\<lambda>_.
       bindS (hit fault After_Commit_Intent) (\<lambda>_.
       bindS (append_event E event) (\<lambda>_.
       bindS (hit fault After_Lineage_Append) (\<lambda>_.
       bindS (promote_staged_records tx) (\<lambda>_.
       bindS (hit fault After_Records_Promoted) (\<lambda>_.
       bindS (hit fault Before_Current_Replace) (\<lambda>_.
       bindS (write_canonical E state put_current) (\<lambda>_.
       bindS (hit fault After_Current_Replace) (\<lambda>_.
       bindS (hit fault Before_Committed_Marker) (\<lambda>_.
       bindS (update_journal tx (\<lambda>j. j\<lparr> j_committed := True \<rparr>)) (\<lambda>_.
       returnS state)))))))))))))))))))
     else
       bindS (write_canonical E receipt put_receipt) (\<lambda>_.
       bindS (write_canonical E event put_lineage) (\<lambda>_.
       bindS (write_canonical E state put_current) (\<lambda>_.
       returnS state))))))"

section \<open>Commit\<close>

text \<open>An identical replay must carry the identical record manifest.\<close>

definition replay_step :: "ext \<Rightarrow> ustr \<Rightarrow> fs \<Rightarrow> rkey list \<Rightarrow> record_arg \<Rightarrow> store_error + rkey list" where
  "replay_step E pid fs supplied r =
     (let (kind, record_id, body) = r; key = (kind, record_id)
      in if key \<in> set supplied then Inl RecordConflictError else
         bindE (resolve_record E pid kind record_id fs) (\<lambda>committed.
         case committed of
           None \<Rightarrow> Inl TransactionConflictError
         | Some c \<Rightarrow>
             bindE (canonical E c) (\<lambda>a.
             bindE (canonical E body) (\<lambda>b.
             if a \<noteq> b then Inl TransactionConflictError else Inr (supplied @ [key])))))"

definition commit_replay :: "ext \<Rightarrow> ustr \<Rightarrow> json \<Rightarrow> json \<Rightarrow> json \<Rightarrow> record_arg list \<Rightarrow> json op" where
  "commit_replay E pid txv prior event records =
     bindS (liftS (canonical E prior)) (\<lambda>a.
     bindS (liftS (canonical E event)) (\<lambda>b.
     bindS (checkS (a = b) TransactionConflictError) (\<lambda>_.
     bindS (readS (\<lambda>fs. foldE (replay_step E pid fs) [] records)) (\<lambda>supplied.
     bindS (liftS (orE (jstr txv) PyError)) (\<lambda>tx.
     bindS (readS (transaction_manifest_keys tx)) (\<lambda>claimed.
     bindS (checkS (set supplied = set claimed) TransactionConflictError) (\<lambda>_.
     bindS (liftS (field prior ''after_state'')) (\<lambda>after.
     bindS (write_canonical E after put_current) (\<lambda>_.
     returnS after)))))))))"

definition commit_fresh :: "ext \<Rightarrow> ustr \<Rightarrow> ustr \<Rightarrow> json \<Rightarrow> json \<Rightarrow> record_arg list \<Rightarrow> fault \<Rightarrow> json op" where
  "commit_fresh E pid tx event state records fault =
     bindS (make_journal tx False) (\<lambda>_.
     bindS (write_canonical E event (put_event tx)) (\<lambda>_.
     bindS (hit fault After_Journal_Created) (\<lambda>_.
     bindS (write_canonical E state (put_state tx)) (\<lambda>_.
     bindS (hit fault After_Staged_State_Written) (\<lambda>_.
     bindS (stage_records E tx records) (\<lambda>_.
     bindS (hit fault After_Staged_Records_Written) (\<lambda>_.
     bindS (update_journal tx (\<lambda>j. j\<lparr> j_intent := True \<rparr>)) (\<lambda>_.
     bindS (hit fault After_Commit_Intent) (\<lambda>_.
     bindS (append_event E event) (\<lambda>_.
     bindS (hit fault After_Lineage_Append) (\<lambda>_.
     bindS (promote_staged_records tx) (\<lambda>_.
     bindS (hit fault After_Records_Promoted) (\<lambda>_.
     bindS (hit fault Before_Current_Replace) (\<lambda>_.
     bindS (write_canonical E state put_current) (\<lambda>_.
     bindS (hit fault After_Current_Replace) (\<lambda>_.
     bindS (hit fault Before_Committed_Marker) (\<lambda>_.
     bindS (update_journal tx (\<lambda>j. j\<lparr> j_committed := True \<rparr>)) (\<lambda>_.
     returnS state))))))))))))))))))"

definition same_tx :: "json \<Rightarrow> json \<Rightarrow> store_error + bool" where
  "same_tx txv item = bindE (field item ''transaction_id'') (\<lambda>t. Inr (py_eq t txv))"

definition commit :: "ext \<Rightarrow> ustr \<Rightarrow> int \<Rightarrow> json \<Rightarrow> json \<Rightarrow> json \<Rightarrow> record_arg list \<Rightarrow> fault \<Rightarrow> json op" where
  "commit E pid expected_revision expected_fingerprint next_state transition records fault =
     bindS (liftS (project_path pid)) (\<lambda>_.
     bindS (readS (reconstruct E pid)) (\<lambda>current.
     bindS (readS events_of) (\<lambda>events.
     bindS (liftS (field transition ''transaction_id'')) (\<lambda>txv.
     bindS (liftS (filterE (same_tx txv) events)) (\<lambda>prior.
     case prior of
       p # _ \<Rightarrow> commit_replay E pid txv p transition records
     | [] \<Rightarrow>
         bindS (liftS (anyE [differs current ''state_revision'' (JInt expected_revision),
                             differs current ''semantic_fingerprint'' expected_fingerprint])) (\<lambda>stale.
         bindS (checkS (\<not> stale) StaleStateError) (\<lambda>_.
         bindS (liftS (validate_state E pid next_state)) (\<lambda>state.
         bindS (liftS (verify_event E pid transition (Some current))) (\<lambda>_.
         bindS (liftS (orE (jstr txv) PyError)) (\<lambda>tx.
         commit_fresh E pid tx transition state records fault))))))))))"

section \<open>Recovery and the current view\<close>

text \<open>One journal of \<open>recover\<close>: \<open>txids\<close> are the transaction ids already in the lineage.\<close>

definition in_txids :: "json \<Rightarrow> json list \<Rightarrow> bool" where
  "in_txids t txids \<longleftrightarrow> (\<exists>x \<in> set txids. py_eq t x)"

definition recover_genesis :: "ext \<Rightarrow> ustr \<Rightarrow> json list \<Rightarrow> json list \<Rightarrow> journal \<Rightarrow> json list op" where
  "recover_genesis E pid events txids j =
     bindS (readS (verify_genesis_journal E pid j)) (\<lambda>event.
     bindS (liftS (first_event_of genesis_transaction_id events)) (\<lambda>existing.
     case existing of
       Some e \<Rightarrow>
         bindS (liftS (canonical E e)) (\<lambda>a.
         bindS (liftS (canonical E event)) (\<lambda>b.
         bindS (checkS (a = b) CorruptStoreError) (\<lambda>_. returnS txids)))
     | None \<Rightarrow>
         bindS (append_event E event) (\<lambda>_.
         bindS (liftS (field event ''transaction_id'')) (\<lambda>t. returnS (t # txids)))))"

definition recover_transaction :: "ext \<Rightarrow> json list \<Rightarrow> journal \<Rightarrow> json list op" where
  "recover_transaction E txids j =
     bindS (liftS (bindE (orE (j_event j) FileNotFoundError) read_json_raw)) (\<lambda>event.
     bindS (liftS (field event ''transaction_id'')) (\<lambda>t.
     if in_txids t txids then returnS txids
     else bindS (append_event E event) (\<lambda>_. returnS (t # txids))))"

definition recover_journal :: "ext \<Rightarrow> ustr \<Rightarrow> json list \<Rightarrow> json list \<Rightarrow> ustr \<times> journal \<Rightarrow> json list op" where
  "recover_journal E pid events txids nj =
     (if \<not> j_intent (snd nj) then returnS txids else
      bindS (if fst nj = genesis_transaction_id then recover_genesis E pid events txids (snd nj)
             else recover_transaction E txids (snd nj)) (\<lambda>txids'.
      bindS (promote_staged_records (fst nj)) (\<lambda>_.
      bindS (update_journal (fst nj) (\<lambda>j. j\<lparr> j_committed := True \<rparr>)) (\<lambda>_.
      returnS txids'))))"

definition recover :: "ext \<Rightarrow> ustr \<Rightarrow> json op" where
  "recover E pid =
     bindS (liftS (project_path pid)) (\<lambda>_.
     bindS (readS events_of) (\<lambda>events.
     bindS (liftS (mapE (\<lambda>e. field e ''transaction_id'') events)) (\<lambda>txids.
     bindS (readS (\<lambda>fs. Inr (journals fs))) (\<lambda>js.
     bindS (foldS (recover_journal E pid events) txids js) (\<lambda>_.
     bindS (readS (committed_events E pid)) (\<lambda>committed.
     bindS (checkS (committed \<noteq> []) StateNotFoundError) (\<lambda>_.
     bindS (readS (reconstruct E pid)) (\<lambda>state.
     bindS (write_canonical E state put_current) (\<lambda>_.
     returnS state)))))))))"

definition load_current :: "ext \<Rightarrow> ustr \<Rightarrow> json op" where
  "load_current E pid =
     bindS (liftS (project_path pid)) (\<lambda>_.
     bindS (readS (reconstruct E pid)) (\<lambda>reconstructed.
     bindS (readS (\<lambda>fs. Inr (fs_current fs))) (\<lambda>view.
     case view of
       None \<Rightarrow> bindS (write_canonical E reconstructed put_current) (\<lambda>_. returnS reconstructed)
     | Some b \<Rightarrow>
         bindS (liftS (read_json b)) (\<lambda>v.
         bindS (liftS (validate_state E pid v)) (\<lambda>current.
         bindS (liftS (canonical E current)) (\<lambda>x.
         bindS (liftS (canonical E reconstructed)) (\<lambda>y.
         if x = y then returnS current else
         bindS (liftS (bindE (field reconstructed ''state_revision'') add_one)) (\<lambda>ahead.
         if is_some (jfield current ''state_revision'') ahead then returnS reconstructed
         else raiseS CorruptStoreError))))))))"

end
