(* ===== verification/StoreSafety.thy ===== *)
theory StoreSafety
  imports Store "HOL-Library.Sublist"
begin

text \<open>
  What every operation of the store keeps, whatever its arguments, whatever it finds on
  disk and wherever it is interrupted: the lineage only grows at its end, a record file never
  changes, a COMMITTED marker stays, and the coordination lane is not touched. The proofs are
  one pass of \<open>keeps\<close> rules over the definitions.
\<close>

section \<open>Relations an operation keeps\<close>

definition keeps :: "(fs \<Rightarrow> fs \<Rightarrow> bool) \<Rightarrow> 'a op \<Rightarrow> bool" where
  "keeps R m \<longleftrightarrow> (\<forall>s. R s (snd (m s)))"

lemma keepsI: "(\<And>s. R s (snd (m s))) \<Longrightarrow> keeps R m"
  by (simp add: keeps_def)

lemma keepsD: "keeps R m \<Longrightarrow> R s (snd (m s))"
  by (simp add: keeps_def)

lemma keeps_bindS:
  assumes "transp R" and "keeps R m" and "\<And>x. keeps R (f x)"
  shows "keeps R (bindS m f)"
proof (rule keepsI)
  fix s
  have m: "R s (snd (m s))" and f: "\<And>x s'. R s' (snd (f x s'))"
    using assms(2,3) by (auto simp: keeps_def)
  show "R s (snd (bindS m f s))"
  proof (cases "m s")
    case (Pair r s')
    show ?thesis
    proof (cases r)
      case (Inr x)
      then have "R s s'" using m Pair by simp
      then show ?thesis
        using transpD [OF assms(1) _ f [of s' x]] Pair Inr by (simp add: bindS_def)
    qed (use m Pair in \<open>simp add: bindS_def\<close>)
  qed
qed

lemma keeps_foldS:
  assumes "reflp R" and "transp R" and "\<And>a x. keeps R (f a x)"
  shows "keeps R (foldS f a xs)"
proof (induction xs arbitrary: a)
  case Nil
  then show ?case using assms(1) by (simp add: keeps_def returnS_def reflpD)
next
  case (Cons x xs)
  show ?case
    unfolding foldS.simps by (rule keeps_bindS [OF assms(2) assms(3)]) (rule Cons.IH)
qed

lemma keeps_pure:
  assumes "reflp R"
  shows "keeps R (returnS x)" "keeps R (raiseS e)" "keeps R (liftS q)" "keeps R (readS r)"
    "keeps R (checkS b e)" "keeps R (hit fault k)"
  using assms
  by (auto simp: keeps_def run_simps checkS_def hit_def reflpD split: option.splits)

section \<open>The relation\<close>

definition text_of :: "bytes option \<Rightarrow> bytes" where
  "text_of b = (case b of None \<Rightarrow> [] | Some l \<Rightarrow> l)"

definition committed_marker :: "fs \<Rightarrow> ustr \<Rightarrow> bool" where
  "committed_marker fs tx \<longleftrightarrow> (case journal_at fs tx of None \<Rightarrow> False | Some j \<Rightarrow> j_committed j)"

definition extends :: "fs \<Rightarrow> fs \<Rightarrow> bool" where
  "extends s t \<longleftrightarrow>
     prefix (text_of (fs_lineage s)) (text_of (fs_lineage t))
     \<and> map_of (fs_records s) \<subseteq>\<^sub>m map_of (fs_records t)
     \<and> (\<forall>tx. committed_marker s tx \<longrightarrow> committed_marker t tx)
     \<and> fs_ledger t = fs_ledger s \<and> fs_coord t = fs_coord s"

lemma extends_reflp: "reflp extends"
  by (auto simp: extends_def intro: reflpI)

lemma extends_transp: "transp extends"
  by (rule transpI) (auto simp: extends_def intro: prefix_order.order_trans map_le_trans)

lemma map_of_update: "map_of (AList.update k v al) = (map_of al)(k \<mapsto> v)"
  by (rule update_conv')

lemma journal_at_set_journal [simp]:
  "journal_at (set_journal tx j fs) = (journal_at fs)(tx \<mapsto> j)"
  by (rule ext) (simp add: journal_at_def set_journal_def map_of_update)

lemma set_journal_fields [simp]:
  "fs_lineage (set_journal tx j fs) = fs_lineage fs"
  "fs_current (set_journal tx j fs) = fs_current fs"
  "fs_receipt (set_journal tx j fs) = fs_receipt fs"
  "fs_records (set_journal tx j fs) = fs_records fs"
  "fs_ledger (set_journal tx j fs) = fs_ledger fs"
  "fs_coord (set_journal tx j fs) = fs_coord fs"
  by (simp_all add: set_journal_def)

lemma update_journal_run:
  "snd (update_journal tx f fs) =
     (case journal_at fs tx of None \<Rightarrow> fs | Some j \<Rightarrow> set_journal tx (f j) fs)"
  by (simp add: update_journal_def modifyS_def)

lemma extends_update_journal:
  assumes "\<And>j. j_committed j \<Longrightarrow> j_committed (f j)"
  shows "extends fs (snd (update_journal tx f fs))"
  using assms
  by (auto simp: update_journal_run extends_def committed_marker_def split: option.splits)

lemma keeps_update_journal:
  "(\<And>j. j_committed j \<Longrightarrow> j_committed (f j)) \<Longrightarrow> keeps extends (update_journal tx f)"
  by (rule keepsI) (rule extends_update_journal)

lemma keeps_write:
  assumes "\<And>b s. extends s (put_bytes b s)"
  shows "keeps extends (write_canonical E v put_bytes)"
  unfolding write_canonical_def
  by (rule keeps_bindS [OF extends_transp keeps_pure(3) [OF extends_reflp]])
    (use assms in \<open>simp add: keeps_def modifyS_def\<close>)

lemma extends_put_files:
  "extends s (put_current b s)" "extends s (put_receipt b s)"
  by (simp_all add: extends_def put_current_def put_receipt_def committed_marker_def journal_at_def)

lemma extends_append_lineage: "extends s (append_lineage b s)"
  by (simp add: extends_def append_lineage_def text_of_def committed_marker_def journal_at_def)

lemma extends_put_journal_files:
  "extends s (put_event tx b s)" "extends s (put_state tx b s)" "extends s (put_manifest tx b s)"
  "extends s (write_staged tx kb s)"
  unfolding put_event_def put_state_def put_manifest_def write_staged_def
  by (rule extends_update_journal, simp)+

lemmas extends_puts = extends_put_files extends_append_lineage extends_put_journal_files

lemma extends_fold: "(\<And>x s. extends s (f x s)) \<Longrightarrow> extends s (fold f xs s)"
proof (induction xs arbitrary: s)
  case Nil
  show ?case using extends_reflp by (simp add: reflpD)
next
  case (Cons x xs)
  then have "extends s (f x s)" "extends (f x s) (fold f xs (f x s))" by auto
  then show ?case using transpD [OF extends_transp] by simp
qed

lemma extends_set_journal: "journal_at s tx = None \<Longrightarrow> extends s (set_journal tx j s)"
  by (auto simp: extends_def committed_marker_def split: option.splits)

lemma journal_at_None: "map_of (fs_recovery s) tx = None \<Longrightarrow> journal_at s tx = None"
  by (simp add: journal_at_def)

lemma keeps_make_journal: "keeps extends (make_journal tx b)"
  by (rule keepsI)
    (auto simp: make_journal_def journal_at_None reflpD [OF extends_reflp]
      intro!: extends_set_journal split: option.splits rentry.splits)

lemma keeps_modify: "(\<And>s. extends s (f s)) \<Longrightarrow> keeps extends (modifyS f)"
  by (simp add: keeps_def modifyS_def)

lemma keeps_promote_one: "keeps extends (promote_one sb)"
  unfolding promote_one_def
proof (rule keepsI)
  fix s
  have "extends s (put_record path b s)" if "map_of (fs_records s) path = None" for path b
    using that by (auto simp: extends_def put_record_def map_of_update map_le_def
        committed_marker_def journal_at_def)
  then show "extends s (snd (bindS (liftS (let (kind, record_id) = partition_stem (fst sb)
      in record_path kind record_id)) (\<lambda>path. bindS (readS (\<lambda>fs. Inr (map_of (fs_records fs) path)))
      (\<lambda>target. case target of Some existing \<Rightarrow> checkS (existing = snd sb) CorruptStoreError
       | None \<Rightarrow> modifyS (put_record path (snd sb)))) s))"
    by (auto simp: run_simps checkS_def reflpD [OF extends_reflp] split: sum.splits option.splits prod.splits)
qed

lemmas keeps_rules =
  keeps_bindS [OF extends_transp] keeps_foldS [OF extends_reflp extends_transp]
  keeps_pure [OF extends_reflp] keeps_make_journal keeps_promote_one keeps_update_journal

lemma keeps_stage_records: "keeps extends (stage_records E tx records)"
  unfolding stage_records_def
  by (auto intro!: keeps_rules keeps_write keeps_modify extends_puts extends_fold
      split: prod.splits)

lemma keeps_promote: "keeps extends (promote_staged_records tx)"
  unfolding promote_staged_records_def by (auto intro!: keeps_rules split: option.splits)

lemma keeps_append_event: "keeps extends (append_event E v)"
  unfolding append_event_def by (rule keeps_write) (rule extends_puts)

lemmas keeps_store = keeps_rules keeps_write extends_puts keeps_stage_records keeps_promote
  keeps_append_event

lemma keeps_commit_fresh: "keeps extends (commit_fresh E pid tx event state records fault)"
  unfolding commit_fresh_def by (intro keeps_store) auto

lemma keeps_commit_replay: "keeps extends (commit_replay E pid txv p event records)"
  unfolding commit_replay_def by (intro keeps_store)

lemma keeps_commit: "keeps extends (commit E pid r fp next_state transition records fault)"
  unfolding commit_def
  by (intro keeps_store) (auto intro!: keeps_store keeps_commit_fresh keeps_commit_replay
      split: list.splits)

lemma keeps_recover_journal: "keeps extends (recover_journal E pid events txids nj)"
  unfolding recover_journal_def recover_genesis_def recover_transaction_def
  by (auto intro!: keeps_store split: option.splits)

lemma keeps_recover: "keeps extends (recover E pid)"
  unfolding recover_def by (intro keeps_store keeps_recover_journal)

lemma keeps_load_current: "keeps extends (load_current E pid)"
  unfolding load_current_def by (auto intro!: keeps_store split: option.splits)

text \<open>\<open>initialize\<close> is the one operation that sets the lineage instead of appending to it; its
  guard makes that the same thing.\<close>

definition extends_files :: "fs \<Rightarrow> fs \<Rightarrow> bool" where
  "extends_files s t \<longleftrightarrow> extends (s\<lparr> fs_lineage := None \<rparr>) (t\<lparr> fs_lineage := None \<rparr>)"

lemma extends_files_iff: "extends_files s t \<longleftrightarrow>
     map_of (fs_records s) \<subseteq>\<^sub>m map_of (fs_records t)
     \<and> (\<forall>tx. committed_marker s tx \<longrightarrow> committed_marker t tx)
     \<and> fs_ledger t = fs_ledger s \<and> fs_coord t = fs_coord s"
  by (simp add: extends_files_def extends_def committed_marker_def journal_at_def)

lemma extends_files_transp: "transp extends_files" and extends_files_reflp: "reflp extends_files"
  by (auto simp: extends_files_iff intro!: transpI reflpI intro: map_le_trans)

lemma keeps_files: "keeps extends m \<Longrightarrow> keeps extends_files m"
  by (auto simp: keeps_def extends_files_iff extends_def)

lemma keeps_files_lineage: "keeps extends_files (write_canonical E v put_lineage)"
  unfolding write_canonical_def
  by (intro keeps_bindS [OF extends_files_transp] keeps_pure [OF extends_files_reflp] keepsI)
    (auto simp: extends_files_iff modifyS_def put_lineage_def committed_marker_def journal_at_def)

lemma keeps_initialize: "keeps extends (initialize E pid v records fault)"
proof (rule keepsI)
  fix s
  have "keeps extends_files (initialize E pid v records fault)"
    unfolding initialize_def Let_def
    by (auto intro!: keeps_bindS [OF extends_files_transp] keeps_pure [OF extends_files_reflp]
        keeps_files_lineage keeps_files [OF keeps_make_journal] keeps_files [OF keeps_update_journal]
        keeps_files [OF keeps_write] extends_puts keeps_files [OF keeps_stage_records]
        keeps_files [OF keeps_promote] keeps_files [OF keeps_append_event] split: prod.splits)
  then have "extends_files s (snd (initialize E pid v records fault s))" by (rule keepsD)
  moreover have "snd (initialize E pid v records fault s) = s" if "fs_lineage s \<noteq> None"
    using that by (cases "project_path pid") (auto simp: initialize_def run_simps ensureE_def)
  ultimately show "extends s (snd (initialize E pid v records fault s))"
    by (cases "fs_lineage s = None") (auto simp: extends_files_iff extends_def text_of_def)
qed

end
