(* ===== verification/StoreCommit.thy ===== *)
theory StoreCommit
  imports StoreSafety
begin

text \<open>
  Atomicity of \<open>commit\<close>. A store is \<open>settled\<close> on a list of events and a state when its
  lineage file is those events, one line each, all of them committed, and every journal that
  reached its COMMIT_INTENT is complete; it is \<open>pending\<close> on one more event between that
  event's COMMIT_INTENT and its COMMITTED marker. Commit leads from settled to settled; a
  crash before the intent leaves it settled on the old state, a crash after it leaves it
  pending, where readers still see the old state and \<open>recover\<close> leads to settled on the new one.
\<close>

section \<open>The lineage file\<close>

definition line_safe :: "json \<Rightarrow> bool" where
  "line_safe e \<longleftrightarrow> (\<forall>c \<in> set (dumps e). \<not> is_linebreak c)"

definition event_line :: "json \<Rightarrow> bytes \<Rightarrow> bool" where
  "event_line e b \<longleftrightarrow> canon e \<and> utf8_encode (dumps e) = Some b \<and> line_safe e"

definition lineage_is :: "fs \<Rightarrow> json list \<Rightarrow> bool" where
  "lineage_is fs es \<longleftrightarrow>
     (\<exists>bs. list_all2 event_line es bs \<and> fs_lineage fs = Some (concat (map (\<lambda>b. b @ [10]) bs)))"

lemma line_safe_iff: "canon e \<Longrightarrow> line_safe e \<longleftrightarrow> (\<forall>c \<in> set (dumps e). c \<notin> {0x85, 0x2028, 0x2029})"
  using dumps_no_control by (fastforce simp: line_safe_def is_linebreak_def)

lemma utf8_decode_lines:
  "list_all2 event_line es bs \<Longrightarrow>
   utf8_decode (concat (map (\<lambda>b. b @ [10]) bs)) = Some (concat (map (\<lambda>l. l @ [10]) (map dumps es)))"
proof (induction rule: list_all2_induct)
  case (Cons e es b bs)
  then have "utf8_encode (dumps e @ [10]) = Some (b @ [10])"
    by (simp add: event_line_def utf8_encode_append utf8_encode_newline)
  from utf8_decode_append [OF this] Cons.IH show ?case by simp
qed simp

lemma dumps_nonempty: "canon e \<Longrightarrow> dumps e \<noteq> []"
  using dumps_hd [of e] by auto

lemma events_of_lineage:
  assumes "lineage_is fs es"
  shows "events_of fs = Inr es"
proof -
  obtain bs where bs: "list_all2 event_line es bs"
    "fs_lineage fs = Some (concat (map (\<lambda>b. b @ [10]) bs))"
    using assms by (auto simp: lineage_is_def)
  let ?t = "concat (map (\<lambda>l. l @ [10]) (map dumps es))"
  have ev: "canon e" "line_safe e" if "e \<in> set es" for e
    using bs(1) that by (auto simp: event_line_def list_all2_conv_all_nth in_set_conv_nth)
  then have safe: "\<forall>l\<in>set (map dumps es). \<forall>c\<in>set l. \<not> is_linebreak c"
    by (auto simp: line_safe_def)
  have "13 \<notin> set ?t"
    using safe by (auto simp: is_linebreak_def)
  then have "read_text (concat (map (\<lambda>b. b @ [10]) bs)) = Some ?t"
    by (simp add: read_text_def utf8_decode_lines [OF bs(1)] universal_newlines_id)
  moreover have "filter (\<lambda>l. l \<noteq> []) (py_splitlines ?t) = map dumps es"
    unfolding py_splitlines_lines [OF safe] using dumps_nonempty ev(1)
    by (auto simp: filter_id_conv)
  moreover have "mapE (\<lambda>line. orE (loads line) CorruptStoreError) (map dumps es) = Inr es"
    using ev(1) by (auto simp: mapE_Inr_iff list_all2_map1 loads_dumps list_all2_same)
  ultimately show ?thesis
    by (simp add: events_of_def bs(2))
qed

lemma lineage_is_cong: "fs_lineage t = fs_lineage s \<Longrightarrow> lineage_is t es = lineage_is s es"
  by (simp add: lineage_is_def)

lemma lineage_is_append:
  assumes "lineage_is fs es" and "event_line e b"
  shows "lineage_is (append_lineage b fs) (es @ [e])"
proof -
  obtain bs where "list_all2 event_line es bs"
    "fs_lineage fs = Some (concat (map (\<lambda>b. b @ [10]) bs))"
    using assms(1) by (auto simp: lineage_is_def)
  then show ?thesis
    using assms(2) unfolding lineage_is_def
    by (intro exI [of _ "bs @ [b]"]) (simp add: append_lineage_def list_all2_appendI)
qed

section \<open>What decides whether a transaction is committed\<close>

text \<open>Two stores that agree on these parts agree on every committed event.\<close>

definition tx_of :: "json \<Rightarrow> ustr option" where
  "tx_of e = (case jfield e ''transaction_id'' of Some (JStr t) \<Rightarrow> Some t | _ \<Rightarrow> None)"

lemma tx_of_field: "tx_of e = Some t \<Longrightarrow> field e ''transaction_id'' = Inr (JStr t)"
  by (auto simp: tx_of_def field_def split: option.splits json.splits)

lemma first_event_of_append:
  "first_event_of tx es = Inr (Some g) \<Longrightarrow> first_event_of tx (es @ ds) = Inr (Some g)"
proof (induction es)
  case (Cons e es)
  then show ?case
    by (cases "get_field e ''transaction_id''") (simp_all split: if_splits)
qed simp

lemma genesis_committed_cong:
  assumes "map_of (fs_recovery t) genesis_transaction_id = map_of (fs_recovery s) genesis_transaction_id"
    and "fs_receipt t = fs_receipt s" and "find_genesis_event t = find_genesis_event s"
  shows "genesis_transaction_committed E pid t = genesis_transaction_committed E pid s"
proof -
  have r: "read_genesis_receipt E pid t = read_genesis_receipt E pid s"
    using assms(2) by (simp add: read_genesis_receipt_def)
  then have v: "verify_genesis_journal E pid j t = verify_genesis_journal E pid j s" for j
    by (simp add: verify_genesis_journal_def)
  show ?thesis
    unfolding genesis_transaction_committed_def r v assms(1,3) ..
qed

lemma transaction_committed_cong:
  assumes "genesis_transaction_committed E pid t = genesis_transaction_committed E pid s"
    and "committed_marker t tx = committed_marker s tx"
  shows "transaction_committed E pid (JStr tx) t = transaction_committed E pid (JStr tx) s"
  using assms by (simp add: transaction_committed_def committed_marker_def)

lemma take_committed_cong:
  assumes "\<And>e x. e \<in> set es \<Longrightarrow> field e ''transaction_id'' = Inr x \<Longrightarrow>
      transaction_committed E pid x t = transaction_committed E pid x s"
  shows "take_committed E pid t es = take_committed E pid s es"
  using assms
proof (induction es)
  case (Cons e es)
  have es: "take_committed E pid t es = take_committed E pid s es"
    by (rule Cons.IH) (rule Cons.prems, auto)
  show ?case
  proof (cases "field e ''transaction_id''")
    case (Inr x)
    then have "transaction_committed E pid x t = transaction_committed E pid x s"
      by (rule Cons.prems [OF list.set_intros(1)])
    then show ?thesis
      unfolding take_committed.simps Inr bindE.simps es by simp
  qed simp
qed simp

lemma take_committed_append:
  assumes "take_committed E pid s es = Inr es"
  shows "take_committed E pid s (es @ ds) =
    bindE (take_committed E pid s ds) (\<lambda>r. Inr (es @ r))"
  using assms
proof (induction es)
  case Nil
  show ?case by (cases "take_committed E pid s ds") auto
next
  case (Cons e es)
  then obtain x where x: "field e ''transaction_id'' = Inr x"
    "transaction_committed E pid x s = Inr True" "take_committed E pid s es = Inr es"
    by (auto split: if_splits)
  with Cons.IH show ?case by (cases "take_committed E pid s ds") auto
qed

lemma replay_events_append:
  "replay_events E pid p (es @ [e]) =
   bindE (replay_events E pid p es) (\<lambda>q. bindE (verify_event E pid e q) (\<lambda>s. Inr (Some s)))"
proof -
  have "bindE (bindE m (\<lambda>s. Inr (Some s))) Inr = bindE m (\<lambda>s. Inr (Some s))"
    for m :: "store_error + json"
    by (cases m) auto
  then show ?thesis
    unfolding replay_events_def foldE_append by simp
qed

section \<open>Settled and pending stores\<close>

definition stem_path :: "ustr \<Rightarrow> store_error + rkey" where
  "stem_path s = (let (kind, record_id) = partition_stem s in record_path kind record_id)"

definition promoted :: "fs \<Rightarrow> ustr \<times> bytes \<Rightarrow> bool" where
  "promoted fs sb \<longleftrightarrow> (\<exists>p. stem_path (fst sb) = Inr p \<and> map_of (fs_records fs) p = Some (snd sb))"

definition promotable :: "fs \<Rightarrow> (ustr \<times> bytes) list \<Rightarrow> bool" where
  "promotable fs rs \<longleftrightarrow>
     (\<forall>sb \<in> set rs. \<exists>p. stem_path (fst sb) = Inr p
        \<and> (map_of (fs_records fs) p = None \<or> map_of (fs_records fs) p = Some (snd sb)))
     \<and> (\<forall>sb \<in> set rs. \<forall>sb' \<in> set rs. stem_path (fst sb) = stem_path (fst sb') \<longrightarrow> snd sb = snd sb')"

definition journal_done :: "fs \<Rightarrow> json list \<Rightarrow> ustr \<Rightarrow> journal \<Rightarrow> bool" where
  "journal_done fs es n j \<longleftrightarrow>
     j_committed j
     \<and> (n \<noteq> genesis_transaction_id \<longrightarrow>
          (\<exists>b ev t. j_event j = Some b \<and> read_json b = Inr ev \<and> tx_of ev = Some t
             \<and> Some t \<in> tx_of ` set es))
     \<and> (\<forall>sb \<in> set (j_records j). promoted fs sb)"

definition common :: "ext \<Rightarrow> ustr \<Rightarrow> fs \<Rightarrow> json list \<Rightarrow> json \<Rightarrow> bool" where
  "common E pid fs es st \<longleftrightarrow>
     name_ok pid \<and> es \<noteq> []
     \<and> genesis_transaction_committed E pid fs = Inr True
     \<and> (\<forall>e \<in> set es. \<exists>t. tx_of e = Some t \<and> (t = genesis_transaction_id \<or> committed_marker fs t))
     \<and> replay_events E pid None es = Inr (Some st)
     \<and> (\<exists>b. canonical E st = Inr b)
     \<and> distinct (map fst (fs_recovery fs))"

definition settled :: "ext \<Rightarrow> ustr \<Rightarrow> fs \<Rightarrow> json list \<Rightarrow> json \<Rightarrow> bool" where
  "settled E pid fs es st \<longleftrightarrow>
     common E pid fs es st \<and> lineage_is fs es
     \<and> (\<forall>n j. journal_at fs n = Some j \<and> j_intent j \<longrightarrow> journal_done fs es n j)"

definition pending :: "ext \<Rightarrow> ustr \<Rightarrow> fs \<Rightarrow> json list \<Rightarrow> json \<Rightarrow> ustr \<Rightarrow> json \<Rightarrow> json \<Rightarrow> bool" where
  "pending E pid fs es st tx e st' \<longleftrightarrow>
     common E pid fs es st \<and> (lineage_is fs es \<or> lineage_is fs (es @ [e]))
     \<and> (\<forall>n j. n \<noteq> tx \<and> journal_at fs n = Some j \<and> j_intent j \<longrightarrow> journal_done fs es n j)
     \<and> tx \<noteq> genesis_transaction_id \<and> tx_of e = Some tx \<and> Some tx \<notin> tx_of ` set es
     \<and> (\<exists>j b. journal_at fs tx = Some j \<and> j_intent j \<and> \<not> j_committed j
          \<and> j_event j = Some b \<and> read_json b = Inr e \<and> promotable fs (j_records j))
     \<and> (\<exists>b. canonical E e = Inr b \<and> event_line e b)
     \<and> verify_event E pid e (Some st) = Inr st' \<and> (\<exists>b. canonical E st' = Inr b)"

lemma take_committed_common:
  assumes "common E pid fs es st"
  shows "take_committed E pid fs es = Inr es"
proof -
  have "\<forall>e \<in> set es. \<exists>t. tx_of e = Some t \<and> (t = genesis_transaction_id \<or> committed_marker fs t)"
    and g: "genesis_transaction_committed E pid fs = Inr True"
    using assms by (auto simp: common_def)
  then show ?thesis
  proof (induction es)
    case (Cons e es)
    then obtain t where t: "tx_of e = Some t" "t = genesis_transaction_id \<or> committed_marker fs t"
      by auto
    then have "transaction_committed E pid (JStr t) fs = Inr True"
      using g by (auto simp: transaction_committed_def committed_marker_def)
    with Cons tx_of_field [OF t(1)] show ?case by simp
  qed simp
qed

lemma settled_committed_events: "settled E pid fs es st \<Longrightarrow> committed_events E pid fs = Inr es"
  using events_of_lineage take_committed_common
  by (fastforce simp: settled_def committed_events_def)

lemma settled_reconstruct: "settled E pid fs es st \<Longrightarrow> reconstruct E pid fs = Inr st"
  using settled_committed_events [of E pid fs es st]
  by (auto simp: reconstruct_def settled_def common_def)

lemma pending_committed_events:
  assumes "pending E pid fs es st tx e st'"
  shows "committed_events E pid fs = Inr es"
proof -
  have c: "take_committed E pid fs es = Inr es"
    using assms by (intro take_committed_common [where st = st]) (simp add: pending_def)
  have "transaction_committed E pid (JStr tx) fs = Inr False" "tx_of e = Some tx"
    using assms by (auto simp: pending_def transaction_committed_def)
  then have "take_committed E pid fs [e] = Inr []"
    by (simp add: tx_of_field)
  then have "take_committed E pid fs (es @ [e]) = Inr es"
    by (simp add: take_committed_append [OF c])
  moreover have "events_of fs = Inr es \<or> events_of fs = Inr (es @ [e])"
    using assms events_of_lineage by (auto simp: pending_def)
  ultimately show ?thesis
    using c by (auto simp: committed_events_def)
qed

lemma pending_reconstruct: "pending E pid fs es st tx e st' \<Longrightarrow> reconstruct E pid fs = Inr st"
  using pending_committed_events [of E pid fs es st tx e st']
  by (auto simp: reconstruct_def pending_def common_def)

section \<open>Recovery\<close>

lemma foldS_append: "foldS f a (xs @ ys) = bindS (foldS f a xs) (\<lambda>b. foldS f b ys)"
  by (induction xs arbitrary: a) (simp_all add: bindS_assoc)

lemma set_journal_same: "journal_at s n = Some j \<Longrightarrow> set_journal n j s = s"
proof -
  assume "journal_at s n = Some j"
  then have "map_of (fs_recovery s) n = Some (RDir j)"
    by (auto simp: journal_at_def split: option.splits rentry.splits)
  moreover have "map_of al k = Some v \<Longrightarrow> AList.update k v al = al" for al and k :: ustr and v :: rentry
    by (induction al) (auto split: if_splits)
  ultimately show ?thesis by (simp add: set_journal_def)
qed

lemma journals_iff:
  assumes "distinct (map fst (fs_recovery fs))"
  shows "(n, j) \<in> set (journals fs) \<longleftrightarrow> journal_at fs n = Some j"
proof -
  have "(n, j) \<in> set (journals fs) \<longleftrightarrow> (n, RDir j) \<in> set (fs_recovery fs)"
    by (auto simp: journals_def split: rentry.splits)
  also have "\<dots> \<longleftrightarrow> map_of (fs_recovery fs) n = Some (RDir j)"
    using assms by (simp add: map_of_eq_Some_iff)
  finally show ?thesis
    by (auto simp: journal_at_def split: option.splits rentry.splits)
qed

lemma distinct_journals:
  assumes "distinct (map fst (fs_recovery fs))"
  shows "distinct (map fst (journals fs))"
proof -
  have "distinct (map fst (concat (map (\<lambda>(n, e). case e of RDir j \<Rightarrow> [(n, j)] | RFile \<Rightarrow> []) xs)))
      \<and> fst ` set (concat (map (\<lambda>(n, e). case e of RDir j \<Rightarrow> [(n, j)] | RFile \<Rightarrow> []) xs)) \<subseteq> fst ` set xs"
    if "distinct (map fst xs)" for xs :: "(ustr \<times> rentry) list"
    using that by (induction xs) (force split: rentry.splits)+
  with assms show ?thesis by (simp add: journals_def)
qed

lemma promote_one_run:
  "promote_one sb s = (case stem_path (fst sb) of Inl e \<Rightarrow> (Inl e, s) | Inr p \<Rightarrow>
     (case map_of (fs_records s) p of
        Some b \<Rightarrow> (if b = snd sb then (Inr (), s) else (Inl CorruptStoreError, s))
      | None \<Rightarrow> (Inr (), put_record p (snd sb) s)))"
  by (simp add: promote_one_def stem_path_def run_simps checkS_def case_prod_beta
      split: sum.splits option.splits)

lemma promote_done: "\<forall>sb \<in> set rs. promoted s sb \<Longrightarrow> foldS (\<lambda>_. promote_one) () rs s = (Inr (), s)"
proof (induction rs)
  case (Cons sb rs)
  then have "promote_one sb s = (Inr (), s)"
    by (auto simp: promote_one_run promoted_def)
  with Cons show ?case by (simp add: bindS_run)
qed (simp add: run_simps)

lemma put_record_fields [simp]:
  "fs_lineage (put_record p b s) = fs_lineage s" "fs_current (put_record p b s) = fs_current s"
  "fs_receipt (put_record p b s) = fs_receipt s" "fs_recovery (put_record p b s) = fs_recovery s"
  "fs_ledger (put_record p b s) = fs_ledger s" "fs_coord (put_record p b s) = fs_coord s"
  "map_of (fs_records (put_record p b s)) = (map_of (fs_records s))(p \<mapsto> b)"
  by (simp_all add: put_record_def map_of_update)

definition with_records :: "(rkey \<times> bytes) list \<Rightarrow> fs \<Rightarrow> fs" where
  "with_records R s = s\<lparr> fs_records := R \<rparr>"

lemma promote_run:
  assumes "promotable s rs"
  shows "\<exists>R. foldS (\<lambda>_. promote_one) () rs s = (Inr (), with_records R s)
    \<and> map_of (fs_records s) \<subseteq>\<^sub>m map_of R
    \<and> (\<forall>sb \<in> set rs. promoted (with_records R s) sb)"
  using assms
proof (induction rs arbitrary: s)
  case Nil
  then show ?case
    by (intro exI [of _ "fs_records s"]) (simp add: with_records_def run_simps)
next
  case (Cons sb rs)
  have ex: "\<exists>p. stem_path (fst x) = Inr p
        \<and> (map_of (fs_records s) p = None \<or> map_of (fs_records s) p = Some (snd x))"
    if "x \<in> set (sb # rs)" for x
    using Cons.prems that unfolding promotable_def by blast
  have eq: "snd x = snd y"
    if "x \<in> set (sb # rs)" "y \<in> set (sb # rs)" "stem_path (fst x) = stem_path (fst y)" for x y
    using Cons.prems that unfolding promotable_def by blast
  obtain p where p: "stem_path (fst sb) = Inr p"
    "map_of (fs_records s) p = None \<or> map_of (fs_records s) p = Some (snd sb)"
    using ex [of sb] by auto
  define s1 where "s1 = (if map_of (fs_records s) p = None then put_record p (snd sb) s else s)"
  have run: "promote_one sb s = (Inr (), s1)"
    using p by (auto simp: promote_one_run s1_def)
  have m: "map_of (fs_records s1) = (map_of (fs_records s))(p \<mapsto> snd sb)"
    using p(2) by (auto simp: s1_def fun_upd_idem)
  have "promotable s1 rs"
    unfolding promotable_def
  proof (intro conjI ballI impI)
    fix x assume x: "x \<in> set rs"
    then obtain q where q: "stem_path (fst x) = Inr q"
      "map_of (fs_records s) q = None \<or> map_of (fs_records s) q = Some (snd x)"
      using ex [of x] by auto
    moreover have "snd x = snd sb" if "p = q"
      using eq [of x sb] x p(1) q(1) that by simp
    ultimately show "\<exists>p. stem_path (fst x) = Inr p
        \<and> (map_of (fs_records s1) p = None \<or> map_of (fs_records s1) p = Some (snd x))"
      by (auto simp: m)
  next
    fix x y assume "x \<in> set rs" "y \<in> set rs" "stem_path (fst x) = stem_path (fst y)"
    then show "snd x = snd y" using eq [of x y] by simp
  qed
  from Cons.IH [OF this] obtain R where R:
    "foldS (\<lambda>_. promote_one) () rs s1 = (Inr (), with_records R s1)"
    "map_of (fs_records s1) \<subseteq>\<^sub>m map_of R" "\<forall>sb \<in> set rs. promoted (with_records R s1) sb" by blast
  have s1: "with_records R s1 = with_records R s"
    by (simp add: s1_def with_records_def put_record_def)
  have "map_of R p = Some (snd sb)"
    using R(2) m by (auto simp: map_le_def)
  then have "promoted (with_records R s) sb"
    using p(1) by (simp add: promoted_def with_records_def)
  moreover have "map_of (fs_records s) \<subseteq>\<^sub>m map_of (fs_records s1)"
    using p(2) by (auto simp: m map_le_def)
  ultimately show ?case
    using R run s1 by (intro exI [of _ R]) (auto simp: bindS_run intro: map_le_trans)
qed

text \<open>A finished journal is visited by \<open>recover\<close> without effect.\<close>

definition visits_idly :: "ext \<Rightarrow> ustr \<Rightarrow> json list \<Rightarrow> fs \<Rightarrow> ustr \<Rightarrow> journal \<Rightarrow> bool" where
  "visits_idly E pid events s n j \<longleftrightarrow>
     journal_at s n = Some j \<and>
     (j_intent j \<longrightarrow> journal_done s events n j
        \<and> (n = genesis_transaction_id \<longrightarrow>
             (\<exists>ev e a. verify_genesis_journal E pid j s = Inr ev
                \<and> first_event_of genesis_transaction_id events = Inr (Some e)
                \<and> canonical E e = Inr a \<and> canonical E ev = Inr a)))"

definition ids_of :: "json list \<Rightarrow> json list" where
  "ids_of es = map (\<lambda>e. JStr (the (tx_of e))) es"

lemma in_ids_of:
  assumes "\<forall>e \<in> set es. tx_of e \<noteq> None"
  shows "in_txids (JStr t) (ids_of es) \<longleftrightarrow> Some t \<in> tx_of ` set es"
  using assms by (force simp: in_txids_def ids_of_def)

lemma in_txids_mono: "in_txids t xs \<Longrightarrow> set xs \<subseteq> set ys \<Longrightarrow> in_txids t ys"
  by (auto simp: in_txids_def)

lemma recover_idle:
  assumes "visits_idly E pid events s n j" and "\<forall>e \<in> set events. tx_of e \<noteq> None"
    and "set (ids_of events) \<subseteq> set txids"
  shows "recover_journal E pid events txids (n, j) s = (Inr txids, s)"
proof (cases "j_intent j")
  case False
  then show ?thesis by (simp add: recover_journal_def run_simps)
next
  case True
  then have d: "journal_done s events n j" and at: "journal_at s n = Some j"
    using assms(1) by (auto simp: visits_idly_def)
  have "(if n = genesis_transaction_id then recover_genesis E pid events txids j
      else recover_transaction E txids j) s = (Inr txids, s)"
  proof (cases "n = genesis_transaction_id")
    case True
    then obtain ev e a where "verify_genesis_journal E pid j s = Inr ev"
      "first_event_of genesis_transaction_id events = Inr (Some e)"
      "canonical E e = Inr a" "canonical E ev = Inr a"
      using assms(1) \<open>j_intent j\<close> by (auto simp: visits_idly_def)
    with True show ?thesis by (simp add: recover_genesis_def run_simps)
  next
    case False
    then obtain b ev t where b: "j_event j = Some b" "read_json b = Inr ev" "tx_of ev = Some t"
      "Some t \<in> tx_of ` set events"
      using d by (auto simp: journal_done_def)
    have "in_txids (JStr t) txids"
      using in_ids_of [OF assms(2)] b(4) in_txids_mono [OF _ assms(3)] by blast
    with False b tx_of_field [OF b(3)] show ?thesis
      by (simp add: recover_transaction_def run_simps read_json_raw_eq)
  qed
  moreover have "promote_staged_records n s = (Inr (), s)"
    using d at promote_done [of "sort_key (\<lambda>sb. fst sb @ u ''.json'') (j_records j)" s]
    by (simp add: promote_staged_records_def run_simps journal_done_def)
  moreover have "update_journal n (\<lambda>j. j\<lparr> j_committed := True \<rparr>) s = (Inr (), s)"
  proof -
    have "j\<lparr> j_committed := True \<rparr> = j"
      using d by (simp add: journal_done_def)
    then show ?thesis
      using at by (simp add: update_journal_def modifyS_def set_journal_same)
  qed
  ultimately show ?thesis
    using True
    by (cases "n = genesis_transaction_id") (simp_all add: recover_journal_def bindS_run run_simps)
qed

lemma recover_idle_all:
  assumes "\<forall>(n, j) \<in> set js. visits_idly E pid events s n j"
    and "\<forall>e \<in> set events. tx_of e \<noteq> None" and "set (ids_of events) \<subseteq> set txids"
  shows "foldS (recover_journal E pid events) txids js s = (Inr txids, s)"
  using assms(1)
proof (induction js)
  case (Cons nj js)
  obtain n j where nj: "nj = (n, j)" by (cases nj)
  have "recover_journal E pid events txids nj s = (Inr txids, s)"
    unfolding nj using Cons.prems nj by (intro recover_idle assms(2,3)) auto
  with Cons show ?case by (simp add: bindS_run)
qed (simp add: run_simps)

lemma genesis_idle:
  assumes "genesis_transaction_committed E pid s = Inr True" and "events_of s = Inr events"
    and "journal_at s genesis_transaction_id = Some j" and "j_intent j"
  shows "\<exists>ev e a. verify_genesis_journal E pid j s = Inr ev
    \<and> first_event_of genesis_transaction_id events = Inr (Some e)
    \<and> canonical E e = Inr a \<and> canonical E ev = Inr a"
proof -
  have "map_of (fs_recovery s) genesis_transaction_id = Some (RDir j)"
    using assms(3) by (auto simp: journal_at_def split: option.splits rentry.splits)
  then show ?thesis
    using assms(1,2)
    by (auto simp: genesis_transaction_committed_def find_genesis_event_def
        split: if_splits option.splits)
qed

lemma genesis_found:
  assumes "genesis_transaction_committed E pid s = Inr True" and "events_of s = Inr events"
  shows "\<exists>g. first_event_of genesis_transaction_id events = Inr (Some g)"
  using assms
  by (fastforce simp: genesis_transaction_committed_def find_genesis_event_def
      split: if_splits option.splits rentry.splits)

lemma common_txs: "common E pid fs es st \<Longrightarrow> \<forall>e \<in> set es. tx_of e \<noteq> None"
  by (fastforce simp: common_def)

lemma ids_of_events: "\<forall>e \<in> set es. tx_of e \<noteq> None \<Longrightarrow>
    mapE (\<lambda>e. field e ''transaction_id'') es = Inr (ids_of es)"
  by (induction es) (auto simp: ids_of_def tx_of_field)

lemma settled_idle:
  assumes "settled E pid fs es st" and "journal_at fs n = Some j"
  shows "visits_idly E pid es fs n j"
  using assms genesis_idle [of E pid fs es j] events_of_lineage [of fs es]
  by (auto simp: visits_idly_def settled_def common_def)

text \<open>Recovery leaves a settled store as it is, but for the current view, which it rewrites.\<close>

lemma settled_recover:
  assumes "settled E pid fs es st" and "canonical E st = Inr b"
  shows "recover E pid fs = (Inr st, put_current b fs)"
proof -
  have c: "common E pid fs es st" using assms(1) by (simp add: settled_def)
  have ev: "events_of fs = Inr es"
    using assms(1) events_of_lineage by (simp add: settled_def)
  have "distinct (map fst (fs_recovery fs))" using c by (simp add: common_def)
  from journals_iff [OF this] have "\<forall>(n, j) \<in> set (journals fs). visits_idly E pid es fs n j"
    using settled_idle [OF assms(1)] by auto
  then have "foldS (recover_journal E pid es) (ids_of es) (journals fs) fs = (Inr (ids_of es), fs)"
    by (rule recover_idle_all [OF _ common_txs [OF c]]) simp
  moreover have "es \<noteq> []" "name_ok pid" using c by (auto simp: common_def)
  ultimately show ?thesis
    using ev ids_of_events [OF common_txs [OF c]] settled_committed_events [OF assms(1)]
      settled_reconstruct [OF assms(1)] assms(2)
    by (simp add: recover_def project_path_def run_simps bindS_run write_canonical_def checkS_def)
qed

lemma put_current_fields [simp]:
  "fs_lineage (put_current b s) = fs_lineage s" "fs_receipt (put_current b s) = fs_receipt s"
  "fs_recovery (put_current b s) = fs_recovery s" "fs_records (put_current b s) = fs_records s"
  "fs_ledger (put_current b s) = fs_ledger s" "fs_coord (put_current b s) = fs_coord s"
  "fs_current (put_current b s) = Some b"
  by (simp_all add: put_current_def)

lemma journal_at_put_current [simp]: "journal_at (put_current b s) = journal_at s"
  by (simp add: journal_at_def fun_eq_iff)

lemma find_genesis_cong: "fs_lineage t = fs_lineage s \<Longrightarrow> find_genesis_event t = find_genesis_event s"
  by (simp add: find_genesis_event_def events_of_def)

lemma settled_cong:
  assumes "settled E pid s es st" and "fs_lineage t = fs_lineage s" and "fs_receipt t = fs_receipt s"
    and "fs_recovery t = fs_recovery s" and "fs_records t = fs_records s"
  shows "settled E pid t es st"
proof -
  have at: "journal_at t = journal_at s"
    by (rule ext) (simp add: journal_at_def assms(4))
  have "genesis_transaction_committed E pid t = genesis_transaction_committed E pid s"
    by (rule genesis_committed_cong)
      (simp_all only: assms(3,4) find_genesis_cong [OF assms(2)])
  moreover have "journal_done t = journal_done s"
    by (intro ext) (simp add: journal_done_def promoted_def assms(5))
  ultimately show ?thesis
    using assms(1) by (simp add: settled_def common_def lineage_is_def assms(2,4) at committed_marker_def)
qed

lemma settled_put_current: "settled E pid s es st \<Longrightarrow> settled E pid (put_current b s) es st"
  by (rule settled_cong) simp_all

lemma map_leD: "m \<subseteq>\<^sub>m n \<Longrightarrow> m k = Some v \<Longrightarrow> n k = Some v"
  by (metis map_le_def domI)

lemma promoted_mono: "promoted s sb \<Longrightarrow> map_of (fs_records s) \<subseteq>\<^sub>m map_of (fs_records t) \<Longrightarrow> promoted t sb"
  unfolding promoted_def using map_leD by metis

lemma journal_done_mono:
  assumes "journal_done s es n j" and "map_of (fs_records s) \<subseteq>\<^sub>m map_of (fs_records t)"
    and "set es \<subseteq> set ds"
  shows "journal_done t ds n j"
  using assms(1,3) promoted_mono [OF _ assms(2)] unfolding journal_done_def
  by (meson image_mono subsetD)

lemma verify_genesis_journal_cong:
  "fs_receipt t = fs_receipt s \<Longrightarrow> verify_genesis_journal E pid j t = verify_genesis_journal E pid j s"
  by (simp add: verify_genesis_journal_def read_genesis_receipt_def)

lemma visits_idly_mono:
  assumes "visits_idly E pid events s n j" and "fs_receipt t = fs_receipt s"
    and "map_of (fs_records s) \<subseteq>\<^sub>m map_of (fs_records t)" and "journal_at t n = Some j"
  shows "visits_idly E pid events t n j"
  using assms(1,4) journal_done_mono [OF _ assms(3) subset_refl]
  by (auto simp: visits_idly_def verify_genesis_journal_cong [OF assms(2)])

text \<open>The one step that settles a further event: its journal is committed and its line is in
  the lineage.\<close>

lemma settle_event:
  assumes c: "common E pid s es st" and ev: "events_of s = Inr es \<or> events_of s = Inr (es @ [e])"
    and l: "lineage_is t (es @ [e])" and r: "fs_receipt t = fs_receipt s"
    and g: "tx \<noteq> genesis_transaction_id"
      "map_of (fs_recovery t) genesis_transaction_id = map_of (fs_recovery s) genesis_transaction_id"
    and oth: "\<And>n. n \<noteq> tx \<Longrightarrow> journal_at t n = journal_at s n"
    and j: "journal_at t tx = Some j'" "j_committed j'" "journal_done t (es @ [e]) tx j'"
    and e: "tx_of e = Some tx" "verify_event E pid e (Some st) = Inr st'" "canonical E st' = Inr b"
    and d: "distinct (map fst (fs_recovery t))"
    and dn: "\<And>n j. n \<noteq> tx \<Longrightarrow> journal_at s n = Some j \<Longrightarrow> j_intent j \<Longrightarrow> journal_done s es n j"
    and m: "map_of (fs_records s) \<subseteq>\<^sub>m map_of (fs_records t)"
  shows "settled E pid t (es @ [e]) st'"
proof -
  have gs: "genesis_transaction_committed E pid s = Inr True" using c by (simp add: common_def)
  have "first_event_of genesis_transaction_id (es @ [e]) = find_genesis_event s"
    using ev genesis_found [OF gs] first_event_of_append [of genesis_transaction_id es _ "[e]"]
    by (fastforce simp: find_genesis_event_def)
  then have "find_genesis_event t = find_genesis_event s"
    by (simp add: find_genesis_event_def events_of_lineage [OF l])
  then have gt: "genesis_transaction_committed E pid t = Inr True"
    using genesis_committed_cong [OF g(2) r] gs by simp
  have mark: "committed_marker t n" if "committed_marker s n \<or> n = tx" for n
  proof (cases "n = tx")
    case True
    then show ?thesis using j by (simp add: committed_marker_def)
  next
    case False
    then show ?thesis using that oth [of n] by (simp add: committed_marker_def)
  qed
  have "\<exists>t'. tx_of x = Some t' \<and> (t' = genesis_transaction_id \<or> committed_marker t t')"
    if "x \<in> set (es @ [e])" for x
  proof (cases "x = e")
    case True
    then show ?thesis using e(1) mark [of tx] by simp
  next
    case False
    then have "x \<in> set es" using that by simp
    then obtain t' where "tx_of x = Some t'" "t' = genesis_transaction_id \<or> committed_marker s t'"
      using c unfolding common_def by blast
    then show ?thesis using mark [of t'] by blast
  qed
  moreover have "replay_events E pid None (es @ [e]) = Inr (Some st')"
    using c e(2) by (simp add: replay_events_append common_def)
  ultimately have "common E pid t (es @ [e]) st'"
    using c gt d e(3) by (auto simp: common_def)
  moreover have "journal_done t (es @ [e]) n jn" if "journal_at t n = Some jn" "j_intent jn" for n jn
  proof (cases "n = tx")
    case True
    then show ?thesis using that(1) j by simp
  next
    case False
    then show ?thesis
      using dn [OF False, of jn] oth [OF False] that
        journal_done_mono [OF _ m, of es n jn "es @ [e]"] by (simp add: subset_insertI)
  qed
  ultimately show ?thesis
    using l by (simp add: settled_def)
qed

lemma with_records_fields [simp]:
  "fs_lineage (with_records R s) = fs_lineage s" "fs_current (with_records R s) = fs_current s"
  "fs_receipt (with_records R s) = fs_receipt s" "fs_recovery (with_records R s) = fs_recovery s"
  "fs_ledger (with_records R s) = fs_ledger s" "fs_coord (with_records R s) = fs_coord s"
  "fs_records (with_records R s) = R" "journal_at (with_records R s) = journal_at s"
  by (simp_all add: with_records_def journal_at_def fun_eq_iff)

lemma append_lineage_fields [simp]:
  "fs_current (append_lineage b s) = fs_current s" "fs_receipt (append_lineage b s) = fs_receipt s"
  "fs_recovery (append_lineage b s) = fs_recovery s" "fs_records (append_lineage b s) = fs_records s"
  "fs_ledger (append_lineage b s) = fs_ledger s" "fs_coord (append_lineage b s) = fs_coord s"
  "journal_at (append_lineage b s) = journal_at s"
  by (simp_all add: append_lineage_def journal_at_def fun_eq_iff)

lemma recovery_set_journal:
  "map_of (fs_recovery (set_journal tx j s)) = (map_of (fs_recovery s))(tx \<mapsto> RDir j)"
  "distinct (map fst (fs_recovery s)) \<Longrightarrow> distinct (map fst (fs_recovery (set_journal tx j s)))"
  by (simp_all add: set_journal_def map_of_update distinct_update)

lemma promotable_cong: "fs_records t = fs_records s \<Longrightarrow> promotable t rs = promotable s rs"
  unfolding promotable_def by (rule arg_cong2 [where f = "(\<and>)"]) auto

lemma promote_staged_run:
  assumes "journal_at s tx = Some j" and "promotable s (j_records j)"
  shows "\<exists>R. promote_staged_records tx s = (Inr (), with_records R s)
    \<and> map_of (fs_records s) \<subseteq>\<^sub>m map_of R \<and> (\<forall>sb \<in> set (j_records j). promoted (with_records R s) sb)"
proof -
  have "promotable s (sort_key (\<lambda>sb. fst sb @ u ''.json'') (j_records j))"
    using assms(2) unfolding promotable_def set_sort .
  from promote_run [OF this] show ?thesis
    using assms(1) by (auto simp: promote_staged_records_def run_simps)
qed

lemma write_canonical_run:
  "canonical E v = Inr b \<Longrightarrow> write_canonical E v f s = (Inr (), f b s)"
  by (simp add: write_canonical_def run_simps)

lemma append_event_run:
  "canonical E e = Inr b \<Longrightarrow> append_event E e s = (Inr (), append_lineage b s)"
  by (simp add: append_event_def write_canonical_run)

text \<open>The journal of the interrupted transaction itself.\<close>

lemma recover_pending_journal:
  assumes p: "pending E pid fs es st tx e st'" and ev: "events_of fs = Inr events"
    and j: "journal_at fs tx = Some j"
  shows "\<exists>txids' t R s0. recover_journal E pid events (ids_of events) (tx, j) fs = (Inr txids', t)
    \<and> set (ids_of events) \<subseteq> set txids'
    \<and> t = set_journal tx (j\<lparr> j_committed := True \<rparr>) (with_records R s0)
    \<and> (s0 = fs \<or> (\<exists>b. s0 = append_lineage b fs)) \<and> lineage_is s0 (es @ [e])
    \<and> map_of (fs_records fs) \<subseteq>\<^sub>m map_of R \<and> (\<forall>sb \<in> set (j_records j). promoted t sb)"
proof -
  obtain b be where b: "j_intent j" "j_event j = Some b" "read_json b = Inr e"
    "promotable fs (j_records j)" and be: "canonical E e = Inr be" "event_line e be"
    and tx: "tx \<noteq> genesis_transaction_id" "tx_of e = Some tx" "Some tx \<notin> tx_of ` set es"
    and c: "common E pid fs es st" and l: "lineage_is fs es \<or> lineage_is fs (es @ [e])"
    using p j by (auto simp: pending_def)
  have some: "\<forall>x \<in> set events. tx_of x \<noteq> None"
    using l ev events_of_lineage tx(2) common_txs [OF c] by fastforce
  define s0 where "s0 = (if in_txids (JStr tx) (ids_of events) then fs else append_lineage be fs)"
  define txids' where "txids' = (if in_txids (JStr tx) (ids_of events) then ids_of events
     else JStr tx # ids_of events)"
  have step: "recover_transaction E (ids_of events) j fs = (Inr txids', s0)"
    using b be tx_of_field [OF tx(2)]
    by (simp add: recover_transaction_def run_simps read_json_raw_eq bindS_run append_event_run s0_def txids'_def)
  have "lineage_is s0 (es @ [e])"
  proof (cases "in_txids (JStr tx) (ids_of events)")
    case True
    then have "Some tx \<in> tx_of ` set events" using in_ids_of [OF some] by simp
    then have "events \<noteq> es" using tx(3) by auto
    then have "lineage_is fs (es @ [e])" using l ev events_of_lineage by fastforce
    then show ?thesis using True by (simp add: s0_def)
  next
    case False
    then have "Some tx \<notin> tx_of ` set events" using in_ids_of [OF some] by simp
    then have "events \<noteq> es @ [e]" using tx(2) by auto
    then have "lineage_is fs es" using l ev events_of_lineage by fastforce
    then show ?thesis using False lineage_is_append be(2) by (simp add: s0_def)
  qed
  moreover have "journal_at s0 tx = Some j" "fs_records s0 = fs_records fs"
    using j by (simp_all add: s0_def)
  moreover from this have "promotable s0 (j_records j)"
    using b(4) promotable_cong [of s0 fs] by simp
  ultimately obtain R where R: "promote_staged_records tx s0 = (Inr (), with_records R s0)"
    "map_of (fs_records s0) \<subseteq>\<^sub>m map_of R" "\<forall>sb \<in> set (j_records j). promoted (with_records R s0) sb"
    and s0: "lineage_is s0 (es @ [e])" "journal_at s0 tx = Some j" "fs_records s0 = fs_records fs"
    using promote_staged_run by blast
  let ?t = "set_journal tx (j\<lparr> j_committed := True \<rparr>) (with_records R s0)"
  have "recover_journal E pid events (ids_of events) (tx, j) fs = (Inr txids', ?t)"
    using b(1) tx(1) R(1) s0(2)
    by (simp add: recover_journal_def bindS_run(1) [of "recover_transaction E (ids_of events) j", OF step]
        bindS_run(1) [of "promote_staged_records tx", OF R(1)] run_simps update_journal_def)
  moreover have "set (ids_of events) \<subseteq> set txids'" by (auto simp: txids'_def)
  moreover have "s0 = fs \<or> (\<exists>b. s0 = append_lineage b fs)" by (auto simp: s0_def)
  moreover have "\<forall>sb \<in> set (j_records j). promoted ?t sb"
    using R(3) by (simp add: promoted_def)
  ultimately show ?thesis
    using s0 R(2) by metis
qed

text \<open>Recovery completes an interrupted transaction.\<close>

lemma pending_recover:
  assumes p: "pending E pid fs es st tx e st'"
  shows "\<exists>fs'. recover E pid fs = (Inr st', fs') \<and> settled E pid fs' (es @ [e]) st'"
proof -
  have c: "common E pid fs es st" using p by (simp add: pending_def)
  obtain events where ev: "events_of fs = Inr events" "events = es \<or> events = es @ [e]"
    using p events_of_lineage by (auto simp: pending_def)
  obtain j where j: "journal_at fs tx = Some j"
    using p by (auto simp: pending_def)
  have tx: "tx \<noteq> genesis_transaction_id" "tx_of e = Some tx" "verify_event E pid e (Some st) = Inr st'"
    and g: "genesis_transaction_committed E pid fs = Inr True"
    and d: "distinct (map fst (fs_recovery fs))" and ne: "name_ok pid"
    using p c by (auto simp: pending_def common_def)
  obtain b' where b': "canonical E st' = Inr b'" using p by (auto simp: pending_def)
  have some: "\<forall>x \<in> set events. tx_of x \<noteq> None"
    using ev(2) tx(2) common_txs [OF c] by auto
  have dn: "journal_done fs es n jn" if "n \<noteq> tx" "journal_at fs n = Some jn" "j_intent jn" for n jn
    using p that by (simp add: pending_def)
  have idle: "visits_idly E pid events fs n jn" if n: "n \<noteq> tx" "journal_at fs n = Some jn" for n jn
  proof -
    have "journal_done fs events n jn" if "j_intent jn"
      using journal_done_mono [OF dn [OF n that], of fs events] ev(2) by (auto simp: subset_insertI)
    then show ?thesis
      using n(2) genesis_idle [OF g ev(1)] by (auto simp: visits_idly_def)
  qed
  obtain txids' t R s0 where
    run: "recover_journal E pid events (ids_of events) (tx, j) fs = (Inr txids', t)"
      "set (ids_of events) \<subseteq> set txids'"
    and t: "t = set_journal tx (j\<lparr> j_committed := True \<rparr>) (with_records R s0)"
    and s0: "s0 = fs \<or> (\<exists>b. s0 = append_lineage b fs)" "lineage_is s0 (es @ [e])"
    and R: "map_of (fs_records fs) \<subseteq>\<^sub>m map_of R" "\<forall>sb \<in> set (j_records j). promoted t sb"
    using recover_pending_journal [OF p ev(1) j] by metis
  have tf: "fs_receipt t = fs_receipt fs" "fs_records t = R" "lineage_is t (es @ [e])"
    "map_of (fs_recovery t) = (map_of (fs_recovery fs))(tx \<mapsto> RDir (j\<lparr> j_committed := True \<rparr>))"
    "journal_at t = (journal_at fs)(tx \<mapsto> j\<lparr> j_committed := True \<rparr>)"
    "distinct (map fst (fs_recovery t))"
    using s0 d by (auto simp: t lineage_is_def recovery_set_journal)
  have set: "settled E pid t (es @ [e]) st'"
  proof (rule settle_event [OF c, where tx = tx and j' = "j\<lparr> j_committed := True \<rparr>"])
    obtain b where "j_event j = Some b" "read_json b = Inr e"
      using p j by (auto simp: pending_def)
    then show "journal_done t (es @ [e]) tx (j\<lparr> j_committed := True \<rparr>)"
      using tx R(2) by (auto simp: journal_done_def)
  qed (use ev tf tx b' R dn in auto)
  obtain js1 js2 where js: "journals fs = js1 @ (tx, j) # js2"
    using j journals_iff [OF d, of tx j] split_list [of "(tx, j)" "journals fs"] by auto
  have "tx \<notin> fst ` (set js1 \<union> set js2)"
    using distinct_journals [OF d] by (auto simp: js)
  then have tx_other: "n \<noteq> tx" if "(n, jn) \<in> set js1 \<union> set js2" for n and jn :: journal
    using image_eqI [of n fst "(n, jn)" "set js1 \<union> set js2"] that by auto
  have other: "n \<noteq> tx \<and> journal_at fs n = Some jn" if "(n, jn) \<in> set js1 \<union> set js2" for n jn
  proof -
    have "n \<noteq> tx" by (rule tx_other [OF that])
    moreover have "(n, jn) \<in> set (journals fs)" using that by (auto simp: js)
    ultimately show ?thesis using journals_iff [OF d] by simp
  qed
  have 1: "foldS (recover_journal E pid events) (ids_of events) js1 fs = (Inr (ids_of events), fs)"
  proof (rule recover_idle_all [OF _ some], clarify)
    fix n jn assume "(n, jn) \<in> set js1"
    then show "visits_idly E pid events fs n jn"
      using other [of n jn] idle [of n jn] by simp
  qed simp
  have 2: "foldS (recover_journal E pid events) txids' js2 t = (Inr txids', t)"
  proof (rule recover_idle_all [OF _ some run(2)], clarify)
    fix n jn assume n: "(n, jn) \<in> set js2"
    show "visits_idly E pid events t n jn"
      by (rule visits_idly_mono [of E pid events fs]) (use other [of n jn] idle n tf R in auto)
  qed
  have "foldS (recover_journal E pid events) (ids_of events) (js1 @ (tx, j) # js2) fs = (Inr txids', t)"
    by (simp add: foldS_append bindS_run 1 2 run(1))
  then have "recover E pid fs = (Inr st', put_current b' t)"
    using ev(1) js ids_of_events [OF some] settled_committed_events [OF set] settled_reconstruct [OF set]
      b' ne by (simp add: recover_def project_path_def run_simps bindS_run write_canonical_run checkS_def)
  with settled_put_current [OF set] show ?thesis by blast
qed

section \<open>The run of a commit\<close>

text \<open>What \<open>commit\<close> is given for it to go through on a settled store: the transition is a fresh
  one, it validates against the current state both as given and as it will be read back, the
  next state is valid (the code does not compare it with the state the transition names), and
  the records can be staged.\<close>

definition ready :: "ext \<Rightarrow> ustr \<Rightarrow> fs \<Rightarrow> json list \<Rightarrow> json \<Rightarrow> int \<Rightarrow> json \<Rightarrow> json \<Rightarrow> json
    \<Rightarrow> record_arg list \<Rightarrow> ustr \<Rightarrow> json \<Rightarrow> json \<Rightarrow> bool" where
  "ready E pid fs es st r fp next_state transition records tx e st' \<longleftrightarrow>
     tx_of transition = Some tx \<and> tx \<noteq> genesis_transaction_id
     \<and> Some tx \<notin> tx_of ` set es \<and> map_of (fs_recovery fs) tx = None
     \<and> anyE [differs st ''state_revision'' (JInt r), differs st ''semantic_fingerprint'' fp] = Inr False
     \<and> validate_state E pid next_state = Inr next_state
     \<and> (\<exists>s. verify_event E pid transition (Some st) = Inr s)
     \<and> canonical_tree E [] transition = Inr e \<and> (\<exists>b. canonical E transition = Inr b)
     \<and> line_safe e \<and> tx_of e = Some tx \<and> verify_event E pid e (Some st) = Inr st'
     \<and> (\<exists>b. canonical E st' = Inr b) \<and> (\<exists>b. canonical E next_state = Inr b)
     \<and> (\<exists>staged seen. foldE (stage_step E fs) ([], []) records = Inr (staged, seen)
          \<and> (\<forall>kb \<in> set staged. partition_stem (staged_stem (fst (fst kb)) (snd (fst kb))) = fst kb)
          \<and> (\<exists>m. canonical E (manifest_json (sort seen)) = Inr m))"

lemma set_journal_twice [simp]: "set_journal tx j' (set_journal tx j s) = set_journal tx j' s"
proof -
  have "AList.update k v (AList.update k w al) = AList.update k v al"
    for k :: ustr and v w :: rentry and al
    by (induction al) auto
  then show ?thesis by (simp add: set_journal_def)
qed

lemma journal_writes:
  "put_event tx b (set_journal tx j s) = set_journal tx (j\<lparr> j_event := Some b \<rparr>) s"
  "put_state tx b (set_journal tx j s) = set_journal tx (j\<lparr> j_state := Some b \<rparr>) s"
  "put_manifest tx b (set_journal tx j s) = set_journal tx (j\<lparr> j_manifest := Some b \<rparr>) s"
  "write_staged tx kb (set_journal tx j s) = set_journal tx (j\<lparr> j_records :=
     AList.update (staged_stem (fst (fst kb)) (snd (fst kb))) (snd kb) (j_records j) \<rparr>) s"
  "update_journal tx f (set_journal tx j s) = (Inr (), set_journal tx (f j) s)"
  by (simp_all add: put_event_def put_state_def put_manifest_def write_staged_def update_journal_run)
    (simp add: update_journal_def modifyS_def)

definition staged_files :: "(rkey \<times> bytes) list \<Rightarrow> (ustr \<times> bytes) list \<Rightarrow> (ustr \<times> bytes) list" where
  "staged_files staged rs =
     fold (\<lambda>kb. AList.update (staged_stem (fst (fst kb)) (snd (fst kb))) (snd kb)) staged rs"

lemma fold_write_staged:
  "fold (write_staged tx) staged (set_journal tx j s) =
     set_journal tx (j\<lparr> j_records := staged_files staged (j_records j) \<rparr>) s"
  by (induction staged arbitrary: j) (simp_all add: journal_writes staged_files_def)

lemma stage_step_cong: "fs_records t = fs_records s \<Longrightarrow> stage_step E t = stage_step E s"
  by (intro ext) (simp only: stage_step_def)

lemma stage_records_run:
  assumes "foldE (stage_step E s) ([], []) records = Inr (staged, seen)"
    and "canonical E (manifest_json (sort seen)) = Inr m"
  shows "stage_records E tx records (set_journal tx j s) =
    (Inr (), set_journal tx (j\<lparr> j_records := staged_files staged (j_records j), j_manifest := Some m \<rparr>) s)"
proof -
  have "stage_step E (set_journal tx j s) = stage_step E s"
    by (rule stage_step_cong) simp
  then show ?thesis
    using assms
    by (simp add: stage_records_def run_simps fold_write_staged write_canonical_run journal_writes)
qed

text \<open>The files on disk at each boundary.\<close>

definition new_journal :: "bytes \<Rightarrow> bytes \<Rightarrow> (rkey \<times> bytes) list \<Rightarrow> bytes \<Rightarrow> journal" where
  "new_journal be bs staged m = \<lparr> j_event = Some be, j_state = Some bs,
     j_records = staged_files staged [], j_manifest = Some m, j_intent = True, j_committed = False \<rparr>"

fun boundary_state :: "ustr \<Rightarrow> bytes \<Rightarrow> bytes \<Rightarrow> (rkey \<times> bytes) list \<Rightarrow> bytes
    \<Rightarrow> (rkey \<times> bytes) list \<Rightarrow> fs \<Rightarrow> stage \<Rightarrow> fs" where
  "boundary_state tx be bs staged m R s After_Journal_Created =
     set_journal tx (empty_journal\<lparr> j_event := Some be \<rparr>) s"
| "boundary_state tx be bs staged m R s After_Staged_State_Written =
     set_journal tx (empty_journal\<lparr> j_event := Some be, j_state := Some bs \<rparr>) s"
| "boundary_state tx be bs staged m R s After_Staged_Records_Written =
     set_journal tx ((new_journal be bs staged m)\<lparr> j_intent := False \<rparr>) s"
| "boundary_state tx be bs staged m R s After_Commit_Intent =
     set_journal tx (new_journal be bs staged m) s"
| "boundary_state tx be bs staged m R s After_Lineage_Append =
     append_lineage be (set_journal tx (new_journal be bs staged m) s)"
| "boundary_state tx be bs staged m R s After_Records_Promoted =
     with_records R (append_lineage be (set_journal tx (new_journal be bs staged m) s))"
| "boundary_state tx be bs staged m R s Before_Current_Replace =
     with_records R (append_lineage be (set_journal tx (new_journal be bs staged m) s))"
| "boundary_state tx be bs staged m R s After_Current_Replace =
     put_current bs (with_records R (append_lineage be (set_journal tx (new_journal be bs staged m) s)))"
| "boundary_state tx be bs staged m R s Before_Committed_Marker =
     put_current bs (with_records R (append_lineage be (set_journal tx (new_journal be bs staged m) s)))"

definition final_state :: "ustr \<Rightarrow> bytes \<Rightarrow> bytes \<Rightarrow> (rkey \<times> bytes) list \<Rightarrow> bytes
    \<Rightarrow> (rkey \<times> bytes) list \<Rightarrow> fs \<Rightarrow> fs" where
  "final_state tx be bs staged m R s =
     snd (update_journal tx (\<lambda>j. j\<lparr> j_committed := True \<rparr>)
       (boundary_state tx be bs staged m R s Before_Committed_Marker))"

lemma hit_crash: "hit (crash_at k) i = (if i = k then raiseS SimulatedCrash else returnS ())"
  by (simp add: hit_def crash_at_def)

lemma hit_no_fault: "hit no_fault i = returnS ()"
  by (simp add: hit_def no_fault_def)

lemma commit_fresh_run:
  assumes "map_of (fs_recovery s) tx = None"
    and "canonical E event = Inr be" and "canonical E state = Inr bs"
    and "foldE (stage_step E s) ([], []) records = Inr (staged, seen)"
    and "canonical E (manifest_json (sort seen)) = Inr m"
    and "promote_staged_records tx (append_lineage be (set_journal tx (new_journal be bs staged m) s))
      = (Inr (), with_records R (append_lineage be (set_journal tx (new_journal be bs staged m) s)))"
  shows "commit_fresh E pid tx event state records (crash_at k) s =
      (Inl SimulatedCrash, boundary_state tx be bs staged m R s k)"
    and "commit_fresh E pid tx event state records no_fault s =
      (Inr state, final_state tx be bs staged m R s)"
proof -
  let ?j0 = "set_journal tx empty_journal s"
  have mk: "make_journal tx False s = (Inr (), ?j0)"
    using assms(1) by (simp add: make_journal_def)
  have st: "stage_records E tx records (set_journal tx (empty_journal\<lparr> j_event := Some be, j_state := Some bs \<rparr>) s)
    = (Inr (), set_journal tx ((new_journal be bs staged m)\<lparr> j_intent := False \<rparr>) s)"
    using stage_records_run [OF assms(4,5)] by (simp add: new_journal_def empty_journal_def)
  have ji: "(new_journal be bs staged m)\<lparr> j_intent := True \<rparr> = new_journal be bs staged m"
    by (simp add: new_journal_def)
  note steps = bindS_run mk write_canonical_run [OF assms(2)] write_canonical_run [OF assms(3)]
    journal_writes st ji append_event_run [OF assms(2)] assms(6) run_simps
  show "commit_fresh E pid tx event state records (crash_at k) s =
      (Inl SimulatedCrash, boundary_state tx be bs staged m R s k)"
    by (cases k) (simp_all add: commit_fresh_def hit_crash steps)
  show "commit_fresh E pid tx event state records no_fault s =
      (Inr state, final_state tx be bs staged m R s)"
    by (simp add: commit_fresh_def hit_no_fault steps final_state_def update_journal_def)
qed

lemma no_prior_tx:
  assumes "\<forall>x \<in> set es. tx_of x \<noteq> None" and "Some tx \<notin> tx_of ` set es"
  shows "filterE (same_tx (JStr tx)) es = Inr []"
  using assms
proof (induction es)
  case (Cons x es)
  then obtain t where "tx_of x = Some t" by auto
  with Cons show ?case
    by (auto simp: same_tx_def tx_of_field)
qed simp

text \<open>Past its guards a commit on a settled store is its durable steps.\<close>

definition readable :: "ext \<Rightarrow> ustr \<Rightarrow> fs \<Rightarrow> json \<Rightarrow> json list \<Rightarrow> bool" where
  "readable E pid fs st events \<longleftrightarrow> name_ok pid \<and> reconstruct E pid fs = Inr st
     \<and> events_of fs = Inr events \<and> (\<forall>x \<in> set events. tx_of x \<noteq> None)"

lemma settled_readable: "settled E pid fs es st \<Longrightarrow> readable E pid fs st es"
  using settled_reconstruct common_txs events_of_lineage
  by (auto simp: readable_def settled_def common_def)

lemma ready_commit:
  assumes s: "readable E pid fs st events"
    and r: "ready E pid fs0 es st r fp next_state transition records tx e st'"
    and n: "Some tx \<notin> tx_of ` set events"
  shows "commit E pid r fp next_state transition records fault fs
    = commit_fresh E pid tx transition next_state records fault fs"
proof -
  obtain x where "tx_of transition = Some tx"
    "anyE [differs st ''state_revision'' (JInt r), differs st ''semantic_fingerprint'' fp] = Inr False"
    "validate_state E pid next_state = Inr next_state"
    "verify_event E pid transition (Some st) = Inr x"
    using r by (auto simp: ready_def simp del: anyE.simps)
  then show ?thesis
    using s no_prior_tx [of events tx] n
    by (simp add: commit_def readable_def project_path_def run_simps tx_of_field checkS_def del: anyE.simps)
qed

lemma canonical_tree_line:
  assumes "canonical_tree E [] v = Inr e" and "canonical E v = Inr b" and "line_safe e"
  shows "event_line e b" and "read_json b = Inr e"
proof -
  have u: "utf8_encode (dumps e) = Some b"
    using assms(1,2) by (auto simp: canonical_def canonical_json_bytes_iff)
  show "event_line e b"
    using u canonical_tree_canon [OF assms(1)] assms(3) by (simp add: event_line_def)
  show "read_json b = Inr e"
    using canonical_read_back [OF assms(1) u] by (simp add: read_json_def)
qed

lemma canonical_tree_stable:
  assumes "nfc_idempotent E" and "canonical_tree E [] v = Inr e" and "canonical E v = Inr b"
  shows "canonical E e = Inr b"
  using canonical_tree_again [OF assms(1,2), of "[]"] assms(2,3)
  by (auto simp: canonical_def canonical_json_bytes_iff)

text \<open>Staged files can be promoted: a conflict with an existing record was refused when they
  were staged.\<close>

lemma stage_step_staged:
  assumes "foldE (stage_step E s) (staged0, seen0) records = Inr (staged, seen)"
    and "\<forall>kb \<in> set staged0. record_path (fst (fst kb)) (snd (fst kb)) = Inr (fst kb)
      \<and> map_of (fs_records s) (fst kb) = None \<and> fst kb \<in> set seen0"
    and "distinct (map fst staged0)"
  shows "(\<forall>kb \<in> set staged. record_path (fst (fst kb)) (snd (fst kb)) = Inr (fst kb)
      \<and> map_of (fs_records s) (fst kb) = None \<and> fst kb \<in> set seen) \<and> distinct (map fst staged)"
  using assms
proof (induction records arbitrary: staged0 seen0)
  case (Cons r records)
  obtain k i v where r: "r = (k, i, v)" by (cases r)
  from Cons.prems(1) obtain staged1 seen1 where
    step: "stage_step E s (staged0, seen0) r = Inr (staged1, seen1)"
    and rest: "foldE (stage_step E s) (staged1, seen1) records = Inr (staged, seen)"
    by auto
  have p: "record_path k i = Inr p \<Longrightarrow> p = (k, i)" for p
    by (auto simp: record_path_def)
  from step obtain b q where q: "(k, i) \<notin> set seen0" "record_path k i = Inr q"
    "(case map_of (fs_records s) q of
        Some ex \<Rightarrow> (if ex \<noteq> b then Inl RecordConflictError else Inr (staged0, seen0 @ [(k, i)]))
      | None \<Rightarrow> Inr (staged0 @ [((k, i), b)], seen0 @ [(k, i)])) = Inr (staged1, seen1)"
    by (auto simp: stage_step_def r Let_def split: if_splits)
  with p have new: "(k, i) \<notin> set seen0" "record_path k i = Inr (k, i)"
    "seen1 = seen0 @ [(k, i)]"
    "staged1 = staged0 \<or> (staged1 = staged0 @ [((k, i), b)] \<and> map_of (fs_records s) (k, i) = None)"
    by (auto split: if_splits option.splits)
  have "(k, i) \<notin> fst ` set staged0"
    using Cons.prems(2) new(1) by auto
  then show ?case
    by (intro Cons.IH [OF rest])
      (use new Cons.prems(2,3) in auto)
qed simp

lemma staged_files_set:
  "sb \<in> set (staged_files staged rs) \<Longrightarrow>
   sb \<in> set rs \<or> (\<exists>kb \<in> set staged. sb = (staged_stem (fst (fst kb)) (snd (fst kb)), snd kb))"
proof (induction staged arbitrary: rs)
  case (Cons kb staged)
  have "set (AList.update k v al) \<subseteq> insert (k, v) (set al)" for k v and al :: "(ustr \<times> bytes) list"
    by (induction al) auto
  then show ?case
    using Cons.IH [of "AList.update (staged_stem (fst (fst kb)) (snd (fst kb))) (snd kb) rs"] Cons.prems
    by (fastforce simp: staged_files_def)
qed (simp add: staged_files_def)

lemma staged_promotable:
  assumes "foldE (stage_step E s) ([], []) records = Inr (staged, seen)"
    and "\<forall>kb \<in> set staged. partition_stem (staged_stem (fst (fst kb)) (snd (fst kb))) = fst kb"
    and "fs_records t = fs_records s"
  shows "promotable t (staged_files staged [])"
proof -
  note st = stage_step_staged [OF assms(1), simplified]
  have sb: "\<exists>kb \<in> set staged. stem_path (fst sb) = Inr (fst kb) \<and> snd sb = snd kb
      \<and> map_of (fs_records t) (fst kb) = None" if sb: "sb \<in> set (staged_files staged [])" for sb
  proof -
    obtain kb where kb: "kb \<in> set staged" "sb = (staged_stem (fst (fst kb)) (snd (fst kb)), snd kb)"
      using staged_files_set [OF sb] by auto
    then have "stem_path (fst sb) = Inr (fst kb)"
      using assms(2) st by (simp add: stem_path_def case_prod_beta)
    with kb st assms(3) show ?thesis by (intro bexI [of _ kb]) auto
  qed
  have inj: "snd kb = snd kc" if "kb \<in> set staged" "kc \<in> set staged" "fst kb = fst kc" for kb kc
    using that st by (metis distinct_map inj_onD)
  show ?thesis
    unfolding promotable_def
  proof (intro conjI ballI impI)
    fix x assume "x \<in> set (staged_files staged [])"
    from sb [OF this] show "\<exists>p. stem_path (fst x) = Inr p \<and>
        (map_of (fs_records t) p = None \<or> map_of (fs_records t) p = Some (snd x))" by blast
  next
    fix x y assume xy: "x \<in> set (staged_files staged [])" "y \<in> set (staged_files staged [])"
      "stem_path (fst x) = stem_path (fst y)"
    from sb [OF xy(1)] sb [OF xy(2)] xy(3) inj show "snd x = snd y" by fastforce
  qed
qed

section \<open>Commit, crash and recovery\<close>

lemma boundary_fields:
  "fs_receipt (boundary_state tx be bs staged m R s k) = fs_receipt s"
  "n \<noteq> tx \<Longrightarrow> map_of (fs_recovery (boundary_state tx be bs staged m R s k)) n = map_of (fs_recovery s) n"
  "distinct (map fst (fs_recovery s)) \<Longrightarrow>
     distinct (map fst (fs_recovery (boundary_state tx be bs staged m R s k)))"
  "fs_ledger (boundary_state tx be bs staged m R s k) = fs_ledger s"
  by (cases k; simp add: recovery_set_journal)+

lemma journal_at_cong: "map_of (fs_recovery t) n = map_of (fs_recovery s) n \<Longrightarrow> journal_at t n = journal_at s n"
  by (simp add: journal_at_def)

definition past_intent :: "stage \<Rightarrow> bool" where
  "past_intent k \<longleftrightarrow> k \<notin> {After_Journal_Created, After_Staged_State_Written, After_Staged_Records_Written}"

lemma boundary_journal:
  "\<not> past_intent k \<Longrightarrow> \<exists>j. journal_at (boundary_state tx be bs staged m R s k) tx = Some j \<and> \<not> j_intent j"
  "past_intent k \<Longrightarrow> journal_at (boundary_state tx be bs staged m R s k) tx = Some (new_journal be bs staged m)"
  by (cases k; simp add: past_intent_def empty_journal_def new_journal_def)+

lemma boundary_lineage:
  assumes "lineage_is s es" and "event_line e be"
  shows "lineage_is (boundary_state tx be bs staged m R s k) es
    \<or> (past_intent k \<and> lineage_is (boundary_state tx be bs staged m R s k) (es @ [e]))"
proof -
  have "lineage_is (append_lineage be (set_journal tx j s)) (es @ [e])" for j
    using assms by (intro lineage_is_append) (simp_all add: lineage_is_def)
  then show ?thesis
    using assms(1) by (cases k) (auto simp: lineage_is_def past_intent_def)
qed

lemma boundary_records:
  assumes "map_of (fs_records s) \<subseteq>\<^sub>m map_of R"
  shows "fs_records (boundary_state tx be bs staged m R s k) = fs_records s
    \<or> fs_records (boundary_state tx be bs staged m R s k) = R"
  by (cases k) auto

lemma ready_tx: "ready E pid fs es st r fp next_state transition records tx e st' \<Longrightarrow> Some tx \<notin> tx_of ` set es"
  by (simp add: ready_def)

text \<open>Facts a ready commit supplies to both outcomes.\<close>

lemma ready_run:
  assumes nfc: "nfc_idempotent E" and s: "readable E pid fs st events"
    and r: "ready E pid fs es st r fp next_state transition records tx e st'"
    and n: "Some tx \<notin> tx_of ` set events"
  obtains be bs staged m R where
    "commit E pid r fp next_state transition records (crash_at k) fs
       = (Inl SimulatedCrash, boundary_state tx be bs staged m R fs k)"
    "commit E pid r fp next_state transition records no_fault fs
       = (Inr next_state, final_state tx be bs staged m R fs)"
    "canonical E e = Inr be" "event_line e be" "read_json be = Inr e"
    "canonical E next_state = Inr bs" "map_of (fs_records fs) \<subseteq>\<^sub>m map_of R"
    "promotable fs (staged_files staged [])"
    "\<forall>sb \<in> set (staged_files staged []). \<exists>p. stem_path (fst sb) = Inr p \<and> map_of R p = Some (snd sb)"
proof -
  obtain be bs staged seen m where
    c: "canonical_tree E [] transition = Inr e" "canonical E transition = Inr be" "line_safe e"
      "canonical E next_state = Inr bs"
    and st: "foldE (stage_step E fs) ([], []) records = Inr (staged, seen)"
      "\<forall>kb \<in> set staged. partition_stem (staged_stem (fst (fst kb)) (snd (fst kb))) = fst kb"
      "canonical E (manifest_json (sort seen)) = Inr m"
    and none: "map_of (fs_recovery fs) tx = None"
    using r by (auto simp: ready_def simp del: anyE.simps)
  let ?s = "append_lineage be (set_journal tx (new_journal be bs staged m) fs)"
  have pr: "promotable t (staged_files staged [])" if "fs_records t = fs_records fs" for t
    using staged_promotable [OF st(1,2) that] .
  have "journal_at ?s tx = Some (new_journal be bs staged m)" by simp
  moreover have "promotable ?s (j_records (new_journal be bs staged m))"
    using pr [of ?s] by (simp add: new_journal_def)
  ultimately obtain R where R: "promote_staged_records tx ?s = (Inr (), with_records R ?s)"
    "map_of (fs_records ?s) \<subseteq>\<^sub>m map_of R"
    "\<forall>sb \<in> set (staged_files staged []). promoted (with_records R ?s) sb"
    using promote_staged_run [of ?s tx] by (force simp: new_journal_def)
  note run = commit_fresh_run [OF none c(2) c(4) st(1) st(3) R(1)]
  show ?thesis
  proof (rule that)
    show "commit E pid r fp next_state transition records (crash_at k) fs
       = (Inl SimulatedCrash, boundary_state tx be bs staged m R fs k)"
      using ready_commit [OF s r n] run(1) by simp
    show "commit E pid r fp next_state transition records no_fault fs
       = (Inr next_state, final_state tx be bs staged m R fs)"
      using ready_commit [OF s r n] run(2) by simp
    show "canonical E e = Inr be" by (rule canonical_tree_stable [OF nfc c(1,2)])
    show "event_line e be" "read_json be = Inr e" by (rule canonical_tree_line [OF c(1-3)])+
    show "canonical E next_state = Inr bs" by (rule c)
    show "map_of (fs_records fs) \<subseteq>\<^sub>m map_of R" using R(2) by simp
    show "promotable fs (staged_files staged [])" by (rule pr) simp
    show "\<forall>sb \<in> set (staged_files staged []). \<exists>p. stem_path (fst sb) = Inr p \<and> map_of R p = Some (snd sb)"
      using R(3) by (simp add: promoted_def)
  qed
qed

lemma commit_settles:
  assumes nfc: "nfc_idempotent E" and s: "settled E pid fs es st"
    and r: "ready E pid fs es st r fp next_state transition records tx e st'"
  shows "\<exists>fs'. commit E pid r fp next_state transition records no_fault fs = (Inr next_state, fs')
    \<and> settled E pid fs' (es @ [e]) st'"
proof -
  obtain be bs staged m R where run:
    "commit E pid r fp next_state transition records no_fault fs
       = (Inr next_state, final_state tx be bs staged m R fs)"
    and e: "canonical E e = Inr be" "event_line e be" "read_json be = Inr e"
    and R: "map_of (fs_records fs) \<subseteq>\<^sub>m map_of R"
      "\<forall>sb \<in> set (staged_files staged []). \<exists>p. stem_path (fst sb) = Inr p \<and> map_of R p = Some (snd sb)"
    using ready_run [OF nfc settled_readable [OF s] r ready_tx [OF r]] by metis
  have c: "common E pid fs es st" and l: "lineage_is fs es"
    and dn: "\<And>n j. journal_at fs n = Some j \<Longrightarrow> j_intent j \<Longrightarrow> journal_done fs es n j"
    using s by (auto simp: settled_def)
  have tx: "tx \<noteq> genesis_transaction_id" "tx_of e = Some tx" "verify_event E pid e (Some st) = Inr st'"
    using r by (auto simp: ready_def)
  obtain b where b: "canonical E st' = Inr b" using r by (auto simp: ready_def)
  let ?j = "(new_journal be bs staged m)\<lparr> j_committed := True \<rparr>"
  let ?u = "with_records R (append_lineage be (set_journal tx (new_journal be bs staged m) fs))"
  have f: "final_state tx be bs staged m R fs = set_journal tx ?j (put_current bs ?u)"
    by (simp add: final_state_def update_journal_run)
  have at: "journal_at (final_state tx be bs staged m R fs) = (journal_at fs)(tx \<mapsto> ?j)"
    unfolding f by (simp add: fun_eq_iff)
  have "settled E pid (final_state tx be bs staged m R fs) (es @ [e]) st'"
  proof (rule settle_event [OF c, where tx = tx and j' = ?j and b = b])
    show "lineage_is (final_state tx be bs staged m R fs) (es @ [e])"
      using lineage_is_append [OF l e(2)] by (simp add: f lineage_is_def append_lineage_def)
    show "journal_done (final_state tx be bs staged m R fs) (es @ [e]) tx ?j"
      using e(3) tx R(2) by (auto simp: journal_done_def new_journal_def promoted_def f)
    show "distinct (map fst (fs_recovery (final_state tx be bs staged m R fs)))"
      using c by (simp add: f recovery_set_journal common_def set_journal_def distinct_update)
  qed (use tx b R(1) at dn l events_of_lineage in \<open>auto simp: f recovery_set_journal\<close>)
  with run show ?thesis by blast
qed

lemma boundary_find_genesis:
  assumes "genesis_transaction_committed E pid s = Inr True" and "events_of s = Inr es"
    and "lineage_is t es \<or> lineage_is t (es @ [e])"
  shows "find_genesis_event t = find_genesis_event s"
  using genesis_found [OF assms(1,2)] assms(2,3) events_of_lineage [of t]
    first_event_of_append [of genesis_transaction_id es _ "[e]"]
  by (auto simp: find_genesis_event_def)

lemma boundary_common:
  assumes c: "common E pid s es st" and l: "lineage_is s es" and b: "event_line e be"
    and tx: "tx \<noteq> genesis_transaction_id" and none: "map_of (fs_recovery s) tx = None"
  shows "common E pid (boundary_state tx be bs staged m R s k) es st"
proof -
  let ?t = "boundary_state tx be bs staged m R s k"
  have g: "genesis_transaction_committed E pid s = Inr True" using c by (simp add: common_def)
  have "find_genesis_event ?t = find_genesis_event s"
    using boundary_lineage [OF l b, of tx bs staged m R k] events_of_lineage [OF l]
    by (intro boundary_find_genesis [OF g, where e = e]) auto
  then have "genesis_transaction_committed E pid ?t = Inr True"
    using genesis_committed_cong [of ?t s] boundary_fields(1,2) tx g by simp
  moreover have "committed_marker ?t n" if "committed_marker s n" for n
  proof -
    have "n \<noteq> tx" using that none by (auto simp: committed_marker_def journal_at_def)
    then show ?thesis
      using that journal_at_cong [OF boundary_fields(2)] by (simp add: committed_marker_def)
  qed
  ultimately show ?thesis
    using c boundary_fields(3) [of s] unfolding common_def by blast
qed

lemma boundary_done:
  assumes "\<And>n j. journal_at s n = Some j \<Longrightarrow> j_intent j \<Longrightarrow> journal_done s es n j"
    and "map_of (fs_records s) \<subseteq>\<^sub>m map_of R" and "n \<noteq> tx"
    and "journal_at (boundary_state tx be bs staged m R s k) n = Some j" and "j_intent j"
  shows "journal_done (boundary_state tx be bs staged m R s k) es n j"
proof (rule journal_done_mono [of s])
  show "journal_done s es n j"
    using assms(1,4,5) journal_at_cong [OF boundary_fields(2) [OF assms(3)]] by simp
  show "map_of (fs_records s) \<subseteq>\<^sub>m map_of (fs_records (boundary_state tx be bs staged m R s k))"
    using boundary_records [OF assms(2), of tx be bs staged m k] assms(2) by auto
qed simp

text \<open>A crash before the intent leaves the store settled on the old state, a crash after it
  leaves it pending on the new one.\<close>

lemma commit_crashes:
  assumes nfc: "nfc_idempotent E" and s: "settled E pid fs es st"
    and r: "ready E pid fs es st r fp next_state transition records tx e st'"
  shows "\<exists>fs'. commit E pid r fp next_state transition records (crash_at k) fs = (Inl SimulatedCrash, fs')
    \<and> (if past_intent k then pending E pid fs' es st tx e st' else settled E pid fs' es st)"
proof -
  obtain be bs staged m R where run:
    "commit E pid r fp next_state transition records (crash_at k) fs
       = (Inl SimulatedCrash, boundary_state tx be bs staged m R fs k)"
    and e: "canonical E e = Inr be" "event_line e be" "read_json be = Inr e"
    and R: "map_of (fs_records fs) \<subseteq>\<^sub>m map_of R" "promotable fs (staged_files staged [])"
      "\<forall>sb \<in> set (staged_files staged []). \<exists>p. stem_path (fst sb) = Inr p \<and> map_of R p = Some (snd sb)"
    using ready_run [OF nfc settled_readable [OF s] r ready_tx [OF r]] by metis
  let ?t = "boundary_state tx be bs staged m R fs k"
  have c: "common E pid fs es st" and l: "lineage_is fs es"
    and dn: "\<And>n j. journal_at fs n = Some j \<Longrightarrow> j_intent j \<Longrightarrow> journal_done fs es n j"
    using s by (auto simp: settled_def)
  have tx: "tx \<noteq> genesis_transaction_id" "tx_of e = Some tx" "verify_event E pid e (Some st) = Inr st'"
    "Some tx \<notin> tx_of ` set es" "map_of (fs_recovery fs) tx = None" "\<exists>b. canonical E st' = Inr b"
    using r by (auto simp: ready_def)
  have c': "common E pid ?t es st" by (rule boundary_common [OF c l e(2) tx(1,5)])
  note dn' = boundary_done [where s = fs and es = es and tx = tx, OF dn R(1)]
  have "if past_intent k then pending E pid ?t es st tx e st' else settled E pid ?t es st"
  proof (cases "past_intent k")
    case False
    then obtain j where j: "journal_at ?t tx = Some j" "\<not> j_intent j"
      using boundary_journal(1) by blast
    have "journal_done ?t es n jn" if "journal_at ?t n = Some jn" "j_intent jn" for n jn
      using dn' [where n = n and j = jn] that j by (cases "n = tx") auto
    then show ?thesis
      using False c' boundary_lineage [OF l e(2), of tx bs staged m R k] by (simp add: settled_def)
  next
    case True
    have "promotable ?t (staged_files staged [])"
    proof (cases "fs_records ?t = fs_records fs")
      case True
      then show ?thesis using R(2) promotable_cong [of ?t fs] by simp
    next
      case False
      then have rec: "fs_records ?t = R"
        using boundary_records [OF R(1), of tx be bs staged m k] by blast
      show ?thesis
        unfolding promotable_def rec
      proof (intro conjI ballI impI)
        fix x assume "x \<in> set (staged_files staged [])"
        then show "\<exists>p. stem_path (fst x) = Inr p \<and> (map_of R p = None \<or> map_of R p = Some (snd x))"
          using R(3) by blast
      next
        fix x y assume "x \<in> set (staged_files staged [])" "y \<in> set (staged_files staged [])"
          "stem_path (fst x) = stem_path (fst y)"
        then show "snd x = snd y" using R(2) unfolding promotable_def by blast
      qed
    qed
    moreover have "\<forall>n jn. n \<noteq> tx \<and> journal_at ?t n = Some jn \<and> j_intent jn \<longrightarrow> journal_done ?t es n jn"
      using dn' by blast
    moreover have "journal_at ?t tx = Some (new_journal be bs staged m)"
      by (rule boundary_journal(2) [OF True])
    ultimately show ?thesis
      using True c' boundary_lineage [OF l e(2), of tx bs staged m R k] tx e
      unfolding pending_def by (auto simp: new_journal_def)
  qed
  with run show ?thesis by blast
qed

lemma commit_crash_recover:
  assumes "nfc_idempotent E" and "settled E pid fs es st"
    and "ready E pid fs es st r fp next_state transition records tx e st'"
  shows "\<exists>fs' fs''. commit E pid r fp next_state transition records (crash_at k) fs = (Inl SimulatedCrash, fs')
    \<and> reconstruct E pid fs' = Inr st
    \<and> recover E pid fs' = (Inr (if past_intent k then st' else st), fs'')
    \<and> settled E pid fs'' (if past_intent k then es @ [e] else es) (if past_intent k then st' else st)"
proof -
  obtain fs' where c: "commit E pid r fp next_state transition records (crash_at k) fs = (Inl SimulatedCrash, fs')"
    and s: "if past_intent k then pending E pid fs' es st tx e st' else settled E pid fs' es st"
    using commit_crashes [OF assms] by blast
  show ?thesis
  proof (cases "past_intent k")
    case True
    then have p: "pending E pid fs' es st tx e st'" using s by simp
    from pending_recover [OF p] pending_reconstruct [OF p] c True show ?thesis by auto
  next
    case False
    then have t: "settled E pid fs' es st" using s by simp
    then obtain b where "canonical E st = Inr b" by (auto simp: settled_def common_def)
    from settled_recover [OF t this] settled_put_current [OF t] settled_reconstruct [OF t] c False
    show ?thesis by auto
  qed
qed

end
