(* ===== verification/Plain.thy ===== *)
theory Plain
  imports Fingerprint
begin

text \<open>
  Values made of printable ASCII text, already in canonical order: the canonicalizer returns
  them unchanged, their serialization is one line of ASCII, and nothing about them depends on
  Unicode tables beyond \<open>NFC\<close> leaving ASCII alone. The identities, timestamps and digests the
  store itself writes are of this kind, and so are the concrete inputs of the witnesses.
\<close>

definition plain_str :: "ustr \<Rightarrow> bool" where
  "plain_str s \<longleftrightarrow> (\<forall>c \<in> set s. 32 \<le> c \<and> c < 127)"

definition nfc_ascii :: "ext \<Rightarrow> bool" where
  "nfc_ascii E \<longleftrightarrow> (\<forall>s. plain_str s \<longrightarrow> ext_nfc E s = s)"

text \<open>The flag says whether a list here would be set-like.\<close>

fun plain :: "ext \<Rightarrow> bool \<Rightarrow> json \<Rightarrow> bool" where
  "plain E b JNull = True"
| "plain E b (JBool x) = True"
| "plain E b (JInt i) = True"
| "plain E b (JStr s) = plain_str s"
| "plain E b (JList xs) = ((b \<longrightarrow> length xs \<le> 1) \<and> (\<forall>x \<in> set xs. plain E False x))"
| "plain E b (JObj kvs) =
     (sorted (map fst kvs) \<and> distinct (map fst kvs) \<and>
      (\<forall>kv \<in> set kvs. plain_str (fst kv) \<and> \<not> secret_key E (fst kv)
         \<and> plain E (fst kv \<in> set set_like_fields) (snd kv)))"
| "plain E b v = False"

lemma plain_str_simps [simp]:
  "plain_str []" "plain_str (c # s) \<longleftrightarrow> 32 \<le> c \<and> c < 127 \<and> plain_str s"
  "plain_str (s @ t) \<longleftrightarrow> plain_str s \<and> plain_str t"
  by (auto simp: plain_str_def)

lemma utf8_encode_plain: "plain_str s \<Longrightarrow> utf8_encode s = Some (map of_nat s)"
  by (induction s) (auto simp: utf8_encode_def utf8_char_def encodable_def surrogate_def split: if_splits)

lemma plain_line_safe: "plain_str s \<Longrightarrow> c \<in> set s \<Longrightarrow> \<not> is_linebreak c"
  by (auto simp: plain_str_def is_linebreak_def)

lemma plain_concat: "(\<And>x. x \<in> set xs \<Longrightarrow> plain_str x) \<Longrightarrow> plain_str (concat xs)"
  by (auto simp: plain_str_def)

lemma plain_join: "(\<And>x. x \<in> set xs \<Longrightarrow> plain_str x) \<Longrightarrow> plain_str (join_with 44 xs)"
  using set_join_with [of 44 xs] unfolding plain_str_def by fastforce

lemma plain_dump_str: "plain_str s \<Longrightarrow> plain_str (dump_str s)"
  by (induction s) (auto simp: dump_str_def escape_char_def hex_digit_def)

lemma plain_digits: "\<forall>d \<in> set s. is_digit d \<Longrightarrow> plain_str s"
  by (auto simp: plain_str_def is_digit_def)

lemma plain_dec_int: "plain_str (dec_int i)"
  using plain_digits [of "dec_nat (nat i)"] plain_digits [of "dec_nat (nat (- i))"] dec_nat_digits
  by (auto simp: dec_int_def)

lemma plain_canon: "plain E b v \<Longrightarrow> canon v"
proof (induction v arbitrary: b)
  case (JObj kvs)
  then show ?case by (auto simp: snds.simps)
qed auto

lemma plain_dumps: "plain E b v \<Longrightarrow> plain_str (dumps v)"
proof (induction v arbitrary: b)
  case (JList xs)
  have "plain_str x" if "x \<in> set (map dumps xs)" for x
    using that JList by auto
  then have "plain_str (join_with 44 (map dumps xs))" by (rule plain_join)
  then show ?case by simp
next
  case (JObj kvs)
  have s: "sorted (map fst kvs)" using JObj.prems by simp
  have "plain_str x" if "x \<in> set (map dump_member kvs)" for x
    using that JObj plain_dump_str by (auto simp: dump_member_def snds.simps)
  then show ?case
    using plain_join [of "map dump_member kvs"] unfolding dumps_obj_members [OF s] by simp
qed (auto simp: plain_dump_str plain_dec_int u_Cons)

lemma plain_normalize: "nfc_ascii E \<Longrightarrow> plain_str s \<Longrightarrow> normalize_string E s = Inr s"
  by (simp add: normalize_string_def nfc_ascii_def utf8_encode_plain)

lemma item_not_set_like [simp]: "u ''[]'' \<notin> set set_like_fields"
  by (simp add: set_like_fields_def)

lemma plain_canonical_tree:
  "nfc_ascii E \<Longrightarrow> plain E b v \<Longrightarrow> set_like p = b \<Longrightarrow> canonical_tree E p v = Inr v"
proof (induction v arbitrary: p b)
  case (JStr s)
  then show ?case by (simp add: plain_normalize)
next
  case (JList xs)
  have items: "list_all2 (\<lambda>x i. canonical_tree E (p @ [u ''[]'']) x = Inr i) xs xs"
    unfolding list_all2_same
  proof
    fix x assume "x \<in> set xs"
    then show "canonical_tree E (p @ [u ''[]'']) x = Inr x"
      using JList.prems by (intro JList.IH [of x False]) auto
  qed
  show ?case
  proof (cases "set_like p")
    case True
    have "\<exists>c. canonical_json_bytes E x = Inr c" if "x \<in> set xs" for x
    proof -
      have "canonical_tree E [] x = Inr x"
        using JList.IH [OF that JList.prems(1), of False "[]"] that JList.prems(2) by simp
      moreover have "plain_str (dumps x)"
        using that JList.prems(2) plain_dumps by auto
      ultimately show ?thesis by (auto simp: canonical_json_bytes_iff utf8_encode_plain)
    qed
    moreover have "xs = [] \<or> (\<exists>x. xs = [x])"
      using JList.prems True by (cases xs) auto
    ultimately show ?thesis
      using items True by (auto simp: canonical_list_iff intro!: exI [of _ xs])
  next
    case False
    then show ?thesis using items by (simp add: canonical_list_iff)
  qed
next
  case (JObj kvs)
  have "member_ok E p kv kv" if kv: "kv \<in> set kvs" for kv
    using JObj.IH [of kv "snd kv" "fst kv \<in> set set_like_fields" "p @ [fst kv]"] kv JObj.prems
    by (auto simp: member_ok_def plain_normalize snds.simps)
  then have "list_all2 (member_ok E p) kvs kvs" by (simp add: list_all2_same)
  then show ?case
    using JObj.prems(2) by (auto simp: canonical_obj_iff sort_key_id intro!: exI [of _ kvs])
qed auto

lemma plain_canonical:
  assumes "nfc_ascii E" and "plain E False v"
  shows "canonical_json_bytes E v = Inr (map of_nat (dumps v))"
  using plain_canonical_tree [OF assms, of "[]"] plain_dumps [OF assms(2)]
  by (simp add: canonical_json_bytes_iff utf8_encode_plain)

lemma plain_hex: "plain_str (hex_bytes bs)"
proof -
  have "plain_str [hex_digit (unat (b :: byte) div 16), hex_digit (unat b mod 16)]" for b
  proof -
    have "unat b < 256" by (rule unsigned_less [where 'b = 8, simplified])
    then have "unat b div 16 < 16" "unat b mod 16 < 16" by (auto simp: less_mult_imp_div_less)
    then show ?thesis by (auto simp: hex_digit_def)
  qed
  then show ?thesis
    unfolding hex_bytes_def by (intro plain_concat) auto
qed

lemma plain_sha256_hex [simp]: "plain_str (sha256_hex m)"
  by (simp add: sha256_hex_def plain_hex)

lemma nfc_ascii_example [simp]: "nfc_ascii ascii_ext"
  by (simp add: nfc_ascii_def)

text \<open>A field of an object, looked up in its canonical form.\<close>

lemma canonical_field:
  assumes "nfc_ascii E" and "canonical_tree E p (JObj kvs) = Inr t" and "(k, v) \<in> set kvs" and "plain_str k"
  shows "\<exists>c. jget t k = Some c \<and> canonical_tree E (p @ [k]) v = Inr c"
proof -
  obtain cs where cs: "list_all2 (member_ok E p) kvs cs" "distinct (map fst cs)" "t = JObj (sort_key fst cs)"
    using assms(2) unfolding canonical_obj_iff by blast
  obtain kc where kc: "kc \<in> set cs" "member_ok E p (k, v) kc"
    using cs(1) assms(3) by (metis in_set_conv_nth list_all2_conv_all_nth)
  then have "fst kc = k" "canonical_tree E (p @ [k]) v = Inr (snd kc)"
    using assms(1,4) normalize_string_nfc [of E k "fst kc"] by (auto simp: member_ok_def nfc_ascii_def)
  moreover have "map_of cs (fst kc) = Some (snd kc)"
    using cs(2) kc(1) by (metis map_of_eq_Some_iff prod.collapse)
  ultimately show ?thesis
    using cs(2,3) by (simp add: map_of_sort_key)
qed

section \<open>ASCII keys\<close>

text \<open>The environment treats ASCII text as Unicode does.\<close>

definition ascii_env :: "ext \<Rightarrow> bool" where
  "ascii_env E \<longleftrightarrow> nfc_idempotent E \<and> nfc_ascii E
     \<and> (\<forall>s. plain_str s \<longrightarrow> ext_lower E s = ascii_lower s)"

lemma ascii_env_example [simp]: "ascii_env ascii_ext"
  by (simp add: ascii_env_def ascii_nfc_idempotent)

lemma py_strip_plain: "plain_str s \<Longrightarrow> plain_str (py_strip s)"
proof -
  have "set (py_strip s) \<subseteq> set s"
  proof
    fix c assume "c \<in> set (py_strip s)"
    then have "c \<in> set (dropWhile is_space (rev (dropWhile is_space s)))"
      by (simp add: py_strip_def)
    from set_dropWhileD [OF this] have "c \<in> set (dropWhile is_space s)" by simp
    from set_dropWhileD [OF this] show "c \<in> set s" by simp
  qed
  then show "plain_str s \<Longrightarrow> plain_str (py_strip s)"
    by (auto simp: plain_str_def)
qed

lemma secret_key_ascii:
  "ascii_env E \<Longrightarrow> plain_str k \<Longrightarrow> secret_key E k = secret_key ascii_ext k"
  by (simp add: secret_key_def normalized_key_for_secret_check_def ascii_env_def py_strip_plain)

text \<open>A key of lower-case letters and underscores is its own normal form.\<close>

definition word_key :: "ustr \<Rightarrow> bool" where
  "word_key k \<longleftrightarrow> list_all (\<lambda>c. c = 95 \<or> (97 \<le> c \<and> c \<le> 122)) k"

lemma secret_word_key:
  assumes "word_key k"
  shows "secret_key ascii_ext k \<longleftrightarrow> k \<in> set secret_keys"
proof -
  have c: "c \<in> set k \<Longrightarrow> c = 95 \<or> (97 \<le> c \<and> c \<le> 122)" for c
    using assms by (simp add: word_key_def list_all_iff)
  have keep: "dropWhile is_space xs = xs" if "set xs \<subseteq> set k" for xs
  proof (cases xs)
    case (Cons x r)
    then have "\<not> is_space x" using that c [of x] by (auto simp: is_space_def)
    then show ?thesis using Cons by simp
  qed simp
  have strip: "py_strip k = k" by (simp add: py_strip_def keep)
  have "normalized_key_for_secret_check ascii_ext k = k"
    unfolding normalized_key_for_secret_check_def ascii_lower_def ascii_ext_simps strip
    using c by (fastforce intro: map_idI)
  then show ?thesis by (simp only: secret_key_def)
qed

lemma word_key_plain: "word_key k \<Longrightarrow> plain_str k"
  by (auto simp: word_key_def list_all_iff plain_str_def)

lemma word_key_free:
  "ascii_env E \<Longrightarrow> word_key k \<Longrightarrow> k \<notin> set secret_keys \<Longrightarrow> \<not> secret_key E k"
  using secret_key_ascii [OF _ word_key_plain] by (simp add: secret_word_key)

section \<open>Objects in any order\<close>

text \<open>The same for an object whose keys are not sorted yet: canonicalizing it sorts them.\<close>

fun plain_any :: "ext \<Rightarrow> bool \<Rightarrow> json \<Rightarrow> bool" where
  "plain_any E b (JList xs) = ((b \<longrightarrow> length xs \<le> 1) \<and> (\<forall>x \<in> set xs. plain_any E False x))"
| "plain_any E b (JObj kvs) =
     (distinct (map fst kvs) \<and>
      (\<forall>kv \<in> set kvs. plain_str (fst kv) \<and> \<not> secret_key E (fst kv)
         \<and> plain_any E (fst kv \<in> set set_like_fields) (snd kv)))"
| "plain_any E b v = plain E b v"

fun sort_keys :: "json \<Rightarrow> json" where
  "sort_keys (JList xs) = JList (map sort_keys xs)"
| "sort_keys (JObj kvs) = JObj (sort_key fst (map (\<lambda>(k, v). (k, sort_keys v)) kvs))"
| "sort_keys v = v"

lemma plain_sort_keys: "plain_any E b v \<Longrightarrow> plain E b (sort_keys v)"
proof (induction v arbitrary: b)
  case (JObj kvs)
  have fst: "map fst (map (\<lambda>(k, v). (k, sort_keys v)) kvs) = map fst kvs" by (simp add: comp_def split_beta)
  have "plain E (k \<in> set set_like_fields) (sort_keys v)" if "(k, v) \<in> set kvs" for k v
    using that JObj.prems by (intro JObj.IH) (auto simp: snds.simps)
  then show ?case using JObj.prems fst by (auto simp del: map_map)
qed auto

lemma plain_any_tree:
  "nfc_ascii E \<Longrightarrow> plain_any E b v \<Longrightarrow> set_like p = b \<Longrightarrow> canonical_tree E p v = Inr (sort_keys v)"
proof (induction v arbitrary: p b)
  case (JList xs)
  have items: "list_all2 (\<lambda>x i. canonical_tree E (p @ [u ''[]'']) x = Inr i) xs (map sort_keys xs)"
    using JList.prems by (auto simp: list_all2_conv_all_nth intro!: JList.IH)
  show ?case
  proof (cases "set_like p")
    case True
    have "\<exists>c. canonical_json_bytes E (sort_keys x) = Inr c" if "x \<in> set xs" for x
      using plain_canonical [OF JList.prems(1) plain_sort_keys] that JList.prems(2) by auto
    moreover have "xs = [] \<or> (\<exists>x. xs = [x])"
      using JList.prems True by (cases xs) auto
    ultimately show ?thesis
      using items True by (auto simp: canonical_list_iff intro!: exI [of _ "map sort_keys xs"])
  next
    case False
    then show ?thesis using items by (simp add: canonical_list_iff)
  qed
next
  case (JObj kvs)
  let ?cs = "map (\<lambda>(k, v). (k, sort_keys v)) kvs"
  have "member_ok E p (k, v) (k, sort_keys v)" if kv: "(k, v) \<in> set kvs" for k v
    using JObj.IH [of "(k, v)" v "k \<in> set set_like_fields" "p @ [k]"] kv JObj.prems
    by (auto simp: member_ok_def plain_normalize snds.simps)
  then have "list_all2 (member_ok E p) kvs ?cs"
    by (auto simp: list_all2_conv_all_nth split_beta) (metis nth_mem prod.collapse)
  moreover have "map fst ?cs = map fst kvs" by (simp add: comp_def split_beta)
  ultimately show ?case using JObj.prems(2) unfolding canonical_obj_iff
    by (intro exI [of _ ?cs]) (simp del: map_map)
qed (simp_all add: plain_normalize)

lemma plain_any_canonical:
  assumes "nfc_ascii E" and "plain_any E False v"
  shows "canonical_json_bytes E v = Inr (map of_nat (dumps (sort_keys v)))"
  using plain_any_tree [OF assms, of "[]"] plain_dumps [OF plain_sort_keys [OF assms(2)]]
  by (simp add: canonical_json_bytes_iff utf8_encode_plain)

lemma plain_upper: "plain_str s \<Longrightarrow> plain_str (ascii_upper s)"
  by (fastforce simp: plain_str_def ascii_upper_def)

end
