(* ===== verification/StoreGenesis.thy ===== *)
theory StoreGenesis
  imports StoreCommit Plain
begin

text \<open>
  Initialization: the bare genesis settles a fresh project on its initial state, the
  genesis receipt binds what it names, and a concrete project on which the theorems about the
  store are exercised.
\<close>

section \<open>The receipt\<close>

lemma jfield_iff: "jfield v k = jget v (u k)"
  by (simp add: jfield_def)

definition receipt_json :: "ustr \<Rightarrow> string \<Rightarrow> nat \<Rightarrow> ustr \<Rightarrow> ustr \<Rightarrow> json" where
  "receipt_json pid mode n digest rid =
     JObj (receipt_fields pid mode n digest @ [(u ''genesis_receipt_id'', JStr rid)])"

text \<open>The receipt as it is read back: its keys sorted.\<close>

definition receipt_stored :: "ustr \<Rightarrow> string \<Rightarrow> nat \<Rightarrow> ustr \<Rightarrow> ustr \<Rightarrow> json" where
  "receipt_stored pid mode n digest rid = JObj
     [(u ''genesis_mode'', JStr (u mode)),
      (u ''genesis_receipt_id'', JStr rid),
      (u ''manifest_digest'', JStr digest),
      (u ''manifest_member_count'', JInt (int n)),
      (u ''project_id'', JStr pid),
      (u ''schema_version'', JStr (u ''0.1'')),
      (u ''transaction_id'', JStr genesis_transaction_id)]"

lemma receipt_same:
  "same_value E [] (receipt_json pid mode n digest rid) (receipt_stored pid mode n digest rid)"
  unfolding receipt_json_def receipt_stored_def
  by (rule same_obj [of _ _ _ "receipt_fields pid mode n digest @ [(u ''genesis_receipt_id'', JStr rid)]"])
    (auto simp: receipt_fields_def list_all2_same intro: same_refl)

lemma receipt_stored_plain:
  assumes "ascii_env E" and "plain_str pid" "plain_str (u mode)" "plain_str digest" "plain_str rid"
  shows "plain E b (receipt_stored pid mode n digest rid)"
proof -
  have "\<not> secret_key ascii_ext k" if "k \<in> u ` {''genesis_mode'', ''genesis_receipt_id'',
      ''manifest_digest'', ''manifest_member_count'', ''project_id'', ''schema_version'',
      ''transaction_id''}" for k
    using that by (auto simp: canonical_eval)
  then show ?thesis
    using assms secret_key_ascii [OF assms(1)]
    by (simp add: receipt_stored_def genesis_transaction_id_def u_Cons)
qed

lemma receipt_canonical:
  assumes "ascii_env E" and "plain_str pid" "plain_str (u mode)" "plain_str digest" "plain_str rid"
  shows "canonical_tree E [] (receipt_json pid mode n digest rid) = Inr (receipt_stored pid mode n digest rid)"
    and "\<exists>b. canonical E (receipt_json pid mode n digest rid) = Inr b
      \<and> read_json b = Inr (receipt_stored pid mode n digest rid)"
proof -
  let ?s = "receipt_stored pid mode n digest rid"
  have p: "plain E b ?s" for b by (rule receipt_stored_plain [OF assms])
  have nfc: "nfc_ascii E" "nfc_idempotent E" using assms(1) by (auto simp: ascii_env_def)
  have sym: "same_value E [] ?s (receipt_json pid mode n digest rid)"
    unfolding receipt_json_def receipt_stored_def
    by (rule same_obj [of _ _ _ "[(u ''genesis_mode'', JStr (u mode)), (u ''genesis_receipt_id'', JStr rid),
      (u ''manifest_digest'', JStr digest), (u ''manifest_member_count'', JInt (int n)),
      (u ''project_id'', JStr pid), (u ''schema_version'', JStr (u ''0.1'')),
      (u ''transaction_id'', JStr genesis_transaction_id)]"])
      (auto simp: receipt_fields_def list_all2_same intro: same_refl)
  show t: "canonical_tree E [] (receipt_json pid mode n digest rid) = Inr ?s"
    using canonical_tree_same [OF sym] plain_canonical_tree [OF nfc(1) p [of False], of "[]"] by simp
  have u: "utf8_encode (dumps ?s) = Some (map of_nat (dumps ?s))"
    by (rule utf8_encode_plain [OF plain_dumps [OF p]])
  then have "canonical E (receipt_json pid mode n digest rid) = Inr (map of_nat (dumps ?s))"
    using t by (simp add: canonical_def canonical_json_bytes_def encode_tree_def)
  moreover have "read_json (map of_nat (dumps ?s)) = Inr ?s"
    using canonical_read_back(1,2) [OF t u] by (simp add: read_json_def)
  ultimately show "\<exists>b. canonical E (receipt_json pid mode n digest rid) = Inr b \<and> read_json b = Inr ?s"
    by blast
qed

lemma receipt_id_same:
  "genesis_receipt_id E (receipt_stored pid mode n digest rid)
   = genesis_receipt_id E (JObj (receipt_fields pid mode n digest))"
proof -
  have "mapE (\<lambda>k. bindE (field (receipt_stored pid mode n digest rid) k) (\<lambda>v. Inr (u k, v)))
      genesis_receipt_identity_fields =
    mapE (\<lambda>k. bindE (field (JObj (receipt_fields pid mode n digest)) k) (\<lambda>v. Inr (u k, v)))
      genesis_receipt_identity_fields"
    by (simp add: genesis_receipt_identity_fields_def field_def jfield_def receipt_stored_def
        receipt_fields_def)
  then show ?thesis by (simp only: genesis_receipt_id_def)
qed

lemma receipt_id_plain: "genesis_receipt_id E v = Inr rid \<Longrightarrow> plain_str rid"
  by (auto simp: genesis_receipt_id_def plain_upper u_Cons)

lemma manifest_digest_plain: "manifest_digest E ms = Inr d \<Longrightarrow> plain_str d"
  by (auto simp: manifest_digest_def u_Cons)

text \<open>A receipt the store wrote reads back as a valid one.\<close>

lemma read_written_receipt:
  assumes "ascii_env E" and "plain_str pid" and "plain_str (u mode)"
    and "manifest_digest E ms = Inr digest"
    and "genesis_receipt_id E (JObj (receipt_fields pid mode n digest)) = Inr rid"
    and "ext_schema E genesis_receipt_schema_id (receipt_stored pid mode n digest rid)"
  shows "\<exists>b. canonical E (receipt_json pid mode n digest rid) = Inr b \<and>
    (\<forall>fs. fs_receipt fs = Some b \<longrightarrow>
       read_genesis_receipt E pid fs = Inr (Some (receipt_stored pid mode n digest rid)))"
proof -
  obtain b where b: "canonical E (receipt_json pid mode n digest rid) = Inr b"
    "read_json b = Inr (receipt_stored pid mode n digest rid)"
    using receipt_canonical(2) [OF assms(1-3) manifest_digest_plain [OF assms(4)] receipt_id_plain [OF assms(5)]]
    by blast
  have "read_genesis_receipt E pid fs = Inr (Some (receipt_stored pid mode n digest rid))"
    if "fs_receipt fs = Some b" for fs
    using that b(2) assms(5,6) receipt_id_same [of E pid mode n digest rid]
    by (simp add: read_genesis_receipt_def differs_def field_def jfield_def receipt_stored_def)
  with b(1) show ?thesis by blast
qed

section \<open>The bare genesis\<close>

lemma genesis_binding:
  assumes "ascii_env E" and "canonical_tree E [] (genesis_event pid state fp at rid) = Inr e"
    and "plain_str pid" and "plain_str rid"
  shows "verify_genesis_event_receipt_binding e (receipt_stored pid mode n digest rid) = Inr ()"
    and "tx_of e = Some genesis_transaction_id" and "is_obj e"
proof -
  have nfc: "nfc_ascii E" using assms(1) by (simp add: ascii_env_def)
  note f = canonical_field [OF nfc assms(2) [unfolded genesis_event_def]]
  have ref: "jget e (u ''genesis_receipt_ref'') = Some (JObj [(u ''id'', JStr rid), (u ''kind'', JStr (u ''genesis_receipt''))])"
  proof -
    obtain c where c: "jget e (u ''genesis_receipt_ref'') = Some c"
      "canonical_tree E [u ''genesis_receipt_ref''] (JObj [(u ''kind'', JStr (u ''genesis_receipt'')), (u ''id'', JStr rid)]) = Inr c"
      using f [of "u ''genesis_receipt_ref''"] by (auto simp: u_Cons)
    have "\<not> secret_key E k" if "k \<in> u ` {''kind'', ''id''}" for k
      using that secret_key_ascii [OF assms(1), of k] by (auto simp: canonical_eval)
    then have "plain E False (JObj [(u ''id'', JStr rid), (u ''kind'', JStr (u ''genesis_receipt''))])"
      using assms(4) by (simp add: u_Cons)
    then have "canonical_tree E [u ''genesis_receipt_ref'']
        (JObj [(u ''id'', JStr rid), (u ''kind'', JStr (u ''genesis_receipt''))]) =
      Inr (JObj [(u ''id'', JStr rid), (u ''kind'', JStr (u ''genesis_receipt''))])"
      by (rule plain_canonical_tree [OF nfc]) (simp add: set_like_def set_like_fields_def)
    moreover have "same_value E p (JObj [(u ''id'', JStr rid), (u ''kind'', JStr (u ''genesis_receipt''))])
       (JObj [(u ''kind'', JStr (u ''genesis_receipt'')), (u ''id'', JStr rid)])" for p
      by (rule same_obj [of _ _ _ "[(u ''id'', JStr rid), (u ''kind'', JStr (u ''genesis_receipt''))]"])
        (auto simp: list_all2_same intro: same_refl)
    ultimately show ?thesis
      using canonical_tree_same c by fastforce
  qed
  have str: "jget e (u k) = Some (JStr v)"
    if "(u k, JStr v) \<in> set [(u ''transaction_id'', JStr genesis_transaction_id), (u ''project_id'', JStr pid)]" for k v
  proof -
    have "plain_str (u k)" "plain_str v"
      using that assms(3) by (auto simp: u_Cons genesis_transaction_id_def)
    moreover have "\<exists>c. jget e (u k) = Some c \<and> canonical_tree E ([] @ [u k]) (JStr v) = Inr c"
      by (rule f) (use that \<open>plain_str (u k)\<close> in auto)
    ultimately show ?thesis
      using plain_normalize [OF nfc] by auto
  qed
  have o: "is_obj e"
    using assms(2) by (auto simp: genesis_event_def canonical_obj_iff)
  then show "verify_genesis_event_receipt_binding e (receipt_stored pid mode n digest rid) = Inr ()"
    using ref str
    by (simp add: verify_genesis_event_receipt_binding_def get_field_def jfield_def field_def
        receipt_stored_def is_some_def)
  show "tx_of e = Some genesis_transaction_id" "is_obj e"
    using str o by (auto simp: tx_of_def jfield_def)
qed

text \<open>Initializing an empty project without records: the receipt, then the lineage, then the
  current view. The last premises say that the schemas admit the written forms.\<close>

lemma initialize_run:
  assumes "name_ok pid" and "fs_lineage fs = None"
    and "genesis_plan E pid initial [] = Inr (state, event, receipt)"
    and "canonical E receipt = Inr br" and "canonical E event = Inr be" and "canonical E state = Inr bs"
  shows "initialize E pid initial [] fault fs =
    (Inr state, put_current bs (put_lineage be (put_receipt br fs)))"
  using assms
  by (simp add: initialize_def project_path_def run_simps bindS_run write_canonical_run Let_def)

lemma genesis_plan_receipt:
  assumes "genesis_plan E pid initial records = Inr (state, event, receipt)"
  shows "\<exists>digest rid fp at. manifest_digest E (genesis_members records) = Inr digest
    \<and> genesis_receipt_id E (JObj (receipt_fields pid (if records = [] then ''BARE'' else ''WITH_RECORDS'')
         (length (genesis_members records)) digest)) = Inr rid
    \<and> event = genesis_event pid state fp at rid
    \<and> receipt = receipt_json pid (if records = [] then ''BARE'' else ''WITH_RECORDS'')
         (length (genesis_members records)) digest rid"
  using assms by (auto simp: genesis_plan_def Let_def receipt_json_def split: if_splits)

lemma initialize_settles:
  assumes E: "ascii_env E" and pid: "name_ok pid" "plain_str pid"
    and fs: "fs_lineage fs = None" "fs_recovery fs = []"
    and plan: "genesis_plan E pid initial [] = Inr (state, event, receipt)"
    and e: "canonical_tree E [] event = Inr e" "canonical E event = Inr be" "line_safe e"
      "verify_event E pid e None = Inr st"
    and st: "canonical_tree E [] state = Inr st" "canonical E state = Inr bs"
    and schema: "\<forall>r. canonical_tree E [] receipt = Inr r \<longrightarrow> ext_schema E genesis_receipt_schema_id r"
  shows "\<exists>fs'. initialize E pid initial [] fault fs = (Inr state, fs')
    \<and> settled E pid fs' [e] st"
proof -
  obtain digest rid fp at where
    d: "manifest_digest E [] = Inr digest"
      "genesis_receipt_id E (JObj (receipt_fields pid ''BARE'' 0 digest)) = Inr rid"
    and ev: "event = genesis_event pid state fp at rid"
    and rc: "receipt = receipt_json pid ''BARE'' 0 digest rid"
    using genesis_plan_receipt [OF plan] by (auto simp: genesis_members_def)
  have nfc: "nfc_idempotent E" using E by (simp add: ascii_env_def)
  have bare: "plain_str (u ''BARE'')" by (simp add: u_Cons)
  let ?r = "receipt_stored pid ''BARE'' 0 digest rid"
  have "ext_schema E genesis_receipt_schema_id ?r"
    using schema receipt_canonical(1) [OF E pid(2) bare manifest_digest_plain [OF d(1)] receipt_id_plain [OF d(2)]]
    by (simp add: rc)
  then obtain br where br: "canonical E receipt = Inr br"
    "\<And>fs. fs_receipt fs = Some br \<Longrightarrow> read_genesis_receipt E pid fs = Inr (Some ?r)"
    using read_written_receipt [OF E pid(2) bare d] rc by blast
  let ?t = "put_current bs (put_lineage be (put_receipt br fs))"
  have run: "initialize E pid initial [] fault fs = (Inr state, ?t)"
    by (rule initialize_run [OF pid(1) fs(1) plan br(1) e(2) st(2)])
  have f: "fs_receipt ?t = Some br" "fs_recovery ?t = []" "fs_lineage ?t = Some (be @ [10])"
    using fs(2) by (simp_all add: put_current_def put_lineage_def put_receipt_def)
  have line: "event_line e be" by (rule canonical_tree_line(1) [OF e(1-3)])
  have l: "lineage_is ?t [e]"
    using line f(3) by (auto simp: lineage_is_def intro!: exI [of _ "[be]"])
  note bind = genesis_binding [OF E e(1) [unfolded ev] pid(2) receipt_id_plain [OF d(2)]]
  have "find_genesis_event ?t = Inr (Some e)"
    using events_of_lineage [OF l] bind(2,3)
    by (auto simp: find_genesis_event_def get_field_def tx_of_def split: option.splits json.splits)
  then have "genesis_transaction_committed E pid ?t = Inr True"
    using br(2) [OF f(1)] f(2) d(1) bind(1) [of "''BARE''" 0 digest]
    by (simp add: genesis_transaction_committed_def differs_def field_def jfield_def receipt_stored_def)
  moreover have "canonical E st = Inr bs"
    by (rule canonical_tree_stable [OF nfc st])
  ultimately have "settled E pid ?t [e] st"
    using l f(2) bind(2) e(4) pid(1)
    by (simp add: settled_def common_def replay_events_def journal_at_def)
  with run show ?thesis by blast
qed

section \<open>Substituted receipts\<close>

lemma upper_hex_inj:
  assumes "ascii_upper (sha256_hex a) = ascii_upper (sha256_hex b)"
  shows "sha256_hex a = sha256_hex b"
proof -
  have hex: "c \<in> set (sha256_hex m) \<Longrightarrow> is_digit c \<or> (97 \<le> c \<and> c \<le> 102)" for c m
  proof -
    have d: "is_digit (hex_digit n) \<or> (97 \<le> hex_digit n \<and> hex_digit n \<le> 102)" if "n < 16" for n
      using that by (auto simp: hex_digit_def is_digit_def)
    have b: "unat (b :: byte) div 16 < 16" for b
      using unsigned_less [where 'b = 8 and 'a = nat, of b] by (auto simp: less_mult_imp_div_less)
    have "is_digit (hex_digit (unat b div 16)) \<or> (97 \<le> hex_digit (unat b div 16) \<and> hex_digit (unat b div 16) \<le> 102)"
      "is_digit (hex_digit (unat b mod 16)) \<or> (97 \<le> hex_digit (unat b mod 16) \<and> hex_digit (unat b mod 16) \<le> 102)"
      for b :: byte
      by (rule d, rule b) (rule d, simp)
    then show "c \<in> set (sha256_hex m) \<Longrightarrow> is_digit c \<or> (97 \<le> c \<and> c \<le> 102)"
      by (auto simp: sha256_hex_def hex_bytes_def)
  qed
  have "inj_on (\<lambda>c. if 97 \<le> c \<and> c \<le> 122 then c - 32 else c) (set (sha256_hex a) \<union> set (sha256_hex b))"
    by (rule inj_onI) (use hex in \<open>fastforce simp: is_digit_def split: if_splits\<close>)
  then show ?thesis
    using assms by (simp add: ascii_upper_def inj_on_map_eq_map)
qed

text \<open>The identity fields of a receipt, as its id is computed over them.\<close>

definition receipt_payload :: "json \<Rightarrow> store_error + json" where
  "receipt_payload r =
     bindE (mapE (\<lambda>k. bindE (field r k) (\<lambda>v. Inr (u k, v))) genesis_receipt_identity_fields)
       (\<lambda>kvs. Inr (JObj kvs))"

lemma genesis_receipt_id_payload:
  "genesis_receipt_id E r = bindE (receipt_payload r) (\<lambda>p. bindE (canonical E p) (\<lambda>b.
     Inr (u ''GENESIS-RECEIPT-'' @ ascii_upper (sha256_hex (genesis_receipt_id_domain @ b)))))"
proof -
  have "bindE (bindE m (\<lambda>kvs. Inr (JObj kvs))) f = bindE m (\<lambda>kvs. f (JObj kvs))"
    for m :: "store_error + (ustr \<times> json) list" and f :: "json \<Rightarrow> store_error + ustr"
    by (cases m) auto
  then show ?thesis
    by (simp add: genesis_receipt_id_def receipt_payload_def)
qed

lemma receipt_id_payload:
  assumes "genesis_receipt_id E r = Inr i" and "genesis_receipt_id E q = Inr i"
  shows "\<exists>p p'. receipt_payload r = Inr p \<and> receipt_payload q = Inr p'
    \<and> (canonical_tree E [] p = canonical_tree E [] p' \<or>
       (\<exists>a b. canonical E p = Inr a \<and> canonical E p' = Inr b
          \<and> sha256_collision (genesis_receipt_id_domain @ a) (genesis_receipt_id_domain @ b)))"
proof -
  obtain p a where p: "receipt_payload r = Inr p" "canonical E p = Inr a"
    "i = u ''GENESIS-RECEIPT-'' @ ascii_upper (sha256_hex (genesis_receipt_id_domain @ a))"
    using assms(1) unfolding genesis_receipt_id_payload by auto
  obtain p' b where p': "receipt_payload q = Inr p'" "canonical E p' = Inr b"
    "i = u ''GENESIS-RECEIPT-'' @ ascii_upper (sha256_hex (genesis_receipt_id_domain @ b))"
    using assms(2) unfolding genesis_receipt_id_payload by auto
  have h: "sha256_hex (genesis_receipt_id_domain @ a) = sha256_hex (genesis_receipt_id_domain @ b)"
    using p(3) p'(3) by (intro upper_hex_inj) simp
  show ?thesis
  proof (cases "a = b")
    case True
    then have "canonical_json_bytes E p = Inr a" "canonical_json_bytes E p' = Inr a"
      using p(2) p'(2) by (simp_all add: canonical_def)
    then have "canonical_tree E [] p = canonical_tree E [] p'"
      by (rule canonical_json_bytes_tree)
    with p(1) p'(1) show ?thesis by blast
  next
    case False
    with h have "sha256_collision (genesis_receipt_id_domain @ a) (genesis_receipt_id_domain @ b)"
      by (simp add: sha256_collision_def)
    with p(1,2) p'(1,2) show ?thesis by blast
  qed
qed

end
