(* ===== verification/StoreExample.thy ===== *)
theory StoreExample
  imports StoreGenesis
begin

text \<open>
  A concrete project: two states with a counter, the genesis of the first and a transition to
  the second, in the environment \<open>ascii_ext\<close> whose schemas admit every value. Digests are kept
  as the terms that compute them.
\<close>

definition prj :: ustr where
  "prj = u ''PRJ-A''"

definition ex_semantic :: "int \<Rightarrow> json" where
  "ex_semantic n = JObj [(u ''counter'', JInt n)]"

definition ex_fp :: "int \<Rightarrow> json" where
  "ex_fp n = JObj
     [(u ''digest'', JStr (fp_digest (digest_of (map of_nat (dumps (ex_semantic n)))))),
      (u ''profile'', JStr fingerprint_profile)]"

definition ex_state :: "int \<Rightarrow> json \<Rightarrow> json" where
  "ex_state n prev = JObj
     [(u ''objective_revision_id'', JStr (u ''OBJ-1'')),
      (u ''previous_state_fingerprint'', prev),
      (u ''project_id'', JStr prj),
      (u ''schema_version'', JStr (u ''0.1'')),
      (u ''semantic_fingerprint'', ex_fp n),
      (u ''semantic_state'', ex_semantic n),
      (u ''state_metadata'', JObj [(u ''recorded_at'', JStr (u ''T0''))]),
      (u ''state_revision'', JInt n)]"

definition ex_transition :: "string \<Rightarrow> json" where
  "ex_transition tx = JObj
     [(u ''after_fingerprint'', ex_fp 1),
      (u ''after_state'', ex_state 1 (ex_fp 0)),
      (u ''before_fingerprint'', ex_fp 0),
      (u ''committed_at'', JStr (u ''T1'')),
      (u ''event_type'', JStr (u ''TRANSITION'')),
      (u ''evidence_refs'', JList []),
      (u ''from_revision'', JInt 0),
      (u ''project_id'', JStr prj),
      (u ''schema_version'', JStr (u ''0.1'')),
      (u ''to_revision'', JInt 1),
      (u ''transaction_id'', JStr (u tx))]"

lemma ex_keys_not_secret:
  assumes "k \<in> u ` {''counter'', ''digest'', ''profile'', ''previous_state_fingerprint'', ''project_id'',
      ''semantic_fingerprint'', ''semantic_state'', ''recorded_at'', ''state_metadata'',
      ''state_revision'', ''after_fingerprint'', ''after_state'', ''before_fingerprint'',
      ''committed_at'', ''event_type'', ''evidence_refs'', ''from_revision'', ''schema_version'',
      ''to_revision'', ''transaction_id'', ''genesis_receipt_ref'', ''kind'', ''id'',
      ''objective_revision_id'', ''lineage_head_ref''}"
  shows "\<not> secret_key ascii_ext k"
proof -
  have "word_key k"
    using assms by (elim imageE insertE emptyE) (simp_all add: word_key_def u_Cons)
  moreover have "k \<notin> set secret_keys"
    using assms by (elim imageE insertE emptyE) (simp_all add: secret_keys_def)
  ultimately show ?thesis by (simp add: secret_word_key)
qed

lemma plain_profile [simp]: "plain_str fingerprint_profile"
  by (simp add: fingerprint_profile_def u_Cons)

lemma plain_digest [simp]: "plain_str (fp_digest (digest_of b))"
  by (simp add: digest_of_def)

lemma plain_ex_fp [simp]: "plain ascii_ext b (ex_fp n)"
  using ex_keys_not_secret by (simp add: ex_fp_def u_Cons)

lemma plain_ex_semantic [simp]: "plain ascii_ext b (ex_semantic n)"
  using ex_keys_not_secret by (simp add: ex_semantic_def u_Cons)

lemma plain_ex_state [simp]: "\<forall>b. plain ascii_ext b prev \<Longrightarrow> plain ascii_ext b (ex_state n prev)"
  using ex_keys_not_secret by (simp add: ex_state_def prj_def u_Cons)

lemma plain_ex_transition [simp]: "plain_str (u tx) \<Longrightarrow> plain ascii_ext b (ex_transition tx)"
  using ex_keys_not_secret by (simp add: ex_transition_def prj_def u_Cons)

lemma plain_canonicalS:
  assumes "plain ascii_ext False v"
  shows "canonical_tree ascii_ext [] v = Inr v" and "canonical ascii_ext v = Inr (map of_nat (dumps v))"
    and "line_safe v"
  using plain_canonical_tree [OF nfc_ascii_example assms, of "[]"]
    plain_canonical [OF nfc_ascii_example assms] plain_line_safe [OF plain_dumps [OF assms]]
  by (simp_all add: canonical_def line_safe_def)

lemma ex_fp_eq: "py_eq (ex_fp n) (fingerprint_dict (digest_of (map of_nat (dumps (ex_semantic n)))))"
  by (simp add: py_eq_def ex_fp_def fingerprint_dict_def u_Cons)

lemma ex_validate: "validate_state ascii_ext prj (ex_state n prev) = Inr (ex_state n prev)"
proof -
  have "jfield (ex_state n prev) ''semantic_state'' = Some (ex_semantic n)"
    "jfield (ex_state n prev) ''project_id'' = Some (JStr prj)"
    "jfield (ex_state n prev) ''semantic_fingerprint'' = Some (ex_fp n)"
    by (simp_all add: jfield_def ex_state_def)
  moreover have "canonical_json_bytes ascii_ext (ex_semantic n) = Inr (map of_nat (dumps (ex_semantic n)))"
    by (rule plain_canonical) simp_all
  ultimately show ?thesis
    using ex_fp_eq by (simp add: validate_state_def canonical_semantic_state_bytes_def validate_def
        fingerprint_project_state_def differs_def field_def)
qed

lemma ex_state_fields:
  "field (ex_state n prev) ''semantic_fingerprint'' = Inr (ex_fp n)"
  "field (ex_state n prev) ''state_revision'' = Inr (JInt n)"
  "field (ex_state n prev) ''previous_state_fingerprint'' = Inr prev"
  "field (ex_state n prev) ''state_metadata'' = Inr (JObj [(u ''recorded_at'', JStr (u ''T0''))])"
  by (simp_all add: field_def jfield_def ex_state_def)

lemma ex_verify:
  "verify_event ascii_ext prj (ex_transition tx) (Some (ex_state 0 prev)) = Inr (ex_state 1 (ex_fp 0))"
proof -
  have f: "field (ex_transition tx) ''after_state'' = Inr (ex_state 1 (ex_fp 0))"
    "field (ex_transition tx) ''project_id'' = Inr (JStr prj)"
    "field (ex_transition tx) ''after_fingerprint'' = Inr (ex_fp 1)"
    "field (ex_transition tx) ''before_fingerprint'' = Inr (ex_fp 0)"
    "field (ex_transition tx) ''event_type'' = Inr (JStr (u ''TRANSITION''))"
    "field (ex_transition tx) ''from_revision'' = Inr (JInt 0)"
    "field (ex_transition tx) ''to_revision'' = Inr (JInt 1)"
    by (simp_all add: field_def jfield_def ex_transition_def)
  show ?thesis
    by (simp add: verify_event_def validateS_def validate_def f ex_validate ex_state_fields differs_def)
qed

lemma ex_tx: "tx_of (ex_transition tx) = Some (u tx)"
  by (simp add: tx_of_def jfield_def ex_transition_def)

section \<open>The project after its genesis\<close>

definition ex_genesis :: "ustr \<Rightarrow> json" where
  "ex_genesis rid = JObj
     [(u ''after_fingerprint'', ex_fp 0),
      (u ''after_state'', ex_state 0 JNull),
      (u ''before_fingerprint'', JNull),
      (u ''committed_at'', JStr (u ''T0'')),
      (u ''event_type'', JStr (u ''GENESIS'')),
      (u ''evidence_refs'', JList []),
      (u ''from_revision'', JNull),
      (u ''genesis_receipt_ref'', JObj [(u ''id'', JStr rid), (u ''kind'', JStr (u ''genesis_receipt''))]),
      (u ''project_id'', JStr prj),
      (u ''schema_version'', JStr (u ''0.1'')),
      (u ''to_revision'', JInt 0),
      (u ''transaction_id'', JStr genesis_transaction_id)]"

lemma ex_genesis_canonical:
  assumes "plain_str rid"
  shows "canonical_tree ascii_ext [] (genesis_event prj (ex_state 0 JNull) (ex_fp 0) (JStr (u ''T0'')) rid)
      = Inr (ex_genesis rid)"
    and "plain ascii_ext False (ex_genesis rid)"
proof -
  show p: "plain ascii_ext False (ex_genesis rid)"
    using ex_keys_not_secret assms
    by (simp add: ex_genesis_def prj_def genesis_transaction_id_def u_Cons)
  have "same_value ascii_ext [] (ex_genesis rid)
      (genesis_event prj (ex_state 0 JNull) (ex_fp 0) (JStr (u ''T0'')) rid)"
    unfolding ex_genesis_def genesis_event_def
  proof (rule same_obj)
    show "list_all2 (\<lambda>a b. fst a = fst b \<and> same_value ascii_ext ([] @ [ext_nfc ascii_ext (fst a)]) (snd a) (snd b))
     [(u ''after_fingerprint'', ex_fp 0),
      (u ''after_state'', ex_state 0 JNull),
      (u ''before_fingerprint'', JNull),
      (u ''committed_at'', JStr (u ''T0'')),
      (u ''event_type'', JStr (u ''GENESIS'')),
      (u ''evidence_refs'', JList []),
      (u ''from_revision'', JNull),
      (u ''genesis_receipt_ref'', JObj [(u ''id'', JStr rid), (u ''kind'', JStr (u ''genesis_receipt''))]),
      (u ''project_id'', JStr prj),
      (u ''schema_version'', JStr (u ''0.1'')),
      (u ''to_revision'', JInt 0),
      (u ''transaction_id'', JStr genesis_transaction_id)]
     [(u ''after_fingerprint'', ex_fp 0),
      (u ''after_state'', ex_state 0 JNull),
      (u ''before_fingerprint'', JNull),
      (u ''committed_at'', JStr (u ''T0'')),
      (u ''event_type'', JStr (u ''GENESIS'')),
      (u ''evidence_refs'', JList []),
      (u ''from_revision'', JNull),
      (u ''genesis_receipt_ref'', JObj [(u ''kind'', JStr (u ''genesis_receipt'')), (u ''id'', JStr rid)]),
      (u ''project_id'', JStr prj),
      (u ''schema_version'', JStr (u ''0.1'')),
      (u ''to_revision'', JInt 0),
      (u ''transaction_id'', JStr genesis_transaction_id)]"
      by (auto intro: same_refl same_obj [of _ _ _ "[(u ''id'', JStr rid), (u ''kind'', JStr (u ''genesis_receipt''))]"])
  qed auto
  from canonical_tree_same [OF this plain_canonicalS(1) [OF p]]
  show "canonical_tree ascii_ext [] (genesis_event prj (ex_state 0 JNull) (ex_fp 0) (JStr (u ''T0'')) rid)
      = Inr (ex_genesis rid)" .
qed

definition ex_digest :: ustr where
  "ex_digest = u ''sha256:'' @ sha256_hex (manifest_digest_domain @ map of_nat (dumps (JList [])))"

lemma ex_manifest_digest: "manifest_digest ascii_ext [] = Inr ex_digest"
  using plain_canonicalS(2) [of "JList []"] by (simp add: manifest_digest_def manifest_json_def ex_digest_def)

lemma ex_receipt_id: "\<exists>rid. genesis_receipt_id ascii_ext (JObj (receipt_fields prj ''BARE'' 0 ex_digest)) = Inr rid"
proof -
  let ?f = "JObj (receipt_fields prj ''BARE'' 0 ex_digest)"
  let ?s = "JObj [(u ''genesis_mode'', JStr (u ''BARE'')), (u ''manifest_digest'', JStr ex_digest),
      (u ''manifest_member_count'', JInt 0), (u ''project_id'', JStr prj),
      (u ''schema_version'', JStr (u ''0.1'')), (u ''transaction_id'', JStr genesis_transaction_id)]"
  have "\<not> secret_key ascii_ext k" if "k \<in> u ` {''genesis_mode'', ''manifest_digest'',
      ''manifest_member_count'', ''project_id'', ''schema_version'', ''transaction_id''}" for k
  proof -
    have "word_key k" using that by (elim imageE insertE emptyE) (simp_all add: word_key_def u_Cons)
    moreover have "k \<notin> set secret_keys"
      using that by (elim imageE insertE emptyE) (simp_all add: secret_keys_def)
    ultimately show ?thesis by (simp add: secret_word_key)
  qed
  then have p: "plain ascii_ext False ?s"
    by (simp add: ex_digest_def prj_def genesis_transaction_id_def u_Cons)
  have "same_value ascii_ext [] ?s ?f"
    by (rule same_obj [of _ _ _ "[(u ''genesis_mode'', JStr (u ''BARE'')), (u ''manifest_digest'', JStr ex_digest),
      (u ''manifest_member_count'', JInt 0), (u ''project_id'', JStr prj),
      (u ''schema_version'', JStr (u ''0.1'')), (u ''transaction_id'', JStr genesis_transaction_id)]"])
      (auto simp: receipt_fields_def list_all2_same intro: same_refl)
  from canonical_tree_same [OF this plain_canonicalS(1) [OF p]]
  have "canonical ascii_ext ?f = Inr (map of_nat (dumps ?s))"
    using plain_canonicalS(2) [OF p] plain_canonicalS(1) [OF p]
    by (simp add: canonical_def canonical_json_bytes_iff)
  then show ?thesis
    by (simp add: genesis_receipt_id_def genesis_receipt_identity_fields_def field_def jfield_def receipt_fields_def)
qed

lemma ex_verify_genesis:
  assumes "field e ''after_state'' = Inr (ex_state 0 JNull)" "field e ''project_id'' = Inr (JStr prj)"
    "field e ''after_fingerprint'' = Inr (ex_fp 0)" "field e ''before_fingerprint'' = Inr JNull"
    "field e ''event_type'' = Inr (JStr (u ''GENESIS''))" "field e ''from_revision'' = Inr JNull"
    "field e ''to_revision'' = Inr (JInt 0)"
  shows "verify_event ascii_ext prj e None = Inr (ex_state 0 JNull)"
  by (simp add: verify_event_def validateS_def validate_def assms ex_validate ex_state_fields differs_def)

lemma ex_genesis_verifies:
  "verify_event ascii_ext prj (genesis_event prj (ex_state 0 JNull) (ex_fp 0) at rid) None = Inr (ex_state 0 JNull)"
  "verify_event ascii_ext prj (ex_genesis rid) None = Inr (ex_state 0 JNull)"
  by (rule ex_verify_genesis; simp add: field_def jfield_def genesis_event_def ex_genesis_def)+

definition ex_rid :: ustr where
  "ex_rid = (case genesis_receipt_id ascii_ext (JObj (receipt_fields prj ''BARE'' 0 ex_digest)) of
     Inr r \<Rightarrow> r | Inl _ \<Rightarrow> [])"

lemma ex_rid: "genesis_receipt_id ascii_ext (JObj (receipt_fields prj ''BARE'' 0 ex_digest)) = Inr ex_rid"
  "plain_str ex_rid"
  using ex_receipt_id receipt_id_plain by (auto simp: ex_rid_def)

lemma ex_genesis_plan:
  "genesis_plan ascii_ext prj (ex_state 0 JNull) [] =
     Inr (ex_state 0 JNull, genesis_event prj (ex_state 0 JNull) (ex_fp 0) (JStr (u ''T0'')) ex_rid,
       receipt_json prj ''BARE'' 0 ex_digest ex_rid)"
  by (simp add: genesis_plan_def ex_validate ex_state_fields differs_def genesis_members_def
      ex_manifest_digest ex_rid ex_genesis_verifies Let_def receipt_json_def)
   (simp add: field_def jfield_def)

lemma prj_ok: "name_ok prj" "plain_str prj"
  by (simp_all add: prj_def name_ok_def has_slash_def u_Cons)

lemma ex_initialize:
  "\<exists>fs. initialize ascii_ext prj (ex_state 0 JNull) [] fault empty_fs = (Inr (ex_state 0 JNull), fs)
     \<and> settled ascii_ext prj fs [ex_genesis ex_rid] (ex_state 0 JNull)"
proof (rule initialize_settles [OF ascii_env_example prj_ok _ _ ex_genesis_plan])
  note g = ex_genesis_canonical [OF ex_rid(2)]
  show "canonical_tree ascii_ext [] (genesis_event prj (ex_state 0 JNull) (ex_fp 0) (JStr (u ''T0'')) ex_rid)
      = Inr (ex_genesis ex_rid)" by (rule g)
  show "canonical ascii_ext (genesis_event prj (ex_state 0 JNull) (ex_fp 0) (JStr (u ''T0'')) ex_rid)
      = Inr (map of_nat (dumps (ex_genesis ex_rid)))"
    using g(1) plain_canonicalS [OF g(2)] by (simp add: canonical_def canonical_json_bytes_iff)
  show "line_safe (ex_genesis ex_rid)" by (rule plain_canonicalS(3) [OF g(2)])
  show "verify_event ascii_ext prj (ex_genesis ex_rid) None = Inr (ex_state 0 JNull)"
    by (rule ex_genesis_verifies)
qed (simp_all add: empty_fs_def plain_canonicalS)

end
