(* ===== verification/StoreProps.thy ===== *)
theory StoreProps
  imports StoreExample
begin

text \<open>
  What the store promises: a transition is committed entirely or not at all, wherever the
  process dies; history is append-only; a writer with a stale view is refused; an identical
  replay is harmless and a divergent one is refused.
\<close>

section \<open>The concrete project, continued\<close>

definition ex_store :: fs where
  "ex_store = snd (initialize ascii_ext prj (ex_state 0 JNull) [] no_fault empty_fs)"

definition ex_record :: record_arg where
  "ex_record = (u ''evidence'', u ''EV-1'', JObj [(u ''id'', JStr (u ''EV-1''))])"

lemma ex_store_settled: "settled ascii_ext prj ex_store [ex_genesis ex_rid] (ex_state 0 JNull)"
  using ex_initialize [of no_fault] by (auto simp: ex_store_def)

lemma initialize_bare_fields:
  "fs_recovery (snd (initialize E pid v [] fault s)) = fs_recovery s
   \<and> fs_records (snd (initialize E pid v [] fault s)) = fs_records s"
  by (simp add: initialize_def write_canonical_def run_simps bindS_assoc put_current_def
      put_lineage_def put_receipt_def split: sum.split)

lemma ex_store_fields: "fs_recovery ex_store = []" "fs_records ex_store = []"
  using initialize_bare_fields [of ascii_ext prj "ex_state 0 JNull" no_fault empty_fs]
  by (simp_all add: ex_store_def empty_fs_def)

lemma ex_record_canonical: "\<exists>b. canonical ascii_ext (JObj [(u ''id'', JStr (u ''EV-1''))]) = Inr b"
  using plain_canonicalS(2) [of "JObj [(u ''id'', JStr (u ''EV-1''))]"] ex_keys_not_secret
  by (simp add: u_Cons)

lemma ex_ready: "ready ascii_ext prj ex_store [ex_genesis ex_rid] (ex_state 0 JNull) 0 (ex_fp 0)
    (ex_state 1 (ex_fp 0)) (ex_transition ''TX-ONE'') [ex_record] (u ''TX-ONE'')
    (ex_transition ''TX-ONE'') (ex_state 1 (ex_fp 0))"
proof -
  have t: "plain ascii_ext False (ex_transition ''TX-ONE'')" by (simp add: u_Cons)
  have s: "plain ascii_ext False (ex_state 1 (ex_fp 0))" by simp
  have g: "tx_of (ex_genesis ex_rid) = Some genesis_transaction_id"
    by (simp add: tx_of_def jfield_def ex_genesis_def)
  obtain b where b: "canonical ascii_ext (JObj [(u ''id'', JStr (u ''EV-1''))]) = Inr b"
    using ex_record_canonical by blast
  have m: "canonical ascii_ext (manifest_json [(u ''evidence'', u ''EV-1'')])
     = Inr (map of_nat (dumps (manifest_json [(u ''evidence'', u ''EV-1'')])))"
    by (rule plain_canonicalS) (simp add: manifest_json_def u_Cons)
  have "partition_stem (staged_stem (u ''evidence'') (u ''EV-1'')) = (u ''evidence'', u ''EV-1'')"
    by (simp add: staged_stem_def u_Cons)
  moreover have "record_path (u ''evidence'') (u ''EV-1'') = Inr (u ''evidence'', u ''EV-1'')"
    by (simp add: record_path_def name_ok_def has_slash_def u_Cons)
  ultimately show ?thesis
    unfolding ready_def
    using plain_canonicalS [OF t] plain_canonicalS [OF s] b m
    by (simp add: ex_tx ex_verify ex_validate ex_store_fields g genesis_transaction_id_def
        ex_state_fields differs_def ex_record_def stage_step_def Let_def)
qed

lemma ex_ready_tx:
  assumes "plain_str (u tx)" and "tx \<noteq> ''TX-GENESIS''"
  shows "ready ascii_ext prj ex_store [ex_genesis ex_rid] (ex_state 0 JNull) 0 (ex_fp 0)
    (ex_state 1 (ex_fp 0)) (ex_transition tx) [] (u tx) (ex_transition tx) (ex_state 1 (ex_fp 0))"
proof -
  have t: "plain ascii_ext False (ex_transition tx)" using assms(1) by simp
  have s: "plain ascii_ext False (ex_state 1 (ex_fp 0))" by simp
  have m: "\<exists>b. canonical ascii_ext (manifest_json []) = Inr b"
    using plain_canonicalS(2) [of "manifest_json []"] by (simp add: manifest_json_def)
  have g: "tx_of (ex_genesis ex_rid) = Some genesis_transaction_id"
    by (simp add: tx_of_def jfield_def ex_genesis_def)
  show ?thesis
    unfolding ready_def
    using plain_canonicalS [OF t] plain_canonicalS [OF s] m assms(2)
    by (simp add: ex_tx ex_verify ex_validate ex_store_fields g genesis_transaction_id_def
        ex_state_fields differs_def)
qed

lemma ex_genesis_tx: "tx_of (ex_genesis rid) = Some genesis_transaction_id"
  by (simp add: tx_of_def jfield_def ex_genesis_def)

text \<open>The same transaction id, another content.\<close>

definition ex_other :: "string \<Rightarrow> json" where
  "ex_other tx = JObj [(u ''transaction_id'', JStr (u tx))]"

lemma plain_ex_other [simp]: "plain_str (u tx) \<Longrightarrow> plain ascii_ext b (ex_other tx)"
  using ex_keys_not_secret by (simp add: ex_other_def u_Cons)

lemma ex_other_tx: "tx_of (ex_other tx) = Some (u tx)"
  by (simp add: tx_of_def jfield_def ex_other_def)

lemma ex_other_differs:
  "map of_nat (dumps (ex_transition tx)) \<noteq> (map of_nat (dumps (ex_other tx)) :: bytes)"
  by (simp add: ex_transition_def ex_other_def dump_str_def escape_char_def u_Cons)

section \<open>Histories of a project\<close>

text \<open>What a project goes through: its genesis, commits that run to the end, commits cut off at
  a boundary and then recovered, and recoveries. \<open>es\<close> is the committed history and \<open>st\<close> its
  last state.\<close>

inductive history :: "ext \<Rightarrow> ustr \<Rightarrow> fs \<Rightarrow> json list \<Rightarrow> json \<Rightarrow> bool" for E :: ext and pid :: ustr where
  settled_start: "settled E pid fs es st \<Longrightarrow> history E pid fs es st"
| full_commit: "\<lbrakk>history E pid fs es st;
    ready E pid fs es st r fp next_state transition records tx e st';
    commit E pid r fp next_state transition records no_fault fs = (Inr s, fs')\<rbrakk>
    \<Longrightarrow> history E pid fs' (es @ [e]) st'"
| cut_commit: "\<lbrakk>history E pid fs es st;
    ready E pid fs es st r fp next_state transition records tx e st';
    commit E pid r fp next_state transition records (crash_at k) fs = (Inl x, fs');
    recover E pid fs' = (Inr s, fs'')\<rbrakk>
    \<Longrightarrow> history E pid fs'' (if past_intent k then es @ [e] else es) (if past_intent k then st' else st)"
| recovery: "\<lbrakk>history E pid fs es st; recover E pid fs = (Inr s, fs')\<rbrakk> \<Longrightarrow> history E pid fs' es st"

inductive_cases history_cases: "history E pid fs es st"

lemma history_settled:
  assumes "history E pid fs es st" and nfc: "nfc_idempotent E"
  shows "settled E pid fs es st"
  using assms(1)
proof (induction rule: history.induct)
  case (full_commit fs es st r fp next_state transition records tx e st' s fs')
  then show ?case using commit_settles [OF nfc full_commit.IH full_commit.hyps(2)] by auto
next
  case (cut_commit fs es st r fp next_state transition records tx e st' k x fs' s fs'')
  then show ?case
    using commit_crash_recover [OF nfc cut_commit.IH cut_commit.hyps(2), of k] by fastforce
next
  case (recovery fs es st s fs')
  from recovery.IH obtain b where b: "canonical E st = Inr b" by (auto simp: settled_def common_def)
  show ?case
    using settled_recover [OF recovery.IH b] settled_put_current [OF recovery.IH] recovery.hyps by simp
qed

text \<open>The revision of the state is the number of transitions before it.\<close>

lemma add_one_eq: "py_eq r (JInt i) \<Longrightarrow> add_one r = Inr r' \<Longrightarrow> py_eq r' (JInt (i + 1))"
  by (cases r) (auto simp: py_eq_def split: if_splits)

lemma differs_False: "differs v k w = Inr False \<longleftrightarrow> (\<exists>x. field v k = Inr x \<and> py_eq x w)"
  by (auto simp: differs_def)

lemma verify_event_revision:
  assumes "verify_event E pid e prior = Inr st"
  shows "\<exists>r. field st ''state_revision'' = Inr r \<and>
    (case prior of None \<Rightarrow> py_eq r (JInt 0)
     | Some p \<Rightarrow> \<exists>q q'. field p ''state_revision'' = Inr q \<and> add_one q = Inr q' \<and> py_eq r q')"
proof -
  have step: "\<exists>r t. field st ''state_revision'' = Inr r \<and> field e ''to_revision'' = Inr t \<and> py_eq t r"
    using assms by (auto simp: verify_event_def validate_state_def anyE_False_iff differs_False
        simp del: anyE.simps split: if_splits option.splits)
  then obtain r t where r: "field st ''state_revision'' = Inr r" "field e ''to_revision'' = Inr t" "py_eq t r"
    by blast
  show ?thesis
  proof (cases prior)
    case None
    then have "py_eq t (JInt 0)"
      using assms r(2) by (auto simp: verify_event_def anyE_False_iff differs_False
          simp del: anyE.simps split: if_splits)
    with r None show ?thesis by (auto intro: py_eq_trans py_eq_sym)
  next
    case (Some p)
    then have "\<exists>q q'. field p ''state_revision'' = Inr q \<and> add_one q = Inr q' \<and> py_eq t q'"
      using assms r(2) by (auto simp: verify_event_def anyE_False_iff differs_False
          simp del: anyE.simps split: if_splits)
    then obtain q q' where "field p ''state_revision'' = Inr q" "add_one q = Inr q'" "py_eq t q'"
      by blast
    with r Some show ?thesis by (auto intro: py_eq_trans py_eq_sym)
  qed
qed

lemma replay_revision:
  "replay_events E pid None es = Inr (Some st) \<Longrightarrow>
     \<exists>r. field st ''state_revision'' = Inr r \<and> py_eq r (JInt (int (length es) - 1))"
proof (induction es arbitrary: st rule: rev_induct)
  case Nil
  then show ?case by (simp add: replay_events_def)
next
  case (snoc e es)
  then obtain prior where p: "replay_events E pid None es = Inr prior" "verify_event E pid e prior = Inr st"
    by (auto simp: replay_events_def foldE_append)
  from verify_event_revision [OF p(2)] obtain r where r: "field st ''state_revision'' = Inr r"
    "case prior of None \<Rightarrow> py_eq r (JInt 0)
     | Some p \<Rightarrow> \<exists>q q'. field p ''state_revision'' = Inr q \<and> add_one q = Inr q' \<and> py_eq r q'" by blast
  show ?case
  proof (cases prior)
    case None
    have "es = []"
    proof (cases es rule: rev_cases)
      case (snoc es' e')
      then show ?thesis using p(1) None by (auto simp: replay_events_def foldE_append)
    qed simp
    then show ?thesis using r None by simp
  next
    case (Some p0)
    then obtain q q' where q: "field p0 ''state_revision'' = Inr q" "add_one q = Inr q'" "py_eq r q'"
      using r(2) by auto
    have "py_eq q (JInt (int (length es) - 1))" using snoc.IH [of p0] p(1) Some q(1) by auto
    from add_one_eq [OF this q(2)] q(3) r(1) show ?thesis by (auto intro: py_eq_trans)
  qed
qed

lemma tx_of_get_field: "tx_of x = Some t \<Longrightarrow> get_field x ''transaction_id'' = Inr (Some (JStr t))"
  by (cases x) (auto simp: tx_of_def get_field_def jfield_def split: option.splits json.splits)

lemma first_event_of_fresh:
  assumes "\<forall>x \<in> set es. tx_of x \<noteq> None" and "Some tx \<notin> tx_of ` set es" and "tx_of e = Some tx"
  shows "first_event_of tx (es @ [e]) = Inr (Some e)"
  using assms
proof (induction es)
  case (Cons x es)
  then obtain t where "tx_of x = Some t" by auto
  with Cons show ?case using tx_of_get_field [of x t] by auto
qed (simp add: tx_of_get_field)

lemma the_prior_tx:
  assumes "\<forall>x \<in> set es. tx_of x \<noteq> None" and "p \<in> set es" and "tx_of p = Some tx"
    and "distinct (map tx_of es)"
  shows "filterE (same_tx (JStr tx)) es = Inr [p]"
  using assms
proof (induction es)
  case (Cons x es)
  then obtain t where t: "tx_of x = Some t" by auto
  show ?case
  proof (cases "t = tx")
    case True
    then have "Some tx \<notin> tx_of ` set es" using Cons.prems(4) t by simp
    moreover from this have "x = p" using Cons.prems(2,3) by force
    moreover have "same_tx (JStr tx) x = Inr True"
      using t True by (simp add: same_tx_def tx_of_field)
    ultimately show ?thesis
      using no_prior_tx [of es tx] Cons.prems(1) by simp
  next
    case False
    with Cons t show ?thesis by (auto simp: same_tx_def tx_of_field)
  qed
qed simp

section \<open>Properties\<close>

text \<open>C1: a process that dies anywhere inside \<open>commit\<close> leaves the committed history as it was;
  recovery then completes the transaction if its intent was durable and drops it otherwise, and
  the store is settled again. There is no third outcome.\<close>

theorem commit_crash_atomic:
  assumes "nfc_idempotent E" and "settled E pid fs es st"
    and "ready E pid fs es st r fp next_state transition records tx e st'"
  shows "\<exists>fs' fs''. commit E pid r fp next_state transition records (crash_at k) fs = (Inl SimulatedCrash, fs')
    \<and> reconstruct E pid fs' = Inr st
    \<and> recover E pid fs' = (Inr (if past_intent k then st' else st), fs'')
    \<and> settled E pid fs'' (if past_intent k then es @ [e] else es) (if past_intent k then st' else st)"
  using assms by (rule commit_crash_recover)

theorem commit_crash_atomic_witness:
  "\<exists>fs' fs''. commit ascii_ext prj 0 (ex_fp 0) (ex_state 1 (ex_fp 0)) (ex_transition ''TX-ONE'')
        [ex_record] (crash_at After_Lineage_Append) ex_store = (Inl SimulatedCrash, fs')
    \<and> reconstruct ascii_ext prj fs' = Inr (ex_state 0 JNull)
    \<and> recover ascii_ext prj fs' = (Inr (ex_state 1 (ex_fp 0)), fs'')"
  using commit_crash_atomic [OF ascii_nfc_idempotent ex_store_settled ex_ready, of After_Lineage_Append]
  by (auto simp: past_intent_def)

text \<open>C24: on a settled store (every event of the history is committed, with no transaction left to
  recover), a commit that is ready (its guards pass, its transaction is a fresh one, its event can be
  written, read back and verified against the present state) returns, has appended exactly its event to
  the history, leaves the store settled, its state is the one the store now reconstructs, and the
  transaction resolves to its event. Nothing is said of a store that still has a transaction to recover:
  there a commit can return and stay unseen.\<close>

theorem commit_durable:
  assumes "nfc_idempotent E" and "settled E pid fs es st"
    and "ready E pid fs es st r fp next_state transition records tx e st'"
  shows "\<exists>fs'. commit E pid r fp next_state transition records no_fault fs = (Inr next_state, fs')
    \<and> settled E pid fs' (es @ [e]) st' \<and> events_of fs' = Inr (es @ [e])
    \<and> reconstruct E pid fs' = Inr st' \<and> resolve_transaction E pid tx fs' = Inr (Some e)"
proof -
  obtain fs' where c: "commit E pid r fp next_state transition records no_fault fs = (Inr next_state, fs')"
    and s: "settled E pid fs' (es @ [e]) st'"
    using commit_settles [OF assms] by blast
  have tx: "tx_of e = Some tx" "tx \<noteq> genesis_transaction_id" "Some tx \<notin> tx_of ` set es"
    using assms(3) by (auto simp: ready_def)
  have ev: "events_of fs' = Inr (es @ [e])"
    using s events_of_lineage by (simp add: settled_def)
  have "committed_marker fs' tx"
    using s tx by (auto simp: settled_def common_def)
  moreover have "first_event_of tx (es @ [e]) = Inr (Some e)"
    using common_txs [of E pid fs' "es @ [e]" st'] s tx
    by (simp add: first_event_of_fresh settled_def)
  ultimately have "resolve_transaction E pid tx fs' = Inr (Some e)"
    using tx(2) ev by (simp add: resolve_transaction_def transaction_committed_def committed_marker_def
        split: option.splits)
  with c s ev settled_reconstruct [OF s] show ?thesis by blast
qed

theorem commit_durable_witness:
  "\<exists>fs'. commit ascii_ext prj 0 (ex_fp 0) (ex_state 1 (ex_fp 0)) (ex_transition ''TX-ONE'')
        [ex_record] no_fault ex_store = (Inr (ex_state 1 (ex_fp 0)), fs')
    \<and> reconstruct ascii_ext prj fs' = Inr (ex_state 1 (ex_fp 0))
    \<and> resolve_transaction ascii_ext prj (u ''TX-ONE'') fs' = Inr (Some (ex_transition ''TX-ONE''))"
  using commit_durable [OF ascii_nfc_idempotent ex_store_settled ex_ready] by blast

text \<open>C22: whatever is asked of it and wherever it fails, no operation of the store rewrites
  history: the lineage only grows at its end, a record file once written keeps its bytes, a
  COMMITTED marker stays, and the coordination lane is left alone.\<close>

theorem store_append_only:
  "extends fs (snd (initialize E pid initial records fault fs))
   \<and> extends fs (snd (commit E pid r fp next_state transition records fault fs))
   \<and> extends fs (snd (recover E pid fs)) \<and> extends fs (snd (load_current E pid fs))"
  by (simp add: keeps_initialize keeps_commit keeps_recover keeps_load_current keepsD)

text \<open>C27: a writer whose revision or fingerprint is not the current one is refused before
  anything is written.\<close>

theorem stale_commit_refused:
  assumes "settled E pid fs es st" and "tx_of transition = Some tx" and "Some tx \<notin> tx_of ` set es"
    and "anyE [differs st ''state_revision'' (JInt r), differs st ''semantic_fingerprint'' fp] = Inr True"
  shows "commit E pid r fp next_state transition records fault fs = (Inl StaleStateError, fs)"
proof -
  have "name_ok pid" "\<forall>x \<in> set es. tx_of x \<noteq> None" "events_of fs = Inr es"
    using assms(1) common_txs events_of_lineage by (auto simp: settled_def common_def)
  then show ?thesis
    using settled_reconstruct [OF assms(1)] no_prior_tx [of es tx] assms(2-4)
    by (simp add: commit_def project_path_def run_simps tx_of_field del: anyE.simps)
qed

theorem stale_commit_refused_witness:
  "commit ascii_ext prj 7 (ex_fp 0) (ex_state 1 (ex_fp 0)) (ex_transition ''TX-ONE'') [] no_fault ex_store
     = (Inl StaleStateError, ex_store)"
  by (rule stale_commit_refused [OF ex_store_settled ex_tx])
    (simp_all add: ex_genesis_tx genesis_transaction_id_def differs_def ex_state_fields)

text \<open>a transaction id already in the history is not reused: the same id with other
  canonical content is refused and nothing is written, whatever the caller believes the current
  revision to be.\<close>

theorem divergent_replay_refused:
  assumes "settled E pid fs es st" and "p \<in> set es" and "tx_of transition = Some tx" and "tx_of p = Some tx"
    and "distinct (map tx_of es)"
    and "canonical E p = Inr a" and "canonical E transition = Inr b" and "a \<noteq> b"
  shows "commit E pid r fp next_state transition records fault fs = (Inl TransactionConflictError, fs)"
proof -
  have "name_ok pid" "\<forall>x \<in> set es. tx_of x \<noteq> None" "events_of fs = Inr es"
    using assms(1) common_txs events_of_lineage by (auto simp: settled_def common_def)
  moreover from this have "filterE (same_tx (JStr tx)) es = Inr [p]"
    using the_prior_tx assms(2,4,5) by blast
  ultimately show ?thesis
    using settled_reconstruct [OF assms(1)] assms(3,6-8)
    by (simp add: commit_def commit_replay_def project_path_def run_simps tx_of_field)
qed

theorem divergent_replay_refused_witness:
  "\<exists>fs'. commit ascii_ext prj 0 (ex_fp 0) (ex_state 1 (ex_fp 0)) (ex_transition ''TX-ONE'')
        [ex_record] no_fault ex_store = (Inr (ex_state 1 (ex_fp 0)), fs')
    \<and> commit ascii_ext prj 1 (ex_fp 1) (ex_state 2 (ex_fp 1)) (ex_other ''TX-ONE'') [] no_fault fs'
        = (Inl TransactionConflictError, fs')"
proof -
  obtain fs' where c: "commit ascii_ext prj 0 (ex_fp 0) (ex_state 1 (ex_fp 0)) (ex_transition ''TX-ONE'')
        [ex_record] no_fault ex_store = (Inr (ex_state 1 (ex_fp 0)), fs')"
    and s: "settled ascii_ext prj fs' ([ex_genesis ex_rid] @ [ex_transition ''TX-ONE'']) (ex_state 1 (ex_fp 0))"
    using commit_settles [OF ascii_nfc_idempotent ex_store_settled ex_ready] by blast
  have "plain ascii_ext False (ex_transition ''TX-ONE'')" "plain ascii_ext False (ex_other ''TX-ONE'')"
    by (simp_all add: u_Cons)
  note p = this [THEN plain_canonicalS(2)]
  have "commit ascii_ext prj 1 (ex_fp 1) (ex_state 2 (ex_fp 1)) (ex_other ''TX-ONE'') [] no_fault fs'
        = (Inl TransactionConflictError, fs')"
    by (rule divergent_replay_refused [OF s _ ex_other_tx ex_tx _ p])
      (simp_all add: ex_tx ex_genesis_tx genesis_transaction_id_def ex_other_differs)
  with c show ?thesis by blast
qed

text \<open>C21: along every history of a project, interrupted or not, the revision of the state is
  the number of transitions since its genesis.\<close>

theorem history_revision:
  assumes "nfc_idempotent E" and "history E pid fs es st"
  shows "\<exists>r. field st ''state_revision'' = Inr r \<and> py_eq r (JInt (int (length es) - 1))"
  using history_settled [OF assms(2,1)] replay_revision by (auto simp: settled_def common_def)

theorem history_revision_witness:
  "\<exists>r. field (ex_state 0 JNull) ''state_revision'' = Inr r \<and> py_eq r (JInt 0)"
  using history_revision [OF ascii_nfc_idempotent settled_start [OF ex_store_settled]] by simp

text \<open>a genesis without records leaves a settled store whose only event is the genesis
  event.\<close>

theorem initialize_settled:
  assumes "ascii_env E" and "name_ok pid" "plain_str pid"
    and "fs_lineage fs = None" "fs_recovery fs = []"
    and "genesis_plan E pid initial [] = Inr (state, event, receipt)"
    and "canonical_tree E [] event = Inr e" "canonical E event = Inr be" "line_safe e"
      "verify_event E pid e None = Inr st"
    and "canonical_tree E [] state = Inr st" "canonical E state = Inr bs"
    and "\<forall>r. canonical_tree E [] receipt = Inr r \<longrightarrow> ext_schema E genesis_receipt_schema_id r"
  shows "\<exists>fs'. initialize E pid initial [] fault fs = (Inr state, fs') \<and> settled E pid fs' [e] st"
  using assms by (rule initialize_settles)

theorem initialize_settled_witness:
  "\<exists>fs. initialize ascii_ext prj (ex_state 0 JNull) [] no_fault empty_fs = (Inr (ex_state 0 JNull), fs)
     \<and> settled ascii_ext prj fs [ex_genesis ex_rid] (ex_state 0 JNull)"
proof (rule initialize_settled [OF ascii_env_example prj_ok _ _ ex_genesis_plan])
  note g = ex_genesis_canonical [OF ex_rid(2)]
  show "canonical_tree ascii_ext [] (genesis_event prj (ex_state 0 JNull) (ex_fp 0) (JStr (u ''T0'')) ex_rid)
      = Inr (ex_genesis ex_rid)" by (rule g)
  show "canonical ascii_ext (genesis_event prj (ex_state 0 JNull) (ex_fp 0) (JStr (u ''T0'')) ex_rid)
      = Inr (map of_nat (dumps (ex_genesis ex_rid)))"
    using g(1) plain_canonicalS [OF g(2)] by (simp add: canonical_def canonical_json_bytes_iff)
  show "line_safe (ex_genesis ex_rid)" by (rule plain_canonicalS(3) [OF g(2)])
  show "verify_event ascii_ext prj (ex_genesis ex_rid) None = Inr (ex_state 0 JNull)"
    by (rule ex_genesis_verifies)
qed (simp_all add: empty_fs_def plain_canonicalS)

text \<open>a genesis receipt's identity binds every field it covers (the mode, the number and the
  digest of the genesis records, the project): two receipts with the same identity carry the
  same fields, or exhibit a collision of SHA-256.\<close>

theorem genesis_receipt_binding:
  assumes "genesis_receipt_id E r = Inr i" and "genesis_receipt_id E q = Inr i"
  shows "\<exists>p p'. receipt_payload r = Inr p \<and> receipt_payload q = Inr p'
    \<and> (canonical_tree E [] p = canonical_tree E [] p' \<or>
       (\<exists>a b. canonical E p = Inr a \<and> canonical E p' = Inr b
          \<and> sha256_collision (genesis_receipt_id_domain @ a) (genesis_receipt_id_domain @ b)))"
  using assms by (rule receipt_id_payload)

theorem genesis_receipt_binding_witness:
  "\<exists>p p'. receipt_payload (JObj (receipt_fields prj ''BARE'' 0 ex_digest)) = Inr p
    \<and> receipt_payload (receipt_stored prj ''BARE'' 0 ex_digest ex_rid) = Inr p'
    \<and> (canonical_tree ascii_ext [] p = canonical_tree ascii_ext [] p' \<or>
       (\<exists>a b. canonical ascii_ext p = Inr a \<and> canonical ascii_ext p' = Inr b
          \<and> sha256_collision (genesis_receipt_id_domain @ a) (genesis_receipt_id_domain @ b)))"
  by (rule genesis_receipt_binding [OF ex_rid(1)]) (simp add: receipt_id_same ex_rid(1))

end
