(* ===== verification/StoreLimits.thy ===== *)
theory StoreLimits
  imports StoreProps
begin

text \<open>
  The edges of the store's contract, each as a theorem about the same operations: a crash before
  the intent leaves a journal nothing removes; the next state handed to \<open>commit\<close> is not the one
  that is committed; a commit over an unrecovered transaction is accepted and not seen; the
  lineage is split at more than newlines and has no repair of a torn line; a staged file's name
  gives its kind back only for some kinds.
\<close>

section \<open>The name of a staged record\<close>

fun double_underscore :: "ustr \<Rightarrow> bool" where
  "double_underscore [] = False"
| "double_underscore [c] = False"
| "double_underscore (c # d # r) = (c = 95 \<and> d = 95 \<or> double_underscore (d # r))"

lemma partition_stem_safe:
  "\<not> double_underscore (k @ [95]) \<Longrightarrow> partition_stem (k @ 95 # 95 # i) = (k, i)"
  by (induction k rule: double_underscore.induct) auto

lemma partition_stem_unsafe:
  "double_underscore (k @ [95]) \<Longrightarrow> length (fst (partition_stem (k @ 95 # 95 # i))) < length k"
  by (induction k rule: double_underscore.induct) (auto split: prod.splits)

text \<open>the name \<open>kind__id\<close> under which a record is staged gives the kind and the id back
  exactly when no double underscore occurs before the separator does; any other kind would be
  promoted under a wrong one.\<close>

theorem staged_name_roundtrip:
  "partition_stem (staged_stem kind record_id) = (kind, record_id)
    \<longleftrightarrow> \<not> double_underscore (kind @ [95])"
  using partition_stem_safe [of kind record_id] partition_stem_unsafe [of kind record_id]
  by (auto simp: staged_stem_def u_def)

section \<open>Crashes before the intent\<close>

text \<open>C39: a crash before the intent is durable costs nothing of the committed history, but its
  journal stays: after recovery the strict reader refuses the store, and the same transaction,
  committed again, is refused with a file error.\<close>

theorem dead_journal:
  assumes "nfc_idempotent E" and "settled E pid fs es st"
    and "ready E pid fs es st r fp next_state transition records tx e st'" and "\<not> past_intent k"
  shows "\<exists>fs' fs''. commit E pid r fp next_state transition records (crash_at k) fs = (Inl SimulatedCrash, fs')
    \<and> recover E pid fs' = (Inr st, fs'')
    \<and> read_current_consistent E pid fs'' = Inl CorruptStoreError
    \<and> commit E pid r fp next_state transition records no_fault fs'' = (Inl FileExistsError, fs'')"
proof -
  have tx: "Some tx \<notin> tx_of ` set es" by (rule ready_tx [OF assms(3)])
  obtain be bs staged m R where run:
    "commit E pid r fp next_state transition records (crash_at k) fs
       = (Inl SimulatedCrash, boundary_state tx be bs staged m R fs k)"
    using ready_run [OF assms(1) settled_readable [OF assms(2)] assms(3) tx] by metis
  let ?t = "boundary_state tx be bs staged m R fs k"
  have t: "settled E pid ?t es st"
    using commit_crashes [OF assms(1-3), of k] run assms(4) by auto
  then obtain b where b: "canonical E st = Inr b" by (auto simp: settled_def common_def)
  let ?v = "put_current b ?t"
  have v: "settled E pid ?v es st" by (rule settled_put_current [OF t])
  obtain j where j: "journal_at ?v tx = Some j" "\<not> j_committed j"
    using assms(4) by (cases k) (auto simp: past_intent_def empty_journal_def new_journal_def)
  have "distinct (map fst (fs_recovery ?v))" using v by (simp add: settled_def common_def)
  then have "has_pending_transaction ?v"
    using j journals_iff by (fastforce simp: has_pending_transaction_def)
  then have "read_current_consistent E pid ?v = Inl CorruptStoreError"
    by (simp add: read_current_consistent_def)
  moreover have "map_of (fs_recovery ?v) tx = Some (RDir j)"
    using j(1) by (auto simp: journal_at_def split: option.splits rentry.splits)
  then have "commit E pid r fp next_state transition records no_fault ?v = (Inl FileExistsError, ?v)"
    unfolding ready_commit [OF settled_readable [OF v] assms(3) tx] commit_fresh_def
    by (simp add: make_journal_def bindS_def)
  ultimately show ?thesis
    using run settled_recover [OF t b] by blast
qed

theorem dead_journal_witness:
  "\<exists>fs' fs''. commit ascii_ext prj 0 (ex_fp 0) (ex_state 1 (ex_fp 0)) (ex_transition ''TX-ONE'')
        [ex_record] (crash_at After_Journal_Created) ex_store = (Inl SimulatedCrash, fs')
    \<and> recover ascii_ext prj fs' = (Inr (ex_state 0 JNull), fs'')
    \<and> read_current_consistent ascii_ext prj fs'' = Inl CorruptStoreError
    \<and> commit ascii_ext prj 0 (ex_fp 0) (ex_state 1 (ex_fp 0)) (ex_transition ''TX-ONE'')
        [ex_record] no_fault fs'' = (Inl FileExistsError, fs'')"
  by (rule dead_journal [OF ascii_nfc_idempotent ex_store_settled ex_ready]) (simp add: past_intent_def)

section \<open>The next state\<close>

text \<open>\<open>commit\<close> writes and returns the next state it was handed, while the history
  reconstructs the state inside the transition; nothing compares the two.\<close>

theorem next_state_unchecked:
  assumes "nfc_idempotent E" and "settled E pid fs es st"
    and "ready E pid fs es st r fp next_state transition records tx e st'"
  shows "\<exists>fs' b. commit E pid r fp next_state transition records no_fault fs = (Inr next_state, fs')
    \<and> canonical E next_state = Inr b \<and> fs_current fs' = Some b \<and> reconstruct E pid fs' = Inr st'"
proof -
  obtain be bs staged m R where run:
    "commit E pid r fp next_state transition records no_fault fs
       = (Inr next_state, final_state tx be bs staged m R fs)" "canonical E next_state = Inr bs"
    using ready_run [OF assms(1) settled_readable [OF assms(2)] assms(3) ready_tx [OF assms(3)]] by metis
  have "reconstruct E pid (final_state tx be bs staged m R fs) = Inr st'"
    using commit_settles [OF assms] run(1) settled_reconstruct by fastforce
  moreover have "fs_current (final_state tx be bs staged m R fs) = Some bs"
    by (simp add: final_state_def update_journal_run put_current_def split: option.split)
  ultimately show ?thesis using run by blast
qed

lemma ex_ready_other:
  "ready ascii_ext prj ex_store [ex_genesis ex_rid] (ex_state 0 JNull) 0 (ex_fp 0)
    (ex_state 5 JNull) (ex_transition ''TX-ONE'') [ex_record] (u ''TX-ONE'')
    (ex_transition ''TX-ONE'') (ex_state 1 (ex_fp 0))"
  using ex_ready plain_canonicalS(2) [of "ex_state 5 JNull"] by (simp add: ready_def ex_validate)

theorem next_state_unchecked_witness:
  "\<exists>fs' b. commit ascii_ext prj 0 (ex_fp 0) (ex_state 5 JNull) (ex_transition ''TX-ONE'')
        [ex_record] no_fault ex_store = (Inr (ex_state 5 JNull), fs')
    \<and> canonical ascii_ext (ex_state 5 JNull) = Inr b \<and> fs_current fs' = Some b
    \<and> reconstruct ascii_ext prj fs' = Inr (ex_state 1 (ex_fp 0))"
  by (rule next_state_unchecked [OF ascii_nfc_idempotent ex_store_settled ex_ready_other])

section \<open>A commit over an unrecovered transaction\<close>

lemma boundary_after_append:
  "boundary_state tx be bs staged m R s After_Lineage_Append =
     append_lineage be (set_journal tx (new_journal be bs staged m) s)"
  by simp

lemma commit_over_pending:
  assumes nfc: "nfc_idempotent E" and p: "pending E pid fs es st tx e st'" and l: "lineage_is fs (es @ [e])"
    and r: "ready E pid fs es st r fp next2 transition2 records2 tx2 e2 st2" and ne: "tx2 \<noteq> tx"
  shows "\<exists>fs2. commit E pid r fp next2 transition2 records2 no_fault fs = (Inr next2, fs2)
    \<and> events_of fs2 = Inr (es @ [e] @ [e2]) \<and> committed_marker fs2 tx2
    \<and> reconstruct E pid fs2 = Inr st"
proof -
  have ev: "events_of fs = Inr (es @ [e])" by (rule events_of_lineage [OF l])
  have c: "common E pid fs es st" and tx: "tx_of e = Some tx" "tx \<noteq> genesis_transaction_id"
    "\<not> committed_marker fs tx"
    using p by (auto simp: pending_def committed_marker_def)
  have tx2: "tx_of e2 = Some tx2" "tx2 \<noteq> genesis_transaction_id" "map_of (fs_recovery fs) tx2 = None"
    using r by (auto simp: ready_def)
  have rd: "readable E pid fs st (es @ [e])"
    using pending_reconstruct [OF p] ev c tx(1) common_txs [OF c] by (auto simp: readable_def common_def)
  have n: "Some tx2 \<notin> tx_of ` set (es @ [e])"
    using ready_tx [OF r] tx(1) ne by auto
  obtain be bs staged m R where run:
    "commit E pid r fp next2 transition2 records2 no_fault fs
       = (Inr next2, final_state tx2 be bs staged m R fs)"
    and e2: "event_line e2 be"
    using ready_run [OF nfc rd r n] by metis
  let ?j = "(new_journal be bs staged m)\<lparr> j_committed := True \<rparr>"
  let ?u = "with_records R (append_lineage be (set_journal tx2 (new_journal be bs staged m) fs))"
  let ?t = "final_state tx2 be bs staged m R fs"
  have f: "?t = set_journal tx2 ?j (put_current bs ?u)"
    by (simp add: final_state_def update_journal_run)
  have at: "journal_at ?t = (journal_at fs)(tx2 \<mapsto> ?j)"
    unfolding f by (simp add: fun_eq_iff)
  have lt: "lineage_is ?t (es @ [e] @ [e2])"
    using lineage_is_append [OF l e2] by (simp add: f lineage_is_def append_lineage_def)
  have g: "genesis_transaction_committed E pid fs = Inr True" using c by (simp add: common_def)
  have "find_genesis_event ?t = find_genesis_event fs"
    using boundary_find_genesis [OF g ev, of ?t e2] lt by simp
  moreover have "map_of (fs_recovery ?t) genesis_transaction_id = map_of (fs_recovery fs) genesis_transaction_id"
    using tx2(2) by (simp add: f recovery_set_journal)
  ultimately have gt: "genesis_transaction_committed E pid ?t = Inr True"
    using genesis_committed_cong [of ?t fs] g by (simp add: f)
  have mark: "committed_marker ?t n \<longleftrightarrow> committed_marker fs n \<or> n = tx2" for n
    using tx2(3) by (auto simp: committed_marker_def at journal_at_None)
  have "common E pid ?t es st"
    using c gt mark by (auto simp: common_def f recovery_set_journal set_journal_def distinct_update)
  from take_committed_common [OF this]
  have "take_committed E pid ?t (es @ [e] @ [e2]) = Inr es"
    using tx mark [of tx] ne
    by (simp add: take_committed_append tx_of_field transaction_committed_def committed_marker_def)
  then have "reconstruct E pid ?t = Inr st"
    using events_of_lineage [OF lt] c by (simp add: reconstruct_def committed_events_def common_def)
  with run events_of_lineage [OF lt] mark [of tx2] show ?thesis by blast
qed

text \<open>C37: nothing makes \<open>commit\<close> wait for recovery. After a crash past the append of an event,
  another transaction against the same current state is accepted, marked COMMITTED and returned
  as done, and yet the reconstructed state is still the old one: the history is read only up to
  the transaction that was not recovered.\<close>

theorem commit_before_recover_unseen:
  assumes "nfc_idempotent E" and "settled E pid fs es st"
    and "ready E pid fs es st r fp next_state transition records tx e st'"
    and "ready E pid fs es st r fp next2 transition2 records2 tx2 e2 st2" and "tx2 \<noteq> tx"
  shows "\<exists>fs' fs2. commit E pid r fp next_state transition records (crash_at After_Lineage_Append) fs
        = (Inl SimulatedCrash, fs')
    \<and> commit E pid r fp next2 transition2 records2 no_fault fs' = (Inr next2, fs2)
    \<and> events_of fs2 = Inr (es @ [e] @ [e2]) \<and> committed_marker fs2 tx2
    \<and> reconstruct E pid fs2 = Inr st"
proof -
  obtain be bs staged m R where run:
    "commit E pid r fp next_state transition records (crash_at After_Lineage_Append) fs
       = (Inl SimulatedCrash, boundary_state tx be bs staged m R fs After_Lineage_Append)"
    and e: "event_line e be"
    using ready_run [OF assms(1) settled_readable [OF assms(2)] assms(3) ready_tx [OF assms(3)]] by metis
  let ?t = "boundary_state tx be bs staged m R fs After_Lineage_Append"
  have p: "pending E pid ?t es st tx e st'"
    using commit_crashes [OF assms(1-3), of After_Lineage_Append] run by (auto simp: past_intent_def)
  have l: "lineage_is ?t (es @ [e])"
    using lineage_is_append [OF _ e] assms(2)
    by (simp add: settled_def lineage_is_def append_lineage_def)
  have r: "ready E pid ?t es st r fp next2 transition2 records2 tx2 e2 st2"
    using assms(4,5) stage_step_cong [of ?t fs] by (simp add: ready_def recovery_set_journal)
  from commit_over_pending [OF assms(1) p l r assms(5)] run show ?thesis by blast
qed

theorem commit_before_recover_unseen_witness:
  "\<exists>fs' fs2. commit ascii_ext prj 0 (ex_fp 0) (ex_state 1 (ex_fp 0)) (ex_transition ''TX-ONE'')
        [ex_record] (crash_at After_Lineage_Append) ex_store = (Inl SimulatedCrash, fs')
    \<and> commit ascii_ext prj 0 (ex_fp 0) (ex_state 1 (ex_fp 0)) (ex_transition ''TX-TWO'') [] no_fault fs'
        = (Inr (ex_state 1 (ex_fp 0)), fs2)
    \<and> events_of fs2 = Inr ([ex_genesis ex_rid] @ [ex_transition ''TX-ONE''] @ [ex_transition ''TX-TWO''])
    \<and> committed_marker fs2 (u ''TX-TWO'')
    \<and> reconstruct ascii_ext prj fs2 = Inr (ex_state 0 JNull)"
  by (rule commit_before_recover_unseen [OF ascii_nfc_idempotent ex_store_settled ex_ready ex_ready_tx])
    (simp_all add: u_Cons)

section \<open>The lines of the lineage\<close>

lemma lines_encode:
  "list_all2 event_line es bs \<Longrightarrow>
   utf8_encode (concat (map (\<lambda>l. l @ [10]) (map dumps es))) = Some (concat (map (\<lambda>b. b @ [10]) bs))"
proof (induction rule: list_all2_induct)
  case (Cons e es b bs)
  then have "utf8_encode (dumps e @ [10]) = Some (b @ [10])"
    by (simp add: event_line_def utf8_encode_append utf8_encode_newline)
  with Cons.IH show ?case
    using utf8_encode_append [of "dumps e @ [10]" "concat (map (\<lambda>l. l @ [10]) (map dumps es))"] by simp
qed (simp add: utf8_encode_def)

lemma lines_load:
  "(\<And>e. e \<in> set es \<Longrightarrow> canon e) \<Longrightarrow>
    mapE (\<lambda>line. orE (loads line) CorruptStoreError) (map dumps es) = Inr es"
  by (auto simp: mapE_Inr_iff list_all2_map1 loads_dumps list_all2_same)

lemma utf8_decode_brace: "utf8_decode [123] = Some [123]"
  using utf8_decode_char [of 123 "[]"] by (simp add: encodable_def surrogate_def utf8_char_def)

lemma loads_brace: "loads [123] = None"
proof -
  have "parse_value (Suc n) [123] = None" for n by (simp add: skip_ws_def is_ws_def)
  from this [of 3] show ?thesis by (simp add: loads_def skip_ws_def is_ws_def del: parse_value.simps)
qed

lemma py_splitlines_tail:
  assumes "\<forall>l\<in>set ls. \<forall>c\<in>set l. \<not> is_linebreak c"
  shows "py_splitlines (concat (map (\<lambda>l. l @ [10]) ls) @ [123]) = ls @ [[123]]"
  using assms
  by (induction ls) (auto simp: py_splitlines_def split_lines_line is_linebreak_def)

text \<open>an append that is cut after its first byte leaves a lineage no operation can read any
  more; there is no repair of a torn line here, unlike in the coordination ledger.\<close>

theorem torn_lineage_unreadable:
  assumes "lineage_is fs es"
    and "fs_lineage fs' = Some (text_of (fs_lineage fs) @ [123])" and "name_ok pid"
  shows "reconstruct E pid fs' = Inl CorruptStoreError \<and> recover E pid fs' = (Inl CorruptStoreError, fs')"
proof -
  obtain bs where bs: "list_all2 event_line es bs"
    "fs_lineage fs = Some (concat (map (\<lambda>b. b @ [10]) bs))"
    using assms(1) by (auto simp: lineage_is_def)
  let ?t = "concat (map (\<lambda>l. l @ [10]) (map dumps es))"
  have ev: "canon e" "line_safe e" if "e \<in> set es" for e
    using bs(1) that by (auto simp: event_line_def list_all2_conv_all_nth in_set_conv_nth)
  then have safe: "\<forall>l\<in>set (map dumps es). \<forall>c\<in>set l. \<not> is_linebreak c"
    by (auto simp: line_safe_def)
  have "utf8_decode (concat (map (\<lambda>b. b @ [10]) bs) @ [123]) = Some (?t @ [123])"
    by (simp add: utf8_decode_append [OF lines_encode [OF bs(1)]] utf8_decode_brace)
  moreover have "13 \<notin> set (?t @ [123])"
    using safe by (auto simp: is_linebreak_def)
  ultimately have "read_text (concat (map (\<lambda>b. b @ [10]) bs) @ [123]) = Some (?t @ [123])"
    by (simp add: read_text_def universal_newlines_id)
  moreover have "py_splitlines (?t @ [123]) = map dumps es @ [[123]]"
    using py_splitlines_tail [OF safe] by simp
  moreover have nonempty: "filter (\<lambda>l. l \<noteq> []) (map dumps es) = map dumps es"
    using dumps_nonempty ev(1) by (auto simp: filter_id_conv)
  ultimately have "events_of fs' = Inl CorruptStoreError"
    using assms(2) bs(2) lines_load [of es, OF ev(1)] nonempty by (simp add: events_of_def text_of_def mapE_append loads_brace)
  then show ?thesis
    using assms(3) by (simp add: reconstruct_def committed_events_def recover_def project_path_def run_simps)
qed

theorem torn_lineage_unreadable_witness:
  "reconstruct ascii_ext prj (ex_store\<lparr> fs_lineage := Some (text_of (fs_lineage ex_store) @ [123]) \<rparr>)
     = Inl CorruptStoreError
   \<and> recover ascii_ext prj (ex_store\<lparr> fs_lineage := Some (text_of (fs_lineage ex_store) @ [123]) \<rparr>)
     = (Inl CorruptStoreError, ex_store\<lparr> fs_lineage := Some (text_of (fs_lineage ex_store) @ [123]) \<rparr>)"
proof (rule torn_lineage_unreadable [OF _ _ prj_ok(1)])
  show "lineage_is ex_store [ex_genesis ex_rid]"
    using ex_store_settled by (simp add: settled_def)
qed simp

text \<open>an event that holds a line separator (U+2028) is written as it is, on one line of the
  file, and the next read splits it in two: what \<open>_append\<close> accepted, \<open>_events\<close> reports as
  corruption.\<close>

theorem line_separator_unreadable:
  "\<exists>fs. append_event ascii_ext (JObj [(u ''n'', JStr [0x2028])]) empty_fs = (Inr (), fs)
     \<and> events_of fs = Inl CorruptStoreError"
proof -
  have b: "canonical ascii_ext (JObj [(u ''n'', JStr [0x2028])])
      = Inr [123, 34, 110, 34, 58, 34, 0xE2, 0x80, 0xA8, 34, 125]"
    by (simp add: canonical_def canonical_eval u_Cons)
  have t: "read_text [123, 34, 110, 34, 58, 34, 0xE2, 0x80, 0xA8, 34, 125, 10]
      = Some [123, 34, 110, 34, 58, 34, 0x2028, 34, 125, 10]"
    by (simp add: read_text_def continuation_def payload_def Let_def surrogate_def)
  have s: "py_splitlines [123, 34, 110, 34, 58, 34, 0x2028, 34, 125, 10]
      = [[123, 34, 110, 34, 58, 34], [34, 125]]"
    by (simp add: py_splitlines_def is_linebreak_def)
  have "parse_value (Suc (Suc (Suc n))) [123, 34, 110, 34, 58, 34] = None" for n
    by (simp add: skip_ws_def is_ws_def)
  from this [of 11] have "loads [123, 34, 110, 34, 58, 34] = None"
    by (simp add: loads_def skip_ws_def is_ws_def del: parse_value.simps)
  then show ?thesis
    using b t s by (simp add: append_event_run append_lineage_def empty_fs_def events_of_def)
qed

end
