(* ===== verification/Ledger.thy ===== *)
theory Ledger
  imports StoreGenesis
begin

text \<open>
  The coordination ledger of \<open>store/file_store.py\<close>: an append-only file of entries
  (\<open>coordination/ledger.jsonl\<close>, \<open>fs_ledger\<close>) and, as a cache, one file per record
  (\<open>coordination/records/<kind>/<id>.json\<close>, \<open>fs_coord\<close>). A line is appended by two writes,
  with a fault boundary between them, so a crash may leave half of it; the next writer cuts the
  half off. Entries of one chain are totally ordered: a new one must name the chain's tip.

  \<open>json.loads\<close> of a line's bytes decodes it as UTF-8, which is what its encoding detection
  answers for every line that starts with neither a byte order mark nor a NUL; a line that is
  not UTF-8 raises a \<open>UnicodeDecodeError\<close>, which nothing catches.
\<close>

section \<open>Stages\<close>

datatype cstage =
  Before_Append
| During_Partial_Append
| After_Complete_Line_Before_File_Fsync
| After_File_Fsync_Before_Directory_Fsync
| After_Durable_Ledger_Publication
| During_Materialization
| After_Materialization

type_synonym cfault = "cstage \<Rightarrow> store_error option"

definition hitC :: "cfault \<Rightarrow> cstage \<Rightarrow> unit op" where
  "hitC fault k = (case fault k of None \<Rightarrow> returnS () | Some e \<Rightarrow> raiseS e)"

definition no_cfault :: cfault where
  "no_cfault = (\<lambda>_. None)"

definition ccrash_at :: "cstage \<Rightarrow> cfault" where
  "ccrash_at k = (\<lambda>i. if i = k then Some SimulatedCrash else None)"

section \<open>Reading the ledger\<close>

definition load_line :: "bytes \<Rightarrow> store_error + json" where
  "load_line line = bindE (orE (utf8_decode line) DecodeError) (\<lambda>s. orE (loads s) CorruptStoreError)"

definition coordination_ledger_entries :: "json list read" where
  "coordination_ledger_entries fs =
     (case fs_ledger fs of
        None \<Rightarrow> Inr []
      | Some raw \<Rightarrow>
          if raw = [] then Inr []
          else mapE load_line (filter (\<lambda>l. l \<noteq> []) (butlast (split_newline [] raw))))"

text \<open>\<open>raw.rfind(b"\n") + 1\<close>.\<close>

definition clean_length :: "bytes \<Rightarrow> nat" where
  "clean_length raw = length (dropWhile (\<lambda>b. b \<noteq> 10) (rev raw))"

definition heal_coordination_ledger_tail :: "fs \<Rightarrow> fs" where
  "heal_coordination_ledger_tail fs =
     (case fs_ledger fs of
        None \<Rightarrow> fs
      | Some raw \<Rightarrow>
          if raw = [] \<or> last raw = 10 then fs
          else fs\<lparr> fs_ledger := Some (take (clean_length raw) raw) \<rparr>)"

text \<open>The chain of an entry: its own field, or what a body of the older format carries.\<close>

definition str_of :: "json option \<Rightarrow> ustr option" where
  "str_of v = (case v of Some (JStr s) \<Rightarrow> Some s | _ \<Rightarrow> None)"

definition coordination_entry_chain_id :: "json \<Rightarrow> store_error + ustr option" where
  "coordination_entry_chain_id entry =
     bindE (get_field entry ''chain_id'') (\<lambda>explicit.
     case str_of explicit of
       Some (c # cs) \<Rightarrow> Inr (Some (c # cs))
     | _ \<Rightarrow>
         (case jfield entry ''body'' of
            None \<Rightarrow> Inr None
          | Some body \<Rightarrow>
              if \<not> is_obj body then Inr None
              else (case str_of (jfield body ''work_time_coordination_open_id'') of
                      Some own_id \<Rightarrow> Inr (Some own_id)
                    | None \<Rightarrow>
                        (case jfield body ''open_ref'' of
                           None \<Rightarrow> Inr None
                         | Some open_ref \<Rightarrow> Inr (str_of (jfield open_ref ''id''))))))"

fun tip_from :: "ustr \<Rightarrow> (json \<times> json) option \<Rightarrow> json list \<Rightarrow> store_error + (json \<times> json) option" where
  "tip_from chain_id tip [] = Inr tip"
| "tip_from chain_id tip (entry # es) =
     bindE (coordination_entry_chain_id entry) (\<lambda>c.
     if c = Some chain_id then
       bindE (field entry ''kind'') (\<lambda>k. bindE (field entry ''id'') (\<lambda>i.
       tip_from chain_id (Some (k, i)) es))
     else tip_from chain_id tip es)"

definition coordination_chain_tip :: "ustr \<Rightarrow> json list \<Rightarrow> store_error + (json \<times> json) option" where
  "coordination_chain_tip chain_id entries = tip_from chain_id None entries"

definition claims :: "json \<Rightarrow> json \<Rightarrow> json \<Rightarrow> store_error + bool" where
  "claims kind record_id entry =
     bindE (field entry ''kind'') (\<lambda>k.
     if \<not> py_eq k kind then Inr False
     else bindE (field entry ''id'') (\<lambda>i. Inr (py_eq i record_id)))"

definition coordination_ledger_match :: "json \<Rightarrow> json \<Rightarrow> json list \<Rightarrow> store_error + json option" where
  "coordination_ledger_match kind record_id entries =
     bindE (filterE (claims kind record_id) entries) (\<lambda>matches.
     case matches of
       [] \<Rightarrow> Inr None
     | [e] \<Rightarrow> Inr (Some e)
     | _ \<Rightarrow> Inl CorruptStoreError)"

section \<open>Writing\<close>

definition append_ledger :: "bytes \<Rightarrow> fs \<Rightarrow> fs" where
  "append_ledger b fs =
     fs\<lparr> fs_ledger := Some ((case fs_ledger fs of None \<Rightarrow> [] | Some l \<Rightarrow> l) @ b) \<rparr>"

definition commit_coordination_ledger_line :: "ext \<Rightarrow> json \<Rightarrow> cfault \<Rightarrow> unit op" where
  "commit_coordination_ledger_line E entry fault =
     bindS (liftS (canonical E entry)) (\<lambda>b.
     let line = b @ [10]; split = max 1 (length line div 2) in
     bindS (hitC fault Before_Append) (\<lambda>_.
     bindS (modifyS (append_ledger (take split line))) (\<lambda>_.
     bindS (hitC fault During_Partial_Append) (\<lambda>_.
     bindS (modifyS (append_ledger (drop split line))) (\<lambda>_.
     bindS (hitC fault After_Complete_Line_Before_File_Fsync) (\<lambda>_.
     bindS (hitC fault After_File_Fsync_Before_Directory_Fsync) (\<lambda>_.
     hitC fault After_Durable_Ledger_Publication)))))))"

text \<open>A kind or an id read from a ledger line, as the two checks of
  \<open>_coordination_record_path\<close> see it: an empty value of any type is refused as one.\<close>

fun path_name :: "json \<Rightarrow> store_error + ustr" where
  "path_name (JStr s) = Inr s"
| "path_name JNull = Inl BoundaryError"
| "path_name (JBool False) = Inl BoundaryError"
| "path_name (JInt i) = Inl (if i = 0 then BoundaryError else PyError)"
| "path_name (JList []) = Inl BoundaryError"
| "path_name (JObj []) = Inl BoundaryError"
| "path_name _ = Inl PyError"

definition coordination_record_path :: "json \<Rightarrow> json \<Rightarrow> store_error + rkey" where
  "coordination_record_path kind record_id =
     bindE (path_name kind) (\<lambda>k. bindE (ensureE (name_ok k) BoundaryError) (\<lambda>_.
     bindE (path_name record_id) (\<lambda>i. bindE (ensureE (name_ok i) BoundaryError) (\<lambda>_.
     Inr (k, i)))))"

definition put_coord :: "rkey \<Rightarrow> bytes \<Rightarrow> fs \<Rightarrow> fs" where
  "put_coord key b fs = fs\<lparr> fs_coord := AList.update key b (fs_coord fs) \<rparr>"

definition materialize_coordination_record :: "ext \<Rightarrow> json \<Rightarrow> cfault \<Rightarrow> unit op" where
  "materialize_coordination_record E entry fault =
     bindS (liftS (bindE (field entry ''body'') (canonical E))) (\<lambda>b.
     bindS (liftS (differs entry ''fingerprint'' (JStr (sha256_hex b)))) (\<lambda>wrong.
     bindS (checkS (\<not> wrong) CorruptStoreError) (\<lambda>_.
     bindS (liftS (bindE (field entry ''kind'') (\<lambda>k. bindE (field entry ''id'') (coordination_record_path k))))
       (\<lambda>target.
     bindS (readS (\<lambda>fs. Inr (map_of (fs_coord fs) target))) (\<lambda>cached.
     case cached of
       Some c \<Rightarrow> checkS (c = b) CorruptStoreError
     | None \<Rightarrow>
         bindS (hitC fault During_Materialization) (\<lambda>_.
         bindS (modifyS (put_coord target b)) (\<lambda>_.
         hitC fault After_Materialization)))))))"

section \<open>The operations\<close>

definition ledger_entry :: "ustr \<Rightarrow> ustr \<Rightarrow> ustr \<Rightarrow> ustr \<Rightarrow> ustr \<Rightarrow> json \<Rightarrow> json" where
  "ledger_entry pid chain_id kind record_id digest body = JObj
     [(u ''kind'', JStr kind), (u ''id'', JStr record_id), (u ''project_id'', JStr pid),
      (u ''chain_id'', JStr chain_id), (u ''fingerprint'', JStr digest), (u ''body'', body)]"

definition expected_pair :: "json option \<Rightarrow> store_error + (json \<times> json) option" where
  "expected_pair p = (case p of None \<Rightarrow> Inr None
     | Some v \<Rightarrow> bindE (field v ''kind'') (\<lambda>k. bindE (field v ''id'') (\<lambda>i. Inr (Some (k, i)))))"

definition same_tip :: "(json \<times> json) option \<Rightarrow> (json \<times> json) option \<Rightarrow> bool" where
  "same_tip a b = (case (a, b) of
     (None, None) \<Rightarrow> True
   | (Some (k, i), Some (l, j)) \<Rightarrow> py_eq k l \<and> py_eq i j
   | _ \<Rightarrow> False)"

definition commit_coordination_record_at_tip :: "ext \<Rightarrow> ustr \<Rightarrow> ustr \<Rightarrow> ustr \<Rightarrow> ustr \<Rightarrow> json
    \<Rightarrow> json option \<Rightarrow> cfault \<Rightarrow> json op" where
  "commit_coordination_record_at_tip E pid chain_id kind record_id body expected_predecessor fault =
     bindS (liftS (canonical E body)) (\<lambda>b.
     bindS (liftS (project_path pid)) (\<lambda>_.
     bindS (modifyS heal_coordination_ledger_tail) (\<lambda>_.
     bindS (readS coordination_ledger_entries) (\<lambda>entries.
     bindS (liftS (coordination_ledger_match (JStr kind) (JStr record_id) entries)) (\<lambda>existing.
     case existing of
       Some e \<Rightarrow>
         bindS (liftS (field e ''body'')) (\<lambda>old.
         bindS (liftS (canonical E old)) (\<lambda>c.
         bindS (checkS (c = b) RecordConflictError) (\<lambda>_.
         bindS (materialize_coordination_record E e fault) (\<lambda>_.
         returnS old))))
     | None \<Rightarrow>
         bindS (liftS (coordination_chain_tip chain_id entries)) (\<lambda>actual_tip.
         bindS (liftS (expected_pair expected_predecessor)) (\<lambda>expected.
         bindS (checkS (same_tip actual_tip expected) CoordinationTipConflictError) (\<lambda>_.
         bindS (liftS (load_line b)) (\<lambda>stored.
         let entry = ledger_entry pid chain_id kind record_id (sha256_hex b) stored in
         bindS (commit_coordination_ledger_line E entry fault) (\<lambda>_.
         bindS (materialize_coordination_record E entry fault) (\<lambda>_.
         returnS body)))))))))))"

definition resolve_coordination_record :: "ext \<Rightarrow> ustr \<Rightarrow> ustr \<Rightarrow> ustr \<Rightarrow> json option op" where
  "resolve_coordination_record E pid kind record_id =
     bindS (liftS (project_path pid)) (\<lambda>_.
     bindS (readS coordination_ledger_entries) (\<lambda>entries.
     bindS (liftS (coordination_ledger_match (JStr kind) (JStr record_id) entries)) (\<lambda>entry.
     case entry of
       None \<Rightarrow>
         bindS (liftS (coordination_record_path (JStr kind) (JStr record_id))) (\<lambda>path.
         bindS (readS (\<lambda>fs. Inr (map_of (fs_coord fs) path))) (\<lambda>cached.
         bindS (checkS (cached = None) CorruptStoreError) (\<lambda>_. returnS None)))
     | Some e \<Rightarrow>
         bindS (materialize_coordination_record E e no_cfault) (\<lambda>_.
         bindS (liftS (field e ''body'')) (\<lambda>body. returnS (Some body))))))"

text \<open>The keys of \<open>{(entry["kind"], entry["id"]) for entry in entries}\<close> must be hashable.\<close>

definition hashable :: "json \<Rightarrow> bool" where
  "hashable v = (case v of JList _ \<Rightarrow> False | JObj _ \<Rightarrow> False | JObjBad _ \<Rightarrow> False | _ \<Rightarrow> True)"

definition entry_key :: "json \<Rightarrow> store_error + json \<times> json" where
  "entry_key entry = bindE (field entry ''kind'') (\<lambda>k. bindE (field entry ''id'') (\<lambda>i.
     bindE (ensureE (hashable k \<and> hashable i) PyError) (\<lambda>_. Inr (k, i))))"

definition heal_entry :: "ext \<Rightarrow> nat \<Rightarrow> json \<Rightarrow> nat op" where
  "heal_entry E healed entry =
     bindS (liftS (bindE (field entry ''kind'') (\<lambda>k. bindE (field entry ''id'') (coordination_record_path k))))
       (\<lambda>target.
     bindS (readS (\<lambda>fs. Inr (map_of (fs_coord fs) target))) (\<lambda>cached.
     if cached = None then
       bindS (materialize_coordination_record E entry no_cfault) (\<lambda>_. returnS (healed + 1))
     else returnS healed))"

definition recover_coordination_ledger :: "ext \<Rightarrow> ustr \<Rightarrow> nat op" where
  "recover_coordination_ledger E pid =
     bindS (liftS (project_path pid)) (\<lambda>_.
     bindS (modifyS heal_coordination_ledger_tail) (\<lambda>_.
     bindS (readS coordination_ledger_entries) (\<lambda>entries.
     bindS (liftS (mapE entry_key entries)) (\<lambda>keys.
     bindS (liftS (mapE (\<lambda>(k, i). coordination_ledger_match k i entries) keys)) (\<lambda>_.
     foldS (heal_entry E) 0 entries)))))"


section \<open>Well-formed ledgers\<close>

definition entry_line :: "json \<Rightarrow> bytes \<Rightarrow> bool" where
  "entry_line e b \<longleftrightarrow> canon e \<and> utf8_encode (dumps e) = Some b"

definition ledger_lines :: "fs \<Rightarrow> json list \<Rightarrow> bool" where
  "ledger_lines fs es \<longleftrightarrow>
     (\<exists>bs. list_all2 entry_line es bs \<and> fs_ledger fs = Some (concat (map (\<lambda>b. b @ [10]) bs)))"

lemma entry_bytes:
  assumes "canon e" and "utf8_encode (dumps e) = Some b"
  shows "10 \<notin> set b" and "b \<noteq> []"
proof -
  show "10 \<notin> set b"
  proof
    assume "10 \<in> set b"
    then have "unat (10 :: byte) \<in> set (dumps e)"
      by (intro utf8_encode_low [OF assms(2)]) auto
    with dumps_no_control [OF assms(1), of 10] show False by simp
  qed
  show "b \<noteq> []"
    using utf8_roundtrip [OF assms(2)] dumps_nonempty [OF assms(1)] by auto
qed

lemma entry_line_bytes:
  assumes "entry_line e b"
  shows "10 \<notin> set b" and "b \<noteq> []" and "load_line b = Inr e"
proof -
  have u: "utf8_encode (dumps e) = Some b" and c: "canon e" using assms by (auto simp: entry_line_def)
  show "10 \<notin> set b" "b \<noteq> []" by (rule entry_bytes [OF c u])+
  show "load_line b = Inr e"
    using utf8_roundtrip [OF u] loads_dumps [OF c] by (simp add: load_line_def)
qed

lemma load_lines: "list_all2 entry_line es bs \<Longrightarrow> mapE load_line bs = Inr es"
  using entry_line_bytes(3) by (auto simp: mapE_Inr_iff list_all2_conv_all_nth)

lemma dropWhile_tail:
  assumes "10 \<notin> set p"
  shows "dropWhile (\<lambda>b. b \<noteq> 10) (rev (concat (map (\<lambda>b. b @ [10]) bs) @ p))
    = rev (concat (map (\<lambda>b. b @ [10 :: byte]) bs))"
proof -
  have "dropWhile (\<lambda>b. b \<noteq> 10) (rev p @ xs) = dropWhile (\<lambda>b. b \<noteq> 10) xs" for xs
    using assms by (intro dropWhile_append2) auto
  moreover have "dropWhile (\<lambda>b. b \<noteq> 10) (rev (concat (map (\<lambda>b. b @ [10]) bs)))
      = rev (concat (map (\<lambda>b. b @ [10 :: byte]) bs))"
    by (cases bs rule: rev_cases) auto
  ultimately show ?thesis by simp
qed

text \<open>A file of whole lines followed by part of one.\<close>

lemma ledger_text:
  assumes "list_all2 entry_line es bs" and "fs_ledger fs = Some (concat (map (\<lambda>b. b @ [10]) bs) @ p)"
    and "10 \<notin> set p"
  shows "coordination_ledger_entries fs = Inr es"
    and "heal_coordination_ledger_tail fs = fs\<lparr> fs_ledger := Some (concat (map (\<lambda>b. b @ [10]) bs)) \<rparr>"
proof -
  have nl: "\<forall>l \<in> set bs. 10 \<notin> set l" and ne: "\<forall>l \<in> set bs. l \<noteq> []"
    using assms(1) entry_line_bytes(1,2) by (metis in_set_conv_nth list_all2_conv_all_nth)+
  have "filter (\<lambda>l. l \<noteq> []) (butlast (split_newline [] (concat (map (\<lambda>b. b @ [10]) bs) @ p))) = bs"
    using ne by (simp add: split_newline_lines [OF nl assms(3)] filter_id_conv)
  then show "coordination_ledger_entries fs = Inr es"
    using assms(1,2) load_lines [OF assms(1)]
    by (auto simp: coordination_ledger_entries_def list_all2_conv_all_nth)
  let ?w = "concat (map (\<lambda>b. b @ [10 :: byte]) bs)"
  have cl: "clean_length (?w @ p) = length ?w"
    by (simp only: clean_length_def dropWhile_tail [OF assms(3)] length_rev)
  have last: "p = []" if "last (?w @ p) = 10"
    using that assms(3) last_in_set [of p] by (cases "p = []") auto
  show "heal_coordination_ledger_tail fs = fs\<lparr> fs_ledger := Some ?w \<rparr>"
  proof (cases "p = []")
    case True
    then have "fs\<lparr> fs_ledger := Some ?w \<rparr> = fs" using assms(2) by (cases fs) simp
    moreover have "?w = [] \<or> last ?w = 10" by (cases bs rule: rev_cases) auto
    ultimately show ?thesis using assms(2) True by (simp add: heal_coordination_ledger_tail_def)
  next
    case False
    then have "\<not> (?w @ p = [] \<or> last (?w @ p) = 10)" using last by blast
    then show ?thesis
      using assms(2) cl by (simp add: heal_coordination_ledger_tail_def)
  qed
qed

lemma ledger_lines_entries: "ledger_lines fs es \<Longrightarrow> coordination_ledger_entries fs = Inr es"
  using ledger_text(1) [where p = "[]"] by (fastforce simp: ledger_lines_def)

lemma ledger_lines_heal: "ledger_lines fs es \<Longrightarrow> heal_coordination_ledger_tail fs = fs"
  using ledger_text(2) [where p = "[]" and fs = fs] by (cases fs) (fastforce simp: ledger_lines_def)


section \<open>The entry of a record\<close>

text \<open>The entry as it is read back: its keys in order.\<close>

definition stored_entry :: "ustr \<Rightarrow> ustr \<Rightarrow> ustr \<Rightarrow> ustr \<Rightarrow> ustr \<Rightarrow> json \<Rightarrow> json" where
  "stored_entry pid chain_id kind record_id digest body = JObj
     [(u ''body'', body), (u ''chain_id'', JStr chain_id), (u ''fingerprint'', JStr digest),
      (u ''id'', JStr record_id), (u ''kind'', JStr kind), (u ''project_id'', JStr pid)]"

definition plain_names :: "ustr \<Rightarrow> ustr \<Rightarrow> ustr \<Rightarrow> ustr \<Rightarrow> bool" where
  "plain_names pid chain_id kind record_id \<longleftrightarrow>
     plain_str pid \<and> plain_str chain_id \<and> plain_str kind \<and> plain_str record_id
     \<and> chain_id \<noteq> []"

lemma entry_keys:
  "k \<in> {u ''kind'', u ''id'', u ''project_id'', u ''chain_id'', u ''fingerprint'', u ''body''}
    \<Longrightarrow> ascii_env E \<Longrightarrow> \<not> secret_key E k \<and> plain_str k \<and> k \<notin> set set_like_fields"
  by (intro conjI word_key_free word_key_plain; elim insertE emptyE)
    (simp_all add: word_key_def secret_keys_def set_like_fields_def u_Cons)

lemma entry_canonical:
  assumes E: "ascii_env E" and n: "plain_names pid chain_id kind record_id" and d: "plain_str digest"
    and t: "canonical_tree E [] v = Inr t"
  shows "canonical_tree E [] (ledger_entry pid chain_id kind record_id digest t)
    = Inr (stored_entry pid chain_id kind record_id digest t)"
proof -
  have nfc: "nfc_ascii E" "nfc_idempotent E" using E by (auto simp: ascii_env_def)
  let ?e = "[(u ''kind'', JStr kind), (u ''id'', JStr record_id), (u ''project_id'', JStr pid),
      (u ''chain_id'', JStr chain_id), (u ''fingerprint'', JStr digest), (u ''body'', t)]"
  have "member_ok E [] kv kv" if "kv \<in> set ?e" for kv
  proof -
    have "fst kv \<in> fst ` set ?e" using that by (rule imageI)
    then have "fst kv \<in> {u ''kind'', u ''id'', u ''project_id'', u ''chain_id'', u ''fingerprint'', u ''body''}"
      by (simp only: list.set image_insert image_empty fst_conv)
    note k = entry_keys [OF this E]
    have t': "canonical_tree E [fst kv] t = Inr t"
      by (rule canonical_tree_again [OF nfc(2) t]) (use k in \<open>simp add: set_like_def\<close>)
    have "snd kv \<in> snd ` set ?e" using that by (rule imageI)
    then have "snd kv \<in> {JStr kind, JStr record_id, JStr pid, JStr chain_id, JStr digest, t}"
      by (simp only: list.set image_insert image_empty snd_conv)
    then have "canonical_tree E [fst kv] (snd kv) = Inr (snd kv)"
      using n d t' plain_normalize [OF nfc(1)] by (elim insertE emptyE) (simp_all add: plain_names_def)
    then show ?thesis
      using k plain_normalize [OF nfc(1)] by (simp add: member_ok_def)
  qed
  then have "list_all2 (member_ok E []) ?e ?e" by (simp add: list_all2_same)
  moreover have "sort_key fst ?e = [(u ''body'', t), (u ''chain_id'', JStr chain_id), (u ''fingerprint'', JStr digest),
      (u ''id'', JStr record_id), (u ''kind'', JStr kind), (u ''project_id'', JStr pid)]"
    by (simp add: u_Cons)
  ultimately show ?thesis
    unfolding canonical_obj_iff ledger_entry_def stored_entry_def
    by (intro exI [of _ ?e]) simp
qed

lemma encodable_obj:
  assumes "sorted (map fst kvs)"
    and "\<And>kv. kv \<in> set kvs \<Longrightarrow> list_all encodable (dump_str (fst kv)) \<and> list_all encodable (dumps (snd kv))"
  shows "list_all encodable (dumps (JObj kvs))"
proof -
  have "list_all encodable (dump_member kv)" if "kv \<in> set kvs" for kv
    using assms(2) [OF that] by (simp add: dump_member_def encodable_def surrogate_def)
  then have "encodable c" if "c \<in> set (join_with 44 (map dump_member kvs))" for c
    using that set_join_with [of 44 "map dump_member kvs"]
    by (auto simp: list_all_iff encodable_def surrogate_def dest!: subsetD)
  then show ?thesis
    unfolding dumps_obj_members [OF assms(1)] by (auto simp: list_all_iff encodable_def surrogate_def)
qed

lemma entry_encodes:
  assumes "plain_names pid chain_id kind record_id" and "plain_str digest" and "utf8_encode (dumps t) = Some b"
  shows "\<exists>be. utf8_encode (dumps (stored_entry pid chain_id kind record_id digest t)) = Some be"
proof -
  have enc: "plain_str s \<Longrightarrow> list_all encodable s" for s
    using utf8_encode_plain [of s] by (auto simp: utf8_encode_def split: if_splits)
  have t: "list_all encodable (dumps t)" using assms(3) by (auto simp: utf8_encode_def split: if_splits)
  let ?e = "[(u ''body'', t), (u ''chain_id'', JStr chain_id), (u ''fingerprint'', JStr digest),
      (u ''id'', JStr record_id), (u ''kind'', JStr kind), (u ''project_id'', JStr pid)]"
  have "list_all encodable (dumps (JObj ?e))"
  proof (rule encodable_obj)
    fix kv assume kv: "kv \<in> set ?e"
    then have "fst kv \<in> fst ` set ?e" by (rule imageI)
    then have "fst kv \<in> {u ''body'', u ''chain_id'', u ''fingerprint'', u ''id'', u ''kind'', u ''project_id''}"
      by (simp only: list.set image_insert image_empty fst_conv)
    then have k: "plain_str (fst kv)" by (elim insertE emptyE) (simp_all add: u_Cons)
    have "snd kv \<in> snd ` set ?e" using kv by (rule imageI)
    then have "snd kv \<in> {t, JStr chain_id, JStr digest, JStr record_id, JStr kind, JStr pid}"
      by (simp only: list.set image_insert image_empty snd_conv)
    then have "list_all encodable (dumps (snd kv))"
      using assms(1,2) t enc [OF plain_dump_str] by (elim insertE emptyE) (simp_all add: plain_names_def)
    then show "list_all encodable (dump_str (fst kv)) \<and> list_all encodable (dumps (snd kv))"
      using enc [OF plain_dump_str [OF k]] by simp
  qed (simp add: u_Cons)
  then show ?thesis unfolding stored_entry_def utf8_encode_def by simp
qed

lemma stored_entry_fields:
  "field (stored_entry p c k i d t) ''kind'' = Inr (JStr k)" "field (stored_entry p c k i d t) ''id'' = Inr (JStr i)"
  "field (stored_entry p c k i d t) ''body'' = Inr t" "field (stored_entry p c k i d t) ''fingerprint'' = Inr (JStr d)"
  "field (ledger_entry p c k i d t) ''kind'' = Inr (JStr k)" "field (ledger_entry p c k i d t) ''id'' = Inr (JStr i)"
  "field (ledger_entry p c k i d t) ''body'' = Inr t" "field (ledger_entry p c k i d t) ''fingerprint'' = Inr (JStr d)"
  by (simp_all add: field_def jfield_def stored_entry_def ledger_entry_def)

lemma stored_entry_chain: "c \<noteq> [] \<Longrightarrow> coordination_entry_chain_id (stored_entry p c k i d t) = Inr (Some c)"
  by (cases c) (simp_all add: coordination_entry_chain_id_def get_field_def jfield_def stored_entry_def str_of_def)


section \<open>The state of a ledger\<close>

definition ledger_is :: "fs \<Rightarrow> json list \<Rightarrow> bool" where
  "ledger_is fs es \<longleftrightarrow> ledger_lines fs es \<or> es = [] \<and> fs_ledger fs = None"

text \<open>The key of an entry, the bytes of its body, and when the two agree with the cache.\<close>

definition ekey :: "json \<Rightarrow> rkey" where
  "ekey e = (case (jfield e ''kind'', jfield e ''id'') of
     (Some (JStr k), Some (JStr i)) \<Rightarrow> (k, i) | _ \<Rightarrow> ([], []))"

definition entry_sound :: "ext \<Rightarrow> json \<Rightarrow> bytes \<Rightarrow> bool" where
  "entry_sound E e b \<longleftrightarrow>
     (\<exists>k i t. field e ''kind'' = Inr (JStr k) \<and> field e ''id'' = Inr (JStr i) \<and> field e ''body'' = Inr t
        \<and> canonical E t = Inr b \<and> field e ''fingerprint'' = Inr (JStr (sha256_hex b))
        \<and> name_ok k \<and> name_ok i)
     \<and> (\<exists>c. coordination_entry_chain_id e = Inr c)"

definition well_entry :: "ext \<Rightarrow> fs \<Rightarrow> json \<Rightarrow> bool" where
  "well_entry E fs e \<longleftrightarrow> (\<exists>b. entry_sound E e b
     \<and> (map_of (fs_coord fs) (ekey e) = None \<or> map_of (fs_coord fs) (ekey e) = Some b))"

definition ledger_ok :: "ext \<Rightarrow> ustr \<Rightarrow> fs \<Rightarrow> json list \<Rightarrow> bool" where
  "ledger_ok E pid fs es \<longleftrightarrow> name_ok pid \<and> ledger_is fs es
     \<and> (\<forall>e \<in> set es. well_entry E fs e) \<and> distinct (map ekey es)"

lemma entry_sound_key:
  assumes "entry_sound E e b"
  shows "field e ''kind'' = Inr (JStr (fst (ekey e)))" "field e ''id'' = Inr (JStr (snd (ekey e)))"
    "coordination_record_path (JStr (fst (ekey e))) (JStr (snd (ekey e))) = Inr (ekey e)"
  using assms by (auto simp: entry_sound_def ekey_def field_def coordination_record_path_def)

lemma ledger_is_entries: "ledger_is fs es \<Longrightarrow> coordination_ledger_entries fs = Inr es"
  using ledger_lines_entries by (auto simp: ledger_is_def coordination_ledger_entries_def)

lemma ledger_is_heal: "ledger_is fs es \<Longrightarrow> heal_coordination_ledger_tail fs = fs"
  using ledger_lines_heal by (auto simp: ledger_is_def heal_coordination_ledger_tail_def)

definition entry_keyed :: "json \<Rightarrow> bool" where
  "entry_keyed e \<longleftrightarrow> field e ''kind'' = Inr (JStr (fst (ekey e)))
     \<and> field e ''id'' = Inr (JStr (snd (ekey e)))"

lemma sound_keyed: "entry_sound E e b \<Longrightarrow> entry_keyed e"
  using entry_sound_key by (simp add: entry_keyed_def)

lemma claims_key: "entry_keyed e \<Longrightarrow> claims (JStr k) (JStr i) e = Inr (ekey e = (k, i))"
  by (cases "ekey e") (auto simp: claims_def entry_keyed_def)

lemma match_entries:
  assumes "\<forall>e \<in> set es. entry_keyed e"
  shows "filterE (claims (JStr k) (JStr i)) es = Inr (filter (\<lambda>e. ekey e = (k, i)) es)"
  using assms claims_key by (induction es) fastforce+

lemma match_none:
  assumes "\<forall>e \<in> set es. entry_keyed e" and "(k, i) \<notin> ekey ` set es"
  shows "coordination_ledger_match (JStr k) (JStr i) es = Inr None"
proof -
  have "filter (\<lambda>e. ekey e = (k, i)) es = []"
    using assms(2) by (auto simp: filter_empty_conv image_iff)
  then show ?thesis by (simp add: coordination_ledger_match_def match_entries [OF assms(1)])
qed

lemma match_some:
  assumes "\<forall>e \<in> set es. entry_keyed e" and "distinct (map ekey es)" and "e \<in> set es"
    and "ekey e = (k, i)"
  shows "coordination_ledger_match (JStr k) (JStr i) es = Inr (Some e)"
proof -
  have "filter (\<lambda>x. ekey x = (k, i)) es = [e]"
    using assms(2-4)
  proof (induction es)
    case (Cons x es)
    show ?case
    proof (cases "ekey x = (k, i)")
      case True
      then have "\<forall>y \<in> set es. ekey y \<noteq> (k, i)" using Cons.prems(1) by (metis distinct.simps(2) image_eqI image_set list.simps(9))
      moreover from this have "e = x" using Cons.prems(2,3) by auto
      ultimately show ?thesis using True by (simp add: filter_empty_conv)
    next
      case False
      then show ?thesis using Cons by auto
    qed
  qed simp
  then show ?thesis
    by (simp add: coordination_ledger_match_def match_entries [OF assms(1)])
qed

text \<open>A chain has a tip whatever the entries are, so reading it never fails.\<close>

lemma tip_total:
  "\<forall>e \<in> set es. \<exists>b. entry_sound E e b \<Longrightarrow> \<exists>t. tip_from c tip es = Inr t"
proof (induction es arbitrary: tip)
  case (Cons e es)
  then obtain b where b: "entry_sound E e b" by auto
  then obtain d where "coordination_entry_chain_id e = Inr d" by (auto simp: entry_sound_def)
  then show ?case using Cons entry_sound_key [OF b] by simp
qed simp

lemma tip_append:
  assumes "\<forall>e \<in> set es. \<exists>b. entry_sound E e b" and "coordination_entry_chain_id e = Inr (Some c)"
    and "field e ''kind'' = Inr k" and "field e ''id'' = Inr i"
  shows "tip_from c tip (es @ [e]) = Inr (Some (k, i))"
  using assms
proof (induction es arbitrary: tip)
  case (Cons x es)
  then obtain b where b: "entry_sound E x b" by auto
  then obtain d where "coordination_entry_chain_id x = Inr d" by (auto simp: entry_sound_def)
  then show ?case using Cons entry_sound_key [OF b] by simp
qed simp

section \<open>The runs\<close>

lemma append_ledger_fields [simp]:
  "fs_ledger (append_ledger b s) = Some (text_of (fs_ledger s) @ b)" "fs_coord (append_ledger b s) = fs_coord s"
  by (simp_all add: append_ledger_def text_of_def)

lemma append_ledger_twice: "append_ledger b (append_ledger a s) = append_ledger (a @ b) s"
  by (simp add: append_ledger_def)

lemma put_coord_fields [simp]:
  "fs_ledger (put_coord key b s) = fs_ledger s"
  "map_of (fs_coord (put_coord key b s)) = (map_of (fs_coord s))(key \<mapsto> b)"
  by (simp_all add: put_coord_def map_of_update)

lemma hitC_crash: "hitC (ccrash_at k) i = (if i = k then raiseS SimulatedCrash else returnS ())"
  by (simp add: hitC_def ccrash_at_def)

lemma hitC_none: "hitC no_cfault i = returnS ()"
  by (simp add: hitC_def no_cfault_def)

lemma ccrash_at_apply: "ccrash_at k i = (if i = k then Some SimulatedCrash else None)"
  by (simp add: ccrash_at_def)

lemma no_cfault_apply: "no_cfault i = None"
  by (simp add: no_cfault_def)

definition half :: "bytes \<Rightarrow> bytes" where
  "half line = take (max 1 (length line div 2)) line"

lemma ledger_line_run:
  assumes "canonical E e = Inr b"
  shows "commit_coordination_ledger_line E e no_cfault s = (Inr (), append_ledger (b @ [10]) s)"
    and "commit_coordination_ledger_line E e (ccrash_at k) s =
      (case k of
         Before_Append \<Rightarrow> (Inl SimulatedCrash, s)
       | During_Partial_Append \<Rightarrow> (Inl SimulatedCrash, append_ledger (half (b @ [10])) s)
       | During_Materialization \<Rightarrow> (Inr (), append_ledger (b @ [10]) s)
       | After_Materialization \<Rightarrow> (Inr (), append_ledger (b @ [10]) s)
       | _ \<Rightarrow> (Inl SimulatedCrash, append_ledger (b @ [10]) s))"
proof -
  show "commit_coordination_ledger_line E e no_cfault s = (Inr (), append_ledger (b @ [10]) s)"
    by (simp add: commit_coordination_ledger_line_def assms run_simps hitC_none Let_def append_ledger_twice)
  show "commit_coordination_ledger_line E e (ccrash_at k) s =
      (case k of
         Before_Append \<Rightarrow> (Inl SimulatedCrash, s)
       | During_Partial_Append \<Rightarrow> (Inl SimulatedCrash, append_ledger (half (b @ [10])) s)
       | During_Materialization \<Rightarrow> (Inr (), append_ledger (b @ [10]) s)
       | After_Materialization \<Rightarrow> (Inr (), append_ledger (b @ [10]) s)
       | _ \<Rightarrow> (Inl SimulatedCrash, append_ledger (b @ [10]) s))"
    by (cases k) (simp_all add: commit_coordination_ledger_line_def assms run_simps hitC_crash Let_def
        append_ledger_twice half_def)
qed

lemma materialize_run:
  assumes "entry_sound E e b"
  shows "materialize_coordination_record E e fault s =
    (case map_of (fs_coord s) (ekey e) of
       Some c \<Rightarrow> (if c = b then (Inr (), s) else (Inl CorruptStoreError, s))
     | None \<Rightarrow>
         (case fault During_Materialization of
            Some x \<Rightarrow> (Inl x, s)
          | None \<Rightarrow>
              (case fault After_Materialization of
                 Some x \<Rightarrow> (Inl x, put_coord (ekey e) b s)
               | None \<Rightarrow> (Inr (), put_coord (ekey e) b s))))"
  using entry_sound_key [OF assms] assms
  by (auto simp: materialize_coordination_record_def entry_sound_def run_simps differs_def hitC_def
      checkS_def split: option.split)

lemma well_sound: "ledger_ok E pid fs es \<Longrightarrow> \<forall>e \<in> set es. \<exists>b. entry_sound E e b"
  by (auto simp: ledger_ok_def well_entry_def)

lemma well_keyed: "ledger_ok E pid fs es \<Longrightarrow> \<forall>e \<in> set es. entry_keyed e"
  using sound_keyed by (auto simp: ledger_ok_def well_entry_def)

lemma ledger_ok_cong:
  "ledger_ok E pid s es \<Longrightarrow> fs_ledger t = fs_ledger s \<Longrightarrow> fs_coord t = fs_coord s \<Longrightarrow> ledger_ok E pid t es"
  by (simp add: ledger_ok_def ledger_is_def ledger_lines_def well_entry_def)

lemma ledger_is_append:
  assumes "ledger_is s es" and "entry_line e b"
  shows "ledger_is (append_ledger (b @ [10]) s) (es @ [e])"
proof -
  obtain bs where bs: "list_all2 entry_line es bs" "text_of (fs_ledger s) = concat (map (\<lambda>b. b @ [10]) bs)"
    using assms(1) by (auto simp: ledger_is_def ledger_lines_def text_of_def)
  have "list_all2 entry_line (es @ [e]) (bs @ [b])" using bs(1) assms(2) by (simp add: list_all2_appendI)
  with bs(2) show ?thesis by (fastforce simp: ledger_is_def ledger_lines_def)
qed

text \<open>The half of a line is cut off again.\<close>

lemma ledger_half:
  assumes "ledger_is s es" and "entry_line e b"
  shows "coordination_ledger_entries (append_ledger (half (b @ [10])) s) = Inr es"
    and "ledger_is (heal_coordination_ledger_tail (append_ledger (half (b @ [10])) s)) es"
    and "fs_coord (heal_coordination_ledger_tail (append_ledger (half (b @ [10])) s)) = fs_coord s"
proof -
  let ?s = "append_ledger (half (b @ [10])) s"
  obtain bs where bs: "list_all2 entry_line es bs" "text_of (fs_ledger s) = concat (map (\<lambda>b. b @ [10]) bs)"
    using assms(1) by (auto simp: ledger_is_def ledger_lines_def text_of_def)
  have b: "10 \<notin> set b" "b \<noteq> []" by (rule entry_line_bytes [OF assms(2)])+
  have "half (b @ [10]) = take (max 1 (Suc (length b) div 2)) b"
    using b(2) by (cases b) (simp_all add: half_def)
  then have "10 \<notin> set (half (b @ [10]))" using b(1) by (auto dest: in_set_takeD)
  moreover have "fs_ledger ?s = Some (concat (map (\<lambda>b. b @ [10]) bs) @ half (b @ [10]))"
    using bs(2) by simp
  ultimately have "coordination_ledger_entries ?s = Inr es"
    "heal_coordination_ledger_tail ?s = ?s\<lparr> fs_ledger := Some (concat (map (\<lambda>b. b @ [10]) bs)) \<rparr>"
    using ledger_text [OF bs(1)] by blast+
  then show "coordination_ledger_entries ?s = Inr es" "ledger_is (heal_coordination_ledger_tail ?s) es"
    "fs_coord (heal_coordination_ledger_tail ?s) = fs_coord s"
    using bs(1) by (auto simp: ledger_is_def ledger_lines_def)
qed

lemma well_entry_put:
  assumes "well_entry E s e" and "entry_sound E e' b" and "ekey e \<noteq> ekey e' \<or> e = e'"
  shows "well_entry E (put_coord (ekey e') b s) e"
  using assms by (cases "e = e'") (auto simp: well_entry_def)

lemma ledger_ok_put:
  assumes "ledger_ok E pid s es" and "e \<in> set es" and "entry_sound E e b"
  shows "ledger_ok E pid (put_coord (ekey e) b s) es"
proof -
  have "well_entry E (put_coord (ekey e) b s) x" if "x \<in> set es" for x
  proof (rule well_entry_put [OF _ assms(3)])
    show "well_entry E s x" using assms(1) that by (simp add: ledger_ok_def)
    show "ekey x \<noteq> ekey e \<or> x = e"
      using assms(1,2) that by (auto simp: ledger_ok_def distinct_map inj_on_def)
  qed
  then show ?thesis
    using assms(1) by (simp add: ledger_ok_def ledger_is_def ledger_lines_def)
qed

definition materialized :: "fs \<Rightarrow> json \<Rightarrow> bool" where
  "materialized fs e \<longleftrightarrow> map_of (fs_coord fs) (ekey e) \<noteq> None"

lemma heal_entry_run:
  assumes "ledger_ok E pid s es" and "e \<in> set es"
  shows "\<exists>m s'. heal_entry E n e s = (Inr m, s') \<and> ledger_ok E pid s' es \<and> materialized s' e
    \<and> (\<forall>x. materialized s x \<longrightarrow> materialized s' x) \<and> (s' = s \<or> m = n + 1)"
proof -
  obtain b where b: "entry_sound E e b"
    "map_of (fs_coord s) (ekey e) = None \<or> map_of (fs_coord s) (ekey e) = Some b"
    using assms by (auto simp: ledger_ok_def well_entry_def)
  note k = entry_sound_key [OF b(1)]
  show ?thesis
  proof (cases "map_of (fs_coord s) (ekey e) = None")
    case True
    then have "heal_entry E n e s = (Inr (n + 1), put_coord (ekey e) b s)"
      using k by (simp add: heal_entry_def run_simps bindS_run materialize_run [OF b(1)] no_cfault_apply)
    with ledger_ok_put [OF assms b(1)] show ?thesis by (auto simp: materialized_def)
  next
    case False
    then have "heal_entry E n e s = (Inr n, s)"
      using k by (auto simp: heal_entry_def run_simps)
    with assms(1) False show ?thesis by (auto simp: materialized_def)
  qed
qed

lemma heal_entries_run:
  assumes "ledger_ok E pid s es" and "set xs \<subseteq> set es"
  shows "\<exists>m s'. foldS (heal_entry E) n xs s = (Inr m, s') \<and> ledger_ok E pid s' es
    \<and> (\<forall>x \<in> set xs. materialized s' x) \<and> (\<forall>x. materialized s x \<longrightarrow> materialized s' x)"
  using assms
proof (induction xs arbitrary: n s)
  case (Cons e xs)
  obtain m s' where 1: "heal_entry E n e s = (Inr m, s')" "ledger_ok E pid s' es" "materialized s' e"
    "\<forall>x. materialized s x \<longrightarrow> materialized s' x"
    using heal_entry_run [OF Cons.prems(1), of e n] Cons.prems(2) by auto
  obtain l t where 2: "foldS (heal_entry E) m xs s' = (Inr l, t)" "ledger_ok E pid t es"
    "\<forall>x \<in> set xs. materialized t x" "\<forall>x. materialized s' x \<longrightarrow> materialized t x"
    using Cons.IH [OF 1(2), of m] Cons.prems(2) by auto
  have "foldS (heal_entry E) n (e # xs) s = (Inr l, t)" by (simp add: bindS_run 1(1) 2(1))
  with 1 2 show ?case by auto
qed (simp add: returnS_def)

text \<open>Recovery of a ledger whose healed form is well formed.\<close>

lemma recover_ledger_checks:
  assumes "name_ok pid" and "ledger_is (heal_coordination_ledger_tail s) es"
    and k: "\<forall>e \<in> set es. entry_keyed e" and d: "distinct (map ekey es)"
  shows "recover_coordination_ledger E pid s
    = foldS (heal_entry E) 0 es (heal_coordination_ledger_tail s)"
proof -
  have keys: "mapE entry_key es = Inr (map (\<lambda>e. (JStr (fst (ekey e)), JStr (snd (ekey e)))) es)"
    using k by (induction es) (simp_all add: entry_key_def entry_keyed_def hashable_def)
  have "coordination_ledger_match (JStr (fst (ekey e))) (JStr (snd (ekey e))) es = Inr (Some e)"
    if "e \<in> set es" for e
    using match_some [OF k d that] by simp
  then have "mapE (\<lambda>(k, i). coordination_ledger_match k i es)
      (map (\<lambda>e. (JStr (fst (ekey e)), JStr (snd (ekey e)))) es) = Inr (map Some es)"
    by (auto simp: mapE_Inr_iff list_all2_map1 list_all2_map2 list_all2_same)
  with keys assms(1) ledger_is_entries [OF assms(2)] show ?thesis
    by (simp add: recover_coordination_ledger_def project_path_def run_simps)
qed

lemma recover_ledger_run:
  assumes "ledger_ok E pid (heal_coordination_ledger_tail s) es"
  shows "\<exists>m t. recover_coordination_ledger E pid s = (Inr m, t) \<and> ledger_ok E pid t es
    \<and> (\<forall>e \<in> set es. materialized t e)"
  using heal_entries_run [OF assms, of es 0] recover_ledger_checks [OF _ _ well_keyed [OF assms]] assms
  by (auto simp: ledger_ok_def)

section \<open>Publishing a record\<close>

text \<open>What publishing needs: a record not yet in the ledger, the tip the writer expects, and
  a body with a canonical form.\<close>

definition draftable :: "ext \<Rightarrow> ustr \<Rightarrow> fs \<Rightarrow> json list \<Rightarrow> ustr \<Rightarrow> ustr \<Rightarrow> ustr \<Rightarrow> json
    \<Rightarrow> json option \<Rightarrow> json \<Rightarrow> bytes \<Rightarrow> bool" where
  "draftable E pid fs es chain_id kind record_id body predecessor t b \<longleftrightarrow>
     plain_names pid chain_id kind record_id
     \<and> canonical_tree E [] body = Inr t \<and> canonical E body = Inr b
     \<and> (kind, record_id) \<notin> ekey ` set es \<and> map_of (fs_coord fs) (kind, record_id) = None
     \<and> (\<exists>tip expected. coordination_chain_tip chain_id es = Inr tip
          \<and> expected_pair predecessor = Inr expected \<and> same_tip tip expected)"

definition publishable :: "ext \<Rightarrow> ustr \<Rightarrow> fs \<Rightarrow> json list \<Rightarrow> ustr \<Rightarrow> ustr \<Rightarrow> ustr \<Rightarrow> json
    \<Rightarrow> json option \<Rightarrow> json \<Rightarrow> bytes \<Rightarrow> bool" where
  "publishable E pid fs es chain_id kind record_id body predecessor t b \<longleftrightarrow>
     draftable E pid fs es chain_id kind record_id body predecessor t b
     \<and> name_ok kind \<and> name_ok record_id"

lemma published_entry:
  assumes E: "ascii_env E" and p: "draftable E pid fs es chain_id kind record_id body predecessor t b"
  shows "load_line b = Inr t"
    and "\<exists>be. canonical E (ledger_entry pid chain_id kind record_id (sha256_hex b) t) = Inr be
      \<and> entry_line (stored_entry pid chain_id kind record_id (sha256_hex b) t) be"
    and "name_ok kind \<Longrightarrow> name_ok record_id \<Longrightarrow>
      entry_sound E (stored_entry pid chain_id kind record_id (sha256_hex b) t) b"
    and "ekey (stored_entry pid chain_id kind record_id (sha256_hex b) t) = (kind, record_id)"
    and "materialize_coordination_record E (ledger_entry pid chain_id kind record_id (sha256_hex b) t)
      = materialize_coordination_record E (stored_entry pid chain_id kind record_id (sha256_hex b) t)"
proof -
  let ?d = "sha256_hex b"
  let ?e = "stored_entry pid chain_id kind record_id ?d t"
  have n: "plain_names pid chain_id kind record_id" and t: "canonical_tree E [] body = Inr t"
    and b: "canonical E body = Inr b" using p by (auto simp: draftable_def)
  have nfc: "nfc_idempotent E" using E by (simp add: ascii_env_def)
  have u: "utf8_encode (dumps t) = Some b"
    using t b by (auto simp: canonical_def canonical_json_bytes_iff)
  show "load_line b = Inr t"
    by (rule entry_line_bytes(3)) (simp add: entry_line_def u canonical_tree_canon [OF t])
  note c = entry_canonical [OF E n plain_sha256_hex t, of b]
  obtain be where be: "utf8_encode (dumps ?e) = Some be"
    using entry_encodes [OF n plain_sha256_hex u, of b] by auto
  have "canonical E (ledger_entry pid chain_id kind record_id ?d t) = Inr be"
    using c be by (auto simp: canonical_def canonical_json_bytes_iff)
  moreover have "entry_line ?e be"
    using be canonical_tree_canon [OF c] by (simp add: entry_line_def)
  ultimately show "\<exists>be. canonical E (ledger_entry pid chain_id kind record_id ?d t) = Inr be \<and> entry_line ?e be"
    by blast
  show "ekey ?e = (kind, record_id)" by (simp add: ekey_def jfield_def stored_entry_def)
  show "entry_sound E ?e b" if "name_ok kind" "name_ok record_id"
    using n that canonical_tree_stable [OF nfc t b] stored_entry_chain [of chain_id]
    by (auto simp: entry_sound_def stored_entry_fields plain_names_def)
  show "materialize_coordination_record E (ledger_entry pid chain_id kind record_id ?d t)
      = materialize_coordination_record E ?e"
    by (rule ext) (simp add: materialize_coordination_record_def stored_entry_fields differs_def)
qed

text \<open>Past its guards, publishing is the append and the materialization.\<close>

lemma publish_run:
  assumes E: "ascii_env E" and ok: "ledger_ok E pid fs es"
    and p: "draftable E pid fs es chain_id kind record_id body predecessor t b"
  shows "commit_coordination_record_at_tip E pid chain_id kind record_id body predecessor fault fs
    = bindS (commit_coordination_ledger_line E (ledger_entry pid chain_id kind record_id (sha256_hex b) t) fault)
        (\<lambda>_. bindS (materialize_coordination_record E
            (stored_entry pid chain_id kind record_id (sha256_hex b) t) fault) (\<lambda>_. returnS body)) fs"
proof -
  note e = published_entry [OF E p]
  have pre: "canonical E body = Inr b" "(kind, record_id) \<notin> ekey ` set es"
    using p by (auto simp: draftable_def)
  obtain tip ex where tip: "coordination_chain_tip chain_id es = Inr tip"
    "expected_pair predecessor = Inr ex" "same_tip tip ex"
    using p by (auto simp: draftable_def)
  have l: "name_ok pid" "heal_coordination_ledger_tail fs = fs" "coordination_ledger_entries fs = Inr es"
    using ok ledger_is_heal ledger_is_entries by (auto simp: ledger_ok_def)
  show ?thesis
    using l pre tip match_none [OF well_keyed [OF ok] pre(2)] e(1)
    by (simp add: commit_coordination_record_at_tip_def project_path_def run_simps Let_def e(5))
qed

lemma ledger_ok_publish:
  assumes "ledger_ok E pid fs es" and "entry_line e be" and "entry_sound E e b"
    and "ekey e \<notin> ekey ` set es" and "map_of (fs_coord fs) (ekey e) = None"
  shows "ledger_ok E pid (append_ledger (be @ [10]) fs) (es @ [e])"
    and "ledger_ok E pid (put_coord (ekey e) b (append_ledger (be @ [10]) fs)) (es @ [e])"
proof -
  show 1: "ledger_ok E pid (append_ledger (be @ [10]) fs) (es @ [e])"
    using assms ledger_is_append [of fs es e be]
    by (auto simp: ledger_ok_def well_entry_def)
  show "ledger_ok E pid (put_coord (ekey e) b (append_ledger (be @ [10]) fs)) (es @ [e])"
    by (rule ledger_ok_put [OF 1 _ assms(3)]) simp
qed

lemma resolve_run:
  assumes ok: "ledger_ok E pid fs es" and e: "e \<in> set es" "entry_sound E e b" "field e ''body'' = Inr t"
    and c: "map_of (fs_coord fs) (ekey e) = Some b"
  shows "resolve_coordination_record E pid (fst (ekey e)) (snd (ekey e)) fs = (Inr (Some t), fs)"
proof -
  have "coordination_ledger_match (JStr (fst (ekey e))) (JStr (snd (ekey e))) es = Inr (Some e)"
    using match_some [OF well_keyed [OF ok] _ e(1)] ok by (simp add: ledger_ok_def)
  moreover have "coordination_ledger_entries fs = Inr es" "name_ok pid"
    using ok ledger_is_entries by (auto simp: ledger_ok_def)
  ultimately show ?thesis
    using e(3) c
    by (simp add: resolve_coordination_record_def project_path_def run_simps bindS_run materialize_run [OF e(2)])
qed

definition reached_ledger :: "cstage \<Rightarrow> bool" where
  "reached_ledger k \<longleftrightarrow> k \<notin> {Before_Append, During_Partial_Append}"

end
