(* ===== verification/LedgerProps.thy ===== *)
theory LedgerProps
  imports Ledger StoreExample
begin

text \<open>
  What the coordination ledger promises: publication is all or nothing across crashes, a chain
  has one total order, an identity is published at most once, and the lane never touches
  project state. The last property is about a record whose name is not a path component.
\<close>

section \<open>A concrete record\<close>

definition ex_body :: json where
  "ex_body = JObj [(u ''counter'', JInt 1)]"

lemma ex_body_canonical:
  "canonical_tree ascii_ext [] ex_body = Inr ex_body"
  "canonical ascii_ext ex_body = Inr (map of_nat (dumps ex_body))"
  using plain_canonicalS [of ex_body] plain_ex_semantic [of False 1]
  by (simp_all add: ex_body_def ex_semantic_def)

lemma ex_ledger_ok: "ledger_ok ascii_ext prj empty_fs []"
  using prj_ok by (simp add: ledger_ok_def ledger_is_def empty_fs_def)

lemma ex_draftable:
  assumes "plain_str k" and "plain_str i"
  shows "draftable ascii_ext prj empty_fs [] (u ''OPEN-1'') k i ex_body None ex_body (map of_nat (dumps ex_body))"
  using assms prj_ok
  by (simp add: draftable_def plain_names_def ex_body_canonical coordination_chain_tip_def
      expected_pair_def same_tip_def empty_fs_def) (simp add: u_Cons)

lemma ex_publishable:
  "publishable ascii_ext prj empty_fs [] (u ''OPEN-1'') (u ''open'') (u ''WTC-1'') ex_body None ex_body
     (map of_nat (dumps ex_body))"
proof -
  have "plain_str (u ''open'')" "plain_str (u ''WTC-1'')" "name_ok (u ''open'')" "name_ok (u ''WTC-1'')"
    by (simp_all add: u_Cons name_ok_def has_slash_def)
  then show ?thesis using ex_draftable by (simp add: publishable_def)
qed

lemma same_tip_simps [simp]:
  "same_tip None None" "\<not> same_tip None (Some (k, i))" "\<not> same_tip (Some (k, i)) None"
  "same_tip (Some (k, i)) (Some (l, j)) \<longleftrightarrow> py_eq k l \<and> py_eq i j"
  unfolding same_tip_def by simp_all

lemma mapE_fails:
  "\<forall>x \<in> set xs. (\<exists>v. f x = Inr v) \<or> f x = Inl e \<Longrightarrow> y \<in> set xs \<Longrightarrow> f y = Inl e \<Longrightarrow> mapE f xs = Inl e"
proof (induction xs)
  case (Cons x xs)
  consider "f x = Inl e" | v where "f x = Inr v" "y \<in> set xs" using Cons.prems by fastforce
  then show ?case
  proof cases
    case 2
    then have "mapE f xs = Inl e" using Cons.prems(1,3) by (intro Cons.IH) simp_all
    with 2 show ?thesis by simp
  qed simp
qed simp

lemma match_total:
  assumes "\<forall>e \<in> set es. entry_keyed e"
  shows "(\<exists>v. coordination_ledger_match (JStr k) (JStr i) es = Inr v)
    \<or> coordination_ledger_match (JStr k) (JStr i) es = Inl CorruptStoreError"
  by (simp add: coordination_ledger_match_def match_entries [OF assms] split: list.split)

section \<open>What the lane leaves alone\<close>

definition same_project :: "fs \<Rightarrow> fs \<Rightarrow> bool" where
  "same_project s t \<longleftrightarrow> fs_lineage t = fs_lineage s \<and> fs_current t = fs_current s
     \<and> fs_receipt t = fs_receipt s \<and> fs_recovery t = fs_recovery s \<and> fs_records t = fs_records s"

lemma same_project_reflp: "reflp same_project" and same_project_transp: "transp same_project"
  by (auto simp: same_project_def intro: reflpI transpI)

lemma keeps_modify_ledger:
  "(\<And>s. same_project s (f s)) \<Longrightarrow> keeps same_project (modifyS f)"
  by (simp add: keeps_def modifyS_def)

lemma keeps_hitC: "keeps same_project (hitC fault k)"
  using reflpD [OF same_project_reflp] by (simp add: keeps_def hitC_def run_simps split: option.split)

lemmas keeps_lane = keeps_bindS [OF same_project_transp] keeps_pure [OF same_project_reflp]
  keeps_foldS [OF same_project_reflp same_project_transp] keeps_hitC keeps_modify_ledger

lemma same_project_puts:
  "same_project s (append_ledger b s)" "same_project s (put_coord key b s)"
  "same_project s (heal_coordination_ledger_tail s)"
  by (simp_all add: same_project_def append_ledger_def put_coord_def heal_coordination_ledger_tail_def
      split: option.split)

lemma keeps_line: "keeps same_project (commit_coordination_ledger_line E e fault)"
  unfolding commit_coordination_ledger_line_def Let_def by (intro keeps_lane same_project_puts)

lemma keeps_materialize: "keeps same_project (materialize_coordination_record E e fault)"
  unfolding materialize_coordination_record_def
  by (auto intro!: keeps_lane same_project_puts split: option.split)

lemma keeps_heal_entry: "keeps same_project (heal_entry E n e)"
  unfolding heal_entry_def by (auto intro!: keeps_lane keeps_materialize)

lemma keeps_coordination:
  "keeps same_project (commit_coordination_record_at_tip E pid chain_id kind record_id body predecessor fault)"
  "keeps same_project (resolve_coordination_record E pid kind record_id)"
  "keeps same_project (recover_coordination_ledger E pid)"
  unfolding commit_coordination_record_at_tip_def resolve_coordination_record_def
    recover_coordination_ledger_def Let_def
  by (auto intro!: keeps_lane same_project_puts keeps_line keeps_materialize keeps_heal_entry
      split: option.split)

text \<open>Entries that agree with the cache are healed without failing.\<close>

lemma heal_entries_total:
  assumes "\<forall>e \<in> set xs. well_entry E s e" and "distinct (map ekey xs)"
  shows "\<exists>m s'. foldS (heal_entry E) n xs s = (Inr m, s')"
  using assms
proof (induction xs arbitrary: n s)
  case (Cons e xs)
  obtain b where b: "entry_sound E e b"
    "map_of (fs_coord s) (ekey e) = None \<or> map_of (fs_coord s) (ekey e) = Some b"
    using Cons.prems by (auto simp: well_entry_def)
  have "\<exists>m s'. heal_entry E n e s = (Inr m, s') \<and> (s' = s \<or> s' = put_coord (ekey e) b s)"
    using b(2) entry_sound_key [OF b(1)]
    by (auto simp: heal_entry_def run_simps bindS_run materialize_run [OF b(1)] no_cfault_apply)
  then obtain m s' where 1: "heal_entry E n e s = (Inr m, s')" "s' = s \<or> s' = put_coord (ekey e) b s"
    by blast
  have "well_entry E s' x" if x: "x \<in> set xs" for x
  proof -
    have "ekey x \<noteq> ekey e" using Cons.prems(2) x by (auto simp: image_iff)
    then have "well_entry E (put_coord (ekey e) b s) x"
      using well_entry_put [OF _ b(1)] Cons.prems(1) x by simp
    then show ?thesis using 1(2) Cons.prems(1) x by auto
  qed
  then have "\<forall>x \<in> set xs. well_entry E s' x" by blast
  from Cons.IH [OF this, of m] Cons.prems(2) 1(1) show ?case by (auto simp: bindS_run)
qed (simp add: returnS_def)

section \<open>Properties\<close>

text \<open>C19: a process that dies anywhere inside the publication of a coordination record, half a
  line written included, leaves a ledger that recovery brings to the old entries or to the old
  entries and the new one, every cache file present and agreeing.\<close>

theorem coordination_crash_recover:
  assumes "ascii_env E" and "ledger_ok E pid fs es"
    and "publishable E pid fs es chain_id kind record_id body predecessor t b"
  shows "\<exists>fs' n fs''. commit_coordination_record_at_tip E pid chain_id kind record_id body predecessor
        (ccrash_at k) fs = (Inl SimulatedCrash, fs')
    \<and> recover_coordination_ledger E pid fs' = (Inr n, fs'')
    \<and> ledger_ok E pid fs'' (if reached_ledger k
        then es @ [stored_entry pid chain_id kind record_id (sha256_hex b) t] else es)
    \<and> (\<forall>e \<in> set es. materialized fs'' e)"
proof -
  let ?e = "stored_entry pid chain_id kind record_id (sha256_hex b) t"
  let ?es = "if reached_ledger k then es @ [?e] else es"
  have p: "draftable E pid fs es chain_id kind record_id body predecessor t b"
    and names: "name_ok kind" "name_ok record_id"
    using assms(3) by (auto simp: publishable_def)
  note e = published_entry [OF assms(1) p]
  note s = e(3) [OF names]
  obtain be where be: "canonical E (ledger_entry pid chain_id kind record_id (sha256_hex b) t) = Inr be"
    "entry_line ?e be" using e(2) by blast
  have new: "ekey ?e \<notin> ekey ` set es" "map_of (fs_coord fs) (ekey ?e) = None"
    using p by (auto simp: draftable_def e(4))
  note ok = ledger_ok_publish [OF assms(2) be(2) s new]
  have l: "ledger_is fs es" using assms(2) by (simp add: ledger_ok_def)
  have ok_half: "ledger_ok E pid (heal_coordination_ledger_tail (append_ledger (half (be @ [10])) fs)) es"
    using assms(2) ledger_half(2,3) [OF l be(2)] by (simp add: ledger_ok_def well_entry_def)
  have h: "heal_coordination_ledger_tail s = s" if "ledger_ok E pid s xs" for s xs
    using that ledger_is_heal by (auto simp: ledger_ok_def)
  have "\<exists>fs'. commit_coordination_record_at_tip E pid chain_id kind record_id body predecessor
        (ccrash_at k) fs = (Inl SimulatedCrash, fs') \<and> ledger_ok E pid (heal_coordination_ledger_tail fs') ?es"
    unfolding publish_run [OF assms(1,2) p]
    using assms(2) ok ok_half h [OF assms(2)] h [OF ok(1)] h [OF ok(2)] new(2)
    by (cases k) (simp_all add: bindS_run ledger_line_run [OF be(1)] materialize_run [OF s]
        reached_ledger_def ccrash_at_apply)
  then obtain fs' where fs': "commit_coordination_record_at_tip E pid chain_id kind record_id body predecessor
        (ccrash_at k) fs = (Inl SimulatedCrash, fs')" "ledger_ok E pid (heal_coordination_ledger_tail fs') ?es"
    by blast
  with recover_ledger_run [OF fs'(2)] show ?thesis
    by (cases "reached_ledger k") fastforce+
qed

theorem coordination_crash_recover_witness:
  "\<exists>fs' n fs''. commit_coordination_record_at_tip ascii_ext prj (u ''OPEN-1'') (u ''open'') (u ''WTC-1'')
        ex_body None (ccrash_at During_Partial_Append) empty_fs = (Inl SimulatedCrash, fs')
    \<and> recover_coordination_ledger ascii_ext prj fs' = (Inr n, fs'')
    \<and> ledger_ok ascii_ext prj fs'' []"
  using coordination_crash_recover [OF ascii_env_example ex_ledger_ok ex_publishable, of During_Partial_Append]
  by (auto simp: reached_ledger_def)

text \<open>C35: a published record is the new last entry of the ledger, and resolves to the canonical
  form of its body.\<close>

theorem coordination_publish:
  assumes "ascii_env E" and "ledger_ok E pid fs es"
    and "publishable E pid fs es chain_id kind record_id body predecessor t b"
  shows "\<exists>fs'. commit_coordination_record_at_tip E pid chain_id kind record_id body predecessor
        no_cfault fs = (Inr body, fs')
    \<and> ledger_ok E pid fs' (es @ [stored_entry pid chain_id kind record_id (sha256_hex b) t])
    \<and> coordination_chain_tip chain_id (es @ [stored_entry pid chain_id kind record_id (sha256_hex b) t])
        = Inr (Some (JStr kind, JStr record_id))
    \<and> resolve_coordination_record E pid kind record_id fs' = (Inr (Some t), fs')"
proof -
  let ?e = "stored_entry pid chain_id kind record_id (sha256_hex b) t"
  have p: "draftable E pid fs es chain_id kind record_id body predecessor t b"
    and names: "name_ok kind" "name_ok record_id"
    using assms(3) by (auto simp: publishable_def)
  note e = published_entry [OF assms(1) p]
  note s = e(3) [OF names]
  obtain be where be: "canonical E (ledger_entry pid chain_id kind record_id (sha256_hex b) t) = Inr be"
    "entry_line ?e be" using e(2) by blast
  have new: "ekey ?e \<notin> ekey ` set es" "map_of (fs_coord fs) (ekey ?e) = None"
    using p by (auto simp: draftable_def e(4))
  note ok = ledger_ok_publish [OF assms(2) be(2) s new]
  let ?t = "put_coord (ekey ?e) b (append_ledger (be @ [10]) fs)"
  have "commit_coordination_record_at_tip E pid chain_id kind record_id body predecessor no_cfault fs
      = (Inr body, ?t)"
    unfolding publish_run [OF assms(1,2) p] using new(2)
    by (simp add: bindS_run ledger_line_run [OF be(1)] materialize_run [OF s] no_cfault_apply run_simps)
  moreover have "resolve_coordination_record E pid kind record_id ?t = (Inr (Some t), ?t)"
    using resolve_run [OF ok(2) _ s, of t] by (simp add: e(4) stored_entry_fields)
  moreover have "chain_id \<noteq> []" using p by (simp add: draftable_def plain_names_def)
  then have "coordination_chain_tip chain_id (es @ [?e]) = Inr (Some (JStr kind, JStr record_id))"
    using tip_append well_sound [OF assms(2)] stored_entry_chain
    by (simp add: coordination_chain_tip_def stored_entry_fields)
  ultimately show ?thesis using ok(2) by blast
qed

theorem coordination_publish_witness:
  "\<exists>fs'. commit_coordination_record_at_tip ascii_ext prj (u ''OPEN-1'') (u ''open'') (u ''WTC-1'')
        ex_body None no_cfault empty_fs = (Inr ex_body, fs')
    \<and> resolve_coordination_record ascii_ext prj (u ''open'') (u ''WTC-1'') fs' = (Inr (Some ex_body), fs')"
  using coordination_publish [OF ascii_env_example ex_ledger_ok ex_publishable] by blast

text \<open>a writer that names any other predecessor than the chain's current tip is refused and
  the ledger is left as it was, so no two writers extend the same tip.\<close>

theorem coordination_stale_tip_refused:
  assumes "ledger_ok E pid fs es" and "canonical E body = Inr b" and "(kind, record_id) \<notin> ekey ` set es"
    and "coordination_chain_tip chain_id es = Inr tip" and "expected_pair predecessor = Inr expected"
    and "\<not> same_tip tip expected"
  shows "commit_coordination_record_at_tip E pid chain_id kind record_id body predecessor fault fs
    = (Inl CoordinationTipConflictError, fs)"
proof -
  have "name_ok pid" "heal_coordination_ledger_tail fs = fs" "coordination_ledger_entries fs = Inr es"
    using assms(1) ledger_is_heal ledger_is_entries by (auto simp: ledger_ok_def)
  with assms(2-) match_none [OF well_keyed [OF assms(1)] assms(3)] show ?thesis
    by (simp add: commit_coordination_record_at_tip_def project_path_def run_simps)
qed

theorem coordination_stale_tip_refused_witness:
  "commit_coordination_record_at_tip ascii_ext prj (u ''OPEN-1'') (u ''update'') (u ''WTC-2'') ex_body
      (Some (JObj [(u ''kind'', JStr (u ''open'')), (u ''id'', JStr (u ''WTC-1''))])) no_cfault empty_fs
    = (Inl CoordinationTipConflictError, empty_fs)"
  by (rule coordination_stale_tip_refused [OF ex_ledger_ok ex_body_canonical(2), where tip = None
        and expected = "Some (JStr (u ''open''), JStr (u ''WTC-1''))"])
    (simp_all add: coordination_chain_tip_def expected_pair_def field_def jfield_def)

text \<open>an identity that occurs twice in the ledger, be it with the same bytes, is refused by
  every operation that would read it: publication, resolution and recovery all raise
  \<open>CorruptStoreError\<close> and write nothing.\<close>

theorem coordination_duplicate_refused:
  assumes "name_ok pid" and "ledger_is fs (xs @ e # ys @ e' # zs)"
    and "\<forall>x \<in> set (xs @ e # ys @ e' # zs). entry_keyed x" and "ekey e = (kind, record_id)" "ekey e' = ekey e"
    and "canonical E body = Inr b"
  shows "commit_coordination_record_at_tip E pid chain_id kind record_id body predecessor fault fs
      = (Inl CorruptStoreError, fs)
    \<and> resolve_coordination_record E pid kind record_id fs = (Inl CorruptStoreError, fs)
    \<and> recover_coordination_ledger E pid fs = (Inl CorruptStoreError, fs)"
proof -
  let ?es = "xs @ e # ys @ e' # zs"
  have dup: "coordination_ledger_match (JStr kind) (JStr record_id) ?es = Inl CorruptStoreError"
    using assms(4,5) match_entries [OF assms(3), of kind record_id]
    by (auto simp: coordination_ledger_match_def split: list.split)
  have l: "heal_coordination_ledger_tail fs = fs" "coordination_ledger_entries fs = Inr ?es"
    using assms(2) ledger_is_heal ledger_is_entries by blast+
  have keys: "mapE entry_key es = Inr (map (\<lambda>e. (JStr (fst (ekey e)), JStr (snd (ekey e)))) es)"
    if "\<forall>e \<in> set es. entry_keyed e" for es
    using that by (induction es) (simp_all add: entry_key_def entry_keyed_def hashable_def)
  have "mapE (\<lambda>(k, i). coordination_ledger_match k i ?es)
      (map (\<lambda>e. (JStr (fst (ekey e)), JStr (snd (ekey e)))) ?es) = Inl CorruptStoreError"
  proof (rule mapE_fails)
    show "\<forall>x \<in> set (map (\<lambda>e. (JStr (fst (ekey e)), JStr (snd (ekey e)))) ?es).
        (\<exists>v. (case x of (k, i) \<Rightarrow> coordination_ledger_match k i ?es) = Inr v)
        \<or> (case x of (k, i) \<Rightarrow> coordination_ledger_match k i ?es) = Inl CorruptStoreError"
      unfolding set_map by (intro ballI, elim imageE, simp only: prod.case) (rule match_total [OF assms(3)])
    show "(JStr kind, JStr record_id) \<in> set (map (\<lambda>e. (JStr (fst (ekey e)), JStr (snd (ekey e)))) ?es)"
      using assms(4) by simp
    show "(case (JStr kind, JStr record_id) of (k, i) \<Rightarrow> coordination_ledger_match k i ?es) = Inl CorruptStoreError"
      using dup by simp
  qed
  with dup l keys [OF assms(3)] assms(1,6) show ?thesis
    by (simp add: commit_coordination_record_at_tip_def resolve_coordination_record_def
        recover_coordination_ledger_def project_path_def run_simps del: list.map mapE.simps)
qed

definition twice :: fs where
  "twice = empty_fs\<lparr> fs_ledger := Some (concat (map (\<lambda>b. b @ [10])
     [map of_nat (dumps (stored_entry prj (u ''C'') (u ''k'') (u ''i'') (u ''d'') JNull)),
      map of_nat (dumps (stored_entry prj (u ''C'') (u ''k'') (u ''i'') (u ''d'') JNull))])) \<rparr>"

theorem coordination_duplicate_refused_witness:
  "commit_coordination_record_at_tip ascii_ext prj (u ''C'') (u ''k'') (u ''i'') ex_body None no_cfault twice
      = (Inl CorruptStoreError, twice)
    \<and> resolve_coordination_record ascii_ext prj (u ''k'') (u ''i'') twice = (Inl CorruptStoreError, twice)
    \<and> recover_coordination_ledger ascii_ext prj twice = (Inl CorruptStoreError, twice)"
proof -
  let ?e = "stored_entry prj (u ''C'') (u ''k'') (u ''i'') (u ''d'') JNull"
  have n: "plain_names prj (u ''C'') (u ''k'') (u ''i'')" "plain_str (u ''d'')"
    using prj_ok by (simp_all add: plain_names_def u_Cons)
  have c: "canonical_tree ascii_ext [] (ledger_entry prj (u ''C'') (u ''k'') (u ''i'') (u ''d'') JNull) = Inr ?e"
    by (rule entry_canonical [OF ascii_env_example n, of JNull]) simp
  have "plain ascii_ext False ?e"
    using n entry_keys [OF _ ascii_env_example]
    by (simp add: stored_entry_def plain_names_def) (simp add: u_Cons)
  then have "entry_line ?e (map of_nat (dumps ?e))"
    using plain_dumps utf8_encode_plain canonical_tree_canon [OF c] by (simp add: entry_line_def)
  then have "ledger_lines twice [?e, ?e]"
    unfolding ledger_lines_def
    by (intro exI [of _ "[map of_nat (dumps ?e), map of_nat (dumps ?e)]"]) (simp add: twice_def)
  then have l: "ledger_is twice ([] @ ?e # [] @ ?e # [])" by (simp add: ledger_is_def)
  have k: "ekey ?e = (u ''k'', u ''i'')" by (simp add: ekey_def jfield_def stored_entry_def)
  then have "\<forall>x \<in> set ([] @ ?e # [] @ ?e # []). entry_keyed x"
    by (simp add: entry_keyed_def stored_entry_fields)
  from coordination_duplicate_refused [OF prj_ok(1) l this k refl ex_body_canonical(2)]
  show ?thesis by blast
qed

text \<open>no coordination operation, failing or not, touches project state: lineage, current
  view, genesis receipt, journals and records are the same before and after.\<close>

theorem coordination_orthogonal:
  "same_project fs (snd (commit_coordination_record_at_tip E pid chain_id kind record_id body predecessor fault fs))
   \<and> same_project fs (snd (resolve_coordination_record E pid kind record_id fs))
   \<and> same_project fs (snd (recover_coordination_ledger E pid fs))"
  by (simp add: keeps_coordination keepsD)

text \<open>C38: a kind or an id that is no path component is checked only when the cache file is
  written, after its entry is durable: the caller gets a \<open>BoundaryError\<close>, the entry stays, and
  from then on recovery of the whole ledger fails.\<close>

theorem invalid_name_poisons_ledger:
  assumes "ascii_env E" and "ledger_ok E pid fs es"
    and "draftable E pid fs es chain_id kind record_id body predecessor t b"
    and "\<not> (name_ok kind \<and> name_ok record_id)"
  shows "\<exists>fs' fs''. commit_coordination_record_at_tip E pid chain_id kind record_id body predecessor
        no_cfault fs = (Inl BoundaryError, fs')
    \<and> coordination_ledger_entries fs' = Inr (es @ [stored_entry pid chain_id kind record_id (sha256_hex b) t])
    \<and> recover_coordination_ledger E pid fs' = (Inl BoundaryError, fs'')"
proof -
  let ?e = "stored_entry pid chain_id kind record_id (sha256_hex b) t"
  note e = published_entry [OF assms(1,3)]
  obtain be where be: "canonical E (ledger_entry pid chain_id kind record_id (sha256_hex b) t) = Inr be"
    "entry_line ?e be" using e(2) by blast
  let ?t = "append_ledger (be @ [10]) fs"
  have bad: "coordination_record_path (JStr kind) (JStr record_id) = Inl BoundaryError"
    using assms(4) by (auto simp: coordination_record_path_def bindE_eq_Inl_iff ensureE_def)
  have body: "canonical E t = Inr b"
    using assms(1,3) canonical_tree_stable by (auto simp: draftable_def ascii_env_def)
  have "materialize_coordination_record E ?e no_cfault ?t = (Inl BoundaryError, ?t)"
    using bad body by (simp add: materialize_coordination_record_def stored_entry_fields differs_def run_simps)
  then have run: "commit_coordination_record_at_tip E pid chain_id kind record_id body predecessor no_cfault fs
      = (Inl BoundaryError, ?t)"
    unfolding publish_run [OF assms(1-3)]
    by (simp add: bindS_run ledger_line_run [OF be(1)])
  have l: "ledger_is ?t (es @ [?e])"
    using ledger_is_append [OF _ be(2)] assms(2) by (simp add: ledger_ok_def)
  have t: "heal_coordination_ledger_tail ?t = ?t" by (rule ledger_is_heal [OF l])
  have "\<forall>x \<in> set (es @ [?e]). entry_keyed x"
    using well_keyed [OF assms(2)] by (auto simp: entry_keyed_def stored_entry_fields e(4))
  moreover have "distinct (map ekey (es @ [?e]))"
    using assms(2,3) by (simp add: ledger_ok_def draftable_def e(4))
  ultimately have rec: "recover_coordination_ledger E pid ?t = foldS (heal_entry E) 0 (es @ [?e]) ?t"
    using recover_ledger_checks [of pid ?t "es @ [?e]" E] l t assms(2) by (simp add: ledger_ok_def)
  have okt: "\<exists>m s'. foldS (heal_entry E) 0 es ?t = (Inr m, s')"
    by (rule heal_entries_total) (use assms(2) in \<open>auto simp: ledger_ok_def well_entry_def\<close>)
  then obtain m s' where "foldS (heal_entry E) 0 es ?t = (Inr m, s')" by blast
  moreover have "heal_entry E m ?e s' = (Inl BoundaryError, s')"
    using bad by (simp add: heal_entry_def stored_entry_fields run_simps)
  ultimately have "recover_coordination_ledger E pid ?t = (Inl BoundaryError, s')"
    by (simp add: rec foldS_append bindS_run)
  with run ledger_is_entries [OF l] show ?thesis by blast
qed

theorem invalid_name_poisons_ledger_witness:
  "\<exists>fs' fs''. commit_coordination_record_at_tip ascii_ext prj (u ''OPEN-1'') (u ''open'') (u ''a/b'') ex_body
        None no_cfault empty_fs = (Inl BoundaryError, fs')
    \<and> recover_coordination_ledger ascii_ext prj fs' = (Inl BoundaryError, fs'')"
proof -
  have p: "plain_str (u ''open'')" "plain_str (u ''a/b'')" by (simp_all add: u_Cons)
  have "\<not> (name_ok (u ''open'') \<and> name_ok (u ''a/b''))" by (simp add: u_Cons name_ok_def has_slash_def)
  from invalid_name_poisons_ledger [OF ascii_env_example ex_ledger_ok ex_draftable [OF p] this]
  show ?thesis by blast
qed

text \<open>publishing a record again returns the body in the ledger and changes nothing, whatever
  predecessor the caller names; the same identity with another body is refused.\<close>

theorem coordination_replay:
  assumes "ledger_ok E pid fs es" and "e \<in> set es" and "entry_sound E e b" and "ekey e = (kind, record_id)"
    and "map_of (fs_coord fs) (kind, record_id) = Some b" and "canonical E body = Inr b'"
  shows "commit_coordination_record_at_tip E pid chain_id kind record_id body predecessor fault fs
    = (if b' = b then field e ''body'' else Inl RecordConflictError, fs)"
proof -
  have "name_ok pid" "heal_coordination_ledger_tail fs = fs" "coordination_ledger_entries fs = Inr es"
    using assms(1) ledger_is_heal ledger_is_entries by (auto simp: ledger_ok_def)
  moreover have "coordination_ledger_match (JStr kind) (JStr record_id) es = Inr (Some e)"
    using match_some [OF well_keyed [OF assms(1)] _ assms(2,4)] assms(1) by (simp add: ledger_ok_def)
  moreover obtain t where "field e ''body'' = Inr t" "canonical E t = Inr b"
    using assms(3) by (auto simp: entry_sound_def)
  ultimately show ?thesis
    using assms(4-6)
    by (simp add: commit_coordination_record_at_tip_def project_path_def run_simps bindS_run
        materialize_run [OF assms(3)])
qed

theorem coordination_replay_witness:
  "\<exists>fs'. commit_coordination_record_at_tip ascii_ext prj (u ''OPEN-1'') (u ''open'') (u ''WTC-1'')
        ex_body None no_cfault empty_fs = (Inr ex_body, fs')
    \<and> commit_coordination_record_at_tip ascii_ext prj (u ''OPEN-1'') (u ''open'') (u ''WTC-1'')
        ex_body None no_cfault fs' = (Inr ex_body, fs')"
proof -
  let ?b = "map of_nat (dumps ex_body) :: bytes"
  let ?e = "stored_entry prj (u ''OPEN-1'') (u ''open'') (u ''WTC-1'') (sha256_hex ?b) ex_body"
  have d: "draftable ascii_ext prj empty_fs [] (u ''OPEN-1'') (u ''open'') (u ''WTC-1'') ex_body None ex_body ?b"
    and n: "name_ok (u ''open'')" "name_ok (u ''WTC-1'')"
    using ex_publishable by (auto simp: publishable_def)
  note p = published_entry [OF ascii_env_example d]
  obtain be where be: "canonical ascii_ext (ledger_entry prj (u ''OPEN-1'') (u ''open'') (u ''WTC-1'') (sha256_hex ?b) ex_body) = Inr be"
    "entry_line ?e be" using p(2) by blast
  have new: "ekey ?e \<notin> ekey ` set []" "map_of (fs_coord empty_fs) (ekey ?e) = None"
    by (simp_all add: empty_fs_def)
  let ?t = "put_coord (ekey ?e) ?b (append_ledger (be @ [10]) empty_fs)"
  have ok: "ledger_ok ascii_ext prj ?t [?e]"
    using ledger_ok_publish(2) [OF ex_ledger_ok be(2) p(3) [OF n] new] by simp
  have "commit_coordination_record_at_tip ascii_ext prj (u ''OPEN-1'') (u ''open'') (u ''WTC-1'')
        ex_body None no_cfault empty_fs = (Inr ex_body, ?t)"
    unfolding publish_run [OF ascii_env_example ex_ledger_ok d] using new(2)
    by (simp add: bindS_run ledger_line_run [OF be(1)] materialize_run [OF p(3) [OF n]] no_cfault_apply run_simps)
  moreover have "commit_coordination_record_at_tip ascii_ext prj (u ''OPEN-1'') (u ''open'') (u ''WTC-1'')
        ex_body None no_cfault ?t = (Inr ex_body, ?t)"
    by (subst coordination_replay [OF ok _ p(3) [OF n] p(4) _ ex_body_canonical(2)])
      (simp_all add: p(4) stored_entry_fields)
  ultimately show ?thesis by blast
qed

end
