(* ===== verification/AuthBase.thy ===== *)
theory AuthBase
  imports Fingerprint
begin

text \<open>
  What every Authority and Difference operation reads its input with
  (\<open>difference/admissibility.py\<close>), and the errors it answers with. A caller's value is a
  \<open>json\<close>; a \<open>dict\<close> with a key that is not a string (\<open>JObjBad\<close>) is refused by every closed key
  set and every schema of these components, with an error whose class the model does not
  fix: it is \<open>AuthPy\<close> here.
\<close>

section \<open>Errors\<close>

text \<open>\<open>DifferenceError\<close> is that class or one of its subclasses. \<open>AuthPy\<close> is an exception the
  code does not raise itself (a \<open>KeyError\<close>, a \<open>TypeError\<close>); what comes from the canonical
  serializer is \<open>AuthCanon\<close>.\<close>

datatype auth_error =
  AuthorityError
| AuthorityValidationError
| BoundaryViolationError
| StaleAuthorityInputError
| DifferenceError
| AuthCanon canon_error
| AuthPy

text \<open>\<open>except (DifferenceError, CanonicalizationError)\<close> of the evaluators. The
  \<open>UnicodeEncodeError\<close> of \<open>str.encode\<close> is not a \<open>CanonicalizationError\<close>.\<close>

fun at_boundary :: "auth_error \<Rightarrow> auth_error" where
  "at_boundary DifferenceError = AuthorityError"
| "at_boundary (AuthCanon UnicodeEncodeError) = AuthCanon UnicodeEncodeError"
| "at_boundary (AuthCanon _) = AuthorityError"
| "at_boundary e = e"

section \<open>Readability\<close>

fun is_scalar_tag :: "json \<Rightarrow> bool" where
  "is_scalar_tag (JStr s) = (s \<noteq> [])"
| "is_scalar_tag _ = False"

fun require_scalar_tag :: "json \<Rightarrow> auth_error + ustr" where
  "require_scalar_tag (JStr s) = (if s = [] then Inl DifferenceError else Inr s)"
| "require_scalar_tag _ = Inl DifferenceError"

fun require_collection :: "json \<Rightarrow> auth_error + json list" where
  "require_collection (JList xs) = Inr xs"
| "require_collection _ = Inl DifferenceError"

fun require_object :: "json \<Rightarrow> auth_error + json" where
  "require_object (JObj kvs) = Inr (JObj kvs)"
| "require_object (JObjBad kvs) = Inl AuthPy"
| "require_object _ = Inl DifferenceError"

fun require_optional_object :: "json \<Rightarrow> auth_error + json option" where
  "require_optional_object JNull = Inr None"
| "require_optional_object v = bindE (require_object v) (\<lambda>x. Inr (Some x))"

lemma require_scalar_tag_iff [simp]: "require_scalar_tag v = Inr s \<longleftrightarrow> v = JStr s \<and> s \<noteq> []"
  by (cases v) auto

lemma require_collection_iff [simp]: "require_collection v = Inr xs \<longleftrightarrow> v = JList xs"
  by (cases v) auto

lemma require_object_iff [simp]: "require_object v = Inr w \<longleftrightarrow> is_obj v \<and> w = v"
  by (cases v) auto

section \<open>Access\<close>

text \<open>\<open>v[k]\<close> and \<open>v.get(k)\<close>.\<close>

definition afield :: "json \<Rightarrow> string \<Rightarrow> auth_error + json" where
  "afield v k = orE (jfield v k) AuthPy"

definition aget :: "json \<Rightarrow> string \<Rightarrow> auth_error + json" where
  "aget v k = (if is_obj v then Inr (case jfield v k of Some x \<Rightarrow> x | None \<Rightarrow> JNull) else Inl AuthPy)"

text \<open>\<open>v[k] != w\<close>.\<close>

definition anot :: "json \<Rightarrow> string \<Rightarrow> json \<Rightarrow> auth_error + bool" where
  "anot v k w = bindE (afield v k) (\<lambda>x. Inr (\<not> py_eq x w))"

text \<open>\<open>x in v\<close> for a string \<open>x\<close>.\<close>

fun substring :: "ustr \<Rightarrow> ustr \<Rightarrow> bool" where
  "substring x [] = (x = [])"
| "substring x (c # s) = (take (length x) (c # s) = x \<or> substring x s)"

fun contains_str :: "json \<Rightarrow> ustr \<Rightarrow> auth_error + bool" where
  "contains_str (JList xs) x = Inr (\<exists>y \<in> set xs. y = JStr x)"
| "contains_str (JObj kvs) x = Inr (x \<in> fst ` set kvs)"
| "contains_str (JStr s) x = Inr (substring x s)"
| "contains_str _ x = Inl AuthPy"

text \<open>A record whose key set is closed: no unknown key, no missing one.\<close>

definition closed_keys :: "string list \<Rightarrow> json \<Rightarrow> auth_error + unit" where
  "closed_keys ks v = (case v of
     JObj kvs \<Rightarrow>
       bindE (ensureE (list_all (\<lambda>(k, x). k \<in> set (map u ks)) kvs) AuthorityError) (\<lambda>_.
       ensureE (list_all (\<lambda>k. jfield v k \<noteq> None) ks) AuthorityError)
   | _ \<Rightarrow> Inl AuthPy)"

text \<open>\<open>record[field]\<close> of an identity that admission has compared with a computed string.\<close>

definition astr :: "json \<Rightarrow> string \<Rightarrow> auth_error + ustr" where
  "astr v k = (case jfield v k of Some (JStr s) \<Rightarrow> Inr s | _ \<Rightarrow> Inl AuthPy)"

text \<open>\<open>{key: record[key] for key in fields}\<close>, and a \<open>dict\<close> without one key.\<close>

definition project_fields :: "string list \<Rightarrow> json \<Rightarrow> auth_error + json" where
  "project_fields ks v =
     bindE (mapE (\<lambda>k. bindE (afield v k) (\<lambda>x. Inr (u k, x))) ks) (\<lambda>kvs. Inr (JObj kvs))"

fun without :: "string \<Rightarrow> json \<Rightarrow> json" where
  "without k (JObj kvs) = JObj (filter (\<lambda>(j, x). j \<noteq> u k) kvs)"
| "without k v = v"

text \<open>\<open>_digest\<close> and \<open>_address\<close> of \<open>authority/identity.py\<close>.\<close>

definition digest :: "ext \<Rightarrow> json \<Rightarrow> auth_error + ustr" where
  "digest E p = bindE (mapErr AuthCanon (canonical_json_bytes E p))
     (\<lambda>b. Inr (u ''sha256:'' @ sha256_hex b))"

definition address :: "ext \<Rightarrow> string \<Rightarrow> json \<Rightarrow> auth_error + ustr" where
  "address E prefix p = bindE (mapErr AuthCanon (canonical_json_bytes E p))
     (\<lambda>b. Inr (u prefix @ ascii_upper (sha256_hex b)))"

lemma astr_iff [simp]: "astr v k = Inr s \<longleftrightarrow> jfield v k = Some (JStr s)"
  by (auto simp: astr_def split: option.splits json.splits)

lemma afield_iff [simp]: "afield v k = Inr x \<longleftrightarrow> jfield v k = Some x"
  by (simp add: afield_def)

lemma anot_False_iff: "anot v k w = Inr False \<longleftrightarrow> (\<exists>x. jfield v k = Some x \<and> py_eq x w)"
  by (auto simp: anot_def)

lemma aget_iff: "aget v k = Inr x \<longleftrightarrow>
    is_obj v \<and> x = (case jfield v k of Some x \<Rightarrow> x | None \<Rightarrow> JNull)"
  by (auto simp: aget_def)

lemma aget_str [simp]: "aget v k = Inr (JStr s) \<longleftrightarrow> is_obj v \<and> jfield v k = Some (JStr s)"
  by (auto simp: aget_def split: option.splits)

end
