(* ===== verification/DifferenceIdentity.thy ===== *)
theory DifferenceIdentity
  imports AuthBase
begin

text \<open>
  Identities of Difference records: the canonical projection that gives a wrapper
  \<open>{"collection_kind": "UNORDERED_SET", "members": [...]}\<close> one order
  (\<open>difference/canonical.py\<close>), and the payloads each identity is computed over
  (\<open>difference/identity.py\<close>). The records are the ones a schema has admitted: where the code
  iterates over a field, the model asks for a JSON array and answers \<open>AuthPy\<close> otherwise.
\<close>

section \<open>The canonical projection\<close>

definition canonA :: "ext \<Rightarrow> json \<Rightarrow> auth_error + bytes" where
  "canonA E v = mapErr AuthCanon (canonical_json_bytes E v)"

text \<open>\<open>sorted(members, key=canonical_json_bytes)\<close>.\<close>

definition sorted_canonical :: "ext \<Rightarrow> json list \<Rightarrow> auth_error + json list" where
  "sorted_canonical E xs = bindE (mapE (canonA E) xs) (\<lambda>bs. Inr (sort_encoded bs xs))"

definition sort_members :: "ext \<Rightarrow> (ustr \<times> json) list \<Rightarrow> auth_error + json" where
  "sort_members E kvs =
     (if map_of kvs (u ''collection_kind'') = Some (JStr (u ''UNORDERED_SET'')) then
        (case map_of kvs (u ''members'') of
           None \<Rightarrow> Inr (JObj kvs)
         | Some m \<Rightarrow>
             bindE (require_collection m) (\<lambda>members.
             bindE (sorted_canonical E members) (\<lambda>sorted_members.
             Inr (JObj (AList.update (u ''members'') (JList sorted_members) kvs)))))
      else Inr (JObj kvs))"

fun canonical_semantic :: "ext \<Rightarrow> json \<Rightarrow> auth_error + json" where
  "canonical_semantic E (JObj kvs) =
     bindE (mapE (\<lambda>(k, x). bindE (canonical_semantic E x) (\<lambda>y. Inr (k, y))) kvs) (sort_members E)"
| "canonical_semantic E (JList xs) =
     bindE (mapE (canonical_semantic E) xs) (\<lambda>ys. Inr (JList ys))"
| "canonical_semantic E v = Inr v"

definition canonical_bytes :: "ext \<Rightarrow> json \<Rightarrow> auth_error + bytes" where
  "canonical_bytes E v = bindE (canonical_semantic E v) (canonA E)"

definition has_duplicate_members :: "ext \<Rightarrow> json \<Rightarrow> auth_error + bool" where
  "has_duplicate_members E v = (case v of
     JList members \<Rightarrow> bindE (mapE (canonical_bytes E) members) (\<lambda>bs. Inr (\<not> distinct bs))
   | _ \<Rightarrow> Inr False)"

fun has_recursive_set_duplicate :: "ext \<Rightarrow> json \<Rightarrow> auth_error + bool" where
  "has_recursive_set_duplicate E (JObj kvs) =
     bindE (anyE (map (\<lambda>(k, x). has_recursive_set_duplicate E x) kvs)) (\<lambda>inner.
       if inner then Inr True
       else if map_of kvs (u ''collection_kind'') = Some (JStr (u ''UNORDERED_SET''))
       then has_duplicate_members E (case map_of kvs (u ''members'') of Some m \<Rightarrow> m | None \<Rightarrow> JList [])
       else Inr False)"
| "has_recursive_set_duplicate E (JList xs) = anyE (map (has_recursive_set_duplicate E) xs)"
| "has_recursive_set_duplicate E v = Inr False"

text \<open>The wrapper the code writes: members projected, repeats refused, order by canonical
  bytes.\<close>

definition set_wrapper :: "json list \<Rightarrow> json" where
  "set_wrapper members =
     JObj [(u ''collection_kind'', JStr (u ''UNORDERED_SET'')), (u ''members'', JList members)]"

definition unordered_set :: "ext \<Rightarrow> json list \<Rightarrow> auth_error + json" where
  "unordered_set E members =
     bindE (mapE (canonical_semantic E) members) (\<lambda>projected.
     bindE (mapE (canonA E) projected) (\<lambda>encoded.
     bindE (ensureE (distinct encoded) DifferenceError) (\<lambda>_.
     Inr (set_wrapper (sort_encoded encoded projected)))))"

definition hashed :: "ext \<Rightarrow> bytes \<Rightarrow> json \<Rightarrow> auth_error + ustr" where
  "hashed E domain v = bindE (canonical_bytes E v) (\<lambda>b. Inr (sha256_hex (domain @ b)))"

definition content_address :: "ext \<Rightarrow> string \<Rightarrow> json \<Rightarrow> string \<Rightarrow> auth_error + ustr" where
  "content_address E prefix v identity_field =
     bindE (hashed E [] (without identity_field v)) (\<lambda>h. Inr (u prefix @ ascii_upper h))"

fun reject_bare_arrays :: "json \<Rightarrow> auth_error + unit" where
  "reject_bare_arrays (JList xs) = Inl DifferenceError"
| "reject_bare_arrays (JObj kvs) =
     (case map_of kvs (u ''collection_kind'') of
        Some kind \<Rightarrow>
          if kind = JNull then bindE (mapE (\<lambda>(k, x). reject_bare_arrays x) kvs) (\<lambda>_. Inr ())
          else if kind \<noteq> JStr (u ''ORDERED_LIST'') \<and> kind \<noteq> JStr (u ''UNORDERED_SET'') then Inl DifferenceError
          else if fst ` set kvs \<noteq> {u ''collection_kind'', u ''members''} then Inl DifferenceError
          else bindE (mapE (\<lambda>(k, x). case x of
                 JList members \<Rightarrow>
                   (if k = u ''members'' then bindE (mapE reject_bare_arrays members) (\<lambda>_. Inr ()) else Inr ())
               | JStr s \<Rightarrow> Inr () | JObj ms \<Rightarrow> Inr () | JObjBad ms \<Rightarrow> Inr ()
               | _ \<Rightarrow> if k = u ''members'' then Inl AuthPy else Inr ()) kvs) (\<lambda>_. Inr ())
      | None \<Rightarrow> bindE (mapE (\<lambda>(k, x). reject_bare_arrays x) kvs) (\<lambda>_. Inr ()))"
| "reject_bare_arrays v = Inr ()"

section \<open>Identities\<close>

text \<open>\<open>_sha256_fingerprint\<close>, and a digest in upper case after a prefix.\<close>

definition sha256_fingerprint :: "ext \<Rightarrow> bytes \<Rightarrow> json \<Rightarrow> auth_error + ustr" where
  "sha256_fingerprint E domain v = bindE (hashed E domain v) (\<lambda>h. Inr (u ''sha256:'' @ h))"

definition upper_id :: "ext \<Rightarrow> string \<Rightarrow> bytes \<Rightarrow> json \<Rightarrow> auth_error + ustr" where
  "upper_id E prefix domain v = bindE (hashed E domain v) (\<lambda>h. Inr (u prefix @ ascii_upper h))"

definition alist :: "json \<Rightarrow> string \<Rightarrow> auth_error + json list" where
  "alist v k = (case jfield v k of Some (JList xs) \<Rightarrow> Inr xs | _ \<Rightarrow> Inl AuthPy)"

fun aset :: "string \<Rightarrow> json \<Rightarrow> json \<Rightarrow> json" where
  "aset k x (JObj kvs) = JObj (AList.update (u k) x kvs)"
| "aset k x v = v"

definition objective_semantic_fields :: "string list" where
  "objective_semantic_fields = [''objective_id'', ''project_id'', ''statement'', ''owner_authority_ref'',
     ''target_predicates'', ''completion_policy'', ''boundary_ref'', ''constitutional_constraints'', ''status'']"

definition objective_semantic_fingerprint :: "ext \<Rightarrow> json \<Rightarrow> auth_error + ustr" where
  "objective_semantic_fingerprint E revision =
     bindE (project_fields objective_semantic_fields revision) (sha256_fingerprint E [])"

definition scope_domain :: bytes where
  "scope_domain = ascii ''MANOSUBE:RESOLVED_OBSERVATION_SCOPE_RECORD:0.1:''"

definition claim_domain :: bytes where
  "claim_domain = ascii ''MANOSUBE:COMPLETION_CLAIM_IDENTITY:0.1:''"

definition scope_set :: "ext \<Rightarrow> json \<Rightarrow> string \<Rightarrow> auth_error + json" where
  "scope_set E projection key =
     bindE (alist projection key) (\<lambda>items.
     bindE (mapE (canonical_semantic E) items) (\<lambda>projected.
     bindE (sorted_canonical E projected) (\<lambda>members. Inr (aset key (set_wrapper members) projection))))"

definition affected_set :: "ext \<Rightarrow> json \<Rightarrow> auth_error + json" where
  "affected_set E item =
     bindE (alist item ''affected_subjects'') (\<lambda>subjects.
     bindE (sorted_canonical E subjects) (\<lambda>members.
     Inr (aset ''affected_subjects'' (set_wrapper members) item)))"

definition resolved_scope_fingerprint :: "ext \<Rightarrow> json \<Rightarrow> auth_error + ustr" where
  "resolved_scope_fingerprint E scope =
     bindE (foldE (scope_set E) scope
       [''included_subjects'', ''excluded_subjects'', ''source_snapshot_refs'', ''blind_spots'']) (\<lambda>projection.
     bindE (afield projection ''attempt_policy'') (\<lambda>policy.
     bindE (alist policy ''retry_on'') (\<lambda>retry.
     bindE (sorted_canonical E retry) (\<lambda>retry_members.
     bindE (afield projection ''blind_spots'') (\<lambda>spots.
     bindE (alist spots ''members'') (\<lambda>items.
     bindE (mapE (affected_set E) items) (\<lambda>items'.
     sha256_fingerprint E scope_domain
       (aset ''blind_spots'' (set_wrapper items')
         (aset ''attempt_policy'' (aset ''retry_on'' (set_wrapper retry_members) policy) projection)))))))))"

definition target_predicate_semantic_fields :: "string list" where
  "target_predicate_semantic_fields = [''subject'', ''operator'', ''expected_value'', ''observation_scope'',
     ''evidence_requirement'', ''unknown_policy'', ''criticality'']"

definition target_predicate_fingerprint :: "ext \<Rightarrow> json \<Rightarrow> auth_error + ustr" where
  "target_predicate_fingerprint E predicate =
     bindE (project_fields target_predicate_semantic_fields predicate) (sha256_fingerprint E [])"

definition completion_claim_fingerprint :: "ext \<Rightarrow> json \<Rightarrow> auth_error + ustr" where
  "completion_claim_fingerprint E descriptor =
     bindE (project_fields [''subject_type'', ''subject_ref'', ''claim'', ''target_state_ref''] descriptor)
       (sha256_fingerprint E [])"

definition completion_claim_id :: "ext \<Rightarrow> json \<Rightarrow> auth_error + ustr" where
  "completion_claim_id E descriptor =
     bindE (afield descriptor ''subject_type'') (\<lambda>subject_type.
     bindE (afield descriptor ''subject_ref'') (\<lambda>subject_ref.
     bindE (completion_claim_fingerprint E descriptor) (\<lambda>f.
     upper_id E ''CLAIM-'' claim_domain
       (JObj [(u ''subject_type'', subject_type), (u ''subject_ref'', subject_ref),
              (u ''claim_semantic_fingerprint'', JStr f)]))))"

definition policy_semantic_fields :: "string list" where
  "policy_semantic_fields = [''target_predicate_ref'', ''required_observation_scope'', ''minimum_evidence_level'',
     ''required_claims'', ''required_invariants'', ''allowed_terminal_states'',
     ''independent_verification_required'', ''maximum_evidence_age'', ''contradiction_policy'',
     ''reopen_conditions'']"

definition invariant_member :: "json \<Rightarrow> auth_error + json" where
  "invariant_member item =
     bindE (afield item ''kind'') (\<lambda>kind.
     bindE (afield item ''id'') (\<lambda>identity.
     bindE (afield item ''contract_source_ref'') (\<lambda>source.
     bindE (project_fields [''kind'', ''repository'', ''path'', ''invariant_definition_sha256''] source) (\<lambda>blob.
     Inr (JObj [(u ''kind'', kind), (u ''id'', identity), (u ''contract_source_blob'', blob)])))))"

text \<open>A member of the policy projection: its items through \<open>f\<close>, then sorted.\<close>

definition policy_set :: "ext \<Rightarrow> (json \<Rightarrow> auth_error + json) \<Rightarrow> string \<Rightarrow> json \<Rightarrow> auth_error + json" where
  "policy_set E f key projection =
     bindE (alist projection key) (\<lambda>items.
     bindE (mapE f items) (\<lambda>items'.
     bindE (sorted_canonical E items') (\<lambda>members. Inr (aset key (JList members) projection))))"

definition policy_semantic_projection :: "ext \<Rightarrow> json \<Rightarrow> auth_error + json" where
  "policy_semantic_projection E policy =
     bindE (project_fields policy_semantic_fields policy) (\<lambda>p0.
     bindE (policy_set E (canonical_semantic E) ''required_claims'' p0) (\<lambda>p1.
     bindE (policy_set E Inr ''allowed_terminal_states'' p1) (\<lambda>p2.
     bindE (policy_set E (project_fields [''kind'', ''id'', ''predicate_semantic_fingerprint'']) ''reopen_conditions'' p2) (\<lambda>p3.
     policy_set E invariant_member ''required_invariants'' p3))))"

definition policy_semantic_fingerprint :: "ext \<Rightarrow> json \<Rightarrow> auth_error + ustr" where
  "policy_semantic_fingerprint E policy =
     bindE (policy_semantic_projection E policy) (sha256_fingerprint E [])"

definition closure_policy_fingerprint :: "json \<Rightarrow> auth_error + json" where
  "closure_policy_fingerprint difference =
     bindE (afield difference ''closure_policy'') (\<lambda>policy. afield policy ''semantic_fingerprint'')"

text \<open>The closed identity tuple: the key in the tuple and the field it is read from.\<close>

definition identity_sources :: "(string \<times> string) list" where
  "identity_sources = [(''project_id'', ''project_id''),
     (''objective_semantic_fingerprint'', ''objective_semantic_fingerprint''),
     (''target_predicate_ref'', ''target_predicate_ref''), (''subject'', ''subject''),
     (''observation_scope'', ''observation_scope''), (''effective_boundary'', ''effective_boundary''),
     (''normalized_target_state'', ''normalized_target_state''),
     (''normalized_structural_difference'', ''structural_difference'')]"

definition identity_profile :: ustr where
  "identity_profile = u ''MANOSUBE-DIFFERENCE-SHA256-0.1''"

definition difference_identity_input :: "json \<Rightarrow> auth_error + json" where
  "difference_identity_input difference =
     bindE (mapE (\<lambda>(k, f). bindE (afield difference f) (\<lambda>x. Inr (u k, x))) identity_sources) (\<lambda>kvs.
     bindE (closure_policy_fingerprint difference) (\<lambda>fp.
     Inr (JObj (kvs @ [(u ''closure_policy_semantic_fingerprint'', fp),
                       (u ''identity_profile'', JStr identity_profile)]))))"

definition difference_id :: "ext \<Rightarrow> json \<Rightarrow> auth_error + ustr" where
  "difference_id E difference = bindE (difference_identity_input difference) (upper_id E ''D-'' [])"

definition closure_policy_id :: "ext \<Rightarrow> ustr \<Rightarrow> ustr \<Rightarrow> auth_error + ustr" where
  "closure_policy_id E policy_fingerprint subject_difference_id =
     upper_id E ''CP-'' []
       (JObj [(u ''policy_semantic_fingerprint'', JStr policy_fingerprint),
              (u ''subject_difference_id'', JStr subject_difference_id)])"

definition supersession_comparisons :: "(string \<times> string list) list" where
  "supersession_comparisons = [(''PROJECT_CHANGED'', [''project_id'']),
     (''OBJECTIVE_SEMANTICS_CHANGED'', [''objective_semantic_fingerprint'']),
     (''TARGET_PREDICATE_CHANGED'', [''target_predicate_ref'']),
     (''SUBJECT_OR_PREDICATE_CHANGED'', [''subject'']),
     (''BOUNDARY_CHANGED'', [''observation_scope'', ''effective_boundary'']),
     (''TARGET_STATE_SEMANTICS_CHANGED'', [''normalized_target_state'']),
     (''MISMATCH_SEMANTICS_CHANGED'', [''structural_difference''])]"

definition field_changed :: "ext \<Rightarrow> json \<Rightarrow> json \<Rightarrow> string \<Rightarrow> auth_error + bool" where
  "field_changed E old new field =
     bindE (afield old field) (\<lambda>x. bindE (canonical_bytes E x) (\<lambda>a.
     bindE (afield new field) (\<lambda>y. bindE (canonical_bytes E y) (\<lambda>b. Inr (a \<noteq> b)))))"

definition supersession_reason_codes :: "ext \<Rightarrow> json \<Rightarrow> json \<Rightarrow> auth_error + string list" where
  "supersession_reason_codes E old new =
     bindE (filterE (\<lambda>(code, fields). anyE (map (field_changed E old new) fields)) supersession_comparisons) (\<lambda>codes.
     bindE (closure_policy_fingerprint old) (\<lambda>a.
     bindE (closure_policy_fingerprint new) (\<lambda>b.
     Inr (map fst codes @ (if py_eq a b then [] else [''CLOSURE_POLICY_SEMANTICS_CHANGED''])))))"

definition event_identity_fields :: "string list" where
  "event_identity_fields = [''difference_id'', ''event_kind'', ''event_revision'', ''previous_event_id'',
     ''from_status'', ''to_status'', ''state_revision_evaluated'', ''state_fingerprint_evaluated'',
     ''reason_code'', ''observation_refs'', ''evidence_refs'', ''blocker_kind'', ''blocker_scope'']"

definition lifecycle_event_id :: "ext \<Rightarrow> json \<Rightarrow> auth_error + ustr" where
  "lifecycle_event_id E event =
     bindE (project_fields event_identity_fields event) (upper_id E ''D-EVT-'' [])"

definition supersession_relation_id :: "ext \<Rightarrow> json \<Rightarrow> auth_error + ustr" where
  "supersession_relation_id E relation = upper_id E ''D-SUP-'' [] (without ''supersession_relation_id'' relation)"

end
