(* ===== verification/Instant.thy ===== *)
theory Instant
  imports AuthBase
begin

text \<open>
  Timestamps as \<open>authority/conformance.py\<close> admits them: one RFC 3339 grammar for stored fields
  (UTC, a fraction only if it ends in a non-zero digit), a wider one for a clock reading, and
  the exact instant either names: whole seconds since 1970 and the digits of the fraction.
  \<open>datetime\<close> accepts the years 1 to 9999 and the days of the Gregorian calendar.
\<close>

section \<open>The grammar\<close>

definition nth_digit :: "ustr \<Rightarrow> nat \<Rightarrow> bool" where
  "nth_digit v i \<longleftrightarrow> is_digit (v ! i)"

text \<open>\<open>YYYY-MM-DD?HH:MM:SS\<close>, nineteen characters.\<close>

definition clock_shape :: "(nat \<Rightarrow> bool) \<Rightarrow> ustr \<Rightarrow> bool" where
  "clock_shape sep v \<longleftrightarrow> 19 < length v
     \<and> list_all (nth_digit v) [0, 1, 2, 3, 5, 6, 8, 9, 11, 12, 14, 15, 17, 18]
     \<and> v ! 4 = 45 \<and> v ! 7 = 45 \<and> sep (v ! 10) \<and> v ! 13 = 58 \<and> v ! 16 = 58"

definition canonical_fraction :: "ustr \<Rightarrow> bool" where
  "canonical_fraction f \<longleftrightarrow> f = [] \<or>
     hd f = 46 \<and> 1 < length f \<and> list_all is_digit (tl f) \<and> last f \<noteq> 48"

definition any_fraction :: "ustr \<Rightarrow> bool" where
  "any_fraction f \<longleftrightarrow> f = [] \<or> hd f = 46 \<and> 1 < length f \<and> list_all is_digit (tl f)"

definition numeric_offset :: "ustr \<Rightarrow> bool" where
  "numeric_offset z \<longleftrightarrow> length z = 6 \<and> (z ! 0 = 43 \<or> z ! 0 = 45)
     \<and> ((z ! 1 = 48 \<or> z ! 1 = 49) \<and> is_digit (z ! 2) \<or> z ! 1 = 50 \<and> 48 \<le> z ! 2 \<and> z ! 2 \<le> 51)
     \<and> z ! 3 = 58 \<and> 48 \<le> z ! 4 \<and> z ! 4 \<le> 53 \<and> is_digit (z ! 5)"

text \<open>The end of a timestamp is cut as the code cuts it: one character for \<open>Z\<close> or \<open>z\<close>, six
  otherwise.\<close>

definition offset_length :: "ustr \<Rightarrow> nat" where
  "offset_length tail = (if last tail = 90 \<or> last tail = 122 then 1 else 6)"

definition offset_text :: "ustr \<Rightarrow> ustr" where
  "offset_text v = (let tail = drop 19 v in drop (length tail - offset_length tail) tail)"

definition fraction_text :: "ustr \<Rightarrow> ustr" where
  "fraction_text v = (let tail = drop 19 v in take (length tail - offset_length tail) tail)"

definition stored_form :: "ustr \<Rightarrow> bool" where
  "stored_form v \<longleftrightarrow> clock_shape (\<lambda>c. c = 84) v \<and> last v = 90
     \<and> canonical_fraction (fraction_text v)"

definition transient_form :: "ustr \<Rightarrow> bool" where
  "transient_form v \<longleftrightarrow> clock_shape (\<lambda>c. c = 84 \<or> c = 116) v
     \<and> (offset_text v = [90] \<or> offset_text v = [122] \<or> numeric_offset (offset_text v))
     \<and> any_fraction (fraction_text v)"

section \<open>The calendar\<close>

definition leap :: "nat \<Rightarrow> bool" where
  "leap y \<longleftrightarrow> 4 dvd y \<and> (\<not> 100 dvd y \<or> 400 dvd y)"

definition days_in_month :: "nat \<Rightarrow> nat \<Rightarrow> nat" where
  "days_in_month y m = (if m = 2 then (if leap y then 29 else 28)
     else if m = 4 \<or> m = 6 \<or> m = 9 \<or> m = 11 then 30 else 31)"

definition days_before_year :: "nat \<Rightarrow> nat" where
  "days_before_year y = 365 * (y - 1) + (y - 1) div 4 - (y - 1) div 100 + (y - 1) div 400"

definition days_before_month :: "nat \<Rightarrow> nat \<Rightarrow> nat" where
  "days_before_month y m = sum_list (map (days_in_month y) [1..<m])"

definition ordinal :: "nat \<Rightarrow> nat \<Rightarrow> nat \<Rightarrow> nat" where
  "ordinal y m d = days_before_year y + days_before_month y m + d"

definition valid_date :: "nat \<Rightarrow> nat \<Rightarrow> nat \<Rightarrow> bool" where
  "valid_date y m d \<longleftrightarrow> 1 \<le> y \<and> y \<le> 9999 \<and> 1 \<le> m \<and> m \<le> 12 \<and> 1 \<le> d \<and> d \<le> days_in_month y m"

section \<open>Instants\<close>

record instant =
  seconds_since_epoch :: int
  fraction_digits :: ustr

definition instant_le :: "instant \<Rightarrow> instant \<Rightarrow> bool" where
  "instant_le a b \<longleftrightarrow> seconds_since_epoch a < seconds_since_epoch b
     \<or> seconds_since_epoch a = seconds_since_epoch b \<and> fraction_digits a \<le> fraction_digits b"

definition number_at :: "ustr \<Rightarrow> nat \<Rightarrow> nat \<Rightarrow> nat" where
  "number_at v i n = digits_value 0 (take n (drop i v))"

definition zone_seconds :: "ustr \<Rightarrow> int" where
  "zone_seconds z =
     (if length z = 1 then 0
      else (if z ! 0 = 45 then - 1 else 1) * int (3600 * number_at z 1 2 + 60 * number_at z 4 2))"

text \<open>\<open>rstrip("0")\<close>.\<close>

definition strip_zeros :: "ustr \<Rightarrow> ustr" where
  "strip_zeros s = rev (dropWhile (\<lambda>c. c = 48) (rev s))"

definition parse_instant :: "ustr \<Rightarrow> auth_error + instant" where
  "parse_instant v =
     (let y = number_at v 0 4; m = number_at v 5 2; d = number_at v 8 2;
          h = number_at v 11 2; mi = number_at v 14 2; s = number_at v 17 2
      in if valid_date y m d \<and> h < 24 \<and> mi < 60 \<and> s < 60
         then Inr \<lparr> seconds_since_epoch = 86400 * (int (ordinal y m d) - int (ordinal 1970 1 1))
                      + int (3600 * h + 60 * mi + s) - zone_seconds (offset_text v),
                    fraction_digits = strip_zeros (drop 1 (fraction_text v)) \<rparr>
         else Inl AuthorityError)"

definition stored_instant :: "json \<Rightarrow> auth_error + instant" where
  "stored_instant v = (case v of
     JStr s \<Rightarrow> if stored_form s then parse_instant s else Inl AuthorityError
   | _ \<Rightarrow> Inl AuthorityError)"

definition transient_instant :: "json \<Rightarrow> auth_error + instant" where
  "transient_instant v = (case v of
     JStr s \<Rightarrow> if transient_form s then parse_instant s else Inl AuthorityError
   | _ \<Rightarrow> Inl AuthorityError)"

section \<open>The calendar counts each day once\<close>

lemma div_Suc_dvd: "0 < k \<Longrightarrow> Suc n div k = n div k + (if k dvd Suc n then 1 else 0)"
  by (simp add: div_Suc dvd_eq_mod_eq_0)

lemma leap_count:
  fixes a b c :: nat
  assumes "b \<le> a" and "B \<longrightarrow> A" and "C \<longrightarrow> B"
    and "a' = a + (if A then 1 else 0)" and "b' = b + (if B then 1 else 0)" and "c' = c + (if C then 1 else 0)"
  shows "365 * Suc n + a' - b' + c' = 365 * n + a - b + c + (if A \<and> (\<not> B \<or> C) then 366 else 365)"
  using assms by (cases A; cases B; cases C) simp_all

lemma days_before_year_Suc:
  assumes "1 \<le> y"
  shows "days_before_year (Suc y) = days_before_year y + (if leap y then 366 else 365)"
proof -
  obtain n where n: "y = Suc n" using assms by (cases y) auto
  have "n div 100 \<le> n div 4" by (simp add: div_le_mono2)
  moreover have "100 dvd Suc n \<longrightarrow> 4 dvd Suc n" "400 dvd Suc n \<longrightarrow> 100 dvd Suc n"
    using dvd_trans [of 4 100 "Suc n"] dvd_trans [of 100 400 "Suc n"] by simp_all
  ultimately show ?thesis
    unfolding days_before_year_def leap_def n diff_Suc_1
    by (rule leap_count) (rule div_Suc_dvd, simp)+
qed

lemma days_before_month_Suc:
  "1 \<le> m \<Longrightarrow> days_before_month y (Suc m) = days_before_month y m + days_in_month y m"
  by (simp add: days_before_month_def)

lemma days_before_month_mono:
  assumes "1 \<le> m" and "m < m'"
  shows "days_before_month y m + days_in_month y m \<le> days_before_month y m'"
  using assms(2,1)
proof (induction m' rule: less_Suc_induct)
  case (1 m)
  then show ?case by (simp add: days_before_month_Suc)
next
  case (2 i j k)
  then have "days_before_month y i + days_in_month y i \<le> days_before_month y j"
    "days_before_month y j + days_in_month y j \<le> days_before_month y k" by auto
  then show ?case by simp
qed

lemma days_in_year: "days_before_month y 13 = (if leap y then 366 else 365)"
  by (simp add: days_before_month_def days_in_month_def upt_rec)

lemma ordinal_bounds:
  assumes "valid_date y m d"
  shows "days_before_year y < ordinal y m d" and "ordinal y m d \<le> days_before_year (Suc y)"
proof -
  show "days_before_year y < ordinal y m d" using assms by (simp add: valid_date_def ordinal_def)
  have "days_before_month y m + d \<le> days_before_month y 13"
    using days_before_month_mono [of m 13 y] assms by (simp add: valid_date_def)
  then show "ordinal y m d \<le> days_before_year (Suc y)"
    using assms days_before_year_Suc [of y] days_in_year [of y] by (simp add: valid_date_def ordinal_def)
qed

lemma days_before_year_mono:
  assumes "1 \<le> y" and "y \<le> y'"
  shows "days_before_year y \<le> days_before_year y'"
  using assms(2)
proof (induction y' rule: dec_induct)
  case (step n)
  have "days_before_year n \<le> days_before_year (Suc n)"
    using days_before_year_Suc [of n] step.hyps assms(1) by simp
  then show ?case using step.IH by simp
qed simp

lemma ordinal_inj:
  assumes "valid_date y m d" and "valid_date y' m' d'" and "ordinal y m d = ordinal y' m' d'"
  shows "y = y' \<and> m = m' \<and> d = d'"
proof -
  have y: "\<not> a < b" if "valid_date a m1 d1" "valid_date b m2 d2" "ordinal a m1 d1 = ordinal b m2 d2"
    for a b m1 d1 m2 d2
  proof
    assume "a < b"
    then have "days_before_year (Suc a) \<le> days_before_year b" by (intro days_before_year_mono) auto
    then show False using ordinal_bounds(2) [OF that(1)] ordinal_bounds(1) [OF that(2)] that(3) by simp
  qed
  then have yy: "y = y'" using assms by (metis linorder_neqE_nat)
  have m: "\<not> a < b" if "valid_date y a d1" "valid_date y b d2" "ordinal y a d1 = ordinal y b d2" for a b d1 d2
  proof
    assume "a < b"
    then have "days_before_month y a + days_in_month y a \<le> days_before_month y b"
      using that(1) by (intro days_before_month_mono) (auto simp: valid_date_def)
    then show False using that by (simp add: valid_date_def ordinal_def)
  qed
  then have "m = m'" using assms yy by (metis linorder_neqE_nat)
  with yy assms(3) show ?thesis by (simp add: ordinal_def)
qed

end
