(* ===== verification/Levels.thy ===== *)
theory Levels
  imports AuthBase
begin

text \<open>
  The three Authority levels and their precedence (\<open>authority/levels.py\<close>).
\<close>

section \<open>Decisions\<close>

datatype decision = AUTONOMOUS | HUMAN_APPROVAL_REQUIRED | PROHIBITED

fun decision_order :: "decision \<Rightarrow> nat" where
  "decision_order AUTONOMOUS = 0"
| "decision_order HUMAN_APPROVAL_REQUIRED = 1"
| "decision_order PROHIBITED = 2"

lemma decision_order_inj: "decision_order a = decision_order b \<Longrightarrow> a = b"
  by (cases a; cases b) auto

text \<open>Ascending restrictiveness is the order of the type.\<close>

instantiation decision :: linorder
begin

definition less_eq_decision :: "decision \<Rightarrow> decision \<Rightarrow> bool" where
  "less_eq_decision a b \<longleftrightarrow> decision_order a \<le> decision_order b"

definition less_decision :: "decision \<Rightarrow> decision \<Rightarrow> bool" where
  "less_decision a b \<longleftrightarrow> decision_order a < decision_order b"

instance
  by standard (auto simp: less_eq_decision_def less_decision_def intro: decision_order_inj)

end

lemma decision_le_simps [simp]:
  "AUTONOMOUS \<le> d" "d \<le> PROHIBITED" "HUMAN_APPROVAL_REQUIRED \<le> d \<longleftrightarrow> d \<noteq> AUTONOMOUS"
  by (cases d; simp add: less_eq_decision_def)+

lemma max_decision_simps [simp]:
  "max AUTONOMOUS d = d" "max d AUTONOMOUS = d" "max PROHIBITED d = PROHIBITED" "max d PROHIBITED = PROHIBITED"
  "max d HUMAN_APPROVAL_REQUIRED \<noteq> AUTONOMOUS" "max HUMAN_APPROVAL_REQUIRED d \<noteq> AUTONOMOUS"
  by (cases d; simp add: max_def less_eq_decision_def)+

fun decision_text :: "decision \<Rightarrow> ustr" where
  "decision_text AUTONOMOUS = u ''AUTONOMOUS''"
| "decision_text HUMAN_APPROVAL_REQUIRED = u ''HUMAN_APPROVAL_REQUIRED''"
| "decision_text PROHIBITED = u ''PROHIBITED''"

definition decision_of :: "json \<Rightarrow> decision option" where
  "decision_of v =
     (if v = JStr (decision_text AUTONOMOUS) then Some AUTONOMOUS
      else if v = JStr (decision_text HUMAN_APPROVAL_REQUIRED) then Some HUMAN_APPROVAL_REQUIRED
      else if v = JStr (decision_text PROHIBITED) then Some PROHIBITED else None)"

lemma decision_of_text [simp]: "decision_of (JStr (decision_text d)) = Some d"
  by (cases d) (auto simp: decision_of_def)

lemma decision_of_iff: "decision_of v = Some d \<longleftrightarrow> v = JStr (decision_text d)"
  by (cases d) (auto simp: decision_of_def)

text \<open>\<open>max(*decisions, key=_ORDER)\<close>: Python's \<open>max\<close> keeps the first of equals, and equal keys
  are equal decisions.\<close>

definition most_restrictive :: "decision \<Rightarrow> decision list \<Rightarrow> decision" where
  "most_restrictive d ds = foldl max d ds"

definition at_least_as_restrictive_as :: "decision \<Rightarrow> decision \<Rightarrow> decision" where
  "at_least_as_restrictive_as decision floor = most_restrictive decision [floor]"

lemma at_least_as_restrictive_max [simp]: "at_least_as_restrictive_as a b = max a b"
  by (simp add: at_least_as_restrictive_as_def most_restrictive_def)

definition human_only_action_kinds :: "ustr list" where
  "human_only_action_kinds = [u ''CHANGE_OBJECTIVE'', u ''WIDEN_BOUNDARY'', u ''CHANGE_AUTHORITY'',
     u ''CHANGE_ORIGIN'', u ''CHANGE_KERNEL_CONSTITUTION'', u ''CHANGE_SECURITY_POLICY'',
     u ''DEPLOY_PRODUCTION'', u ''CHANGE_CREDENTIAL'', u ''CHANGE_BILLING'', u ''IRREVERSIBLE_OPERATION'',
     u ''DESTRUCTIVE_RECOVERY'', u ''MERGE'', u ''RELEASE'']"

fun reversibility_order :: "json \<Rightarrow> nat option" where
  "reversibility_order (JStr s) =
     (if s = u ''REVERSIBLE'' then Some 0 else if s = u ''RECOVERABLE'' then Some 1
      else if s = u ''IRREVERSIBLE'' then Some 2 else None)"
| "reversibility_order _ = None"

definition exceeds_reversibility :: "json \<Rightarrow> json \<Rightarrow> auth_error + bool" where
  "exceeds_reversibility actual ceiling =
     bindE (orE (reversibility_order actual) AuthPy) (\<lambda>a.
     bindE (orE (reversibility_order ceiling) AuthPy) (\<lambda>c. Inr (c < a)))"

end
