(* ===== verification/Scope.thy ===== *)
theory Scope
  imports Levels
begin

text \<open>
  The scope algebra (\<open>authority/scope.py\<close>): what a readable scope is, its one canonical form,
  and the two operators. Permission asks containment, prohibition asks overlap; both are the
  set operations they are named after, on the locations a scope enumerates.
\<close>

section \<open>Reading a scope\<close>

definition scope_keys :: "string list" where
  "scope_keys = [''repository'', ''branch'', ''paths'', ''subjects'']"

definition scope_collections :: "string list" where
  "scope_collections = [''paths'', ''subjects'']"

definition scope_locations :: "string list" where
  "scope_locations = [''repository'', ''branch'']"

text \<open>\<open>s.split("/")\<close>.\<close>

fun split_on :: "nat \<Rightarrow> ustr \<Rightarrow> ustr list" where
  "split_on c [] = [[]]"
| "split_on c (x # xs) =
     (if x = c then [] # split_on c xs
      else case split_on c xs of [] \<Rightarrow> [[x]] | y # ys \<Rightarrow> (x # y) # ys)"

definition glob_characters :: ustr where
  "glob_characters = u ''*?[]{}!''"

definition is_resolved_member :: "ustr \<Rightarrow> bool" where
  "is_resolved_member m \<longleftrightarrow>
     m \<noteq> [] \<and> m = py_strip m
     \<and> list_all (\<lambda>c. c \<notin> set glob_characters \<and> c \<noteq> 92) m
     \<and> hd m \<noteq> 47 \<and> last m \<noteq> 47
     \<and> list_all (\<lambda>s. s \<noteq> [] \<and> s \<noteq> u ''.'' \<and> s \<noteq> u ''..'') (split_on 47 m)"

text \<open>\<open>sorted(members)\<close> of a list of strings; a list that holds something else is refused
  before the code sorts it.\<close>

definition sorted_strings :: "json list \<Rightarrow> auth_error + json list" where
  "sorted_strings xs =
     bindE (mapE (\<lambda>x. orE (jstr x) AuthPy) xs) (\<lambda>ss. Inr (map JStr (sort ss)))"

definition sort_collection :: "json \<Rightarrow> string \<Rightarrow> auth_error + json" where
  "sort_collection scope key = (case jfield scope key of
     Some (JList members) \<Rightarrow>
       bindE (sorted_strings members) (\<lambda>s. Inr (case scope of
         JObj kvs \<Rightarrow> JObj (AList.update (u key) (JList s) kvs) | v \<Rightarrow> v))
   | _ \<Rightarrow> Inr scope)"

definition canonical_scope :: "json \<Rightarrow> auth_error + json" where
  "canonical_scope scope = foldE sort_collection scope scope_collections"

definition require_location :: "json \<Rightarrow> string \<Rightarrow> auth_error + unit" where
  "require_location scope key =
     bindE (afield scope key) (\<lambda>v.
     bindE (require_scalar_tag v) (\<lambda>location.
     ensureE (is_resolved_member location) AuthorityError))"

definition require_members :: "json list \<Rightarrow> auth_error + ustr list" where
  "require_members members =
     foldE (\<lambda>seen v.
       bindE (require_scalar_tag v) (\<lambda>member.
       bindE (ensureE (is_resolved_member member) AuthorityError) (\<lambda>_.
       bindE (ensureE (member \<notin> set seen) AuthorityError) (\<lambda>_. Inr (seen @ [member]))))) [] members"

definition require_scope :: "json \<Rightarrow> auth_error + json" where
  "require_scope v =
     bindE (require_object v) (\<lambda>scope.
     bindE (closed_keys scope_keys scope) (\<lambda>_.
     bindE (mapE (require_location scope) scope_locations) (\<lambda>_.
     bindE (mapE (\<lambda>key. bindE (afield scope key) (\<lambda>c. bindE (require_collection c) require_members))
       scope_collections) (\<lambda>_.
     canonical_scope scope))))"

definition same_location :: "json \<Rightarrow> json \<Rightarrow> auth_error + bool" where
  "same_location requested other =
     bindE (mapE (\<lambda>key. bindE (afield requested key) (\<lambda>a. bindE (afield other key) (\<lambda>b. Inr (py_eq a b))))
       scope_locations) (\<lambda>bs. Inr (list_all id bs))"

text \<open>\<open>set(scope[key])\<close> of a collection of strings.\<close>

definition member_set :: "json \<Rightarrow> string \<Rightarrow> auth_error + ustr list" where
  "member_set scope key = (case jfield scope key of
     Some (JList xs) \<Rightarrow> mapE (\<lambda>x. orE (jstr x) AuthPy) xs
   | _ \<Rightarrow> Inl AuthPy)"

definition is_contained :: "json \<Rightarrow> json \<Rightarrow> auth_error + bool" where
  "is_contained requested granted =
     bindE (same_location requested granted) (\<lambda>same.
     if \<not> same then Inr False
     else
       bindE (mapE (member_set requested) scope_collections) (\<lambda>mine.
       if list_all (\<lambda>s. s = []) mine then Inr False
       else bindE (mapE (member_set granted) scope_collections) (\<lambda>theirs.
         Inr (list_all2 (\<lambda>a b. set a \<subseteq> set b) mine theirs))))"

definition overlaps :: "json \<Rightarrow> json \<Rightarrow> auth_error + bool" where
  "overlaps requested forbidden =
     bindE (same_location requested forbidden) (\<lambda>same.
     if \<not> same then Inr False
     else
       bindE (mapE (member_set requested) scope_collections) (\<lambda>mine.
       bindE (mapE (member_set forbidden) scope_collections) (\<lambda>theirs.
       Inr (\<not> list_all2 (\<lambda>a b. set a \<inter> set b = {}) mine theirs))))"

section \<open>What an admitted scope is\<close>

definition scope_shape :: "json \<Rightarrow> ustr \<Rightarrow> ustr \<Rightarrow> ustr list \<Rightarrow> ustr list \<Rightarrow> bool" where
  "scope_shape v r b ps ss \<longleftrightarrow> is_obj v
     \<and> jfield v ''repository'' = Some (JStr r) \<and> jfield v ''branch'' = Some (JStr b)
     \<and> jfield v ''paths'' = Some (JList (map JStr ps)) \<and> jfield v ''subjects'' = Some (JList (map JStr ss))
     \<and> distinct ps \<and> distinct ss \<and> list_all is_resolved_member (r # b # ps @ ss)"

text \<open>The locations a scope enumerates.\<close>

datatype location = Location ustr ustr string ustr

definition locations :: "ustr \<Rightarrow> ustr \<Rightarrow> ustr list \<Rightarrow> ustr list \<Rightarrow> location set" where
  "locations r b ps ss = Location r b ''paths'' ` set ps \<union> Location r b ''subjects'' ` set ss"

lemma require_members_iff:
  "require_members vs = Inr ms \<longleftrightarrow> vs = map JStr ms \<and> distinct ms \<and> list_all is_resolved_member ms"
proof -
  let ?step = "\<lambda>seen v. bindE (require_scalar_tag v) (\<lambda>member.
       bindE (ensureE (is_resolved_member member) AuthorityError) (\<lambda>_.
       bindE (ensureE (member \<notin> set seen) AuthorityError) (\<lambda>_. Inr (seen @ [member]))))"
  have "foldE ?step acc vs = Inr (acc @ ms) \<longleftrightarrow>
      vs = map JStr ms \<and> distinct ms \<and> list_all is_resolved_member ms \<and> set acc \<inter> set ms = {}"
    if "distinct acc" for acc ms
    using that
  proof (induction vs arbitrary: acc ms)
    case (Cons v vs)
    show ?case
    proof (cases ms)
      case Nil
      have "foldE ?step acc' vs = Inr r \<Longrightarrow> length acc' \<le> length r" for acc' r
        by (induction vs arbitrary: acc') fastforce+
      then show ?thesis using Nil by fastforce
    next
      case (Cons m ms')
      have "foldE ?step acc (v # vs) = Inr (acc @ ms) \<longleftrightarrow>
          v = JStr m \<and> m \<noteq> [] \<and> is_resolved_member m \<and> m \<notin> set acc \<and> foldE ?step (acc @ [m]) vs = Inr ((acc @ [m]) @ ms')"
      proof -
        have pre: "foldE ?step acc' vs = Inr r \<Longrightarrow> \<exists>t. r = acc' @ t" for acc' r
          by (induction vs arbitrary: acc') fastforce+
        then show ?thesis using \<open>ms = m # ms'\<close> by fastforce
      qed
      then show ?thesis
        using Cons.IH [of "acc @ [m]" ms'] Cons.prems \<open>ms = m # ms'\<close> by (auto simp: is_resolved_member_def)
    qed
  qed auto
  from this [of "[]"] show ?thesis by (simp add: require_members_def)
qed

lemma jfield_update: "jfield (JObj (AList.update (u k) x kvs)) j = (if j = k then Some x else jfield (JObj kvs) j)"
  by (auto simp: jfield_def update_conv')

lemma sorted_strings_map: "sorted_strings (map JStr xs) = Inr (map JStr (sort xs))"
proof -
  have "mapE (\<lambda>x. orE (jstr x) AuthPy) (map JStr xs) = Inr xs" by (induction xs) auto
  then show ?thesis by (simp add: sorted_strings_def)
qed

lemma scope_shape_canonical:
  assumes "scope_shape v r b ps ss"
  obtains c where "canonical_scope v = Inr c" and "scope_shape c r b (sort ps) (sort ss)"
proof -
  obtain kvs where v: "v = JObj kvs" using assms by (cases v) (auto simp: scope_shape_def)
  let ?c = "JObj (AList.update (u ''subjects'') (JList (map JStr (sort ss)))
     (AList.update (u ''paths'') (JList (map JStr (sort ps))) kvs))"
  have "canonical_scope v = Inr ?c"
    using assms v by (simp add: canonical_scope_def scope_collections_def scope_shape_def sort_collection_def
        sorted_strings_map jfield_update)
  moreover have "scope_shape ?c r b (sort ps) (sort ss)"
    using assms v by (simp add: scope_shape_def jfield_update list_all_iff)
  ultimately show ?thesis by (rule that)
qed

lemma require_scope_shape:
  assumes "require_scope v = Inr c"
  obtains r b ps ss where "scope_shape v r b ps ss" and "scope_shape c r b (sort ps) (sort ss)"
proof -
  have loc: "require_location v k = Inr () \<Longrightarrow> \<exists>s. jfield v k = Some (JStr s) \<and> is_resolved_member s" for k
    by (auto simp: require_location_def)
  obtain r b where rb: "jfield v ''repository'' = Some (JStr r)" "is_resolved_member r"
    "jfield v ''branch'' = Some (JStr b)" "is_resolved_member b" and obj: "is_obj v"
    using assms loc [of "''repository''"] loc [of "''branch''"]
    by (auto simp: require_scope_def scope_locations_def old.unit.exhaust)
  obtain ps ss where ps: "jfield v ''paths'' = Some (JList (map JStr ps))" "distinct ps" "list_all is_resolved_member ps"
    and ss: "jfield v ''subjects'' = Some (JList (map JStr ss))" "distinct ss" "list_all is_resolved_member ss"
    and c: "canonical_scope v = Inr c"
    using assms by (auto simp: require_scope_def scope_collections_def require_members_iff)
  have sh: "scope_shape v r b ps ss" using rb obj ps ss by (simp add: scope_shape_def)
  obtain c' where "canonical_scope v = Inr c'" "scope_shape c' r b (sort ps) (sort ss)"
    using scope_shape_canonical [OF sh] .
  then show ?thesis using that [OF sh] c by simp
qed

lemma member_set_strs: "mapE (\<lambda>x. orE (jstr x) AuthPy) (map JStr xs) = Inr xs"
  by (induction xs) auto

lemma location_in: "Location r b k m \<in> locations r' b' ps ss \<longleftrightarrow>
    r = r' \<and> b = b' \<and> (k = ''paths'' \<and> m \<in> set ps \<or> k = ''subjects'' \<and> m \<in> set ss)"
  by (auto simp: locations_def)

lemma locations_empty: "locations r b ps ss = {} \<longleftrightarrow> ps = [] \<and> ss = []"
  by (simp add: locations_def)

lemma locations_subset: "locations r b ps ss \<subseteq> locations r' b' ps' ss' \<longleftrightarrow>
    (\<forall>m \<in> set ps. Location r b ''paths'' m \<in> locations r' b' ps' ss')
    \<and> (\<forall>m \<in> set ss. Location r b ''subjects'' m \<in> locations r' b' ps' ss')"
  unfolding locations_def [of r b] by blast

lemma locations_disjoint: "locations r b ps ss \<inter> locations r' b' ps' ss' = {} \<longleftrightarrow>
    (\<forall>m \<in> set ps. Location r b ''paths'' m \<notin> locations r' b' ps' ss')
    \<and> (\<forall>m \<in> set ss. Location r b ''subjects'' m \<notin> locations r' b' ps' ss')"
  unfolding locations_def [of r b] by blast

lemma shape_operators:
  assumes "scope_shape v r b ps ss" and "scope_shape w r' b' ps' ss'"
  shows "is_contained v w = Inr (locations r b ps ss \<noteq> {} \<and> locations r b ps ss \<subseteq> locations r' b' ps' ss')"
    and "overlaps v w = Inr (locations r b ps ss \<inter> locations r' b' ps' ss' \<noteq> {})"
proof -
  have same: "same_location v w = Inr (r = r' \<and> b = b')"
    using assms by (simp add: same_location_def scope_locations_def scope_shape_def afield_def)
  have sets: "mapE (member_set v) scope_collections = Inr [ps, ss]" "mapE (member_set w) scope_collections = Inr [ps', ss']"
    using assms by (simp_all add: scope_collections_def member_set_def scope_shape_def member_set_strs)
  show "is_contained v w = Inr (locations r b ps ss \<noteq> {} \<and> locations r b ps ss \<subseteq> locations r' b' ps' ss')"
    unfolding is_contained_def same sets locations_subset locations_empty location_in bindE.simps
    by (cases ps; cases ss; cases "r = r' \<and> b = b'") (simp_all add: sets subset_code(1), blast+)
  show "overlaps v w = Inr (locations r b ps ss \<inter> locations r' b' ps' ss' \<noteq> {})"
    unfolding overlaps_def same sets locations_disjoint location_in bindE.simps
    by (cases "r = r' \<and> b = b'") (simp_all add: disjoint_iff, blast+)
qed

definition locations_of :: "json \<Rightarrow> location set" where
  "locations_of v = (case (jfield v ''repository'', jfield v ''branch'', jfield v ''paths'', jfield v ''subjects'') of
     (Some (JStr r), Some (JStr b), Some (JList ps), Some (JList ss)) \<Rightarrow>
       locations r b (List.map_filter jstr ps) (List.map_filter jstr ss)
   | _ \<Rightarrow> {})"

lemma map_filter_strs: "List.map_filter jstr (map JStr xs) = xs"
  by (induction xs) (auto simp: List.map_filter_def)

lemma shape_locations: "scope_shape v r b ps ss \<Longrightarrow> locations_of v = locations r b ps ss"
  by (simp add: scope_shape_def locations_of_def map_filter_strs)

lemma locations_sort [simp]: "locations r b (sort ps) (sort ss) = locations r b ps ss"
  by (simp add: locations_def)

lemma admitted_operators:
  assumes "require_scope v = Inr c" and "require_scope w = Inr d"
  shows "is_contained c w = Inr (locations_of v \<noteq> {} \<and> locations_of v \<subseteq> locations_of w)"
    and "overlaps c w = Inr (locations_of v \<inter> locations_of w \<noteq> {})"
    and "locations_of c = locations_of v"
proof -
  obtain r b ps ss where v: "scope_shape v r b ps ss" "scope_shape c r b (sort ps) (sort ss)"
    using require_scope_shape [OF assms(1)] .
  obtain r' b' ps' ss' where w: "scope_shape w r' b' ps' ss'"
    using require_scope_shape [OF assms(2)] by metis
  show "is_contained c w = Inr (locations_of v \<noteq> {} \<and> locations_of v \<subseteq> locations_of w)"
    "overlaps c w = Inr (locations_of v \<inter> locations_of w \<noteq> {})" "locations_of c = locations_of v"
    using shape_operators [OF v(2) w] shape_locations v w by simp_all
qed

section \<open>Properties\<close>

text \<open>C36: The two operators are the set operations of the scope contract. For a requested scope and
  any other scope that is admitted, containment is \<open>requested \<subseteq> granted\<close> with something
  requested, overlap is \<open>requested \<inter> forbidden \<noteq> {}\<close>, over the locations the two enumerate; so a
  contained request overlaps whatever contains it.\<close>

theorem scope_operators_are_sets:
  assumes "require_scope v = Inr requested" and "require_scope w = Inr other"
  shows "is_contained requested w = Inr (locations_of v \<noteq> {} \<and> locations_of v \<subseteq> locations_of w)
    \<and> overlaps requested w = Inr (locations_of v \<inter> locations_of w \<noteq> {})
    \<and> (is_contained requested w = Inr True \<longrightarrow> overlaps requested w = Inr True)"
  using admitted_operators [OF assms] by (simp add: inf.absorb1)

text \<open>One canonical form per meaning: two admitted scopes on the same repository and branch that
  enumerate the same locations have equal fields, whatever the order of their members.\<close>

theorem canonical_scope_unique:
  assumes "require_scope v = Inr c" and "require_scope w = Inr d"
    and "jfield v ''repository'' = jfield w ''repository''" and "jfield v ''branch'' = jfield w ''branch''"
    and "locations_of v = locations_of w"
  shows "list_all (\<lambda>k. jfield c k = jfield d k) scope_keys"
proof -
  obtain r b ps ss where v: "scope_shape v r b ps ss" "scope_shape c r b (sort ps) (sort ss)"
    using require_scope_shape [OF assms(1)] .
  obtain r' b' ps' ss' where w: "scope_shape w r' b' ps' ss'" "scope_shape d r' b' (sort ps') (sort ss')"
    using require_scope_shape [OF assms(2)] .
  have rb: "r' = r" "b' = b" using v(1) w(1) assms(3,4) by (simp_all add: scope_shape_def)
  have loc: "Location r b k m \<in> locations r b ps ss \<longleftrightarrow> Location r b k m \<in> locations r b ps' ss'" for k m
    using assms(5) shape_locations [OF v(1)] shape_locations [OF w(1)] rb by simp
  have "set ps = set ps'" using loc [of "''paths''"] by (auto simp: location_in)
  moreover have "set ss = set ss'" using loc [of "''subjects''"] by (auto simp: location_in)
  moreover have "distinct ps" "distinct ps'" "distinct ss" "distinct ss'"
    using v(1) w(1) by (simp_all add: scope_shape_def)
  ultimately have "sort ps = sort ps'" "sort ss = sort ss'"
    by (simp_all add: sorted_distinct_set_unique)
  then show ?thesis using v(2) w(2) rb by (simp add: scope_keys_def scope_shape_def)
qed

definition ex_scope :: "string list \<Rightarrow> json" where
  "ex_scope paths = JObj [(u ''repository'', JStr (u ''org/repo'')), (u ''branch'', JStr (u ''main'')),
     (u ''paths'', JList (map (JStr \<circ> u) paths)), (u ''subjects'', JList [])]"

lemma ex_scope_fields [simp]:
  "jfield (ex_scope ps) ''repository'' = Some (JStr (u ''org/repo''))"
  "jfield (ex_scope ps) ''branch'' = Some (JStr (u ''main''))"
  "jfield (ex_scope ps) ''paths'' = Some (JList (map (JStr \<circ> u) ps))"
  "jfield (ex_scope ps) ''subjects'' = Some (JList [])" "is_obj (ex_scope ps)"
  by (simp_all add: jfield_def ex_scope_def)

lemma ex_scope_shape:
  assumes "distinct ps" and "list_all (is_resolved_member \<circ> u) ps"
  shows "scope_shape (ex_scope ps) (u ''org/repo'') (u ''main'') (map u ps) []"
proof -
  have "is_resolved_member (u ''org/repo'')" "is_resolved_member (u ''main'')"
    by (simp_all add: is_resolved_member_def u_Cons py_strip_def is_space_def glob_characters_def)
  then show ?thesis
    using assms by (simp add: scope_shape_def comp_def list_all_iff distinct_map inj_on_def)
qed

lemma scope_shape_admitted:
  assumes "scope_shape v r b ps ss" and "closed_keys scope_keys v = Inr ()"
  obtains c where "require_scope v = Inr c" and "scope_shape c r b (sort ps) (sort ss)"
proof -
  obtain c where c: "canonical_scope v = Inr c" "scope_shape c r b (sort ps) (sort ss)"
    using scope_shape_canonical [OF assms(1)] .
  have "require_members (map JStr ps) = Inr ps" "require_members (map JStr ss) = Inr ss"
    using assms(1) by (auto simp: require_members_iff scope_shape_def)
  moreover have "r \<noteq> []" "b \<noteq> []" using assms(1) by (auto simp: scope_shape_def is_resolved_member_def)
  ultimately have "require_scope v = Inr c"
    using assms c by (simp add: require_scope_def require_location_def scope_locations_def scope_collections_def
        scope_shape_def afield_def)
  then show ?thesis using that c(2) by blast
qed

lemma ex_scope_closed: "closed_keys scope_keys (ex_scope ps) = Inr ()"
  unfolding closed_keys_def by (simp add: ex_scope_def scope_keys_def) (simp add: jfield_def)

lemma ex_scope_admitted:
  assumes "distinct ps" and "list_all (is_resolved_member \<circ> u) ps"
  shows "\<exists>c. require_scope (ex_scope ps) = Inr c" and "locations_of (ex_scope ps) = Location (u ''org/repo'') (u ''main'') ''paths'' ` set (map u ps)"
proof -
  show "\<exists>c. require_scope (ex_scope ps) = Inr c"
    using scope_shape_admitted [OF ex_scope_shape [OF assms] ex_scope_closed] by metis
  show "locations_of (ex_scope ps) = Location (u ''org/repo'') (u ''main'') ''paths'' ` set (map u ps)"
    using shape_locations [OF ex_scope_shape [OF assms]] by (simp add: locations_def)
qed

lemma resolved_a_b: "is_resolved_member (u ''src/a'')" "is_resolved_member (u ''src/b'')"
  by (simp_all add: is_resolved_member_def u_Cons py_strip_def is_space_def glob_characters_def)

theorem scope_operators_are_sets_witness:
  "\<exists>c. is_contained c (ex_scope [''src/a'']) = Inr False \<and> overlaps c (ex_scope [''src/a'']) = Inr True
     \<and> require_scope (ex_scope [''src/a'', ''src/b'']) = Inr c"
proof -
  obtain c d where c: "require_scope (ex_scope [''src/a'', ''src/b'']) = Inr c"
    and d: "require_scope (ex_scope [''src/a'']) = Inr d"
    using ex_scope_admitted(1) [of "[''src/a'', ''src/b'']"] ex_scope_admitted(1) [of "[''src/a'']"] resolved_a_b
    by auto
  show ?thesis
    using scope_operators_are_sets [OF c d] c resolved_a_b
    by (auto simp: ex_scope_admitted(2))
qed

theorem canonical_scope_unique_witness:
  "\<exists>c d. require_scope (ex_scope [''src/a'', ''src/b'']) = Inr c \<and> require_scope (ex_scope [''src/b'', ''src/a'']) = Inr d
     \<and> jfield c ''paths'' = jfield d ''paths''"
proof -
  obtain c d where c: "require_scope (ex_scope [''src/a'', ''src/b'']) = Inr c"
    and d: "require_scope (ex_scope [''src/b'', ''src/a'']) = Inr d"
    using ex_scope_admitted(1) [of "[''src/a'', ''src/b'']"] ex_scope_admitted(1) [of "[''src/b'', ''src/a'']"] resolved_a_b
    by auto
  have "list_all (\<lambda>k. jfield c k = jfield d k) scope_keys"
    by (rule canonical_scope_unique [OF c d]) (use resolved_a_b in \<open>auto simp: ex_scope_admitted(2)\<close>)
  then show ?thesis using c d by (auto simp: scope_keys_def)
qed

end
