(* ===== verification/Conformance.thy ===== *)
theory Conformance
  imports DifferenceIdentity Instant Scope
begin

text \<open>
  The one admission path of every record an Authority decision rests on
  (\<open>authority/conformance.py\<close>), with the identities it recomputes (\<open>authority/identity.py\<close>,
  \<open>binding/identity.py\<close>). A record kind is a value of \<open>record_type\<close>; whether a schema admits a
  record is asked of \<open>ext_schema\<close>.
\<close>

section \<open>Identities of Authority records\<close>

definition decision_semantic_fields :: "string list" where
  "decision_semantic_fields = [''project_id'', ''difference_ref'', ''requested_action'', ''requested_scope'',
     ''evaluated_state_revision'', ''evaluated_state_fingerprint'', ''resolved_rule_ref'', ''approval_ref'',
     ''excluding_approval_refs'', ''prohibition_refs'', ''decision'', ''decision_reason_codes'']"

definition action_fingerprint :: "ext \<Rightarrow> json \<Rightarrow> auth_error + ustr" where
  "action_fingerprint E action = digest E (without ''action_semantic_fingerprint'' action)"

definition change_intent_fingerprint :: "ext \<Rightarrow> json \<Rightarrow> json \<Rightarrow> auth_error + ustr" where
  "change_intent_fingerprint E action scope =
     bindE (action_fingerprint E action) (\<lambda>a.
     bindE (canonical_scope scope) (\<lambda>s.
     digest E (JObj [(u ''action'', JStr a), (u ''scope'', s)])))"

definition decision_semantic_fingerprint :: "ext \<Rightarrow> json \<Rightarrow> auth_error + ustr" where
  "decision_semantic_fingerprint E decision =
     bindE (project_fields decision_semantic_fields decision) (digest E)"

definition decision_id :: "ext \<Rightarrow> json \<Rightarrow> auth_error + ustr" where
  "decision_id E decision =
     bindE (project_fields decision_semantic_fields decision) (address E ''AUTH-DEC-'')"

definition rule_id :: "ext \<Rightarrow> json \<Rightarrow> auth_error + ustr" where
  "rule_id E rule = address E ''AUTH-RULE-'' (without ''authority_rule_id'' rule)"

definition prohibition_id :: "ext \<Rightarrow> json \<Rightarrow> auth_error + ustr" where
  "prohibition_id E prohibition = address E ''PROHIBIT-'' (without ''prohibition_id'' prohibition)"

definition approval_id :: "ext \<Rightarrow> json \<Rightarrow> auth_error + ustr" where
  "approval_id E approval = address E ''APPROVAL-'' (without ''approval_id'' approval)"

definition verifier_selection_grant_id :: "ext \<Rightarrow> json \<Rightarrow> auth_error + ustr" where
  "verifier_selection_grant_id E grant =
     address E ''VSEL-GRANT-'' (without ''verifier_selection_grant_id'' grant)"

definition github_projection_grant_id :: "ext \<Rightarrow> json \<Rightarrow> auth_error + ustr" where
  "github_projection_grant_id E grant =
     address E ''GH-PROJ-GRANT-'' (without ''github_projection_grant_id'' grant)"

definition model_execution_grant_semantic_fields :: "string list" where
  "model_execution_grant_semantic_fields = [''schema_version'', ''project_id'', ''difference_ref'',
     ''required_capability'', ''boundary_ref'', ''permitted_action'', ''status'', ''granted_by'', ''granted_at'']"

definition model_execution_grant_projection :: "json \<Rightarrow> auth_error + json" where
  "model_execution_grant_projection grant =
     bindE (ensureE (list_all (\<lambda>k. jfield grant k \<noteq> None) model_execution_grant_semantic_fields) AuthPy) (\<lambda>_.
     project_fields model_execution_grant_semantic_fields grant)"

definition model_execution_grant_signing_payload :: "ext \<Rightarrow> json \<Rightarrow> auth_error + bytes" where
  "model_execution_grant_signing_payload E grant = bindE (model_execution_grant_projection grant) (canonA E)"

definition model_execution_grant_id :: "ext \<Rightarrow> json \<Rightarrow> auth_error + ustr" where
  "model_execution_grant_id E grant =
     bindE (model_execution_grant_projection grant) (address E ''MODEL-EXEC-GRANT-'')"

definition human_grant_declaration_fields :: "string list" where
  "human_grant_declaration_fields = [''schema_version'', ''project_id'', ''project_binding_id'', ''grant_ref'',
     ''declared_by'', ''requirement_id'', ''selection_id'', ''verifier_identity'', ''permitted_boundary'',
     ''status'', ''declared_at'']"

definition human_grant_declaration_signing_payload :: "ext \<Rightarrow> json \<Rightarrow> auth_error + bytes" where
  "human_grant_declaration_signing_payload E v =
     bindE (project_fields human_grant_declaration_fields v) (canonical_bytes E)"

definition human_grant_declaration_id :: "ext \<Rightarrow> json \<Rightarrow> auth_error + ustr" where
  "human_grant_declaration_id E v =
     bindE (human_grant_declaration_signing_payload E v) (\<lambda>b. Inr (u ''HGD-'' @ ascii_upper (sha256_hex b)))"

definition github_projection_grant_declaration_fields :: "string list" where
  "github_projection_grant_declaration_fields = [''schema_version'', ''project_id'', ''project_binding_id'',
     ''grant_ref'', ''declared_by'', ''subject_ref'', ''subject_fingerprint'', ''projection_kind'',
     ''target_repository'', ''payload_fingerprint'', ''permitted_action'', ''status'', ''declared_at'']"

definition github_projection_grant_declaration_signing_payload :: "ext \<Rightarrow> json \<Rightarrow> auth_error + bytes" where
  "github_projection_grant_declaration_signing_payload E v =
     bindE (project_fields github_projection_grant_declaration_fields v) (canonical_bytes E)"

definition github_projection_grant_declaration_id :: "ext \<Rightarrow> json \<Rightarrow> auth_error + ustr" where
  "github_projection_grant_declaration_id E v =
     bindE (github_projection_grant_declaration_signing_payload E v)
       (\<lambda>b. Inr (u ''GH-PROJ-DECL-'' @ ascii_upper (sha256_hex b)))"

section \<open>Record kinds\<close>

record record_type =
  rt_schema :: ustr
  rt_identity_field :: string
  rt_identity :: "ext \<Rightarrow> json \<Rightarrow> auth_error + ustr"
  rt_provenance :: string

definition schema_base :: ustr where
  "schema_base = u ''https://schemas.manosube.org/agent-civilization-os/v0.1/''"

definition authority_type :: "string \<Rightarrow> string \<Rightarrow> (ext \<Rightarrow> json \<Rightarrow> auth_error + ustr) \<Rightarrow> string \<Rightarrow> record_type" where
  "authority_type schema_name identity_field identity provenance =
     \<lparr> rt_schema = schema_base @ u ''authority/'' @ u schema_name, rt_identity_field = identity_field,
       rt_identity = identity, rt_provenance = provenance \<rparr>"

definition binding_type :: "string \<Rightarrow> string \<Rightarrow> (ext \<Rightarrow> json \<Rightarrow> auth_error + ustr) \<Rightarrow> string \<Rightarrow> record_type" where
  "binding_type schema_name identity_field identity provenance =
     \<lparr> rt_schema = schema_base @ u ''binding/'' @ u schema_name, rt_identity_field = identity_field,
       rt_identity = identity, rt_provenance = provenance \<rparr>"

definition rule_type :: record_type where
  "rule_type = authority_type ''authority_rule.schema.json'' ''authority_rule_id'' rule_id ''declared_by''"

definition approval_type :: record_type where
  "approval_type = authority_type ''approval.schema.json'' ''approval_id'' approval_id ''approved_by''"

definition prohibition_type :: record_type where
  "prohibition_type = authority_type ''prohibition.schema.json'' ''prohibition_id'' prohibition_id ''declared_by''"

definition verifier_selection_grant_type :: record_type where
  "verifier_selection_grant_type = authority_type ''verifier_selection_grant.schema.json''
     ''verifier_selection_grant_id'' verifier_selection_grant_id ''granted_by''"

definition human_grant_declaration_type :: record_type where
  "human_grant_declaration_type = binding_type ''human_grant_declaration.schema.json''
     ''human_grant_declaration_id'' human_grant_declaration_id ''declared_by''"

definition github_projection_grant_type :: record_type where
  "github_projection_grant_type = authority_type ''github_projection_grant.schema.json''
     ''github_projection_grant_id'' github_projection_grant_id ''granted_by''"

definition github_projection_grant_declaration_type :: record_type where
  "github_projection_grant_declaration_type = binding_type ''github_projection_grant_declaration.schema.json''
     ''github_projection_grant_declaration_id'' github_projection_grant_declaration_id ''declared_by''"

definition model_execution_grant_type :: record_type where
  "model_execution_grant_type = authority_type ''model_execution_grant.schema.json''
     ''model_execution_grant_id'' model_execution_grant_id ''granted_by''"

section \<open>Admission\<close>

definition schema_version :: json where
  "schema_version = JStr (u ''0.1'')"

definition validateA :: "ext \<Rightarrow> ustr \<Rightarrow> json \<Rightarrow> auth_error + unit" where
  "validateA E schema v = ensureE (ext_schema E schema v) AuthorityValidationError"

definition admit :: "ext \<Rightarrow> record_type \<Rightarrow> json \<Rightarrow> auth_error + json" where
  "admit E T v =
     bindE (require_object v) (\<lambda>r.
     bindE (aget r ''schema_version'') (\<lambda>version.
     bindE (ensureE (version = schema_version) AuthorityError) (\<lambda>_.
     bindE (validateA E (rt_schema T) r) (\<lambda>_.
     bindE (afield r (rt_identity_field T)) (\<lambda>declared.
     bindE (rt_identity T E r) (\<lambda>recomputed.
     bindE (ensureE (declared = JStr recomputed) AuthorityError) (\<lambda>_.
     bindE (afield r (rt_provenance T)) (\<lambda>provenance.
     bindE (aget provenance ''kind'') (\<lambda>kind.
     bindE (ensureE (kind = JStr (u ''human_authority'')) AuthorityError) (\<lambda>_.
     Inr r))))))))))"

definition admit_all :: "ext \<Rightarrow> record_type \<Rightarrow> (json \<Rightarrow> auth_error + unit) \<Rightarrow> json \<Rightarrow> auth_error + json list" where
  "admit_all E T refine values =
     bindE (require_collection values) (\<lambda>members.
     bindE (foldE (\<lambda>(seen, records) member.
         bindE (admit E T member) (\<lambda>r.
         bindE (refine r) (\<lambda>_.
         bindE (astr r (rt_identity_field T)) (\<lambda>identity.
         bindE (ensureE (identity \<notin> set seen) AuthorityError) (\<lambda>_.
         Inr (seen @ [identity], records @ [r])))))) ([], []) members) (\<lambda>(seen, records).
     Inr records))"

definition no_refine :: "json \<Rightarrow> auth_error + unit" where
  "no_refine r = Inr ()"

definition require_action_kind :: "ext \<Rightarrow> json \<Rightarrow> auth_error + ustr" where
  "require_action_kind E v =
     bindE (require_scalar_tag v) (\<lambda>kind.
     bindE (ensureE (ext_schema E (schema_base @ u ''authority/authority.schema.json#/$defs/action_kind'') (JStr kind))
       AuthorityError) (\<lambda>_. Inr kind))"

definition admit_difference :: "ext \<Rightarrow> json \<Rightarrow> auth_error + json" where
  "admit_difference E v =
     bindE (require_object v) (\<lambda>difference.
     bindE (validateA E (schema_base @ u ''difference/difference.schema.json'') difference) (\<lambda>_.
     bindE (afield difference ''difference_id'') (\<lambda>declared.
     bindE (difference_id E difference) (\<lambda>recomputed.
     bindE (ensureE (declared = JStr recomputed) AuthorityError) (\<lambda>_. Inr difference)))))"

section \<open>What admission establishes\<close>

definition admitted :: "ext \<Rightarrow> record_type \<Rightarrow> json \<Rightarrow> bool" where
  "admitted E T r \<longleftrightarrow> is_obj r \<and> jfield r ''schema_version'' = Some schema_version \<and> ext_schema E (rt_schema T) r
     \<and> (\<exists>i. rt_identity T E r = Inr i \<and> jfield r (rt_identity_field T) = Some (JStr i))
     \<and> (\<exists>p. jfield r (rt_provenance T) = Some p \<and> is_obj p \<and> jfield p ''kind'' = Some (JStr (u ''human_authority'')))"

definition id_of :: "record_type \<Rightarrow> json \<Rightarrow> ustr" where
  "id_of T r = (case jfield r (rt_identity_field T) of Some (JStr s) \<Rightarrow> s | _ \<Rightarrow> [])"

lemma admit_iff: "admit E T v = Inr r \<longleftrightarrow> r = v \<and> admitted E T v"
  by (auto simp: admit_def admitted_def validateA_def schema_version_def)

lemma admitted_id: "admitted E T r \<Longrightarrow> astr r (rt_identity_field T) = Inr (id_of T r)"
  by (auto simp: admitted_def id_of_def)

lemma admit_all_iff:
  "admit_all E T refine values = Inr rs \<longleftrightarrow>
     values = JList rs \<and> (\<forall>r \<in> set rs. admitted E T r \<and> refine r = Inr ()) \<and> distinct (map (id_of T) rs)"
proof -
  let ?step = "\<lambda>(seen, records) member.
         bindE (admit E T member) (\<lambda>r.
         bindE (refine r) (\<lambda>_.
         bindE (astr r (rt_identity_field T)) (\<lambda>identity.
         bindE (ensureE (identity \<notin> set seen) AuthorityError) (\<lambda>_.
         Inr (seen @ [identity], records @ [r])))))"
  have step: "?step (seen, records) m = Inr q \<longleftrightarrow>
      admitted E T m \<and> refine m = Inr () \<and> id_of T m \<notin> set seen \<and> q = (seen @ [id_of T m], records @ [m])"
    for seen records m q
    using admitted_id [of E T m] by (auto simp: admit_iff)
  have "foldE ?step (seen, records) ms = Inr (s, rs) \<longleftrightarrow>
      (\<forall>r \<in> set ms. admitted E T r \<and> refine r = Inr ()) \<and> distinct (map (id_of T) ms)
      \<and> set seen \<inter> id_of T ` set ms = {} \<and> s = seen @ map (id_of T) ms \<and> rs = records @ ms"
    for seen records ms s rs
  proof (induction ms arbitrary: seen records)
    case (Cons m ms)
    have "foldE ?step (seen, records) (m # ms) = Inr (s, rs) \<longleftrightarrow>
        admitted E T m \<and> refine m = Inr () \<and> id_of T m \<notin> set seen
        \<and> foldE ?step (seen @ [id_of T m], records @ [m]) ms = Inr (s, rs)"
      unfolding foldE.simps bindE_eq_Inr_iff step by blast
    then show ?case unfolding Cons.IH by auto
  qed auto
  from this [of "[]" "[]"] show ?thesis by (auto simp: admit_all_def)
qed

lemma admit_all_perm:
  assumes "admit_all E T refine (JList rs) = Inr rs'" and "mset qs = mset rs"
  shows "admit_all E T refine (JList qs) = Inr qs"
proof -
  have "set qs = set rs" using assms(2) by (rule mset_eq_setD)
  moreover have "distinct (map (id_of T) qs) = distinct (map (id_of T) rs)"
    using assms(2) by (metis mset_eq_imp_distinct_iff mset_map)
  ultimately show ?thesis using assms(1) by (simp add: admit_all_iff)
qed

end
