(* ===== verification/Authority.thy ===== *)
theory Authority
  imports Conformance
begin

text \<open>
  The Authority evaluator (\<open>authority/engine.py\<close>) with the two questions it asks of supplied
  records: which prohibitions a request touches (\<open>authority/prohibition.py\<close>) and whether an
  approval binds it (\<open>authority/approval.py\<close>). \<open>_evaluate\<close> is cut where the code changes stage:
  \<open>admit_request\<close> answers the admitted \<open>question\<close> or an error, \<open>decide\<close> the \<open>verdict\<close>,
  \<open>decision_record\<close> assembles, addresses and validates the record.
\<close>

section \<open>Prohibitions\<close>

definition refine_scope :: "string \<Rightarrow> json \<Rightarrow> auth_error + unit" where
  "refine_scope key r = bindE (afield r key) (\<lambda>s. bindE (require_scope s) (\<lambda>_. Inr ()))"

definition applies_to_project :: "json \<Rightarrow> ustr \<Rightarrow> auth_error + bool" where
  "applies_to_project prohibition project_id =
     bindE (afield prohibition ''prohibition_class'') (\<lambda>c.
     if c = JStr (u ''CONSTITUTIONAL'') then Inr True
     else bindE (afield prohibition ''project_id'') (\<lambda>p. Inr (p = JStr project_id)))"

text \<open>\<open>sorted(xs, key=lambda r: str(r[field]))\<close>.\<close>

definition sorted_by :: "string \<Rightarrow> json list \<Rightarrow> auth_error + json list" where
  "sorted_by field xs = bindE (mapE (\<lambda>r. astr r field) xs) (\<lambda>ks. Inr (map snd (sort_key fst (zip ks xs))))"

definition touches :: "ustr \<Rightarrow> ustr \<Rightarrow> json \<Rightarrow> json \<Rightarrow> auth_error + bool" where
  "touches project_id action_kind requested_scope prohibition =
     andE (applies_to_project prohibition project_id)
       (andE (bindE (afield prohibition ''action_kinds'') (\<lambda>ks. contains_str ks action_kind))
         (bindE (afield prohibition ''scope'') (overlaps requested_scope)))"

definition matching :: "json list \<Rightarrow> ustr \<Rightarrow> ustr \<Rightarrow> json \<Rightarrow> auth_error + json list" where
  "matching prohibitions project_id action_kind requested_scope =
     bindE (filterE (touches project_id action_kind requested_scope) prohibitions) (sorted_by ''prohibition_id'')"

definition has_constitutional :: "json list \<Rightarrow> auth_error + bool" where
  "has_constitutional ps =
     anyE (map (\<lambda>p. bindE (afield p ''prohibition_class'') (\<lambda>c. Inr (c = JStr (u ''CONSTITUTIONAL'')))) ps)"

section \<open>The request\<close>

record question =
  q_project :: ustr
  q_difference :: json
  q_action :: json
  q_kind :: ustr
  q_scope :: json
  q_revision :: int
  q_fingerprint :: json
  q_time :: ustr
  q_rules :: "json list"
  q_prohibitions :: "json list"
  q_approvals :: "json list"

definition required_request_keys :: "string list" where
  "required_request_keys = [''schema_version'', ''project_id'', ''difference'', ''requested_action'',
     ''requested_scope'', ''current_state_revision'', ''current_state_fingerprint'', ''authority_rules'',
     ''prohibitions'', ''approvals'', ''evaluation_time'']"

definition action_keys :: "string list" where
  "action_keys = [''action_kind'', ''reversibility'', ''operation'', ''action_semantic_fingerprint'']"

text \<open>\<open>_require_request_shape\<close>, which the four evaluators share but for their key set.\<close>

definition require_request_shape :: "string list \<Rightarrow> json \<Rightarrow> auth_error + json" where
  "require_request_shape ks request =
     bindE (require_object request) (\<lambda>shaped.
     bindE (closed_keys ks shaped) (\<lambda>_.
     bindE (afield shaped ''schema_version'') (\<lambda>v.
     bindE (require_scalar_tag v) (\<lambda>version.
     bindE (ensureE (JStr version = schema_version) AuthorityError) (\<lambda>_. Inr shaped)))))"

definition require_action :: "ext \<Rightarrow> json \<Rightarrow> auth_error + json \<times> ustr" where
  "require_action E v =
     bindE (require_object v) (\<lambda>action.
     bindE (closed_keys action_keys action) (\<lambda>_.
     bindE (afield action ''action_kind'') (\<lambda>k.
     bindE (require_action_kind E k) (\<lambda>kind.
     bindE (afield action ''reversibility'') (\<lambda>r.
     bindE (require_scalar_tag r) (\<lambda>reversibility.
     bindE (ensureE (reversibility_order (JStr reversibility) \<noteq> None) AuthorityError) (\<lambda>_.
     bindE (afield action ''action_semantic_fingerprint'') (\<lambda>f.
     bindE (require_scalar_tag f) (\<lambda>declared.
     bindE (mapErr at_boundary (action_fingerprint E action)) (\<lambda>recomputed.
     bindE (ensureE (declared = recomputed) AuthorityError) (\<lambda>_.
     Inr (action, kind))))))))))))"

definition refine_rule :: "json \<Rightarrow> auth_error + unit" where
  "refine_rule rule =
     bindE (afield rule ''decision'') (\<lambda>d.
     bindE (ensureE (decision_of d = Some AUTONOMOUS \<or> decision_of d = Some HUMAN_APPROVAL_REQUIRED)
       AuthorityError) (\<lambda>_. refine_scope ''scope'' rule))"

fun require_revision :: "json \<Rightarrow> auth_error + int" where
  "require_revision (JInt i) = (if i < 0 then Inl AuthorityError else Inr i)"
| "require_revision _ = Inl AuthorityError"

definition require_current :: "json \<Rightarrow> int \<Rightarrow> json \<Rightarrow> auth_error + unit" where
  "require_current difference revision fingerprint =
     bindE (anot difference ''observed_state_revision'' (JInt revision)) (\<lambda>stale_revision.
     bindE (afield difference ''observed_state_fingerprint'') (\<lambda>observed.
     if \<not> py_eq observed fingerprint
     then (if is_obj observed then Inl StaleAuthorityInputError else Inl AuthPy)
     else ensureE (\<not> stale_revision) StaleAuthorityInputError))"

definition admit_request :: "ext \<Rightarrow> json \<Rightarrow> auth_error + question" where
  "admit_request E request =
     bindE (require_request_shape required_request_keys request) (\<lambda>shaped.
     bindE (afield shaped ''project_id'') (\<lambda>p.
     bindE (require_scalar_tag p) (\<lambda>project_id.
     bindE (afield shaped ''difference'') (\<lambda>d.
     bindE (admit_difference E d) (\<lambda>difference.
     bindE (anot difference ''project_id'' (JStr project_id)) (\<lambda>other_project.
     bindE (ensureE (\<not> other_project) BoundaryViolationError) (\<lambda>_.
     bindE (afield shaped ''requested_action'') (\<lambda>a.
     bindE (require_action E a) (\<lambda>(action, kind).
     bindE (afield shaped ''requested_scope'') (\<lambda>s.
     bindE (require_scope s) (\<lambda>scope.
     bindE (afield shaped ''current_state_revision'') (\<lambda>r.
     bindE (require_revision r) (\<lambda>revision.
     bindE (afield shaped ''current_state_fingerprint'') (\<lambda>f.
     bindE (require_object f) (\<lambda>fingerprint.
     bindE (afield shaped ''evaluation_time'') (\<lambda>t.
     bindE (require_scalar_tag t) (\<lambda>time.
     bindE (transient_instant (JStr time)) (\<lambda>_.
     bindE (require_current difference revision fingerprint) (\<lambda>_.
     bindE (afield shaped ''authority_rules'') (\<lambda>rs.
     bindE (admit_all E rule_type refine_rule rs) (\<lambda>rules.
     bindE (afield shaped ''prohibitions'') (\<lambda>ps.
     bindE (admit_all E prohibition_type (refine_scope ''scope'') ps) (\<lambda>prohibitions.
     bindE (afield shaped ''approvals'') (\<lambda>as.
     bindE (admit_all E approval_type (refine_scope ''approved_scope'') as) (\<lambda>approvals.
     Inr \<lparr> q_project = project_id, q_difference = difference, q_action = action, q_kind = kind,
           q_scope = scope, q_revision = revision, q_fingerprint = fingerprint, q_time = time,
           q_rules = rules, q_prohibitions = prohibitions, q_approvals = approvals \<rparr>)))))))))))))))))))))))))"

section \<open>Rules\<close>

definition governs :: "question \<Rightarrow> json \<Rightarrow> auth_error + bool" where
  "governs q rule =
     andE (bindE (afield rule ''project_id'') (\<lambda>p. Inr (p = JStr (q_project q))))
       (andE (bindE (afield rule ''action_kinds'') (\<lambda>ks. contains_str ks (q_kind q)))
         (andE (bindE (afield (q_action q) ''reversibility'') (\<lambda>actual.
                bindE (afield rule ''maximum_reversibility'') (\<lambda>ceiling.
                bindE (exceeds_reversibility actual ceiling) (\<lambda>b. Inr (\<not> b)))))
           (bindE (afield rule ''scope'') (is_contained (q_scope q)))))"

definition rule_decision :: "json \<Rightarrow> auth_error + decision" where
  "rule_decision rule = bindE (afield rule ''decision'') (\<lambda>d. orE (decision_of d) AuthPy)"

definition resolve_rules :: "question \<Rightarrow> auth_error + json list \<times> decision" where
  "resolve_rules q =
     bindE (filterE (governs q) (q_rules q)) (\<lambda>governing.
     if governing = [] then Inr ([], HUMAN_APPROVAL_REQUIRED)
     else bindE (foldE (\<lambda>d rule. bindE (rule_decision rule) (\<lambda>r. Inr (at_least_as_restrictive_as d r)))
            AUTONOMOUS governing) (\<lambda>d. Inr (governing, d)))"

definition cite_rule :: "json list \<Rightarrow> decision \<Rightarrow> auth_error + json option" where
  "cite_rule governing d =
     bindE (filterE (\<lambda>rule. bindE (afield rule ''decision'') (\<lambda>x. Inr (x = JStr (decision_text d)))) governing) (\<lambda>supporting.
     if supporting = [] then Inr None
     else bindE (sorted_by ''authority_rule_id'' supporting) (\<lambda>rs. Inr (Some (hd rs))))"

section \<open>Approvals\<close>

definition reason_if :: "bool \<Rightarrow> string \<Rightarrow> ustr list" where
  "reason_if b code = (if b then [u code] else [])"

definition binding_mismatches :: "question \<Rightarrow> ustr \<Rightarrow> ustr \<Rightarrow> ustr \<Rightarrow> json \<Rightarrow> auth_error + ustr list" where
  "binding_mismatches q subject intent fingerprint approval =
     bindE (astr approval ''status'') (\<lambda>status.
     bindE (transient_instant (JStr (q_time q))) (\<lambda>now.
     bindE (astr approval ''approved_at'') (\<lambda>a.
     bindE (stored_instant (JStr a)) (\<lambda>opened.
     bindE (astr approval ''expires_at'') (\<lambda>e.
     bindE (stored_instant (JStr e)) (\<lambda>closes.
     bindE (anot approval ''project_id'' (JStr (q_project q))) (\<lambda>m1.
     bindE (afield approval ''difference_ref'') (\<lambda>ref.
     bindE (aget ref ''id'') (\<lambda>ref_id.
     bindE (anot approval ''change_intent_fingerprint'' (JStr intent)) (\<lambda>m3.
     bindE (anot approval ''approved_action_fingerprint'' (JStr fingerprint)) (\<lambda>m4.
     bindE (anot approval ''approved_state_revision'' (JInt (q_revision q))) (\<lambda>m5.
     bindE (anot approval ''approved_state_fingerprint'' (q_fingerprint q)) (\<lambda>m6.
     bindE (afield approval ''approved_scope'') (\<lambda>approved.
     bindE (is_contained (q_scope q) approved) (\<lambda>inside.
     Inr (sort
       ((if status \<noteq> u ''ACTIVE'' then [u ''APPROVAL_'' @ status] else [])
        @ reason_if (\<not> (instant_le opened now \<and> instant_le now closes)) ''APPROVAL_OUTSIDE_VALIDITY_WINDOW''
        @ reason_if m1 ''APPROVAL_PROJECT_MISMATCH''
        @ reason_if (ref_id \<noteq> JStr subject) ''APPROVAL_DIFFERENCE_MISMATCH''
        @ reason_if m3 ''APPROVAL_CHANGE_INTENT_MISMATCH''
        @ reason_if m4 ''APPROVAL_ACTION_FINGERPRINT_MISMATCH''
        @ reason_if m5 ''APPROVAL_STATE_REVISION_STALE''
        @ reason_if m6 ''APPROVAL_STATE_FINGERPRINT_STALE''
        @ reason_if (\<not> inside) ''APPROVAL_SCOPE_WIDENED'')))))))))))))))))"

definition excludes_action :: "ustr \<Rightarrow> json \<Rightarrow> auth_error + bool" where
  "excludes_action kind approval =
     bindE (afield approval ''prohibited_actions'') (\<lambda>ks. contains_str ks kind)"

section \<open>The verdict\<close>

record verdict =
  v_decision :: decision
  v_rule :: "json option"
  v_prohibitions :: "json list"
  v_approval :: "json option"
  v_excluding :: "json list"
  v_reasons :: "ustr list"

text \<open>The decision once the rules and the two floors have spoken, and the reasons so far.\<close>

definition floors :: "question \<Rightarrow> json list \<Rightarrow> decision \<Rightarrow> auth_error + decision \<times> ustr list" where
  "floors q governing d0 =
     bindE (afield (q_action q) ''reversibility'') (\<lambda>reversibility.
     let human_only = q_kind q \<in> set human_only_action_kinds;
         irreversible = reversibility = JStr (u ''IRREVERSIBLE'');
         d1 = (if human_only then at_least_as_restrictive_as d0 HUMAN_APPROVAL_REQUIRED else d0);
         d2 = (if irreversible then at_least_as_restrictive_as d1 HUMAN_APPROVAL_REQUIRED else d1)
     in Inr (d2, reason_if (governing = []) ''NO_RULE_RESOLVED'' @ reason_if human_only ''ACTION_IS_HUMAN_ONLY''
          @ reason_if irreversible ''IRREVERSIBLE_ACTION''))"

text \<open>Which approvals bind, and the reasons of those that do not.\<close>

definition bind_approvals :: "ext \<Rightarrow> question \<Rightarrow> auth_error + json list \<times> ustr list" where
  "bind_approvals E q =
     bindE (change_intent_fingerprint E (q_action q) (q_scope q)) (\<lambda>intent.
     bindE (astr (q_action q) ''action_semantic_fingerprint'') (\<lambda>declared.
     bindE (astr (q_difference q) ''difference_id'') (\<lambda>difference_id.
     bindE (mapE (binding_mismatches q difference_id intent declared) (q_approvals q)) (\<lambda>ms.
     Inr (map fst (filter (\<lambda>(a, m). m = []) (zip (q_approvals q) ms)), concat ms)))))"

text \<open>What the approvals make of the decision.\<close>

definition apply_approvals ::
  "question \<Rightarrow> json list \<Rightarrow> json list \<Rightarrow> ustr list \<Rightarrow> decision
   \<Rightarrow> auth_error + decision \<times> json option \<times> ustr list" where
  "apply_approvals q approving excluding failures d =
     (let d' = (if excluding \<noteq> [] then at_least_as_restrictive_as d HUMAN_APPROVAL_REQUIRED else d);
          r = reason_if (excluding \<noteq> []) ''APPROVAL_EXCLUDES_ACTION'';
          usable = filter (\<lambda>a. list_all (\<lambda>e. \<not> py_eq a e) excluding) approving
      in if d' \<noteq> HUMAN_APPROVAL_REQUIRED then Inr (d', None, r)
         else if excluding \<noteq> [] then Inr (d', None, r)
         else if q_approvals q = [] then Inr (d', None, r @ [u ''APPROVAL_MISSING''])
         else if usable \<noteq> [] then
           bindE (sorted_by ''approval_id'' usable) (\<lambda>xs. Inr (AUTONOMOUS, Some (hd xs), r @ [u ''APPROVAL_EXACT'']))
         else Inr (d', None, r @ sort (remdups failures)))"

text \<open>The stages after the prohibitions.\<close>

definition decide_rules :: "ext \<Rightarrow> question \<Rightarrow> auth_error + verdict" where
  "decide_rules E q =
     bindE (resolve_rules q) (\<lambda>(governing, d0).
     bindE (floors q governing d0) (\<lambda>(d1, r1).
     bindE (bind_approvals E q) (\<lambda>(approving, failures).
     bindE (filterE (excludes_action (q_kind q)) approving) (\<lambda>withholding.
     bindE (sorted_by ''approval_id'' withholding) (\<lambda>excluding.
     bindE (apply_approvals q approving excluding failures d1) (\<lambda>(d2, used, r2).
     bindE (cite_rule governing d2) (\<lambda>rule.
     Inr \<lparr> v_decision = d2, v_rule = rule, v_prohibitions = [], v_approval = used, v_excluding = excluding,
           v_reasons = r1 @ r2 @ reason_if (d2 = AUTONOMOUS \<and> used = None) ''RULE_PERMITS_AUTONOMOUS''
             @ (if governing = [] then []
                else if rule \<noteq> None then [u ''RULE_RESOLVED''] else [u ''RULE_NOT_DECISIVE'']) \<rparr>)))))))"

definition decide :: "ext \<Rightarrow> question \<Rightarrow> auth_error + verdict" where
  "decide E q =
     bindE (matching (q_prohibitions q) (q_project q) (q_kind q) (q_scope q)) (\<lambda>matched.
     if matched \<noteq> [] then
       bindE (has_constitutional matched) (\<lambda>constitutional.
       Inr \<lparr> v_decision = PROHIBITED, v_rule = None, v_prohibitions = matched, v_approval = None,
             v_excluding = [],
             v_reasons = u ''PROHIBITION_MATCHED'' # reason_if constitutional ''CONSTITUTIONAL_PROHIBITION_MATCHED'' \<rparr>)
     else decide_rules E q)"

section \<open>The record\<close>

definition ref :: "string \<Rightarrow> string \<Rightarrow> json \<Rightarrow> auth_error + json" where
  "ref kind field r = bindE (afield r field) (\<lambda>i. Inr (JObj [(u ''kind'', JStr (u kind)), (u ''id'', i)]))"

definition optional_ref :: "string \<Rightarrow> string \<Rightarrow> json option \<Rightarrow> auth_error + json" where
  "optional_ref kind field r = (case r of None \<Rightarrow> Inr JNull | Some x \<Rightarrow> ref kind field x)"

definition decision_record :: "ext \<Rightarrow> question \<Rightarrow> verdict \<Rightarrow> auth_error + json" where
  "decision_record E q v =
     bindE (afield (q_difference q) ''difference_id'') (\<lambda>difference_id.
     bindE (optional_ref ''authority_rule'' ''authority_rule_id'' (v_rule v)) (\<lambda>rule_ref.
     bindE (mapE (ref ''prohibition'' ''prohibition_id'') (v_prohibitions v)) (\<lambda>prohibition_refs.
     bindE (optional_ref ''approval'' ''approval_id'' (v_approval v)) (\<lambda>approval_ref.
     bindE (mapE (ref ''approval'' ''approval_id'') (v_excluding v)) (\<lambda>excluding_refs.
     let r0 = JObj
       [(u ''schema_version'', schema_version),
        (u ''authority_decision_id'', JStr []),
        (u ''project_id'', JStr (q_project q)),
        (u ''difference_ref'', JObj [(u ''kind'', JStr (u ''difference'')), (u ''id'', difference_id)]),
        (u ''requested_action'', q_action q),
        (u ''requested_scope'', q_scope q),
        (u ''evaluated_state_revision'', JInt (q_revision q)),
        (u ''evaluated_state_fingerprint'', q_fingerprint q),
        (u ''resolved_rule_ref'', rule_ref),
        (u ''prohibition_refs'', JList prohibition_refs),
        (u ''approval_ref'', approval_ref),
        (u ''excluding_approval_refs'', JList excluding_refs),
        (u ''decision'', JStr (decision_text (v_decision v))),
        (u ''decision_reason_codes'', JList (map JStr (sort (remdups (v_reasons v))))),
        (u ''decision_semantic_fingerprint'', JStr [])]
     in bindE (decision_semantic_fingerprint E r0) (\<lambda>fp.
        let r1 = aset ''decision_semantic_fingerprint'' (JStr fp) r0
        in bindE (decision_id E r1) (\<lambda>i.
           let r2 = aset ''authority_decision_id'' (JStr i) r1
           in bindE (validateA E (schema_base @ u ''authority/authority.schema.json'') r2) (\<lambda>_. Inr r2))))))))"

definition evaluate_authority :: "ext \<Rightarrow> json \<Rightarrow> auth_error + json" where
  "evaluate_authority E request =
     mapErr at_boundary (bindE (admit_request E request) (\<lambda>q.
     bindE (decide E q) (\<lambda>v. decision_record E q v)))"

end
