(* ===== verification/AuthorityLemmas.thy ===== *)
theory AuthorityLemmas
  imports Authority
begin

text \<open>
  What the stages of the Authority evaluator establish, in the terms the properties use: what
  an admitted request holds, which fields its decision record carries, and which records of a
  collection a decision can rest on. None of them depends on the order of the supplied records.
\<close>

section \<open>Sorting and filtering records\<close>

definition str_at :: "string \<Rightarrow> json \<Rightarrow> ustr" where
  "str_at f r = (case jfield r f of Some (JStr s) \<Rightarrow> s | _ \<Rightarrow> [])"

lemma sorted_by_iff: "sorted_by f xs = Inr ys \<longleftrightarrow>
    (\<forall>x \<in> set xs. \<exists>s. jfield x f = Some (JStr s)) \<and> ys = sort_key (str_at f) xs"
proof -
  have zip: "map snd (sort_key fst (zip (map (str_at f) xs) xs)) = sort_key (str_at f) xs"
  proof -
    have "zip (map (str_at f) xs) xs = map (\<lambda>x. (str_at f x, x)) xs" by (simp add: zip_map1 zip_same_conv_map)
    then show ?thesis by (simp add: map_sort_key_pairs)
  qed
  have "mapE (\<lambda>r. astr r f) xs = Inr ks \<longleftrightarrow>
      (\<forall>x \<in> set xs. \<exists>s. jfield x f = Some (JStr s)) \<and> ks = map (str_at f) xs" for ks
    by (induction xs arbitrary: ks) (auto simp: str_at_def)
  then show ?thesis using zip by (auto simp: sorted_by_def)
qed

lemma sorted_by_set: "sorted_by f xs = Inr ys \<Longrightarrow> set ys = set xs"
  by (simp add: sorted_by_iff)

lemma sorted_by_perm:
  assumes "sorted_by f xs = Inr a" and "mset xs = mset ys" and "distinct (map (str_at f) xs)"
  shows "sorted_by f ys = Inr a"
proof -
  have "set ys = set xs" using assms(2) by (metis mset_eq_setD)
  then show ?thesis
    using assms by (auto simp: sorted_by_iff intro: sort_key_distinct_perm)
qed

lemma filterE_set: "filterE f xs = Inr ys \<Longrightarrow> x \<in> set ys \<longleftrightarrow> x \<in> set xs \<and> f x = Inr True"
  by (auto simp: filterE_Inr_iff)

lemma filterE_perm:
  assumes "filterE f xs = Inr a" and "mset xs = mset ys"
  obtains b where "filterE f ys = Inr b" and "mset a = mset b"
proof -
  have "set ys = set xs" using assms(2) by (metis mset_eq_setD)
  then have "filterE f ys = Inr (filter (\<lambda>x. f x = Inr True) ys)"
    using assms(1) by (auto simp: filterE_Inr_iff)
  moreover have "mset a = mset (filter (\<lambda>x. f x = Inr True) ys)"
    using assms by (auto simp: filterE_Inr_iff)
  ultimately show ?thesis by (rule that)
qed

lemma andE_True: "andE a b = Inr True \<longleftrightarrow> a = Inr True \<and> b = Inr True"
  by (cases a) (auto simp: andE_def)

lemma admitted_str_at: "str_at (rt_identity_field T) r = id_of T r"
  by (simp add: str_at_def id_of_def)

section \<open>What an admitted request holds\<close>

lemma require_request_shape_iff: "require_request_shape ks request = Inr shaped \<longleftrightarrow>
    shaped = request \<and> is_obj request \<and> closed_keys ks request = Inr ()
    \<and> jfield request ''schema_version'' = Some schema_version"
  by (auto simp: require_request_shape_def schema_version_def)

lemma require_action_iff: "require_action E v = Inr (action, kind) \<longleftrightarrow>
    action = v \<and> is_obj v \<and> closed_keys action_keys v = Inr ()
    \<and> require_action_kind E (JStr kind) = Inr kind \<and> jfield v ''action_kind'' = Some (JStr kind)
    \<and> (\<exists>r. jfield v ''reversibility'' = Some (JStr r) \<and> r \<noteq> [] \<and> reversibility_order (JStr r) \<noteq> None)
    \<and> (\<exists>f. jfield v ''action_semantic_fingerprint'' = Some (JStr f) \<and> f \<noteq> [] \<and> action_fingerprint E v = Inr f)"
  by (auto simp: require_action_def require_action_kind_def simp del: reversibility_order.simps)

lemma require_revision_iff [simp]: "require_revision v = Inr i \<longleftrightarrow> v = JInt i \<and> 0 \<le> i"
  by (cases v) auto

lemma require_current_iff: "require_current d r f = Inr () \<longleftrightarrow>
    (\<exists>x. jfield d ''observed_state_revision'' = Some x \<and> py_eq x (JInt r))
    \<and> (\<exists>x. jfield d ''observed_state_fingerprint'' = Some x \<and> py_eq x f)"
  by (auto simp: require_current_def anot_def)

lemma admit_difference_iff: "admit_difference E v = Inr d \<longleftrightarrow>
    d = v \<and> is_obj v \<and> ext_schema E (schema_base @ u ''difference/difference.schema.json'') v
    \<and> (\<exists>i. difference_id E v = Inr i \<and> jfield v ''difference_id'' = Some (JStr i))"
  by (auto simp: admit_difference_def validateA_def)

text \<open>The request a question was admitted from.\<close>

definition request_of :: "ext \<Rightarrow> json \<Rightarrow> question \<Rightarrow> bool" where
  "request_of E request q \<longleftrightarrow>
     require_request_shape required_request_keys request = Inr request
     \<and> jfield request ''project_id'' = Some (JStr (q_project q)) \<and> q_project q \<noteq> []
     \<and> jfield request ''difference'' = Some (q_difference q)
     \<and> admit_difference E (q_difference q) = Inr (q_difference q)
     \<and> anot (q_difference q) ''project_id'' (JStr (q_project q)) = Inr False
     \<and> jfield request ''requested_action'' = Some (q_action q)
     \<and> require_action E (q_action q) = Inr (q_action q, q_kind q)
     \<and> (\<exists>s. jfield request ''requested_scope'' = Some s \<and> require_scope s = Inr (q_scope q))
     \<and> jfield request ''current_state_revision'' = Some (JInt (q_revision q)) \<and> 0 \<le> q_revision q
     \<and> jfield request ''current_state_fingerprint'' = Some (q_fingerprint q) \<and> is_obj (q_fingerprint q)
     \<and> jfield request ''evaluation_time'' = Some (JStr (q_time q)) \<and> q_time q \<noteq> []
     \<and> (\<exists>i. transient_instant (JStr (q_time q)) = Inr i)
     \<and> require_current (q_difference q) (q_revision q) (q_fingerprint q) = Inr ()
     \<and> jfield request ''authority_rules'' = Some (JList (q_rules q))
     \<and> admit_all E rule_type refine_rule (JList (q_rules q)) = Inr (q_rules q)
     \<and> jfield request ''prohibitions'' = Some (JList (q_prohibitions q))
     \<and> admit_all E prohibition_type (refine_scope ''scope'') (JList (q_prohibitions q)) = Inr (q_prohibitions q)
     \<and> jfield request ''approvals'' = Some (JList (q_approvals q))
     \<and> admit_all E approval_type (refine_scope ''approved_scope'') (JList (q_approvals q)) = Inr (q_approvals q)"

text \<open>Taking the chain of calls apart, one rule per kind of call.\<close>

lemma bindE_InrE: "bindE m f = Inr y \<Longrightarrow> (\<And>x. m = Inr x \<Longrightarrow> f x = Inr y \<Longrightarrow> P) \<Longrightarrow> P"
  by auto

lemma bind_pair: "bindE m (\<lambda>(a, b). f a b) = Inr y \<Longrightarrow> (\<And>a b. m = Inr (a, b) \<Longrightarrow> f a b = Inr y \<Longrightarrow> P) \<Longrightarrow> P"
  by auto

lemma bind_triple: "bindE m (\<lambda>(a, b, c). f a b c) = Inr y \<Longrightarrow>
    (\<And>a b c. m = Inr (a, b, c) \<Longrightarrow> f a b c = Inr y \<Longrightarrow> P) \<Longrightarrow> P"
  by auto

lemma bind_shape: "bindE (require_request_shape ks v) f = Inr y \<Longrightarrow>
    (require_request_shape ks v = Inr v \<Longrightarrow> f v = Inr y \<Longrightarrow> P) \<Longrightarrow> P"
  by (auto simp: require_request_shape_iff)

lemma bind_field: "bindE (afield v k) f = Inr y \<Longrightarrow> (\<And>x. jfield v k = Some x \<Longrightarrow> f x = Inr y \<Longrightarrow> P) \<Longrightarrow> P"
  by auto

lemma bind_tag: "bindE (require_scalar_tag v) f = Inr y \<Longrightarrow>
    (\<And>s. v = JStr s \<Longrightarrow> s \<noteq> [] \<Longrightarrow> f s = Inr y \<Longrightarrow> P) \<Longrightarrow> P"
  by auto

lemma bind_difference: "bindE (admit_difference E v) f = Inr y \<Longrightarrow>
    (admit_difference E v = Inr v \<Longrightarrow> f v = Inr y \<Longrightarrow> P) \<Longrightarrow> P"
  by (auto simp: admit_difference_iff)

lemma bind_action: "bindE (require_action E v) f = Inr y \<Longrightarrow>
    (\<And>k. require_action E v = Inr (v, k) \<Longrightarrow> f (v, k) = Inr y \<Longrightarrow> P) \<Longrightarrow> P"
  by (auto simp: require_action_iff)

lemma bind_object: "bindE (require_object v) f = Inr y \<Longrightarrow> (is_obj v \<Longrightarrow> f v = Inr y \<Longrightarrow> P) \<Longrightarrow> P"
  by auto

lemma bind_ensure: "bindE (ensureE b e) f = Inr y \<Longrightarrow> (b \<Longrightarrow> f () = Inr y \<Longrightarrow> P) \<Longrightarrow> P"
  by auto

lemma bind_current: "bindE (require_current d r w) f = Inr y \<Longrightarrow>
    (require_current d r w = Inr () \<Longrightarrow> f () = Inr y \<Longrightarrow> P) \<Longrightarrow> P"
  by auto

lemma bind_revision: "bindE (require_revision v) f = Inr y \<Longrightarrow>
    (\<And>i. v = JInt i \<Longrightarrow> 0 \<le> i \<Longrightarrow> f i = Inr y \<Longrightarrow> P) \<Longrightarrow> P"
  by auto

lemma bind_all: "bindE (admit_all E T r v) f = Inr y \<Longrightarrow>
    (\<And>rs. v = JList rs \<Longrightarrow> admit_all E T r (JList rs) = Inr rs \<Longrightarrow> f rs = Inr y \<Longrightarrow> P) \<Longrightarrow> P"
  by (auto simp: admit_all_iff)

lemma admit_request_of: "admit_request E request = Inr q \<Longrightarrow> request_of E request q"
  unfolding admit_request_def
  by ((erule bind_shape | erule bind_field | erule bind_tag | erule bind_difference
     | erule bind_action, unfold prod.case | erule bind_object | erule bind_ensure | erule bind_current
     | erule bind_revision | erule bind_all | erule bindE_InrE)+)
    (auto simp: request_of_def)

lemma request_of_admit: "request_of E request q \<Longrightarrow> admit_request E request = Inr q"
  by (auto simp: request_of_def admit_request_def afield_def transient_instant_def)

section \<open>What a decision record carries\<close>

lemma jfield_aset: "is_obj v \<Longrightarrow> jfield (aset k x v) j = (if j = k then Some x else jfield v j)"
  by (cases v) (auto simp: jfield_update)

lemma project_fields_cong:
  assumes "\<And>k. k \<in> set ks \<Longrightarrow> jfield v k = jfield w k"
  shows "project_fields ks v = project_fields ks w"
proof -
  have "mapE (\<lambda>k. bindE (afield v k) (\<lambda>x. Inr (u k, x))) ks = mapE (\<lambda>k. bindE (afield w k) (\<lambda>x. Inr (u k, x))) ks"
    using assms by (intro mapE_cong) (auto simp: afield_def)
  then show ?thesis by (simp add: project_fields_def)
qed

lemma decision_record_fields:
  assumes "decision_record E q v = Inr d"
  shows "jfield d ''decision'' = Some (JStr (decision_text (v_decision v)))"
    and "jfield d ''project_id'' = Some (JStr (q_project q))"
    and "jfield d ''requested_action'' = Some (q_action q)"
    and "jfield d ''requested_scope'' = Some (q_scope q)"
    and "jfield d ''evaluated_state_revision'' = Some (JInt (q_revision q))"
    and "jfield d ''evaluated_state_fingerprint'' = Some (q_fingerprint q)"
    and "\<exists>x. jfield (q_difference q) ''difference_id'' = Some x
           \<and> jfield d ''difference_ref'' = Some (JObj [(u ''kind'', JStr (u ''difference'')), (u ''id'', x)])"
    and "\<exists>x. optional_ref ''authority_rule'' ''authority_rule_id'' (v_rule v) = Inr x \<and> jfield d ''resolved_rule_ref'' = Some x"
    and "\<exists>x. optional_ref ''approval'' ''approval_id'' (v_approval v) = Inr x \<and> jfield d ''approval_ref'' = Some x"
    and "\<exists>xs. mapE (ref ''prohibition'' ''prohibition_id'') (v_prohibitions v) = Inr xs
           \<and> jfield d ''prohibition_refs'' = Some (JList xs)"
    and "\<exists>i. jfield d ''authority_decision_id'' = Some (JStr i) \<and> decision_id E d = Inr i"
    and "\<exists>f. jfield d ''decision_semantic_fingerprint'' = Some (JStr f) \<and> decision_semantic_fingerprint E d = Inr f"
    and "ext_schema E (schema_base @ u ''authority/authority.schema.json'') d"
proof -
  obtain difference_id rule_ref prohibition_refs approval_ref excluding_refs fp i r0 where
    ids: "jfield (q_difference q) ''difference_id'' = Some difference_id"
      "optional_ref ''authority_rule'' ''authority_rule_id'' (v_rule v) = Inr rule_ref"
      "mapE (ref ''prohibition'' ''prohibition_id'') (v_prohibitions v) = Inr prohibition_refs"
      "optional_ref ''approval'' ''approval_id'' (v_approval v) = Inr approval_ref"
    and r0: "r0 = JObj
       [(u ''schema_version'', schema_version),
        (u ''authority_decision_id'', JStr []),
        (u ''project_id'', JStr (q_project q)),
        (u ''difference_ref'', JObj [(u ''kind'', JStr (u ''difference'')), (u ''id'', difference_id)]),
        (u ''requested_action'', q_action q),
        (u ''requested_scope'', q_scope q),
        (u ''evaluated_state_revision'', JInt (q_revision q)),
        (u ''evaluated_state_fingerprint'', q_fingerprint q),
        (u ''resolved_rule_ref'', rule_ref),
        (u ''prohibition_refs'', JList prohibition_refs),
        (u ''approval_ref'', approval_ref),
        (u ''excluding_approval_refs'', JList excluding_refs),
        (u ''decision'', JStr (decision_text (v_decision v))),
        (u ''decision_reason_codes'', JList (map JStr (sort (remdups (v_reasons v))))),
        (u ''decision_semantic_fingerprint'', JStr [])]"
    and fp: "decision_semantic_fingerprint E r0 = Inr fp"
    and i: "decision_id E (aset ''decision_semantic_fingerprint'' (JStr fp) r0) = Inr i"
    and d: "d = aset ''authority_decision_id'' (JStr i) (aset ''decision_semantic_fingerprint'' (JStr fp) r0)"
    and ok: "ext_schema E (schema_base @ u ''authority/authority.schema.json'') d"
    using assms unfolding decision_record_def Let_def validateA_def by (elim bindE_InrE) simp
  have obj: "is_obj r0" "is_obj (aset ''decision_semantic_fingerprint'' (JStr fp) r0)" by (simp_all add: r0)
  have field: "jfield d k = (if k = ''authority_decision_id'' then Some (JStr i)
      else if k = ''decision_semantic_fingerprint'' then Some (JStr fp) else jfield r0 k)" for k
    by (simp add: d jfield_aset obj)
  have same: "project_fields decision_semantic_fields d = project_fields decision_semantic_fields r0"
    "project_fields decision_semantic_fields (aset ''decision_semantic_fingerprint'' (JStr fp) r0)
      = project_fields decision_semantic_fields r0"
    by (rule project_fields_cong, auto simp: field jfield_aset obj decision_semantic_fields_def)+
  show "\<exists>i. jfield d ''authority_decision_id'' = Some (JStr i) \<and> decision_id E d = Inr i"
    "\<exists>f. jfield d ''decision_semantic_fingerprint'' = Some (JStr f) \<and> decision_semantic_fingerprint E d = Inr f"
    using fp i by (simp_all add: field decision_id_def decision_semantic_fingerprint_def same)
  show "ext_schema E (schema_base @ u ''authority/authority.schema.json'') d" by (rule ok)
  show "jfield d ''decision'' = Some (JStr (decision_text (v_decision v)))"
    "jfield d ''project_id'' = Some (JStr (q_project q))"
    "jfield d ''requested_action'' = Some (q_action q)" "jfield d ''requested_scope'' = Some (q_scope q)"
    "jfield d ''evaluated_state_revision'' = Some (JInt (q_revision q))"
    "jfield d ''evaluated_state_fingerprint'' = Some (q_fingerprint q)"
    "\<exists>x. jfield (q_difference q) ''difference_id'' = Some x
       \<and> jfield d ''difference_ref'' = Some (JObj [(u ''kind'', JStr (u ''difference'')), (u ''id'', x)])"
    "\<exists>x. optional_ref ''authority_rule'' ''authority_rule_id'' (v_rule v) = Inr x \<and> jfield d ''resolved_rule_ref'' = Some x"
    "\<exists>x. optional_ref ''approval'' ''approval_id'' (v_approval v) = Inr x \<and> jfield d ''approval_ref'' = Some x"
    "\<exists>xs. mapE (ref ''prohibition'' ''prohibition_id'') (v_prohibitions v) = Inr xs
       \<and> jfield d ''prohibition_refs'' = Some (JList xs)"
    using ids by (simp_all add: field r0) (simp_all add: jfield_def)
qed

end
