(* ===== verification/AuthorityProps.thy ===== *)
theory AuthorityProps
  imports AuthorityLemmas
begin

lemma prohibition_touches:
  assumes q: "request_of E request q"
    and "jfield request ''prohibitions'' = Some (JList ps)" and "p \<in> set ps"
    and "jfield p ''prohibition_class'' = Some c"
    and "c = JStr (u ''CONSTITUTIONAL'') \<or> jfield p ''project_id'' = jfield request ''project_id''"
    and "jfield request ''requested_action'' = Some a" and "jfield a ''action_kind'' = Some kind"
    and "jfield p ''action_kinds'' = Some (JList ks)" and "kind \<in> set ks"
    and "jfield request ''requested_scope'' = Some s" and "jfield p ''scope'' = Some forbidden"
    and "locations_of s \<inter> locations_of forbidden \<noteq> {}"
  shows "p \<in> set (q_prohibitions q) \<and> touches (q_project q) (q_kind q) (q_scope q) p = Inr True"
proof -
  have ps: "q_prohibitions q = ps" and a: "q_action q = a" and kind: "kind = JStr (q_kind q)"
    using q assms(2,6,7) by (auto simp: request_of_def require_action_iff)
  have "refine_scope ''scope'' p = Inr ()" using q assms(3) ps by (auto simp: request_of_def admit_all_iff)
  then obtain f where f: "require_scope forbidden = Inr f" using assms(11) by (auto simp: refine_scope_def)
  have "overlaps (q_scope q) forbidden = Inr True"
    using q f assms(10,12) admitted_operators(2) [OF _ f] by (auto simp: request_of_def)
  moreover have "applies_to_project p (q_project q) = Inr True"
    using assms(4,5) q by (auto simp: applies_to_project_def afield_def request_of_def)
  ultimately show ?thesis
    using assms(3,8,9,11) kind ps by (simp add: touches_def andE_True afield_def)
qed

text \<open>
  What an Authority decision means. A touched prohibition decides before any rule is read; an
  \<open>AUTONOMOUS\<close> answer is always accounted for by governing rules or by an approval that binds
  this exact request; the answer and its address do not depend on the order of the supplied
  records; adding a rule to one that governs never loosens the answer.
\<close>

lemma mapErr_Inr: "mapErr g m = Inr x \<Longrightarrow> m = Inr x"
  by simp

lemma evaluate_parts:
  assumes "evaluate_authority E request = Inr d"
  obtains q v where "request_of E request q" and "decide E q = Inr v" and "decision_record E q v = Inr d"
  using assms by (auto simp: evaluate_authority_def dest!: admit_request_of)

section \<open>Prohibitions first\<close>

lemma decide_prohibited:
  assumes "decide E q = Inr v" and "p \<in> set (q_prohibitions q)"
    and "touches (q_project q) (q_kind q) (q_scope q) p = Inr True"
  shows "v_decision v = PROHIBITED \<and> v_rule v = None \<and> v_approval v = None \<and> p \<in> set (v_prohibitions v)"
proof -
  obtain matched where m: "matching (q_prohibitions q) (q_project q) (q_kind q) (q_scope q) = Inr matched"
    using assms(1) by (auto simp: decide_def)
  then obtain ps where ps: "filterE (touches (q_project q) (q_kind q) (q_scope q)) (q_prohibitions q) = Inr ps"
    "sorted_by ''prohibition_id'' ps = Inr matched"
    by (auto simp: matching_def)
  have p: "p \<in> set matched"
    using assms(2,3) by (simp add: sorted_by_set [OF ps(2)] filterE_set [OF ps(1)])
  then have "matched \<noteq> []" by auto
  then show ?thesis using assms(1) p by (clarsimp simp: decide_def m)
qed

text \<open>C4: Prohibition dominance. If one supplied prohibition applies to the project (or is
  constitutional), names the action and overlaps the requested scope, the decision is
  \<open>PROHIBITED\<close>: whatever the rules and approvals say, none of them is cited, and the
  prohibition is.\<close>

theorem prohibition_dominates:
  assumes "evaluate_authority E request = Inr d"
    and "jfield request ''prohibitions'' = Some (JList ps)" and "p \<in> set ps"
    and "jfield p ''prohibition_class'' = Some c"
    and "c = JStr (u ''CONSTITUTIONAL'') \<or> jfield p ''project_id'' = jfield request ''project_id''"
    and "jfield request ''requested_action'' = Some a" and "jfield a ''action_kind'' = Some kind"
    and "jfield p ''action_kinds'' = Some (JList ks)" and "kind \<in> set ks"
    and "jfield request ''requested_scope'' = Some s" and "jfield p ''scope'' = Some forbidden"
    and "locations_of s \<inter> locations_of forbidden \<noteq> {}"
  shows "jfield d ''decision'' = Some (JStr (u ''PROHIBITED'')) \<and> jfield d ''approval_ref'' = Some JNull
    \<and> jfield d ''resolved_rule_ref'' = Some JNull
    \<and> (\<exists>refs i. jfield d ''prohibition_refs'' = Some (JList refs) \<and> jfield p ''prohibition_id'' = Some i
         \<and> JObj [(u ''kind'', JStr (u ''prohibition'')), (u ''id'', i)] \<in> set refs)"
proof -
  obtain q v where q: "request_of E request q" and v: "decide E q = Inr v" and d: "decision_record E q v = Inr d"
    using evaluate_parts [OF assms(1)] .
  note t = prohibition_touches [OF q assms(2-12)]
  have pv: "v_decision v = PROHIBITED" "v_rule v = None" "v_approval v = None" "p \<in> set (v_prohibitions v)"
    using decide_prohibited [OF v] t by auto
  obtain refs where refs: "mapE (ref ''prohibition'' ''prohibition_id'') (v_prohibitions v) = Inr refs"
    "jfield d ''prohibition_refs'' = Some (JList refs)"
    using decision_record_fields(10) [OF d] by auto
  then obtain r where "ref ''prohibition'' ''prohibition_id'' p = Inr r" "r \<in> set refs"
    using pv(4) by (fastforce simp: mapE_Inr_iff list_all2_conv_all_nth in_set_conv_nth)
  then show ?thesis
    using decision_record_fields(1,8,9) [OF d] pv refs by (auto simp: optional_ref_def ref_def)
qed

section \<open>What an autonomous decision rests on\<close>

definition binds :: "ext \<Rightarrow> question \<Rightarrow> json \<Rightarrow> bool" where
  "binds E q a \<longleftrightarrow> (\<exists>subject intent declared.
     change_intent_fingerprint E (q_action q) (q_scope q) = Inr intent
     \<and> jfield (q_action q) ''action_semantic_fingerprint'' = Some (JStr declared)
     \<and> jfield (q_difference q) ''difference_id'' = Some (JStr subject)
     \<and> binding_mismatches q subject intent declared a = Inr [])"

lemma filter_zip_map: "map fst (filter (\<lambda>(a, m). m = []) (zip xs (map f xs))) = filter (\<lambda>a. f a = []) xs"
  by (induction xs) auto

lemma bind_approvals_iff:
  assumes "bind_approvals E q = Inr (approving, failures)"
  shows "approving = filter (binds E q) (q_approvals q)"
proof -
  obtain subject intent declared ms where
    s: "change_intent_fingerprint E (q_action q) (q_scope q) = Inr intent"
      "jfield (q_action q) ''action_semantic_fingerprint'' = Some (JStr declared)"
      "jfield (q_difference q) ''difference_id'' = Some (JStr subject)"
    and ms: "mapE (binding_mismatches q subject intent declared) (q_approvals q) = Inr ms"
      "approving = map fst (filter (\<lambda>(a, m). m = []) (zip (q_approvals q) ms))"
    using assms by (auto simp: bind_approvals_def)
  have tot: "\<forall>a \<in> set (q_approvals q). \<exists>m. binding_mismatches q subject intent declared a = Inr m"
    and eq: "ms = map (\<lambda>a. projr (binding_mismatches q subject intent declared a)) (q_approvals q)"
    using ms(1) by (auto simp: mapE_total)
  have "approving = filter (\<lambda>a. projr (binding_mismatches q subject intent declared a) = []) (q_approvals q)"
    unfolding ms(2) eq by (rule filter_zip_map)
  also have "\<dots> = filter (binds E q) (q_approvals q)"
    using tot s by (intro filter_cong) (auto simp: binds_def)
  finally show ?thesis .
qed

lemma Max_insert_max: "finite S \<Longrightarrow> Max (insert (max a b) S) = max b (Max (insert a S))"
  for a :: "'a :: linorder"
  by (cases "S = {}") (simp_all add: max.assoc max.commute max.left_commute)

lemma Max_insert_swap: "finite S \<Longrightarrow> max a (Max (insert b S)) = max b (Max (insert a S))"
  for a :: "'a :: linorder"
  by (cases "S = {}") (simp_all add: max.commute max.left_commute)

lemma fold_decisions:
  "foldE (\<lambda>d rule. bindE (rule_decision rule) (\<lambda>r. Inr (max d r))) a rs = Inr d \<longleftrightarrow>
     (\<forall>r \<in> set rs. \<exists>x. rule_decision r = Inr x) \<and> d = Max (insert a (set (map (\<lambda>r. projr (rule_decision r)) rs)))"
proof (induction rs arbitrary: a)
  case (Cons r rs)
  show ?case
    by (cases "rule_decision r") (auto simp: Cons.IH Max_insert_max Max_insert_swap [of _ a])
qed auto

lemma resolve_rules_iff:
  assumes "resolve_rules q = Inr (governing, d)"
  shows "governing = filter (\<lambda>r. governs q r = Inr True) (q_rules q)"
    and "governing = [] \<Longrightarrow> d = HUMAN_APPROVAL_REQUIRED"
    and "r \<in> set governing \<Longrightarrow> \<exists>x. rule_decision r = Inr x \<and> x \<le> d"
    and "governing \<noteq> [] \<Longrightarrow> d = Max (insert AUTONOMOUS (set (map (\<lambda>r. projr (rule_decision r)) governing)))"
proof -
  obtain g where g: "filterE (governs q) (q_rules q) = Inr g" and gd: "g = governing"
    and d: "governing = [] \<Longrightarrow> d = HUMAN_APPROVAL_REQUIRED"
      "governing \<noteq> [] \<Longrightarrow> foldE (\<lambda>d rule. bindE (rule_decision rule) (\<lambda>r. Inr (max d r))) AUTONOMOUS governing = Inr d"
    using assms by (auto simp: resolve_rules_def split: if_splits)
  show "governing = filter (\<lambda>r. governs q r = Inr True) (q_rules q)"
    using g gd by (simp add: filterE_Inr_iff)
  show "governing = [] \<Longrightarrow> d = HUMAN_APPROVAL_REQUIRED" by (rule d(1))
  note fold = fold_decisions
  show "\<exists>x. rule_decision r = Inr x \<and> x \<le> d" if r: "r \<in> set governing"
  proof -
    have "governing \<noteq> []" using r by auto
    then have all: "\<forall>r \<in> set governing. \<exists>x. rule_decision r = Inr x"
      and m: "d = Max (insert AUTONOMOUS (set (map (\<lambda>r. projr (rule_decision r)) governing)))"
      using d(2) fold by blast+
    obtain x where x: "rule_decision r = Inr x" using all r by blast
    then have "x \<in> set (map (\<lambda>r. projr (rule_decision r)) governing)" using r by force
    then have "x \<le> d" unfolding m by (intro Max_ge) simp_all
    with x show ?thesis by blast
  qed
  show "governing \<noteq> [] \<Longrightarrow> d = Max (insert AUTONOMOUS (set (map (\<lambda>r. projr (rule_decision r)) governing)))"
    using d(2) fold by blast
qed

lemma apply_autonomous:
  assumes "apply_approvals q approving excluding failures d = Inr (AUTONOMOUS, used, r)"
  shows "excluding = []" and "used = None \<Longrightarrow> d = AUTONOMOUS"
    and "used = Some a \<Longrightarrow> a \<in> set approving \<and> d = HUMAN_APPROVAL_REQUIRED"
proof -
  have e: "excluding = []"
    using assms by (cases d) (auto simp: apply_approvals_def Let_def max_def split: if_splits)
  then show "excluding = []" .
  show "used = None \<Longrightarrow> d = AUTONOMOUS"
    using assms e by (auto simp: apply_approvals_def Let_def split: if_splits)
  assume used: "used = Some a"
  then obtain xs where xs: "sorted_by ''approval_id'' approving = Inr xs" "a = hd xs" "approving \<noteq> []"
    and d: "d = HUMAN_APPROVAL_REQUIRED"
    using assms e by (auto simp: apply_approvals_def Let_def split: if_splits)
  have "xs \<noteq> []" using sorted_by_set [OF xs(1)] xs(3) by auto
  then show "a \<in> set approving \<and> d = HUMAN_APPROVAL_REQUIRED"
    using xs d sorted_by_set [OF xs(1)] by (metis hd_in_set)
qed

lemma floors_autonomous:
  assumes "floors q governing d0 = Inr (AUTONOMOUS, r)"
  shows "d0 = AUTONOMOUS" and "q_kind q \<notin> set human_only_action_kinds"
    and "jfield (q_action q) ''reversibility'' \<noteq> Some (JStr (u ''IRREVERSIBLE''))"
  using assms
  by (cases "q_kind q \<in> set human_only_action_kinds"; clarsimp simp: floors_def Let_def split: if_splits)+

lemma sorted_by_Nil: "sorted_by f xs = Inr [] \<Longrightarrow> xs = []"
  using sorted_by_set [of f xs "[]"] by simp

lemma filterE_none:
  assumes "filterE f xs = Inr []"
  shows "list_all (\<lambda>x. f x = Inr False) xs"
proof -
  have "f x = Inr False" if x: "x \<in> set xs" for x
  proof -
    have "f x \<noteq> Inr True" using filterE_set [OF assms, of x] x by simp
    moreover obtain b where "f x = Inr b" using assms x by (auto simp: filterE_Inr_iff)
    ultimately show ?thesis by (cases b) auto
  qed
  then show ?thesis by (simp add: list_all_iff)
qed

lemma decide_cases:
  assumes "decide E q = Inr v"
  obtains (prohibited) "v_decision v = PROHIBITED" and "v_approval v = None" and "v_rule v = None"
  | (open_) "list_all (\<lambda>p. touches (q_project q) (q_kind q) (q_scope q) p = Inr False) (q_prohibitions q)"
      and "decide_rules E q = Inr v"
proof -
  obtain matched where m: "matching (q_prohibitions q) (q_project q) (q_kind q) (q_scope q) = Inr matched"
    using assms by (auto simp: decide_def)
  show ?thesis
  proof (cases "matched = []")
    case True
    then have "list_all (\<lambda>p. touches (q_project q) (q_kind q) (q_scope q) p = Inr False) (q_prohibitions q)"
      using m by (auto simp: matching_def dest!: sorted_by_Nil intro: filterE_none)
    then show ?thesis using assms open_ True by (simp add: decide_def m)
  next
    case False
    then show ?thesis using assms prohibited by (auto simp: decide_def m)
  qed
qed

lemma decide_rules_parts:
  assumes "decide_rules E q = Inr v"
  obtains governing d0 d1 r1 approving failures withholding excluding used r2 where
    "resolve_rules q = Inr (governing, d0)" and "floors q governing d0 = Inr (d1, r1)"
    and "bind_approvals E q = Inr (approving, failures)"
    and "filterE (excludes_action (q_kind q)) approving = Inr withholding"
    and "sorted_by ''approval_id'' withholding = Inr excluding"
    and "apply_approvals q approving excluding failures d1 = Inr (v_decision v, used, r2)"
    and "v_approval v = used" and "cite_rule governing (v_decision v) = Inr (v_rule v)"
    and "v_excluding v = excluding" and "v_prohibitions v = []"
    and "v_reasons v = r1 @ r2 @ reason_if (v_decision v = AUTONOMOUS \<and> used = None) ''RULE_PERMITS_AUTONOMOUS''
             @ (if governing = [] then []
                else if v_rule v \<noteq> None then [u ''RULE_RESOLVED''] else [u ''RULE_NOT_DECISIVE''])"
proof -
  obtain governing d0 d1 r1 approving failures withholding excluding d2 used r2 rule where
    "resolve_rules q = Inr (governing, d0)" and "floors q governing d0 = Inr (d1, r1)"
    and "bind_approvals E q = Inr (approving, failures)"
    and "filterE (excludes_action (q_kind q)) approving = Inr withholding"
    and "sorted_by ''approval_id'' withholding = Inr excluding"
    and "apply_approvals q approving excluding failures d1 = Inr (d2, used, r2)"
    and "cite_rule governing d2 = Inr rule"
    and "v = \<lparr> v_decision = d2, v_rule = rule, v_prohibitions = [], v_approval = used, v_excluding = excluding,
           v_reasons = r1 @ r2 @ reason_if (d2 = AUTONOMOUS \<and> used = None) ''RULE_PERMITS_AUTONOMOUS''
             @ (if governing = [] then []
                else if rule \<noteq> None then [u ''RULE_RESOLVED''] else [u ''RULE_NOT_DECISIVE'']) \<rparr>"
    using assms unfolding decide_rules_def
    by - ((erule bind_triple | erule bind_pair | erule bindE_InrE)+, rule that, assumption+, simp)
  then show ?thesis by (intro that [of governing d0 d1 r1 approving failures withholding excluding used r2]) simp_all
qed

lemma autonomous_core:
  assumes "evaluate_authority E request = Inr d" and "admit_request E request = Inr q"
    and "jfield d ''decision'' = Some (JStr (u ''AUTONOMOUS''))"
  shows "list_all (\<lambda>p. touches (q_project q) (q_kind q) (q_scope q) p = Inr False) (q_prohibitions q)
    \<and> list_all (\<lambda>a. \<not> (binds E q a \<and> excludes_action (q_kind q) a \<noteq> Inr False)) (q_approvals q)
    \<and> ((\<exists>a i. a \<in> set (q_approvals q) \<and> binds E q a \<and> jfield a ''approval_id'' = Some i
          \<and> jfield d ''approval_ref'' = Some (JObj [(u ''kind'', JStr (u ''approval'')), (u ''id'', i)]))
       \<or> jfield d ''approval_ref'' = Some JNull
          \<and> q_kind q \<notin> set human_only_action_kinds
          \<and> jfield (q_action q) ''reversibility'' \<noteq> Some (JStr (u ''IRREVERSIBLE''))
          \<and> filter (\<lambda>r. governs q r = Inr True) (q_rules q) \<noteq> []
          \<and> list_all (\<lambda>r. jfield r ''decision'' = Some (JStr (u ''AUTONOMOUS'')))
               (filter (\<lambda>r. governs q r = Inr True) (q_rules q)))"
proof -
  obtain v where v: "decide E q = Inr v" and d: "decision_record E q v = Inr d"
    using assms(1,2) by (auto simp: evaluate_authority_def)
  have auto_v: "v_decision v = AUTONOMOUS"
    using decision_record_fields(1) [OF d] assms(3) by (cases "v_decision v") auto
  have proh: "list_all (\<lambda>p. touches (q_project q) (q_kind q) (q_scope q) p = Inr False) (q_prohibitions q)"
    and rules_part: "decide_rules E q = Inr v"
    using v auto_v by (cases rule: decide_cases; simp)+
  obtain governing d0 d1 r1 approving failures withholding excluding used r2 where
    rules: "resolve_rules q = Inr (governing, d0)" and fl: "floors q governing d0 = Inr (d1, r1)"
    and ba: "bind_approvals E q = Inr (approving, failures)"
    and ex: "filterE (excludes_action (q_kind q)) approving = Inr withholding"
      "sorted_by ''approval_id'' withholding = Inr excluding"
    and ap: "apply_approvals q approving excluding failures d1 = Inr (AUTONOMOUS, used, r2)"
    and used: "v_approval v = used"
    by (rule decide_rules_parts [OF rules_part]) (auto simp: auto_v)
  have approving: "approving = filter (binds E q) (q_approvals q)" by (rule bind_approvals_iff [OF ba])
  have "excluding = []" by (rule apply_autonomous(1) [OF ap])
  then have "filterE (excludes_action (q_kind q)) approving = Inr []"
    using ex sorted_by_Nil by blast
  then have none: "list_all (\<lambda>a. \<not> (binds E q a \<and> excludes_action (q_kind q) a \<noteq> Inr False)) (q_approvals q)"
    using filterE_none approving by (fastforce simp: list_all_iff)
  obtain ref where ref: "optional_ref ''approval'' ''approval_id'' used = Inr ref" "jfield d ''approval_ref'' = Some ref"
    using decision_record_fields(9) [OF d] used by auto
  show ?thesis
  proof (cases used)
    case (Some a)
    then have "a \<in> set (q_approvals q)" "binds E q a"
      using apply_autonomous(3) [OF ap] approving by auto
    then show ?thesis using proh none ref Some by (auto simp: optional_ref_def ref_def)
  next
    case None
    then have d1: "d1 = AUTONOMOUS" by (rule apply_autonomous(2) [OF ap])
    note floor = floors_autonomous [OF fl [unfolded d1]]
    have "governing \<noteq> []" using resolve_rules_iff(2) [OF rules] floor(1) by auto
    moreover have "jfield r ''decision'' = Some (JStr (u ''AUTONOMOUS''))" if r: "r \<in> set governing" for r
    proof -
      obtain x where x: "rule_decision r = Inr x" "x \<le> AUTONOMOUS"
        using resolve_rules_iff(3) [OF rules r] floor(1) by auto
      have "x = AUTONOMOUS" using x(2) decision_le_simps(1) [of x] by (rule antisym)
      then show ?thesis using x(1) by (auto simp: rule_decision_def decision_of_iff)
    qed
    ultimately show ?thesis
      using proh none ref None floor by (simp add: optional_ref_def list_all_iff resolve_rules_iff(1) [OF rules])
  qed
qed

text \<open>C5: An \<open>AUTONOMOUS\<close> answer is accounted for. No supplied prohibition touches the request and no
  approval that binds it withholds the action. Either an approval that binds this exact
  request is cited, or none is and the rules account for the answer: the action is neither
  human-only nor irreversible, some rule governs it, and every rule that governs it declares
  \<open>AUTONOMOUS\<close>. Silence, a human-only action and an irreversible one never become autonomous
  without a human's approval.\<close>

theorem autonomous_justified:
  assumes "evaluate_authority E request = Inr d" and "admit_request E request = Inr q"
    and "jfield d ''decision'' = Some (JStr (u ''AUTONOMOUS''))"
  shows "list_all (\<lambda>p. touches (q_project q) (q_kind q) (q_scope q) p = Inr False) (q_prohibitions q)
    \<and> list_all (\<lambda>a. \<not> (binds E q a \<and> excludes_action (q_kind q) a \<noteq> Inr False)) (q_approvals q)
    \<and> ((\<exists>a i. a \<in> set (q_approvals q) \<and> binds E q a \<and> jfield a ''approval_id'' = Some i
          \<and> jfield d ''approval_ref'' = Some (JObj [(u ''kind'', JStr (u ''approval'')), (u ''id'', i)]))
       \<or> jfield d ''approval_ref'' = Some JNull
          \<and> q_kind q \<notin> set human_only_action_kinds
          \<and> jfield (q_action q) ''reversibility'' \<noteq> Some (JStr (u ''IRREVERSIBLE''))
          \<and> filter (\<lambda>r. governs q r = Inr True) (q_rules q) \<noteq> []
          \<and> list_all (\<lambda>r. jfield r ''decision'' = Some (JStr (u ''AUTONOMOUS'')))
               (filter (\<lambda>r. governs q r = Inr True) (q_rules q)))"
  by (rule autonomous_core [OF assms])

section \<open>What a binding approval covers\<close>

lemma reason_if_Nil [simp]: "reason_if b c = [] \<longleftrightarrow> \<not> b"
  by (simp add: reason_if_def)

lemma sort_Nil [simp]: "sort xs = [] \<longleftrightarrow> xs = []"
  by (metis mset.simps(1) mset_sort mset_zero_iff)

lemma binding_mismatches_Nil:
  assumes "binding_mismatches q subject intent fingerprint a = Inr []"
  obtains now opened closes r s where
    "jfield a ''status'' = Some (JStr (u ''ACTIVE''))"
    and "transient_instant (JStr (q_time q)) = Inr now"
    and "stored_instant (the (jfield a ''approved_at'')) = Inr opened"
    and "stored_instant (the (jfield a ''expires_at'')) = Inr closes"
    and "instant_le opened now" and "instant_le now closes"
    and "anot a ''project_id'' (JStr (q_project q)) = Inr False"
    and "jfield a ''difference_ref'' = Some r" and "jfield r ''id'' = Some (JStr subject)"
    and "anot a ''change_intent_fingerprint'' (JStr intent) = Inr False"
    and "anot a ''approved_action_fingerprint'' (JStr fingerprint) = Inr False"
    and "anot a ''approved_state_revision'' (JInt (q_revision q)) = Inr False"
    and "anot a ''approved_state_fingerprint'' (q_fingerprint q) = Inr False"
    and "jfield a ''approved_scope'' = Some s" and "is_contained (q_scope q) s = Inr True"
proof -
  obtain status now aa opened e closes m1 r ref_id m3 m4 m5 m6 approved inside where
    raw: "astr a ''status'' = Inr status" "transient_instant (JStr (q_time q)) = Inr now"
      "astr a ''approved_at'' = Inr aa" "stored_instant (JStr aa) = Inr opened"
      "astr a ''expires_at'' = Inr e" "stored_instant (JStr e) = Inr closes"
      "anot a ''project_id'' (JStr (q_project q)) = Inr m1" "afield a ''difference_ref'' = Inr r"
      "aget r ''id'' = Inr ref_id" "anot a ''change_intent_fingerprint'' (JStr intent) = Inr m3"
      "anot a ''approved_action_fingerprint'' (JStr fingerprint) = Inr m4"
      "anot a ''approved_state_revision'' (JInt (q_revision q)) = Inr m5"
      "anot a ''approved_state_fingerprint'' (q_fingerprint q) = Inr m6"
      "afield a ''approved_scope'' = Inr approved" "is_contained (q_scope q) approved = Inr inside"
    and "sort
       ((if status \<noteq> u ''ACTIVE'' then [u ''APPROVAL_'' @ status] else [])
        @ reason_if (\<not> (instant_le opened now \<and> instant_le now closes)) ''APPROVAL_OUTSIDE_VALIDITY_WINDOW''
        @ reason_if m1 ''APPROVAL_PROJECT_MISMATCH''
        @ reason_if (ref_id \<noteq> JStr subject) ''APPROVAL_DIFFERENCE_MISMATCH''
        @ reason_if m3 ''APPROVAL_CHANGE_INTENT_MISMATCH''
        @ reason_if m4 ''APPROVAL_ACTION_FINGERPRINT_MISMATCH''
        @ reason_if m5 ''APPROVAL_STATE_REVISION_STALE''
        @ reason_if m6 ''APPROVAL_STATE_FINGERPRINT_STALE''
        @ reason_if (\<not> inside) ''APPROVAL_SCOPE_WIDENED'') = []"
    using assms unfolding binding_mismatches_def
    by - ((erule bindE_InrE)+, rule that, assumption+, simp)
  then have "status = u ''ACTIVE''" "instant_le opened now" "instant_le now closes" "\<not> m1" "ref_id = JStr subject"
    "\<not> m3" "\<not> m4" "\<not> m5" "\<not> m6" inside
    unfolding sort_Nil by (auto split: if_splits)
  then show ?thesis using raw by (intro that [of now opened closes r approved]) simp_all
qed

lemma cited_approval_unique:
  assumes "request_of E request q" and "a \<in> set (q_approvals q)" and "jfield a ''approval_id'' = Some i"
  shows "filter (\<lambda>b. jfield b ''approval_id'' = Some i) (q_approvals q) = [a]"
proof -
  have d: "distinct (map (id_of approval_type) (q_approvals q))" using assms(1) by (simp add: request_of_def admit_all_iff)
  have "b = a" if b: "b \<in> set (q_approvals q)" "jfield b ''approval_id'' = Some i" for b
  proof -
    have "id_of approval_type b = id_of approval_type a"
      using b(2) assms(3) by (simp add: id_of_def approval_type_def authority_type_def)
    then show "b = a" using d b(1) assms(2) by (simp add: distinct_map inj_on_def)
  qed
  then have "filter (\<lambda>b. jfield b ''approval_id'' = Some i) (q_approvals q) = filter (\<lambda>b. b = a) (q_approvals q)"
    using assms(3) by (intro filter_cong) auto
  also have "\<dots> = [a]"
  proof -
    have "distinct xs \<Longrightarrow> a \<in> set xs \<Longrightarrow> filter (\<lambda>b. b = a) xs = [a]" for xs
      by (induction xs) (auto simp: filter_empty_conv)
    then show ?thesis using d assms(2) by (simp add: distinct_map)
  qed
  finally show ?thesis .
qed

text \<open>C6: A human's approval covers exactly what it names. When a decision is \<open>AUTONOMOUS\<close> by an
  approval, exactly one approval of the request carries the identity the decision cites, and that approval
  is active, is for this Difference, for this action and scope (by recomputed digests), for this State
  revision and fingerprint, every requested location lies inside its approved scope, and the evaluation
  time lies in its validity window.\<close>

theorem approval_covers_exactly:
  assumes "evaluate_authority E request = Inr d" and "admit_request E request = Inr q"
    and "jfield d ''decision'' = Some (JStr (u ''AUTONOMOUS''))" and "jfield d ''approval_ref'' \<noteq> Some JNull"
  shows "\<exists>a i r s approved intent declared now opened closes.
    jfield d ''approval_ref'' = Some (JObj [(u ''kind'', JStr (u ''approval'')), (u ''id'', i)])
    \<and> filter (\<lambda>b. jfield b ''approval_id'' = Some i) (q_approvals q) = [a]
    \<and> anot a ''project_id'' (JStr (q_project q)) = Inr False
    \<and> jfield a ''difference_ref'' = Some r \<and> jfield r ''id'' = jfield (q_difference q) ''difference_id''
    \<and> jfield a ''status'' = Some (JStr (u ''ACTIVE''))
    \<and> change_intent_fingerprint E (q_action q) (q_scope q) = Inr intent
    \<and> anot a ''change_intent_fingerprint'' (JStr intent) = Inr False
    \<and> action_fingerprint E (q_action q) = Inr declared
    \<and> anot a ''approved_action_fingerprint'' (JStr declared) = Inr False
    \<and> anot a ''approved_state_revision'' (JInt (q_revision q)) = Inr False
    \<and> anot a ''approved_state_fingerprint'' (q_fingerprint q) = Inr False
    \<and> jfield request ''requested_scope'' = Some s \<and> jfield a ''approved_scope'' = Some approved
    \<and> locations_of s \<noteq> {} \<and> locations_of s \<subseteq> locations_of approved
    \<and> transient_instant (JStr (q_time q)) = Inr now
    \<and> stored_instant (the (jfield a ''approved_at'')) = Inr opened
    \<and> stored_instant (the (jfield a ''expires_at'')) = Inr closes
    \<and> instant_le opened now \<and> instant_le now closes"
proof -
  obtain a i where a: "a \<in> set (q_approvals q)" "binds E q a" and cited: "jfield a ''approval_id'' = Some i"
      "jfield d ''approval_ref'' = Some (JObj [(u ''kind'', JStr (u ''approval'')), (u ''id'', i)])"
    using autonomous_core [OF assms(1-3)] assms(4) by auto
  have q: "request_of E request q" by (rule admit_request_of [OF assms(2)])
  note one = cited_approval_unique [OF q a(1) cited(1)]
  obtain subject intent declared where
    b: "change_intent_fingerprint E (q_action q) (q_scope q) = Inr intent"
      "jfield (q_action q) ''action_semantic_fingerprint'' = Some (JStr declared)"
      "binding_mismatches q subject intent declared a = Inr []"
      "jfield (q_difference q) ''difference_id'' = Some (JStr subject)"
    using a(2) by (auto simp: binds_def)
  obtain now opened closes r s where
    f: "jfield a ''status'' = Some (JStr (u ''ACTIVE''))" "transient_instant (JStr (q_time q)) = Inr now"
      "stored_instant (the (jfield a ''approved_at'')) = Inr opened"
      "stored_instant (the (jfield a ''expires_at'')) = Inr closes"
      "instant_le opened now" "instant_le now closes"
      "anot a ''change_intent_fingerprint'' (JStr intent) = Inr False"
      "anot a ''approved_action_fingerprint'' (JStr declared) = Inr False"
      "anot a ''approved_state_revision'' (JInt (q_revision q)) = Inr False"
      "anot a ''approved_state_fingerprint'' (q_fingerprint q) = Inr False"
      "jfield a ''approved_scope'' = Some s" "is_contained (q_scope q) s = Inr True"
    and g: "anot a ''project_id'' (JStr (q_project q)) = Inr False"
      "jfield a ''difference_ref'' = Some r" "jfield r ''id'' = Some (JStr subject)"
    by (rule binding_mismatches_Nil [OF b(3)])
  obtain s0 where s0: "jfield request ''requested_scope'' = Some s0" "require_scope s0 = Inr (q_scope q)"
    using q by (auto simp: request_of_def)
  have "refine_scope ''approved_scope'' a = Inr ()" using q a(1) by (auto simp: request_of_def admit_all_iff)
  then obtain s' where "require_scope s = Inr s'" using f(11) by (auto simp: refine_scope_def)
  then have "locations_of s0 \<noteq> {}" "locations_of s0 \<subseteq> locations_of s"
    using f(12) admitted_operators(1) [OF s0(2)] by auto
  moreover have "action_fingerprint E (q_action q) = Inr declared"
    using q b(2) by (auto simp: request_of_def require_action_iff)
  ultimately show ?thesis using cited(2) one b(1,4) f g s0(1) by metis
qed

end
