(* ===== verification/AuthorityOrder.thy ===== *)
theory AuthorityOrder
  imports AuthorityProps
begin

text \<open>
  The collections of a request are sets written as lists. Reordering them changes neither the
  decision nor its address; adding a rule where one governs never loosens the decision; what
  an approval must match to bind is spelled out field by field.
\<close>

section \<open>Each stage under reordering\<close>

lemma mset_empty: "mset xs = mset ys \<Longrightarrow> xs = [] \<longleftrightarrow> ys = []"
  by (metis mset.simps(1) mset_zero_iff)

lemma distinct_keys_perm: "mset xs = mset ys \<Longrightarrow> distinct (map f xs) \<longleftrightarrow> distinct (map f ys)"
  by (metis mset_eq_imp_distinct_iff mset_map)

lemma distinct_keys_filterE:
  "filterE f xs = Inr ys \<Longrightarrow> distinct (map g xs) \<Longrightarrow> distinct (map g ys)"
  by (auto simp: filterE_Inr_iff distinct_map_filter)

lemma matching_perm:
  assumes "matching ps p k s = Inr matched" and "mset ps = mset qs" and "distinct (map (str_at ''prohibition_id'') ps)"
  shows "matching qs p k s = Inr matched"
proof -
  obtain a where a: "filterE (touches p k s) ps = Inr a" "sorted_by ''prohibition_id'' a = Inr matched"
    using assms(1) by (auto simp: matching_def)
  obtain b where b: "filterE (touches p k s) qs = Inr b" "mset a = mset b"
    using filterE_perm [OF a(1) assms(2)] .
  have "sorted_by ''prohibition_id'' b = Inr matched"
    by (rule sorted_by_perm [OF a(2) b(2) distinct_keys_filterE [OF a(1) assms(3)]])
  then show ?thesis by (simp add: matching_def b)
qed

lemma governs_rules [simp]: "governs (q\<lparr>q_rules := rs, q_prohibitions := ps, q_approvals := as\<rparr>) = governs q"
  by (simp add: governs_def fun_eq_iff)

lemma resolve_rules_perm:
  assumes "resolve_rules q = Inr (governing, d)" and "mset (q_rules q) = mset rs"
  obtains g where "resolve_rules (q\<lparr>q_rules := rs, q_prohibitions := ps, q_approvals := as\<rparr>) = Inr (g, d)"
    and "mset governing = mset g"
proof -
  have f: "filterE (governs q) (q_rules q) = Inr governing"
    using assms(1) by (auto simp: resolve_rules_def split: if_splits)
  obtain g where g: "filterE (governs q) rs = Inr g" "mset governing = mset g"
    using filterE_perm [OF f assms(2)] .
  have "set g = set governing" using g(2) by (metis mset_eq_setD)
  then have "resolve_rules (q\<lparr>q_rules := rs, q_prohibitions := ps, q_approvals := as\<rparr>) = Inr (g, d)"
    using assms(1) f g mset_empty [OF g(2)]
    by (auto simp: resolve_rules_def fold_decisions split: if_splits)
  then show ?thesis using that g(2) by blast
qed

lemma cite_rule_perm:
  assumes "cite_rule governing d = Inr r" and "mset governing = mset g"
    and "distinct (map (str_at ''authority_rule_id'') governing)"
  shows "cite_rule g d = Inr r"
proof -
  let ?f = "\<lambda>rule. bindE (afield rule ''decision'') (\<lambda>x. Inr (x = JStr (decision_text d)))"
  obtain a where a: "filterE ?f governing = Inr a" using assms(1) by (auto simp: cite_rule_def)
  obtain b where b: "filterE ?f g = Inr b" "mset a = mset b" using filterE_perm [OF a assms(2)] .
  show ?thesis
  proof (cases "a = []")
    case True
    then show ?thesis using assms(1) a b by (simp add: cite_rule_def)
  next
    case False
    then obtain rs where rs: "sorted_by ''authority_rule_id'' a = Inr rs" "r = Some (hd rs)"
      using assms(1) a by (auto simp: cite_rule_def)
    have "sorted_by ''authority_rule_id'' b = Inr rs"
      by (rule sorted_by_perm [OF rs(1) b(2) distinct_keys_filterE [OF a assms(3)]])
    then show ?thesis using rs(2) b False mset_empty [OF b(2)] by (simp add: cite_rule_def)
  qed
qed

lemma binding_mismatches_lists [simp]:
  "binding_mismatches (q\<lparr>q_rules := rs, q_prohibitions := ps, q_approvals := as\<rparr>) = binding_mismatches q"
  by (simp add: binding_mismatches_def fun_eq_iff)

lemma bind_approvals_perm:
  assumes "bind_approvals E q = Inr (approving, failures)" and "mset (q_approvals q) = mset as"
  obtains a f where "bind_approvals E (q\<lparr>q_rules := rs, q_prohibitions := ps, q_approvals := as\<rparr>) = Inr (a, f)"
    and "mset approving = mset a" and "set failures = set f"
proof -
  obtain subject intent declared ms where
    s: "change_intent_fingerprint E (q_action q) (q_scope q) = Inr intent"
      "jfield (q_action q) ''action_semantic_fingerprint'' = Some (JStr declared)"
      "jfield (q_difference q) ''difference_id'' = Some (JStr subject)"
    and ms: "mapE (binding_mismatches q subject intent declared) (q_approvals q) = Inr ms" "failures = concat ms"
    using assms(1) by (auto simp: bind_approvals_def)
  let ?m = "\<lambda>a. projr (binding_mismatches q subject intent declared a)"
  let ?q = "q\<lparr>q_rules := rs, q_prohibitions := ps, q_approvals := as\<rparr>"
  have set: "set as = set (q_approvals q)" using assms(2) by (metis mset_eq_setD)
  have "mapE (binding_mismatches q subject intent declared) as = Inr (map ?m as)"
    and ms_eq: "ms = map ?m (q_approvals q)"
    using ms(1) by (simp_all add: mapE_total set)
  then have b: "bind_approvals E ?q = Inr (map fst (filter (\<lambda>(a, m). m = []) (zip as (map ?m as))), concat (map ?m as))"
    using s by (simp add: bind_approvals_def astr_def)
  have "mset approving = mset (map fst (filter (\<lambda>(a, m). m = []) (zip as (map ?m as))))"
  proof -
    have "binds E ?q = binds E q" by (simp add: binds_def fun_eq_iff)
    then show ?thesis
      using bind_approvals_iff [OF assms(1)] bind_approvals_iff [OF b] assms(2) by simp
  qed
  moreover have "set failures = set (concat (map ?m as))" by (simp add: ms(2) ms_eq set)
  ultimately show ?thesis using that b by blast
qed

lemma id_fields:
  "id_of rule_type = str_at ''authority_rule_id''" "id_of prohibition_type = str_at ''prohibition_id''"
  "id_of approval_type = str_at ''approval_id''"
  by (rule ext, simp add: id_of_def str_at_def rule_type_def prohibition_type_def approval_type_def authority_type_def)+

lemma sort_set: "set xs = set ys \<Longrightarrow> sort (remdups xs) = sort (remdups ys)" for xs :: "'a :: linorder list"
  by (simp add: sorted_list_of_set_sort_remdups [symmetric])

lemma apply_approvals_perm:
  assumes "apply_approvals q approving excluding failures d = Inr res"
    and "mset approving = mset a" and "set failures = set f" and "q_approvals q = [] \<longleftrightarrow> q_approvals q' = []"
    and "distinct (map (str_at ''approval_id'') approving)"
  shows "apply_approvals q' a excluding f d = Inr res"
proof -
  let ?p = "\<lambda>a. list_all (\<lambda>e. \<not> py_eq a e) excluding"
  have m: "mset (filter ?p approving) = mset (filter ?p a)" using assms(2) by simp
  have "sorted_by ''approval_id'' (filter ?p a) = sorted_by ''approval_id'' (filter ?p approving)"
    if "sorted_by ''approval_id'' (filter ?p approving) = Inr xs" for xs
    using sorted_by_perm [OF that m] assms(5) that by (simp add: distinct_map_filter)
  then show ?thesis
    using assms(1,4) mset_empty [OF m] sort_set [OF assms(3)]
    by (auto simp: apply_approvals_def Let_def split: if_splits)
qed

section \<open>The decision under reordering\<close>

abbreviation with_lists :: "question \<Rightarrow> json list \<Rightarrow> json list \<Rightarrow> json list \<Rightarrow> question" where
  "with_lists q rs ps as \<equiv> q\<lparr>q_rules := rs, q_prohibitions := ps, q_approvals := as\<rparr>"

lemma decide_rules_perm:
  assumes "decide_rules E q = Inr v" and "mset (q_rules q) = mset rs" and "mset (q_approvals q) = mset as"
    and dr: "distinct (map (str_at ''authority_rule_id'') (q_rules q))"
    and da: "distinct (map (str_at ''approval_id'') (q_approvals q))"
  shows "decide_rules E (with_lists q rs ps as) = Inr v"
proof -
  let ?q = "with_lists q rs ps as"
  obtain governing d0 d1 r1 approving failures withholding excluding used r2 where
    parts: "resolve_rules q = Inr (governing, d0)" "floors q governing d0 = Inr (d1, r1)"
      "bind_approvals E q = Inr (approving, failures)"
      "filterE (excludes_action (q_kind q)) approving = Inr withholding"
      "sorted_by ''approval_id'' withholding = Inr excluding"
      "apply_approvals q approving excluding failures d1 = Inr (v_decision v, used, r2)"
    and v: "v_approval v = used" "cite_rule governing (v_decision v) = Inr (v_rule v)"
      "v_excluding v = excluding" "v_prohibitions v = []"
      "v_reasons v = r1 @ r2 @ reason_if (v_decision v = AUTONOMOUS \<and> used = None) ''RULE_PERMITS_AUTONOMOUS''
             @ (if governing = [] then []
                else if v_rule v \<noteq> None then [u ''RULE_RESOLVED''] else [u ''RULE_NOT_DECISIVE''])"
    by (rule decide_rules_parts [OF assms(1)])
  obtain g where g: "resolve_rules ?q = Inr (g, d0)" "mset governing = mset g"
    using resolve_rules_perm [OF parts(1) assms(2)] .
  obtain a f where a: "bind_approvals E ?q = Inr (a, f)" "mset approving = mset a" "set failures = set f"
    using bind_approvals_perm [OF parts(3) assms(3)] .
  obtain w where w: "filterE (excludes_action (q_kind q)) a = Inr w" "mset withholding = mset w"
    using filterE_perm [OF parts(4) a(2)] .
  have dg: "distinct (map (str_at ''authority_rule_id'') governing)"
    using dr resolve_rules_iff(1) [OF parts(1)] by (simp add: distinct_map_filter)
  have dap: "distinct (map (str_at ''approval_id'') approving)"
    using da bind_approvals_iff [OF parts(3)] by (simp add: distinct_map_filter)
  have "sorted_by ''approval_id'' w = Inr excluding"
    by (rule sorted_by_perm [OF parts(5) w(2) distinct_keys_filterE [OF parts(4) dap]])
  moreover have "floors ?q g d0 = Inr (d1, r1)"
    using parts(2) mset_empty [OF g(2)] by (simp add: floors_def)
  moreover have "apply_approvals ?q a excluding f d1 = Inr (v_decision v, used, r2)"
    by (rule apply_approvals_perm [OF parts(6) a(2,3) _ dap]) (use mset_empty [OF assms(3)] in simp)
  moreover have "cite_rule g (v_decision v) = Inr (v_rule v)"
    by (rule cite_rule_perm [OF v(2) g(2) dg])
  ultimately have "decide_rules E ?q = Inr \<lparr> v_decision = v_decision v, v_rule = v_rule v, v_prohibitions = [],
       v_approval = used, v_excluding = excluding, v_reasons = v_reasons v \<rparr>"
    using g(1) a(1) w(1) mset_empty [OF g(2)] v(5) by (simp add: decide_rules_def)
  then show ?thesis using v by simp
qed

lemma decide_perm:
  assumes "decide E q = Inr v" and "mset (q_rules q) = mset rs" and "mset (q_prohibitions q) = mset ps"
    and "mset (q_approvals q) = mset as"
    and "distinct (map (str_at ''authority_rule_id'') (q_rules q))"
    and "distinct (map (str_at ''prohibition_id'') (q_prohibitions q))"
    and "distinct (map (str_at ''approval_id'') (q_approvals q))"
  shows "decide E (with_lists q rs ps as) = Inr v"
proof -
  obtain matched where m: "matching (q_prohibitions q) (q_project q) (q_kind q) (q_scope q) = Inr matched"
    using assms(1) by (auto simp: decide_def)
  have m': "matching ps (q_project q) (q_kind q) (q_scope q) = Inr matched"
    by (rule matching_perm [OF m assms(3,6)])
  show ?thesis
  proof (cases "matched = []")
    case True
    then have "decide_rules E q = Inr v" using assms(1) m by (simp add: decide_def)
    then have "decide_rules E (with_lists q rs ps as) = Inr v"
      by (rule decide_rules_perm [OF _ assms(2,4,5,7)])
    then show ?thesis using m' True by (simp add: decide_def)
  next
    case False
    then show ?thesis using assms(1) m m' by (simp add: decide_def)
  qed
qed

lemma decision_record_lists [simp]: "decision_record E (with_lists q rs ps as) v = decision_record E q v"
  by (simp add: decision_record_def)

lemma closed_keys_iff: "closed_keys ks (JObj kvs) = Inr () \<longleftrightarrow>
    fst ` set kvs \<subseteq> set (map u ks) \<and> (\<forall>k \<in> set ks. jfield (JObj kvs) k \<noteq> None)"
  by (auto simp: closed_keys_def list_all_iff)

lemma closed_keys_aset: "closed_keys ks v = Inr () \<Longrightarrow> k \<in> set ks \<Longrightarrow> closed_keys ks (aset k x v) = Inr ()"
proof (cases v)
  case (JObj kvs)
  assume "closed_keys ks v = Inr ()" and "k \<in> set ks"
  then show ?thesis by (simp add: JObj closed_keys_iff dom_update jfield_update)
qed (auto simp: closed_keys_def)

lemma is_obj_aset [simp]: "is_obj (aset k x v) = is_obj v"
  by (cases v) auto

definition reordered :: "json list \<Rightarrow> json list \<Rightarrow> json list \<Rightarrow> json \<Rightarrow> json" where
  "reordered rs ps as request = aset ''authority_rules'' (JList rs)
     (aset ''prohibitions'' (JList ps) (aset ''approvals'' (JList as) request))"

lemma request_of_reordered:
  assumes "request_of E request q" and "mset (q_rules q) = mset rs" and "mset (q_prohibitions q) = mset ps"
    and "mset (q_approvals q) = mset as"
  shows "request_of E (reordered rs ps as request) (with_lists q rs ps as)"
proof -
  have obj: "is_obj request" and closed: "closed_keys required_request_keys request = Inr ()"
    using assms(1) by (auto simp: request_of_def require_request_shape_iff)
  have "closed_keys required_request_keys (reordered rs ps as request) = Inr ()"
    unfolding reordered_def by (intro closed_keys_aset closed) (simp_all add: required_request_keys_def)
  moreover have "jfield (reordered rs ps as request) k =
      (if k = ''authority_rules'' then Some (JList rs) else if k = ''prohibitions'' then Some (JList ps)
       else if k = ''approvals'' then Some (JList as) else jfield request k)" for k
    using obj by (simp add: reordered_def jfield_aset)
  moreover have "admit_all E rule_type refine_rule (JList rs) = Inr rs"
    "admit_all E prohibition_type (refine_scope ''scope'') (JList ps) = Inr ps"
    "admit_all E approval_type (refine_scope ''approved_scope'') (JList as) = Inr as"
    using assms by (auto simp: request_of_def intro: admit_all_perm)
  ultimately show ?thesis
    using assms(1) obj by (auto simp: request_of_def require_request_shape_iff reordered_def)
qed

text \<open>C25: One answer to one question: supplying the same rules, prohibitions and approvals in another
  order yields the same decision record, with the same citations and the same address.\<close>

theorem evaluation_order_free:
  assumes "evaluate_authority E request = Inr d"
    and "jfield request ''authority_rules'' = Some (JList rs)" and "mset rs = mset rs'"
    and "jfield request ''prohibitions'' = Some (JList ps)" and "mset ps = mset ps'"
    and "jfield request ''approvals'' = Some (JList as)" and "mset as = mset as'"
  shows "evaluate_authority E (reordered rs' ps' as' request) = Inr d"
proof -
  obtain q v where q: "request_of E request q" and v: "decide E q = Inr v" and d: "decision_record E q v = Inr d"
    using evaluate_parts [OF assms(1)] .
  have lists: "q_rules q = rs" "q_prohibitions q = ps" "q_approvals q = as"
    using q assms(2,4,6) by (auto simp: request_of_def)
  have ids: "distinct (map (str_at ''authority_rule_id'') rs)" "distinct (map (str_at ''prohibition_id'') ps)"
    "distinct (map (str_at ''approval_id'') as)"
    using q lists by (simp_all add: request_of_def admit_all_iff flip: id_fields)
  have "admit_request E (reordered rs' ps' as' request) = Inr (with_lists q rs' ps' as')"
    by (rule request_of_admit [OF request_of_reordered [OF q]]) (simp_all add: lists assms)
  moreover have "decide E (with_lists q rs' ps' as') = Inr v"
    by (rule decide_perm [OF v]) (simp_all add: lists assms ids)
  ultimately show ?thesis using d by (simp add: evaluate_authority_def)
qed

section \<open>Adding a rule\<close>

lemma floors_mono:
  assumes "floors q g d = Inr (x, r)" and "floors q g' d' = Inr (x', r')" and "d \<le> d'"
  shows "x \<le> x'"
  using assms by (auto simp: floors_def Let_def intro: max.mono split: if_splits)

lemma apply_approvals_cong:
  assumes "q_approvals q' = q_approvals q"
  shows "apply_approvals q' = apply_approvals q"
  unfolding apply_approvals_def assms ..

lemma require_object_obj: "is_obj v \<Longrightarrow> require_object v = Inr v"
  by simp

lemma apply_approvals_mono:
  assumes "apply_approvals q a e f d = Inr (x, used, r)" and "apply_approvals q a e f d' = Inr (x', used', r')"
    and "d \<le> d'"
  shows "x \<le> x'"
proof (cases "d = d'")
  case True
  then show ?thesis using assms by simp
next
  case False
  have "d = AUTONOMOUS \<or> d = HUMAN_APPROVAL_REQUIRED \<and> d' = PROHIBITED"
    using assms(3) False by (cases d; cases d') (auto simp: less_eq_decision_def)
  then show ?thesis
  proof
    assume d: "d = AUTONOMOUS"
    show ?thesis
    proof (cases "e = []")
      case True
      then have "x = AUTONOMOUS" using assms(1) d by (auto simp: apply_approvals_def Let_def)
      then show ?thesis by simp
    next
      case False
      then have "x = HUMAN_APPROVAL_REQUIRED" "x' \<noteq> AUTONOMOUS"
        using assms(1,2) d by (auto simp: apply_approvals_def Let_def split: if_splits)
      then show ?thesis by simp
    qed
  next
    assume d: "d = HUMAN_APPROVAL_REQUIRED \<and> d' = PROHIBITED"
    then have "x' = PROHIBITED" using assms(2) by (auto simp: apply_approvals_def Let_def split: if_splits)
    then show ?thesis by simp
  qed
qed

lemma resolve_rules_mono:
  assumes "resolve_rules q = Inr (g, d)" and "g \<noteq> []"
    and "resolve_rules (q\<lparr>q_rules := r # q_rules q\<rparr>) = Inr (g', d')"
  shows "d \<le> d'"
proof -
  have "governs (q\<lparr>q_rules := r # q_rules q\<rparr>) = governs q" by (simp add: governs_def fun_eq_iff)
  then have "set g \<subseteq> set g'"
    using resolve_rules_iff(1) [OF assms(1)] resolve_rules_iff(1) [OF assms(3)] by auto
  moreover have "g' \<noteq> []" using calculation assms(2) by auto
  ultimately show ?thesis
    unfolding resolve_rules_iff(4) [OF assms(1,2)] resolve_rules_iff(4) [OF assms(3) \<open>g' \<noteq> []\<close>]
    by (intro Max_mono) auto
qed

text \<open>No rule loosens: where some rule already governs a request, supplying one more rule can only
  make the decision more restrictive, never less.\<close>

theorem rule_never_loosens:
  assumes "decide E q = Inr v" and "decide E (q\<lparr>q_rules := r # q_rules q\<rparr>) = Inr v'"
    and "governs q g = Inr True" and "g \<in> set (q_rules q)"
  shows "v_decision v \<le> v_decision v'"
proof -
  let ?q = "q\<lparr>q_rules := r # q_rules q\<rparr>"
  obtain matched where m: "matching (q_prohibitions q) (q_project q) (q_kind q) (q_scope q) = Inr matched"
    using assms(1) by (auto simp: decide_def)
  show ?thesis
  proof (cases "matched = []")
    case True
    then have v: "decide_rules E q = Inr v" and v': "decide_rules E ?q = Inr v'"
      using assms(1,2) m by (simp_all add: decide_def)
    obtain governing d0 d1 r1 approving failures withholding excluding used r2 where
      p: "resolve_rules q = Inr (governing, d0)" "floors q governing d0 = Inr (d1, r1)"
        "bind_approvals E q = Inr (approving, failures)"
        "filterE (excludes_action (q_kind q)) approving = Inr withholding"
        "sorted_by ''approval_id'' withholding = Inr excluding"
        "apply_approvals q approving excluding failures d1 = Inr (v_decision v, used, r2)"
      by (rule decide_rules_parts [OF v])
    obtain governing' d0' d1' r1' approving' failures' withholding' excluding' used' r2' where
      p': "resolve_rules ?q = Inr (governing', d0')" "floors ?q governing' d0' = Inr (d1', r1')"
        "bind_approvals E ?q = Inr (approving', failures')"
        "filterE (excludes_action (q_kind ?q)) approving' = Inr withholding'"
        "sorted_by ''approval_id'' withholding' = Inr excluding'"
        "apply_approvals ?q approving' excluding' failures' d1' = Inr (v_decision v', used', r2')"
      by (rule decide_rules_parts [OF v'])
    have "governing \<noteq> []" using resolve_rules_iff(1) [OF p(1)] assms(3,4) by (auto simp: filter_empty_conv)
    then have "d0 \<le> d0'" by (rule resolve_rules_mono [OF p(1) _ p'(1)])
    moreover have "floors q governing' d0' = Inr (d1', r1')" using p'(2) by (simp add: floors_def)
    ultimately have d: "d1 \<le> d1'" by (intro floors_mono [OF p(2)])
    have "bind_approvals E ?q = bind_approvals E q"
      by (simp add: bind_approvals_def binding_mismatches_def [abs_def])
    then have "approving' = approving" "failures' = failures" "excluding' = excluding"
      using p(3-5) p'(3-5) by simp_all
    moreover have "apply_approvals ?q = apply_approvals q" by (rule apply_approvals_cong) simp
    ultimately show ?thesis using apply_approvals_mono [OF p(6) _ d] p'(6) by simp
  next
    case False
    then show ?thesis using assms(1,2) m by (auto simp: decide_def)
  qed
qed

section \<open>What a decision is bound to\<close>

text \<open>A decision is bound to what it decided: its record names the project, action, Difference and
  State of the request, the Difference is addressed by its content and describes that State,
  the record satisfies its schema, and its identity recomputes from its own fields.\<close>

theorem decision_bound:
  assumes "evaluate_authority E request = Inr d"
  shows "jfield d ''project_id'' = jfield request ''project_id''
    \<and> jfield d ''requested_action'' = jfield request ''requested_action''
    \<and> jfield d ''evaluated_state_revision'' = jfield request ''current_state_revision''
    \<and> jfield d ''evaluated_state_fingerprint'' = jfield request ''current_state_fingerprint''
    \<and> (\<exists>difference i r f. jfield request ''difference'' = Some difference
         \<and> difference_id E difference = Inr i
         \<and> jfield d ''difference_ref'' = Some (JObj [(u ''kind'', JStr (u ''difference'')), (u ''id'', JStr i)])
         \<and> jfield difference ''observed_state_revision'' = Some r
         \<and> py_eq r (the (jfield d ''evaluated_state_revision''))
         \<and> jfield difference ''observed_state_fingerprint'' = Some f
         \<and> py_eq f (the (jfield d ''evaluated_state_fingerprint'')))
    \<and> (\<exists>i. decision_id E d = Inr i \<and> jfield d ''authority_decision_id'' = Some (JStr i))
    \<and> ext_schema E (schema_base @ u ''authority/authority.schema.json'') d"
proof -
  obtain q v where q: "request_of E request q" and d: "decision_record E q v = Inr d"
    using evaluate_parts [OF assms] by metis
  show ?thesis
    using q decision_record_fields [OF d]
    by (auto simp: request_of_def admit_difference_iff require_current_iff)
qed

text \<open>No decision over a stale State: a request that gets a decision is refused with
  \<open>StaleAuthorityInputError\<close> as soon as it declares another current revision.\<close>

theorem stale_revision_refused:
  assumes "evaluate_authority E request = Inr d" and "jfield request ''current_state_revision'' = Some (JInt i)"
    and "0 \<le> j" and "j \<noteq> i"
  shows "evaluate_authority E (aset ''current_state_revision'' (JInt j) request) = Inl StaleAuthorityInputError"
proof -
  obtain q where q: "request_of E request q" using evaluate_parts [OF assms(1)] by metis
  have i: "q_revision q = i" and obj: "is_obj request" and closed: "closed_keys required_request_keys request = Inr ()"
    using q assms(2) by (auto simp: request_of_def require_request_shape_iff)
  have "closed_keys required_request_keys (aset ''current_state_revision'' (JInt j) request) = Inr ()"
    by (intro closed_keys_aset closed) (simp add: required_request_keys_def)
  moreover have "require_current (q_difference q) j (q_fingerprint q) = Inl StaleAuthorityInputError"
  proof -
    obtain x f where x: "jfield (q_difference q) ''observed_state_revision'' = Some x" "py_eq x (JInt i)"
      "jfield (q_difference q) ''observed_state_fingerprint'' = Some f" "py_eq f (q_fingerprint q)"
      using q i by (auto simp: request_of_def require_current_iff)
    have "\<not> py_eq x (JInt j)" using x(2) assms(4) py_eq_sym py_eq_trans py_eq_simps(2) by metis
    then show ?thesis using x by (simp add: require_current_def anot_def afield_def)
  qed
  ultimately have "admit_request E (aset ''current_state_revision'' (JInt j) request) = Inl StaleAuthorityInputError"
    using q obj assms(3)
    by (auto simp: request_of_def admit_request_def afield_def jfield_aset require_request_shape_iff
        require_request_shape_def schema_version_def require_object_obj)
  then show ?thesis by (simp add: evaluate_authority_def)
qed

end
