(* ===== verification/DifferenceProps.thy ===== *)
theory DifferenceProps
  imports DifferenceIdentity Plain
begin

text \<open>
  The identity of a Difference and the reason codes of a supersession answer the same
  question: some code is given exactly when the identity changes. An unordered set has one
  canonical form whatever the order of its members.
\<close>

section \<open>Trees and bytes\<close>

text \<open>\<open>t\<close> is the canonical tree of the canonical projection of \<open>v\<close>.\<close>

definition tree_of :: "ext \<Rightarrow> json \<Rightarrow> json \<Rightarrow> bool" where
  "tree_of E v t \<longleftrightarrow> (\<exists>w. canonical_semantic E v = Inr w \<and> canonical_tree E [] w = Inr t)"

lemma canonA_iff: "canonA E v = Inr b \<longleftrightarrow> canonical_json_bytes E v = Inr b"
  by (simp add: canonA_def)

lemma canonical_bytes_tree:
  assumes "canonical_bytes E v = Inr b"
  obtains t where "tree_of E v t" and "utf8_encode (dumps t) = Some b"
  using assms by (auto simp: canonical_bytes_def canonA_iff canonical_json_bytes_iff tree_of_def)

lemma tree_of_unique: "tree_of E v t \<Longrightarrow> tree_of E v s \<Longrightarrow> t = s"
  by (auto simp: tree_of_def)

lemma tree_of_canon: "tree_of E v t \<Longrightarrow> canon t"
  by (auto simp: tree_of_def intro: canonical_tree_canon)

lemma same_bytes_same_tree:
  assumes "canonical_bytes E v = Inr a" and "canonical_bytes E w = Inr b"
    and "tree_of E v s" and "tree_of E w t"
  shows "a = b \<longleftrightarrow> s = t"
proof -
  have s: "utf8_encode (dumps s) = Some a" and t: "utf8_encode (dumps t) = Some b"
    using assms canonical_bytes_tree tree_of_unique by metis+
  show ?thesis
    using s t utf8_encode_inj [of "dumps s" b "dumps t"] dumps_inj tree_of_canon assms(3,4) by auto
qed

lemma canonical_tree_path:
  "set_like p = set_like q \<Longrightarrow> canonical_tree E p v = canonical_tree E q v"
proof (induction v arbitrary: p q)
  case (JList xs)
  have "mapE (canonical_tree E (p @ [u ''[]''])) xs = mapE (canonical_tree E (q @ [u ''[]''])) xs"
    by (intro mapE_cong JList.IH) simp_all
  then show ?case using JList.prems by (simp add: canonical_tree.simps)
next
  case (JObj kvs)
  have "canonical_tree E (p @ [k]) (snd kv) = canonical_tree E (q @ [k]) (snd kv)" if "kv \<in> set kvs" for kv k
    using that by (intro JObj.IH) (auto simp: snds.simps)
  then show ?case by (simp add: canonical_tree.simps cong: foldE_cong)
next
  case (JObjBad kvs)
  have "canonical_tree E (p @ [k]) (snd kv) = canonical_tree E (q @ [k]) (snd kv)" if "kv \<in> set kvs" for kv k
    using that by (intro JObjBad.IH) (auto simp: snds.simps)
  then show ?case by (simp add: canonical_tree.simps cong: foldE_cong)
qed (simp_all add: canonical_tree.simps)

section \<open>Objects with given keys\<close>

definition plain_keys :: "ustr list \<Rightarrow> bool" where
  "plain_keys ks \<longleftrightarrow> distinct ks \<and> (\<forall>k \<in> set ks. plain_str k \<and> k \<notin> set set_like_fields \<and> k \<noteq> u ''collection_kind'')"

lemma all2_unique:
  assumes "list_all2 (tree_of E) xs ts" and "list_all2 (tree_of E) xs ss"
  shows "ts = ss"
  using assms
proof (induction xs ts arbitrary: ss rule: list_all2_induct)
  case (Cons x xs t ts)
  then obtain s ss' where "ss = s # ss'" "tree_of E x s" "list_all2 (tree_of E) xs ss'"
    by (auto simp: list_all2_Cons1)
  then show ?case using Cons.IH tree_of_unique [OF Cons.hyps(1)] by simp
qed simp

lemma tree_of_object:
  assumes E: "nfc_ascii E" and ks: "plain_keys ks" and len: "length ks = length xs"
    and t: "tree_of E (JObj (zip ks xs)) t"
  obtains ts where "list_all2 (tree_of E) xs ts" and "t = JObj (sort_key fst (zip ks ts))"
proof -
  obtain kvs where m: "mapE (\<lambda>(k, x). bindE (canonical_semantic E x) (\<lambda>y. Inr (k, y))) (zip ks xs) = Inr kvs"
    and s: "bindE (sort_members E kvs) (\<lambda>w. mapErr AuthCanon (canonical_tree E [] w)) = Inr t"
    using t by (auto simp: tree_of_def)
  have rel: "list_all2 (\<lambda>(k, x) (j, y). canonical_semantic E x = Inr y \<and> j = k) (zip ks xs) kvs"
    using m by (auto simp: mapE_Inr_iff elim!: list.rel_mono_strong)
  then have fst: "map fst kvs = ks" and lk: "length kvs = length xs"
    using len by (auto simp: list_all2_conv_all_nth split_beta intro!: nth_equalityI)
  have "map_of kvs (u ''collection_kind'') = None"
    using ks by (simp add: plain_keys_def map_of_eq_None_iff flip: fst) auto
  then have "canonical_tree E [] (JObj kvs) = Inr t" using s by (simp add: sort_members_def)
  then obtain cs where cs: "list_all2 (member_ok E []) kvs cs" "t = JObj (sort_key fst cs)"
    by (auto simp: canonical_obj_iff)
  have kc: "fst (cs ! i) = ks ! i \<and> canonical_tree E [] (snd (kvs ! i)) = Inr (snd (cs ! i))"
    if "i < length cs" for i
  proof -
    have ok: "member_ok E [] (kvs ! i) (cs ! i)" and i: "i < length kvs"
      using cs(1) that by (auto simp: list_all2_conv_all_nth)
    have "fst (kvs ! i) = ks ! i" using fst i by (metis nth_map)
    moreover have "plain_str (ks ! i)" "ks ! i \<notin> set set_like_fields"
      using ks i lk len by (auto simp: plain_keys_def)
    ultimately show ?thesis
      using ok plain_normalize [OF E] canonical_tree_path [of "[ks ! i]" "[]"] 
        set_like_simps(3) [of "[]" "ks ! i"] by (auto simp: member_ok_def)
  qed
  have lc: "length cs = length xs" using cs(1) lk by (simp add: list_all2_lengthD)
  have "list_all2 (tree_of E) xs (map snd cs)"
    using rel kc lc lk len by (fastforce simp: list_all2_conv_all_nth tree_of_def)
  moreover have "cs = zip ks (map snd cs)"
    using kc lc len by (intro nth_equalityI) (auto simp: prod_eq_iff)
  ultimately show ?thesis using that [of "map snd cs"] cs(2) by metis
qed

lemma sort_zip_inj:
  assumes "distinct ks" and "length ks = length xs" and "length ks = length ys"
    and "sort_key fst (zip ks xs) = sort_key fst (zip ks ys)"
  shows "xs = ys"
proof -
  have "map_of (zip ks xs) = map_of (zip ks ys)"
    using assms map_of_sort_key [of "zip ks xs"] map_of_sort_key [of "zip ks ys"] by simp
  then show ?thesis using assms(1-3) by (metis map_of_zip_inject)
qed

lemma same_object_bytes:
  assumes E: "nfc_ascii E" and ks: "plain_keys ks" and len: "length ks = length xs" "length ks = length ys"
    and a: "canonical_bytes E (JObj (zip ks xs)) = Inr a" and b: "canonical_bytes E (JObj (zip ks ys)) = Inr b"
  shows "a = b \<longleftrightarrow> (\<exists>ts. list_all2 (tree_of E) xs ts \<and> list_all2 (tree_of E) ys ts)"
proof -
  obtain s t where s: "tree_of E (JObj (zip ks xs)) s" and t: "tree_of E (JObj (zip ks ys)) t"
    using canonical_bytes_tree a b by metis
  obtain ss where ss: "list_all2 (tree_of E) xs ss" "s = JObj (sort_key fst (zip ks ss))"
    using tree_of_object [OF E ks len(1) s] .
  obtain ts where ts: "list_all2 (tree_of E) ys ts" "t = JObj (sort_key fst (zip ks ts))"
    using tree_of_object [OF E ks len(2) t] .
  have "a = b \<longleftrightarrow> s = t" by (rule same_bytes_same_tree [OF a b s t])
  also have "\<dots> \<longleftrightarrow> ss = ts"
    using ss ts len ks sort_zip_inj [of ks ss ts] by (auto simp: plain_keys_def list_all2_lengthD)
  also have "\<dots> \<longleftrightarrow> (\<exists>zs. list_all2 (tree_of E) xs zs \<and> list_all2 (tree_of E) ys zs)"
    using ss(1) ts(1) all2_unique by metis
  finally show ?thesis .
qed

section \<open>Supersession\<close>

definition identity_keys :: "ustr list" where
  "identity_keys = map (u \<circ> fst) identity_sources @ [u ''closure_policy_semantic_fingerprint'', u ''identity_profile'']"

lemma plain_identity_keys: "plain_keys identity_keys"
  by (simp add: plain_keys_def identity_keys_def identity_sources_def set_like_fields_def)
    (simp add: u_Cons)

text \<open>The values of the identity tuple, in its order.\<close>

definition identity_values :: "json \<Rightarrow> auth_error + json list" where
  "identity_values d = bindE (mapE (afield d \<circ> snd) identity_sources) (\<lambda>xs.
     bindE (closure_policy_fingerprint d) (\<lambda>fp. Inr (xs @ [fp, JStr identity_profile])))"

lemma identity_input_zip:
  "difference_identity_input d = Inr v \<longleftrightarrow> (\<exists>xs. identity_values d = Inr xs \<and> v = JObj (zip identity_keys xs))"
  by (auto simp: difference_identity_input_def identity_values_def identity_sources_def identity_keys_def)

lemma length_identity: "identity_values d = Inr xs \<Longrightarrow> length identity_keys = length xs"
  by (auto simp: identity_values_def identity_sources_def identity_keys_def)

lemma anyE_True: "anyE cs = Inr True \<Longrightarrow> Inr True \<in> set cs"
proof (induction cs)
  case (Cons c cs)
  then show ?case by (cases c) (auto split: if_splits)
qed simp

definition compared_fields :: "string list" where
  "compared_fields = concat (map snd supersession_comparisons)"

lemma compared_fields_eq: "set compared_fields = set (map snd identity_sources)"
  by (auto simp: compared_fields_def supersession_comparisons_def identity_sources_def)

lemma reason_codes_iff:
  assumes "supersession_reason_codes E old new = Inr cs"
  obtains a b where "closure_policy_fingerprint old = Inr a" and "closure_policy_fingerprint new = Inr b"
    and "cs = [] \<longleftrightarrow> (\<forall>f \<in> set compared_fields. field_changed E old new f = Inr False) \<and> py_eq a b"
    and "cs \<noteq> [] \<longleftrightarrow> (\<exists>f \<in> set compared_fields. field_changed E old new f = Inr True) \<or> \<not> py_eq a b"
proof -
  let ?any = "\<lambda>(code :: string, fields). anyE (map (field_changed E old new) fields)"
  obtain codes a b where codes: "filterE ?any supersession_comparisons = Inr codes"
    and a: "closure_policy_fingerprint old = Inr a" and b: "closure_policy_fingerprint new = Inr b"
    and cs: "cs = map fst codes @ (if py_eq a b then [] else [''CLOSURE_POLICY_SEMANTICS_CHANGED''])"
    using assms by (auto simp: supersession_reason_codes_def)
  have total: "\<forall>x \<in> set supersession_comparisons. \<exists>b. ?any x = Inr b"
    and filter: "codes = filter (\<lambda>x. ?any x = Inr True) supersession_comparisons"
    using codes by (auto simp: filterE_Inr_iff)
  have empty: "codes = [] \<longleftrightarrow> (\<forall>f \<in> set compared_fields. field_changed E old new f = Inr False)"
  proof
    assume "codes = []"
    then have none: "\<forall>x \<in> set supersession_comparisons. ?any x \<noteq> Inr True" by (simp add: filter filter_empty_conv)
    have "?any x = Inr False" if "x \<in> set supersession_comparisons" for x
      using total none that by (metis (full_types))
    then show "\<forall>f \<in> set compared_fields. field_changed E old new f = Inr False"
      by (fastforce simp: compared_fields_def anyE_False_iff)
  next
    assume "\<forall>f \<in> set compared_fields. field_changed E old new f = Inr False"
    then have "\<forall>x \<in> set supersession_comparisons. ?any x = Inr False"
      by (auto simp: compared_fields_def anyE_False_iff)
    then show "codes = []" by (auto simp: filter filter_empty_conv)
  qed
  have some: "\<exists>f \<in> set compared_fields. field_changed E old new f = Inr True" if ne: "codes \<noteq> []"
  proof -
    obtain x where x: "x \<in> set codes" using ne by (cases codes) auto
    then have "?any x = Inr True" "x \<in> set supersession_comparisons" by (simp_all add: filter)
    moreover obtain code fields where "x = (code, fields)" by (cases x)
    ultimately have "Inr True \<in> set (map (field_changed E old new) fields)"
      "set fields \<subseteq> set compared_fields"
      by (auto simp: compared_fields_def dest: anyE_True)
    then show ?thesis by auto
  qed
  have "cs = [] \<longleftrightarrow> codes = [] \<and> py_eq a b" using cs by simp
  moreover from this have "cs \<noteq> [] \<longleftrightarrow> (\<exists>f \<in> set compared_fields. field_changed E old new f = Inr True) \<or> \<not> py_eq a b"
    using empty some by auto
  ultimately show ?thesis using that [OF a b] empty by simp
qed

definition treeE :: "ext \<Rightarrow> json \<Rightarrow> auth_error + json" where
  "treeE E v = bindE (canonical_semantic E v) (\<lambda>w. mapErr AuthCanon (canonical_tree E [] w))"

lemma treeE_iff: "treeE E v = Inr t \<longleftrightarrow> tree_of E v t"
  by (auto simp: treeE_def tree_of_def)

lemma trees_map: "list_all2 (tree_of E) xs ts \<longleftrightarrow> map (treeE E) xs = map Inr ts"
  by (auto simp: list_all2_conv_all_nth treeE_iff list_eq_iff_nth_eq)

lemma field_changed_tree:
  assumes "field_changed E old new f = Inr c"
  shows "c \<longleftrightarrow> treeE E (the (jfield old f)) \<noteq> treeE E (the (jfield new f))"
proof -
  obtain x y a b where xy: "jfield old f = Some x" "jfield new f = Some y"
    and a: "canonical_bytes E x = Inr a" and b: "canonical_bytes E y = Inr b" and c: "c \<longleftrightarrow> a \<noteq> b"
    using assms by (auto simp: field_changed_def)
  obtain s t where s: "tree_of E x s" and t: "tree_of E y t"
    using canonical_bytes_tree a b by metis
  then have "treeE E x = Inr s" "treeE E y = Inr t" by (simp_all add: treeE_iff)
  then show ?thesis using same_bytes_same_tree [OF a b s t] xy c by simp
qed

lemma tree_of_plain_str: "nfc_ascii E \<Longrightarrow> plain_str s \<Longrightarrow> tree_of E (JStr s) t \<longleftrightarrow> t = JStr s"
  by (auto simp: tree_of_def plain_normalize)

lemma hex_digit_range: "n < 16 \<Longrightarrow> 48 \<le> hex_digit n \<and> hex_digit n \<le> 57 \<or> 97 \<le> hex_digit n \<and> hex_digit n \<le> 102"
  by (simp add: hex_digit_def)

lemma hex_upper_inj: "ascii_upper (sha256_hex a) = ascii_upper (sha256_hex b) \<Longrightarrow> sha256_hex a = sha256_hex b"
proof -
  have hex: "48 \<le> c \<and> c \<le> 57 \<or> 97 \<le> c \<and> c \<le> 102" if "c \<in> set (sha256_hex m)" for c m
  proof -
    obtain b :: byte where "c = hex_digit (unat b div 16) \<or> c = hex_digit (unat b mod 16)"
      using \<open>c \<in> set (sha256_hex m)\<close> by (auto simp: sha256_hex_def hex_bytes_def)
    moreover have "unat b < 256" by (rule unsigned_less [where 'b = 8, simplified])
    then have "unat b div 16 < 16" "unat b mod 16 < 16" by (auto simp: less_mult_imp_div_less)
    ultimately show ?thesis using hex_digit_range by metis
  qed
  assume "ascii_upper (sha256_hex a) = ascii_upper (sha256_hex b)"
  then show ?thesis
    unfolding ascii_upper_def
    by (rule map_inj_on) (use hex in \<open>fastforce simp: inj_on_def split: if_splits\<close>)
qed

lemma difference_id_iff: "difference_id E d = Inr i \<longleftrightarrow>
    (\<exists>xs b. identity_values d = Inr xs \<and> canonical_bytes E (JObj (zip identity_keys xs)) = Inr b
      \<and> i = u ''D-'' @ ascii_upper (sha256_hex b))"
  by (auto simp: difference_id_def identity_input_zip upper_id_def hashed_def)

lemma identity_values_fields:
  assumes "identity_values d = Inr xs" and "closure_policy_fingerprint d = Inr p"
  shows "xs = map (\<lambda>f. the (jfield d f)) (map snd identity_sources) @ [p, JStr identity_profile]"
proof -
  obtain ys where ys: "mapE (afield d \<circ> snd) identity_sources = Inr ys" "xs = ys @ [p, JStr identity_profile]"
    using assms by (auto simp: identity_values_def)
  then have "ys = map (\<lambda>f. the (jfield d f)) (map snd identity_sources)"
    by (auto simp: mapE_Inr_iff list_all2_conv_all_nth intro!: nth_equalityI)
  then show ?thesis using ys(2) by simp
qed

lemma identity_trees:
  assumes old: "identity_values old = Inr xs" "closure_policy_fingerprint old = Inr p" "list_all2 (tree_of E) xs ss"
    and new: "identity_values new = Inr ys" "closure_policy_fingerprint new = Inr q" "list_all2 (tree_of E) ys ts"
  shows "ss = ts \<longleftrightarrow>
    (\<forall>f \<in> set compared_fields. treeE E (the (jfield old f)) = treeE E (the (jfield new f)))
    \<and> treeE E p = treeE E q"
proof -
  have "ss = ts \<longleftrightarrow> map (treeE E) xs = map (treeE E) ys"
    using old(3) new(3) by (auto simp: trees_map inj_map_eq_map)
  then show ?thesis
    unfolding identity_values_fields [OF old(1,2)] identity_values_fields [OF new(1,2)] compared_fields_eq
    by (auto simp: comp_def)
qed

definition identity_bytes :: "ext \<Rightarrow> json \<Rightarrow> auth_error + bytes" where
  "identity_bytes E d = bindE (difference_identity_input d) (canonical_bytes E)"

lemma identity_bytes_iff: "identity_bytes E d = Inr b \<longleftrightarrow>
    (\<exists>xs. identity_values d = Inr xs \<and> canonical_bytes E (JObj (zip identity_keys xs)) = Inr b)"
  by (auto simp: identity_bytes_def identity_input_zip)

text \<open>The reason codes of a supersession are complete and sound: they are empty exactly when the
  two records have the same identity, unless the two identity payloads collide under
  SHA-256.\<close>

theorem supersession_codes_identity:
  assumes E: "nfc_ascii E"
    and codes: "supersession_reason_codes E old new = Inr cs"
    and ids: "difference_id E old = Inr i" "difference_id E new = Inr j"
    and fps: "closure_policy_fingerprint old = Inr (JStr p)" "closure_policy_fingerprint new = Inr (JStr q)"
    and plain: "plain_str p" "plain_str q"
  shows "(cs = [] \<longleftrightarrow> i = j) \<or>
    (\<exists>a b. identity_bytes E old = Inr a \<and> identity_bytes E new = Inr b \<and> sha256_collision a b)"
proof -
  obtain xs a where xs: "identity_values old = Inr xs" "canonical_bytes E (JObj (zip identity_keys xs)) = Inr a"
    and i: "i = u ''D-'' @ ascii_upper (sha256_hex a)"
    using ids(1) by (auto simp: difference_id_iff)
  obtain ys b where ys: "identity_values new = Inr ys" "canonical_bytes E (JObj (zip identity_keys ys)) = Inr b"
    and j: "j = u ''D-'' @ ascii_upper (sha256_hex b)"
    using ids(2) by (auto simp: difference_id_iff)
  obtain ss ts where ss: "list_all2 (tree_of E) xs ss" and ts: "list_all2 (tree_of E) ys ts"
    using canonical_bytes_tree tree_of_object [OF E plain_identity_keys length_identity] xs ys by metis
  have "a = b \<longleftrightarrow> ss = ts"
    using same_object_bytes [OF E plain_identity_keys length_identity [OF xs(1)] length_identity [OF ys(1)] xs(2) ys(2)]
      ss ts all2_unique by metis
  also have "\<dots> \<longleftrightarrow> cs = []"
  proof -
    have fp: "treeE E (JStr p) = treeE E (JStr q) \<longleftrightarrow> p = q"
      using tree_of_plain_str [OF E plain(1)] tree_of_plain_str [OF E plain(2)]
      by (metis json.inject(4) treeE_iff)
    show ?thesis
      using reason_codes_iff [OF codes] field_changed_tree [of E old new] fps fp
        identity_trees [OF xs(1) fps(1) ss ys(1) fps(2) ts] by (smt (verit) Inr_inject py_eq_simps(1))
  qed
  finally have "a = b \<longleftrightarrow> cs = []" .
  moreover have "i = j \<longleftrightarrow> a = b \<or> sha256_hex a = sha256_hex b"
    using i j hex_upper_inj by auto
  moreover have "identity_bytes E old = Inr a" "identity_bytes E new = Inr b"
    using xs ys by (auto simp: identity_bytes_iff)
  ultimately show ?thesis by (auto simp: sha256_collision_def)
qed

definition ex_difference :: "string \<Rightarrow> json" where
  "ex_difference project = JObj
     [(u ''project_id'', JStr (u project)), (u ''objective_semantic_fingerprint'', JStr (u ''sha256:0'')),
      (u ''target_predicate_ref'', JObj [(u ''kind'', JStr (u ''target_predicate'')), (u ''id'', JStr (u ''TP''))]),
      (u ''subject'', JStr (u ''build'')), (u ''observation_scope'', JList [JStr (u ''b''), JStr (u ''a'')]),
      (u ''effective_boundary'', JNull), (u ''normalized_target_state'', JInt 1),
      (u ''structural_difference'', JBool True),
      (u ''closure_policy'', JObj [(u ''semantic_fingerprint'', JStr (u ''sha256:1''))])]"

lemma ex_difference_fields [simp]:
  "jfield (ex_difference p) ''project_id'' = Some (JStr (u p))"
  "jfield (ex_difference p) ''objective_semantic_fingerprint'' = Some (JStr (u ''sha256:0''))"
  "jfield (ex_difference p) ''target_predicate_ref'' = Some (JObj [(u ''kind'', JStr (u ''target_predicate'')), (u ''id'', JStr (u ''TP''))])"
  "jfield (ex_difference p) ''subject'' = Some (JStr (u ''build''))"
  "jfield (ex_difference p) ''observation_scope'' = Some (JList [JStr (u ''b''), JStr (u ''a'')])"
  "jfield (ex_difference p) ''effective_boundary'' = Some JNull"
  "jfield (ex_difference p) ''normalized_target_state'' = Some (JInt 1)"
  "jfield (ex_difference p) ''structural_difference'' = Some (JBool True)"
  "jfield (ex_difference p) ''closure_policy'' = Some (JObj [(u ''semantic_fingerprint'', JStr (u ''sha256:1''))])"
  by (simp_all add: jfield_def ex_difference_def)

lemma ex_closure [simp]: "closure_policy_fingerprint (ex_difference p) = Inr (JStr (u ''sha256:1''))"
  by (simp add: closure_policy_fingerprint_def afield_def) (simp add: jfield_def)

lemma not_set_semantic: "map_of kvs (u ''collection_kind'') = None \<Longrightarrow> sort_members E kvs = Inr (JObj kvs)"
  by (simp add: sort_members_def)

lemma ex_plain_keys:
  "\<forall>k \<in> set (identity_keys @ [u ''kind'', u ''id'']). plain_str k \<and> \<not> secret_key ascii_ext k \<and> k \<notin> set set_like_fields"
proof -
  have "\<forall>k \<in> set (identity_keys @ [u ''kind'', u ''id'']). word_key k \<and> k \<notin> set secret_keys \<and> k \<notin> set set_like_fields"
    by (simp add: identity_keys_def identity_sources_def word_key_def secret_keys_def set_like_fields_def)
      (simp add: u_Cons)
  then show ?thesis using secret_word_key word_key_plain by blast
qed

lemma ex_identity_bytes:
  assumes "plain_str (u p)"
  obtains b where "identity_bytes ascii_ext (ex_difference p) = Inr b"
    and "difference_id ascii_ext (ex_difference p) = Inr (u ''D-'' @ ascii_upper (sha256_hex b))"
proof -
  obtain v where v: "difference_identity_input (ex_difference p) = Inr v" "canonical_semantic ascii_ext v = Inr v"
    "plain_any ascii_ext False v"
    using ex_plain_keys assms
    by (simp add: difference_identity_input_def identity_sources_def identity_profile_def identity_keys_def
        afield_def not_set_semantic) (simp add: u_Cons)
  have "canonical_bytes ascii_ext v = Inr (map of_nat (dumps (sort_keys v)))"
    using v plain_any_canonical [OF nfc_ascii_example v(3)] by (simp add: canonical_bytes_def canonA_def)
  then show ?thesis using that v by (simp add: identity_bytes_def difference_id_def upper_id_def hashed_def)
qed

lemma ex_canonical_bytes:
  "canonical_bytes ascii_ext (JStr (u s)) = Inr (map of_nat (dumps (JStr (u s))))" if "plain_str (u s)"
  using that plain_any_canonical [OF nfc_ascii_example, of "JStr (u s)"] by (simp add: canonical_bytes_def canonA_def)

lemma field_unchanged:
  assumes "jfield old f = Some v" and "jfield new f = Some v"
    and "canonical_semantic ascii_ext v = Inr v" and "plain_any ascii_ext False v"
  shows "field_changed ascii_ext old new f = Inr False"
  using assms plain_any_canonical [OF nfc_ascii_example assms(4)]
  by (simp add: field_changed_def afield_def canonical_bytes_def canonA_def)

lemma ex_codes:
  "supersession_reason_codes ascii_ext (ex_difference ''PRJ-A'') (ex_difference ''PRJ-B'') = Inr [''PROJECT_CHANGED'']"
proof -
  let ?old = "ex_difference ''PRJ-A''" and ?new = "ex_difference ''PRJ-B''"
  have plain: "plain_str (u ''PRJ-A'')" "plain_str (u ''PRJ-B'')" by (simp_all add: u_Cons)
  have "dump_str (u ''PRJ-A'') \<noteq> dump_str (u ''PRJ-B'')" by (simp add: dump_str_def escape_char_def u_Cons)
  then have "field_changed ascii_ext ?old ?new ''project_id'' = Inr True"
    using ex_canonical_bytes [OF plain(1)] ex_canonical_bytes [OF plain(2)]
      plain_any_canonical [OF nfc_ascii_example, of "JStr (u ''PRJ-A'')"] plain
    by (simp add: field_changed_def afield_def) (simp add: dump_str_def escape_char_def u_Cons)
  moreover have "field_changed ascii_ext ?old ?new f = Inr False"
    if "f \<in> set (tl compared_fields)" for f
    using that ex_plain_keys
    by (simp add: compared_fields_def supersession_comparisons_def)
      (elim disjE; simp, rule field_unchanged, simp, simp, simp add: not_set_semantic, simp add: u_Cons)
  ultimately show ?thesis
    by (simp add: supersession_reason_codes_def supersession_comparisons_def compared_fields_def)
qed

theorem supersession_codes_identity_witness:
  "\<exists>a b i j. identity_bytes ascii_ext (ex_difference ''PRJ-A'') = Inr a
     \<and> identity_bytes ascii_ext (ex_difference ''PRJ-B'') = Inr b
     \<and> difference_id ascii_ext (ex_difference ''PRJ-A'') = Inr i
     \<and> difference_id ascii_ext (ex_difference ''PRJ-B'') = Inr j \<and> (i \<noteq> j \<or> sha256_collision a b)"
proof -
  have plain: "plain_str (u ''PRJ-A'')" "plain_str (u ''PRJ-B'')" "plain_str (u ''sha256:1'')"
    by (simp_all add: u_Cons)
  obtain a where a: "identity_bytes ascii_ext (ex_difference ''PRJ-A'') = Inr a"
    "difference_id ascii_ext (ex_difference ''PRJ-A'') = Inr (u ''D-'' @ ascii_upper (sha256_hex a))"
    using ex_identity_bytes [OF plain(1)] .
  obtain b where b: "identity_bytes ascii_ext (ex_difference ''PRJ-B'') = Inr b"
    "difference_id ascii_ext (ex_difference ''PRJ-B'') = Inr (u ''D-'' @ ascii_upper (sha256_hex b))"
    using ex_identity_bytes [OF plain(2)] .
  show ?thesis
    using supersession_codes_identity [OF nfc_ascii_example ex_codes a(2) b(2) ex_closure ex_closure plain(3) plain(3)]
      a b by auto
qed

section \<open>Unordered sets\<close>

lemma sort_encoded_key: "sort_encoded (map g xs) xs = sort_key g xs"
proof -
  have "zip (map g xs) xs = map (\<lambda>x. (g x, x)) xs" by (simp add: zip_map1 zip_same_conv_map)
  then show ?thesis by (simp add: sort_encoded_def map_sort_key_pairs)
qed

lemma unordered_set_iff: "unordered_set E xs = Inr v \<longleftrightarrow>
    (\<forall>x \<in> set xs. \<exists>w. canonical_semantic E x = Inr w \<and> (\<exists>b. canonA E w = Inr b))
    \<and> distinct (map (\<lambda>x. projr (canonA E (projr (canonical_semantic E x)))) xs)
    \<and> v = set_wrapper (sort_key (\<lambda>w. projr (canonA E w)) (map (\<lambda>x. projr (canonical_semantic E x)) xs))"
  by (auto simp: unordered_set_def mapE_total sort_encoded_key comp_def) fastforce+

text \<open>An unordered set is a set: the wrapper written for its members does not depend on the
  order they are given in.\<close>

theorem unordered_set_order_free:
  assumes "unordered_set E xs = Inr v" and "mset ys = mset xs"
  shows "unordered_set E ys = Inr v"
proof -
  let ?g = "\<lambda>w. projr (canonA E w)" and ?h = "\<lambda>x. projr (canonical_semantic E x)"
  have set: "set ys = set xs" using assms(2) by (rule mset_eq_setD)
  have d: "distinct (map ?g (map ?h xs))" using assms(1) by (simp add: unordered_set_iff comp_def)
  have m: "mset (map ?h ys) = mset (map ?h xs)" using assms(2) by simp
  then have "distinct (map ?g (map ?h ys))"
    using d by (metis mset_eq_imp_distinct_iff mset_map)
  moreover have "sort_key ?g (map ?h ys) = sort_key ?g (map ?h xs)"
    by (rule sort_key_distinct_perm [OF m]) (use calculation in simp)
  ultimately show ?thesis using assms(1) by (simp add: unordered_set_iff set comp_def)
qed

lemma ex_set: "unordered_set ascii_ext [JInt 2, JInt 1] = Inr (set_wrapper [JInt 1, JInt 2])"
  by (simp add: unordered_set_def canonA_def canonical_json_bytes_def encode_tree_def dec_int_def dec_nat.simps
      utf8_encode_def utf8_char_def encodable_def surrogate_def sort_encoded_def)

theorem unordered_set_order_free_witness:
  "unordered_set ascii_ext [JInt 1, JInt 2] = Inr (set_wrapper [JInt 1, JInt 2])"
  using unordered_set_order_free [OF ex_set, of "[JInt 1, JInt 2]"] by simp

end
