(* ===== verification/InstantProps.thy ===== *)
theory InstantProps
  imports Instant
begin

text \<open>
  What the two timestamp grammars guarantee: a stored field has one spelling per instant, and
  comparing the digits of two fractions as strings compares the numbers they write.
\<close>

section \<open>Digits and numbers\<close>

lemma digits_value_acc: "digits_value a ds = a * 10 ^ length ds + digits_value 0 ds"
proof (induction ds rule: rev_induct)
  case (snoc d ds)
  then show ?case by (simp add: digits_value_def algebra_simps)
qed (simp add: digits_value_def)

lemma digits_value_Cons: "digits_value 0 (d # ds) = (d - 48) * 10 ^ length ds + digits_value 0 ds"
  using digits_value_acc [of "d - 48" ds] by (simp add: digits_value_def)

lemma digits_value_bound: "list_all is_digit ds \<Longrightarrow> digits_value 0 ds < 10 ^ length ds"
proof (induction ds)
  case (Cons d ds)
  then have d: "d - 48 \<le> 9" and IH: "digits_value 0 ds < 10 ^ length ds"
    by (auto simp: is_digit_def)
  have "(d - 48) * 10 ^ length ds \<le> 9 * 10 ^ length ds" using d by (rule mult_le_mono1)
  then have "(d - 48) * 10 ^ length ds + digits_value 0 ds < 9 * 10 ^ length ds + 10 ^ length ds"
    using IH by (rule add_le_less_mono)
  then show ?case by (simp add: digits_value_Cons)
qed (simp add: digits_value_def)

lemma div_mod_unique:
  fixes a b c d n :: nat
  assumes "a * n + b = c * n + d" and "b < n" and "d < n"
  shows "a = c \<and> b = d"
proof -
  have "(a * n + b) div n = a" "(a * n + b) mod n = b" "(c * n + d) div n = c" "(c * n + d) mod n = d"
    using assms(2,3) by simp_all
  then show ?thesis using assms(1) by metis
qed

lemma digits_value_inj:
  assumes "list_all is_digit a" and "list_all is_digit b" and "length a = length b"
    and "digits_value 0 a = digits_value 0 b"
  shows "a = b"
  using assms
proof (induction a arbitrary: b)
  case (Cons d ds)
  then obtain e es where b: "b = e # es" by (cases b) auto
  have len: "length es = length ds" using Cons.prems b by simp
  have eq: "(d - 48) * 10 ^ length ds + digits_value 0 ds = (e - 48) * 10 ^ length ds + digits_value 0 es"
    using Cons.prems b len by (simp add: digits_value_Cons)
  have less: "digits_value 0 ds < 10 ^ length ds" "digits_value 0 es < 10 ^ length ds"
    using Cons.prems b len digits_value_bound [of ds] digits_value_bound [of es] by simp_all
  have "d - 48 = e - 48 \<and> digits_value 0 ds = digits_value 0 es"
    by (rule div_mod_unique [OF eq less])
  then show ?case using Cons.prems Cons.IH [of es] b len by (auto simp: is_digit_def)
qed simp

section \<open>The fixed columns of a timestamp\<close>

lemma number_at_nth:
  assumes "number_at a i n = number_at b i n" and "i + n \<le> length a" and "i + n \<le> length b"
    and "\<forall>j. i \<le> j \<and> j < i + n \<longrightarrow> nth_digit a j \<and> nth_digit b j"
    and "i \<le> j" and "j < i + n"
  shows "a ! j = b ! j"
proof -
  have "list_all is_digit (take n (drop i a))" "list_all is_digit (take n (drop i b))"
    using assms(2-4) by (auto simp: list_all_length nth_digit_def)
  then have "take n (drop i a) = take n (drop i b)"
    using assms(1-3) by (intro digits_value_inj) (auto simp: number_at_def)
  then have "take n (drop i a) ! (j - i) = take n (drop i b) ! (j - i)" by simp
  then show ?thesis using assms(2,3,5,6) by simp
qed

lemma less_numeral_cases: "i < 19 \<Longrightarrow>
    (0 \<le> i \<and> i < 4) \<or> i = 4 \<or> (5 \<le> i \<and> i < 7) \<or> i = 7 \<or> (8 \<le> i \<and> i < 10) \<or> i = 10
    \<or> (11 \<le> i \<and> i < 13) \<or> i = 13 \<or> (14 \<le> i \<and> i < 16) \<or> i = 16 \<or> (17 \<le> i \<and> (i :: nat) < 19)"
  by linarith

lemma clock_digits:
  assumes "clock_shape sep v"
    and "(i, n) \<in> {(0, 4), (5, 2), (8, 2), (11, 2), (14, 2), (17, 2)}" and "i \<le> j" and "j < i + n"
  shows "nth_digit v j"
proof -
  have "n = 2 \<or> n = 4 \<and> i = 0" using assms(2) by auto
  then have "j = i \<or> j = Suc i \<or> i = 0 \<and> (j = 2 \<or> j = 3)" using assms(3,4) by arith
  then show ?thesis using assms(1,2) by (elim disjE) (auto simp: clock_shape_def numeral_3_eq_3)
qed

lemma clock_columns_equal:
  assumes a: "clock_shape (\<lambda>c. c = 84) a" and b: "clock_shape (\<lambda>c. c = 84) b"
    and eq: "\<And>i n. (i, n) \<in> {(0, 4), (5, 2), (8, 2), (11, 2), (14, 2), (17, 2)} \<Longrightarrow>
      number_at a i n = number_at b i n"
  shows "take 19 a = take 19 b"
proof (rule nth_equalityI)
  show "length (take 19 a) = length (take 19 b)" using a b by (simp add: clock_shape_def)
  have la: "19 < length a" "19 < length b" using a b by (auto simp: clock_shape_def)
  fix i assume "i < length (take 19 a)"
  then have i: "i < 19" by simp
  have col: "a ! i = b ! i"
    if "(k, n) \<in> {(0, 4), (5, 2), (8, 2), (11, 2), (14, 2), (17, 2)}" "k \<le> i" "i < k + n" for k n
    using that la clock_digits [OF a that(1)] clock_digits [OF b that(1)] eq [OF that(1)]
    by (intro number_at_nth [of a k n b i]) auto
  have sep: "i \<in> {4, 7, 10, 13, 16} \<Longrightarrow> a ! i = b ! i" using a b by (auto simp: clock_shape_def)
  have "a ! i = b ! i"
    using less_numeral_cases [OF i]
    by (elim disjE) (rule col [of 0 4] col [of 5 2] col [of 8 2] col [of 11 2] col [of 14 2] col [of 17 2] sep; simp)+
  then show "take 19 a ! i = take 19 b ! i" using i by simp
qed

section \<open>One spelling per stored instant\<close>

lemma strip_zeros_id: "s = [] \<or> last s \<noteq> 48 \<Longrightarrow> strip_zeros s = s"
  by (cases s rule: rev_cases) (auto simp: strip_zeros_def)

lemma stored_parts:
  assumes "stored_form v"
  shows "v = take 19 v @ fraction_text v @ [90]" and "offset_text v = [90]"
    and "strip_zeros (drop 1 (fraction_text v)) = drop 1 (fraction_text v)"
proof -
  have "drop 19 v \<noteq> []" and "last (drop 19 v) = 90"
    using assms by (auto simp: stored_form_def clock_shape_def last_drop)
  then obtain xs where xs: "drop 19 v = xs @ [90]" by (metis append_butlast_last_id)
  have tail: "fraction_text v = xs" "offset_text v = [90]"
    by (simp_all add: fraction_text_def offset_text_def offset_length_def xs)
  show "offset_text v = [90]" by (rule tail)
  show "v = take 19 v @ fraction_text v @ [90]" using xs tail by (metis append_take_drop_id)
  show "strip_zeros (drop 1 (fraction_text v)) = drop 1 (fraction_text v)"
    using assms by (intro strip_zeros_id) (auto simp: stored_form_def canonical_fraction_def last_drop)
qed

lemma fraction_eq:
  assumes "canonical_fraction f" and "canonical_fraction g" and "drop 1 f = drop 1 g"
  shows "f = g"
  using assms by (cases f; cases g) (auto simp: canonical_fraction_def)

lemma seconds_of_day:
  fixes h m s h' m' s' :: nat
  assumes "3600 * h + 60 * m + s = 3600 * h' + 60 * m' + s'"
    and "m < 60" and "s < 60" and "m' < 60" and "s' < 60"
  shows "h = h' \<and> m = m' \<and> s = s'"
proof -
  have "(60 * h + m) * 60 + s = (60 * h' + m') * 60 + s'" using assms(1) by (simp add: algebra_simps)
  then have "60 * h + m = 60 * h' + m' \<and> s = s'" by (rule div_mod_unique) (rule assms)+
  then show ?thesis using div_mod_unique [of h 60 m h' m'] assms(2,4) by (simp add: mult.commute)
qed

lemma day_and_seconds:
  fixes a b x y :: nat
  assumes "86400 * (int a - c) + int x = 86400 * (int b - c) + int y" and "x < 86400" and "y < 86400"
  shows "a = b \<and> x = y"
proof -
  have "int (a * 86400 + x) = int (b * 86400 + y)" using assms(1) by (simp add: algebra_simps)
  then have "a * 86400 + x = b * 86400 + y" by (rule of_nat_eq_iff [THEN iffD1])
  then show ?thesis by (rule div_mod_unique) (rule assms)+
qed

lemma seconds_in_day:
  fixes h m s :: nat
  assumes "h < 24" and "m < 60" and "s < 60"
  shows "3600 * h + 60 * m + s < 86400"
proof -
  have "3600 * h \<le> 3600 * 23" and "60 * m \<le> 60 * 59"
    using assms by (auto intro!: mult_le_mono2)
  then show ?thesis using assms(3) by simp
qed

definition clock_numbers :: "ustr \<Rightarrow> (nat \<times> nat \<times> nat) \<times> nat \<times> nat \<times> nat" where
  "clock_numbers v = ((number_at v 0 4, number_at v 5 2, number_at v 8 2),
     number_at v 11 2, number_at v 14 2, number_at v 17 2)"

lemma parse_instant_Inr:
  "parse_instant v = Inr i \<longleftrightarrow>
     (case clock_numbers v of ((y, m, d), h, mi, s) \<Rightarrow>
        valid_date y m d \<and> h < 24 \<and> mi < 60 \<and> s < 60
        \<and> i = \<lparr> seconds_since_epoch = 86400 * (int (ordinal y m d) - int (ordinal 1970 1 1))
                + int (3600 * h + 60 * mi + s) - zone_seconds (offset_text v),
              fraction_digits = strip_zeros (drop 1 (fraction_text v)) \<rparr>)"
  by (auto simp: parse_instant_def clock_numbers_def Let_def)

lemma same_clock:
  assumes "parse_instant a = Inr i" and "parse_instant b = Inr i"
    and "offset_text a = [90]" and "offset_text b = [90]"
  shows "clock_numbers a = clock_numbers b"
proof -
  obtain y m d h mi s where a: "clock_numbers a = ((y, m, d), h, mi, s)"
    by (metis prod.collapse)
  obtain y' m' d' h' mi' s' where b: "clock_numbers b = ((y', m', d'), h', mi', s')"
    by (metis prod.collapse)
  have va: "valid_date y m d" "h < 24" "mi < 60" "s < 60"
    and vb: "valid_date y' m' d'" "h' < 24" "mi' < 60" "s' < 60"
    using assms(1,2) a b by (simp_all add: parse_instant_Inr)
  have "seconds_since_epoch i = 86400 * (int (ordinal y m d) - int (ordinal 1970 1 1)) + int (3600 * h + 60 * mi + s)"
    "seconds_since_epoch i = 86400 * (int (ordinal y' m' d') - int (ordinal 1970 1 1)) + int (3600 * h' + 60 * mi' + s')"
    using assms a b by (simp_all add: parse_instant_Inr zone_seconds_def)
  then have "ordinal y m d = ordinal y' m' d' \<and> 3600 * h + 60 * mi + s = 3600 * h' + 60 * mi' + s'"
    using seconds_in_day [OF va(2-4)] seconds_in_day [OF vb(2-4)]
    by (intro day_and_seconds [where c = "int (ordinal 1970 1 1)"]) (auto simp only:)
  then have "y = y' \<and> m = m' \<and> d = d'" and "h = h' \<and> mi = mi' \<and> s = s'"
    using ordinal_inj [OF va(1) vb(1)] seconds_of_day [of h mi s h' mi' s'] va(3,4) vb(3,4) by blast+
  then show ?thesis using a b by simp
qed

lemma parse_instant_fraction:
  "parse_instant v = Inr i \<Longrightarrow> fraction_digits i = strip_zeros (drop 1 (fraction_text v))"
  by (auto simp: parse_instant_def Let_def split: if_splits)

text \<open>One spelling per stored instant: two values that \<open>stored_instant\<close> admits as the same
  instant are the same string, so a record addressed over its text has one address per
  meaning.\<close>

theorem stored_instant_unique:
  assumes "stored_instant (JStr a) = Inr i" and "stored_instant (JStr b) = Inr i"
  shows "a = b"
proof -
  have a: "stored_form a" "parse_instant a = Inr i" and b: "stored_form b" "parse_instant b = Inr i"
    using assms by (simp_all add: stored_instant_def split: if_splits)
  have "clock_numbers a = clock_numbers b"
    by (rule same_clock [OF a(2) b(2) stored_parts(2) [OF a(1)] stored_parts(2) [OF b(1)]])
  then have "take 19 a = take 19 b"
    using a(1) b(1) by (intro clock_columns_equal) (auto simp: stored_form_def clock_numbers_def)
  moreover have "drop 1 (fraction_text a) = drop 1 (fraction_text b)"
    using parse_instant_fraction [OF a(2)] parse_instant_fraction [OF b(2)]
      stored_parts(3) [OF a(1)] stored_parts(3) [OF b(1)] by simp
  moreover have "canonical_fraction (fraction_text a)" "canonical_fraction (fraction_text b)"
    using a(1) b(1) by (simp_all only: stored_form_def)
  ultimately have "fraction_text a = fraction_text b" and "take 19 a = take 19 b"
    by (simp_all add: fraction_eq)
  then show ?thesis using stored_parts(1) [OF a(1)] stored_parts(1) [OF b(1)] by simp
qed

lemmas instant_eval =
  parse_instant_def number_at_def digits_value_def valid_date_def ordinal_def days_before_year_def
  days_before_month_def days_in_month_def leap_def upt_rec zone_seconds_def strip_zeros_def
  fraction_text_def offset_text_def offset_length_def u_Cons

lemma half_past_shape: "stored_form (u ''2026-06-01T00:00:00.5Z'')"
  by (simp add: stored_form_def clock_shape_def nth_digit_def is_digit_def u_Cons canonical_fraction_def
      fraction_text_def offset_length_def)

lemma half_past:
  "stored_instant (JStr (u ''2026-06-01T00:00:00.5Z''))
    = Inr \<lparr> seconds_since_epoch = 1780272000, fraction_digits = u ''5'' \<rparr>"
  by (simp add: stored_instant_def half_past_shape) (simp add: instant_eval)

theorem stored_instant_unique_witness: "u ''2026-06-01T00:00:00.5Z'' = u ''2026-06-01T00:00:00.5Z''"
  using stored_instant_unique [OF half_past half_past] by simp

section \<open>String order is numeric order\<close>

text \<open>The number of units of \<open>10 ^ -n\<close> seconds since 1970, exact when the fraction has at most
  \<open>n\<close> digits.\<close>

definition fraction_units :: "nat \<Rightarrow> ustr \<Rightarrow> nat" where
  "fraction_units n f = digits_value 0 f * 10 ^ (n - length f)"

definition instant_units :: "nat \<Rightarrow> instant \<Rightarrow> int" where
  "instant_units n i = seconds_since_epoch i * 10 ^ n + int (fraction_units n (fraction_digits i))"

definition trimmed :: "ustr \<Rightarrow> bool" where
  "trimmed f \<longleftrightarrow> list_all is_digit f \<and> (f = [] \<or> last f \<noteq> 48)"

lemma fraction_units_Cons:
  "length ds \<le> m \<Longrightarrow> fraction_units (Suc m) (d # ds) = (d - 48) * 10 ^ m + fraction_units m ds"
  by (simp add: fraction_units_def digits_value_Cons algebra_simps flip: power_add)

lemma fraction_units_bound:
  assumes "list_all is_digit f" and "length f \<le> n"
  shows "fraction_units n f < 10 ^ n"
proof -
  have "fraction_units n f < 10 ^ length f * 10 ^ (n - length f)"
    using digits_value_bound [OF assms(1)] by (simp add: fraction_units_def)
  then show ?thesis using assms(2) by (simp flip: power_add)
qed

lemma lex_units:
  fixes a b c d n :: nat
  assumes "b < n" and "d < n"
  shows "a * n + b \<le> c * n + d \<longleftrightarrow> a < c \<or> a = c \<and> b \<le> d"
proof -
  have less: "x * n + y < z * n + w" if "x < z" "y < n" for x y z w
  proof -
    have "Suc x * n \<le> z * n" using that(1) by (intro mult_le_mono1) simp
    then show ?thesis using that(2) by simp
  qed
  show ?thesis using less [of a c b d] less [of c a d b] assms by (cases a c rule: linorder_cases) auto
qed

lemma fraction_units_pos: "trimmed f \<Longrightarrow> f \<noteq> [] \<Longrightarrow> 0 < fraction_units n f"
  by (cases f rule: rev_cases) (auto simp: trimmed_def is_digit_def fraction_units_def digits_value_def)

lemma fraction_order:
  assumes "trimmed f" and "trimmed g" and "length f \<le> n" and "length g \<le> n"
  shows "f \<le> g \<longleftrightarrow> fraction_units n f \<le> fraction_units n g"
  using assms
proof (induction f arbitrary: g n)
  case Nil
  then show ?case by (simp add: fraction_units_def digits_value_def)
next
  case (Cons d ds)
  show ?case
  proof (cases g)
    case Nil
    then show ?thesis using fraction_units_pos [OF Cons.prems(1), of n]
      by (simp add: fraction_units_def digits_value_def)
  next
    case (Cons e es)
    obtain m where n: "n = Suc m" using Cons.prems(3) by (cases n) auto
    have t: "trimmed ds" "trimmed es" and len: "length ds \<le> m" "length es \<le> m"
      and dig: "is_digit d" "is_digit e"
      using Cons.prems \<open>g = e # es\<close> n by (auto simp: trimmed_def split: if_splits)
    have "fraction_units m ds < 10 ^ m" "fraction_units m es < 10 ^ m"
      using t len by (auto simp: trimmed_def intro: fraction_units_bound)
    then have "fraction_units n (d # ds) \<le> fraction_units n (e # es) \<longleftrightarrow>
        d - 48 < e - 48 \<or> d - 48 = e - 48 \<and> fraction_units m ds \<le> fraction_units m es"
      using len by (simp add: n fraction_units_Cons lex_units)
    also have "\<dots> \<longleftrightarrow> d < e \<or> d = e \<and> ds \<le> es"
      using Cons.IH [OF t len] dig by (auto simp: is_digit_def)
    finally show ?thesis using \<open>g = e # es\<close> by auto
  qed
qed

lemma strip_zeros_trimmed: "list_all is_digit s \<Longrightarrow> trimmed (strip_zeros s)"
proof -
  assume d: "list_all is_digit s"
  have "set (strip_zeros s) \<subseteq> set s"
    using set_dropWhileD [of _ "\<lambda>c. c = 48" "rev s"] by (auto simp: strip_zeros_def)
  moreover have "strip_zeros s = [] \<or> last (strip_zeros s) \<noteq> 48"
    using hd_dropWhile [of "\<lambda>c. c = 48" "rev s"] by (auto simp: strip_zeros_def last_rev)
  ultimately show ?thesis using d by (auto simp: trimmed_def list_all_iff)
qed

lemma parsed_trimmed:
  "parse_instant s = Inr i \<Longrightarrow> any_fraction (fraction_text s) \<Longrightarrow> trimmed (fraction_digits i)"
  using parse_instant_fraction [of s i] strip_zeros_trimmed [of "drop 1 (fraction_text s)"]
  by (auto simp: any_fraction_def drop_Suc)

lemma stored_trimmed: "stored_instant v = Inr i \<Longrightarrow> trimmed (fraction_digits i)"
  by (auto simp: stored_instant_def stored_form_def canonical_fraction_def any_fraction_def
      split: json.splits if_splits intro!: parsed_trimmed)

lemma transient_trimmed: "transient_instant v = Inr i \<Longrightarrow> trimmed (fraction_digits i)"
  by (auto simp: transient_instant_def transient_form_def split: json.splits if_splits intro!: parsed_trimmed)

text \<open>Comparing two admitted instants as Python compares the frozen dataclass (seconds, then the
  digit strings left to right) is comparing the times they name, exactly, at any number of
  fraction digits.\<close>

theorem instant_order_numeric:
  assumes "stored_instant v = Inr i" and "transient_instant w = Inr j"
    and "length (fraction_digits i) \<le> n" and "length (fraction_digits j) \<le> n"
  shows "(instant_le i j \<longleftrightarrow> instant_units n i \<le> instant_units n j)
    \<and> (instant_le j i \<longleftrightarrow> instant_units n j \<le> instant_units n i)"
proof -
  have order: "instant_le a b \<longleftrightarrow> instant_units n a \<le> instant_units n b"
    if t: "trimmed (fraction_digits a)" "trimmed (fraction_digits b)"
      and l: "length (fraction_digits a) \<le> n" "length (fraction_digits b) \<le> n" for a b
  proof -
    have bound: "int (fraction_units n (fraction_digits a)) < 10 ^ n" "int (fraction_units n (fraction_digits b)) < 10 ^ n"
      using fraction_units_bound [of "fraction_digits a" n] fraction_units_bound [of "fraction_digits b" n] t l
      by (auto simp: trimmed_def simp flip: of_nat_less_iff)
    have step: "x * 10 ^ n + p < y * 10 ^ n + q" if "x < y" "p < 10 ^ n" "0 \<le> q" for x y p q :: int
    proof -
      have "(x + 1) * 10 ^ n \<le> y * 10 ^ n" using that(1) by (intro mult_right_mono) auto
      then show ?thesis using that(2,3) by (simp add: algebra_simps)
    qed
    show ?thesis
      using fraction_order [OF t l] bound
        step [of "seconds_since_epoch a" "seconds_since_epoch b"]
        step [of "seconds_since_epoch b" "seconds_since_epoch a"]
      by (cases "seconds_since_epoch a" "seconds_since_epoch b" rule: linorder_cases)
        (fastforce simp: instant_le_def instant_units_def)+
  qed
  show ?thesis
    using order stored_trimmed [OF assms(1)] transient_trimmed [OF assms(2)] assms(3,4) by blast
qed

lemma half_past_elsewhere:
  "transient_instant (JStr (u ''2026-06-01t09:00:00.50+09:00''))
    = Inr \<lparr> seconds_since_epoch = 1780272000, fraction_digits = u ''5'' \<rparr>"
proof -
  have "transient_form (u ''2026-06-01t09:00:00.50+09:00'')"
    by (simp add: transient_form_def clock_shape_def nth_digit_def is_digit_def u_Cons any_fraction_def
        fraction_text_def offset_text_def offset_length_def numeric_offset_def)
  then show ?thesis by (simp add: transient_instant_def) (simp add: instant_eval)
qed

theorem instant_order_numeric_witness:
  "instant_units 3 \<lparr> seconds_since_epoch = 1780272000, fraction_digits = u ''5'' \<rparr> = 1780272000500
   \<and> instant_le \<lparr> seconds_since_epoch = 1780272000, fraction_digits = u ''5'' \<rparr>
       \<lparr> seconds_since_epoch = 1780272000, fraction_digits = u ''5'' \<rparr>"
  using instant_order_numeric [OF half_past half_past_elsewhere, of 3]
  by (simp add: u_Cons instant_units_def fraction_units_def digits_value_def)

end
