(* ===== verification/AuthorityExample.thy ===== *)
theory AuthorityExample
  imports AuthorityOrder DifferenceProps InstantProps
begin

text \<open>
  Concrete requests to the Authority evaluator, with every record sealed by the identity the
  code recomputes, and the witnesses of its properties on them.
\<close>

section \<open>Sealed records\<close>

lemma plain_upper_hex [simp]: "plain_str (ascii_upper (sha256_hex m))"
  by (simp add: plain_upper)

definition json_bytes :: "json \<Rightarrow> bytes" where
  "json_bytes v = map of_nat (dumps (sort_keys v))"

definition seal :: "string \<Rightarrow> string \<Rightarrow> json \<Rightarrow> json" where
  "seal prefix f body = (case body of
     JObj kvs \<Rightarrow> JObj ((u f, JStr (u prefix @ ascii_upper (sha256_hex (json_bytes body)))) # kvs)
   | v \<Rightarrow> v)"

lemma seal_field:
  "is_obj body \<Longrightarrow> jfield (seal p f body) k =
     (if k = f then Some (JStr (u p @ ascii_upper (sha256_hex (json_bytes body)))) else jfield body k)"
  by (cases body) (auto simp: seal_def jfield_def)

lemma seal_without: "is_obj body \<Longrightarrow> jfield body f = None \<Longrightarrow> without f (seal p f body) = body"
  by (cases body) (force simp: seal_def jfield_def map_of_eq_None_iff intro!: filter_True)+

lemma seal_obj [simp]: "is_obj (seal p f body) = is_obj body"
  by (cases body) (auto simp: seal_def)

lemma address_plain:
  "plain_any ascii_ext False v \<Longrightarrow> address ascii_ext p v = Inr (u p @ ascii_upper (sha256_hex (json_bytes v)))"
  by (simp add: address_def plain_any_canonical [OF nfc_ascii_example] json_bytes_def)

lemma digest_plain:
  "plain_any ascii_ext False v \<Longrightarrow> digest ascii_ext v = Inr (u ''sha256:'' @ sha256_hex (json_bytes v))"
  by (simp add: digest_def plain_any_canonical [OF nfc_ascii_example] json_bytes_def)

lemma word_key_u: "word_key (u s) \<longleftrightarrow> list_all (\<lambda>c. (of_char c :: nat) = 95 \<or> 97 \<le> (of_char c :: nat) \<and> (of_char c :: nat) \<le> 122) s"
  by (simp add: word_key_def u_def list_all_iff)

definition key_ok :: "string \<Rightarrow> bool" where
  "key_ok s \<longleftrightarrow> word_key (u s) \<and> u s \<notin> set secret_keys \<and> u s \<notin> set set_like_fields"

lemma key_ok_simps [simp]:
  assumes "key_ok s"
  shows "plain_str (u s)" and "\<not> secret_key ascii_ext (u s)" and "u s \<notin> set set_like_fields"
  using assms secret_word_key [of "u s"] word_key_plain by (auto simp: key_ok_def)

lemma ex_keys:
  "list_all key_ok [''schema_version'', ''project_id'', ''decision'', ''action_kinds'', ''maximum_reversibility'',
     ''scope'', ''declared_by'', ''kind'', ''id'', ''repository'', ''branch'', ''paths'', ''subjects'',
     ''prohibition_class'', ''action_kind'', ''reversibility'', ''operation'', ''action_semantic_fingerprint'',
     ''difference_ref'', ''requested_action'', ''requested_scope'', ''evaluated_state_revision'',
     ''evaluated_state_fingerprint'', ''resolved_rule_ref'', ''approval_ref'', ''excluding_approval_refs'',
     ''prohibition_refs'', ''decision_reason_codes'', ''status'', ''approved_at'', ''expires_at'',
     ''change_intent_fingerprint'', ''approved_action_fingerprint'', ''approved_state_revision'',
     ''approved_state_fingerprint'', ''approved_scope'', ''prohibited_actions'', ''approved_by'', ''digest'',
     ''action'', ''note'']"
  by (simp add: key_ok_def word_key_u secret_keys_def set_like_fields_def)

section \<open>A request\<close>

definition ex_authority :: json where
  "ex_authority = JObj [(u ''kind'', JStr (u ''human_authority'')), (u ''id'', JStr (u ''HUMAN-1''))]"

definition ex_rule_body :: "string \<Rightarrow> string \<Rightarrow> string \<Rightarrow> json" where
  "ex_rule_body note kind d = JObj
     [(u ''schema_version'', schema_version), (u ''project_id'', JStr (u ''PRJ-A'')), (u ''decision'', JStr (u d)),
      (u ''action_kinds'', JList [JStr (u kind)]), (u ''maximum_reversibility'', JStr (u ''RECOVERABLE'')),
      (u ''scope'', ex_scope [''src/a'', ''src/b'']), (u ''note'', JStr (u note)), (u ''declared_by'', ex_authority)]"

definition ex_rule :: "string \<Rightarrow> string \<Rightarrow> string \<Rightarrow> json" where
  "ex_rule note kind d = seal ''AUTH-RULE-'' ''authority_rule_id'' (ex_rule_body note kind d)"

definition ex_prohibition_body :: "string \<Rightarrow> json" where
  "ex_prohibition_body kind = JObj
     [(u ''schema_version'', schema_version), (u ''project_id'', JStr (u ''PRJ-B'')),
      (u ''prohibition_class'', JStr (u ''CONSTITUTIONAL'')), (u ''action_kinds'', JList [JStr (u kind)]),
      (u ''scope'', ex_scope [''src/b'']), (u ''declared_by'', ex_authority)]"

definition ex_prohibition :: "string \<Rightarrow> json" where
  "ex_prohibition kind = seal ''PROHIBIT-'' ''prohibition_id'' (ex_prohibition_body kind)"

definition ex_state_fp :: json where
  "ex_state_fp = JObj [(u ''digest'', JStr (u ''0''))]"

definition ex_action_body :: "string \<Rightarrow> json" where
  "ex_action_body kind = JObj
     [(u ''action_kind'', JStr (u kind)), (u ''reversibility'', JStr (u ''REVERSIBLE'')),
      (u ''operation'', JObj [(u ''note'', JStr (u ''write''))])]"

definition ex_action_fp :: "string \<Rightarrow> ustr" where
  "ex_action_fp kind = u ''sha256:'' @ sha256_hex (json_bytes (ex_action_body kind))"

definition ex_action :: "string \<Rightarrow> json" where
  "ex_action kind = (case ex_action_body kind of
     JObj kvs \<Rightarrow> JObj ((u ''action_semantic_fingerprint'', JStr (ex_action_fp kind)) # kvs) | v \<Rightarrow> v)"

definition ex_difference_id :: ustr where
  "ex_difference_id = projr (difference_id ascii_ext (ex_difference ''PRJ-A''))"

definition ex_bound :: json where
  "ex_bound = (case ex_difference ''PRJ-A'' of
     JObj kvs \<Rightarrow> JObj ((u ''difference_id'', JStr ex_difference_id)
       # (u ''observed_state_revision'', JInt 2) # (u ''observed_state_fingerprint'', ex_state_fp) # kvs) | v \<Rightarrow> v)"

definition ex_request :: "string \<Rightarrow> json list \<Rightarrow> json list \<Rightarrow> json list \<Rightarrow> json" where
  "ex_request kind rules prohibitions approvals = JObj
     [(u ''schema_version'', schema_version), (u ''project_id'', JStr (u ''PRJ-A'')), (u ''difference'', ex_bound),
      (u ''requested_action'', ex_action kind), (u ''requested_scope'', ex_scope [''src/b'', ''src/a'']),
      (u ''current_state_revision'', JInt 2), (u ''current_state_fingerprint'', ex_state_fp),
      (u ''authority_rules'', JList rules), (u ''prohibitions'', JList prohibitions),
      (u ''approvals'', JList approvals), (u ''evaluation_time'', JStr (u ''2026-06-01t09:00:00.50+09:00''))]"

lemma ex_rule_plain:
  assumes "plain_str (u kind)" and "plain_str (u d)" and "plain_str (u note)"
  shows "plain_any ascii_ext False (ex_rule_body note kind d)"
  using assms ex_keys
  by (simp add: ex_rule_body_def ex_scope_def ex_authority_def schema_version_def) (simp add: u_Cons)

lemma ex_prohibition_plain: "plain_str (u kind) \<Longrightarrow> plain_any ascii_ext False (ex_prohibition_body kind)"
  using ex_keys
  by (simp add: ex_prohibition_body_def ex_scope_def ex_authority_def schema_version_def) (simp add: u_Cons)

lemma ex_action_plain: "plain_str (u kind) \<Longrightarrow> plain_any ascii_ext False (ex_action_body kind)"
  using ex_keys by (simp add: ex_action_body_def) (simp add: u_Cons)

lemma ex_scope_canonical: "require_scope (ex_scope [''src/b'', ''src/a'']) = Inr (ex_scope [''src/a'', ''src/b''])"
proof -
  have shape: "scope_shape (ex_scope [''src/b'', ''src/a'']) (u ''org/repo'') (u ''main'') (map u [''src/b'', ''src/a'']) []"
    by (rule ex_scope_shape) (use resolved_a_b in simp_all)
  obtain c where "require_scope (ex_scope [''src/b'', ''src/a'']) = Inr c"
    using scope_shape_admitted [OF shape ex_scope_closed] by metis
  moreover have "canonical_scope (ex_scope [''src/b'', ''src/a'']) = Inr (ex_scope [''src/a'', ''src/b''])"
    by (simp add: canonical_scope_def scope_collections_def sort_collection_def sorted_strings_def)
      (simp add: ex_scope_def u_Cons sort_collection_def sorted_strings_def jfield_def)
  ultimately show ?thesis by (auto simp: require_scope_def)
qed

lemma ex_scope_require: "\<exists>c. require_scope (ex_scope [''src/a'', ''src/b'']) = Inr c"
  "\<exists>c. require_scope (ex_scope [''src/b'']) = Inr c"
  using ex_scope_admitted(1) [of "[''src/a'', ''src/b'']"] ex_scope_admitted(1) [of "[''src/b'']"] resolved_a_b
  by simp_all

lemma ex_authority_human: "is_obj ex_authority" "jfield ex_authority ''kind'' = Some (JStr (u ''human_authority''))"
  by (simp_all add: ex_authority_def jfield_def)

lemma ex_rule_body_fields:
  "is_obj (ex_rule_body n k d)" "jfield (ex_rule_body n k d) ''schema_version'' = Some schema_version"
  "jfield (ex_rule_body n k d) ''project_id'' = Some (JStr (u ''PRJ-A''))"
  "jfield (ex_rule_body n k d) ''decision'' = Some (JStr (u d))"
  "jfield (ex_rule_body n k d) ''action_kinds'' = Some (JList [JStr (u k)])"
  "jfield (ex_rule_body n k d) ''maximum_reversibility'' = Some (JStr (u ''RECOVERABLE''))"
  "jfield (ex_rule_body n k d) ''scope'' = Some (ex_scope [''src/a'', ''src/b''])"
  "jfield (ex_rule_body n k d) ''declared_by'' = Some ex_authority"
  "jfield (ex_rule_body n k d) ''authority_rule_id'' = None"
  by (simp_all add: ex_rule_body_def jfield_def)

lemma ex_rule_admitted:
  assumes "plain_str (u k)" and "plain_str (u n)" and "d = ''AUTONOMOUS'' \<or> d = ''HUMAN_APPROVAL_REQUIRED''"
  shows "admitted ascii_ext rule_type (ex_rule n k d)" and "refine_rule (ex_rule n k d) = Inr ()"
proof -
  have "plain_str (u d)" using assms(3) by (auto simp: u_Cons)
  then have p: "plain_any ascii_ext False (ex_rule_body n k d)" by (rule ex_rule_plain [OF assms(1) _ assms(2)])
  show "admitted ascii_ext rule_type (ex_rule n k d)"
    using address_plain [OF p]
    by (simp add: admitted_def ex_rule_def rule_type_def authority_type_def rule_id_def seal_field seal_without
        ex_rule_body_fields ex_authority_human)
  show "refine_rule (ex_rule n k d) = Inr ()"
    using assms(3) ex_scope_require(1)
    by (auto simp: refine_rule_def refine_scope_def ex_rule_def seal_field ex_rule_body_fields afield_def decision_of_def)
qed

lemma ex_prohibition_fields:
  "is_obj (ex_prohibition_body k)" "jfield (ex_prohibition_body k) ''schema_version'' = Some schema_version"
  "jfield (ex_prohibition_body k) ''project_id'' = Some (JStr (u ''PRJ-B''))"
  "jfield (ex_prohibition_body k) ''prohibition_class'' = Some (JStr (u ''CONSTITUTIONAL''))"
  "jfield (ex_prohibition_body k) ''action_kinds'' = Some (JList [JStr (u k)])"
  "jfield (ex_prohibition_body k) ''scope'' = Some (ex_scope [''src/b''])"
  "jfield (ex_prohibition_body k) ''declared_by'' = Some ex_authority"
  "jfield (ex_prohibition_body k) ''prohibition_id'' = None"
  by (simp_all add: ex_prohibition_body_def jfield_def)

lemma ex_prohibition_admitted:
  assumes "plain_str (u k)"
  shows "admitted ascii_ext prohibition_type (ex_prohibition k)" and "refine_scope ''scope'' (ex_prohibition k) = Inr ()"
  using address_plain [OF ex_prohibition_plain [OF assms]] ex_scope_require(2)
  by (auto simp: admitted_def ex_prohibition_def prohibition_type_def authority_type_def prohibition_id_def seal_field
      seal_without ex_prohibition_fields ex_authority_human refine_scope_def afield_def)

definition ex_question :: "string \<Rightarrow> json list \<Rightarrow> json list \<Rightarrow> json list \<Rightarrow> question" where
  "ex_question kind rules prohibitions approvals =
     \<lparr> q_project = u ''PRJ-A'', q_difference = ex_bound, q_action = ex_action kind, q_kind = u kind,
       q_scope = ex_scope [''src/a'', ''src/b''], q_revision = 2, q_fingerprint = ex_state_fp,
       q_time = u ''2026-06-01t09:00:00.50+09:00'', q_rules = rules, q_prohibitions = prohibitions,
       q_approvals = approvals \<rparr>"

lemma ex_action_fields:
  "is_obj (ex_action k)" "jfield (ex_action k) ''action_kind'' = Some (JStr (u k))"
  "jfield (ex_action k) ''reversibility'' = Some (JStr (u ''REVERSIBLE''))"
  "jfield (ex_action k) ''action_semantic_fingerprint'' = Some (JStr (ex_action_fp k))"
  "closed_keys action_keys (ex_action k) = Inr ()"
  "without ''action_semantic_fingerprint'' (ex_action k) = ex_action_body k"
proof -
  show "closed_keys action_keys (ex_action k) = Inr ()"
    unfolding closed_keys_def by (simp add: ex_action_def ex_action_body_def action_keys_def) (simp add: jfield_def)
qed (simp_all add: ex_action_def ex_action_body_def jfield_def)

lemma ex_action_required:
  assumes "plain_str (u k)" and "k \<noteq> []"
  shows "require_action ascii_ext (ex_action k) = Inr (ex_action k, u k)"
  using digest_plain [OF ex_action_plain [OF assms(1)]] assms(2)
  by (simp add: require_action_iff ex_action_fields require_action_kind_def action_fingerprint_def ex_action_fp_def)

lemma ex_bound_fields:
  "is_obj ex_bound" "jfield ex_bound ''difference_id'' = Some (JStr ex_difference_id)"
  "jfield ex_bound ''observed_state_revision'' = Some (JInt 2)"
  "jfield ex_bound ''observed_state_fingerprint'' = Some ex_state_fp"
  "jfield ex_bound ''project_id'' = Some (JStr (u ''PRJ-A''))"
  by (simp_all add: ex_bound_def ex_difference_def jfield_def)

lemma ex_bound_id: "difference_id ascii_ext ex_bound = Inr ex_difference_id"
proof -
  have "plain_str (u ''PRJ-A'')" by (simp add: u_Cons)
  then obtain b where "difference_id ascii_ext (ex_difference ''PRJ-A'') = Inr (u ''D-'' @ ascii_upper (sha256_hex b))"
    using ex_identity_bytes by metis
  moreover have "jfield ex_bound f = jfield (ex_difference ''PRJ-A'') f"
    if "f \<noteq> ''difference_id''" "f \<noteq> ''observed_state_revision''" "f \<noteq> ''observed_state_fingerprint''" for f
    using that by (simp add: ex_bound_def ex_difference_def jfield_def)
  then have "difference_identity_input ex_bound = difference_identity_input (ex_difference ''PRJ-A'')"
    by (simp add: difference_identity_input_def identity_sources_def afield_def closure_policy_fingerprint_def
        del: ex_difference_fields)
  then have "difference_id ascii_ext ex_bound = difference_id ascii_ext (ex_difference ''PRJ-A'')"
    by (simp only: difference_id_def)
  ultimately show ?thesis by (simp add: ex_difference_id_def)
qed

lemma ex_request_fields:
  "is_obj (ex_request k rs ps as)" "jfield (ex_request k rs ps as) ''schema_version'' = Some schema_version"
  "jfield (ex_request k rs ps as) ''project_id'' = Some (JStr (u ''PRJ-A''))"
  "jfield (ex_request k rs ps as) ''difference'' = Some ex_bound"
  "jfield (ex_request k rs ps as) ''requested_action'' = Some (ex_action k)"
  "jfield (ex_request k rs ps as) ''requested_scope'' = Some (ex_scope [''src/b'', ''src/a''])"
  "jfield (ex_request k rs ps as) ''current_state_revision'' = Some (JInt 2)"
  "jfield (ex_request k rs ps as) ''current_state_fingerprint'' = Some ex_state_fp"
  "jfield (ex_request k rs ps as) ''authority_rules'' = Some (JList rs)"
  "jfield (ex_request k rs ps as) ''prohibitions'' = Some (JList ps)"
  "jfield (ex_request k rs ps as) ''approvals'' = Some (JList as)"
  "jfield (ex_request k rs ps as) ''evaluation_time'' = Some (JStr (u ''2026-06-01t09:00:00.50+09:00''))"
  "closed_keys required_request_keys (ex_request k rs ps as) = Inr ()"
proof -
  show "closed_keys required_request_keys (ex_request k rs ps as) = Inr ()"
    unfolding closed_keys_def by (simp add: ex_request_def required_request_keys_def) (simp add: jfield_def)
qed (simp_all add: ex_request_def jfield_def)

lemma ex_request_of:
  assumes "plain_str (u k)" and "k \<noteq> []"
    and "admit_all ascii_ext rule_type refine_rule (JList rs) = Inr rs"
    and "admit_all ascii_ext prohibition_type (refine_scope ''scope'') (JList ps) = Inr ps"
    and "admit_all ascii_ext approval_type (refine_scope ''approved_scope'') (JList as) = Inr as"
  shows "request_of ascii_ext (ex_request k rs ps as) (ex_question k rs ps as)"
  using assms ex_action_required [OF assms(1,2)] half_past_elsewhere ex_scope_canonical
  by (simp add: request_of_def ex_question_def ex_request_fields require_request_shape_iff admit_difference_iff
      ex_bound_fields ex_bound_id anot_False_iff require_current_iff ex_state_fp_def)

section \<open>Decisions on it\<close>

lemma ex_question_fields [simp]:
  "q_project (ex_question k rs ps as) = u ''PRJ-A''" "q_difference (ex_question k rs ps as) = ex_bound"
  "q_action (ex_question k rs ps as) = ex_action k" "q_kind (ex_question k rs ps as) = u k"
  "q_scope (ex_question k rs ps as) = ex_scope [''src/a'', ''src/b'']" "q_revision (ex_question k rs ps as) = 2"
  "q_fingerprint (ex_question k rs ps as) = ex_state_fp"
  "q_time (ex_question k rs ps as) = u ''2026-06-01t09:00:00.50+09:00''"
  "q_rules (ex_question k rs ps as) = rs" "q_prohibitions (ex_question k rs ps as) = ps"
  "q_approvals (ex_question k rs ps as) = as"
  by (simp_all add: ex_question_def)

lemma ex_difference_id_plain: "plain_str ex_difference_id"
proof -
  have "plain_str (u ''PRJ-A'')" by (simp add: u_Cons)
  then obtain b where "difference_id ascii_ext (ex_difference ''PRJ-A'') = Inr (u ''D-'' @ ascii_upper (sha256_hex b))"
    using ex_identity_bytes by metis
  then show ?thesis by (simp add: ex_difference_id_def) (simp add: u_Cons)
qed

lemma ex_action_fp_plain: "plain_str (ex_action_fp k)"
  by (simp add: ex_action_fp_def) (simp add: u_Cons)

lemma ex_record:
  assumes k: "plain_str (u k)"
    and r: "optional_ref ''authority_rule'' ''authority_rule_id'' (v_rule v) = Inr rr" "plain_any ascii_ext False rr"
    and p: "mapE (ref ''prohibition'' ''prohibition_id'') (v_prohibitions v) = Inr pr" "\<forall>x \<in> set pr. plain_any ascii_ext False x"
    and a: "optional_ref ''approval'' ''approval_id'' (v_approval v) = Inr ar" "plain_any ascii_ext False ar"
    and e: "mapE (ref ''approval'' ''approval_id'') (v_excluding v) = Inr er" "\<forall>x \<in> set er. plain_any ascii_ext False x"
    and c: "\<forall>c \<in> set (v_reasons v). plain_str c"
  shows "\<exists>d. decision_record ascii_ext (ex_question k rs ps as) v = Inr d"
proof -
  let ?x = "JObj [(u ''project_id'', JStr (u ''PRJ-A'')),
     (u ''difference_ref'', JObj [(u ''kind'', JStr (u ''difference'')), (u ''id'', JStr ex_difference_id)]),
     (u ''requested_action'', ex_action k), (u ''requested_scope'', ex_scope [''src/a'', ''src/b'']),
     (u ''evaluated_state_revision'', JInt 2), (u ''evaluated_state_fingerprint'', ex_state_fp),
     (u ''resolved_rule_ref'', rr), (u ''approval_ref'', ar), (u ''excluding_approval_refs'', JList er),
     (u ''prohibition_refs'', JList pr), (u ''decision'', JStr (decision_text (v_decision v))),
     (u ''decision_reason_codes'', JList (map JStr (sort (remdups (v_reasons v)))))]"
  have "plain_str (decision_text (v_decision v))" by (cases "v_decision v") (simp_all add: u_Cons)
  then have "plain_any ascii_ext False ?x"
    using ex_keys k r(2) p(2) a(2) e(2) c ex_difference_id_plain ex_action_fp_plain [of k]
    by (simp add: ex_action_def ex_action_body_def ex_scope_def ex_state_fp_def) (simp add: u_Cons)
  note plain = digest_plain [OF this] address_plain [OF this]
  show ?thesis
    unfolding decision_record_def Let_def
    using r(1) p(1) a(1) e(1) plain
    by (simp add: ex_bound_fields afield_def decision_semantic_fingerprint_def decision_id_def validateA_def
        project_fields_def decision_semantic_fields_def) (simp add: jfield_def)
qed

lemma ex_contained: "is_contained (ex_scope [''src/a'', ''src/b'']) (ex_scope [''src/a'', ''src/b'']) = Inr True"
proof -
  obtain c where c: "require_scope (ex_scope [''src/a'', ''src/b'']) = Inr c" using ex_scope_require(1) by blast
  show ?thesis
    using admitted_operators(1) [OF ex_scope_canonical c] resolved_a_b by (auto simp: ex_scope_admitted(2))
qed

lemma ex_governs: "governs (ex_question k rs ps as) (ex_rule n k d) = Inr True"
  by (simp add: governs_def andE_True ex_rule_def seal_field ex_rule_body_fields afield_def ex_action_fields
      exceeds_reversibility_def ex_contained)

lemma ex_rule_decision: "d = AUTONOMOUS \<or> d = HUMAN_APPROVAL_REQUIRED \<Longrightarrow> rule_decision (ex_rule n k (map char_of (decision_text d))) = Inr d"
  by (auto simp: rule_decision_def ex_rule_def seal_field ex_rule_body_fields afield_def u_def decision_of_def)

lemma ex_intent:
  assumes "plain_str (u k)"
  obtains i where "change_intent_fingerprint ascii_ext (ex_action k) (ex_scope [''src/a'', ''src/b'']) = Inr i" and "plain_str i"
proof -
  have "canonical_scope (ex_scope [''src/a'', ''src/b'']) = Inr (ex_scope [''src/a'', ''src/b''])"
    by (simp add: canonical_scope_def scope_collections_def sort_collection_def sorted_strings_def)
      (simp add: ex_scope_def u_Cons sort_collection_def sorted_strings_def jfield_def)
  moreover have "plain_any ascii_ext False (JObj [(u ''action'', JStr (ex_action_fp k)), (u ''scope'', ex_scope [''src/a'', ''src/b''])])"
    using ex_keys ex_action_fp_plain [of k] by (simp add: ex_scope_def) (simp add: u_Cons)
  ultimately show ?thesis
    using that digest_plain [OF ex_action_plain [OF assms]] digest_plain
    by (simp add: change_intent_fingerprint_def action_fingerprint_def ex_action_fields ex_action_fp_def)
qed

lemma plain_codes:
  "plain_str (u ''EDIT'')" "plain_str (u ''MERGE'')" "plain_str (u ''R1'')" "plain_str (u ''R2'')"
  "plain_str (u ''AUTONOMOUS'')" "plain_str (u ''RULE_PERMITS_AUTONOMOUS'')" "plain_str (u ''RULE_RESOLVED'')"
  "plain_str (u ''PROHIBITION_MATCHED'')" "plain_str (u ''CONSTITUTIONAL_PROHIBITION_MATCHED'')"
  "plain_str (u ''ACTION_IS_HUMAN_ONLY'')" "plain_str (u ''NO_RULE_RESOLVED'')" "plain_str (u ''APPROVAL_EXACT'')"
  by (simp_all add: u_Cons)

lemma edit_not_human_only: "u ''EDIT'' \<notin> set human_only_action_kinds"
  by (simp add: human_only_action_kinds_def)

lemma ex_rules_admitted:
  assumes "list_all (\<lambda>(n, d). plain_str (u n) \<and> (d = ''AUTONOMOUS'' \<or> d = ''HUMAN_APPROVAL_REQUIRED'')) nds"
    and "plain_str (u k)" and "distinct (map (id_of rule_type) (map (\<lambda>(n, d). ex_rule n k d) nds))"
  shows "admit_all ascii_ext rule_type refine_rule (JList (map (\<lambda>(n, d). ex_rule n k d) nds))
    = Inr (map (\<lambda>(n, d). ex_rule n k d) nds)"
  unfolding admit_all_iff
  using assms ex_rule_admitted [OF assms(2)] by (auto simp: list_all_iff simp del: map_map)

lemma no_records: "admit_all E T f (JList []) = Inr []"
  by (simp add: admit_all_iff)

text \<open>One rule that permits, nothing else: autonomous.\<close>

abbreviation ex_permit :: json where
  "ex_permit \<equiv> ex_rule ''R1'' ''EDIT'' ''AUTONOMOUS''"

lemma ex_permit_question: "request_of ascii_ext (ex_request ''EDIT'' [ex_permit] [] []) (ex_question ''EDIT'' [ex_permit] [] [])"
  using ex_rules_admitted [of "[(''R1'', ''AUTONOMOUS'')]" "''EDIT''"] plain_codes
  by (intro ex_request_of) (simp_all add: no_records)

lemma ex_permit_resolve: "resolve_rules (ex_question ''EDIT'' [ex_permit] ps as) = Inr ([ex_permit], AUTONOMOUS)"
  by (simp add: resolve_rules_def ex_governs)
    (simp add: rule_decision_def ex_rule_def seal_field ex_rule_body_fields afield_def decision_of_def)

lemma ex_permit_decide:
  "\<exists>v. decide ascii_ext (ex_question ''EDIT'' [ex_permit] [] []) = Inr v \<and> v_decision v = AUTONOMOUS
     \<and> v_rule v = Some ex_permit \<and> v_approval v = None \<and> v_prohibitions v = [] \<and> v_excluding v = []
     \<and> set (v_reasons v) = {u ''RULE_PERMITS_AUTONOMOUS'', u ''RULE_RESOLVED''}"
proof -
  obtain i where i: "change_intent_fingerprint ascii_ext (ex_action ''EDIT'') (ex_scope [''src/a'', ''src/b'']) = Inr i"
    using ex_intent [of "''EDIT''"] plain_codes by metis
  have cite: "cite_rule [ex_permit] AUTONOMOUS = Inr (Some ex_permit)"
    by (simp add: cite_rule_def sorted_by_def ex_rule_def seal_field ex_rule_body_fields afield_def astr_def)
  show ?thesis
    by (simp add: decide_def matching_def sorted_by_def decide_rules_def ex_permit_resolve floors_def ex_action_fields
        afield_def edit_not_human_only bind_approvals_def i astr_def ex_bound_fields apply_approvals_def cite reason_if_def)
qed

lemma ex_permit_evaluates:
  obtains d where "evaluate_authority ascii_ext (ex_request ''EDIT'' [ex_permit] [] []) = Inr d"
    and "jfield d ''decision'' = Some (JStr (u ''AUTONOMOUS''))" and "jfield d ''approval_ref'' = Some JNull"
proof -
  obtain v where v: "decide ascii_ext (ex_question ''EDIT'' [ex_permit] [] []) = Inr v" "v_decision v = AUTONOMOUS"
    "v_rule v = Some ex_permit" "v_approval v = None" "v_prohibitions v = []" "v_excluding v = []"
    "set (v_reasons v) = {u ''RULE_PERMITS_AUTONOMOUS'', u ''RULE_RESOLVED''}"
    using ex_permit_decide by blast
  let ?id = "u ''AUTH-RULE-'' @ ascii_upper (sha256_hex (json_bytes (ex_rule_body ''R1'' ''EDIT'' ''AUTONOMOUS'')))"
  have "plain_any ascii_ext False (JObj [(u ''kind'', JStr (u ''authority_rule'')), (u ''id'', JStr ?id)])"
    using ex_keys by simp (simp add: u_Cons)
  moreover have "optional_ref ''authority_rule'' ''authority_rule_id'' (v_rule v)
      = Inr (JObj [(u ''kind'', JStr (u ''authority_rule'')), (u ''id'', JStr ?id)])"
    by (simp add: v optional_ref_def ref_def afield_def ex_rule_def seal_field ex_rule_body_fields)
  ultimately have "\<exists>d. decision_record ascii_ext (ex_question ''EDIT'' [ex_permit] [] []) v = Inr d"
    using v plain_codes
    by (intro ex_record [where rr = "JObj [(u ''kind'', JStr (u ''authority_rule'')), (u ''id'', JStr ?id)]"
          and pr = "[]" and ar = JNull and er = "[]"]) (simp_all add: optional_ref_def)
  then obtain d where d: "decision_record ascii_ext (ex_question ''EDIT'' [ex_permit] [] []) v = Inr d" by blast
  then show ?thesis
    using request_of_admit [OF ex_permit_question] v decision_record_fields [OF d]
    by (intro that [of d]) (auto simp: evaluate_authority_def optional_ref_def)
qed

lemma ex_permit_admit: "admit_request ascii_ext (ex_request ''EDIT'' [ex_permit] [] []) = Inr (ex_question ''EDIT'' [ex_permit] [] [])"
  by (rule request_of_admit [OF ex_permit_question])

theorem autonomous_justified_witness:
  "\<exists>d. evaluate_authority ascii_ext (ex_request ''EDIT'' [ex_permit] [] []) = Inr d
     \<and> jfield d ''decision'' = Some (JStr (u ''AUTONOMOUS''))
     \<and> filter (\<lambda>r. governs (ex_question ''EDIT'' [ex_permit] [] []) r = Inr True) [ex_permit] \<noteq> []"
proof -
  obtain d where d: "evaluate_authority ascii_ext (ex_request ''EDIT'' [ex_permit] [] []) = Inr d"
    "jfield d ''decision'' = Some (JStr (u ''AUTONOMOUS''))" by (rule ex_permit_evaluates)
  then show ?thesis using autonomous_justified [OF d(1) ex_permit_admit d(2)] by auto
qed

theorem decision_bound_witness:
  "\<exists>d i. evaluate_authority ascii_ext (ex_request ''EDIT'' [ex_permit] [] []) = Inr d
     \<and> jfield d ''evaluated_state_revision'' = Some (JInt 2) \<and> jfield d ''project_id'' = Some (JStr (u ''PRJ-A''))
     \<and> decision_id ascii_ext d = Inr i \<and> jfield d ''authority_decision_id'' = Some (JStr i)"
proof -
  obtain d where d: "evaluate_authority ascii_ext (ex_request ''EDIT'' [ex_permit] [] []) = Inr d"
    by (rule ex_permit_evaluates)
  then show ?thesis using decision_bound [OF d] by (auto simp: ex_request_fields)
qed

theorem stale_revision_refused_witness:
  "evaluate_authority ascii_ext (aset ''current_state_revision'' (JInt 3) (ex_request ''EDIT'' [ex_permit] [] []))
     = Inl StaleAuthorityInputError"
proof -
  obtain d where "evaluate_authority ascii_ext (ex_request ''EDIT'' [ex_permit] [] []) = Inr d"
    by (rule ex_permit_evaluates)
  then show ?thesis by (rule stale_revision_refused [where i = 2]) (simp_all add: ex_request_fields)
qed

theorem evaluation_order_free_witness:
  "\<exists>d. evaluate_authority ascii_ext (reordered [ex_permit] [] [] (ex_request ''EDIT'' [ex_permit] [] [])) = Inr d
     \<and> jfield d ''decision'' = Some (JStr (u ''AUTONOMOUS''))"
proof -
  obtain d where d: "evaluate_authority ascii_ext (ex_request ''EDIT'' [ex_permit] [] []) = Inr d"
    "jfield d ''decision'' = Some (JStr (u ''AUTONOMOUS''))" by (rule ex_permit_evaluates)
  have "evaluate_authority ascii_ext (reordered [ex_permit] [] [] (ex_request ''EDIT'' [ex_permit] [] [])) = Inr d"
    by (rule evaluation_order_free [OF d(1)]) (simp_all add: ex_request_fields)
  then show ?thesis using d(2) by blast
qed

end
