(* ===== verification/ApprovalExample.thy ===== *)
theory ApprovalExample
  imports AuthorityExample
begin

text \<open>
  The remaining witnesses of the Authority properties: a request a prohibition touches, a
  second rule that restricts the first, and a human-only action permitted by one exact approval.
\<close>

section \<open>A prohibited request\<close>

lemma ex_overlap: "overlaps (ex_scope [''src/a'', ''src/b'']) (ex_scope [''src/b'']) = Inr True"
proof -
  obtain c d where c: "require_scope (ex_scope [''src/a'', ''src/b'']) = Inr c" "require_scope (ex_scope [''src/b'']) = Inr d"
    using ex_scope_require by blast
  show ?thesis
    using admitted_operators(2) [OF ex_scope_canonical c(2)] resolved_a_b by (simp add: ex_scope_admitted(2))
qed

lemma ex_prohibited_decide:
  "\<exists>v. decide ascii_ext (ex_question ''EDIT'' [] [ex_prohibition ''EDIT''] []) = Inr v \<and> v_decision v = PROHIBITED
     \<and> v_rule v = None \<and> v_approval v = None \<and> v_prohibitions v = [ex_prohibition ''EDIT''] \<and> v_excluding v = []
     \<and> set (v_reasons v) = {u ''PROHIBITION_MATCHED'', u ''CONSTITUTIONAL_PROHIBITION_MATCHED''}"
proof -
  have "touches (u ''PRJ-A'') (u ''EDIT'') (ex_scope [''src/a'', ''src/b'']) (ex_prohibition ''EDIT'') = Inr True"
    by (simp add: touches_def andE_True applies_to_project_def afield_def ex_prohibition_def seal_field
        ex_prohibition_fields ex_overlap)
  then have "matching [ex_prohibition ''EDIT''] (u ''PRJ-A'') (u ''EDIT'') (ex_scope [''src/a'', ''src/b''])
      = Inr [ex_prohibition ''EDIT'']"
    by (simp add: matching_def sorted_by_def astr_def afield_def ex_prohibition_def seal_field ex_prohibition_fields)
  moreover have "has_constitutional [ex_prohibition ''EDIT''] = Inr True"
    by (simp add: has_constitutional_def afield_def ex_prohibition_def seal_field ex_prohibition_fields)
  ultimately show ?thesis by (auto simp: decide_def reason_if_def)
qed

lemma ex_prohibited_evaluates:
  "\<exists>d. evaluate_authority ascii_ext (ex_request ''EDIT'' [] [ex_prohibition ''EDIT''] []) = Inr d"
proof -
  obtain v where v: "decide ascii_ext (ex_question ''EDIT'' [] [ex_prohibition ''EDIT''] []) = Inr v"
    "v_decision v = PROHIBITED" "v_rule v = None" "v_approval v = None"
    "v_prohibitions v = [ex_prohibition ''EDIT'']" "v_excluding v = []"
    "set (v_reasons v) = {u ''PROHIBITION_MATCHED'', u ''CONSTITUTIONAL_PROHIBITION_MATCHED''}"
    using ex_prohibited_decide by blast
  let ?r = "JObj [(u ''kind'', JStr (u ''prohibition'')),
    (u ''id'', JStr (u ''PROHIBIT-'' @ ascii_upper (sha256_hex (json_bytes (ex_prohibition_body ''EDIT'')))))]"
  have "plain_any ascii_ext False ?r"
    using ex_keys by simp (simp add: u_Cons)
  moreover have "mapE (ref ''prohibition'' ''prohibition_id'') (v_prohibitions v) = Inr [?r]"
    by (simp add: v ref_def afield_def ex_prohibition_def seal_field ex_prohibition_fields)
  ultimately have "\<exists>d. decision_record ascii_ext (ex_question ''EDIT'' [] [ex_prohibition ''EDIT''] []) v = Inr d"
    using v plain_codes
    by (intro ex_record [where rr = JNull and pr = "[?r]" and ar = JNull and er = "[]"]) (simp_all add: optional_ref_def)
  moreover have "request_of ascii_ext (ex_request ''EDIT'' [] [ex_prohibition ''EDIT''] []) (ex_question ''EDIT'' [] [ex_prohibition ''EDIT''] [])"
    using ex_prohibition_admitted [of "''EDIT''"] plain_codes
    by (intro ex_request_of) (simp_all add: no_records admit_all_iff)
  ultimately show ?thesis using request_of_admit v(1) by (auto simp: evaluate_authority_def)
qed

theorem prohibition_dominates_witness:
  "\<exists>d. evaluate_authority ascii_ext (ex_request ''EDIT'' [] [ex_prohibition ''EDIT''] []) = Inr d
     \<and> jfield d ''decision'' = Some (JStr (u ''PROHIBITED''))"
proof -
  obtain d where d: "evaluate_authority ascii_ext (ex_request ''EDIT'' [] [ex_prohibition ''EDIT''] []) = Inr d"
    using ex_prohibited_evaluates by blast
  have "locations_of (ex_scope [''src/b'', ''src/a'']) \<inter> locations_of (ex_scope [''src/b'']) \<noteq> {}"
    using resolved_a_b by (simp add: ex_scope_admitted(2))
  then have "jfield d ''decision'' = Some (JStr (u ''PROHIBITED''))"
    using prohibition_dominates [OF d, of "[ex_prohibition ''EDIT'']" "ex_prohibition ''EDIT''" "JStr (u ''CONSTITUTIONAL'')"
        "ex_action ''EDIT''" "JStr (u ''EDIT'')" "[JStr (u ''EDIT'')]" "ex_scope [''src/b'', ''src/a'']" "ex_scope [''src/b'']"]
    by (simp add: ex_request_fields ex_action_fields ex_prohibition_def seal_field ex_prohibition_fields)
  then show ?thesis using d by blast
qed

section \<open>A second rule\<close>

abbreviation ex_restrict :: json where
  "ex_restrict \<equiv> ex_rule ''R2'' ''EDIT'' ''HUMAN_APPROVAL_REQUIRED''"

lemma ex_restrict_decide:
  "\<exists>v. decide ascii_ext (ex_question ''EDIT'' [ex_restrict, ex_permit] [] []) = Inr v \<and> v_decision v = HUMAN_APPROVAL_REQUIRED"
proof -
  obtain i where i: "change_intent_fingerprint ascii_ext (ex_action ''EDIT'') (ex_scope [''src/a'', ''src/b'']) = Inr i"
    using ex_intent [of "''EDIT''"] plain_codes by metis
  have rules: "resolve_rules (ex_question ''EDIT'' [ex_restrict, ex_permit] [] []) = Inr ([ex_restrict, ex_permit], HUMAN_APPROVAL_REQUIRED)"
    by (simp add: resolve_rules_def ex_governs)
      (simp add: rule_decision_def ex_rule_def seal_field ex_rule_body_fields afield_def decision_of_def)
  have cite: "cite_rule [ex_restrict, ex_permit] HUMAN_APPROVAL_REQUIRED = Inr (Some ex_restrict)"
    by (simp add: cite_rule_def sorted_by_def ex_rule_def seal_field ex_rule_body_fields afield_def astr_def)
  show ?thesis
    by (simp add: decide_def matching_def sorted_by_def decide_rules_def rules floors_def ex_action_fields
        afield_def edit_not_human_only bind_approvals_def i astr_def ex_bound_fields apply_approvals_def cite reason_if_def)
qed

theorem rule_never_loosens_witness:
  "\<exists>v v'. decide ascii_ext (ex_question ''EDIT'' [ex_permit] [] []) = Inr v
     \<and> decide ascii_ext (ex_question ''EDIT'' [ex_restrict, ex_permit] [] []) = Inr v'
     \<and> v_decision v = AUTONOMOUS \<and> v_decision v' = HUMAN_APPROVAL_REQUIRED \<and> v_decision v \<le> v_decision v'"
proof -
  obtain v where v: "decide ascii_ext (ex_question ''EDIT'' [ex_permit] [] []) = Inr v" "v_decision v = AUTONOMOUS"
    using ex_permit_decide by blast
  obtain v' where v': "decide ascii_ext (ex_question ''EDIT'' [ex_restrict, ex_permit] [] []) = Inr v'"
    "v_decision v' = HUMAN_APPROVAL_REQUIRED" using ex_restrict_decide by blast
  have "v_decision v \<le> v_decision v'"
  proof (rule rule_never_loosens [OF v(1)])
    show "decide ascii_ext (ex_question ''EDIT'' [ex_permit] [] []\<lparr>q_rules := ex_restrict # q_rules (ex_question ''EDIT'' [ex_permit] [] [])\<rparr>) = Inr v'"
      using v'(1) by (simp add: ex_question_def)
  qed (simp_all add: ex_governs)
  then show ?thesis using v v' by blast
qed

section \<open>An exact approval\<close>

text \<open>A merge is human-only: without an approval it is refused, with this one it is autonomous.\<close>

definition ex_intent_fp :: ustr where
  "ex_intent_fp = projr (change_intent_fingerprint ascii_ext (ex_action ''MERGE'') (ex_scope [''src/a'', ''src/b'']))"

lemma ex_intent_fp:
  "change_intent_fingerprint ascii_ext (ex_action ''MERGE'') (ex_scope [''src/a'', ''src/b'']) = Inr ex_intent_fp"
  "plain_str ex_intent_fp"
proof -
  obtain i where "change_intent_fingerprint ascii_ext (ex_action ''MERGE'') (ex_scope [''src/a'', ''src/b'']) = Inr i" "plain_str i"
    using ex_intent [of "''MERGE''"] plain_codes by metis
  then show "change_intent_fingerprint ascii_ext (ex_action ''MERGE'') (ex_scope [''src/a'', ''src/b'']) = Inr ex_intent_fp"
    "plain_str ex_intent_fp" by (simp_all add: ex_intent_fp_def)
qed

definition ex_approval_body :: json where
  "ex_approval_body = JObj
     [(u ''schema_version'', schema_version), (u ''project_id'', JStr (u ''PRJ-A'')), (u ''status'', JStr (u ''ACTIVE'')),
      (u ''approved_at'', JStr (u ''2026-06-01T00:00:00.5Z'')), (u ''expires_at'', JStr (u ''2026-06-01T00:00:00.5Z'')),
      (u ''difference_ref'', JObj [(u ''kind'', JStr (u ''difference'')), (u ''id'', JStr ex_difference_id)]),
      (u ''change_intent_fingerprint'', JStr ex_intent_fp),
      (u ''approved_action_fingerprint'', JStr (ex_action_fp ''MERGE'')),
      (u ''approved_state_revision'', JInt 2), (u ''approved_state_fingerprint'', ex_state_fp),
      (u ''approved_scope'', ex_scope [''src/a'', ''src/b'']), (u ''prohibited_actions'', JList []),
      (u ''approved_by'', ex_authority)]"

definition ex_approval :: json where
  "ex_approval = seal ''APPROVAL-'' ''approval_id'' ex_approval_body"

lemma ex_approval_fields:
  "is_obj ex_approval_body" "jfield ex_approval_body ''schema_version'' = Some schema_version"
  "jfield ex_approval_body ''project_id'' = Some (JStr (u ''PRJ-A''))"
  "jfield ex_approval_body ''status'' = Some (JStr (u ''ACTIVE''))"
  "jfield ex_approval_body ''approved_at'' = Some (JStr (u ''2026-06-01T00:00:00.5Z''))"
  "jfield ex_approval_body ''expires_at'' = Some (JStr (u ''2026-06-01T00:00:00.5Z''))"
  "jfield ex_approval_body ''difference_ref'' = Some (JObj [(u ''kind'', JStr (u ''difference'')), (u ''id'', JStr ex_difference_id)])"
  "jfield ex_approval_body ''change_intent_fingerprint'' = Some (JStr ex_intent_fp)"
  "jfield ex_approval_body ''approved_action_fingerprint'' = Some (JStr (ex_action_fp ''MERGE''))"
  "jfield ex_approval_body ''approved_state_revision'' = Some (JInt 2)"
  "jfield ex_approval_body ''approved_state_fingerprint'' = Some ex_state_fp"
  "jfield ex_approval_body ''approved_scope'' = Some (ex_scope [''src/a'', ''src/b''])"
  "jfield ex_approval_body ''prohibited_actions'' = Some (JList [])"
  "jfield ex_approval_body ''approved_by'' = Some ex_authority"
  "jfield ex_approval_body ''approval_id'' = None"
  by (simp_all add: ex_approval_body_def jfield_def)

lemma ex_approval_plain: "plain_any ascii_ext False ex_approval_body"
  using ex_keys ex_difference_id_plain ex_intent_fp(2) ex_action_fp_plain [of "''MERGE''"]
  by (simp add: ex_approval_body_def ex_scope_def ex_authority_def schema_version_def ex_state_fp_def) (simp add: u_Cons)

lemma ex_approval_admitted:
  "admitted ascii_ext approval_type ex_approval" "refine_scope ''approved_scope'' ex_approval = Inr ()"
  using address_plain [OF ex_approval_plain] ex_scope_require(1)
  by (auto simp: admitted_def ex_approval_def approval_type_def authority_type_def approval_id_def seal_field
      seal_without ex_approval_fields ex_authority_human refine_scope_def afield_def)

lemma ex_approval_binds:
  "binding_mismatches (ex_question ''MERGE'' [] [] [ex_approval]) ex_difference_id ex_intent_fp (ex_action_fp ''MERGE'') ex_approval = Inr []"
  by (simp add: binding_mismatches_def ex_approval_def seal_field ex_approval_fields astr_def afield_def half_past
      half_past_elsewhere anot_def aget_def ex_contained reason_if_def instant_le_def ex_state_fp_def py_eq_refl)
    (simp add: jfield_def)

lemma ex_approved_decide:
  "\<exists>v. decide ascii_ext (ex_question ''MERGE'' [] [] [ex_approval]) = Inr v \<and> v_decision v = AUTONOMOUS
     \<and> v_rule v = None \<and> v_approval v = Some ex_approval \<and> v_prohibitions v = [] \<and> v_excluding v = []
     \<and> set (v_reasons v) = {u ''NO_RULE_RESOLVED'', u ''ACTION_IS_HUMAN_ONLY'', u ''APPROVAL_EXACT''}"
proof -
  have bind: "bind_approvals ascii_ext (ex_question ''MERGE'' [] [] [ex_approval]) = Inr ([ex_approval], [])"
    by (simp add: bind_approvals_def ex_intent_fp astr_def afield_def ex_action_fields ex_bound_fields ex_approval_binds)
  have excl: "excludes_action (u ''MERGE'') ex_approval = Inr False"
    by (simp add: excludes_action_def ex_approval_def seal_field ex_approval_fields afield_def)
  have merge: "u ''MERGE'' \<in> set human_only_action_kinds"
    by (simp add: human_only_action_kinds_def)
  obtain i where i: "jfield ex_approval ''approval_id'' = Some (JStr i)"
    by (simp add: ex_approval_def seal_field ex_approval_fields)
  show ?thesis
    by (simp add: decide_def matching_def sorted_by_def decide_rules_def resolve_rules_def floors_def ex_action_fields
        afield_def merge bind excl apply_approvals_def cite_rule_def reason_if_def astr_def i)
qed

lemma ex_approved_admit:
  "admit_request ascii_ext (ex_request ''MERGE'' [] [] [ex_approval]) = Inr (ex_question ''MERGE'' [] [] [ex_approval])"
proof -
  have "request_of ascii_ext (ex_request ''MERGE'' [] [] [ex_approval]) (ex_question ''MERGE'' [] [] [ex_approval])"
    using ex_approval_admitted plain_codes by (intro ex_request_of) (simp_all add: no_records admit_all_iff)
  then show ?thesis by (rule request_of_admit)
qed

lemma ex_approved_evaluates:
  "\<exists>d. evaluate_authority ascii_ext (ex_request ''MERGE'' [] [] [ex_approval]) = Inr d
     \<and> jfield d ''decision'' = Some (JStr (u ''AUTONOMOUS'')) \<and> jfield d ''approval_ref'' \<noteq> Some JNull"
proof -
  obtain v where v: "decide ascii_ext (ex_question ''MERGE'' [] [] [ex_approval]) = Inr v"
    "v_decision v = AUTONOMOUS" "v_rule v = None" "v_approval v = Some ex_approval"
    "v_prohibitions v = []" "v_excluding v = []"
    "set (v_reasons v) = {u ''NO_RULE_RESOLVED'', u ''ACTION_IS_HUMAN_ONLY'', u ''APPROVAL_EXACT''}"
    using ex_approved_decide by blast
  let ?r = "JObj [(u ''kind'', JStr (u ''approval'')),
    (u ''id'', JStr (u ''APPROVAL-'' @ ascii_upper (sha256_hex (json_bytes ex_approval_body))))]"
  have "plain_any ascii_ext False ?r"
    using ex_keys by simp (simp add: u_Cons)
  moreover have a: "optional_ref ''approval'' ''approval_id'' (v_approval v) = Inr ?r"
    by (simp add: v optional_ref_def ref_def afield_def ex_approval_def seal_field ex_approval_fields)
  ultimately have "\<exists>d. decision_record ascii_ext (ex_question ''MERGE'' [] [] [ex_approval]) v = Inr d"
    using v plain_codes
    by (intro ex_record [where rr = JNull and pr = "[]" and ar = "?r" and er = "[]"]) (simp_all add: optional_ref_def)
  then obtain d where d: "decision_record ascii_ext (ex_question ''MERGE'' [] [] [ex_approval]) v = Inr d" by blast
  then show ?thesis
    using v a ex_approved_admit decision_record_fields [OF d] by (auto simp: evaluate_authority_def)
qed

theorem approval_covers_exactly_witness:
  "\<exists>d i. evaluate_authority ascii_ext (ex_request ''MERGE'' [] [] [ex_approval]) = Inr d
     \<and> jfield d ''decision'' = Some (JStr (u ''AUTONOMOUS''))
     \<and> jfield d ''approval_ref'' = Some (JObj [(u ''kind'', JStr (u ''approval'')), (u ''id'', i)])
     \<and> jfield ex_approval ''approval_id'' = Some i \<and> jfield ex_approval ''status'' = Some (JStr (u ''ACTIVE''))"
proof -
  obtain d where d: "evaluate_authority ascii_ext (ex_request ''MERGE'' [] [] [ex_approval]) = Inr d"
    "jfield d ''decision'' = Some (JStr (u ''AUTONOMOUS''))" "jfield d ''approval_ref'' \<noteq> Some JNull"
    using ex_approved_evaluates by blast
  obtain a i where a: "jfield d ''approval_ref'' = Some (JObj [(u ''kind'', JStr (u ''approval'')), (u ''id'', i)])"
    "filter (\<lambda>b. jfield b ''approval_id'' = Some i) (q_approvals (ex_question ''MERGE'' [] [] [ex_approval])) = [a]"
    "jfield a ''status'' = Some (JStr (u ''ACTIVE''))"
    using approval_covers_exactly [OF d(1) ex_approved_admit d(2,3)] by (elim exE conjE) (rule that)
  then have "jfield ex_approval ''approval_id'' = Some i" "a = ex_approval" by (auto split: if_splits)
  then show ?thesis using d(1,2) a(1,3) by blast
qed

end
