(* ===== verification/Grants.thy ===== *)
theory Grants
  imports Authority
begin

text \<open>
  What the three grant evaluators of \<open>authority/\<close> share (\<open>verifier_selection.py\<close>,
  \<open>projection_authorization.py\<close>, \<open>model_execution_authorization.py\<close>): a supplied grant either
  fails to bind the question, or binds and is withheld, or binds; the answer rests on the
  binding grant with the smallest identity. Signatures are checked by \<open>binding/signature.py\<close>,
  whose Ed25519 primitive is a third-party package and stands here as a parameter.
\<close>

section \<open>Signatures\<close>

text \<open>\<open>bytes.fromhex\<close>: white space between two bytes is skipped.\<close>

fun from_hex :: "ustr \<Rightarrow> bytes option" where
  "from_hex [] = Some []"
| "from_hex [c] = (if c \<in> {9, 10, 11, 12, 13, 32} then Some [] else None)"
| "from_hex (c # d # s) =
     (if c \<in> {9, 10, 11, 12, 13, 32} then from_hex (d # s)
      else case (hex_value c, hex_value d) of
        (Some a, Some b) \<Rightarrow> map_option ((#) (of_nat (16 * a + b))) (from_hex s)
      | _ \<Rightarrow> None)"

text \<open>\<open>verifier k m s\<close>: \<open>Ed25519PublicKey.from_public_bytes(k).verify(s, m)\<close> returns.\<close>

type_synonym verifier = "bytes \<Rightarrow> bytes \<Rightarrow> bytes \<Rightarrow> bool"

definition verify_ed25519_signature :: "verifier \<Rightarrow> ustr \<Rightarrow> bytes \<Rightarrow> ustr \<Rightarrow> bool" where
  "verify_ed25519_signature V public_key_hex message signature_hex =
     (case (from_hex public_key_hex, from_hex signature_hex) of
        (Some k, Some s) \<Rightarrow> V k message s
      | _ \<Rightarrow> False)"

text \<open>The four guards around the primitive; the message is an argument Python evaluates in the
  caller's order.\<close>

definition verify_signature_over :: "verifier \<Rightarrow> json \<Rightarrow> json \<Rightarrow> auth_error + bytes \<Rightarrow> auth_error + bool" where
  "verify_signature_over V r signing_key message =
     bindE (aget r ''signature'') (\<lambda>signature.
     if \<not> is_obj signature then Inr False
     else bindE (aget signature ''algorithm'') (\<lambda>algorithm.
       bindE (aget signing_key ''algorithm'') (\<lambda>key_algorithm.
       if algorithm \<noteq> JStr (u ''ed25519'') \<or> \<not> py_eq key_algorithm algorithm then Inr False
       else bindE (aget signature ''key_id'') (\<lambda>named.
         bindE (aget signing_key ''key_id'') (\<lambda>key_id.
         if \<not> py_eq named key_id then Inr False
         else bindE (aget signature ''value'') (\<lambda>sig.
           bindE (aget signing_key ''public_key'') (\<lambda>key.
           (case (sig, key) of
              (JStr s, JStr k) \<Rightarrow> bindE message (\<lambda>m. Inr (verify_ed25519_signature V k m s))
            | _ \<Rightarrow> Inr False))))))))"

definition verify_declaration_signature :: "verifier \<Rightarrow> ext \<Rightarrow> json \<Rightarrow> json \<Rightarrow> auth_error + bool" where
  "verify_declaration_signature V E signing_key r =
     bindE (human_grant_declaration_signing_payload E r) (\<lambda>message.
     verify_signature_over V r signing_key (Inr message))"

definition verify_github_projection_grant_declaration_signature ::
  "verifier \<Rightarrow> ext \<Rightarrow> json \<Rightarrow> json \<Rightarrow> auth_error + bool" where
  "verify_github_projection_grant_declaration_signature V E signing_key r =
     bindE (github_projection_grant_declaration_signing_payload E r) (\<lambda>message.
     verify_signature_over V r signing_key (Inr message))"

definition verify_grant_signature :: "verifier \<Rightarrow> ext \<Rightarrow> json \<Rightarrow> json \<Rightarrow> auth_error + bool" where
  "verify_grant_signature V E signing_key grant =
     verify_signature_over V grant signing_key (model_execution_grant_signing_payload E grant)"

section \<open>The question\<close>

text \<open>\<open>gq_asked\<close> holds the fields the question itself is about, in the order of its record.\<close>

record grant_question =
  gq_asked :: "(string \<times> json) list"
  gq_project :: ustr
  gq_authority :: json
  gq_key :: json
  gq_grants :: "json list"
  gq_declarations :: "json list"

definition asked :: "grant_question \<Rightarrow> string \<Rightarrow> json" where
  "asked q f = (case map_of (gq_asked q) f of Some v \<Rightarrow> v | None \<Rightarrow> JNull)"

definition require_human_authority :: "json \<Rightarrow> auth_error + json" where
  "require_human_authority v =
     bindE (require_object v) (\<lambda>r.
     bindE (aget r ''kind'') (\<lambda>kind.
     bindE (ensureE (kind = JStr (u ''human_authority'')) AuthorityError) (\<lambda>_. Inr r)))"

definition require_among :: "string list \<Rightarrow> json \<Rightarrow> auth_error + ustr" where
  "require_among texts v =
     bindE (require_scalar_tag v) (\<lambda>s. bindE (ensureE (s \<in> set (map u texts)) AuthorityError) (\<lambda>_. Inr s))"

section \<open>One grant\<close>

datatype grant_class = Mismatched "ustr list" | Withheld ustr | Bound "json option"

text \<open>\<open>_core_mismatches\<close>: a code for each field of the table that differs.\<close>

definition core_mismatches :: "json \<Rightarrow> (string \<times> json \<times> string) list \<Rightarrow> auth_error + ustr list" where
  "core_mismatches grant table =
     bindE (mapE (\<lambda>(f, v, code). bindE (anot grant f v) (\<lambda>b. Inr (reason_if b code))) table) (\<lambda>rs.
     Inr (sort (concat rs)))"

definition equals :: "json \<Rightarrow> string \<Rightarrow> json \<Rightarrow> auth_error + bool" where
  "equals r f v = bindE (anot r f v) (\<lambda>b. Inr (\<not> b))"

definition anchors_grant :: "string \<Rightarrow> ustr \<Rightarrow> json \<Rightarrow> json \<Rightarrow> auth_error + bool" where
  "anchors_grant kind project_id grant_id declaration =
     andE (equals declaration ''project_id'' (JStr project_id))
       (equals declaration ''grant_ref'' (JObj [(u ''kind'', JStr (u kind)), (u ''id'', grant_id)]))"

fun declaration_restates_grant :: "string list \<Rightarrow> json \<Rightarrow> json \<Rightarrow> auth_error + bool" where
  "declaration_restates_grant [] grant declaration = Inr True"
| "declaration_restates_grant (f # fs) grant declaration =
     andE (bindE (afield declaration f) (\<lambda>x. bindE (afield grant f) (\<lambda>y. Inr (py_eq x y))))
       (declaration_restates_grant fs grant declaration)"

text \<open>The declaration checks are staged: the first one no declaration passes gives the code.\<close>

fun stages :: "((json \<Rightarrow> auth_error + bool) \<times> string) list \<Rightarrow> json list \<Rightarrow> auth_error + (ustr + json list)" where
  "stages [] ds = Inr (Inr ds)"
| "stages ((p, code) # ps) ds =
     bindE (filterE p ds) (\<lambda>kept. if kept = [] then Inr (Inl (u code)) else stages ps kept)"

definition declared_grant ::
  "grant_question \<Rightarrow> string \<Rightarrow> string list \<Rightarrow> (json \<Rightarrow> auth_error + bool) \<Rightarrow> string \<Rightarrow> json \<Rightarrow> json
   \<Rightarrow> auth_error + grant_class" where
  "declared_grant q kind restated verify identity grant grant_id =
     bindE (stages
       [(anchors_grant kind (gq_project q) grant_id, ''DECLARATION_MISSING''),
        (\<lambda>d. equals d ''declared_by'' (gq_authority q), ''DECLARATION_AUTHORITY_MISMATCH''),
        (\<lambda>d. equals d ''status'' (JStr (u ''ACTIVE'')), ''DECLARATION_NOT_ACTIVE''),
        (declaration_restates_grant restated grant, ''DECLARATION_CONTENT_MISMATCH''),
        (verify, ''DECLARATION_SIGNATURE_INVALID'')] (gq_declarations q)) (\<lambda>r.
     (case r of
        Inl code \<Rightarrow> Inr (Withheld code)
      | Inr valid \<Rightarrow> bindE (sorted_by identity valid) (\<lambda>ds. Inr (Bound (Some (hd ds))))))"

section \<open>The choice\<close>

record grant_choice =
  gc_grant :: "json option"
  gc_declaration :: "json option"
  gc_excluding :: "json list"
  gc_reasons :: "ustr list"

text \<open>\<open>sorted(pairs, key=lambda pair: str(pair[0][identity]))\<close>.\<close>

definition sorted_pairs :: "string \<Rightarrow> (json \<times> 'a) list \<Rightarrow> auth_error + (json \<times> 'a) list" where
  "sorted_pairs identity ps =
     bindE (mapE (\<lambda>(r, x). astr r identity) ps) (\<lambda>ks. Inr (map snd (sort_key fst (zip ks ps))))"

fun bound_of :: "json \<times> grant_class \<Rightarrow> (json \<times> json option) option" where
  "bound_of (g, Bound d) = Some (g, d)"
| "bound_of (g, _) = None"

fun withheld_of :: "json \<times> grant_class \<Rightarrow> (json \<times> ustr) option" where
  "withheld_of (g, Withheld code) = Some (g, code)"
| "withheld_of (g, _) = None"

fun failures_of :: "grant_class \<Rightarrow> ustr list" where
  "failures_of (Mismatched codes) = codes"
| "failures_of _ = []"

definition choose_grant :: "string \<Rightarrow> (json \<Rightarrow> auth_error + grant_class) \<Rightarrow> json list \<Rightarrow> auth_error + grant_choice" where
  "choose_grant identity classify grants =
     bindE (mapE classify grants) (\<lambda>cs.
     let binding = List.map_filter bound_of (zip grants cs);
         excluding = List.map_filter withheld_of (zip grants cs)
     in if grants = [] then
          Inr \<lparr> gc_grant = None, gc_declaration = None, gc_excluding = [], gc_reasons = [u ''GRANT_MISSING''] \<rparr>
        else if binding \<noteq> [] then
          bindE (sorted_pairs identity binding) (\<lambda>ps.
          Inr \<lparr> gc_grant = Some (fst (hd ps)), gc_declaration = snd (hd ps),
                gc_excluding = map fst excluding, gc_reasons = [u ''GRANT_EXACT''] \<rparr>)
        else if excluding \<noteq> [] then
          bindE (sorted_pairs identity excluding) (\<lambda>ps.
          Inr \<lparr> gc_grant = None, gc_declaration = None, gc_excluding = map fst excluding,
                gc_reasons = [snd (hd ps)] \<rparr>)
        else
          Inr \<lparr> gc_grant = None, gc_declaration = None, gc_excluding = [],
                gc_reasons = sort (remdups (concat (map failures_of cs))) \<rparr>)"

section \<open>The record\<close>

text \<open>\<open>_decision\<close> of the three modules: the question's fields, the references, then the digest,
  the address and the schema check. Only the first two evaluators cite a declaration.\<close>

definition grant_record ::
  "string \<Rightarrow> string \<Rightarrow> string \<Rightarrow> (ustr \<times> json) list \<Rightarrow> ustr \<Rightarrow> ustr \<Rightarrow> grant_question \<Rightarrow> grant_choice
   \<Rightarrow> auth_error + json" where
  "grant_record decision_field identity kind declaration_ref yes no q c =
     bindE (optional_ref kind identity (gc_grant c)) (\<lambda>grant_ref.
     bindE (mapE (ref kind identity) (gc_excluding c)) (\<lambda>excluding_refs.
     Inr (JObj
       ([(u ''schema_version'', schema_version), (u decision_field, JStr [])]
        @ map (\<lambda>(f, v). (u f, v)) (gq_asked q)
        @ [(u ''selection_authority_ref'', gq_authority q), (u ''grant_ref'', grant_ref),
           (u ''excluding_grant_refs'', JList excluding_refs)]
        @ declaration_ref
        @ [(u ''decision'', JStr (if gc_grant c \<noteq> None then yes else no)),
           (u ''decision_reason_codes'', JList (map JStr (sort (remdups (gc_reasons c))))),
           (u ''decision_semantic_fingerprint'', JStr [])]))))"

definition finish_grant_record ::
  "ext \<Rightarrow> (json \<Rightarrow> auth_error + ustr) \<Rightarrow> (json \<Rightarrow> auth_error + ustr) \<Rightarrow> string \<Rightarrow> string \<Rightarrow> json \<Rightarrow> auth_error + json" where
  "finish_grant_record E fingerprint identity decision_field schema_name r0 =
     bindE (fingerprint r0) (\<lambda>fp.
     let r1 = aset ''decision_semantic_fingerprint'' (JStr fp) r0
     in bindE (identity r1) (\<lambda>i.
        let r2 = aset decision_field (JStr i) r1
        in bindE (validateA E (schema_base @ u ''authority/'' @ u schema_name) r2) (\<lambda>_. Inr r2)))"

end
