(* ===== verification/GrantEvaluators.thy ===== *)
theory GrantEvaluators
  imports Grants
begin

text \<open>
  The three grant evaluators: verifier selection (\<open>authority/verifier_selection.py\<close>), GitHub
  projection (\<open>authority/projection_authorization.py\<close>) and model execution
  (\<open>authority/model_execution_authorization.py\<close>), each from the request to the addressed
  decision record. The last one asks for a signature on the grant itself, the first two for a
  signed declaration of it.
\<close>

section \<open>Verifier selection\<close>

definition verifier_selection_decision_semantic_fields :: "string list" where
  "verifier_selection_decision_semantic_fields = [''project_id'', ''requirement_id'', ''selection_id'',
     ''verifier_identity'', ''permitted_boundary'', ''selection_status'', ''selection_authority_ref'', ''grant_ref'',
     ''excluding_grant_refs'', ''declaration_ref'', ''decision'', ''decision_reason_codes'']"

definition verifier_selection_decision_semantic_fingerprint :: "ext \<Rightarrow> json \<Rightarrow> auth_error + ustr" where
  "verifier_selection_decision_semantic_fingerprint E d =
     bindE (project_fields verifier_selection_decision_semantic_fields d) (digest E)"

definition verifier_selection_decision_id :: "ext \<Rightarrow> json \<Rightarrow> auth_error + ustr" where
  "verifier_selection_decision_id E d =
     bindE (project_fields verifier_selection_decision_semantic_fields d) (address E ''VSEL-DEC-'')"

definition selection_request_keys :: "string list" where
  "selection_request_keys = [''schema_version'', ''project_id'', ''requirement_id'', ''selection_id'',
     ''verifier_identity'', ''permitted_boundary'', ''selection_status'', ''human_authority_ref'',
     ''human_authority_signing_key'', ''grants'', ''grant_declarations'']"

definition admit_selection_request :: "ext \<Rightarrow> json \<Rightarrow> auth_error + grant_question" where
  "admit_selection_request E request =
     bindE (require_request_shape selection_request_keys request) (\<lambda>shaped.
     bindE (afield shaped ''project_id'') (\<lambda>p.
     bindE (require_scalar_tag p) (\<lambda>project_id.
     bindE (afield shaped ''requirement_id'') (\<lambda>r.
     bindE (require_scalar_tag r) (\<lambda>requirement_id.
     bindE (afield shaped ''selection_id'') (\<lambda>s.
     bindE (require_scalar_tag s) (\<lambda>selection_id.
     bindE (afield shaped ''verifier_identity'') (\<lambda>v.
     bindE (require_object v) (\<lambda>verifier_identity.
     bindE (afield shaped ''permitted_boundary'') (\<lambda>b.
     bindE (require_object b) (\<lambda>permitted_boundary.
     bindE (afield shaped ''selection_status'') (\<lambda>t.
     bindE (require_among [''ACTIVE'', ''REVOKED'', ''EXPIRED''] t) (\<lambda>selection_status.
     bindE (afield shaped ''human_authority_ref'') (\<lambda>h.
     bindE (require_human_authority h) (\<lambda>authority.
     bindE (afield shaped ''human_authority_signing_key'') (\<lambda>k.
     bindE (require_object k) (\<lambda>key.
     bindE (afield shaped ''grants'') (\<lambda>gs.
     bindE (admit_all E verifier_selection_grant_type no_refine gs) (\<lambda>grants.
     bindE (afield shaped ''grant_declarations'') (\<lambda>ds.
     bindE (admit_all E human_grant_declaration_type no_refine ds) (\<lambda>declarations.
     Inr \<lparr> gq_asked = [(''project_id'', JStr project_id), (''requirement_id'', JStr requirement_id),
             (''selection_id'', JStr selection_id), (''verifier_identity'', verifier_identity),
             (''permitted_boundary'', permitted_boundary), (''selection_status'', JStr selection_status)],
           gq_project = project_id, gq_authority = authority, gq_key = key,
           gq_grants = grants, gq_declarations = declarations \<rparr>)))))))))))))))))))))"

definition selection_core :: "grant_question \<Rightarrow> (string \<times> json \<times> string) list" where
  "selection_core q =
     [(''project_id'', asked q ''project_id'', ''GRANT_PROJECT_MISMATCH''),
      (''requirement_id'', asked q ''requirement_id'', ''GRANT_REQUIREMENT_MISMATCH''),
      (''selection_id'', asked q ''selection_id'', ''GRANT_SELECTION_MISMATCH''),
      (''verifier_identity'', asked q ''verifier_identity'', ''GRANT_VERIFIER_IDENTITY_MISMATCH''),
      (''permitted_boundary'', asked q ''permitted_boundary'', ''GRANT_BOUNDARY_MISMATCH''),
      (''status'', asked q ''selection_status'', ''GRANT_SELECTION_STATUS_MISMATCH''),
      (''granted_by'', gq_authority q, ''GRANT_AUTHORITY_MISMATCH'')]"

definition selection_restated :: "string list" where
  "selection_restated = [''requirement_id'', ''selection_id'', ''verifier_identity'', ''permitted_boundary'']"

text \<open>The first tests of the loop over the grants, the same in the three modules.\<close>

definition classify_grant ::
  "(json \<Rightarrow> auth_error + ustr list) \<Rightarrow> (json \<Rightarrow> auth_error + grant_class) \<Rightarrow> json \<Rightarrow> auth_error + grant_class" where
  "classify_grant core active grant =
     bindE (core grant) (\<lambda>mismatches.
     if mismatches \<noteq> [] then Inr (Mismatched mismatches)
     else bindE (astr grant ''status'') (\<lambda>status.
       if status \<noteq> u ''ACTIVE'' then Inr (Withheld (u ''GRANT_'' @ status)) else active grant))"

definition classify_selection :: "verifier \<Rightarrow> ext \<Rightarrow> grant_question \<Rightarrow> json \<Rightarrow> auth_error + grant_class" where
  "classify_selection V E q =
     classify_grant (\<lambda>grant. core_mismatches grant (selection_core q))
       (\<lambda>grant. bindE (afield grant ''verifier_selection_grant_id'') (\<lambda>grant_id.
          declared_grant q ''verifier_selection_grant'' selection_restated
            (verify_declaration_signature V E (gq_key q)) ''human_grant_declaration_id'' grant grant_id))"

definition selection_record :: "ext \<Rightarrow> grant_question \<Rightarrow> grant_choice \<Rightarrow> auth_error + json" where
  "selection_record E q c =
     bindE (optional_ref ''human_grant_declaration'' ''human_grant_declaration_id'' (gc_declaration c)) (\<lambda>declaration_ref.
     bindE (grant_record ''verifier_selection_decision_id'' ''verifier_selection_grant_id'' ''verifier_selection_grant''
         [(u ''declaration_ref'', declaration_ref)] (u ''VERIFIER_SELECTION_SELECTED'') (u ''VERIFIER_SELECTION_REFUSED'') q c)
       (finish_grant_record E (verifier_selection_decision_semantic_fingerprint E) (verifier_selection_decision_id E)
         ''verifier_selection_decision_id'' ''verifier_selection_decision.schema.json''))"

definition evaluate_verifier_selection :: "verifier \<Rightarrow> ext \<Rightarrow> json \<Rightarrow> auth_error + json" where
  "evaluate_verifier_selection V E request =
     mapErr at_boundary (bindE (admit_selection_request E request) (\<lambda>q.
     bindE (choose_grant ''verifier_selection_grant_id'' (classify_selection V E q) (gq_grants q)) (\<lambda>c.
     selection_record E q c)))"

section \<open>GitHub projection\<close>

definition github_projection_decision_semantic_fields :: "string list" where
  "github_projection_decision_semantic_fields = [''project_id'', ''subject_ref'', ''subject_fingerprint'',
     ''projection_kind'', ''target_repository'', ''payload_fingerprint'', ''permitted_action'',
     ''selection_authority_ref'', ''grant_ref'', ''excluding_grant_refs'', ''declaration_ref'', ''decision'',
     ''decision_reason_codes'']"

definition github_projection_decision_semantic_fingerprint :: "ext \<Rightarrow> json \<Rightarrow> auth_error + ustr" where
  "github_projection_decision_semantic_fingerprint E d =
     bindE (project_fields github_projection_decision_semantic_fields d) (digest E)"

definition github_projection_decision_id :: "ext \<Rightarrow> json \<Rightarrow> auth_error + ustr" where
  "github_projection_decision_id E d =
     bindE (project_fields github_projection_decision_semantic_fields d) (address E ''GH-PROJ-DEC-'')"

definition projection_request_keys :: "string list" where
  "projection_request_keys = [''schema_version'', ''project_id'', ''subject_ref'', ''subject_fingerprint'',
     ''projection_kind'', ''target_repository'', ''payload_fingerprint'', ''permitted_action'',
     ''human_authority_ref'', ''human_authority_signing_key'', ''grants'', ''grant_declarations'']"

definition admit_projection_request :: "ext \<Rightarrow> json \<Rightarrow> auth_error + grant_question" where
  "admit_projection_request E request =
     bindE (require_request_shape projection_request_keys request) (\<lambda>shaped.
     bindE (afield shaped ''project_id'') (\<lambda>p.
     bindE (require_scalar_tag p) (\<lambda>project_id.
     bindE (afield shaped ''subject_ref'') (\<lambda>s.
     bindE (require_object s) (\<lambda>subject_ref.
     bindE (afield shaped ''subject_fingerprint'') (\<lambda>f.
     bindE (require_scalar_tag f) (\<lambda>subject_fingerprint.
     bindE (afield shaped ''projection_kind'') (\<lambda>k.
     bindE (require_among [''DIFFERENCE_ISSUE'', ''CHANGE_PULL_REQUEST'', ''EVIDENCE_ARTIFACT''] k) (\<lambda>projection_kind.
     bindE (afield shaped ''target_repository'') (\<lambda>t.
     bindE (require_object t) (\<lambda>target_repository.
     bindE (afield shaped ''payload_fingerprint'') (\<lambda>l.
     bindE (require_scalar_tag l) (\<lambda>payload_fingerprint.
     bindE (afield shaped ''permitted_action'') (\<lambda>a.
     bindE (require_among [''MATERIALIZE_PROJECTION''] a) (\<lambda>permitted_action.
     bindE (afield shaped ''human_authority_ref'') (\<lambda>h.
     bindE (require_human_authority h) (\<lambda>authority.
     bindE (afield shaped ''human_authority_signing_key'') (\<lambda>k.
     bindE (require_object k) (\<lambda>key.
     bindE (afield shaped ''grants'') (\<lambda>gs.
     bindE (admit_all E github_projection_grant_type no_refine gs) (\<lambda>grants.
     bindE (afield shaped ''grant_declarations'') (\<lambda>ds.
     bindE (admit_all E github_projection_grant_declaration_type no_refine ds) (\<lambda>declarations.
     Inr \<lparr> gq_asked = [(''project_id'', JStr project_id), (''subject_ref'', subject_ref),
             (''subject_fingerprint'', JStr subject_fingerprint), (''projection_kind'', JStr projection_kind),
             (''target_repository'', target_repository), (''payload_fingerprint'', JStr payload_fingerprint),
             (''permitted_action'', JStr permitted_action)],
           gq_project = project_id, gq_authority = authority, gq_key = key,
           gq_grants = grants, gq_declarations = declarations \<rparr>)))))))))))))))))))))))"

definition projection_core :: "grant_question \<Rightarrow> (string \<times> json \<times> string) list" where
  "projection_core q =
     [(''project_id'', asked q ''project_id'', ''GRANT_PROJECT_MISMATCH''),
      (''subject_ref'', asked q ''subject_ref'', ''GRANT_SUBJECT_MISMATCH''),
      (''subject_fingerprint'', asked q ''subject_fingerprint'', ''GRANT_SUBJECT_FINGERPRINT_MISMATCH''),
      (''projection_kind'', asked q ''projection_kind'', ''GRANT_PROJECTION_KIND_MISMATCH''),
      (''target_repository'', asked q ''target_repository'', ''GRANT_TARGET_REPOSITORY_MISMATCH''),
      (''payload_fingerprint'', asked q ''payload_fingerprint'', ''GRANT_PAYLOAD_MISMATCH''),
      (''permitted_action'', asked q ''permitted_action'', ''GRANT_ACTION_MISMATCH''),
      (''granted_by'', gq_authority q, ''GRANT_AUTHORITY_MISMATCH'')]"

definition projection_restated :: "string list" where
  "projection_restated = [''subject_ref'', ''subject_fingerprint'', ''projection_kind'', ''target_repository'',
     ''payload_fingerprint'', ''permitted_action'']"

definition classify_projection :: "verifier \<Rightarrow> ext \<Rightarrow> grant_question \<Rightarrow> json \<Rightarrow> auth_error + grant_class" where
  "classify_projection V E q =
     classify_grant (\<lambda>grant. core_mismatches grant (projection_core q))
       (\<lambda>grant. bindE (afield grant ''github_projection_grant_id'') (\<lambda>grant_id.
          declared_grant q ''github_projection_grant'' projection_restated
            (verify_github_projection_grant_declaration_signature V E (gq_key q))
            ''github_projection_grant_declaration_id'' grant grant_id))"

definition projection_record :: "ext \<Rightarrow> grant_question \<Rightarrow> grant_choice \<Rightarrow> auth_error + json" where
  "projection_record E q c =
     bindE (optional_ref ''github_projection_grant_declaration'' ''github_projection_grant_declaration_id''
         (gc_declaration c)) (\<lambda>declaration_ref.
     bindE (grant_record ''github_projection_decision_id'' ''github_projection_grant_id'' ''github_projection_grant''
         [(u ''declaration_ref'', declaration_ref)] (u ''PROJECTION_AUTHORIZED'') (u ''PROJECTION_REFUSED'') q c)
       (finish_grant_record E (github_projection_decision_semantic_fingerprint E) (github_projection_decision_id E)
         ''github_projection_decision_id'' ''github_projection_decision.schema.json''))"

definition evaluate_projection_authorization :: "verifier \<Rightarrow> ext \<Rightarrow> json \<Rightarrow> auth_error + json" where
  "evaluate_projection_authorization V E request =
     mapErr at_boundary (bindE (admit_projection_request E request) (\<lambda>q.
     bindE (choose_grant ''github_projection_grant_id'' (classify_projection V E q) (gq_grants q)) (\<lambda>c.
     projection_record E q c)))"

section \<open>Model execution\<close>

definition model_execution_decision_semantic_fields :: "string list" where
  "model_execution_decision_semantic_fields = [''project_id'', ''difference_ref'', ''required_capability'',
     ''boundary_ref'', ''selection_authority_ref'', ''grant_ref'', ''excluding_grant_refs'', ''decision'',
     ''decision_reason_codes'']"

definition model_execution_decision_semantic_fingerprint :: "ext \<Rightarrow> json \<Rightarrow> auth_error + ustr" where
  "model_execution_decision_semantic_fingerprint E d =
     bindE (project_fields model_execution_decision_semantic_fields d) (digest E)"

definition model_execution_decision_id :: "ext \<Rightarrow> json \<Rightarrow> auth_error + ustr" where
  "model_execution_decision_id E d =
     bindE (project_fields model_execution_decision_semantic_fields d) (address E ''MODEL-EXEC-DEC-'')"

definition model_request_keys :: "string list" where
  "model_request_keys = [''schema_version'', ''project_id'', ''difference_ref'', ''required_capability'',
     ''boundary_ref'', ''human_authority_ref'', ''human_authority_signing_key'', ''grants'']"

definition require_typed_reference :: "string \<Rightarrow> json \<Rightarrow> auth_error + json" where
  "require_typed_reference kind v =
     bindE (require_object v) (\<lambda>reference.
     bindE (aget reference ''kind'') (\<lambda>k.
     bindE (ensureE (k = JStr (u kind)) AuthorityError) (\<lambda>_.
     bindE (aget reference ''id'') (\<lambda>i.
     bindE (require_scalar_tag i) (\<lambda>_. Inr reference)))))"

definition admit_model_request :: "ext \<Rightarrow> json \<Rightarrow> auth_error + grant_question" where
  "admit_model_request E request =
     bindE (require_request_shape model_request_keys request) (\<lambda>shaped.
     bindE (afield shaped ''project_id'') (\<lambda>p.
     bindE (require_scalar_tag p) (\<lambda>project_id.
     bindE (afield shaped ''difference_ref'') (\<lambda>d.
     bindE (require_typed_reference ''difference'' d) (\<lambda>difference_ref.
     bindE (afield shaped ''required_capability'') (\<lambda>c.
     bindE (require_among [''PROPOSE_EVIDENCE_CANDIDATE''] c) (\<lambda>required_capability.
     bindE (afield shaped ''boundary_ref'') (\<lambda>b.
     bindE (require_typed_reference ''model_execution_boundary'' b) (\<lambda>boundary_ref.
     bindE (afield shaped ''human_authority_ref'') (\<lambda>h.
     bindE (require_typed_reference ''human_authority'' h) (\<lambda>authority.
     bindE (afield shaped ''human_authority_signing_key'') (\<lambda>k.
     bindE (require_object k) (\<lambda>key.
     bindE (afield shaped ''grants'') (\<lambda>gs.
     bindE (admit_all E model_execution_grant_type no_refine gs) (\<lambda>grants.
     Inr \<lparr> gq_asked = [(''project_id'', JStr project_id), (''difference_ref'', difference_ref),
             (''required_capability'', JStr required_capability), (''boundary_ref'', boundary_ref)],
           gq_project = project_id, gq_authority = authority, gq_key = key,
           gq_grants = grants, gq_declarations = [] \<rparr>)))))))))))))))"

definition model_core :: "grant_question \<Rightarrow> (string \<times> json \<times> string) list" where
  "model_core q =
     [(''project_id'', asked q ''project_id'', ''GRANT_PROJECT_MISMATCH''),
      (''difference_ref'', asked q ''difference_ref'', ''GRANT_DIFFERENCE_MISMATCH''),
      (''required_capability'', asked q ''required_capability'', ''GRANT_CAPABILITY_MISMATCH''),
      (''boundary_ref'', asked q ''boundary_ref'', ''GRANT_BOUNDARY_MISMATCH''),
      (''permitted_action'', JStr (u ''EXECUTE_MODEL_WORK_UNIT''), ''GRANT_ACTION_MISMATCH''),
      (''granted_by'', gq_authority q, ''GRANT_AUTHORITY_MISMATCH'')]"

text \<open>\<open>grant["permitted_action"] not in _PERMITTED_ACTIONS\<close> hashes the value.\<close>

fun hashable :: "json \<Rightarrow> bool" where
  "hashable (JList xs) = False"
| "hashable (JObj kvs) = False"
| "hashable (JObjBad kvs) = False"
| "hashable v = True"

definition model_mismatches :: "grant_question \<Rightarrow> json \<Rightarrow> auth_error + ustr list" where
  "model_mismatches q grant =
     bindE (afield grant ''permitted_action'') (\<lambda>action.
     bindE (ensureE (hashable action) AuthPy) (\<lambda>_. core_mismatches grant (model_core q)))"

definition classify_model :: "verifier \<Rightarrow> ext \<Rightarrow> grant_question \<Rightarrow> json \<Rightarrow> auth_error + grant_class" where
  "classify_model V E q =
     classify_grant (model_mismatches q)
       (\<lambda>grant. bindE (verify_grant_signature V E (gq_key q) grant) (\<lambda>valid.
          Inr (if valid then Bound None else Withheld (u ''GRANT_SIGNATURE_INVALID''))))"

definition model_record :: "ext \<Rightarrow> grant_question \<Rightarrow> grant_choice \<Rightarrow> auth_error + json" where
  "model_record E q c =
     bindE (grant_record ''model_execution_decision_id'' ''model_execution_grant_id'' ''model_execution_grant''
         [] (u ''MODEL_EXECUTION_AUTHORIZED'') (u ''MODEL_EXECUTION_REFUSED'') q c)
       (finish_grant_record E (model_execution_decision_semantic_fingerprint E) (model_execution_decision_id E)
         ''model_execution_decision_id'' ''model_execution_decision.schema.json'')"

definition evaluate_model_execution_authorization :: "verifier \<Rightarrow> ext \<Rightarrow> json \<Rightarrow> auth_error + json" where
  "evaluate_model_execution_authorization V E request =
     mapErr at_boundary (bindE (admit_model_request E request) (\<lambda>q.
     bindE (choose_grant ''model_execution_grant_id'' (classify_model V E q) (gq_grants q)) (\<lambda>c.
     model_record E q c)))"

end
