(* ===== verification/GrantLaws.thy ===== *)
theory GrantLaws
  imports GrantEvaluators AuthorityLemmas
begin

text \<open>
  The contract between the loop over the grants and the choice it feeds: a locale states what a
  classification promises, its lemmas say what the choice then is, and the three evaluators
  are its instances.
\<close>

section \<open>The contract\<close>

lemma sorted_pairs_iff: "sorted_pairs f xs = Inr ys \<longleftrightarrow>
    (\<forall>x \<in> set xs. \<exists>s. jfield (fst x) f = Some (JStr s)) \<and> ys = sort_key (\<lambda>x. str_at f (fst x)) xs"
proof -
  have zip: "map snd (sort_key fst (zip (map k xs) xs)) = sort_key k xs" for k :: "json \<times> 'a \<Rightarrow> ustr"
  proof -
    have "zip (map k xs) xs = map (\<lambda>x. (k x, x)) xs" by (simp add: zip_map1 zip_same_conv_map)
    then show ?thesis by (simp add: map_sort_key_pairs)
  qed
  have "mapE (\<lambda>(r, x). astr r f) xs = Inr ks \<longleftrightarrow>
      (\<forall>x \<in> set xs. \<exists>s. jfield (fst x) f = Some (JStr s)) \<and> ks = map (\<lambda>x. str_at f (fst x)) xs" for ks
    by (induction xs arbitrary: ks) (auto simp: str_at_def)
  then show ?thesis using zip by (auto simp: sorted_pairs_def)
qed

lemma hd_sort_key:
  assumes "xs \<noteq> []"
  shows "hd (sort_key f xs) \<in> set xs" and "\<And>x. x \<in> set xs \<Longrightarrow> f (hd (sort_key f xs)) \<le> f x"
proof -
  obtain y ys where y: "sort_key f xs = y # ys" using assms by (cases "sort_key f xs") (auto dest: arg_cong [where f = set])
  then have "set (y # ys) = set xs" by (metis set_sort)
  then show "hd (sort_key f xs) \<in> set xs" using y by auto
  have "sorted (map f (y # ys))" by (metis sorted_sort_key y)
  then show "f (hd (sort_key f xs)) \<le> f x" if "x \<in> set xs" for x
    using that y \<open>set (y # ys) = set xs\<close> by (auto simp flip: \<open>set (y # ys) = set xs\<close>)
qed

locale grant_evaluator =
  fixes classify :: "json \<Rightarrow> auth_error + grant_class"
    and identity :: string
    and binds :: "json \<Rightarrow> json option \<Rightarrow> bool"
  assumes bound: "classify g = Inr (Bound d) \<Longrightarrow> binds g d"
    and unbound: "classify g = Inr (Withheld code) \<Longrightarrow> \<not> binds g d"
      "classify g = Inr (Mismatched codes) \<Longrightarrow> \<not> binds g d"
begin

definition bound_grants :: "json list \<Rightarrow> (json \<times> json option) list" where
  "bound_grants = List.map_filter (\<lambda>g. case classify g of Inr (Bound d) \<Rightarrow> Some (g, d) | _ \<Rightarrow> None)"

definition withheld_grants :: "json list \<Rightarrow> (json \<times> ustr) list" where
  "withheld_grants = List.map_filter (\<lambda>g. case classify g of Inr (Withheld r) \<Rightarrow> Some (g, r) | _ \<Rightarrow> None)"

lemma set_bound: "set (bound_grants gs) = {(g, d). g \<in> set gs \<and> classify g = Inr (Bound d)}"
proof (induction gs)
  case (Cons g gs)
  then show ?case
    by (cases "classify g"; cases "projr (classify g)") (auto simp: bound_grants_def map_filter_simps)
qed (simp add: bound_grants_def map_filter_simps)

lemma classes:
  assumes "mapE classify gs = Inr cs"
  shows "cs = map (\<lambda>g. projr (classify g)) gs" and "\<And>g. g \<in> set gs \<Longrightarrow> \<exists>c. classify g = Inr c"
    and "List.map_filter bound_of (zip gs cs) = bound_grants gs"
    and "List.map_filter withheld_of (zip gs cs) = withheld_grants gs"
proof -
  show cs: "cs = map (\<lambda>g. projr (classify g)) gs" and total: "\<And>g. g \<in> set gs \<Longrightarrow> \<exists>c. classify g = Inr c"
    using assms by (auto simp: mapE_total)
  have "List.map_filter bound_of (zip gs (map (\<lambda>g. projr (classify g)) gs)) = bound_grants gs
      \<and> List.map_filter withheld_of (zip gs (map (\<lambda>g. projr (classify g)) gs)) = withheld_grants gs"
    if "\<And>g. g \<in> set gs \<Longrightarrow> \<exists>c. classify g = Inr c" for gs
    using that
  proof (induction gs)
    case (Cons g gs)
    obtain c where "classify g = Inr c" using Cons.prems by auto
    then show ?case
      using Cons.IH Cons.prems by (cases c) (simp_all add: bound_grants_def withheld_grants_def map_filter_simps)
  qed (simp add: bound_grants_def withheld_grants_def map_filter_simps)
  then show "List.map_filter bound_of (zip gs cs) = bound_grants gs"
    "List.map_filter withheld_of (zip gs cs) = withheld_grants gs"
    using cs total by simp_all
qed

lemma chosen:
  assumes "choose_grant identity classify gs = Inr c" and "gc_grant c = Some g"
  shows "g \<in> set gs" and "binds g (gc_declaration c)"
    and "\<And>h d. h \<in> set gs \<Longrightarrow> binds h d \<Longrightarrow> str_at identity g \<le> str_at identity h"
proof -
  obtain cs where cs: "mapE classify gs = Inr cs" using assms(1) by (auto simp: choose_grant_def)
  have ne: "bound_grants gs \<noteq> []" and c: "gc_grant c = Some (fst (hd (sort_key (\<lambda>x. str_at identity (fst x)) (bound_grants gs))))"
    "gc_declaration c = snd (hd (sort_key (\<lambda>x. str_at identity (fst x)) (bound_grants gs)))"
    using assms by (auto simp: choose_grant_def Let_def cs classes(3,4) [OF cs] sorted_pairs_iff split: if_splits)
  let ?p = "hd (sort_key (\<lambda>x. str_at identity (fst x)) (bound_grants gs))"
  have p: "?p \<in> set (bound_grants gs)" "\<And>x. x \<in> set (bound_grants gs) \<Longrightarrow> str_at identity (fst ?p) \<le> str_at identity (fst x)"
    using hd_sort_key [OF ne, where f = "\<lambda>x. str_at identity (fst x)"] by auto
  have g: "?p = (g, gc_declaration c)" using assms(2) c by (simp add: prod_eq_iff)
  then show "g \<in> set gs" "binds g (gc_declaration c)" using p(1) by (auto simp: set_bound intro: bound)
  fix h d assume h: "h \<in> set gs" "binds h d"
  then obtain k where "classify h = Inr k" using classes(2) [OF cs] by blast
  then obtain d' where "classify h = Inr (Bound d')" using h(2) unbound by (cases k) auto
  then show "str_at identity g \<le> str_at identity h" using p(2) [of "(h, d')"] h(1) g by (auto simp: set_bound)
qed

lemma chosen_iff:
  assumes "choose_grant identity classify gs = Inr c"
  shows "gc_grant c \<noteq> None \<longleftrightarrow> (\<exists>g d. g \<in> set gs \<and> binds g d)"
proof
  assume "gc_grant c \<noteq> None"
  then show "\<exists>g d. g \<in> set gs \<and> binds g d" using chosen [OF assms] by blast
next
  assume "\<exists>g d. g \<in> set gs \<and> binds g d"
  then obtain g d where g: "g \<in> set gs" "binds g d" by blast
  obtain cs where cs: "mapE classify gs = Inr cs" using assms by (auto simp: choose_grant_def)
  obtain k where "classify g = Inr k" using classes(2) [OF cs g(1)] by blast
  then obtain d' where "classify g = Inr (Bound d')" using g(2) unbound by (cases k) auto
  then have "(g, d') \<in> set (bound_grants gs)" using g(1) by (simp add: set_bound)
  then have "bound_grants gs \<noteq> []" by auto
  then show "gc_grant c \<noteq> None"
    using assms g(1) by (auto simp: choose_grant_def Let_def cs classes(3,4) [OF cs] split: if_splits)
qed

text \<open>The withheld grants are listed in the order supplied.\<close>

lemma excluded_in_order:
  assumes "choose_grant identity classify gs = Inr c"
  shows "gc_excluding c = filter (\<lambda>g. \<exists>r. classify g = Inr (Withheld r)) gs"
proof -
  obtain cs where cs: "mapE classify gs = Inr cs" using assms by (auto simp: choose_grant_def)
  have "map fst (withheld_grants gs) = filter (\<lambda>g. \<exists>r. classify g = Inr (Withheld r)) gs" for gs
  proof (induction gs)
    case (Cons g gs)
    then show ?case
      by (cases "classify g"; cases "projr (classify g)") (auto simp: withheld_grants_def map_filter_simps)
  qed (simp add: withheld_grants_def map_filter_simps)
  moreover have "gc_excluding c = map fst (withheld_grants gs)"
    using assms by (auto simp: choose_grant_def Let_def cs classes(3,4) [OF cs] withheld_grants_def map_filter_simps split: if_splits)
  ultimately show ?thesis by simp
qed

end

section \<open>What it is to bind\<close>

definition same_field :: "json \<Rightarrow> string \<Rightarrow> json \<Rightarrow> bool" where
  "same_field r f v \<longleftrightarrow> (\<exists>x. jfield r f = Some x \<and> py_eq x v)"

text \<open>The grant is active and agrees with the question on every field of the table.\<close>

definition covers :: "(string \<times> json \<times> string) list \<Rightarrow> json \<Rightarrow> bool" where
  "covers table grant \<longleftrightarrow> list_all (\<lambda>(f, v, code). same_field grant f v) table
     \<and> jfield grant ''status'' = Some (JStr (u ''ACTIVE''))"

text \<open>The declaration is one of the question's, names the project, the grant and the Human
  Authority, is active, restates the grant, and its signature verifies.\<close>

definition declares ::
  "grant_question \<Rightarrow> string \<Rightarrow> string list \<Rightarrow> (json \<Rightarrow> auth_error + bool) \<Rightarrow> json \<Rightarrow> json \<Rightarrow> json \<Rightarrow> bool" where
  "declares q kind restated verify grant grant_id d \<longleftrightarrow> d \<in> set (gq_declarations q)
     \<and> same_field d ''project_id'' (JStr (gq_project q))
     \<and> same_field d ''grant_ref'' (JObj [(u ''kind'', JStr (u kind)), (u ''id'', grant_id)])
     \<and> same_field d ''declared_by'' (gq_authority q)
     \<and> jfield d ''status'' = Some (JStr (u ''ACTIVE''))
     \<and> list_all (\<lambda>f. \<exists>y. jfield grant f = Some y \<and> same_field d f y) restated
     \<and> verify d = Inr True"

definition selection_binds :: "verifier \<Rightarrow> ext \<Rightarrow> grant_question \<Rightarrow> json \<Rightarrow> json option \<Rightarrow> bool" where
  "selection_binds V E q grant d \<longleftrightarrow> covers (selection_core q) grant
     \<and> (\<exists>i x. jfield grant ''verifier_selection_grant_id'' = Some i \<and> d = Some x
         \<and> declares q ''verifier_selection_grant'' selection_restated (verify_declaration_signature V E (gq_key q)) grant i x)"

definition projection_binds :: "verifier \<Rightarrow> ext \<Rightarrow> grant_question \<Rightarrow> json \<Rightarrow> json option \<Rightarrow> bool" where
  "projection_binds V E q grant d \<longleftrightarrow> covers (projection_core q) grant
     \<and> (\<exists>i x. jfield grant ''github_projection_grant_id'' = Some i \<and> d = Some x
         \<and> declares q ''github_projection_grant'' projection_restated
             (verify_github_projection_grant_declaration_signature V E (gq_key q)) grant i x)"

definition model_binds :: "verifier \<Rightarrow> ext \<Rightarrow> grant_question \<Rightarrow> json \<Rightarrow> json option \<Rightarrow> bool" where
  "model_binds V E q grant d \<longleftrightarrow> covers (model_core q) grant \<and> d = None
     \<and> verify_grant_signature V E (gq_key q) grant = Inr True"

lemma anot_same: "anot r f v = Inr b \<Longrightarrow> same_field r f v \<longleftrightarrow> \<not> b"
  by (auto simp: anot_def same_field_def)

lemma equals_True [simp]: "equals r f v = Inr True \<longleftrightarrow> same_field r f v"
  by (auto simp: equals_def anot_def same_field_def)

lemma same_field_str [simp]: "same_field r f (JStr s) \<longleftrightarrow> jfield r f = Some (JStr s)"
proof -
  have "py_eq x (JStr s) \<longleftrightarrow> x = JStr s" for x by (cases x) (auto simp: py_eq_def split: if_splits)
  then show ?thesis by (auto simp: same_field_def)
qed

lemma core_mismatches_Nil:
  "core_mismatches grant table = Inr ms \<Longrightarrow> ms = [] \<longleftrightarrow> list_all (\<lambda>(f, v, code). same_field grant f v) table"
proof -
  assume "core_mismatches grant table = Inr ms"
  then obtain rs where rs: "mapE (\<lambda>(f, v, code). bindE (anot grant f v) (\<lambda>b. Inr (reason_if b code))) table = Inr rs"
    and ms: "ms = sort (concat rs)" by (auto simp: core_mismatches_def)
  have "concat rs = [] \<longleftrightarrow> list_all (\<lambda>(f, v, code). same_field grant f v) table"
    using rs by (induction table arbitrary: rs) (auto simp: anot_same reason_if_def split: if_splits)
  then show ?thesis using ms by (metis mset.simps(1) mset_sort mset_zero_iff)
qed

lemma restates_iff [simp]: "declaration_restates_grant fs grant d = Inr True \<longleftrightarrow>
    list_all (\<lambda>f. \<exists>y. jfield grant f = Some y \<and> same_field d f y) fs"
  by (induction fs) (auto simp: andE_True same_field_def)

lemma stages_withheld: "stages ps ds = Inr (Inl code) \<Longrightarrow> d \<in> set ds \<Longrightarrow> \<not> list_all (\<lambda>(p, c). p d = Inr True) ps"
proof (induction ps arbitrary: ds)
  case (Cons pc ps)
  obtain p c where pc: "pc = (p, c)" by (cases pc)
  obtain kept where kept: "filterE p ds = Inr kept" using Cons.prems(1) by (auto simp: pc)
  show ?case
  proof
    assume all: "list_all (\<lambda>(p, c). p d = Inr True) (pc # ps)"
    then have "d \<in> set kept" using filterE_set [OF kept] Cons.prems(2) by (simp add: pc)
    then show False using Cons.IH [of kept] Cons.prems(1) kept all by (auto simp: pc split: if_splits)
  qed
qed simp

lemma stages_valid: "stages ps ds = Inr (Inr ks) \<Longrightarrow> set ks = {d \<in> set ds. list_all (\<lambda>(p, c). p d = Inr True) ps}
    \<and> (ps \<noteq> [] \<longrightarrow> ks \<noteq> [])"
proof (induction ps arbitrary: ds)
  case (Cons pc ps)
  obtain p c where pc: "pc = (p, c)" by (cases pc)
  obtain kept where kept: "filterE p ds = Inr kept" using Cons.prems(1) by (auto simp: pc)
  have ne: "kept \<noteq> []" and rest: "stages ps kept = Inr (Inr ks)"
    using Cons.prems(1) kept by (auto simp: pc split: if_splits)
  have "ks \<noteq> []" using Cons.IH [OF rest] ne rest by (cases "ps = []") auto
  then show ?case using Cons.IH [OF rest] filterE_set [OF kept] by (auto simp: pc)
qed simp

lemma declared_grant_class:
  assumes "declared_grant q kind restated verify identity grant i = Inr c"
  shows "c = Bound d \<Longrightarrow> \<exists>x. d = Some x \<and> declares q kind restated verify grant i x"
    and "c = Withheld code \<Longrightarrow> \<not> declares q kind restated verify grant i x"
    and "c \<noteq> Mismatched codes"
proof -
  let ?ps = "[(anchors_grant kind (gq_project q) i, ''DECLARATION_MISSING''),
        (\<lambda>d. equals d ''declared_by'' (gq_authority q), ''DECLARATION_AUTHORITY_MISMATCH''),
        (\<lambda>d. equals d ''status'' (JStr (u ''ACTIVE'')), ''DECLARATION_NOT_ACTIVE''),
        (declaration_restates_grant restated grant, ''DECLARATION_CONTENT_MISMATCH''),
        (verify, ''DECLARATION_SIGNATURE_INVALID'')]"
  have ok: "x \<in> set (gq_declarations q) \<and> list_all (\<lambda>(p, c). p x = Inr True) ?ps \<longleftrightarrow> declares q kind restated verify grant i x" for x
    by (auto simp: declares_def anchors_grant_def andE_True)
  obtain r where r: "stages ?ps (gq_declarations q) = Inr r"
    and c: "(case r of Inl code \<Rightarrow> Inr (Withheld code)
      | Inr valid \<Rightarrow> bindE (sorted_by identity valid) (\<lambda>ds. Inr (Bound (Some (hd ds))))) = Inr c"
    using assms unfolding declared_grant_def by auto
  show "c \<noteq> Mismatched codes" using c by (auto split: sum.splits)
  show "\<exists>x. d = Some x \<and> declares q kind restated verify grant i x" if bound: "c = Bound d"
  proof -
    obtain valid ds where v: "r = Inr valid" "sorted_by identity valid = Inr ds" "d = Some (hd ds)"
      using c bound by (auto split: sum.splits)
    have set: "set valid = {d \<in> set (gq_declarations q). list_all (\<lambda>(p, c). p d = Inr True) ?ps}" and "valid \<noteq> []"
      using stages_valid [OF r [unfolded v(1)]] by auto
    have "ds \<noteq> []" using \<open>valid \<noteq> []\<close> sorted_by_set [OF v(2)] by force
    then have "hd ds \<in> set valid" using sorted_by_set [OF v(2)] by (metis hd_in_set)
    then show ?thesis using v(3) set ok by auto
  qed
  show "\<not> declares q kind restated verify grant i x" if "c = Withheld code"
  proof -
    have "r = Inl code" using c that by (auto split: sum.splits)
    then show ?thesis using stages_withheld [OF r [unfolded \<open>r = Inl code\<close>]] ok by blast
  qed
qed

section \<open>The three evaluators keep the contract\<close>

lemma classify_grant_cases:
  assumes "classify_grant core active grant = Inr c"
    and "\<And>ms. core grant = Inr ms \<Longrightarrow> ms = [] \<longleftrightarrow> list_all (\<lambda>(f, v, code). same_field grant f v) table"
  obtains (differs) ms where "c = Mismatched ms" and "\<not> covers table grant"
  | (inactive) code where "c = Withheld code" and "\<not> covers table grant"
  | (active) "covers table grant" and "active grant = Inr c"
  using assms by (auto simp: classify_grant_def covers_def split: if_splits)

lemma declared_laws:
  assumes "classify_grant (\<lambda>g. core_mismatches g table)
      (\<lambda>g. bindE (afield g identity) (declared_grant q kind restated verify did g)) grant = Inr c"
  shows "c = Bound d \<Longrightarrow> covers table grant \<and> (\<exists>i x. jfield grant identity = Some i \<and> d = Some x
      \<and> declares q kind restated verify grant i x)"
    and "c = Withheld code \<Longrightarrow> \<not> (covers table grant \<and> (\<exists>i x. jfield grant identity = Some i \<and> d = Some x
      \<and> declares q kind restated verify grant i x))"
    and "c = Mismatched codes \<Longrightarrow> \<not> (covers table grant \<and> (\<exists>i x. jfield grant identity = Some i \<and> d = Some x
      \<and> declares q kind restated verify grant i x))"
proof -
  note cases = classify_grant_cases [where table = table, OF assms core_mismatches_Nil]
  show "covers table grant \<and> (\<exists>i x. jfield grant identity = Some i \<and> d = Some x
      \<and> declares q kind restated verify grant i x)" if "c = Bound d"
    using that by (cases rule: cases) (auto dest: declared_grant_class(1) [OF _ refl])
  show "\<not> (covers table grant \<and> (\<exists>i x. jfield grant identity = Some i \<and> d = Some x
      \<and> declares q kind restated verify grant i x))" if "c = Withheld code"
    using that by (cases rule: cases) (auto dest: declared_grant_class(2) [OF _ refl])
  show "\<not> (covers table grant \<and> (\<exists>i x. jfield grant identity = Some i \<and> d = Some x
      \<and> declares q kind restated verify grant i x))" if "c = Mismatched codes"
    using that by (cases rule: cases) (auto dest: declared_grant_class(3))
qed

interpretation selection: grant_evaluator "classify_selection V E q" "''verifier_selection_grant_id''" "selection_binds V E q"
  for V E q
  unfolding classify_selection_def selection_binds_def
  by unfold_locales (erule declared_laws(1) [OF _ refl], erule declared_laws(2) [OF _ refl], erule declared_laws(3) [OF _ refl])

interpretation projection: grant_evaluator "classify_projection V E q" "''github_projection_grant_id''" "projection_binds V E q"
  for V E q
  unfolding classify_projection_def projection_binds_def
  by unfold_locales (erule declared_laws(1) [OF _ refl], erule declared_laws(2) [OF _ refl], erule declared_laws(3) [OF _ refl])

lemma model_mismatches_Nil:
  "model_mismatches q grant = Inr ms \<Longrightarrow> ms = [] \<longleftrightarrow> list_all (\<lambda>(f, v, code). same_field grant f v) (model_core q)"
  using core_mismatches_Nil [of grant "model_core q" ms] by (auto simp: model_mismatches_def)

lemma model_laws:
  assumes "classify_model V E q grant = Inr c"
  shows "c = Bound d \<Longrightarrow> model_binds V E q grant d"
    and "c = Withheld code \<Longrightarrow> \<not> model_binds V E q grant d"
    and "c = Mismatched codes \<Longrightarrow> \<not> model_binds V E q grant d"
proof -
  note cases = classify_grant_cases [where table = "model_core q", OF assms [unfolded classify_model_def] model_mismatches_Nil]
  show "model_binds V E q grant d" if "c = Bound d"
    using that by (cases rule: cases) (auto simp: model_binds_def split: if_splits)
  show "\<not> model_binds V E q grant d" if "c = Withheld code"
    using that by (cases rule: cases) (auto simp: model_binds_def split: if_splits)
  show "\<not> model_binds V E q grant d" if "c = Mismatched codes"
    using that by (cases rule: cases) (auto simp: model_binds_def split: if_splits)
qed

interpretation model: grant_evaluator "classify_model V E q" "''model_execution_grant_id''" "model_binds V E q"
  for V E q
  by unfold_locales (erule model_laws(1) [OF _ refl], erule model_laws(2) [OF _ refl], erule model_laws(3) [OF _ refl])

end
