(* ===== verification/GrantProps.thy ===== *)
theory GrantProps
  imports GrantLaws AuthorityOrder
begin

text \<open>
  Properties of the three grant evaluators, over the facts of their common contract.
\<close>

section \<open>Records and questions\<close>

lemma map_of_asked: "map_of (map (\<lambda>(f, v). (u f, v)) xs) (u k) = map_of xs k"
  by (induction xs) auto

lemma finish_fields:
  assumes "finish_grant_record E fp i df schema r0 = Inr d" and "is_obj r0"
    and "k \<noteq> ''decision_semantic_fingerprint''" and "k \<noteq> df"
  shows "jfield d k = jfield r0 k"
  using assms by (auto simp: finish_grant_record_def Let_def jfield_aset is_obj_aset)

lemma grant_record_fields:
  assumes "grant_record df identity kind dref yes no q c = Inr r"
    and "list_all (\<lambda>k. map_of (gq_asked q) k = None) [''grant_ref'', ''excluding_grant_refs'', ''decision'']"
    and "list_all (\<lambda>k. map_of dref (u k) = None) [''decision'']" and "df \<notin> set [''grant_ref'', ''excluding_grant_refs'', ''decision'']"
  shows "is_obj r" and "jfield r ''decision'' = Some (JStr (if gc_grant c \<noteq> None then yes else no))"
    and "\<exists>x. optional_ref kind identity (gc_grant c) = Inr x \<and> jfield r ''grant_ref'' = Some x"
    and "\<exists>xs. mapE (ref kind identity) (gc_excluding c) = Inr xs \<and> jfield r ''excluding_grant_refs'' = Some (JList xs)"
  using assms by (auto simp: grant_record_def jfield_def map_add_def map_of_asked split: option.splits)

lemma finished_record:
  assumes "bindE (grant_record df identity kind dref yes no q c) (finish_grant_record E fp i df schema) = Inr d"
    and "list_all (\<lambda>k. map_of (gq_asked q) k = None) [''grant_ref'', ''excluding_grant_refs'', ''decision'']"
    and "list_all (\<lambda>k. map_of dref (u k) = None) [''decision'']" and "df \<notin> set [''grant_ref'', ''excluding_grant_refs'', ''decision'']"
  shows "jfield d ''decision'' = Some (JStr (if gc_grant c \<noteq> None then yes else no))
    \<and> (\<exists>x. optional_ref kind identity (gc_grant c) = Inr x \<and> jfield d ''grant_ref'' = Some x)
    \<and> (\<exists>xs. mapE (ref kind identity) (gc_excluding c) = Inr xs \<and> jfield d ''excluding_grant_refs'' = Some (JList xs))"
proof -
  obtain r where r: "grant_record df identity kind dref yes no q c = Inr r"
    and d: "finish_grant_record E fp i df schema r = Inr d" using assms(1) by auto
  show ?thesis
    using grant_record_fields [OF r assms(2-4)] finish_fields [OF d] assms(4) by auto
qed

text \<open>What an admitted question takes from its request.\<close>

lemma selection_question:
  assumes "admit_selection_request E request = Inr q"
  shows "list_all (\<lambda>k. jfield request k = Some (asked q k)) [''project_id'', ''requirement_id'', ''selection_id'',
      ''verifier_identity'', ''permitted_boundary'', ''selection_status'']"
    and "jfield request ''project_id'' = Some (JStr (gq_project q))"
    and "jfield request ''human_authority_ref'' = Some (gq_authority q)"
    and "jfield request ''human_authority_signing_key'' = Some (gq_key q)" and "is_obj (gq_key q)"
    and "jfield request ''grants'' = Some (JList (gq_grants q))"
    and "jfield request ''grant_declarations'' = Some (JList (gq_declarations q))"
    and "list_all (\<lambda>k. map_of (gq_asked q) k = None) [''grant_ref'', ''excluding_grant_refs'', ''decision'']"
proof -
  note parts = assms [unfolded admit_selection_request_def require_among_def require_human_authority_def]
  show "list_all (\<lambda>k. jfield request k = Some (asked q k)) [''project_id'', ''requirement_id'', ''selection_id'',
      ''verifier_identity'', ''permitted_boundary'', ''selection_status'']"
    using parts by (auto simp: require_request_shape_iff asked_def)
qed (use assms in \<open>auto simp: admit_selection_request_def require_among_def require_human_authority_def
    require_request_shape_iff admit_all_iff\<close>)

lemma projection_question:
  assumes "admit_projection_request E request = Inr q"
  shows "list_all (\<lambda>k. map_of (gq_asked q) k = None) [''grant_ref'', ''excluding_grant_refs'', ''decision'']"
    and "jfield request ''grants'' = Some (JList (gq_grants q))"
  using assms by (auto simp: admit_projection_request_def require_among_def require_human_authority_def
      require_request_shape_iff admit_all_iff)

lemma model_question:
  assumes "admit_model_request E request = Inr q"
  shows "list_all (\<lambda>k. map_of (gq_asked q) k = None) [''grant_ref'', ''excluding_grant_refs'', ''decision'']"
    and "jfield request ''grants'' = Some (JList (gq_grants q))"
  using assms by (auto simp: admit_model_request_def require_among_def require_typed_reference_def
      require_request_shape_iff admit_all_iff)

lemma selection_record_fields:
  assumes "selection_record E q c = Inr d"
    and "list_all (\<lambda>k. map_of (gq_asked q) k = None) [''grant_ref'', ''excluding_grant_refs'', ''decision'']"
  shows "jfield d ''decision'' = Some (JStr (if gc_grant c \<noteq> None then u ''VERIFIER_SELECTION_SELECTED''
      else u ''VERIFIER_SELECTION_REFUSED''))
    \<and> (\<exists>x. optional_ref ''verifier_selection_grant'' ''verifier_selection_grant_id'' (gc_grant c) = Inr x
      \<and> jfield d ''grant_ref'' = Some x)"
  using assms(1) finished_record [OF _ assms(2)] by (fastforce simp: selection_record_def simp del: bindE_eq_Inr_iff
      elim: bindE_InrE)

lemma projection_record_decision:
  assumes "projection_record E q c = Inr d"
    and "list_all (\<lambda>k. map_of (gq_asked q) k = None) [''grant_ref'', ''excluding_grant_refs'', ''decision'']"
  shows "jfield d ''decision'' = Some (JStr (if gc_grant c \<noteq> None then u ''PROJECTION_AUTHORIZED'' else u ''PROJECTION_REFUSED''))"
  using assms(1) finished_record [OF _ assms(2)] by (fastforce simp: projection_record_def simp del: bindE_eq_Inr_iff
      elim: bindE_InrE)

lemma model_record_fields:
  assumes "model_record E q c = Inr d"
    and "list_all (\<lambda>k. map_of (gq_asked q) k = None) [''grant_ref'', ''excluding_grant_refs'', ''decision'']"
  shows "jfield d ''decision'' = Some (JStr (if gc_grant c \<noteq> None then u ''MODEL_EXECUTION_AUTHORIZED''
      else u ''MODEL_EXECUTION_REFUSED''))
    \<and> (\<exists>x. optional_ref ''model_execution_grant'' ''model_execution_grant_id'' (gc_grant c) = Inr x
      \<and> jfield d ''grant_ref'' = Some x)
    \<and> (\<exists>xs. mapE (ref ''model_execution_grant'' ''model_execution_grant_id'') (gc_excluding c) = Inr xs
      \<and> jfield d ''excluding_grant_refs'' = Some (JList xs))"
  using finished_record [OF assms(1) [unfolded model_record_def] assms(2)] by simp

lemma signature_verified:
  assumes "verify_signature_over V r key message = Inr True"
  obtains g s k m kb sb where "jfield r ''signature'' = Some g" and "jfield g ''value'' = Some (JStr s)"
    and "jfield key ''public_key'' = Some (JStr k)" and "message = Inr m"
    and "from_hex k = Some kb" and "from_hex s = Some sb" and "V kb m sb"
  using assms
  by (auto simp: verify_signature_over_def verify_ed25519_signature_def aget_def
      split: if_splits json.splits option.splits)

section \<open>No selection without a human's signature\<close>

text \<open>C17: A verifier is selected only on a human's word. When the decision is
  \<open>VERIFIER_SELECTION_SELECTED\<close>, one of the supplied grants is cited, is active and names the
  project, requirement, selection, verifier and boundary of the request; a supplied declaration
  that is active and names this grant and the request's Human Authority carries a signature
  which the Ed25519 primitive accepted under the public key of the request, over exactly the
  declaration's signing payload.\<close>

theorem selection_needs_signature:
  assumes "evaluate_verifier_selection V E request = Inr d"
    and "jfield d ''decision'' = Some (JStr (u ''VERIFIER_SELECTION_SELECTED''))"
  shows "\<exists>gs g i ds x key sig s k m kb sb authority.
    jfield request ''grants'' = Some (JList gs) \<and> g \<in> set gs
    \<and> jfield g ''verifier_selection_grant_id'' = Some i
    \<and> jfield d ''grant_ref'' = Some (JObj [(u ''kind'', JStr (u ''verifier_selection_grant'')), (u ''id'', i)])
    \<and> jfield g ''status'' = Some (JStr (u ''ACTIVE''))
    \<and> list_all (\<lambda>f. \<exists>v. jfield request f = Some v \<and> same_field g f v)
        [''project_id'', ''requirement_id'', ''selection_id'', ''verifier_identity'', ''permitted_boundary'']
    \<and> jfield request ''grant_declarations'' = Some (JList ds) \<and> x \<in> set ds
    \<and> jfield x ''status'' = Some (JStr (u ''ACTIVE''))
    \<and> same_field x ''grant_ref'' (JObj [(u ''kind'', JStr (u ''verifier_selection_grant'')), (u ''id'', i)])
    \<and> jfield request ''human_authority_ref'' = Some authority \<and> same_field x ''declared_by'' authority
    \<and> jfield request ''human_authority_signing_key'' = Some key \<and> jfield key ''public_key'' = Some (JStr k)
    \<and> jfield x ''signature'' = Some sig \<and> jfield sig ''value'' = Some (JStr s)
    \<and> human_grant_declaration_signing_payload E x = Inr m
    \<and> from_hex k = Some kb \<and> from_hex s = Some sb \<and> V kb m sb"
proof -
  obtain q c where q: "admit_selection_request E request = Inr q"
    and c: "choose_grant ''verifier_selection_grant_id'' (classify_selection V E q) (gq_grants q) = Inr c"
    and d: "selection_record E q c = Inr d"
    using assms(1) by (auto simp: evaluate_verifier_selection_def)
  note f = selection_question [OF q]
  note r = selection_record_fields [OF d f(8)]
  obtain g where g: "gc_grant c = Some g" using r assms(2) by (auto split: if_splits)
  have bound: "g \<in> set (gq_grants q)" "selection_binds V E q g (gc_declaration c)"
    using selection.chosen [OF c g] by auto
  obtain i x where core: "covers (selection_core q) g" and i: "jfield g ''verifier_selection_grant_id'' = Some i"
    and x: "declares q ''verifier_selection_grant'' selection_restated (verify_declaration_signature V E (gq_key q)) g i x"
    using bound(2) by (auto simp: selection_binds_def)
  obtain m where m: "human_grant_declaration_signing_payload E x = Inr m"
    and "verify_signature_over V x (gq_key q) (Inr m) = Inr True"
    using x by (auto simp: declares_def verify_declaration_signature_def)
  then obtain sig s k kb sb where s: "jfield x ''signature'' = Some sig" "jfield sig ''value'' = Some (JStr s)"
    "jfield (gq_key q) ''public_key'' = Some (JStr k)" "from_hex k = Some kb" "from_hex s = Some sb" "V kb m sb"
    by (auto elim: signature_verified)
  have "jfield d ''grant_ref'' = Some (JObj [(u ''kind'', JStr (u ''verifier_selection_grant'')), (u ''id'', i)])"
    using r g i by (auto simp: optional_ref_def ref_def)
  moreover have "list_all (\<lambda>f. \<exists>v. jfield request f = Some v \<and> same_field g f v)
      [''project_id'', ''requirement_id'', ''selection_id'', ''verifier_identity'', ''permitted_boundary'']"
    using f(1) core by (simp add: covers_def selection_core_def)
  ultimately show ?thesis
    using f(3,4,6,7) bound(1) i core x m s
    by - (rule exI [of _ "gq_grants q"], rule exI [of _ g], rule exI [of _ i], rule exI [of _ "gq_declarations q"],
      rule exI [of _ x], rule exI [of _ "gq_key q"], rule exI [of _ sig], rule exI [of _ s],
      rule exI [of _ k], rule exI [of _ m], rule exI [of _ kb], rule exI [of _ sb],
      rule exI [of _ "gq_authority q"], simp add: covers_def declares_def)
qed

section \<open>Authorized exactly when a grant binds\<close>

text \<open>A projection is authorized exactly when some supplied grant binds it: active, equal to the
  question field by field, and declared by a signed, active declaration that restates it. In
  every other readable case the answer is the record \<open>PROJECTION_REFUSED\<close>.\<close>

theorem projection_authorized_iff:
  assumes "evaluate_projection_authorization V E request = Inr d" and "admit_projection_request E request = Inr q"
  shows "(jfield d ''decision'' = Some (JStr (u ''PROJECTION_AUTHORIZED''))
      \<longleftrightarrow> (\<exists>g x. g \<in> set (gq_grants q) \<and> projection_binds V E q g (Some x)))
    \<and> jfield d ''decision'' \<in> {Some (JStr (u ''PROJECTION_AUTHORIZED'')), Some (JStr (u ''PROJECTION_REFUSED''))}"
proof -
  obtain c where c: "choose_grant ''github_projection_grant_id'' (classify_projection V E q) (gq_grants q) = Inr c"
    and d: "projection_record E q c = Inr d"
    using assms by (auto simp: evaluate_projection_authorization_def)
  have "(\<exists>g e. g \<in> set (gq_grants q) \<and> projection_binds V E q g e)
      \<longleftrightarrow> (\<exists>g x. g \<in> set (gq_grants q) \<and> projection_binds V E q g (Some x))"
    by (auto simp: projection_binds_def)
  then show ?thesis
    using projection.chosen_iff [OF c] projection_record_decision [OF d projection_question(1) [OF assms(2)]]
    by auto
qed

text \<open>C33: A model execution is authorized exactly when some supplied grant that agrees with the
  question is active and carries a signature that verifies under the request's key; the grant
  cited is then the binding one with the smallest identity, whatever the order supplied.\<close>

theorem model_authorized_least:
  assumes "evaluate_model_execution_authorization V E request = Inr d" and "admit_model_request E request = Inr q"
  shows "(jfield d ''decision'' = Some (JStr (u ''MODEL_EXECUTION_AUTHORIZED''))
      \<longleftrightarrow> (\<exists>g. g \<in> set (gq_grants q) \<and> covers (model_core q) g
            \<and> verify_grant_signature V E (gq_key q) g = Inr True))
    \<and> (jfield d ''decision'' = Some (JStr (u ''MODEL_EXECUTION_AUTHORIZED'')) \<longrightarrow>
        (\<exists>g i. g \<in> set (gq_grants q) \<and> model_binds V E q g None \<and> jfield g ''model_execution_grant_id'' = Some i
          \<and> jfield d ''grant_ref'' = Some (JObj [(u ''kind'', JStr (u ''model_execution_grant'')), (u ''id'', i)])
          \<and> list_all (\<lambda>h. str_at ''model_execution_grant_id'' g \<le> str_at ''model_execution_grant_id'' h)
              (filter (\<lambda>h. model_binds V E q h None) (gq_grants q))))"
proof -
  obtain c where c: "choose_grant ''model_execution_grant_id'' (classify_model V E q) (gq_grants q) = Inr c"
    and d: "model_record E q c = Inr d"
    using assms by (auto simp: evaluate_model_execution_authorization_def)
  note r = model_record_fields [OF d model_question(1) [OF assms(2)]]
  have yes: "jfield d ''decision'' = Some (JStr (u ''MODEL_EXECUTION_AUTHORIZED'')) \<longleftrightarrow> gc_grant c \<noteq> None"
    using r by auto
  have "gc_grant c \<noteq> None \<longleftrightarrow> (\<exists>g. g \<in> set (gq_grants q) \<and> covers (model_core q) g
            \<and> verify_grant_signature V E (gq_key q) g = Inr True)"
    using model.chosen_iff [OF c] by (auto simp: model_binds_def)
  moreover have "\<exists>g i. g \<in> set (gq_grants q) \<and> model_binds V E q g None \<and> jfield g ''model_execution_grant_id'' = Some i
          \<and> jfield d ''grant_ref'' = Some (JObj [(u ''kind'', JStr (u ''model_execution_grant'')), (u ''id'', i)])
          \<and> list_all (\<lambda>h. str_at ''model_execution_grant_id'' g \<le> str_at ''model_execution_grant_id'' h)
              (filter (\<lambda>h. model_binds V E q h None) (gq_grants q))" if g: "gc_grant c = Some g" for g
  proof -
    have "model_binds V E q g None" using model.chosen(2) [OF c g] by (auto simp: model_binds_def)
    moreover obtain i where "jfield g ''model_execution_grant_id'' = Some i"
      "jfield d ''grant_ref'' = Some (JObj [(u ''kind'', JStr (u ''model_execution_grant'')), (u ''id'', i)])"
      using r g by (auto simp: optional_ref_def ref_def)
    ultimately show ?thesis
      using model.chosen(1,3) [OF c g]
      by - (rule exI [of _ g], rule exI [of _ i], auto simp: list_all_iff)
  qed
  ultimately show ?thesis unfolding yes by blast
qed

section \<open>The order of the withheld grants\<close>

text \<open>The grants that are withheld are cited in the order they were supplied, not in the order of
  their identities: the same withheld grants in another order are another record.\<close>

theorem withheld_in_supplied_order:
  assumes "evaluate_model_execution_authorization V E request = Inr d" and "admit_model_request E request = Inr q"
  shows "\<exists>refs. jfield d ''excluding_grant_refs'' = Some (JList refs)
    \<and> map (\<lambda>g. ref ''model_execution_grant'' ''model_execution_grant_id'' g)
        (filter (\<lambda>g. \<exists>code. classify_model V E q g = Inr (Withheld code)) (gq_grants q)) = map Inr refs"
proof -
  obtain c where c: "choose_grant ''model_execution_grant_id'' (classify_model V E q) (gq_grants q) = Inr c"
    and d: "model_record E q c = Inr d"
    using assms by (auto simp: evaluate_model_execution_authorization_def)
  have mapE: "mapE f xs = Inr ys \<Longrightarrow> map f xs = map Inr ys" for f :: "json \<Rightarrow> auth_error + json" and xs ys
    by (induction xs arbitrary: ys) auto
  obtain refs where "mapE (ref ''model_execution_grant'' ''model_execution_grant_id'') (gc_excluding c) = Inr refs"
    "jfield d ''excluding_grant_refs'' = Some (JList refs)"
    using model_record_fields [OF d model_question(1) [OF assms(2)]] by blast
  then show ?thesis using mapE model.excluded_in_order [OF c] by auto
qed

end
