(* ===== verification/GrantExample.thy ===== *)
theory GrantExample
  imports GrantProps AuthorityExample
begin

text \<open>
  Concrete questions to the grant evaluators, and the witnesses of their properties. The
  Ed25519 primitive is instantiated by a function that accepts one signature of one key.
\<close>

section \<open>A model execution grant\<close>

definition ex_verifier :: verifier where
  "ex_verifier k m s \<longleftrightarrow> k = [0xAA] \<and> s = [0xBB]"

definition ex_key :: json where
  "ex_key = JObj [(u ''algorithm'', JStr (u ''ed25519'')), (u ''key_id'', JStr (u ''K1'')), (u ''public_key'', JStr (u ''aa''))]"

definition ex_signature :: json where
  "ex_signature = JObj [(u ''algorithm'', JStr (u ''ed25519'')), (u ''key_id'', JStr (u ''K1'')), (u ''value'', JStr (u ''bb''))]"

lemma ex_hex: "from_hex (u ''aa'') = Some [0xAA]" "from_hex (u ''bb'') = Some [0xBB]"
  by (simp_all add: u_Cons hex_value_def)

lemma ex_signature_verifies:
  assumes "jfield r ''signature'' = Some ex_signature" and "is_obj r" and "message = Inr m"
  shows "verify_signature_over ex_verifier r ex_key message = Inr True"
  using assms
  by (simp add: verify_signature_over_def aget_def ex_signature_def ex_key_def jfield_def
      verify_ed25519_signature_def ex_hex ex_verifier_def)

lemma ex_grant_keys:
  "list_all key_ok [''schema_version'', ''project_id'', ''difference_ref'', ''required_capability'', ''boundary_ref'',
     ''permitted_action'', ''status'', ''granted_by'', ''granted_at'', ''kind'', ''id'', ''selection_authority_ref'',
     ''grant_ref'', ''excluding_grant_refs'', ''decision'', ''decision_reason_codes'', ''requirement_id'',
     ''selection_id'', ''verifier_identity'', ''permitted_boundary'', ''selection_status'', ''declaration_ref'',
     ''project_binding_id'', ''declared_by'', ''declared_at'', ''subject_ref'', ''subject_fingerprint'',
     ''projection_kind'', ''target_repository'', ''payload_fingerprint'']"
  by (simp add: key_ok_def word_key_u secret_keys_def set_like_fields_def)

definition ex_ref :: "string \<Rightarrow> string \<Rightarrow> json" where
  "ex_ref kind i = JObj [(u ''kind'', JStr (u kind)), (u ''id'', JStr (u i))]"

definition ex_model_body :: "string \<Rightarrow> json" where
  "ex_model_body status = JObj
     [(u ''schema_version'', schema_version), (u ''project_id'', JStr (u ''PRJ-A'')),
      (u ''difference_ref'', ex_ref ''difference'' ''D-1''), (u ''required_capability'', JStr (u ''PROPOSE_EVIDENCE_CANDIDATE'')),
      (u ''boundary_ref'', ex_ref ''model_execution_boundary'' ''B-1''),
      (u ''permitted_action'', JStr (u ''EXECUTE_MODEL_WORK_UNIT'')), (u ''status'', JStr (u status)),
      (u ''granted_by'', ex_authority), (u ''granted_at'', JStr (u ''2026-06-01T00:00:00Z''))]"

definition ex_model_id :: "string \<Rightarrow> ustr" where
  "ex_model_id status = u ''MODEL-EXEC-GRANT-'' @ ascii_upper (sha256_hex (json_bytes (ex_model_body status)))"

definition ex_model_grant :: "string \<Rightarrow> json" where
  "ex_model_grant status = (case ex_model_body status of
     JObj kvs \<Rightarrow> JObj ((u ''model_execution_grant_id'', JStr (ex_model_id status)) # (u ''signature'', ex_signature) # kvs)
   | v \<Rightarrow> v)"

definition ex_model_request :: "json list \<Rightarrow> json" where
  "ex_model_request grants = JObj
     [(u ''schema_version'', schema_version), (u ''project_id'', JStr (u ''PRJ-A'')),
      (u ''difference_ref'', ex_ref ''difference'' ''D-1''), (u ''required_capability'', JStr (u ''PROPOSE_EVIDENCE_CANDIDATE'')),
      (u ''boundary_ref'', ex_ref ''model_execution_boundary'' ''B-1''), (u ''human_authority_ref'', ex_authority),
      (u ''human_authority_signing_key'', ex_key), (u ''grants'', JList grants)]"

definition ex_model_question :: "json list \<Rightarrow> grant_question" where
  "ex_model_question grants =
     \<lparr> gq_asked = [(''project_id'', JStr (u ''PRJ-A'')), (''difference_ref'', ex_ref ''difference'' ''D-1''),
         (''required_capability'', JStr (u ''PROPOSE_EVIDENCE_CANDIDATE'')),
         (''boundary_ref'', ex_ref ''model_execution_boundary'' ''B-1'')],
       gq_project = u ''PRJ-A'', gq_authority = ex_authority, gq_key = ex_key, gq_grants = grants, gq_declarations = [] \<rparr>"

lemma ex_model_plain: "plain_str (u status) \<Longrightarrow> plain_any ascii_ext False (ex_model_body status)"
  using ex_grant_keys by (simp add: ex_model_body_def ex_ref_def ex_authority_def schema_version_def) (simp add: u_Cons)

lemma ex_model_projection: "model_execution_grant_projection (ex_model_grant status) = Inr (ex_model_body status)"
  by (simp add: model_execution_grant_projection_def model_execution_grant_semantic_fields_def project_fields_def
      ex_model_grant_def ex_model_body_def afield_def jfield_def)

lemma ex_model_fields:
  "is_obj (ex_model_grant s)" "jfield (ex_model_grant s) ''schema_version'' = Some schema_version"
  "jfield (ex_model_grant s) ''project_id'' = Some (JStr (u ''PRJ-A''))"
  "jfield (ex_model_grant s) ''difference_ref'' = Some (ex_ref ''difference'' ''D-1'')"
  "jfield (ex_model_grant s) ''required_capability'' = Some (JStr (u ''PROPOSE_EVIDENCE_CANDIDATE''))"
  "jfield (ex_model_grant s) ''boundary_ref'' = Some (ex_ref ''model_execution_boundary'' ''B-1'')"
  "jfield (ex_model_grant s) ''permitted_action'' = Some (JStr (u ''EXECUTE_MODEL_WORK_UNIT''))"
  "jfield (ex_model_grant s) ''status'' = Some (JStr (u s))"
  "jfield (ex_model_grant s) ''granted_by'' = Some ex_authority"
  "jfield (ex_model_grant s) ''signature'' = Some ex_signature"
  "jfield (ex_model_grant s) ''model_execution_grant_id'' = Some (JStr (ex_model_id s))"
  by (simp_all add: ex_model_grant_def ex_model_body_def jfield_def)

lemma ex_model_admitted:
  assumes "plain_str (u s)"
  shows "admit_all ascii_ext model_execution_grant_type no_refine (JList [ex_model_grant s]) = Inr [ex_model_grant s]"
proof -
  have "admitted ascii_ext model_execution_grant_type (ex_model_grant s)"
    using address_plain [OF ex_model_plain [OF assms]]
    by (simp add: admitted_def model_execution_grant_type_def authority_type_def model_execution_grant_id_def
        ex_model_projection ex_model_fields ex_authority_human ex_model_id_def)
  then show ?thesis by (simp add: admit_all_iff no_refine_def)
qed

lemma ex_model_admit:
  assumes "plain_str (u s)"
  shows "admit_model_request ascii_ext (ex_model_request [ex_model_grant s]) = Inr (ex_model_question [ex_model_grant s])"
proof -
  have closed: "closed_keys model_request_keys (ex_model_request gs) = Inr ()" for gs
    unfolding closed_keys_def by (simp add: ex_model_request_def model_request_keys_def) (simp add: jfield_def)
  have fields: "is_obj (ex_model_request gs)" "jfield (ex_model_request gs) ''schema_version'' = Some schema_version"
    "jfield (ex_model_request gs) ''project_id'' = Some (JStr (u ''PRJ-A''))"
    "jfield (ex_model_request gs) ''difference_ref'' = Some (ex_ref ''difference'' ''D-1'')"
    "jfield (ex_model_request gs) ''required_capability'' = Some (JStr (u ''PROPOSE_EVIDENCE_CANDIDATE''))"
    "jfield (ex_model_request gs) ''boundary_ref'' = Some (ex_ref ''model_execution_boundary'' ''B-1'')"
    "jfield (ex_model_request gs) ''human_authority_ref'' = Some ex_authority"
    "jfield (ex_model_request gs) ''human_authority_signing_key'' = Some ex_key"
    "jfield (ex_model_request gs) ''grants'' = Some (JList gs)" for gs
    by (simp_all add: ex_model_request_def jfield_def)
  have refs: "require_typed_reference k (ex_ref k i) = Inr (ex_ref k i)" if "i \<noteq> []" for k i
    using that by (simp add: require_typed_reference_def ex_ref_def jfield_def aget_def)
  have human: "require_typed_reference ''human_authority'' ex_authority = Inr ex_authority"
    by (simp add: require_typed_reference_def ex_authority_def jfield_def aget_def)
  have "require_object ex_key = Inr ex_key" by (simp add: ex_key_def)
  then show ?thesis
    using ex_model_admitted [OF assms]
    by (simp add: admit_model_request_def require_request_shape_iff closed fields refs human require_among_def
        ex_model_question_def)
qed

section \<open>The decision on it\<close>

lemma finish_total:
  assumes "project_fields fs r0 = Inr p" and "plain_any ascii_ext False p"
    and "''decision_semantic_fingerprint'' \<notin> set fs" and "is_obj r0"
  shows "\<exists>d. finish_grant_record ascii_ext (\<lambda>d. bindE (project_fields fs d) (digest ascii_ext))
    (\<lambda>d. bindE (project_fields fs d) (address ascii_ext prefix)) df schema r0 = Inr d"
proof -
  have "project_fields fs (aset ''decision_semantic_fingerprint'' x r0) = project_fields fs r0" for x
    by (rule project_fields_cong) (use assms(3,4) in \<open>auto simp: jfield_aset\<close>)
  then show ?thesis
    using assms(1) digest_plain [OF assms(2)] address_plain [OF assms(2)]
    by (auto simp: finish_grant_record_def Let_def validateA_def)
qed

lemma ex_model_core: "core_mismatches (ex_model_grant s) (model_core (ex_model_question gs)) = Inr []"
  by (simp add: core_mismatches_def model_core_def asked_def ex_model_question_def anot_def afield_def ex_model_fields
      reason_if_def)

lemma ex_model_mismatches: "model_mismatches (ex_model_question gs) (ex_model_grant s) = Inr []"
  by (simp add: model_mismatches_def ex_model_core afield_def ex_model_fields)

lemma ex_model_signed:
  assumes "plain_str (u s)"
  shows "verify_grant_signature ex_verifier ascii_ext ex_key (ex_model_grant s) = Inr True"
proof -
  have "model_execution_grant_signing_payload ascii_ext (ex_model_grant s) = Inr (json_bytes (ex_model_body s))"
    using plain_any_canonical [OF nfc_ascii_example ex_model_plain [OF assms]]
    by (simp add: model_execution_grant_signing_payload_def ex_model_projection canonA_def json_bytes_def)
  then show ?thesis
    unfolding verify_grant_signature_def by (intro ex_signature_verifies) (simp_all add: ex_model_fields)
qed

lemma ex_active_class: "classify_model ex_verifier ascii_ext (ex_model_question gs) (ex_model_grant ''ACTIVE'') = Inr (Bound None)"
proof -
  have "plain_str (u ''ACTIVE'')" by (simp add: u_Cons)
  moreover have "gq_key (ex_model_question gs) = ex_key" by (simp add: ex_model_question_def)
  ultimately show ?thesis
    using ex_model_signed by (simp add: classify_model_def classify_grant_def ex_model_mismatches astr_def ex_model_fields)
qed

lemma ex_revoked_class:
  "classify_model V ascii_ext (ex_model_question gs) (ex_model_grant ''REVOKED'') = Inr (Withheld (u ''GRANT_REVOKED''))"
  by (simp add: classify_model_def classify_grant_def ex_model_mismatches astr_def ex_model_fields u_append [symmetric])

lemma ex_model_record:
  assumes "optional_ref ''model_execution_grant'' ''model_execution_grant_id'' (gc_grant c) = Inr r" "plain_any ascii_ext False r"
    and "mapE (ref ''model_execution_grant'' ''model_execution_grant_id'') (gc_excluding c) = Inr rs"
    and "\<forall>x \<in> set rs. plain_any ascii_ext False x" and "\<forall>x \<in> set (gc_reasons c). plain_str x"
  shows "\<exists>d. model_record ascii_ext (ex_model_question gs) c = Inr d"
proof -
  obtain r0 where r0: "grant_record ''model_execution_decision_id'' ''model_execution_grant_id'' ''model_execution_grant''
         [] (u ''MODEL_EXECUTION_AUTHORIZED'') (u ''MODEL_EXECUTION_REFUSED'') (ex_model_question gs) c = Inr r0"
    using assms(1,3) by (simp add: grant_record_def)
  let ?p = "JObj [(u ''project_id'', JStr (u ''PRJ-A'')), (u ''difference_ref'', ex_ref ''difference'' ''D-1''),
     (u ''required_capability'', JStr (u ''PROPOSE_EVIDENCE_CANDIDATE'')),
     (u ''boundary_ref'', ex_ref ''model_execution_boundary'' ''B-1''), (u ''selection_authority_ref'', ex_authority),
     (u ''grant_ref'', r), (u ''excluding_grant_refs'', JList rs),
     (u ''decision'', JStr (if gc_grant c \<noteq> None then u ''MODEL_EXECUTION_AUTHORIZED'' else u ''MODEL_EXECUTION_REFUSED'')),
     (u ''decision_reason_codes'', JList (map JStr (sort (remdups (gc_reasons c)))))]"
  have "project_fields model_execution_decision_semantic_fields r0 = Inr ?p" and "is_obj r0"
    using r0 assms(1,3)
    by (auto simp: grant_record_def project_fields_def model_execution_decision_semantic_fields_def ex_model_question_def
        afield_def jfield_def)
  moreover have "plain_any ascii_ext False ?p"
    using assms(2,4,5) ex_grant_keys by (simp add: ex_ref_def ex_authority_def) (simp add: u_Cons)
  ultimately have "\<exists>d. finish_grant_record ascii_ext
      (\<lambda>d. bindE (project_fields model_execution_decision_semantic_fields d) (digest ascii_ext))
      (\<lambda>d. bindE (project_fields model_execution_decision_semantic_fields d) (address ascii_ext ''MODEL-EXEC-DEC-''))
      ''model_execution_decision_id'' ''model_execution_decision.schema.json'' r0 = Inr d"
    by (intro finish_total [where p = ?p]) (simp_all only:, simp add: model_execution_decision_semantic_fields_def)
  then show ?thesis
    using r0 by (simp add: model_record_def model_execution_decision_semantic_fingerprint_def [abs_def]
        model_execution_decision_id_def [abs_def])
qed

lemma ex_model_ref:
  "ref ''model_execution_grant'' ''model_execution_grant_id'' (ex_model_grant s)
     = Inr (JObj [(u ''kind'', JStr (u ''model_execution_grant'')), (u ''id'', JStr (ex_model_id s))])"
  "plain_any ascii_ext False (JObj [(u ''kind'', JStr (u ''model_execution_grant'')), (u ''id'', JStr (ex_model_id s))])"
  using ex_grant_keys by (simp_all add: ref_def afield_def ex_model_fields ex_model_id_def) (simp add: u_Cons)

lemma ex_active_evaluates:
  "\<exists>d. evaluate_model_execution_authorization ex_verifier ascii_ext (ex_model_request [ex_model_grant ''ACTIVE'']) = Inr d"
proof -
  let ?q = "ex_model_question [ex_model_grant ''ACTIVE'']"
  let ?c = "\<lparr> gc_grant = Some (ex_model_grant ''ACTIVE''), gc_declaration = None, gc_excluding = [], gc_reasons = [u ''GRANT_EXACT''] \<rparr>"
  have a: "plain_str (u ''ACTIVE'')" "plain_str (u ''GRANT_EXACT'')" by (simp_all add: u_Cons)
  have "choose_grant ''model_execution_grant_id'' (classify_model ex_verifier ascii_ext ?q) [ex_model_grant ''ACTIVE''] = Inr ?c"
    by (simp add: choose_grant_def ex_active_class map_filter_simps sorted_pairs_def astr_def ex_model_fields)
  moreover have "\<exists>d. model_record ascii_ext ?q ?c = Inr d"
    using ex_model_ref [of "''ACTIVE''"] a(2)
    by (intro ex_model_record [where rs = "[]"
          and r = "JObj [(u ''kind'', JStr (u ''model_execution_grant'')), (u ''id'', JStr (ex_model_id ''ACTIVE''))]"])
      (simp_all add: optional_ref_def)
  moreover have "gq_grants ?q = [ex_model_grant ''ACTIVE'']" by (simp add: ex_model_question_def)
  ultimately show ?thesis
    using ex_model_admit [OF a(1)] by (auto simp: evaluate_model_execution_authorization_def)
qed

theorem model_authorized_least_witness:
  "\<exists>d. evaluate_model_execution_authorization ex_verifier ascii_ext (ex_model_request [ex_model_grant ''ACTIVE'']) = Inr d
     \<and> jfield d ''decision'' = Some (JStr (u ''MODEL_EXECUTION_AUTHORIZED''))"
proof -
  let ?q = "ex_model_question [ex_model_grant ''ACTIVE'']"
  obtain d where d: "evaluate_model_execution_authorization ex_verifier ascii_ext (ex_model_request [ex_model_grant ''ACTIVE'']) = Inr d"
    using ex_active_evaluates by blast
  have a: "plain_str (u ''ACTIVE'')" by (simp add: u_Cons)
  have "model_binds ex_verifier ascii_ext ?q (ex_model_grant ''ACTIVE'') None" by (rule model.bound [OF ex_active_class])
  moreover have "ex_model_grant ''ACTIVE'' \<in> set (gq_grants ?q)" by (simp add: ex_model_question_def)
  ultimately show ?thesis
    using model_authorized_least [OF d ex_model_admit [OF a]] d by (auto simp: model_binds_def)
qed

lemma ex_revoked_evaluates:
  "\<exists>d. evaluate_model_execution_authorization ex_verifier ascii_ext (ex_model_request [ex_model_grant ''REVOKED'']) = Inr d"
proof -
  let ?q = "ex_model_question [ex_model_grant ''REVOKED'']"
  let ?c = "\<lparr> gc_grant = None, gc_declaration = None, gc_excluding = [ex_model_grant ''REVOKED''], gc_reasons = [u ''GRANT_REVOKED''] \<rparr>"
  have a: "plain_str (u ''REVOKED'')" "plain_str (u ''GRANT_REVOKED'')" by (simp_all add: u_Cons)
  have "choose_grant ''model_execution_grant_id'' (classify_model ex_verifier ascii_ext ?q) [ex_model_grant ''REVOKED''] = Inr ?c"
    by (simp add: choose_grant_def ex_revoked_class map_filter_simps sorted_pairs_def astr_def ex_model_fields)
  moreover have "\<exists>d. model_record ascii_ext ?q ?c = Inr d"
    using ex_model_ref [of "''REVOKED''"] a(2)
    by (intro ex_model_record [where r = JNull and rs = "[JObj [(u ''kind'', JStr (u ''model_execution_grant'')), (u ''id'', JStr (ex_model_id ''REVOKED''))]]"])
      (simp_all add: optional_ref_def)
  moreover have "gq_grants ?q = [ex_model_grant ''REVOKED'']" by (simp add: ex_model_question_def)
  ultimately show ?thesis
    using ex_model_admit [OF a(1)] by (auto simp: evaluate_model_execution_authorization_def)
qed

theorem withheld_in_supplied_order_witness:
  "\<exists>d i. evaluate_model_execution_authorization ex_verifier ascii_ext (ex_model_request [ex_model_grant ''REVOKED'']) = Inr d
     \<and> jfield d ''excluding_grant_refs'' = Some (JList [JObj [(u ''kind'', JStr (u ''model_execution_grant'')), (u ''id'', JStr i)]])"
proof -
  let ?q = "ex_model_question [ex_model_grant ''REVOKED'']"
  obtain d where d: "evaluate_model_execution_authorization ex_verifier ascii_ext (ex_model_request [ex_model_grant ''REVOKED'']) = Inr d"
    using ex_revoked_evaluates by blast
  have a: "plain_str (u ''REVOKED'')" by (simp add: u_Cons)
  have "gq_grants ?q = [ex_model_grant ''REVOKED'']" by (simp add: ex_model_question_def)
  then show ?thesis
    using withheld_in_supplied_order [OF d ex_model_admit [OF a]] d ex_revoked_class ex_model_ref(1) [of "''REVOKED''"]
    by auto
qed

end
