(* ===== verification/DeclarationExample.thy ===== *)
theory DeclarationExample
  imports GrantExample
begin

text \<open>
  A verifier selection and a projection, each with one grant and the signed declaration of it.
\<close>

section \<open>Declared grants\<close>

text \<open>A record whose identity is the address of the listed fields, with a signature beside them.\<close>

definition signed :: "string \<Rightarrow> string \<Rightarrow> json \<Rightarrow> json" where
  "signed prefix f body = (case body of
     JObj kvs \<Rightarrow> JObj ((u f, JStr (u prefix @ ascii_upper (sha256_hex (json_bytes body)))) # (u ''signature'', ex_signature) # kvs)
   | v \<Rightarrow> v)"

lemma signed_field:
  "is_obj body \<Longrightarrow> jfield (signed p f body) k =
     (if k = f then Some (JStr (u p @ ascii_upper (sha256_hex (json_bytes body))))
      else if k = ''signature'' then Some ex_signature else jfield body k)"
  by (cases body) (auto simp: signed_def jfield_def)

lemma signed_obj [simp]: "is_obj (signed p f body) = is_obj body"
  by (cases body) (auto simp: signed_def)

lemma canonical_bytes_plain:
  "plain_any ascii_ext False v \<Longrightarrow> canonical_semantic ascii_ext v = Inr v \<Longrightarrow> canonical_bytes ascii_ext v = Inr (json_bytes v)"
  by (simp add: canonical_bytes_def canonA_def plain_any_canonical [OF nfc_ascii_example] json_bytes_def)

definition ex_sel_grant_body :: json where
  "ex_sel_grant_body = JObj
     [(u ''schema_version'', schema_version), (u ''project_id'', JStr (u ''PRJ-A'')), (u ''requirement_id'', JStr (u ''REQ-1'')),
      (u ''selection_id'', JStr (u ''SEL-1'')), (u ''verifier_identity'', ex_ref ''verifier'' ''V-1''),
      (u ''permitted_boundary'', ex_ref ''boundary'' ''B-1''), (u ''status'', JStr (u ''ACTIVE'')),
      (u ''granted_by'', ex_authority)]"

definition ex_sel_grant :: json where
  "ex_sel_grant = seal ''VSEL-GRANT-'' ''verifier_selection_grant_id'' ex_sel_grant_body"

definition ex_sel_id :: ustr where
  "ex_sel_id = u ''VSEL-GRANT-'' @ ascii_upper (sha256_hex (json_bytes ex_sel_grant_body))"

definition ex_sel_decl_body :: json where
  "ex_sel_decl_body = JObj
     [(u ''schema_version'', schema_version), (u ''project_id'', JStr (u ''PRJ-A'')),
      (u ''project_binding_id'', JStr (u ''PB-1'')),
      (u ''grant_ref'', JObj [(u ''kind'', JStr (u ''verifier_selection_grant'')), (u ''id'', JStr ex_sel_id)]),
      (u ''declared_by'', ex_authority), (u ''requirement_id'', JStr (u ''REQ-1'')),
      (u ''selection_id'', JStr (u ''SEL-1'')), (u ''verifier_identity'', ex_ref ''verifier'' ''V-1''),
      (u ''permitted_boundary'', ex_ref ''boundary'' ''B-1''), (u ''status'', JStr (u ''ACTIVE'')),
      (u ''declared_at'', JStr (u ''2026-06-01T00:00:00Z''))]"

definition ex_sel_decl :: json where
  "ex_sel_decl = signed ''HGD-'' ''human_grant_declaration_id'' ex_sel_decl_body"

definition ex_sel_request :: json where
  "ex_sel_request = JObj
     [(u ''schema_version'', schema_version), (u ''project_id'', JStr (u ''PRJ-A'')), (u ''requirement_id'', JStr (u ''REQ-1'')),
      (u ''selection_id'', JStr (u ''SEL-1'')), (u ''verifier_identity'', ex_ref ''verifier'' ''V-1''),
      (u ''permitted_boundary'', ex_ref ''boundary'' ''B-1''), (u ''selection_status'', JStr (u ''ACTIVE'')),
      (u ''human_authority_ref'', ex_authority), (u ''human_authority_signing_key'', ex_key),
      (u ''grants'', JList [ex_sel_grant]), (u ''grant_declarations'', JList [ex_sel_decl])]"

definition ex_sel_question :: grant_question where
  "ex_sel_question =
     \<lparr> gq_asked = [(''project_id'', JStr (u ''PRJ-A'')), (''requirement_id'', JStr (u ''REQ-1'')),
         (''selection_id'', JStr (u ''SEL-1'')), (''verifier_identity'', ex_ref ''verifier'' ''V-1''),
         (''permitted_boundary'', ex_ref ''boundary'' ''B-1''), (''selection_status'', JStr (u ''ACTIVE''))],
       gq_project = u ''PRJ-A'', gq_authority = ex_authority, gq_key = ex_key,
       gq_grants = [ex_sel_grant], gq_declarations = [ex_sel_decl] \<rparr>"

lemma ex_sel_plain: "plain_any ascii_ext False ex_sel_grant_body" "plain_any ascii_ext False ex_sel_decl_body"
proof -
  show "plain_any ascii_ext False ex_sel_grant_body"
    using ex_grant_keys by (simp add: ex_sel_grant_body_def ex_ref_def ex_authority_def schema_version_def) (simp add: u_Cons)
  have "plain_str ex_sel_id" by (simp add: ex_sel_id_def) (simp add: u_Cons)
  then show "plain_any ascii_ext False ex_sel_decl_body"
    using ex_grant_keys by (simp add: ex_sel_decl_body_def ex_ref_def ex_authority_def schema_version_def) (simp add: u_Cons)
qed

lemma ex_sel_grant_fields:
  "is_obj ex_sel_grant_body" "jfield ex_sel_grant_body ''schema_version'' = Some schema_version"
  "jfield ex_sel_grant_body ''project_id'' = Some (JStr (u ''PRJ-A''))"
  "jfield ex_sel_grant_body ''requirement_id'' = Some (JStr (u ''REQ-1''))"
  "jfield ex_sel_grant_body ''selection_id'' = Some (JStr (u ''SEL-1''))"
  "jfield ex_sel_grant_body ''verifier_identity'' = Some (ex_ref ''verifier'' ''V-1'')"
  "jfield ex_sel_grant_body ''permitted_boundary'' = Some (ex_ref ''boundary'' ''B-1'')"
  "jfield ex_sel_grant_body ''status'' = Some (JStr (u ''ACTIVE''))"
  "jfield ex_sel_grant_body ''granted_by'' = Some ex_authority"
  "jfield ex_sel_grant_body ''verifier_selection_grant_id'' = None"
  by (simp_all add: ex_sel_grant_body_def jfield_def)

lemma ex_sel_decl_fields:
  "is_obj ex_sel_decl_body" "jfield ex_sel_decl_body ''schema_version'' = Some schema_version"
  "jfield ex_sel_decl_body ''project_id'' = Some (JStr (u ''PRJ-A''))"
  "jfield ex_sel_decl_body ''grant_ref'' = Some (JObj [(u ''kind'', JStr (u ''verifier_selection_grant'')), (u ''id'', JStr ex_sel_id)])"
  "jfield ex_sel_decl_body ''declared_by'' = Some ex_authority"
  "jfield ex_sel_decl_body ''requirement_id'' = Some (JStr (u ''REQ-1''))"
  "jfield ex_sel_decl_body ''selection_id'' = Some (JStr (u ''SEL-1''))"
  "jfield ex_sel_decl_body ''verifier_identity'' = Some (ex_ref ''verifier'' ''V-1'')"
  "jfield ex_sel_decl_body ''permitted_boundary'' = Some (ex_ref ''boundary'' ''B-1'')"
  "jfield ex_sel_decl_body ''status'' = Some (JStr (u ''ACTIVE''))"
  by (simp_all add: ex_sel_decl_body_def jfield_def)

lemma ex_sel_payload: "human_grant_declaration_signing_payload ascii_ext ex_sel_decl = Inr (json_bytes ex_sel_decl_body)"
proof -
  have "project_fields human_grant_declaration_fields ex_sel_decl = Inr ex_sel_decl_body"
    by (simp add: project_fields_def human_grant_declaration_fields_def ex_sel_decl_def signed_def ex_sel_decl_body_def
        afield_def jfield_def)
  moreover have "canonical_semantic ascii_ext ex_sel_decl_body = Inr ex_sel_decl_body"
    by (simp add: ex_sel_decl_body_def ex_ref_def ex_authority_def schema_version_def sort_members_def)
  ultimately show ?thesis
    using canonical_bytes_plain [OF ex_sel_plain(2)] by (simp add: human_grant_declaration_signing_payload_def)
qed

lemma ex_sel_admitted:
  "admit_all ascii_ext verifier_selection_grant_type no_refine (JList [ex_sel_grant]) = Inr [ex_sel_grant]"
  "admit_all ascii_ext human_grant_declaration_type no_refine (JList [ex_sel_decl]) = Inr [ex_sel_decl]"
proof -
  have "admitted ascii_ext verifier_selection_grant_type ex_sel_grant"
    using address_plain [OF ex_sel_plain(1)]
    by (simp add: admitted_def verifier_selection_grant_type_def authority_type_def verifier_selection_grant_id_def
        ex_sel_grant_def seal_field seal_without ex_sel_grant_fields ex_authority_human)
  then show "admit_all ascii_ext verifier_selection_grant_type no_refine (JList [ex_sel_grant]) = Inr [ex_sel_grant]"
    by (simp add: admit_all_iff no_refine_def)
  have "admitted ascii_ext human_grant_declaration_type ex_sel_decl"
    using ex_sel_payload
    by (simp add: admitted_def human_grant_declaration_type_def binding_type_def human_grant_declaration_id_def)
      (simp add: ex_sel_decl_def signed_field ex_sel_decl_fields ex_authority_human)
  then show "admit_all ascii_ext human_grant_declaration_type no_refine (JList [ex_sel_decl]) = Inr [ex_sel_decl]"
    by (simp add: admit_all_iff no_refine_def)
qed

lemma declared_single:
  assumes "declares q kind restated verify grant i x" and "gq_declarations q = [x]" and "jfield x identity = Some (JStr s)"
  shows "declared_grant q kind restated verify identity grant i = Inr (Bound (Some x))"
proof -
  have one: "p x = Inr True \<Longrightarrow> filterE p [x] = Inr [x]" for p :: "json \<Rightarrow> auth_error + bool" by simp
  have checks: "anchors_grant kind (gq_project q) i x = Inr True" "equals x ''declared_by'' (gq_authority q) = Inr True"
    "equals x ''status'' (JStr (u ''ACTIVE'')) = Inr True" "declaration_restates_grant restated grant x = Inr True"
    "verify x = Inr True"
    using assms(1) by (simp_all add: declares_def anchors_grant_def andE_True)
  have "sorted_by identity [x] = Inr [x]" using assms(3) by (simp add: sorted_by_def)
  then show ?thesis
    by (simp add: declared_grant_def assms(2) one checks del: filterE.simps bindE_eq_Inr_iff)
qed

lemma human_authority_required: "require_human_authority ex_authority = Inr ex_authority"
  by (simp add: require_human_authority_def ex_authority_def jfield_def)

lemma ex_sel_admit: "admit_selection_request ascii_ext ex_sel_request = Inr ex_sel_question"
proof -
  have closed: "closed_keys selection_request_keys ex_sel_request = Inr ()"
    unfolding closed_keys_def by (simp add: ex_sel_request_def selection_request_keys_def) (simp add: jfield_def)
  have fields: "is_obj ex_sel_request" "jfield ex_sel_request ''schema_version'' = Some schema_version"
    "jfield ex_sel_request ''project_id'' = Some (JStr (u ''PRJ-A''))"
    "jfield ex_sel_request ''requirement_id'' = Some (JStr (u ''REQ-1''))"
    "jfield ex_sel_request ''selection_id'' = Some (JStr (u ''SEL-1''))"
    "jfield ex_sel_request ''verifier_identity'' = Some (ex_ref ''verifier'' ''V-1'')"
    "jfield ex_sel_request ''permitted_boundary'' = Some (ex_ref ''boundary'' ''B-1'')"
    "jfield ex_sel_request ''selection_status'' = Some (JStr (u ''ACTIVE''))"
    "jfield ex_sel_request ''human_authority_ref'' = Some ex_authority"
    "jfield ex_sel_request ''human_authority_signing_key'' = Some ex_key"
    "jfield ex_sel_request ''grants'' = Some (JList [ex_sel_grant])"
    "jfield ex_sel_request ''grant_declarations'' = Some (JList [ex_sel_decl])"
    by (simp_all add: ex_sel_request_def jfield_def)
  have objects: "is_obj ex_key" "is_obj (ex_ref k i)" for k i by (simp_all add: ex_key_def ex_ref_def)
  show ?thesis
    using ex_sel_admitted
    by (simp add: admit_selection_request_def require_request_shape_iff closed fields objects human_authority_required
        require_among_def ex_sel_question_def)
qed

lemma ex_sel_class: "classify_selection ex_verifier ascii_ext ex_sel_question ex_sel_grant = Inr (Bound (Some ex_sel_decl))"
proof -
  have i: "jfield ex_sel_grant ''verifier_selection_grant_id'' = Some (JStr ex_sel_id)"
    by (simp add: ex_sel_grant_def seal_field ex_sel_grant_fields ex_sel_id_def)
  have core: "core_mismatches ex_sel_grant (selection_core ex_sel_question) = Inr []"
    by (simp add: core_mismatches_def selection_core_def asked_def ex_sel_question_def anot_def afield_def reason_if_def
        ex_sel_grant_def seal_field ex_sel_grant_fields)
  have "verify_signature_over ex_verifier ex_sel_decl ex_key (Inr (json_bytes ex_sel_decl_body)) = Inr True"
    by (rule ex_signature_verifies) (simp_all add: ex_sel_decl_def signed_field ex_sel_decl_fields)
  then have verify: "verify_declaration_signature ex_verifier ascii_ext ex_key ex_sel_decl = Inr True"
    by (simp add: verify_declaration_signature_def ex_sel_payload)
  have q: "gq_project ex_sel_question = u ''PRJ-A''" "gq_authority ex_sel_question = ex_authority"
    "gq_key ex_sel_question = ex_key" "gq_declarations ex_sel_question = [ex_sel_decl]"
    by (simp_all add: ex_sel_question_def)
  have "declares ex_sel_question ''verifier_selection_grant'' selection_restated
      (verify_declaration_signature ex_verifier ascii_ext ex_key) ex_sel_grant (JStr ex_sel_id) ex_sel_decl"
    using verify
    by (simp add: declares_def q same_field_def selection_restated_def)
      (simp add: ex_sel_decl_def signed_field ex_sel_decl_fields ex_sel_grant_def seal_field ex_sel_grant_fields)
  then have "declared_grant ex_sel_question ''verifier_selection_grant'' selection_restated
      (verify_declaration_signature ex_verifier ascii_ext ex_key) ''human_grant_declaration_id'' ex_sel_grant (JStr ex_sel_id)
      = Inr (Bound (Some ex_sel_decl))"
    using q(4) by (rule declared_single) (simp add: ex_sel_decl_def signed_field ex_sel_decl_fields)
  moreover have "jfield ex_sel_grant ''status'' = Some (JStr (u ''ACTIVE''))"
    by (simp add: ex_sel_grant_def seal_field ex_sel_grant_fields)
  ultimately show ?thesis
    by (simp add: classify_selection_def classify_grant_def core i q afield_def astr_def)
qed

lemma ex_sel_evaluates:
  "\<exists>d. evaluate_verifier_selection ex_verifier ascii_ext ex_sel_request = Inr d
     \<and> jfield d ''decision'' = Some (JStr (u ''VERIFIER_SELECTION_SELECTED''))"
proof -
  let ?c = "\<lparr> gc_grant = Some ex_sel_grant, gc_declaration = Some ex_sel_decl, gc_excluding = [], gc_reasons = [u ''GRANT_EXACT''] \<rparr>"
  have c: "choose_grant ''verifier_selection_grant_id'' (classify_selection ex_verifier ascii_ext ex_sel_question) [ex_sel_grant] = Inr ?c"
    by (simp add: choose_grant_def ex_sel_class map_filter_simps sorted_pairs_def)
      (simp add: astr_def ex_sel_grant_def seal_field ex_sel_grant_fields)
  let ?did = "u ''HGD-'' @ ascii_upper (sha256_hex (json_bytes ex_sel_decl_body))"
  let ?dref = "JObj [(u ''kind'', JStr (u ''human_grant_declaration'')), (u ''id'', JStr ?did)]"
  let ?gref = "JObj [(u ''kind'', JStr (u ''verifier_selection_grant'')), (u ''id'', JStr ex_sel_id)]"
  have dref: "optional_ref ''human_grant_declaration'' ''human_grant_declaration_id'' (gc_declaration ?c) = Inr ?dref"
    by (simp add: optional_ref_def ref_def afield_def ex_sel_decl_def signed_field ex_sel_decl_fields)
  have gref: "optional_ref ''verifier_selection_grant'' ''verifier_selection_grant_id'' (gc_grant ?c) = Inr ?gref"
    by (simp add: optional_ref_def ref_def afield_def ex_sel_grant_def seal_field ex_sel_grant_fields ex_sel_id_def)
  obtain r0 where r0: "grant_record ''verifier_selection_decision_id'' ''verifier_selection_grant_id'' ''verifier_selection_grant''
         [(u ''declaration_ref'', ?dref)] (u ''VERIFIER_SELECTION_SELECTED'') (u ''VERIFIER_SELECTION_REFUSED'') ex_sel_question ?c = Inr r0"
    using gref by (simp add: grant_record_def)
  let ?p = "JObj [(u ''project_id'', JStr (u ''PRJ-A'')), (u ''requirement_id'', JStr (u ''REQ-1'')),
     (u ''selection_id'', JStr (u ''SEL-1'')), (u ''verifier_identity'', ex_ref ''verifier'' ''V-1''),
     (u ''permitted_boundary'', ex_ref ''boundary'' ''B-1''), (u ''selection_status'', JStr (u ''ACTIVE'')),
     (u ''selection_authority_ref'', ex_authority), (u ''grant_ref'', ?gref), (u ''excluding_grant_refs'', JList []),
     (u ''declaration_ref'', ?dref), (u ''decision'', JStr (u ''VERIFIER_SELECTION_SELECTED'')),
     (u ''decision_reason_codes'', JList [JStr (u ''GRANT_EXACT'')])]"
  have "project_fields verifier_selection_decision_semantic_fields r0 = Inr ?p" and "is_obj r0"
    using r0 gref
    by (auto simp: grant_record_def project_fields_def verifier_selection_decision_semantic_fields_def ex_sel_question_def
        afield_def jfield_def)
  moreover have "plain_str ex_sel_id" by (simp add: ex_sel_id_def) (simp add: u_Cons)
  then have "plain_any ascii_ext False ?p"
    using ex_grant_keys by (simp add: ex_ref_def ex_authority_def) (simp add: u_Cons)
  ultimately have "\<exists>d. finish_grant_record ascii_ext
      (\<lambda>d. bindE (project_fields verifier_selection_decision_semantic_fields d) (digest ascii_ext))
      (\<lambda>d. bindE (project_fields verifier_selection_decision_semantic_fields d) (address ascii_ext ''VSEL-DEC-''))
      ''verifier_selection_decision_id'' ''verifier_selection_decision.schema.json'' r0 = Inr d"
    by (intro finish_total [where p = ?p]) (simp_all only:, simp add: verifier_selection_decision_semantic_fields_def)
  then obtain d where d: "selection_record ascii_ext ex_sel_question ?c = Inr d"
    using r0 dref by (auto simp: selection_record_def verifier_selection_decision_semantic_fingerprint_def [abs_def]
        verifier_selection_decision_id_def [abs_def])
  have "gq_grants ex_sel_question = [ex_sel_grant]" by (simp add: ex_sel_question_def)
  then show ?thesis
    using ex_sel_admit c d selection_record_fields [OF d selection_question(8) [OF ex_sel_admit]]
    by (auto simp: evaluate_verifier_selection_def)
qed

theorem selection_needs_signature_witness:
  "\<exists>d gs g. evaluate_verifier_selection ex_verifier ascii_ext ex_sel_request = Inr d
     \<and> jfield ex_sel_request ''grants'' = Some (JList gs) \<and> g \<in> set gs \<and> jfield g ''status'' = Some (JStr (u ''ACTIVE''))"
proof -
  obtain d where d: "evaluate_verifier_selection ex_verifier ascii_ext ex_sel_request = Inr d"
    "jfield d ''decision'' = Some (JStr (u ''VERIFIER_SELECTION_SELECTED''))" using ex_sel_evaluates by blast
  show ?thesis using selection_needs_signature [OF d] d(1) by blast
qed

section \<open>A projection\<close>

definition ex_proj_grant_body :: json where
  "ex_proj_grant_body = JObj
     [(u ''schema_version'', schema_version),
      (u ''project_id'', JStr (u ''PRJ-A'')),
      (u ''subject_ref'', ex_ref ''difference'' ''D-1''),
      (u ''subject_fingerprint'', JStr (u ''sha256:00'')),
      (u ''projection_kind'', JStr (u ''DIFFERENCE_ISSUE'')),
      (u ''target_repository'', ex_ref ''repository'' ''org/repo''),
      (u ''payload_fingerprint'', JStr (u ''sha256:01'')),
      (u ''permitted_action'', JStr (u ''MATERIALIZE_PROJECTION'')),
      (u ''status'', JStr (u ''ACTIVE'')),
      (u ''granted_by'', ex_authority)]"

definition ex_proj_grant :: json where
  "ex_proj_grant = seal ''GH-PROJ-GRANT-'' ''github_projection_grant_id'' ex_proj_grant_body"

definition ex_proj_id :: ustr where
  "ex_proj_id = u ''GH-PROJ-GRANT-'' @ ascii_upper (sha256_hex (json_bytes ex_proj_grant_body))"

definition ex_proj_decl_body :: json where
  "ex_proj_decl_body = JObj
     [(u ''schema_version'', schema_version),
      (u ''project_id'', JStr (u ''PRJ-A'')),
      (u ''project_binding_id'', JStr (u ''PB-1'')),
      (u ''grant_ref'', JObj [(u ''kind'', JStr (u ''github_projection_grant'')), (u ''id'', JStr ex_proj_id)]),
      (u ''declared_by'', ex_authority),
      (u ''subject_ref'', ex_ref ''difference'' ''D-1''),
      (u ''subject_fingerprint'', JStr (u ''sha256:00'')),
      (u ''projection_kind'', JStr (u ''DIFFERENCE_ISSUE'')),
      (u ''target_repository'', ex_ref ''repository'' ''org/repo''),
      (u ''payload_fingerprint'', JStr (u ''sha256:01'')),
      (u ''permitted_action'', JStr (u ''MATERIALIZE_PROJECTION'')),
      (u ''status'', JStr (u ''ACTIVE'')),
      (u ''declared_at'', JStr (u ''2026-06-01T00:00:00Z''))]"

definition ex_proj_decl :: json where
  "ex_proj_decl = signed ''GH-PROJ-DECL-'' ''github_projection_grant_declaration_id'' ex_proj_decl_body"

definition ex_proj_request :: json where
  "ex_proj_request = JObj
     [(u ''schema_version'', schema_version),
      (u ''project_id'', JStr (u ''PRJ-A'')),
      (u ''subject_ref'', ex_ref ''difference'' ''D-1''),
      (u ''subject_fingerprint'', JStr (u ''sha256:00'')),
      (u ''projection_kind'', JStr (u ''DIFFERENCE_ISSUE'')),
      (u ''target_repository'', ex_ref ''repository'' ''org/repo''),
      (u ''payload_fingerprint'', JStr (u ''sha256:01'')),
      (u ''permitted_action'', JStr (u ''MATERIALIZE_PROJECTION'')),
      (u ''human_authority_ref'', ex_authority),
      (u ''human_authority_signing_key'', ex_key),
      (u ''grants'', JList [ex_proj_grant]),
      (u ''grant_declarations'', JList [ex_proj_decl])]"

definition ex_proj_question :: grant_question where
  "ex_proj_question =
     \<lparr> gq_asked = [(''project_id'', JStr (u ''PRJ-A'')), (''subject_ref'', ex_ref ''difference'' ''D-1''), (''subject_fingerprint'', JStr (u ''sha256:00'')), (''projection_kind'', JStr (u ''DIFFERENCE_ISSUE'')), (''target_repository'', ex_ref ''repository'' ''org/repo''), (''payload_fingerprint'', JStr (u ''sha256:01'')), (''permitted_action'', JStr (u ''MATERIALIZE_PROJECTION''))],
       gq_project = u ''PRJ-A'', gq_authority = ex_authority, gq_key = ex_key,
       gq_grants = [ex_proj_grant], gq_declarations = [ex_proj_decl] \<rparr>"

lemma ex_proj_plain: "plain_any ascii_ext False ex_proj_grant_body" "plain_any ascii_ext False ex_proj_decl_body"
proof -
  show "plain_any ascii_ext False ex_proj_grant_body"
    using ex_grant_keys by (simp add: ex_proj_grant_body_def ex_ref_def ex_authority_def schema_version_def) (simp add: u_Cons)
  have "plain_str ex_proj_id" by (simp add: ex_proj_id_def) (simp add: u_Cons)
  then show "plain_any ascii_ext False ex_proj_decl_body"
    using ex_grant_keys by (simp add: ex_proj_decl_body_def ex_ref_def ex_authority_def schema_version_def) (simp add: u_Cons)
qed

lemma ex_proj_grant_fields:
  "is_obj ex_proj_grant_body"
  "jfield ex_proj_grant_body ''schema_version'' = Some schema_version"
  "jfield ex_proj_grant_body ''project_id'' = Some (JStr (u ''PRJ-A''))"
  "jfield ex_proj_grant_body ''subject_ref'' = Some (ex_ref ''difference'' ''D-1'')"
  "jfield ex_proj_grant_body ''subject_fingerprint'' = Some (JStr (u ''sha256:00''))"
  "jfield ex_proj_grant_body ''projection_kind'' = Some (JStr (u ''DIFFERENCE_ISSUE''))"
  "jfield ex_proj_grant_body ''target_repository'' = Some (ex_ref ''repository'' ''org/repo'')"
  "jfield ex_proj_grant_body ''payload_fingerprint'' = Some (JStr (u ''sha256:01''))"
  "jfield ex_proj_grant_body ''permitted_action'' = Some (JStr (u ''MATERIALIZE_PROJECTION''))"
  "jfield ex_proj_grant_body ''status'' = Some (JStr (u ''ACTIVE''))"
  "jfield ex_proj_grant_body ''granted_by'' = Some ex_authority"
  "jfield ex_proj_grant_body ''github_projection_grant_id'' = None"
  by (simp_all add: ex_proj_grant_body_def jfield_def)

lemma ex_proj_decl_fields:
  "is_obj ex_proj_decl_body"
  "jfield ex_proj_decl_body ''schema_version'' = Some schema_version"
  "jfield ex_proj_decl_body ''project_id'' = Some (JStr (u ''PRJ-A''))"
  "jfield ex_proj_decl_body ''project_binding_id'' = Some (JStr (u ''PB-1''))"
  "jfield ex_proj_decl_body ''grant_ref'' = Some (JObj [(u ''kind'', JStr (u ''github_projection_grant'')), (u ''id'', JStr ex_proj_id)])"
  "jfield ex_proj_decl_body ''declared_by'' = Some ex_authority"
  "jfield ex_proj_decl_body ''subject_ref'' = Some (ex_ref ''difference'' ''D-1'')"
  "jfield ex_proj_decl_body ''subject_fingerprint'' = Some (JStr (u ''sha256:00''))"
  "jfield ex_proj_decl_body ''projection_kind'' = Some (JStr (u ''DIFFERENCE_ISSUE''))"
  "jfield ex_proj_decl_body ''target_repository'' = Some (ex_ref ''repository'' ''org/repo'')"
  "jfield ex_proj_decl_body ''payload_fingerprint'' = Some (JStr (u ''sha256:01''))"
  "jfield ex_proj_decl_body ''permitted_action'' = Some (JStr (u ''MATERIALIZE_PROJECTION''))"
  "jfield ex_proj_decl_body ''status'' = Some (JStr (u ''ACTIVE''))"
  "jfield ex_proj_decl_body ''declared_at'' = Some (JStr (u ''2026-06-01T00:00:00Z''))"
  by (simp_all add: ex_proj_decl_body_def jfield_def)

lemma ex_proj_payload:
  "github_projection_grant_declaration_signing_payload ascii_ext ex_proj_decl = Inr (json_bytes ex_proj_decl_body)"
proof -
  have "project_fields github_projection_grant_declaration_fields ex_proj_decl = Inr ex_proj_decl_body"
    by (simp add: project_fields_def github_projection_grant_declaration_fields_def ex_proj_decl_def signed_def
        ex_proj_decl_body_def afield_def jfield_def)
  moreover have "canonical_semantic ascii_ext ex_proj_decl_body = Inr ex_proj_decl_body"
    by (simp add: ex_proj_decl_body_def ex_ref_def ex_authority_def schema_version_def sort_members_def)
  ultimately show ?thesis
    using canonical_bytes_plain [OF ex_proj_plain(2)] by (simp add: github_projection_grant_declaration_signing_payload_def)
qed

lemma ex_proj_admitted:
  "admit_all ascii_ext github_projection_grant_type no_refine (JList [ex_proj_grant]) = Inr [ex_proj_grant]"
  "admit_all ascii_ext github_projection_grant_declaration_type no_refine (JList [ex_proj_decl]) = Inr [ex_proj_decl]"
proof -
  have "admitted ascii_ext github_projection_grant_type ex_proj_grant"
    using address_plain [OF ex_proj_plain(1)]
    by (simp add: admitted_def github_projection_grant_type_def authority_type_def github_projection_grant_id_def
        ex_proj_grant_def seal_field seal_without ex_proj_grant_fields ex_authority_human)
  then show "admit_all ascii_ext github_projection_grant_type no_refine (JList [ex_proj_grant]) = Inr [ex_proj_grant]"
    by (simp add: admit_all_iff no_refine_def)
  have "admitted ascii_ext github_projection_grant_declaration_type ex_proj_decl"
    using ex_proj_payload
    by (simp add: admitted_def github_projection_grant_declaration_type_def binding_type_def
        github_projection_grant_declaration_id_def)
      (simp add: ex_proj_decl_def signed_field ex_proj_decl_fields ex_authority_human)
  then show "admit_all ascii_ext github_projection_grant_declaration_type no_refine (JList [ex_proj_decl]) = Inr [ex_proj_decl]"
    by (simp add: admit_all_iff no_refine_def)
qed

lemma ex_proj_admit: "admit_projection_request ascii_ext ex_proj_request = Inr ex_proj_question"
proof -
  have closed: "closed_keys projection_request_keys ex_proj_request = Inr ()"
    unfolding closed_keys_def by (simp add: ex_proj_request_def projection_request_keys_def) (simp add: jfield_def)
  have fields:
    "is_obj ex_proj_request"
    "jfield ex_proj_request ''schema_version'' = Some schema_version"
    "jfield ex_proj_request ''project_id'' = Some (JStr (u ''PRJ-A''))"
    "jfield ex_proj_request ''subject_ref'' = Some (ex_ref ''difference'' ''D-1'')"
    "jfield ex_proj_request ''subject_fingerprint'' = Some (JStr (u ''sha256:00''))"
    "jfield ex_proj_request ''projection_kind'' = Some (JStr (u ''DIFFERENCE_ISSUE''))"
    "jfield ex_proj_request ''target_repository'' = Some (ex_ref ''repository'' ''org/repo'')"
    "jfield ex_proj_request ''payload_fingerprint'' = Some (JStr (u ''sha256:01''))"
    "jfield ex_proj_request ''permitted_action'' = Some (JStr (u ''MATERIALIZE_PROJECTION''))"
    "jfield ex_proj_request ''human_authority_ref'' = Some ex_authority"
    "jfield ex_proj_request ''human_authority_signing_key'' = Some ex_key"
    "jfield ex_proj_request ''grants'' = Some (JList [ex_proj_grant])"
    "jfield ex_proj_request ''grant_declarations'' = Some (JList [ex_proj_decl])"
    by (simp_all add: ex_proj_request_def jfield_def)
  have objects: "is_obj ex_key" "is_obj (ex_ref k i)" for k i by (simp_all add: ex_key_def ex_ref_def)
  show ?thesis
    using ex_proj_admitted
    by (simp add: admit_projection_request_def require_request_shape_iff closed fields objects human_authority_required
        require_among_def ex_proj_question_def)
qed

lemma ex_proj_decides:
  "classify_projection ex_verifier ascii_ext ex_proj_question ex_proj_grant = Inr (Bound (Some ex_proj_decl))"
  "projection_binds ex_verifier ascii_ext ex_proj_question ex_proj_grant (Some ex_proj_decl)"
proof -
  have i: "jfield ex_proj_grant ''github_projection_grant_id'' = Some (JStr ex_proj_id)"
    by (simp add: ex_proj_grant_def seal_field ex_proj_grant_fields ex_proj_id_def)
  have core: "core_mismatches ex_proj_grant (projection_core ex_proj_question) = Inr []"
    by (simp add: core_mismatches_def projection_core_def asked_def ex_proj_question_def anot_def afield_def reason_if_def
        ex_proj_grant_def seal_field ex_proj_grant_fields)
  have "verify_signature_over ex_verifier ex_proj_decl ex_key (Inr (json_bytes ex_proj_decl_body)) = Inr True"
    by (rule ex_signature_verifies) (simp_all add: ex_proj_decl_def signed_field ex_proj_decl_fields)
  then have verify: "verify_github_projection_grant_declaration_signature ex_verifier ascii_ext ex_key ex_proj_decl = Inr True"
    by (simp add: verify_github_projection_grant_declaration_signature_def ex_proj_payload)
  have q: "gq_project ex_proj_question = u ''PRJ-A''" "gq_authority ex_proj_question = ex_authority"
    "gq_key ex_proj_question = ex_key" "gq_declarations ex_proj_question = [ex_proj_decl]"
    by (simp_all add: ex_proj_question_def)
  have "declares ex_proj_question ''github_projection_grant'' projection_restated
      (verify_github_projection_grant_declaration_signature ex_verifier ascii_ext ex_key) ex_proj_grant (JStr ex_proj_id) ex_proj_decl"
    using verify
    by (simp add: declares_def q same_field_def projection_restated_def)
      (simp add: ex_proj_decl_def signed_field ex_proj_decl_fields ex_proj_grant_def seal_field ex_proj_grant_fields)
  then have "declared_grant ex_proj_question ''github_projection_grant'' projection_restated
      (verify_github_projection_grant_declaration_signature ex_verifier ascii_ext ex_key)
      ''github_projection_grant_declaration_id'' ex_proj_grant (JStr ex_proj_id) = Inr (Bound (Some ex_proj_decl))"
    using q(4) by (rule declared_single) (simp add: ex_proj_decl_def signed_field ex_proj_decl_fields)
  moreover have "jfield ex_proj_grant ''status'' = Some (JStr (u ''ACTIVE''))"
    by (simp add: ex_proj_grant_def seal_field ex_proj_grant_fields)
  ultimately show c: "classify_projection ex_verifier ascii_ext ex_proj_question ex_proj_grant = Inr (Bound (Some ex_proj_decl))"
    by (simp add: classify_projection_def classify_grant_def core i q afield_def astr_def)
  then show "projection_binds ex_verifier ascii_ext ex_proj_question ex_proj_grant (Some ex_proj_decl)"
    by (rule projection.bound)
qed

lemma ex_proj_evaluates:
  "\<exists>d. evaluate_projection_authorization ex_verifier ascii_ext ex_proj_request = Inr d"
proof -
  let ?c = "\<lparr> gc_grant = Some ex_proj_grant, gc_declaration = Some ex_proj_decl, gc_excluding = [], gc_reasons = [u ''GRANT_EXACT''] \<rparr>"
  have c: "choose_grant ''github_projection_grant_id'' (classify_projection ex_verifier ascii_ext ex_proj_question) [ex_proj_grant] = Inr ?c"
    by (simp add: choose_grant_def ex_proj_decides(1) map_filter_simps sorted_pairs_def)
      (simp add: astr_def ex_proj_grant_def seal_field ex_proj_grant_fields)
  let ?did = "u ''GH-PROJ-DECL-'' @ ascii_upper (sha256_hex (json_bytes ex_proj_decl_body))"
  let ?dref = "JObj [(u ''kind'', JStr (u ''github_projection_grant_declaration'')), (u ''id'', JStr ?did)]"
  let ?gref = "JObj [(u ''kind'', JStr (u ''github_projection_grant'')), (u ''id'', JStr ex_proj_id)]"
  have dref: "optional_ref ''github_projection_grant_declaration'' ''github_projection_grant_declaration_id'' (gc_declaration ?c) = Inr ?dref"
    by (simp add: optional_ref_def ref_def afield_def ex_proj_decl_def signed_field ex_proj_decl_fields)
  have gref: "optional_ref ''github_projection_grant'' ''github_projection_grant_id'' (gc_grant ?c) = Inr ?gref"
    by (simp add: optional_ref_def ref_def afield_def ex_proj_grant_def seal_field ex_proj_grant_fields ex_proj_id_def)
  obtain r0 where r0: "grant_record ''github_projection_decision_id'' ''github_projection_grant_id'' ''github_projection_grant''
         [(u ''declaration_ref'', ?dref)] (u ''PROJECTION_AUTHORIZED'') (u ''PROJECTION_REFUSED'') ex_proj_question ?c = Inr r0"
    using gref by (simp add: grant_record_def)
  let ?p = "JObj [(u ''project_id'', JStr (u ''PRJ-A'')), (u ''subject_ref'', ex_ref ''difference'' ''D-1''),
     (u ''subject_fingerprint'', JStr (u ''sha256:00'')), (u ''projection_kind'', JStr (u ''DIFFERENCE_ISSUE'')),
     (u ''target_repository'', ex_ref ''repository'' ''org/repo''), (u ''payload_fingerprint'', JStr (u ''sha256:01'')),
     (u ''permitted_action'', JStr (u ''MATERIALIZE_PROJECTION'')),
     (u ''selection_authority_ref'', ex_authority), (u ''grant_ref'', ?gref), (u ''excluding_grant_refs'', JList []),
     (u ''declaration_ref'', ?dref), (u ''decision'', JStr (u ''PROJECTION_AUTHORIZED'')),
     (u ''decision_reason_codes'', JList [JStr (u ''GRANT_EXACT'')])]"
  have "project_fields github_projection_decision_semantic_fields r0 = Inr ?p" and "is_obj r0"
    using r0 gref
    by (auto simp: grant_record_def project_fields_def github_projection_decision_semantic_fields_def ex_proj_question_def
        afield_def jfield_def)
  moreover have "plain_str ex_proj_id" by (simp add: ex_proj_id_def) (simp add: u_Cons)
  then have "plain_any ascii_ext False ?p"
    using ex_grant_keys by (simp add: ex_ref_def ex_authority_def) (simp add: u_Cons)
  ultimately have "\<exists>d. finish_grant_record ascii_ext
      (\<lambda>d. bindE (project_fields github_projection_decision_semantic_fields d) (digest ascii_ext))
      (\<lambda>d. bindE (project_fields github_projection_decision_semantic_fields d) (address ascii_ext ''GH-PROJ-DEC-''))
      ''github_projection_decision_id'' ''github_projection_decision.schema.json'' r0 = Inr d"
    by (intro finish_total [where p = ?p]) (simp_all only:, simp add: github_projection_decision_semantic_fields_def)
  then obtain d where d: "projection_record ascii_ext ex_proj_question ?c = Inr d"
    using r0 dref by (auto simp: projection_record_def github_projection_decision_semantic_fingerprint_def [abs_def]
        github_projection_decision_id_def [abs_def])
  have "gq_grants ex_proj_question = [ex_proj_grant]" by (simp add: ex_proj_question_def)
  then show ?thesis using ex_proj_admit c d by (auto simp: evaluate_projection_authorization_def)
qed

theorem projection_authorized_iff_witness:
  "\<exists>d. evaluate_projection_authorization ex_verifier ascii_ext ex_proj_request = Inr d
     \<and> jfield d ''decision'' = Some (JStr (u ''PROJECTION_AUTHORIZED''))"
proof -
  obtain d where d: "evaluate_projection_authorization ex_verifier ascii_ext ex_proj_request = Inr d"
    using ex_proj_evaluates by blast
  have "ex_proj_grant \<in> set (gq_grants ex_proj_question)" by (simp add: ex_proj_question_def)
  then show ?thesis using projection_authorized_iff [OF d ex_proj_admit] ex_proj_decides(2) d by blast
qed

end
