(* ===== verification/Lifecycle.thy ===== *)
theory Lifecycle
  imports DifferenceIdentity
begin

text \<open>
  The lifecycle of a Difference: the transition table and the rules of \<open>difference/lifecycle.py\<close>,
  the events \<open>difference/engine.py\<close> mints, and the chain of events it accepts from a predecessor.
  The records are the ones a schema has admitted: where the code iterates over a field or tests
  it for emptiness, the model asks for a JSON array and answers \<open>AuthPy\<close> otherwise.
\<close>

section \<open>Statuses and transitions\<close>

datatype status =
  DETECTED | OPEN | ACTIVE | VERIFYING | BLOCKED | RETAINED | CLOSED | REOPENED | SUPERSEDED | INVALIDATED

fun status_text :: "status \<Rightarrow> ustr" where
  "status_text DETECTED = u ''DETECTED''"
| "status_text OPEN = u ''OPEN''"
| "status_text ACTIVE = u ''ACTIVE''"
| "status_text VERIFYING = u ''VERIFYING''"
| "status_text BLOCKED = u ''BLOCKED''"
| "status_text RETAINED = u ''RETAINED''"
| "status_text CLOSED = u ''CLOSED''"
| "status_text REOPENED = u ''REOPENED''"
| "status_text SUPERSEDED = u ''SUPERSEDED''"
| "status_text INVALIDATED = u ''INVALIDATED''"

lemma status_text_inj [simp]: "status_text s = status_text t \<longleftrightarrow> s = t"
  by (cases s; cases t) simp_all

declare status_text.simps [simp del]

abbreviation status_json :: "status \<Rightarrow> json" where
  "status_json s \<equiv> JStr (status_text s)"

definition legal_transitions :: "(status option \<times> status) list" where
  "legal_transitions =
     [(None, DETECTED), (Some DETECTED, OPEN), (Some DETECTED, INVALIDATED),
      (Some OPEN, ACTIVE), (Some OPEN, BLOCKED), (Some OPEN, RETAINED), (Some OPEN, SUPERSEDED), (Some OPEN, INVALIDATED),
      (Some ACTIVE, VERIFYING), (Some ACTIVE, BLOCKED), (Some ACTIVE, RETAINED), (Some ACTIVE, SUPERSEDED),
      (Some ACTIVE, INVALIDATED),
      (Some VERIFYING, CLOSED), (Some VERIFYING, ACTIVE), (Some VERIFYING, BLOCKED), (Some VERIFYING, RETAINED),
      (Some VERIFYING, SUPERSEDED), (Some VERIFYING, INVALIDATED),
      (Some BLOCKED, OPEN), (Some BLOCKED, ACTIVE), (Some BLOCKED, VERIFYING), (Some BLOCKED, RETAINED),
      (Some BLOCKED, SUPERSEDED), (Some BLOCKED, INVALIDATED),
      (Some RETAINED, OPEN), (Some RETAINED, ACTIVE), (Some RETAINED, VERIFYING), (Some RETAINED, BLOCKED),
      (Some RETAINED, SUPERSEDED), (Some RETAINED, INVALIDATED),
      (Some CLOSED, REOPENED), (Some CLOSED, SUPERSEDED), (Some CLOSED, INVALIDATED),
      (Some REOPENED, ACTIVE), (Some REOPENED, VERIFYING), (Some REOPENED, BLOCKED), (Some REOPENED, RETAINED),
      (Some REOPENED, SUPERSEDED), (Some REOPENED, INVALIDATED)]"

definition terminal_statuses :: "status list" where
  "terminal_statuses = [SUPERSEDED, INVALIDATED]"

definition observation_bound_forbidden :: "status list" where
  "observation_bound_forbidden = [CLOSED, SUPERSEDED, INVALIDATED]"

definition requires_next_observation :: "status list" where
  "requires_next_observation = [BLOCKED, RETAINED, REOPENED]"

definition next_observation_forbidden :: "status list" where
  "next_observation_forbidden = [SUPERSEDED, INVALIDATED]"

fun next_observation_reason :: "status \<Rightarrow> ustr option" where
  "next_observation_reason BLOCKED = Some (u ''BLOCKER_REOBSERVATION'')"
| "next_observation_reason RETAINED = Some (u ''RETAINED_REOBSERVATION'')"
| "next_observation_reason REOPENED = Some (u ''REOPEN_REOBSERVATION'')"
| "next_observation_reason _ = None"

text \<open>\<open>value in statuses\<close> for a set of status texts.\<close>

definition among :: "json \<Rightarrow> status list \<Rightarrow> bool" where
  "among v ss \<longleftrightarrow> v \<in> status_json ` set ss"

fun optional_status :: "status option \<Rightarrow> json" where
  "optional_status None = JNull"
| "optional_status (Some s) = status_json s"

definition is_legal_transition :: "json \<Rightarrow> json \<Rightarrow> bool" where
  "is_legal_transition from_status to_status \<longleftrightarrow>
     (from_status, to_status) \<in> (\<lambda>(s, t). (optional_status s, status_json t)) ` set legal_transitions"

definition legal_supersession_sources :: "status list" where
  "legal_supersession_sources =
     List.map_filter (\<lambda>(s, t). if t = SUPERSEDED then s else None) legal_transitions"

section \<open>Blockers\<close>

definition blocker_condition_expected_state :: "(ustr \<times> ustr) list" where
  "blocker_condition_expected_state = map (\<lambda>(a, b). (u a, u b))
     [(''AUTHORITY_PATH_AVAILABLE'', ''AVAILABLE''), (''EXECUTION_PATH_AVAILABLE'', ''AVAILABLE''),
      (''OBSERVATION_PATH_AVAILABLE'', ''AVAILABLE''), (''REQUIRED_EVIDENCE_AVAILABLE'', ''AVAILABLE''),
      (''BINDINGS_CURRENT'', ''CURRENT''), (''MATERIAL_CONFLICT_RESOLVED'', ''RESOLVED''),
      (''INVARIANTS_PASS'', ''PASS''), (''CLAIMS_PASS'', ''PASS''), (''STRUCTURAL_BLOCKER_REMOVED'', ''REMOVED'')]"

definition blocker_kind_condition_code :: "(ustr \<times> ustr) list" where
  "blocker_kind_condition_code = map (\<lambda>(a, b). (u a, u b))
     [(''AUTHORITY_PATH'', ''AUTHORITY_PATH_AVAILABLE''), (''EXECUTION_PATH'', ''EXECUTION_PATH_AVAILABLE''),
      (''OBSERVATION_PATH'', ''OBSERVATION_PATH_AVAILABLE''), (''EVIDENCE_INSUFFICIENT'', ''REQUIRED_EVIDENCE_AVAILABLE''),
      (''STALE_BINDING'', ''BINDINGS_CURRENT''), (''MATERIAL_CONFLICT'', ''MATERIAL_CONFLICT_RESOLVED''),
      (''INVARIANT_FAILURE'', ''INVARIANTS_PASS''), (''CLAIM_FAILURE'', ''CLAIMS_PASS''),
      (''OTHER_STRUCTURAL'', ''STRUCTURAL_BLOCKER_REMOVED'')]"

definition blocker_kind_values :: "ustr list" where
  "blocker_kind_values = map u [''AUTHORITY_PATH'', ''EXECUTION_PATH'', ''OBSERVATION_PATH'', ''EVIDENCE_INSUFFICIENT'',
     ''STALE_BINDING'', ''MATERIAL_CONFLICT'', ''INVARIANT_FAILURE'', ''CLAIM_FAILURE'', ''OTHER_STRUCTURAL'']"

definition blocker_payload_fields :: "string list" where
  "blocker_payload_fields = [''blocker_kind'', ''blocker_scope'', ''blocker_resolution_condition'']"

definition reference_id :: "json \<Rightarrow> ustr option" where
  "reference_id v = (if is_obj v then (case jfield v ''id'' of Some (JStr s) \<Rightarrow> Some s | _ \<Rightarrow> None) else None)"

text \<open>\<open>table.get(code)\<close> as a JSON value.\<close>

fun table_get :: "(ustr \<times> ustr) list \<Rightarrow> json \<Rightarrow> json" where
  "table_get table (JStr s) = (case map_of table s of Some t \<Rightarrow> JStr t | None \<Rightarrow> JNull)"
| "table_get table _ = JNull"

definition alist_of :: "json \<Rightarrow> string \<Rightarrow> auth_error + json list" where
  "alist_of v k = bindE (afield v k) (\<lambda>x. case x of JList xs \<Rightarrow> Inr xs | _ \<Rightarrow> Inl AuthPy)"

definition member_of :: "json \<Rightarrow> json list \<Rightarrow> bool" where
  "member_of v xs \<longleftrightarrow> (\<exists>x \<in> set xs. py_eq x v)"

text \<open>\<open>v[k1][k2]\<close>, and one entry of an error list.\<close>

definition apath :: "json \<Rightarrow> string \<Rightarrow> string \<Rightarrow> auth_error + json" where
  "apath v k l = bindE (afield v k) (\<lambda>x. afield x l)"

definition error_if :: "bool \<Rightarrow> string \<Rightarrow> ustr \<Rightarrow> ustr list" where
  "error_if b text identity = (if b then [u text @ u '': '' @ identity] else [])"

definition blocker_payload_errors :: "json \<Rightarrow> json option \<Rightarrow> auth_error + ustr list" where
  "blocker_payload_errors event difference =
     bindE (astr event ''difference_event_id'') (\<lambda>identity.
     bindE (afield event ''to_status'') (\<lambda>to_status.
     if to_status \<noteq> status_json BLOCKED then
       bindE (anyE (map (\<lambda>f. bindE (afield event f) (\<lambda>x. Inr (x \<noteq> JNull))) blocker_payload_fields)) (\<lambda>carries.
       Inr (error_if carries ''non-BLOCKED event carries blocker payload'' identity))
     else
       bindE (alist_of event ''evidence_refs'') (\<lambda>evidence.
       bindE (afield event ''blocker_scope'') (\<lambda>scope.
       bindE (afield event ''blocker_resolution_condition'') (\<lambda>condition.
       bindE (afield event ''blocker_kind'') (\<lambda>kind.
       let e0 = error_if (evidence = []) ''blocked lifecycle Evidence missing'' identity
       in if scope = JNull \<or> condition = JNull \<or> kind = JNull then
            Inr (e0 @ error_if True ''incomplete blocker payload'' identity)
          else if kind \<notin> JStr ` set blocker_kind_values then
            Inr (e0 @ error_if True ''blocker_kind is not a recognized value'' identity)
          else
            bindE (afield scope ''affected_subject_refs'') (\<lambda>subject_refs.
            bindE (alist_of subject_refs ''members'') (\<lambda>subjects.
            bindE (case difference of None \<Rightarrow> Inr False
                   | Some d \<Rightarrow> bindE (afield d ''effective_boundary'') (anot scope ''effective_boundary'')) (\<lambda>other_boundary.
            bindE (afield condition ''verification_request_ref'') (\<lambda>request_ref.
            bindE (afield event ''next_observation_ref'') (\<lambda>next_ref.
            bindE (afield condition ''subject_ref'') (\<lambda>subject.
            bindE (afield condition ''condition_code'') (\<lambda>code.
            bindE (anot condition ''expected_state'' (table_get blocker_condition_expected_state code)) (\<lambda>other_state.
            Inr (e0
              @ error_if (subjects = []) ''empty blocker subject set'' identity
              @ error_if other_boundary ''blocker boundary mismatch'' identity
              @ error_if (reference_id request_ref \<noteq> reference_id next_ref) ''blocker verification request mismatch'' identity
              @ error_if (\<not> member_of subject subjects) ''blocker condition subject mismatch'' identity
              @ error_if other_state ''blocker condition state mismatch'' identity
              @ error_if (table_get blocker_kind_condition_code kind \<noteq> code)
                  ''blocker_kind does not match its own canonical condition_code'' identity)))))))))))))))"

end
