(* ===== verification/LifecycleBinding.thy ===== *)
theory LifecycleBinding
  imports Lifecycle Conformance
begin

text \<open>
  The binding rules of \<open>difference/lifecycle.py\<close>: what an event must agree with in the Next
  Observation Request and in the Closure Evaluation it names, when a cause of a block is grounded in
  the Evaluation of the cycle, and the validation of one carried event
  (\<open>difference/predecessor.py\<close>). A \<open>dict\<close> from identities to records is an association list.
\<close>

section \<open>Grounding of a blocker kind\<close>

definition blocker_kind_grounding_predicate :: "(ustr \<times> ustr) list" where
  "blocker_kind_grounding_predicate = map (\<lambda>(a, b). (u a, u b))
     [(''EVIDENCE_INSUFFICIENT'', ''evidence_sufficiency_result.result == INSUFFICIENT''),
      (''STALE_BINDING'', ''evidence_sufficiency_result.result == STALE''),
      (''MATERIAL_CONFLICT'', ''closure_evaluation.result == CONTRADICTED''),
      (''INVARIANT_FAILURE'', ''closure_evaluation.gate_results[G19] != PASS/NOT_APPLICABLE''),
      (''CLAIM_FAILURE'', ''closure_evaluation.gate_results[G21] != PASS/NOT_APPLICABLE''),
      (''AUTHORITY_PATH'', ''authority_ref is None''),
      (''EXECUTION_PATH'', ''change_refs is empty''),
      (''OBSERVATION_PATH'', ''observation_refs and reobservation.after_observation_refs are both empty'')]"

text \<open>The two texts the function can return, by what they interpolate.\<close>

datatype grounding_error = Kind_unrecognized ustr | Kind_ungrounded ustr ustr

text \<open>\<open>not refs\<close> for a list or \<open>None\<close>, and for a field of a \<open>dict\<close>.\<close>

fun no_refs :: "json list option \<Rightarrow> bool" where
  "no_refs None = True"
| "no_refs (Some xs) = (xs = [])"

definition after_observation_refs :: "json option \<Rightarrow> auth_error + json list option" where
  "after_observation_refs reobservation = (case reobservation of
     Some (JObj kvs) \<Rightarrow> (case map_of kvs (u ''after_observation_refs'') of
         Some (JList xs) \<Rightarrow> Inr (Some xs) | Some JNull \<Rightarrow> Inr None | None \<Rightarrow> Inr None | _ \<Rightarrow> Inl AuthPy)
   | _ \<Rightarrow> Inr None)"

definition gate_ungranted :: "json \<Rightarrow> string \<Rightarrow> auth_error + bool" where
  "gate_ungranted evaluation gate =
     bindE (ensureE (is_obj evaluation) AuthPy) (\<lambda>_.
     bindE (aget (case jfield evaluation ''gate_results'' of Some g \<Rightarrow> g | None \<Rightarrow> JObj []) gate) (\<lambda>r.
     Inr (r \<noteq> JStr (u ''PASS'') \<and> r \<noteq> JStr (u ''NOT_APPLICABLE''))))"

definition sufficiency_is :: "json option \<Rightarrow> string \<Rightarrow> auth_error + bool" where
  "sufficiency_is sufficiency r = (case sufficiency of None \<Rightarrow> Inr False
     | Some s \<Rightarrow> bindE (afield s ''result'') (\<lambda>x. Inr (x = JStr (u r))))"

definition kind_grounded ::
  "ustr \<Rightarrow> json \<Rightarrow> json option \<Rightarrow> json option \<Rightarrow> json list option \<Rightarrow> json list option \<Rightarrow> json option \<Rightarrow> auth_error + bool" where
  "kind_grounded kind evaluation sufficiency authority_ref change_refs observation_refs reobservation =
     (if kind = u ''EVIDENCE_INSUFFICIENT'' then sufficiency_is sufficiency ''INSUFFICIENT''
      else if kind = u ''STALE_BINDING'' then sufficiency_is sufficiency ''STALE''
      else if kind = u ''MATERIAL_CONFLICT'' then
        bindE (aget evaluation ''result'') (\<lambda>r. Inr (r = JStr (u ''CONTRADICTED'')))
      else if kind = u ''INVARIANT_FAILURE'' then gate_ungranted evaluation ''G19''
      else if kind = u ''CLAIM_FAILURE'' then gate_ungranted evaluation ''G21''
      else if kind = u ''AUTHORITY_PATH'' then Inr (authority_ref = None)
      else if kind = u ''EXECUTION_PATH'' then Inr (no_refs change_refs)
      else bindE (after_observation_refs reobservation) (\<lambda>after. Inr (no_refs observation_refs \<and> no_refs after)))"

definition blocker_kind_grounding_error ::
  "ustr option \<Rightarrow> json \<Rightarrow> json option \<Rightarrow> json option \<Rightarrow> json list option \<Rightarrow> json list option \<Rightarrow> json option
   \<Rightarrow> auth_error + grounding_error option" where
  "blocker_kind_grounding_error blocker_kind evaluation sufficiency authority_ref change_refs observation_refs reobservation =
     (case blocker_kind of None \<Rightarrow> Inr None
      | Some kind \<Rightarrow>
          if kind = u ''OTHER_STRUCTURAL'' then Inr None
          else if kind \<notin> set blocker_kind_values then Inr (Some (Kind_unrecognized kind))
          else
            bindE (kind_grounded kind evaluation sufficiency authority_ref change_refs observation_refs reobservation) (\<lambda>grounded.
            if grounded then Inr None
            else bindE (orE (map_of blocker_kind_grounding_predicate kind) AuthPy) (\<lambda>required.
                 Inr (Some (Kind_ungrounded kind required)))))"

section \<open>Next Observation Request\<close>

fun opt_str :: "ustr option \<Rightarrow> json" where
  "opt_str None = JNull"
| "opt_str (Some s) = JStr s"

text \<open>\<open>records.get(_reference_id(reference) or "")\<close>.\<close>

definition resolve :: "(ustr \<times> json) list \<Rightarrow> json \<Rightarrow> json option" where
  "resolve records reference = map_of records (case reference_id reference of Some s \<Rightarrow> s | None \<Rightarrow> [])"

definition all_statuses :: "status list" where
  "all_statuses = [DETECTED, OPEN, ACTIVE, VERIFYING, BLOCKED, RETAINED, CLOSED, REOPENED, SUPERSEDED, INVALIDATED]"

definition status_of :: "json \<Rightarrow> status option" where
  "status_of v = find (\<lambda>s. status_json s = v) all_statuses"

text \<open>\<open>a[k] != b[l]\<close> and \<open>_reference_id(a[k]) != s\<close>.\<close>

definition fields_differ :: "json \<Rightarrow> string \<Rightarrow> json \<Rightarrow> string \<Rightarrow> auth_error + bool" where
  "fields_differ a k b l = bindE (afield a k) (\<lambda>x. bindE (afield b l) (\<lambda>y. Inr (\<not> py_eq x y)))"

definition ref_differs :: "json \<Rightarrow> string \<Rightarrow> json \<Rightarrow> auth_error + bool" where
  "ref_differs a k v = bindE (afield a k) (\<lambda>x. Inr (opt_str (reference_id x) \<noteq> v))"

definition address_differs :: "ext \<Rightarrow> string \<Rightarrow> json \<Rightarrow> string \<Rightarrow> auth_error + bool" where
  "address_differs E prefix v k =
     bindE (afield v k) (\<lambda>x. bindE (content_address E prefix v k) (\<lambda>i. Inr (x \<noteq> JStr i)))"

definition next_observation_reason_errors :: "ustr \<Rightarrow> json \<Rightarrow> json option \<Rightarrow> auth_error + ustr list" where
  "next_observation_reason_errors identity to_status request =
     (case (request, Option.bind (status_of to_status) next_observation_reason) of
        (Some r, Some required) \<Rightarrow>
          bindE (astr r ''reason_code'') (\<lambda>code.
          Inr (if code \<noteq> required
               then [u ''next observation reason does not match status: '' @ identity @ u '' ('' @
                     (case to_status of JStr s \<Rightarrow> s | _ \<Rightarrow> []) @ u '' requires '' @ required @ u '', got '' @ code @ u '')'']
               else []))
      | _ \<Rightarrow> Inr [])"

definition next_observation_mismatch ::
  "ext \<Rightarrow> json \<Rightarrow> json \<Rightarrow> json option \<Rightarrow> json option \<Rightarrow> json option \<Rightarrow> auth_error + bool" where
  "next_observation_mismatch E event reference difference request method_record =
     bindE (aget reference ''kind'') (\<lambda>kind.
     if kind \<noteq> JStr (u ''next_observation_request'') then Inr True
     else case (request, difference) of
       (Some r, Some d) \<Rightarrow>
         anyE [
           bindE (afield d ''difference_id'') (ref_differs r ''difference_ref''),
           bindE (afield event ''difference_event_id'') (ref_differs r ''derived_from_event_ref''),
           fields_differ r ''state_revision_requested'' event ''state_revision_evaluated'',
           fields_differ r ''state_fingerprint_requested'' event ''state_fingerprint_evaluated'',
           fields_differ r ''target_ref'' d ''target_predicate_ref'',
           bindE (afield d ''objective_scope_binding'') (\<lambda>b. fields_differ r ''scope_ref'' b ''scope_ref''),
           bindE (afield r ''method_ref'') (\<lambda>m. bindE (aget m ''kind'') (\<lambda>k. Inr (k \<noteq> JStr (u ''observation_method'')))),
           Inr (method_record = None),
           address_differs E ''OBS-REQ-'' r ''observation_request_id'',
           (case method_record of Some m \<Rightarrow> address_differs E ''OBS-METHOD-'' m ''observation_method_id'' | None \<Rightarrow> Inr True)]
     | _ \<Rightarrow> Inr True)"

definition next_observation_binding_errors ::
  "ext \<Rightarrow> json \<Rightarrow> json option \<Rightarrow> (ustr \<times> json) list \<Rightarrow> (ustr \<times> json) list \<Rightarrow> auth_error + ustr list" where
  "next_observation_binding_errors E event difference requests methods =
     bindE (astr event ''difference_event_id'') (\<lambda>identity.
     bindE (afield event ''to_status'') (\<lambda>to_status.
     bindE (afield event ''next_observation_ref'') (\<lambda>reference.
     let e = error_if (among to_status (filter (\<lambda>s. s \<noteq> BLOCKED) requires_next_observation) \<and> reference = JNull)
               ''next observation missing'' identity
             @ error_if (among to_status next_observation_forbidden \<and> reference \<noteq> JNull)
               ''terminal status must not request a further observation'' identity;
         request = resolve requests reference
     in if reference = JNull then Inr e
        else
          bindE (case request of None \<Rightarrow> Inr None
                 | Some r \<Rightarrow> bindE (afield r ''method_ref'') (\<lambda>m. Inr (resolve methods m))) (\<lambda>method_record.
          bindE (next_observation_reason_errors identity to_status request) (\<lambda>reasons.
          bindE (next_observation_mismatch E event reference difference request method_record) (\<lambda>mismatch.
          Inr (e @ reasons @ error_if mismatch ''next observation binding mismatch'' identity)))))))"

section \<open>Closure Evaluation\<close>

definition requires_closure_evaluation :: "status list" where
  "requires_closure_evaluation = [CLOSED, BLOCKED, RETAINED]"

text \<open>\<open>reference.get(k) == policy[l]\<close> fails.\<close>

definition get_differs :: "json \<Rightarrow> string \<Rightarrow> json \<Rightarrow> string \<Rightarrow> auth_error + bool" where
  "get_differs a k b l = bindE (aget a k) (\<lambda>x. bindE (afield b l) (\<lambda>y. Inr (\<not> py_eq x y)))"

definition policy_binding_valid :: "ext \<Rightarrow> json \<Rightarrow> json option \<Rightarrow> auth_error + bool" where
  "policy_binding_valid E reference policy = (case policy of
     None \<Rightarrow> Inr False
   | Some p \<Rightarrow>
       if \<not> is_obj reference then Inr False
       else bindE (anyE [
              get_differs reference ''id'' p ''closure_policy_id'',
              get_differs reference ''version'' p ''policy_version'',
              get_differs reference ''semantic_fingerprint'' p ''policy_semantic_fingerprint'',
              bindE (afield p ''policy_semantic_fingerprint'') (\<lambda>f.
                bindE (policy_semantic_fingerprint E p) (\<lambda>g. Inr (f \<noteq> JStr g)))])
            (\<lambda>broken. Inr (\<not> broken)))"

definition policy_binding_broken :: "ext \<Rightarrow> json \<Rightarrow> json option \<Rightarrow> auth_error + bool" where
  "policy_binding_broken E evaluation policy =
     bindE (afield evaluation ''policy_ref'') (\<lambda>r. bindE (policy_binding_valid E r policy) (\<lambda>b. Inr (\<not> b)))"

definition evaluation_policy_mismatch :: "ext \<Rightarrow> json \<Rightarrow> json \<Rightarrow> json option \<Rightarrow> auth_error + bool" where
  "evaluation_policy_mismatch E evaluation difference policy = (case policy of
     None \<Rightarrow> Inr True
   | Some p \<Rightarrow> anyE [
       bindE (afield evaluation ''difference_id'') (ref_differs p ''subject_difference_ref''),
       fields_differ p ''target_predicate_ref'' difference ''target_predicate_ref'',
       policy_binding_broken E evaluation policy,
       fields_differ evaluation ''policy_version_evaluated'' p ''policy_version'',
       fields_differ evaluation ''policy_semantic_fingerprint_evaluated'' p ''policy_semantic_fingerprint''])"

definition evaluation_input_mismatch :: "json \<Rightarrow> json \<Rightarrow> json option \<Rightarrow> auth_error + bool" where
  "evaluation_input_mismatch evaluation difference head = anyE [
     fields_differ evaluation ''target_predicate_ref'' difference ''target_predicate_ref'',
     fields_differ evaluation ''objective_semantic_fingerprint_evaluated'' difference ''objective_semantic_fingerprint'',
     bindE (afield evaluation ''before_state_ref'') (\<lambda>b. fields_differ b ''revision'' evaluation ''evaluated_state_revision''),
     bindE (afield evaluation ''before_state_ref'') (\<lambda>b. fields_differ b ''fingerprint'' evaluation ''evaluated_state_fingerprint''),
     (case head of None \<Rightarrow> Inr False | Some h \<Rightarrow> anyE [
        fields_differ evaluation ''evaluated_state_revision'' h ''state_revision_evaluated'',
        fields_differ evaluation ''evaluated_state_fingerprint'' h ''state_fingerprint_evaluated''])]"

definition closure_evaluation_input_errors ::
  "ext \<Rightarrow> json \<Rightarrow> json option \<Rightarrow> (ustr \<times> json) list \<Rightarrow> (ustr \<times> json) list \<Rightarrow> auth_error + ustr list" where
  "closure_evaluation_input_errors E evaluation difference policies events =
     bindE (astr evaluation ''closure_evaluation_id'') (\<lambda>identity.
     case difference of
       None \<Rightarrow> Inr (error_if True ''evaluation references missing Difference'' identity)
     | Some d \<Rightarrow>
         bindE (afield evaluation ''policy_ref'') (\<lambda>policy_ref.
         bindE (evaluation_policy_mismatch E evaluation d (resolve policies policy_ref)) (\<lambda>policy_wrong.
         bindE (afield evaluation ''difference_event_head_ref'') (\<lambda>head_ref.
         let head = resolve events head_ref
         in bindE (case head of None \<Rightarrow> Inr True | Some h \<Rightarrow> fields_differ h ''difference_id'' evaluation ''difference_id'') (\<lambda>head_wrong.
            bindE (evaluation_input_mismatch evaluation d head) (\<lambda>input_wrong.
            Inr (error_if policy_wrong ''evaluation Policy binding mismatch'' identity
               @ error_if head_wrong ''evaluation event-head mismatch'' identity
               @ error_if input_wrong ''evaluation Difference input mismatch'' identity)))))))"

text \<open>\<open>evaluation["gate_results"]["G22"] != "PASS"\<close>.\<close>

definition final_gate_open :: "json \<Rightarrow> auth_error + bool" where
  "final_gate_open evaluation =
     bindE (afield evaluation ''gate_results'') (\<lambda>g. anot g ''G22'' (JStr (u ''PASS'')))"

definition terminal_evaluation_mismatch ::
  "ext \<Rightarrow> json \<Rightarrow> json option \<Rightarrow> json option \<Rightarrow> json option \<Rightarrow> auth_error + bool" where
  "terminal_evaluation_mismatch E event difference evaluation policy = (case evaluation of
     None \<Rightarrow> Inr True
   | Some v \<Rightarrow> anyE [
       fields_differ v ''proposed_terminal_status'' event ''to_status'',
       final_gate_open v,
       policy_binding_broken E v policy,
       bindE (afield event ''previous_event_id'') (ref_differs v ''difference_event_head_ref''),
       fields_differ v ''evaluated_state_revision'' event ''state_revision_evaluated'',
       fields_differ v ''evaluated_state_fingerprint'' event ''state_fingerprint_evaluated'',
       (case difference of None \<Rightarrow> Inr False | Some d \<Rightarrow> anyE [
          fields_differ v ''target_predicate_ref'' d ''target_predicate_ref'',
          fields_differ v ''objective_semantic_fingerprint_evaluated'' d ''objective_semantic_fingerprint''])])"

definition reopen_mismatch :: "json \<Rightarrow> json option \<Rightarrow> json option \<Rightarrow> auth_error + bool" where
  "reopen_mismatch reference previous_event evaluation = (case previous_event of
     None \<Rightarrow> Inr True
   | Some p \<Rightarrow>
       bindE (aget p ''closure_evaluation_ref'') (\<lambda>closed.
       if reference_id closed \<noteq> reference_id reference then Inr True
       else case evaluation of
         None \<Rightarrow> Inr True
       | Some v \<Rightarrow> anyE [
           anot v ''proposed_terminal_status'' (status_json CLOSED),
           anot v ''result'' (JStr (u ''SATISFIED'')),
           final_gate_open v]))"

definition closure_evaluation_binding_errors ::
  "ext \<Rightarrow> json \<Rightarrow> json option \<Rightarrow> json option \<Rightarrow> (ustr \<times> json) list \<Rightarrow> (ustr \<times> json) list \<Rightarrow> auth_error + ustr list" where
  "closure_evaluation_binding_errors E event previous_event difference evaluations policies =
     bindE (astr event ''difference_event_id'') (\<lambda>identity.
     bindE (aget event ''closure_evaluation_ref'') (\<lambda>reference.
     bindE (afield event ''difference_id'') (\<lambda>difference_id.
     let evaluation = resolve evaluations reference
     in if reference \<noteq> JNull \<and> evaluation = None
        then Inr (error_if True ''closure evaluation does not resolve'' identity)
        else
          bindE (case evaluation of Some v \<Rightarrow> (if reference = JNull then Inr False else anot v ''difference_id'' difference_id)
                 | None \<Rightarrow> Inr False) (\<lambda>other_difference.
          bindE (afield event ''event_kind'') (\<lambda>kind.
          bindE (afield event ''to_status'') (\<lambda>to_status.
          bindE (if kind = JStr (u ''TRANSITION'') \<and> among to_status requires_closure_evaluation then
                   bindE (case difference of None \<Rightarrow> Inr None
                          | Some d \<Rightarrow> bindE (afield d ''closure_policy'') (\<lambda>c.
                              bindE (astr c ''id'') (\<lambda>i. Inr (map_of policies i)))) (\<lambda>policy.
                   terminal_evaluation_mismatch E event difference evaluation policy)
                 else Inr False) (\<lambda>terminal_wrong.
          bindE (afield event ''from_status'') (\<lambda>from_status.
          bindE (if from_status = status_json CLOSED \<and> to_status = status_json REOPENED
                 then reopen_mismatch reference previous_event evaluation else Inr False) (\<lambda>reopen_wrong.
          Inr (error_if other_difference ''closure evaluation names another Difference'' identity
             @ error_if terminal_wrong ''terminal evaluation binding mismatch'' identity
             @ error_if reopen_wrong ''reopen closure binding mismatch'' identity))))))))))"

section \<open>One carried event\<close>

definition event_schema :: ustr where
  "event_schema = schema_base @ u ''difference/difference_lifecycle_event.schema.json''"

definition validate_carried_event ::
  "ext \<Rightarrow> json \<Rightarrow> json option \<Rightarrow> ((ustr \<times> json) list \<times> (ustr \<times> json) list) option \<Rightarrow> auth_error + unit" where
  "validate_carried_event E event difference context =
     bindE (ensureE (ext_schema E event_schema event) DifferenceError) (\<lambda>_.
     bindE (aget event ''schema_version'') (\<lambda>version.
     bindE (ensureE (version = schema_version) DifferenceError) (\<lambda>_.
     bindE (afield event ''difference_event_id'') (\<lambda>identity.
     bindE (lifecycle_event_id E event) (\<lambda>computed.
     bindE (ensureE (identity = JStr computed) DifferenceError) (\<lambda>_.
     bindE (case difference of None \<Rightarrow> Inr False | Some d \<Rightarrow> fields_differ event ''difference_id'' d ''difference_id'') (\<lambda>other.
     bindE (ensureE (\<not> other) DifferenceError) (\<lambda>_.
     bindE (blocker_payload_errors event difference) (\<lambda>errors.
     bindE (case context of None \<Rightarrow> Inr []
            | Some (requests, methods) \<Rightarrow> next_observation_binding_errors E event difference requests methods) (\<lambda>more.
     ensureE (errors @ more = []) DifferenceError))))))))))"

end
