(* ===== verification/Lineage.thy ===== *)
theory Lineage
  imports LifecycleBinding
begin

text \<open>
  The lifecycle events \<open>difference/engine.py\<close> mints and the chain of events it accepts from a
  predecessor, as a walk of the transition table. An accepted chain is abstracted to the sequence of
  its statuses; \<open>walk\<close> is what that sequence must be.
\<close>

section \<open>Minted events\<close>

text \<open>\<open>event.update({...})\<close>, and an event with its identity computed.\<close>

definition update_fields :: "(string \<times> json) list \<Rightarrow> json \<Rightarrow> json" where
  "update_fields kvs v = fold (\<lambda>(k, x). aset k x) kvs v"

definition identify_event :: "ext \<Rightarrow> json \<Rightarrow> auth_error + json" where
  "identify_event E event =
     bindE (lifecycle_event_id E event) (\<lambda>i. Inr (aset ''difference_event_id'' (JStr i) event))"

definition empty_event :: "json \<Rightarrow> json \<Rightarrow> json \<Rightarrow> json" where
  "empty_event difference_ident state_revision state_fingerprint = JObj (map (\<lambda>(k, v). (u k, v))
     [(''schema_version'', schema_version), (''difference_event_id'', JStr []), (''difference_id'', difference_ident),
      (''event_kind'', JStr (u ''TRANSITION'')), (''event_revision'', JInt 0), (''previous_event_id'', JNull),
      (''from_status'', JNull), (''to_status'', status_json DETECTED),
      (''state_revision_evaluated'', state_revision), (''state_fingerprint_evaluated'', state_fingerprint),
      (''reason_code'', JStr (u ''DIFFERENCE_DERIVED'')), (''reason'', JStr []),
      (''blocker_kind'', JNull), (''blocker_scope'', JNull), (''blocker_resolution_condition'', JNull),
      (''observation_refs'', JList []), (''evidence_refs'', JList []), (''authority_ref'', JNull),
      (''change_refs'', JList []), (''closure_evaluation_ref'', JNull), (''reflow_transition_ref'', JNull),
      (''next_observation_ref'', JNull), (''reopen_trigger'', JNull), (''reopen_condition_ref'', JNull),
      (''reopen_condition_evaluation_ref'', JNull), (''revoked_evidence_refs'', JList []),
      (''invalid_evidence_refs'', JList []), (''contradiction_evidence_refs'', JList [])])"

definition genesis_lifecycle_event :: "ext \<Rightarrow> json \<Rightarrow> json \<Rightarrow> json \<Rightarrow> json \<Rightarrow> json \<Rightarrow> auth_error + json" where
  "genesis_lifecycle_event E difference_ident state_revision state_fingerprint observation_refs evidence_refs =
     identify_event E (update_fields
       [(''event_kind'', JStr (u ''TRANSITION'')), (''event_revision'', JInt 0), (''previous_event_id'', JNull),
        (''from_status'', JNull), (''to_status'', status_json DETECTED),
        (''reason_code'', JStr (u ''DIFFERENCE_DERIVED'')),
        (''reason'', JStr (u ''Structural mismatch derived from the exact Target/State/Observation binding.'')),
        (''observation_refs'', observation_refs), (''evidence_refs'', evidence_refs)]
       (empty_event difference_ident state_revision state_fingerprint))"

definition transition_event ::
  "ext \<Rightarrow> json \<Rightarrow> json \<Rightarrow> json \<Rightarrow> int \<Rightarrow> json \<Rightarrow> status \<Rightarrow> status \<Rightarrow> ustr \<Rightarrow> ustr \<Rightarrow> auth_error + json" where
  "transition_event E difference_ident state_revision state_fingerprint revision previous_event_id from_status to_status
       reason_code reason =
     identify_event E (update_fields
       [(''event_revision'', JInt revision), (''previous_event_id'', previous_event_id),
        (''from_status'', status_json from_status), (''to_status'', status_json to_status),
        (''reason_code'', JStr reason_code), (''reason'', JStr reason)]
       (empty_event difference_ident state_revision state_fingerprint))"

definition retained_blocker_payload :: "json \<Rightarrow> json \<Rightarrow> json \<Rightarrow> auth_error + (json \<times> json \<times> json)" where
  "retained_blocker_payload head difference_ident boundary =
     bindE (afield head ''blocker_kind'') (\<lambda>kind.
     bindE (afield head ''blocker_scope'') (\<lambda>scope0.
     bindE (afield head ''blocker_resolution_condition'') (\<lambda>condition.
     bindE (ensureE (kind \<noteq> JNull \<and> scope0 \<noteq> JNull \<and> condition \<noteq> JNull) DifferenceError) (\<lambda>_.
     let scope = aset ''effective_boundary'' boundary scope0
     in bindE (afield scope ''affected_subject_refs'') (\<lambda>subject_refs.
        bindE (alist_of subject_refs ''members'') (\<lambda>subjects.
        bindE (ensureE (subjects \<noteq> []) DifferenceError) (\<lambda>_.
        bindE (afield condition ''subject_ref'') (\<lambda>subject.
        bindE (ensureE (member_of subject subjects) DifferenceError) (\<lambda>_.
        bindE (anyE (map (\<lambda>r. bindE (afield r ''id'') (\<lambda>i. Inr (i = difference_ident))) subjects)) (\<lambda>resolves.
        bindE (ensureE resolves DifferenceError) (\<lambda>_.
        Inr (kind, scope, condition))))))))))))"

definition bound_record :: "json \<Rightarrow> json \<Rightarrow> json \<Rightarrow> int \<Rightarrow> json \<Rightarrow> json \<Rightarrow> json \<Rightarrow> json \<Rightarrow> json" where
  "bound_record difference_ident state_revision state_fingerprint revision previous status observation_refs evidence_refs =
     update_fields
       [(''event_kind'', JStr (u ''OBSERVATION_BOUND'')), (''event_revision'', JInt revision),
        (''previous_event_id'', previous), (''from_status'', status), (''to_status'', status),
        (''reason_code'', JStr (u ''EQUIVALENT_REOBSERVATION_BOUND'')),
        (''reason'', JStr (u ''Equivalent re-observation appended to the existing Difference identity.'')),
        (''observation_refs'', observation_refs), (''evidence_refs'', evidence_refs)]
       (empty_event difference_ident state_revision state_fingerprint)"

definition blocked_again :: "json \<Rightarrow> json \<times> json \<times> json \<Rightarrow> json" where
  "blocked_again event kept = (case kept of (kind, scope, condition) \<Rightarrow>
     update_fields [(''blocker_kind'', kind), (''blocker_scope'', scope), (''blocker_resolution_condition'', condition)] event)"

definition observation_bound_event ::
  "ext \<Rightarrow> json \<Rightarrow> json \<Rightarrow> json \<Rightarrow> int \<Rightarrow> json \<Rightarrow> json \<Rightarrow> json \<Rightarrow> json
   \<Rightarrow> auth_error + (json \<times> ustr option \<times> json option)" where
  "observation_bound_event E difference_ident state_revision state_fingerprint revision head observation_refs evidence_refs boundary =
     bindE (afield head ''to_status'') (\<lambda>status.
     bindE (afield head ''difference_event_id'') (\<lambda>previous.
     let event = bound_record difference_ident state_revision state_fingerprint revision previous status
                   observation_refs evidence_refs;
         reason = Option.bind (status_of status) next_observation_reason
     in if status = status_json BLOCKED then
          bindE (retained_blocker_payload head difference_ident boundary) (\<lambda>kept.
          bindE (identify_event E (blocked_again event kept)) (\<lambda>result.
          Inr (result, reason, Some (snd (snd kept)))))
        else
          bindE (identify_event E event) (\<lambda>result. Inr (result, reason, None))))"

section \<open>The chain of a predecessor\<close>

text \<open>\<open>event["event_revision"]\<close>: an integer, as the schema requires and the identity can encode.\<close>

definition revision_of :: "json \<Rightarrow> auth_error + int" where
  "revision_of event = (case jfield event ''event_revision'' of Some (JInt i) \<Rightarrow> Inr i | _ \<Rightarrow> Inl AuthPy)"

definition sort_revisions :: "json list \<Rightarrow> auth_error + json list" where
  "sort_revisions events =
     bindE (mapE revision_of events) (\<lambda>rs. Inr (map snd (sort_key fst (zip rs events))))"

text \<open>One iteration of the loop over the sorted events; \<open>previous\<close> is the event before.\<close>

definition check_link :: "json option \<Rightarrow> int \<Rightarrow> json \<Rightarrow> auth_error + unit" where
  "check_link previous revision event =
     bindE (case previous of None \<Rightarrow> Inr JNull | Some p \<Rightarrow> afield p ''difference_event_id'') (\<lambda>expected_previous.
     bindE (revision_of event) (\<lambda>r.
     bindE (afield event ''previous_event_id'') (\<lambda>before.
     bindE (ensureE (r = revision \<and> before = expected_previous) DifferenceError) (\<lambda>_.
     bindE (case previous of None \<Rightarrow> Inr JNull | Some p \<Rightarrow> afield p ''to_status'') (\<lambda>expected_from.
     bindE (afield event ''from_status'') (\<lambda>from_status.
     bindE (ensureE (from_status = expected_from) DifferenceError) (\<lambda>_.
     bindE (afield event ''event_kind'') (\<lambda>kind.
     bindE (afield event ''to_status'') (\<lambda>to_status.
     if kind = JStr (u ''OBSERVATION_BOUND'') then
       bindE (ensureE (from_status = to_status) DifferenceError) (\<lambda>_.
       ensureE (\<not> among to_status observation_bound_forbidden) DifferenceError)
     else ensureE (is_legal_transition from_status to_status) DifferenceError)))))))))"

fun check_links :: "json option \<Rightarrow> int \<Rightarrow> json list \<Rightarrow> auth_error + unit" where
  "check_links previous revision [] = Inr ()"
| "check_links previous revision (e # es) =
     bindE (check_link previous revision e) (\<lambda>_. check_links (Some e) (revision + 1) es)"

text \<open>From the sort to the end of \<open>_validate_predecessor\<close>.\<close>

definition predecessor_lineage :: "json list \<Rightarrow> auth_error + json list" where
  "predecessor_lineage carried =
     bindE (sort_revisions carried) (\<lambda>events.
     case events of
       [] \<Rightarrow> Inl DifferenceError
     | first # rest \<Rightarrow>
         bindE (revision_of first) (\<lambda>r.
         bindE (afield first ''to_status'') (\<lambda>s.
         bindE (ensureE (r = 0 \<and> s = status_json DETECTED) DifferenceError) (\<lambda>_.
         bindE (check_links None 0 events) (\<lambda>_.
         bindE (afield (last events) ''to_status'') (\<lambda>t.
         bindE (ensureE (\<not> among t terminal_statuses) DifferenceError) (\<lambda>_.
         Inr events)))))))"

text \<open>The events of \<open>_validate_predecessor\<close>, each one validated before they are sorted.\<close>

definition validate_predecessor_events ::
  "ext \<Rightarrow> json \<Rightarrow> (ustr \<times> json) list \<Rightarrow> (ustr \<times> json) list \<Rightarrow> json \<Rightarrow> auth_error + json list" where
  "validate_predecessor_events E difference requests methods carried =
     bindE (require_collection carried) (\<lambda>events.
     bindE (mapE (\<lambda>e. validate_carried_event E e (Some difference) (Some (requests, methods))) events) (\<lambda>_.
     predecessor_lineage events))"

end
