(* ===== verification/Reflow.thy ===== *)
theory Reflow
  imports Lineage "HOL-Library.Product_Lexorder"
begin

text \<open>
  The Reflow steps that change a Difference's history and the semantic state: the decision a Closure
  Evaluation admits (\<open>reflow/engine.py\<close>), the decision to reopen (\<open>reflow/reopen.py\<close>), the event
  minted from a decision (\<open>reflow/lifecycle.py\<close>) and the bookkeeping of the semantic state
  (\<open>reflow/bookkeeping.py\<close>).
\<close>

datatype reflow_error = ReflowValidationError | Reflow_raised auth_error

abbreviation raised :: "auth_error + 'a \<Rightarrow> reflow_error + 'a" where
  "raised \<equiv> mapErr Reflow_raised"

section \<open>Decisions\<close>

definition reason_codes :: "(ustr \<times> ustr) list" where
  "reason_codes = map (\<lambda>(a, b). (u a, u b))
     [(''SATISFIED'', ''TARGET_SATISFIED_AND_CLOSURE_GATES_PASSED''), (''NOT_SATISFIED'', ''TARGET_NOT_SATISFIED''),
      (''BLOCKED'', ''REQUIRED_INPUT_OR_OBSERVATION_UNAVAILABLE''), (''STALE'', ''EVALUATION_OR_BINDING_STALE''),
      (''CONTRADICTED'', ''MATERIAL_CONTRADICTION_DETECTED''), (''REVOKED'', ''CLOSURE_PREMISE_REVOKED'')]"

definition reflow_decision :: "json \<Rightarrow> ustr \<Rightarrow> ustr \<Rightarrow> json" where
  "reflow_decision to_status code identity = JObj
     [(u ''to_status'', to_status), (u ''reason_code'', JStr code),
      (u ''reason'', JStr (code @ u '': closure_evaluation '' @ identity)),
      (u ''closure_evaluation_ref'', JObj [(u ''kind'', JStr (u ''closure_evaluation'')), (u ''id'', JStr identity)])]"

definition decide_transition :: "json \<Rightarrow> json \<Rightarrow> reflow_error + json" where
  "decide_transition evaluation current_status =
     bindE (raised (aget evaluation ''result'')) (\<lambda>result.
     case (case result of JStr r \<Rightarrow> map_of reason_codes r | _ \<Rightarrow> None) of
       None \<Rightarrow> Inl ReflowValidationError
     | Some code \<Rightarrow>
         bindE (raised (afield evaluation ''proposed_terminal_status'')) (\<lambda>to_status.
         bindE (ensureE (is_legal_transition current_status to_status) ReflowValidationError) (\<lambda>_.
         bindE (raised (astr evaluation ''closure_evaluation_id'')) (\<lambda>identity.
         Inr (reflow_decision to_status code identity)))))"

definition reopen_reason_codes :: "(ustr \<times> ustr) list" where
  "reopen_reason_codes = map (\<lambda>(a, b). (u a, u b))
     [(''OBSERVATION_CONTRADICTION'', ''POST_CLOSURE_OBSERVATION_CONTRADICTS_TARGET''),
      (''MATERIAL_CONTRADICTION'', ''MATERIAL_CONTRADICTION_DETECTED_POST_CLOSURE'')]"

definition decide_reopen :: "json \<Rightarrow> ustr \<Rightarrow> reflow_error + json" where
  "decide_reopen old_closure_evaluation trigger =
     bindE (raised (aget old_closure_evaluation ''result'')) (\<lambda>result.
     bindE (raised (aget old_closure_evaluation ''proposed_terminal_status'')) (\<lambda>proposed.
     bindE (ensureE (result = JStr (u ''SATISFIED'') \<and> proposed = status_json CLOSED) ReflowValidationError) (\<lambda>_.
     case map_of reopen_reason_codes trigger of
       None \<Rightarrow> Inl ReflowValidationError
     | Some code \<Rightarrow>
         bindE (raised (astr old_closure_evaluation ''closure_evaluation_id'')) (\<lambda>identity.
         Inr (aset ''reopen_trigger'' (JStr trigger) (reflow_decision (status_json REOPENED) code identity))))))"

section \<open>The minted event\<close>

text \<open>The keyword arguments; an absent object or string is \<open>JNull\<close>.\<close>

record mint_args =
  difference_arg :: json
  current_status :: json
  previous_event_id :: json
  event_revision :: int
  decision :: json
  evaluation_arg :: "json option"
  observation_refs :: "json list"
  evidence_refs :: "json list"
  authority_ref :: json
  change_refs :: "json list option"
  blocker_kind :: json
  blocker_scope :: json
  blocker_resolution_condition :: json
  next_observation_ref :: json
  reflow_transition_ref :: json
  reopen_trigger :: json
  contradiction_evidence_refs :: "json list option"

definition list_or_empty :: "json list option \<Rightarrow> json" where
  "list_or_empty xs = JList (case xs of None \<Rightarrow> [] | Some ys \<Rightarrow> ys)"

definition is_reopen :: "mint_args \<Rightarrow> json \<Rightarrow> bool" where
  "is_reopen a to_status \<longleftrightarrow> current_status a = status_json CLOSED \<and> to_status = status_json REOPENED"

text \<open>The refusals between the Evaluation and the record.\<close>

definition mint_admits :: "mint_args \<Rightarrow> json \<Rightarrow> bool" where
  "mint_admits a to_status \<longleftrightarrow>
     (among to_status requires_next_observation \<longrightarrow> next_observation_ref a \<noteq> JNull)
   \<and> (among to_status next_observation_forbidden \<longrightarrow> next_observation_ref a = JNull)
   \<and> (to_status = status_json CLOSED \<longrightarrow> reflow_transition_ref a \<noteq> JNull)
   \<and> (is_reopen a to_status \<longleftrightarrow> reopen_trigger a \<noteq> JNull)"

definition minted_record :: "mint_args \<Rightarrow> json \<Rightarrow> json \<Rightarrow> json \<Rightarrow> json \<Rightarrow> json \<Rightarrow> json \<Rightarrow> json \<Rightarrow> json" where
  "minted_record a to_status difference_ident state_revision state_fingerprint reason_code reason closure_ref =
     JObj (map (\<lambda>(k, v). (u k, v))
     [(''schema_version'', schema_version), (''difference_event_id'', JStr []), (''difference_id'', difference_ident),
      (''event_kind'', JStr (u ''TRANSITION'')), (''event_revision'', JInt (event_revision a)),
      (''previous_event_id'', previous_event_id a), (''from_status'', current_status a), (''to_status'', to_status),
      (''state_revision_evaluated'', state_revision), (''state_fingerprint_evaluated'', state_fingerprint),
      (''reason_code'', reason_code), (''reason'', reason),
      (''blocker_kind'', blocker_kind a), (''blocker_scope'', blocker_scope a),
      (''blocker_resolution_condition'', blocker_resolution_condition a),
      (''observation_refs'', JList (observation_refs a)), (''evidence_refs'', JList (evidence_refs a)),
      (''authority_ref'', authority_ref a), (''change_refs'', list_or_empty (change_refs a)),
      (''closure_evaluation_ref'', closure_ref), (''reflow_transition_ref'', reflow_transition_ref a),
      (''next_observation_ref'', next_observation_ref a), (''reopen_trigger'', reopen_trigger a),
      (''reopen_condition_ref'', JNull), (''reopen_condition_evaluation_ref'', JNull),
      (''revoked_evidence_refs'', JList []), (''invalid_evidence_refs'', JList []),
      (''contradiction_evidence_refs'', list_or_empty (contradiction_evidence_refs a))])"

definition mint_transition_event :: "ext \<Rightarrow> mint_args \<Rightarrow> reflow_error + json" where
  "mint_transition_event E a =
     bindE (raised (afield (decision a) ''to_status'')) (\<lambda>to_status.
     bindE (ensureE (is_legal_transition (current_status a) to_status) ReflowValidationError) (\<lambda>_.
     bindE (orE (evaluation_arg a) ReflowValidationError) (\<lambda>evaluation.
     bindE (raised (afield evaluation ''evaluated_state_revision'')) (\<lambda>state_revision.
     bindE (raised (afield evaluation ''evaluated_state_fingerprint'')) (\<lambda>state_fingerprint.
     bindE (ensureE (mint_admits a to_status) ReflowValidationError) (\<lambda>_.
     bindE (raised (afield (difference_arg a) ''difference_id'')) (\<lambda>difference_ident.
     bindE (raised (afield (decision a) ''reason_code'')) (\<lambda>reason_code.
     bindE (raised (afield (decision a) ''reason'')) (\<lambda>reason.
     bindE (if among to_status requires_closure_evaluation \<or> is_reopen a to_status
            then raised (aget (decision a) ''closure_evaluation_ref'') else Inr JNull) (\<lambda>closure_ref.
     bindE (raised (identify_event E
       (minted_record a to_status difference_ident state_revision state_fingerprint reason_code reason closure_ref))) (\<lambda>event.
     bindE (raised (blocker_payload_errors event (Some (difference_arg a)))) (\<lambda>errors.
     bindE (ensureE (errors = []) ReflowValidationError) (\<lambda>_.
     Inr event)))))))))))))"

section \<open>Bookkeeping\<close>

definition removes_from_open_differences :: "status list" where
  "removes_from_open_differences = terminal_statuses @ [CLOSED]"

text \<open>\<open>(ref["kind"], ref["id"])\<close>, and the refs with their keys.\<close>

definition ref_key :: "json \<Rightarrow> auth_error + ustr \<times> ustr" where
  "ref_key ref = bindE (astr ref ''kind'') (\<lambda>k. bindE (astr ref ''id'') (\<lambda>i. Inr (k, i)))"

definition unique_sorted_refs :: "json list \<Rightarrow> auth_error + json list" where
  "unique_sorted_refs refs =
     bindE (mapE ref_key refs) (\<lambda>keys.
     let seen = fold (\<lambda>(k, r) m. AList.update k r m) (zip keys refs) []
     in Inr (map snd (sort_key fst seen)))"

definition apply_reflow_bookkeeping ::
  "json \<Rightarrow> json \<Rightarrow> json \<Rightarrow> json list \<Rightarrow> json \<Rightarrow> json list \<Rightarrow> json \<Rightarrow> auth_error + json" where
  "apply_reflow_bookkeeping before_semantic_state difference_ref to_status new_evidence_refs lifecycle_event_ref
       contradiction_refs transaction_ref =
     bindE (alist_of before_semantic_state ''open_differences'') (\<lambda>open0.
     bindE (filterE (\<lambda>r. bindE (ref_key r) (\<lambda>k. bindE (ref_key difference_ref) (\<lambda>d. Inr (k \<noteq> d)))) open0) (\<lambda>open1.
     bindE (unique_sorted_refs (if among to_status removes_from_open_differences then open1 else open1 @ [difference_ref])) (\<lambda>open2.
     let s1 = aset ''open_differences'' (JList open2) before_semantic_state
     in bindE (alist_of s1 ''evidence'') (\<lambda>evidence.
        bindE (unique_sorted_refs (evidence @ new_evidence_refs)) (\<lambda>evidence'.
        let s2 = aset ''evidence'' (JList evidence') s1
        in bindE (alist_of s2 ''unresolved_contradictions'') (\<lambda>contradictions.
           bindE (unique_sorted_refs (contradictions @ contradiction_refs)) (\<lambda>contradictions'.
           let s3 = aset ''reflow_state'' (JObj [(u ''last_transaction_ref'', transaction_ref)])
                     (aset ''unresolved_contradictions'' (JList contradictions') s2)
           in bindE (afield s3 ''lineage'') (\<lambda>lineage.
              bindE (alist_of lineage ''identity_refs'') (\<lambda>refs.
              bindE (unique_sorted_refs (refs @ [lifecycle_event_ref])) (\<lambda>refs'.
              Inr (aset ''lineage'' (aset ''identity_refs'' (JList refs') lineage) s3)))))))))))"

end
