(* ===== verification/LineageProps.thy ===== *)
theory LineageProps
  imports Lineage "HOL-Library.Multiset"
begin

text \<open>
  What acceptance of a chain means: its statuses are a walk of the transition table, in the order of
  the revisions and whatever order they were carried in; a closure follows a verification, a reopening
  a closure, and no terminal status occurs. From every accepted head a walk leads to a closure.
\<close>

section \<open>Walks of the transition table\<close>

inductive walk :: "status option \<Rightarrow> status list \<Rightarrow> bool" where
  walk_end: "walk s []"
| walk_transition: "(s, t) \<in> set legal_transitions \<Longrightarrow> walk (Some t) ts \<Longrightarrow> walk s (t # ts)"
| walk_bound: "s \<notin> set observation_bound_forbidden \<Longrightarrow> walk (Some s) ts \<Longrightarrow> walk (Some s) (s # ts)"

code_pred walk .

inductive_cases walk_consE: "walk s (t # ts)"

definition link :: "status option \<Rightarrow> status \<Rightarrow> bool" where
  "link s t \<longleftrightarrow> (s, t) \<in> set legal_transitions \<or> s = Some t \<and> t \<notin> set observation_bound_forbidden"

lemma walk_Cons: "walk s (t # ts) \<longleftrightarrow> link s t \<and> walk (Some t) ts"
  by (auto simp: link_def intro: walk_transition walk_bound elim: walk_consE)

lemma walk_Nil [simp]: "walk s []"
  by (rule walk_end)

lemma walk_nth: "walk s ts \<Longrightarrow> i < length ts \<Longrightarrow> link (if i = 0 then s else Some (ts ! (i - 1))) (ts ! i)"
proof (induction ts arbitrary: s i)
  case (Cons t ts)
  then have l: "link s t" and w: "walk (Some t) ts" by (simp_all add: walk_Cons)
  show ?case
  proof (cases i)
    case (Suc j)
    then have "link (if j = 0 then Some t else Some (ts ! (j - 1))) (ts ! j)"
      using Cons.IH [OF w] Cons.prems(2) by simp
    then show ?thesis using Suc by (cases j) simp_all
  qed (simp add: l)
qed simp

lemma among_status [simp]: "among (status_json s) ss \<longleftrightarrow> s \<in> set ss"
  by (auto simp: among_def)

lemma optional_status_inj [simp]: "optional_status s = optional_status t \<longleftrightarrow> s = t"
  by (cases s; cases t) auto

lemma status_json_optional [simp]: "status_json s = optional_status x \<longleftrightarrow> x = Some s"
  by (cases x) auto

lemma is_legal_transition_status [simp]:
  "is_legal_transition (optional_status s) (status_json t) \<longleftrightarrow> (s, t) \<in> set legal_transitions"
  unfolding is_legal_transition_def by (auto simp del: optional_status.simps)

lemma is_legal_transitionD:
  "is_legal_transition v w \<Longrightarrow> \<exists>s t. v = optional_status s \<and> w = status_json t \<and> (s, t) \<in> set legal_transitions"
  unfolding is_legal_transition_def by auto

section \<open>One link\<close>

definition previous_id :: "json option \<Rightarrow> json option" where
  "previous_id p = (case p of None \<Rightarrow> Some JNull | Some e \<Rightarrow> jfield e ''difference_event_id'')"

definition previous_status :: "json option \<Rightarrow> json option" where
  "previous_status p = (case p of None \<Rightarrow> Some JNull | Some e \<Rightarrow> jfield e ''to_status'')"

lemma revision_of_iff [simp]: "revision_of e = Inr i \<longleftrightarrow> jfield e ''event_revision'' = Some (JInt i)"
  by (auto simp: revision_of_def split: option.splits json.splits)

definition link_ok :: "json \<Rightarrow> json \<Rightarrow> json \<Rightarrow> bool" where
  "link_ok k s t \<longleftrightarrow> (if k = JStr (u ''OBSERVATION_BOUND'') then s = t \<and> \<not> among t observation_bound_forbidden
     else is_legal_transition s t)"

lemma check_link_iff:
  "check_link p n e = Inr () \<longleftrightarrow>
     (\<exists>s t k. jfield e ''event_revision'' = Some (JInt n)
      \<and> jfield e ''previous_event_id'' = previous_id p \<and> previous_id p \<noteq> None
      \<and> jfield e ''from_status'' = Some s \<and> previous_status p = Some s
      \<and> jfield e ''event_kind'' = Some k \<and> jfield e ''to_status'' = Some t \<and> link_ok k s t)"
proof -
  have 2: "(if k = JStr (u ''OBSERVATION_BOUND'')
      then bindE (ensureE (s = t) DifferenceError) (\<lambda>_. ensureE (\<not> among t observation_bound_forbidden) DifferenceError)
      else ensureE (is_legal_transition s t) DifferenceError) = Inr () \<longleftrightarrow> link_ok k s t" for k s t
    by (auto simp: link_ok_def)
  have 1: "(case p of None \<Rightarrow> Inr JNull | Some q \<Rightarrow> afield q k) = Inr x \<longleftrightarrow>
      (case p of None \<Rightarrow> Some JNull | Some e \<Rightarrow> jfield e k) = Some x" for k x
    by (cases p) auto
  show ?thesis
    unfolding check_link_def previous_id_def previous_status_def
    by (auto simp add: 1 2)
qed

lemma check_links_append:
  "check_links p n (es @ fs) = Inr () \<longleftrightarrow> check_links p n es = Inr ()
     \<and> check_links (if es = [] then p else Some (last es)) (n + int (length es)) fs = Inr ()"
proof (induction es arbitrary: p n)
  case (Cons e es)
  then show ?case by (auto simp: algebra_simps)
qed simp

lemma check_links_revisions:
  "check_links p n es = Inr () \<Longrightarrow>
     list_all2 (\<lambda>e i. jfield e ''event_revision'' = Some (JInt i)) es (map (\<lambda>i. n + int i) [0..<length es])"
proof (induction es arbitrary: p n)
  case (Cons e es)
  have e: "jfield e ''event_revision'' = Some (JInt n)" and r: "check_links (Some e) (n + 1) es = Inr ()"
    using Cons.prems by (auto simp: check_link_iff)
  have "map (\<lambda>i. n + int i) [0..<length (e # es)] = n # map (\<lambda>i. n + 1 + int i) [0..<length es]"
    by (simp add: upt_conv_Cons map_Suc_upt [symmetric] del: upt_Suc)
  then show ?case using e Cons.IH [OF r] by simp
qed simp

lemma check_links_walk:
  assumes "check_links (Some p) n es = Inr ()" and "jfield p ''to_status'' = Some (status_json s)"
  shows "\<exists>ss. map (\<lambda>e. jfield e ''to_status'') es = map (\<lambda>s. Some (status_json s)) ss \<and> walk (Some s) ss"
  using assms
proof (induction es arbitrary: p n s)
  case (Cons e es)
  obtain t k where t: "jfield e ''to_status'' = Some t"
    and step: "link_ok k (status_json s) t"
    and rest: "check_links (Some e) (n + 1) es = Inr ()"
    using Cons.prems by (auto simp: check_link_iff previous_status_def)
  obtain t' where t': "t = status_json t'" "link (Some s) t'"
    using step is_legal_transitionD [of "status_json s" t] optional_status.simps(2) optional_status_inj
    by (auto simp: link_def link_ok_def split: if_splits)
  then obtain ss where "map (\<lambda>e. jfield e ''to_status'') es = map (\<lambda>s. Some (status_json s)) ss" "walk (Some t') ss"
    using Cons.IH [OF rest] t by blast
  then show ?case using t t' by (intro exI [of _ "t' # ss"]) (simp add: walk_Cons)
qed simp

section \<open>Sorting by revision\<close>

definition revision_key :: "json \<Rightarrow> int" where
  "revision_key e = (case jfield e ''event_revision'' of Some (JInt i) \<Rightarrow> i | _ \<Rightarrow> 0)"

definition revised :: "json \<Rightarrow> bool" where
  "revised e \<longleftrightarrow> jfield e ''event_revision'' = Some (JInt (revision_key e))"

lemma sort_zip_key: "map snd (sort_key fst (map (\<lambda>e. (f e, e)) xs)) = sort_key f (xs :: 'a list)" for f :: "'a \<Rightarrow> int"
proof -
  have ins: "insort_key fst (f x, x) (map (\<lambda>e. (f e, e)) ys) = map (\<lambda>e. (f e, e)) (insort_key f x ys)" for x ys
    by (induction ys) auto
  have "sort_key fst (map (\<lambda>e. (f e, e)) xs) = map (\<lambda>e. (f e, e)) (sort_key f xs)"
    by (induction xs) (simp_all add: ins)
  then show ?thesis by (simp add: comp_def)
qed

lemma mapE_revision: "mapE revision_of es = Inr rs \<longleftrightarrow> rs = map revision_key es \<and> (\<forall>e \<in> set es. revised e)"
proof (induction es arbitrary: rs)
  case (Cons e es)
  then show ?case by (auto simp: revised_def revision_key_def split: option.splits json.splits)
qed auto

lemma sort_revisions_iff:
  "sort_revisions es = Inr fs \<longleftrightarrow> (\<forall>e \<in> set es. revised e) \<and> fs = sort_key revision_key es"
proof -
  have "zip (map revision_key es) es = map (\<lambda>e. (revision_key e, e)) es" by (induction es) auto
  then show ?thesis by (auto simp: sort_revisions_def mapE_revision sort_zip_key)
qed

section \<open>Accepted chains\<close>

definition starts_detected :: "json list \<Rightarrow> bool" where
  "starts_detected es \<longleftrightarrow> es \<noteq> [] \<and> jfield (hd es) ''to_status'' = Some (status_json DETECTED)"

definition accepted :: "json list \<Rightarrow> bool" where
  "accepted es \<longleftrightarrow> starts_detected es \<and> check_links None 0 es = Inr ()
     \<and> (\<exists>t. jfield (last es) ''to_status'' = Some t \<and> \<not> among t terminal_statuses)"

lemma check_links_revision_key:
  "check_links None 0 es = Inr () \<Longrightarrow> map revision_key es = map int [0..<length es] \<and> (\<forall>e \<in> set es. revised e)"
proof -
  assume "check_links None 0 es = Inr ()"
  from check_links_revisions [OF this]
  have 1: "list_all2 (\<lambda>e i. jfield e ''event_revision'' = Some (JInt i)) es (map int [0..<length es])" by simp
  then have "list_all2 (\<lambda>e i. revision_key e = i \<and> revised e) es (map int [0..<length es])"
    by (rule list_all2_mono) (simp add: revision_key_def revised_def)
  then show "map revision_key es = map int [0..<length es] \<and> (\<forall>e \<in> set es. revised e)"
    by (auto simp: list_all2_conv_all_nth in_set_conv_nth intro: nth_equalityI)
qed

lemma predecessor_lineage_iff:
  "predecessor_lineage carried = Inr es \<longleftrightarrow> mset carried = mset es \<and> accepted es"
proof
  assume p: "predecessor_lineage carried = Inr es"
  then obtain fs where s: "sort_revisions carried = Inr fs" by (auto simp: predecessor_lineage_def)
  then obtain f fs' where fs: "fs = f # fs'" using p by (cases fs) (auto simp: predecessor_lineage_def)
  have "es = fs \<and> accepted es"
    using p unfolding predecessor_lineage_def s by (auto simp: fs accepted_def starts_detected_def)
  then show "mset carried = mset es \<and> accepted es" using s by (auto simp: sort_revisions_iff)
next
  assume a: "mset carried = mset es \<and> accepted es"
  then have l: "check_links None 0 es = Inr ()" by (simp add: accepted_def)
  have k: "map revision_key es = map int [0..<length es]" and r: "\<forall>e \<in> set es. revised e"
    using check_links_revision_key [OF l] by blast+
  have "distinct (map revision_key es)" unfolding k by (simp add: distinct_map)
  moreover have "sorted (map revision_key es)" unfolding k by (simp add: sorted_map sorted_wrt_upt)
  moreover have c: "set carried = set es" using a mset_eq_setD by blast
  ultimately have "sort_key revision_key carried = es"
    using a by (intro sort_key_inj_key_eq) (simp_all add: distinct_map)
  then have s: "sort_revisions carried = Inr es" using r c by (simp add: sort_revisions_iff)
  obtain e es' where es: "es = e # es'" using a by (cases es) (auto simp: accepted_def starts_detected_def)
  have "revision_of e = Inr 0" using l by (auto simp: es check_link_iff)
  then show "predecessor_lineage carried = Inr es"
    using a s l by (auto simp: predecessor_lineage_def accepted_def starts_detected_def es)
qed

lemma accepted_walk:
  assumes "accepted es"
  shows "\<exists>ss. map (\<lambda>e. jfield e ''to_status'') es = map (\<lambda>s. Some (status_json s)) (DETECTED # ss)
    \<and> walk None (DETECTED # ss) \<and> last (DETECTED # ss) \<notin> set terminal_statuses"
proof -
  obtain e es' where es: "es = e # es'" using assms by (cases es) (auto simp: accepted_def starts_detected_def)
  have d: "jfield e ''to_status'' = Some (status_json DETECTED)"
    and r: "check_links (Some e) 1 es' = Inr ()"
    using assms by (auto simp: accepted_def starts_detected_def es)
  from check_links_walk [OF r d] obtain ss where
    ss: "map (\<lambda>e. jfield e ''to_status'') es' = map (\<lambda>s. Some (status_json s)) ss" "walk (Some DETECTED) ss"
    by blast
  have m: "map (\<lambda>e. jfield e ''to_status'') es = map (\<lambda>s. Some (status_json s)) (DETECTED # ss)"
    using d ss(1) by (simp add: es)
  have "jfield (last es) ''to_status'' = last (map (\<lambda>e. jfield e ''to_status'') es)"
    by (simp add: last_map es)
  also have "\<dots> = Some (status_json (last (DETECTED # ss)))"
    unfolding m by (subst last_map) simp_all
  finally have "last (DETECTED # ss) \<notin> set terminal_statuses"
    using assms by (auto simp: accepted_def)
  moreover have "link None DETECTED" by (simp add: link_def legal_transitions_def)
  ultimately show ?thesis using m ss(2) by (intro exI [of _ ss]) (simp add: walk_Cons)
qed

lemma accepted_status:
  assumes "accepted es" and "i < length es"
  obtains s where "jfield (es ! i) ''to_status'' = Some (status_json s)"
    and "link (if i = 0 then None else status_of (the (jfield (es ! (i - 1)) ''to_status''))) s"
proof -
  obtain ss where m: "map (\<lambda>e. jfield e ''to_status'') es = map (\<lambda>s. Some (status_json s)) ss" and w: "walk None ss"
    using accepted_walk [OF assms(1)] by blast
  have l: "length ss = length es" using arg_cong [OF m, of length] by simp
  have n: "jfield (es ! j) ''to_status'' = Some (status_json (ss ! j))" if "j < length es" for j
    using arg_cong [OF m, of "\<lambda>xs. xs ! j"] that l by simp
  have so: "status_of (status_json s) = Some s" for s
    by (cases s) (simp_all add: status_of_def all_statuses_def)
  have "link (if i = 0 then None else Some (ss ! (i - 1))) (ss ! i)"
    using walk_nth [OF w] assms(2) l by simp
  moreover have "i \<noteq> 0 \<Longrightarrow> status_of (the (jfield (es ! (i - 1)) ''to_status'')) = Some (ss ! (i - 1))"
    using n [of "i - 1"] assms(2) so by (simp add: less_imp_diff_less)
  ultimately show thesis
    by (intro that [OF n [OF assms(2)]]) (cases "i = 0"; simp)
qed

lemma link_closed: "link s CLOSED \<longleftrightarrow> s = Some VERIFYING"
  by (auto simp: link_def legal_transitions_def observation_bound_forbidden_def)

lemma link_reopened: "link s REOPENED \<longleftrightarrow> s = Some CLOSED \<or> s = Some REOPENED"
  by (auto simp: link_def legal_transitions_def observation_bound_forbidden_def)

lemma link_terminal: "s \<in> set terminal_statuses \<Longrightarrow> \<not> link (Some s) t"
  by (auto simp: link_def legal_transitions_def observation_bound_forbidden_def terminal_statuses_def)

lemma walk_no_terminal:
  "walk s ts \<Longrightarrow> ts \<noteq> [] \<Longrightarrow> last ts \<notin> set terminal_statuses \<Longrightarrow> set ts \<inter> set terminal_statuses = {}"
proof (induction ts arbitrary: s)
  case (Cons t ts)
  then show ?case using link_terminal [of t] by (cases ts) (auto simp: walk_Cons)
qed simp

lemma accepted_nonterminal:
  assumes "accepted es" and "e \<in> set es"
  shows "\<exists>s. jfield e ''to_status'' = Some (status_json s) \<and> s \<notin> set terminal_statuses"
proof -
  obtain ss where m: "map (\<lambda>e. jfield e ''to_status'') es = map (\<lambda>s. Some (status_json s)) (DETECTED # ss)"
    and w: "walk None (DETECTED # ss)" "last (DETECTED # ss) \<notin> set terminal_statuses"
    using accepted_walk [OF assms(1)] by blast
  have "jfield e ''to_status'' \<in> set (map (\<lambda>e. jfield e ''to_status'') es)" using assms(2) by simp
  then obtain s where "s \<in> set (DETECTED # ss)" "jfield e ''to_status'' = Some (status_json s)"
    unfolding m set_map by blast
  then show ?thesis using walk_no_terminal [OF w(1) _ w(2)] by blast
qed

lemma status_of_iff [simp]: "status_of (status_json s) = Some s"
  by (cases s) (simp_all add: status_of_def all_statuses_def)

lemma accepted_previous:
  assumes "accepted es" and "i < length es" and "jfield (es ! i) ''to_status'' = Some (status_json s)" and "\<not> link None s"
  obtains t where "0 < i" and "jfield (es ! (i - 1)) ''to_status'' = Some (status_json t)" and "link (Some t) s"
proof -
  have l: "link (if i = 0 then None else status_of (the (jfield (es ! (i - 1)) ''to_status''))) s"
    by (rule accepted_status [OF assms(1,2)]) (use assms(3) in simp)
  have "i \<noteq> 0" using l assms(4) by (cases "i = 0") auto
  moreover then obtain t where t: "jfield (es ! (i - 1)) ''to_status'' = Some (status_json t)"
    using accepted_nonterminal [OF assms(1), of "es ! (i - 1)"] assms(2) by auto
  ultimately show thesis using that [of t] l by simp
qed

lemma accepted_snoc:
  assumes a: "accepted es" and l: "check_link (Some (last es)) (int (length es)) e = Inr ()"
    and t: "jfield e ''to_status'' = Some (status_json s)" "s \<notin> set terminal_statuses"
  shows "accepted (es @ [e])"
  using assms by (auto simp: accepted_def starts_detected_def check_links_append)

section \<open>Ways to a closure\<close>

fun closing :: "status \<Rightarrow> status list" where
  "closing DETECTED = [OPEN, ACTIVE, VERIFYING, CLOSED]"
| "closing OPEN = [ACTIVE, VERIFYING, CLOSED]"
| "closing CLOSED = []"
| "closing VERIFYING = [CLOSED]"
| "closing _ = [VERIFYING, CLOSED]"

lemma closing_walk: "s \<notin> set terminal_statuses \<Longrightarrow> walk (Some s) (closing s) \<and> last (s # closing s) = CLOSED"
  by (cases s) (auto simp: walk_Cons link_def legal_transitions_def terminal_statuses_def)

section \<open>Properties\<close>

text \<open>C12: an accepted chain is the carried events in some order, and its statuses are a walk of the
  transition table that starts at no status and does not end in a terminal one.\<close>

theorem accepted_lineage_walks:
  assumes "predecessor_lineage carried = Inr es"
  shows "mset es = mset carried
    \<and> (\<exists>ss. map (\<lambda>e. jfield e ''to_status'') es = map (\<lambda>s. Some (status_json s)) (DETECTED # ss)
          \<and> walk None (DETECTED # ss) \<and> last (DETECTED # ss) \<notin> set terminal_statuses)"
proof -
  have "mset carried = mset es" and "accepted es" using assms by (simp_all add: predecessor_lineage_iff)
  then show ?thesis using accepted_walk by simp
qed

text \<open>C13: in an accepted chain no event enters a terminal status, an event that enters \<open>CLOSED\<close> comes
  directly after one in \<open>VERIFYING\<close>, and one in \<open>REOPENED\<close> directly after \<open>CLOSED\<close> or \<open>REOPENED\<close>.\<close>

theorem closed_after_verifying:
  assumes "predecessor_lineage carried = Inr es" and "i < length es"
  shows "jfield (es ! i) ''to_status'' \<notin> {Some (status_json SUPERSEDED), Some (status_json INVALIDATED)}
    \<and> (jfield (es ! i) ''to_status'' = Some (status_json CLOSED) \<longrightarrow>
         0 < i \<and> jfield (es ! (i - 1)) ''to_status'' = Some (status_json VERIFYING))
    \<and> (jfield (es ! i) ''to_status'' = Some (status_json REOPENED) \<longrightarrow>
         0 < i \<and> jfield (es ! (i - 1)) ''to_status'' \<in> {Some (status_json CLOSED), Some (status_json REOPENED)})"
proof -
  have a: "accepted es" using assms(1) by (simp add: predecessor_lineage_iff)
  have 1: "jfield (es ! i) ''to_status'' \<notin> {Some (status_json SUPERSEDED), Some (status_json INVALIDATED)}"
    using accepted_nonterminal [OF a nth_mem [OF assms(2)]] by (auto simp: terminal_statuses_def)
  have 2: "0 < i \<and> jfield (es ! (i - 1)) ''to_status'' = Some (status_json VERIFYING)"
    if c: "jfield (es ! i) ''to_status'' = Some (status_json CLOSED)"
    using accepted_previous [OF a assms(2) c] by (auto simp: link_closed)
  have 3: "0 < i \<and> jfield (es ! (i - 1)) ''to_status'' \<in> {Some (status_json CLOSED), Some (status_json REOPENED)}"
    if c: "jfield (es ! i) ''to_status'' = Some (status_json REOPENED)"
    using accepted_previous [OF a assms(2) c] by (auto simp: link_reopened)
  show ?thesis using 1 2 3 by blast
qed

text \<open>C30: whatever the head of an accepted chain, a walk of the transition table leads from it to
  \<open>CLOSED\<close>.\<close>

theorem closure_reachable:
  assumes "predecessor_lineage carried = Inr es"
  shows "\<exists>s ss. jfield (last es) ''to_status'' = Some (status_json s) \<and> walk (Some s) ss \<and> last (s # ss) = CLOSED"
proof -
  have a: "accepted es" using assms by (simp add: predecessor_lineage_iff)
  then have "last es \<in> set es" by (auto simp: accepted_def starts_detected_def)
  from accepted_nonterminal [OF a this] show ?thesis using closing_walk by blast
qed

text \<open>the order in which the events are carried does not matter to an accepted chain.\<close>

theorem lineage_order_free:
  assumes "predecessor_lineage carried = Inr es" and "mset carried' = mset carried"
  shows "predecessor_lineage carried' = Inr es"
  using assms by (simp add: predecessor_lineage_iff)

end
