(* ===== verification/ReflowProps.thy ===== *)
theory ReflowProps
  imports Reflow LineageProps AuthorityLemmas
begin

text \<open>
  Composition: an event the Reflow step or the Difference Engine mints from the head of an accepted
  chain extends the chain. And what the bookkeeping of the semantic state writes.
\<close>

section \<open>Fields of a minted event\<close>

lemma is_obj_aset' [simp]: "is_obj v \<Longrightarrow> is_obj (aset k x v)"
  by (cases v) auto

lemma update_fields_Cons: "update_fields ((k, x) # kvs) v = update_fields kvs (aset k x v)"
  by (simp add: update_fields_def)

lemma update_fields_Nil [simp]: "update_fields [] v = v"
  by (simp add: update_fields_def)

lemma identified:
  assumes "identify_event E v = Inr e" and "is_obj v"
  obtains i where "lifecycle_event_id E v = Inr i"
    and "\<And>j. jfield e j = (if j = ''difference_event_id'' then Some (JStr i) else jfield v j)"
  using assms by (auto simp: identify_event_def jfield_aset)

lemma empty_event_fields:
  "is_obj (empty_event d r f)"
  "jfield (empty_event d r f) ''event_kind'' = Some (JStr (u ''TRANSITION''))"
  by (simp_all add: empty_event_def jfield_def)

lemma minted_record_fields:
  assumes "v = minted_record a to_status d r f c s k"
  shows "is_obj v" "jfield v ''event_kind'' = Some (JStr (u ''TRANSITION''))"
    "jfield v ''event_revision'' = Some (JInt (event_revision a))"
    "jfield v ''previous_event_id'' = Some (previous_event_id a)"
    "jfield v ''from_status'' = Some (current_status a)" "jfield v ''to_status'' = Some to_status"
    "jfield v ''state_revision_evaluated'' = Some r" "jfield v ''state_fingerprint_evaluated'' = Some f"
    "jfield v ''reflow_transition_ref'' = Some (reflow_transition_ref a)"
    "jfield v ''closure_evaluation_ref'' = Some k"
    "jfield v ''blocker_kind'' = Some (blocker_kind a)"
    "jfield v ''blocker_scope'' = Some (blocker_scope a)"
    "jfield v ''blocker_resolution_condition'' = Some (blocker_resolution_condition a)"
    "jfield v ''evidence_refs'' = Some (JList (evidence_refs a))"
    "jfield v ''next_observation_ref'' = Some (next_observation_ref a)"
  unfolding assms by (simp_all add: minted_record_def jfield_def)

lemma raised_iff [simp]: "raised x = Inr y \<longleftrightarrow> x = Inr y"
  by (cases x) auto

lemma mint_event:
  assumes "mint_transition_event E a = Inr e"
  obtains v to_status d r f c s k i where "v = minted_record a to_status d r f c s k"
    and "jfield (decision a) ''to_status'' = Some to_status"
    and "is_legal_transition (current_status a) to_status" and "mint_admits a to_status"
    and "lifecycle_event_id E v = Inr i"
    and "\<forall>j. jfield e j = (if j = ''difference_event_id'' then Some (JStr i) else jfield v j)"
    and "blocker_payload_errors e (Some (difference_arg a)) = Inr []"
    and "\<exists>v. evaluation_arg a = Some v \<and> jfield v ''evaluated_state_revision'' = Some r
           \<and> jfield v ''evaluated_state_fingerprint'' = Some f"
proof -
  obtain to_status v d r f c s k where
    m: "jfield (decision a) ''to_status'' = Some to_status" "is_legal_transition (current_status a) to_status"
      "mint_admits a to_status" "blocker_payload_errors e (Some (difference_arg a)) = Inr []"
      "evaluation_arg a = Some v" "jfield v ''evaluated_state_revision'' = Some r"
      "jfield v ''evaluated_state_fingerprint'' = Some f"
      and i: "identify_event E (minted_record a to_status d r f c s k) = Inr e"
    using assms unfolding mint_transition_event_def by auto
  show thesis
    by (rule identified [OF i minted_record_fields(1) [OF refl]], rule that [OF refl m(1-3) _ _ m(4)])
      (use m(5-7) in auto)
qed

lemma update_fields_field:
  "is_obj v \<Longrightarrow> is_obj (update_fields kvs v) \<and>
     jfield (update_fields kvs v) j = (case map_of (rev kvs) j of Some x \<Rightarrow> Some x | None \<Rightarrow> jfield v j)"
  by (induction kvs arbitrary: v) (auto simp: update_fields_Cons jfield_aset map_add_def split: option.splits)

lemma bound_record_fields:
  "is_obj (bound_record d r f n i s obs ev)"
  "jfield (bound_record d r f n i s obs ev) ''event_kind'' = Some (JStr (u ''OBSERVATION_BOUND''))"
  "jfield (bound_record d r f n i s obs ev) ''event_revision'' = Some (JInt n)"
  "jfield (bound_record d r f n i s obs ev) ''previous_event_id'' = Some i"
  "jfield (bound_record d r f n i s obs ev) ''from_status'' = Some s"
  "jfield (bound_record d r f n i s obs ev) ''to_status'' = Some s"
  by (simp_all add: bound_record_def update_fields_field empty_event_fields)

lemma blocked_again_fields:
  "is_obj v \<Longrightarrow> is_obj (blocked_again v p)"
  "is_obj v \<Longrightarrow> j \<notin> {''blocker_kind'', ''blocker_scope'', ''blocker_resolution_condition''} \<Longrightarrow>
     jfield (blocked_again v p) j = jfield v j"
  by (auto simp: blocked_again_def update_fields_field split: prod.splits)

definition bound_event :: "json \<Rightarrow> int \<Rightarrow> json \<Rightarrow> bool" where
  "bound_event head n e \<longleftrightarrow> (\<exists>s i. jfield head ''to_status'' = Some s \<and> jfield head ''difference_event_id'' = Some i
    \<and> jfield e ''event_kind'' = Some (JStr (u ''OBSERVATION_BOUND''))
    \<and> jfield e ''event_revision'' = Some (JInt n) \<and> jfield e ''previous_event_id'' = Some i
    \<and> jfield e ''from_status'' = Some s \<and> jfield e ''to_status'' = Some s)"

lemma observation_bound_fields:
  assumes "observation_bound_event E d r f n head obs ev boundary = Inr (e, reason, condition)"
  shows "bound_event head n e"
proof -
  obtain s i where h: "jfield head ''to_status'' = Some s" "jfield head ''difference_event_id'' = Some i"
    using assms by (auto simp: observation_bound_event_def)
  let ?v = "bound_record d r f n i s obs ev"
  consider "identify_event E ?v = Inr e" | p where "identify_event E (blocked_again ?v p) = Inr e"
    using assms by (auto simp: observation_bound_event_def h afield_def Let_def split: if_splits)
  then show ?thesis
  proof cases
    case 1
    show ?thesis
      by (rule identified [OF 1 bound_record_fields(1)]) (use h in \<open>simp add: bound_event_def bound_record_fields\<close>)
  next
    case 2
    show ?thesis
      by (rule identified [OF 2 blocked_again_fields(1) [OF bound_record_fields(1)]])
        (use h in \<open>simp add: bound_event_def blocked_again_fields(2) bound_record_fields\<close>)
  qed
qed

section \<open>Extending a chain\<close>

lemma accepted_extend:
  assumes p: "predecessor_lineage carried = Inr es"
    and e: "jfield e ''event_revision'' = Some (JInt (int (length es)))"
      "jfield e ''previous_event_id'' = jfield (last es) ''difference_event_id''"
      "jfield (last es) ''difference_event_id'' = Some i"
      "jfield e ''from_status'' = jfield (last es) ''to_status''"
      "jfield (last es) ''to_status'' = Some s" "jfield e ''to_status'' = Some (status_json t)"
      "jfield e ''event_kind'' = Some k" "link_ok k s (status_json t)"
    and t: "t \<notin> set terminal_statuses"
  shows "predecessor_lineage (carried @ [e]) = Inr (es @ [e])"
proof -
  have a: "mset carried = mset es" "accepted es" using p by (simp_all add: predecessor_lineage_iff)
  have "check_link (Some (last es)) (int (length es)) e = Inr ()"
    using e by (auto simp: check_link_iff previous_id_def previous_status_def)
  from accepted_snoc [OF a(2) this e(6) t] a(1) show ?thesis
    by (simp add: predecessor_lineage_iff)
qed

text \<open>C15: an event minted from the head of an accepted chain, at the next revision, extends the chain
  when it does not end the history: the chain with the event is accepted too.\<close>

theorem minted_event_extends:
  assumes "predecessor_lineage carried = Inr es" and "mint_transition_event E a = Inr e"
    and "event_revision a = int (length es)"
    and "jfield (last es) ''difference_event_id'' = Some (previous_event_id a)"
    and "jfield (last es) ''to_status'' = Some (current_status a)"
    and "jfield e ''to_status'' \<notin> {Some (status_json SUPERSEDED), Some (status_json INVALIDATED)}"
  shows "predecessor_lineage (carried @ [e]) = Inr (es @ [e])"
proof -
  obtain v to_status d r f c s k i where m: "v = minted_record a to_status d r f c s k"
    "jfield (decision a) ''to_status'' = Some to_status"
    "is_legal_transition (current_status a) to_status" "mint_admits a to_status"
    "lifecycle_event_id E v = Inr i"
    "\<forall>j. jfield e j = (if j = ''difference_event_id'' then Some (JStr i) else jfield v j)"
    "blocker_payload_errors e (Some (difference_arg a)) = Inr []"
    "\<exists>v. evaluation_arg a = Some v \<and> jfield v ''evaluated_state_revision'' = Some r
       \<and> jfield v ''evaluated_state_fingerprint'' = Some f"
    using mint_event [OF assms(2)] by blast
  note f = minted_record_fields [OF m(1)]
  obtain t where t: "to_status = status_json t" using is_legal_transitionD [OF m(3)] by blast
  then have "t \<notin> set terminal_statuses"
    using assms(6) f by (auto simp: m(6) terminal_statuses_def)
  then show ?thesis
    by (intro accepted_extend [OF assms(1), where i = "previous_event_id a" and s = "current_status a" and t = t
          and k = "JStr (u ''TRANSITION'')"])
      (use assms(3-5) f m(3) in \<open>simp_all add: m(6) t link_ok_def\<close>)
qed

text \<open>C29: an event that closes a Difference is minted only from \<open>VERIFYING\<close>, with the reference of a
  completed commit, and carries the revision and fingerprint of the State its Closure Evaluation
  was computed on.\<close>

theorem closing_event_guarded:
  assumes "mint_transition_event E a = Inr e" and "jfield e ''to_status'' = Some (status_json CLOSED)"
  shows "current_status a = status_json VERIFYING \<and> jfield e ''reflow_transition_ref'' = Some (reflow_transition_ref a)
    \<and> reflow_transition_ref a \<noteq> JNull
    \<and> (\<exists>v. evaluation_arg a = Some v
         \<and> jfield e ''state_revision_evaluated'' = jfield v ''evaluated_state_revision''
         \<and> jfield e ''state_fingerprint_evaluated'' = jfield v ''evaluated_state_fingerprint'')"
proof -
  obtain v to_status d r f c s k i where m: "v = minted_record a to_status d r f c s k"
    "jfield (decision a) ''to_status'' = Some to_status"
    "is_legal_transition (current_status a) to_status" "mint_admits a to_status"
    "lifecycle_event_id E v = Inr i"
    "\<forall>j. jfield e j = (if j = ''difference_event_id'' then Some (JStr i) else jfield v j)"
    "blocker_payload_errors e (Some (difference_arg a)) = Inr []"
    "\<exists>v. evaluation_arg a = Some v \<and> jfield v ''evaluated_state_revision'' = Some r
       \<and> jfield v ''evaluated_state_fingerprint'' = Some f"
    using mint_event [OF assms(1)] by blast
  note f = minted_record_fields [OF m(1)]
  have c: "to_status = status_json CLOSED" using assms(2) f by (simp add: m(6))
  from is_legal_transitionD [OF m(3)] obtain st t where "current_status a = optional_status st"
    "to_status = status_json t" "(st, t) \<in> set legal_transitions" by blast
  with c have "link st CLOSED" "current_status a = optional_status st" by (auto simp: link_def)
  then have "current_status a = status_json VERIFYING" by (simp add: link_closed)
  then show ?thesis using m(4,8) f c by (auto simp: m(6) mint_admits_def)
qed

text \<open>an equivalent re-observation bound to the head of an accepted chain keeps the chain
  accepted, unless the Difference is closed.\<close>

theorem observation_bound_extends:
  assumes "predecessor_lineage carried = Inr es"
    and "observation_bound_event E d r f (int (length es)) (last es) obs ev boundary = Inr (e, reason, condition)"
    and "jfield (last es) ''to_status'' \<noteq> Some (status_json CLOSED)"
  shows "predecessor_lineage (carried @ [e]) = Inr (es @ [e])"
proof -
  obtain s i where h: "jfield (last es) ''to_status'' = Some s" "jfield (last es) ''difference_event_id'' = Some i"
    and e: "jfield e ''event_kind'' = Some (JStr (u ''OBSERVATION_BOUND''))"
      "jfield e ''event_revision'' = Some (JInt (int (length es)))" "jfield e ''previous_event_id'' = Some i"
      "jfield e ''from_status'' = Some s" "jfield e ''to_status'' = Some s"
    using observation_bound_fields [OF assms(2)] unfolding bound_event_def by blast
  have a: "accepted es" using assms(1) by (simp add: predecessor_lineage_iff)
  then have "last es \<in> set es" by (auto simp: accepted_def starts_detected_def)
  from accepted_nonterminal [OF a this] obtain t where t: "s = status_json t" "t \<notin> set terminal_statuses"
    using h(1) by auto
  then have o: "t \<notin> set observation_bound_forbidden"
    using assms(3) h(1) by (auto simp: observation_bound_forbidden_def terminal_statuses_def)
  show ?thesis
    by (rule accepted_extend [OF assms(1), where i = i and s = s and t = t and k = "JStr (u ''OBSERVATION_BOUND'')"])
      (use h e t o in \<open>simp_all add: link_ok_def\<close>)
qed

end
