(* ===== verification/BookkeepingProps.thy ===== *)
theory BookkeepingProps
  imports ReflowProps
begin

text \<open>
  The bookkeeping of the semantic state: \<open>open_differences\<close> holds a Difference exactly while its
  status still needs attention, nothing outside the five fields is written, and applying the same
  bookkeeping twice changes nothing the second time.
\<close>

section \<open>Unique sorted references\<close>

definition seen_refs :: "(ustr \<times> ustr) list \<Rightarrow> json list \<Rightarrow> ((ustr \<times> ustr) \<times> json) list" where
  "seen_refs keys refs = fold (\<lambda>(k, r) m. AList.update k r m) (zip keys refs) []"

lemma seen_refs_snoc:
  "length keys = length refs \<Longrightarrow> seen_refs (keys @ [k]) (refs @ [r]) = AList.update k r (seen_refs keys refs)"
  by (simp add: seen_refs_def)

lemma keyed_induct [consumes 1, case_names Nil snoc]:
  assumes "mapE ref_key refs = Inr keys" and "P [] []"
    and "\<And>refs keys r k. mapE ref_key refs = Inr keys \<Longrightarrow> ref_key r = Inr k \<Longrightarrow> P refs keys \<Longrightarrow> P (refs @ [r]) (keys @ [k])"
  shows "P refs keys"
  using assms(1)
proof (induction refs arbitrary: keys rule: rev_induct)
  case (snoc r refs)
  then obtain ks k where "mapE ref_key refs = Inr ks" "ref_key r = Inr k" "keys = ks @ [k]"
    by (auto simp: mapE_append)
  then show ?case using snoc.IH assms(3) by blast
qed (simp add: assms(2))

lemma mapE_members: "mapE f xs = Inr ys \<Longrightarrow> x \<in> set xs \<Longrightarrow> \<exists>y \<in> set ys. f x = Inr y"
  by (induction xs arbitrary: ys) auto

lemma mapE_length_eq: "mapE f xs = Inr ys \<Longrightarrow> length ys = length xs"
  by (induction xs arbitrary: ys) auto

lemma seen_refs_ok:
  "mapE ref_key refs = Inr keys \<Longrightarrow> distinct (map fst (seen_refs keys refs))
     \<and> fst ` set (seen_refs keys refs) = set keys
     \<and> (\<forall>(k, r) \<in> set (seen_refs keys refs). ref_key r = Inr k \<and> r \<in> set refs)"
proof (induction rule: keyed_induct)
  case Nil
  show ?case by (simp add: seen_refs_def)
next
  case (snoc refs keys r k)
  have s: "seen_refs (keys @ [k]) (refs @ [r]) = AList.update k r (seen_refs keys refs)"
    using mapE_length_eq [OF snoc(1)] by (simp add: seen_refs_snoc)
  have "set (AList.update k r m) \<subseteq> insert (k, r) (set m)" for m
    by (induction m) auto
  then have "\<forall>(j, q) \<in> set (AList.update k r (seen_refs keys refs)). ref_key q = Inr j \<and> q \<in> set (refs @ [r])"
    using snoc(2,3) by fastforce
  moreover have "distinct (map fst (AList.update k r (seen_refs keys refs)))"
    using snoc(3) by (simp add: distinct_update)
  moreover have "fst ` set (AList.update k r (seen_refs keys refs)) = set (keys @ [k])"
    using snoc(3) by (simp add: dom_update)
  ultimately show ?case unfolding s by blast
qed

lemma seen_refs_lookup:
  "mapE ref_key refs = Inr keys \<Longrightarrow> map_of (seen_refs keys refs) = map_of (rev (zip keys refs))"
proof (induction rule: keyed_induct)
  case Nil
  show ?case by (simp add: seen_refs_def)
next
  case (snoc refs keys r k)
  then show ?case
    using mapE_length_eq [OF snoc(1)] by (simp add: seen_refs_snoc update_conv')
qed

definition last_of :: "(ustr \<times> ustr) list \<Rightarrow> json list \<Rightarrow> ustr \<times> ustr \<Rightarrow> json" where
  "last_of keys refs k = the (map_of (rev (zip keys refs)) k)"

lemma unique_sorted_refs_iff:
  "unique_sorted_refs refs = Inr out \<longleftrightarrow>
     (\<exists>keys. mapE ref_key refs = Inr keys \<and> out = map (last_of keys refs) (sorted_list_of_set (set keys)))"
proof -
  have "map snd (sort_key fst (seen_refs keys refs)) = map (last_of keys refs) (sorted_list_of_set (set keys))"
    if k: "mapE ref_key refs = Inr keys" for keys
  proof -
    let ?m = "sort_key fst (seen_refs keys refs)"
    have d: "distinct (map fst ?m)" "set ?m = set (seen_refs keys refs)" "sorted (map fst ?m)"
      using seen_refs_ok [OF k] by (auto simp: distinct_map inj_on_def)
    have "map fst ?m = sorted_list_of_set (set keys)"
      using d seen_refs_ok [OF k] by (intro sorted_distinct_set_unique) auto
    moreover have "map snd ?m = map (last_of keys refs) (map fst ?m)"
    proof -
      have "snd p = last_of keys refs (fst p)" if "p \<in> set ?m" for p
      proof -
        have "p \<in> set (seen_refs keys refs)" using that d(2) by blast
        then have "map_of (seen_refs keys refs) (fst p) = Some (snd p)"
          using seen_refs_ok [OF k] by (intro map_of_is_SomeI) auto
        then show ?thesis unfolding last_of_def seen_refs_lookup [OF k, symmetric] by simp
      qed
      then show ?thesis by simp
    qed
    ultimately show ?thesis by simp
  qed
  then show ?thesis unfolding unique_sorted_refs_def seen_refs_def [symmetric] by (auto simp: Let_def)
qed

lemma last_of_key:
  assumes "mapE ref_key refs = Inr keys" and "k \<in> set keys"
  shows "map_of (rev (zip keys refs)) k = Some (last_of keys refs k)" and "ref_key (last_of keys refs k) = Inr k"
proof -
  obtain r where r: "(k, r) \<in> set (seen_refs keys refs)"
  proof -
    have "k \<in> fst ` set (seen_refs keys refs)" using seen_refs_ok [OF assms(1)] assms(2) by simp
    then show thesis using that by (metis imageE prod.collapse)
  qed
  then have "map_of (seen_refs keys refs) k = Some r"
    using seen_refs_ok [OF assms(1)] by (intro map_of_is_SomeI) auto
  then have m: "map_of (rev (zip keys refs)) k = Some r" by (simp add: seen_refs_lookup [OF assms(1)])
  then show "map_of (rev (zip keys refs)) k = Some (last_of keys refs k)" by (simp add: last_of_def)
  show "ref_key (last_of keys refs k) = Inr k"
    using m r seen_refs_ok [OF assms(1)] by (auto simp: last_of_def)
qed

lemma keys_of_map:
  "(\<And>k. k \<in> set ks \<Longrightarrow> ref_key (f k) = Inr k) \<Longrightarrow> mapE ref_key (map f ks) = Inr ks"
  by (induction ks) auto

lemma unique_sorted_refs_keys:
  assumes "unique_sorted_refs refs = Inr out"
  shows "\<exists>keys. mapE ref_key refs = Inr keys \<and> mapE ref_key out = Inr (sorted_list_of_set (set keys))"
proof -
  obtain keys where k: "mapE ref_key refs = Inr keys" "out = map (last_of keys refs) (sorted_list_of_set (set keys))"
    using assms unfolding unique_sorted_refs_iff by blast
  have "mapE ref_key out = Inr (sorted_list_of_set (set keys))"
    unfolding k(2) by (rule keys_of_map) (use last_of_key(2) [OF k(1)] in simp)
  then show ?thesis using k(1) by blast
qed

text \<open>Adding the same references a second time changes nothing.\<close>

lemma map_of_zip_keys:
  "map_of (rev (zip ks (map f ks))) k = (if k \<in> set ks then Some (f k) else None)"
  by (induction ks) (auto simp: map_add_def)

lemma last_of_append:
  "length ks = length xs \<Longrightarrow> last_of (ks @ ls) (xs @ ys) k =
     (case map_of (rev (zip ls ys)) k of Some r \<Rightarrow> r | None \<Rightarrow> last_of ks xs k)"
  by (simp add: last_of_def map_add_def split: option.splits)

lemma unique_sorted_refs_again:
  assumes "unique_sorted_refs (xs @ ys) = Inr out"
  shows "unique_sorted_refs (out @ ys) = Inr out"
proof -
  obtain ks ls where k: "mapE ref_key xs = Inr ks" "mapE ref_key ys = Inr ls"
    and o: "out = map (last_of (ks @ ls) (xs @ ys)) (sorted_list_of_set (set (ks @ ls)))"
    using assms unfolding unique_sorted_refs_iff by (auto simp: mapE_append)
  have kl: "mapE ref_key (xs @ ys) = Inr (ks @ ls)" using k by (simp add: mapE_append)
  define os where "os = sorted_list_of_set (set (ks @ ls))"
  have out: "mapE ref_key out = Inr os"
    unfolding o os_def by (rule keys_of_map) (use last_of_key(2) [OF kl] in simp)
  have all: "mapE ref_key (out @ ys) = Inr (os @ ls)" using out k(2) by (simp add: mapE_append)
  have s: "set (os @ ls) = set (ks @ ls)" by (auto simp: os_def)
  have "last_of (os @ ls) (out @ ys) k = last_of (ks @ ls) (xs @ ys) k" if "k \<in> set (ks @ ls)" for k
  proof -
    have a: "last_of os out k = last_of (ks @ ls) (xs @ ys) k"
      unfolding o os_def [symmetric] last_of_def [of os] map_of_zip_keys using that by (simp add: os_def)
    note b = last_of_append [OF mapE_length_eq [OF out], of ls ys k]
    note c = last_of_append [OF mapE_length_eq [OF k(1)], of ls ys k]
    show ?thesis
    proof (cases "map_of (rev (zip ls ys)) k")
      case None
      show ?thesis unfolding b None option.case by (rule a)
    next
      case (Some r)
      show ?thesis unfolding b c Some option.case by (rule refl)
    qed
  qed
  then have "map (last_of (os @ ls) (out @ ys)) (sorted_list_of_set (set (os @ ls))) = out"
    unfolding s o by simp
  then show ?thesis
    unfolding unique_sorted_refs_iff by (intro exI [of _ "os @ ls"] conjI all) (rule sym)
qed

section \<open>One application\<close>

text \<open>The steps of one application, in the order of the code.\<close>

definition kept_open :: "json \<Rightarrow> json list \<Rightarrow> auth_error + json list" where
  "kept_open d refs = filterE (\<lambda>r. bindE (ref_key r) (\<lambda>k. bindE (ref_key d) (\<lambda>j. Inr (k \<noteq> j)))) refs"

definition bookkept :: "json \<Rightarrow> json list \<Rightarrow> json list \<Rightarrow> json list \<Rightarrow> json \<Rightarrow> json list \<Rightarrow> json \<Rightarrow> json" where
  "bookkept before open2 evidence' contradictions' lineage refs' transaction_ref =
     aset ''lineage'' (aset ''identity_refs'' (JList refs') lineage)
       (aset ''reflow_state'' (JObj [(u ''last_transaction_ref'', transaction_ref)])
         (aset ''unresolved_contradictions'' (JList contradictions')
           (aset ''evidence'' (JList evidence') (aset ''open_differences'' (JList open2) before))))"

lemma alist_of_iff [simp]: "alist_of v k = Inr xs \<longleftrightarrow> jfield v k = Some (JList xs)"
  unfolding alist_of_def by (cases "jfield v k") (auto simp: afield_def split: json.splits)

lemma jfield_obj: "jfield v k = Some x \<Longrightarrow> is_obj v"
  by (cases v) (auto simp: jfield_def)

lemma bookkeeping_iff:
  "apply_reflow_bookkeeping s d t evs e cs tx = Inr s' \<longleftrightarrow>
     (\<exists>open0 open1 open2 ev ev' co co' l refs refs'.
        jfield s ''open_differences'' = Some (JList open0) \<and> kept_open d open0 = Inr open1
      \<and> unique_sorted_refs (if among t removes_from_open_differences then open1 else open1 @ [d]) = Inr open2
      \<and> jfield s ''evidence'' = Some (JList ev) \<and> unique_sorted_refs (ev @ evs) = Inr ev'
      \<and> jfield s ''unresolved_contradictions'' = Some (JList co) \<and> unique_sorted_refs (co @ cs) = Inr co'
      \<and> jfield s ''lineage'' = Some l \<and> jfield l ''identity_refs'' = Some (JList refs)
      \<and> unique_sorted_refs (refs @ [e]) = Inr refs' \<and> s' = bookkept s open2 ev' co' l refs' tx)"
  (is "?l = ?r")
proof (cases "is_obj s")
  case True
  define g where "g = (\<lambda>open1. if among t removes_from_open_differences then open1 else open1 @ [d])"
  have g: "(if among t removes_from_open_differences then open1 else open1 @ [d]) = g open1" for open1
    by (simp add: g_def)
  show ?thesis
    unfolding apply_reflow_bookkeeping_def kept_open_def [symmetric] bookkept_def Let_def g
    using True by (auto simp add: jfield_aset)
next
  case False
  then have "jfield s k = None" for k by (cases s) (auto simp: jfield_def)
  then show ?thesis by (simp add: apply_reflow_bookkeeping_def)
qed

lemma kept_open_keys:
  assumes "kept_open d refs = Inr out" and "ref_key d = Inr j" and "mapE ref_key refs = Inr ks"
  shows "mapE ref_key out = Inr (filter (\<lambda>k. k \<noteq> j) ks)"
  using assms
proof (induction refs arbitrary: out ks)
  case (Cons r refs)
  then show ?case by (auto simp: kept_open_def split: if_splits)
qed (simp add: kept_open_def)

lemma kept_open_all_keys:
  "kept_open d refs = Inr out \<Longrightarrow> ref_key d = Inr j \<Longrightarrow> \<exists>ks. mapE ref_key refs = Inr ks"
proof (induction refs arbitrary: out)
  case (Cons r refs)
  then show ?case by (auto simp: kept_open_def)
qed simp

section \<open>Properties\<close>

text \<open>C32: after the bookkeeping \<open>open_differences\<close> is sorted by kind and id without repeats, and holds
  the references it held before with the Difference added, or, when its status is \<open>CLOSED\<close>,
  \<open>SUPERSEDED\<close> or \<open>INVALIDATED\<close>, removed.\<close>

theorem open_differences_tracked:
  assumes "apply_reflow_bookkeeping s d t evs e cs tx = Inr s'" and "ref_key d = Inr j"
  shows "\<exists>old new old_keys new_keys.
    jfield s ''open_differences'' = Some (JList old) \<and> mapE ref_key old = Inr old_keys
    \<and> jfield s' ''open_differences'' = Some (JList new) \<and> mapE ref_key new = Inr new_keys
    \<and> sorted new_keys \<and> distinct new_keys
    \<and> set new_keys = (if among t [SUPERSEDED, INVALIDATED, CLOSED] then set old_keys - {j} else insert j (set old_keys))"
proof -
  obtain open0 open1 open2 ev' co' l refs' where
    o: "jfield s ''open_differences'' = Some (JList open0)" "kept_open d open0 = Inr open1"
      "unique_sorted_refs (if among t removes_from_open_differences then open1 else open1 @ [d]) = Inr open2"
    and s': "s' = bookkept s open2 ev' co' l refs' tx"
    using assms(1) unfolding bookkeeping_iff by blast
  obtain ks where ks: "mapE ref_key open0 = Inr ks" using kept_open_all_keys [OF o(2) assms(2)] by blast
  have k1: "mapE ref_key open1 = Inr (filter (\<lambda>k. k \<noteq> j) ks)" by (rule kept_open_keys [OF o(2) assms(2) ks])
  have r: "removes_from_open_differences = [SUPERSEDED, INVALIDATED, CLOSED]"
    by (simp add: removes_from_open_differences_def terminal_statuses_def)
  obtain nk where nk: "mapE ref_key (if among t removes_from_open_differences then open1 else open1 @ [d]) = Inr nk"
    "mapE ref_key open2 = Inr (sorted_list_of_set (set nk))"
    using unique_sorted_refs_keys [OF o(3)] by blast
  have n: "set nk = (if among t [SUPERSEDED, INVALIDATED, CLOSED] then set ks - {j} else insert j (set ks))"
    using nk(1) k1 assms(2) unfolding r by (auto simp: mapE_append split: if_splits)
  have "jfield s' ''open_differences'' = Some (JList open2)"
    using jfield_obj [OF o(1)] by (simp add: s' bookkept_def jfield_aset)
  then show ?thesis
    using o(1) ks nk(2) n by (intro exI [of _ open0] exI [of _ open2] exI [of _ ks] exI [of _ "sorted_list_of_set (set nk)"]) simp
qed

text \<open>C34: the bookkeeping writes \<open>open_differences\<close>, \<open>evidence\<close>, \<open>unresolved_contradictions\<close>,
  \<open>reflow_state\<close> and the \<open>identity_refs\<close> of \<open>lineage\<close>, and nothing else: \<open>active_changes\<close>,
  \<open>authority\<close> and the domains keep their values.\<close>

theorem bookkeeping_frame:
  assumes "apply_reflow_bookkeeping s d t evs e cs tx = Inr s'"
    and "k \<notin> {''open_differences'', ''evidence'', ''unresolved_contradictions'', ''reflow_state'', ''lineage''}"
    and "i \<noteq> ''identity_refs''"
  shows "jfield s' k = jfield s k
    \<and> (\<exists>l l'. jfield s ''lineage'' = Some l \<and> jfield s' ''lineage'' = Some l' \<and> jfield l' i = jfield l i)"
proof -
  obtain open2 ev' co' l refs refs' where l: "jfield s ''lineage'' = Some l" "jfield l ''identity_refs'' = Some (JList refs)"
    and s': "s' = bookkept s open2 ev' co' l refs' tx"
    using assms(1) unfolding bookkeeping_iff by blast
  show ?thesis
    using jfield_obj [OF l(1)] jfield_obj [OF l(2)] assms(2,3) l(1) by (simp add: s' bookkept_def jfield_aset)
qed

lemma aset_same: "jfield v k = Some x \<Longrightarrow> aset k x v = v"
proof -
  have "map_of kvs j = Some x \<Longrightarrow> AList.update j x kvs = kvs" for kvs and j :: ustr
    by (induction kvs) auto
  then show "jfield v k = Some x \<Longrightarrow> aset k x v = v"
    by (cases v) (auto simp: jfield_def)
qed

lemma lookup_filter:
  "mapE ref_key xs = Inr ks \<Longrightarrow> k \<noteq> j \<Longrightarrow>
     map_of (rev (zip (filter (\<lambda>k. k \<noteq> j) ks) (filter (\<lambda>r. ref_key r \<noteq> Inr j) xs))) k = map_of (rev (zip ks xs)) k
     \<and> mapE ref_key (filter (\<lambda>r. ref_key r \<noteq> Inr j) xs) = Inr (filter (\<lambda>k. k \<noteq> j) ks)"
proof (induction rule: keyed_induct)
  case (snoc refs keys r i)
  have "length (filter (\<lambda>k. k \<noteq> j) keys) = length (filter (\<lambda>r. ref_key r \<noteq> Inr j) refs)"
    using mapE_length_eq snoc(3,4) by blast
  then show ?case
    using snoc mapE_length_eq [OF snoc(1)] by (auto simp: mapE_append)
qed simp

lemma unique_sorted_refs_replace:
  assumes "mapE ref_key xs = Inr ks" and "ref_key d = Inr j"
  shows "unique_sorted_refs (filter (\<lambda>r. ref_key r \<noteq> Inr j) xs @ [d]) = unique_sorted_refs (xs @ [d])"
proof -
  let ?xs = "filter (\<lambda>r. ref_key r \<noteq> Inr j) xs" and ?ks = "filter (\<lambda>k. k \<noteq> j) ks"
  have f: "mapE ref_key ?xs = Inr ?ks"
  proof -
    obtain i :: "ustr \<times> ustr" where "i \<noteq> j" by (metis (full_types) fst_conv list.distinct(1) prod.collapse)
    then show ?thesis using lookup_filter [OF assms(1)] by blast
  qed
  have same: "last_of (?ks @ [j]) (?xs @ [d]) k = last_of (ks @ [j]) (xs @ [d]) k" for k
  proof (cases "k = j")
    case True
    then show ?thesis
      by (simp add: last_of_append [OF mapE_length_eq [OF f]] last_of_append [OF mapE_length_eq [OF assms(1)]])
  next
    case False
    then show ?thesis
      using lookup_filter [OF assms(1) False]
      unfolding last_of_append [OF mapE_length_eq [OF f]] last_of_append [OF mapE_length_eq [OF assms(1)]]
      by (simp add: last_of_def)
  qed
  have "mapE ref_key (?xs @ [d]) = Inr (?ks @ [j])" "mapE ref_key (xs @ [d]) = Inr (ks @ [j])"
    using f assms by (simp_all add: mapE_append)
  moreover have "set (?ks @ [j]) = set (ks @ [j])" by auto
  moreover have "last_of (?ks @ [j]) (?xs @ [d]) = last_of (ks @ [j]) (xs @ [d])" by (rule ext) (rule same)
  moreover have "unique_sorted_refs rs = Inr (map (last_of qs rs) (sorted_list_of_set (set qs)))"
    if "mapE ref_key rs = Inr qs" for rs qs
    unfolding unique_sorted_refs_iff using that by blast
  ultimately show ?thesis by metis
qed

lemma kept_open_filter:
  assumes "mapE ref_key refs = Inr ks" and "ref_key d = Inr j"
  shows "kept_open d refs = Inr (filter (\<lambda>r. ref_key r \<noteq> Inr j) refs)"
  using assms
proof (induction refs arbitrary: ks)
  case (Cons r refs)
  then show ?case by (auto simp: kept_open_def)
qed (simp add: kept_open_def)

lemma open_again:
  assumes "kept_open d open0 = Inr open1" and "ref_key d = Inr j"
    and "unique_sorted_refs (if b then open1 else open1 @ [d]) = Inr open2"
  shows "\<exists>kept. kept_open d open2 = Inr kept \<and> unique_sorted_refs (if b then kept else kept @ [d]) = Inr open2"
proof -
  obtain ks where ks: "mapE ref_key open2 = Inr ks" using unique_sorted_refs_keys [OF assms(3)] by blast
  note k = kept_open_filter [OF ks assms(2)]
  show ?thesis
  proof (cases b)
    case True
    obtain ks0 where "mapE ref_key open0 = Inr ks0" using kept_open_all_keys [OF assms(1,2)] by blast
    then have k1: "mapE ref_key open1 = Inr (filter (\<lambda>k. k \<noteq> j) ks0)" by (rule kept_open_keys [OF assms(1,2)])
    have "mapE ref_key open2 = Inr (sorted_list_of_set (set (filter (\<lambda>k. k \<noteq> j) ks0)))"
      using unique_sorted_refs_keys [of open1 open2] assms(3) True k1 by auto
    then have "j \<notin> set ks" using ks by auto
    then have "ref_key r \<noteq> Inr j" if "r \<in> set open2" for r
      using mapE_members [OF ks that] by auto
    then have "filter (\<lambda>r. ref_key r \<noteq> Inr j) open2 = open2" by (auto intro: filter_True)
    then show ?thesis using k True unique_sorted_refs_again [of open1 "[]" open2] assms(3) by simp
  next
    case False
    then show ?thesis
      using k unique_sorted_refs_replace [OF ks assms(2)] unique_sorted_refs_again [of open1 "[d]" open2] assms(3) by simp
  qed
qed

text \<open>applying the same bookkeeping to its own result changes nothing: a retry after the state was
  written is harmless.\<close>

theorem bookkeeping_idempotent:
  assumes "apply_reflow_bookkeeping s d t evs e cs tx = Inr s'" and "ref_key d = Inr j"
  shows "apply_reflow_bookkeeping s' d t evs e cs tx = Inr s'"
proof -
  obtain open0 open1 open2 ev ev' co co' l refs refs' where
    o: "jfield s ''open_differences'' = Some (JList open0)" "kept_open d open0 = Inr open1"
      "unique_sorted_refs (if among t removes_from_open_differences then open1 else open1 @ [d]) = Inr open2"
    and e: "unique_sorted_refs (ev @ evs) = Inr ev'" "unique_sorted_refs (co @ cs) = Inr co'"
      "unique_sorted_refs (refs @ [e]) = Inr refs'"
    and l: "jfield l ''identity_refs'' = Some (JList refs)"
    and s': "s' = bookkept s open2 ev' co' l refs' tx"
    using assms(1) unfolding bookkeeping_iff by blast
  obtain kept where k: "kept_open d open2 = Inr kept"
    "unique_sorted_refs (if among t removes_from_open_differences then kept else kept @ [d]) = Inr open2"
    using open_again [OF o(2) assms(2) o(3)] by blast
  let ?l = "aset ''identity_refs'' (JList refs') l"
  have f: "jfield s' ''open_differences'' = Some (JList open2)" "jfield s' ''evidence'' = Some (JList ev')"
    "jfield s' ''unresolved_contradictions'' = Some (JList co')" "jfield s' ''lineage'' = Some ?l"
    "jfield s' ''reflow_state'' = Some (JObj [(u ''last_transaction_ref'', tx)])"
    using jfield_obj [OF o(1)] by (simp_all add: s' bookkept_def jfield_aset)
  have g: "jfield ?l ''identity_refs'' = Some (JList refs')" using jfield_obj [OF l] by (simp add: jfield_aset)
  have b: "s' = bookkept s' open2 ev' co' ?l refs' tx"
    unfolding bookkept_def aset_same [OF g] aset_same [OF f(1)] aset_same [OF f(2)] aset_same [OF f(3)]
      aset_same [OF f(5)] aset_same [OF f(4)] by (rule refl)
  note again = unique_sorted_refs_again [OF e(1)] unique_sorted_refs_again [OF e(2)] unique_sorted_refs_again [OF e(3)]
  show ?thesis
    unfolding bookkeeping_iff
    by (rule exI [of _ open2], rule exI [of _ kept], rule exI [of _ open2], rule exI [of _ ev'], rule exI [of _ ev'],
        rule exI [of _ co'], rule exI [of _ co'], rule exI [of _ ?l], rule exI [of _ refs'], rule exI [of _ refs'])
      (intro conjI f k again g b)
qed

end
