(* ===== verification/LifecycleExample.thy ===== *)
theory LifecycleExample
  imports BookkeepingProps AuthorityExample
begin

text \<open>
  Concrete chains, mint requests and semantic states, and the witnesses of the lifecycle properties
  on them.
\<close>

section \<open>A chain\<close>

definition ex_event_id :: "nat \<Rightarrow> json" where
  "ex_event_id n = JStr (u ''D-EVT-'' @ dec_nat n)"

definition ex_event :: "nat \<Rightarrow> status option \<Rightarrow> status \<Rightarrow> json" where
  "ex_event n s t = JObj (map (\<lambda>(k, v). (u k, v))
     [(''difference_event_id'', ex_event_id n), (''event_kind'', JStr (u ''TRANSITION'')),
      (''event_revision'', JInt (int n)), (''previous_event_id'', if n = 0 then JNull else ex_event_id (n - 1)),
      (''from_status'', optional_status s), (''to_status'', status_json t)])"

lemma ex_event_fields:
  "is_obj (ex_event n s t)" "jfield (ex_event n s t) ''difference_event_id'' = Some (ex_event_id n)"
  "jfield (ex_event n s t) ''event_kind'' = Some (JStr (u ''TRANSITION''))"
  "jfield (ex_event n s t) ''event_revision'' = Some (JInt (int n))"
  "jfield (ex_event n s t) ''previous_event_id'' = Some (if n = 0 then JNull else ex_event_id (n - 1))"
  "jfield (ex_event n s t) ''from_status'' = Some (optional_status s)"
  "jfield (ex_event n s t) ''to_status'' = Some (status_json t)"
  by (simp_all add: ex_event_def jfield_def)

text \<open>The chain that walks \<open>ss\<close> from \<open>s\<close>, at the revisions from \<open>n\<close>.\<close>

fun ex_chain :: "nat \<Rightarrow> status option \<Rightarrow> status list \<Rightarrow> json list" where
  "ex_chain n s [] = []"
| "ex_chain n s (t # ts) = ex_event n s t # ex_chain (Suc n) (Some t) ts"

lemma ex_chain_links:
  "(\<exists>q. p = Some (ex_event n q s) \<and> n' = Suc n) \<Longrightarrow>
   successively (\<lambda>s t. (Some s, t) \<in> set legal_transitions) (s # ts) \<Longrightarrow>
     check_links p (int n') (ex_chain n' (Some s) ts) = Inr ()"
proof (induction ts arbitrary: n n' s p)
  case (Cons t ts)
  from Cons.prems obtain q where p: "p = Some (ex_event n q s)" "n' = Suc n" by blast
  have l: "(Some s, t) \<in> set legal_transitions" using Cons.prems by simp
  have "check_link p (int n') (ex_event n' (Some s) t) = Inr ()"
    using l is_legal_transition_status [of "Some s" t]
    by (simp add: check_link_iff p previous_id_def previous_status_def ex_event_fields link_ok_def)
  moreover have "check_links (Some (ex_event n' (Some s) t)) (int (Suc n')) (ex_chain (Suc n') (Some t) ts) = Inr ()"
    using Cons.prems by (intro Cons.IH) auto
  ultimately show ?case by (simp add: add.commute)
qed simp

lemma ex_chain_length [simp]: "length (ex_chain n s ts) = length ts"
  by (induction ts arbitrary: n s) auto

lemma ex_chain_nth: "i < length ts \<Longrightarrow> ex_chain n s ts ! i = ex_event (n + i) (if i = 0 then s else Some (ts ! (i - 1))) (ts ! i)"
proof (induction ts arbitrary: n s i)
  case (Cons t ts)
  then show ?case by (cases i) (auto simp: nth_Cons split: nat.splits)
qed simp

lemma ex_chain_last:
  "ts \<noteq> [] \<Longrightarrow> last (ex_chain n s ts) = ex_event (n + length ts - 1)
     (if length ts = 1 then s else Some (ts ! (length ts - 2))) (last ts)"
proof -
  assume t: "ts \<noteq> []"
  then have "ex_chain n s ts \<noteq> []" by (cases ts) simp_all
  moreover from t have "length ts = 1 \<or> 2 \<le> length ts" by (cases ts; cases "tl ts") auto
  ultimately show ?thesis
    using ex_chain_nth [of "length ts - 1" ts n s] t by (auto simp: last_conv_nth numeral_2_eq_2)
qed

lemma ex_chain_accepted:
  assumes "successively (\<lambda>s t. (Some s, t) \<in> set legal_transitions) (DETECTED # ts)"
    and "last (DETECTED # ts) \<notin> set terminal_statuses"
  shows "predecessor_lineage (ex_chain 0 None (DETECTED # ts)) = Inr (ex_chain 0 None (DETECTED # ts))"
proof -
  have "(None, DETECTED) \<in> set legal_transitions" by (simp add: legal_transitions_def)
  then have "check_link None 0 (ex_event 0 None DETECTED) = Inr ()"
    using is_legal_transition_status [of None DETECTED]
    by (simp add: check_link_iff previous_id_def previous_status_def ex_event_fields link_ok_def)
  moreover have "check_links (Some (ex_event 0 None DETECTED)) (int 1) (ex_chain 1 (Some DETECTED) ts) = Inr ()"
    using assms(1) by (intro ex_chain_links) auto
  ultimately have "check_links None 0 (ex_chain 0 None (DETECTED # ts)) = Inr ()" by simp
  then show ?thesis
    using assms(2) ex_chain_last [of "DETECTED # ts" 0 None]
    by (simp add: predecessor_lineage_iff accepted_def starts_detected_def ex_event_fields del: ex_chain.simps(2))
      (simp add: ex_event_fields)
qed

definition ex_life :: "json list" where
  "ex_life = ex_chain 0 None [DETECTED, OPEN, ACTIVE, VERIFYING, CLOSED, REOPENED, BLOCKED]"

lemma ex_life_accepted: "predecessor_lineage ex_life = Inr ex_life"
  unfolding ex_life_def
  by (rule ex_chain_accepted) (simp_all add: legal_transitions_def terminal_statuses_def)

section \<open>Witnesses on the chain\<close>

lemma accepted_lineage_walks_witness:
  "mset ex_life = mset (rev ex_life)
    \<and> (\<exists>ss. map (\<lambda>e. jfield e ''to_status'') ex_life = map (\<lambda>s. Some (status_json s)) (DETECTED # ss)
          \<and> walk None (DETECTED # ss) \<and> last (DETECTED # ss) \<notin> set terminal_statuses)"
proof (rule accepted_lineage_walks)
  show "predecessor_lineage (rev ex_life) = Inr ex_life"
    using ex_life_accepted by (simp add: predecessor_lineage_iff)
qed

lemma closed_after_verifying_witness:
  "jfield (ex_life ! 4) ''to_status'' = Some (status_json CLOSED) \<and> jfield (ex_life ! 3) ''to_status'' = Some (status_json VERIFYING)"
proof -
  have l: "4 < length ex_life" by (simp add: ex_life_def)
  have c: "jfield (ex_life ! 4) ''to_status'' = Some (status_json CLOSED)"
    by (simp add: ex_life_def ex_event_fields)
  show ?thesis using closed_after_verifying [OF ex_life_accepted l] c by simp
qed

lemma closure_reachable_witness:
  "\<exists>s ss. jfield (last ex_life) ''to_status'' = Some (status_json s) \<and> walk (Some s) ss \<and> last (s # ss) = CLOSED"
  by (rule closure_reachable [OF ex_life_accepted])

lemma lineage_order_free_witness: "predecessor_lineage (rev ex_life) = Inr ex_life"
  by (rule lineage_order_free [OF ex_life_accepted]) simp

section \<open>A mint request\<close>

definition ex_evaluation :: json where
  "ex_evaluation = JObj [(u ''evaluated_state_revision'', JInt 2), (u ''evaluated_state_fingerprint'', JStr (u ''FP-2''))]"

definition ex_mint :: "nat \<Rightarrow> status \<Rightarrow> status \<Rightarrow> json \<Rightarrow> mint_args" where
  "ex_mint n s t commit = \<lparr> difference_arg = JObj [(u ''difference_id'', JStr (u ''D-1''))],
     current_status = status_json s, previous_event_id = ex_event_id (n - 1), event_revision = int n,
     decision = reflow_decision (status_json t) (u ''TARGET_NOT_SATISFIED'') (u ''CE-1''),
     evaluation_arg = Some ex_evaluation, observation_refs = [], evidence_refs = [], authority_ref = JNull,
     change_refs = None, blocker_kind = JNull, blocker_scope = JNull, blocker_resolution_condition = JNull,
     next_observation_ref = JNull, reflow_transition_ref = commit, reopen_trigger = JNull,
     contradiction_evidence_refs = None \<rparr>"

lemma plain_status [simp]: "plain_str (status_text s)"
  by (cases s) (simp_all add: status_text.simps u_Cons)

lemma plain_dec [simp]: "plain_str (dec_nat n)"
  using plain_digits [of "dec_nat n"] dec_nat_digits by auto

lemma plain_event_id: "plain_str (u ''D-EVT-'' @ dec_nat n)"
  by (simp add: u_Cons)

lemma ex_event_keys:
  "list_all key_ok [''difference_id'', ''event_kind'', ''event_revision'', ''previous_event_id'',
     ''from_status'', ''to_status'', ''state_revision_evaluated'', ''state_fingerprint_evaluated'',
     ''reason_code'', ''observation_refs'', ''blocker_kind'', ''blocker_scope'']"
  by (simp add: key_ok_def word_key_u secret_keys_def set_like_fields_def)

lemma ex_evidence_key:
  "plain_str (u ''evidence_refs'')" "\<not> secret_key ascii_ext (u ''evidence_refs'')"
  using secret_word_key [of "u ''evidence_refs''"] word_key_plain [of "u ''evidence_refs''"]
  by (simp_all add: word_key_u secret_keys_def)

lemma lifecycle_id_plain:
  assumes "jfield v ''difference_id'' = Some (JStr d)" "plain_str d"
    and "jfield v ''event_kind'' = Some (JStr k)" "plain_str k" and "jfield v ''event_revision'' = Some (JInt n)"
    and "jfield v ''previous_event_id'' = Some (JStr p)" "plain_str p"
    and "jfield v ''from_status'' = Some (JStr s)" "plain_str s" and "jfield v ''to_status'' = Some (JStr t)" "plain_str t"
    and "jfield v ''state_revision_evaluated'' = Some (JInt r)"
    and "jfield v ''state_fingerprint_evaluated'' = Some (JStr f)" "plain_str f"
    and "jfield v ''reason_code'' = Some (JStr c)" "plain_str c"
    and "jfield v ''observation_refs'' = Some (JList [])" and "jfield v ''evidence_refs'' = Some (JList [])"
    and "jfield v ''blocker_kind'' = Some JNull" and "jfield v ''blocker_scope'' = Some JNull"
  shows "\<exists>i. lifecycle_event_id ascii_ext v = Inr i"
proof -
  let ?w = "JObj (map (\<lambda>(k, v). (u k, v)) [(''difference_id'', JStr d), (''event_kind'', JStr k), (''event_revision'', JInt n),
     (''previous_event_id'', JStr p), (''from_status'', JStr s), (''to_status'', JStr t), (''state_revision_evaluated'', JInt r),
     (''state_fingerprint_evaluated'', JStr f), (''reason_code'', JStr c), (''observation_refs'', JList []),
     (''evidence_refs'', JList []), (''blocker_kind'', JNull), (''blocker_scope'', JNull)])"
  have p: "project_fields event_identity_fields v = Inr ?w"
    using assms by (simp add: project_fields_def event_identity_fields_def afield_def)
  have c: "canonical_semantic ascii_ext ?w = Inr ?w" by (simp add: sort_members_def)
  have "plain_any ascii_ext False ?w" using ex_event_keys ex_evidence_key assms by simp
  then obtain b where "canonical_bytes ascii_ext ?w = Inr b"
    using c plain_any_canonical [OF nfc_ascii_example] by (auto simp: canonical_bytes_def canonA_def)
  then show ?thesis
    by (simp add: lifecycle_event_id_def p upper_id_def hashed_def del: canonical_semantic.simps list.map)
qed

lemma mint_intro:
  assumes "afield (decision a) ''to_status'' = Inr t" and "is_legal_transition (current_status a) t"
    and "evaluation_arg a = Some v" and "afield v ''evaluated_state_revision'' = Inr r"
    and "afield v ''evaluated_state_fingerprint'' = Inr f" and "mint_admits a t"
    and "afield (difference_arg a) ''difference_id'' = Inr d" and "afield (decision a) ''reason_code'' = Inr c"
    and "afield (decision a) ''reason'' = Inr s"
    and "(if among t requires_closure_evaluation \<or> is_reopen a t
          then raised (aget (decision a) ''closure_evaluation_ref'') else Inr JNull) = Inr k"
    and "w = minted_record a t d r f c s k" and "identify_event E w = Inr e"
    and "blocker_payload_errors e (Some (difference_arg a)) = Inr []"
  shows "mint_transition_event E a = Inr e"
  unfolding mint_transition_event_def assms(1) mapErr.simps bindE.simps assms(10) using assms [unfolded assms(11)]
  by (simp add: orE_def ensureE_def)

lemma ex_mint_ok:
  assumes "(Some s, t) \<in> set legal_transitions" and "t \<notin> {BLOCKED, RETAINED, REOPENED}" and "t = CLOSED \<longrightarrow> commit \<noteq> JNull"
  shows "\<exists>e. mint_transition_event ascii_ext (ex_mint n s t commit) = Inr e \<and> jfield e ''to_status'' = Some (status_json t)"
proof -
  let ?a = "ex_mint n s t commit"
  define c where "c = (if among (status_json t) requires_closure_evaluation \<or> is_reopen ?a (status_json t)
    then JObj [(u ''kind'', JStr (u ''closure_evaluation'')), (u ''id'', JStr (u ''CE-1''))] else JNull)"
  define v where "v = minted_record ?a (status_json t) (JStr (u ''D-1'')) (JInt 2) (JStr (u ''FP-2''))
    (JStr (u ''TARGET_NOT_SATISFIED'')) (JStr (u ''TARGET_NOT_SATISFIED: closure_evaluation CE-1'')) c"
  note f = minted_record_fields [OF v_def]
  have "\<exists>i. lifecycle_event_id ascii_ext v = Inr i"
    by (rule lifecycle_id_plain [of v "u ''D-1''" "u ''TRANSITION''" "int n" "u ''D-EVT-'' @ dec_nat (n - 1)" "status_text s"
          "status_text t" 2 "u ''FP-2''" "u ''TARGET_NOT_SATISFIED''"])
      (simp_all add: f ex_mint_def ex_event_id_def plain_event_id,
       simp_all add: v_def minted_record_def jfield_def ex_mint_def u_Cons)
  then obtain i where i: "lifecycle_event_id ascii_ext v = Inr i" by blast
  let ?e = "aset ''difference_event_id'' (JStr i) v"
  have e: "identify_event ascii_ext v = Inr ?e" by (simp add: identify_event_def i)
  have fe: "jfield ?e j = (if j = ''difference_event_id'' then Some (JStr i) else jfield v j)" for j
    by (simp add: jfield_aset f(1))
  have b: "blocker_payload_errors ?e (Some (difference_arg ?a)) = Inr []"
    using assms(2) by (simp add: blocker_payload_errors_def fe f blocker_payload_fields_def error_if_def ex_mint_def afield_def)
  have r: "\<not> is_reopen ?a (status_json t)" using assms(2) by (auto simp: is_reopen_def)
  have m: "mint_admits ?a (status_json t)"
    using assms(2,3) r by (auto simp: mint_admits_def ex_mint_def requires_next_observation_def)
  have l: "is_legal_transition (current_status ?a) (status_json t)"
    using assms(1) is_legal_transition_status [of "Some s" t] by (simp add: ex_mint_def)
  have d: "decision ?a = reflow_decision (status_json t) (u ''TARGET_NOT_SATISFIED'') (u ''CE-1'')"
    "difference_arg ?a = JObj [(u ''difference_id'', JStr (u ''D-1''))]" "evaluation_arg ?a = Some ex_evaluation"
    by (simp_all add: ex_mint_def)
  have "mint_transition_event ascii_ext ?a = Inr ?e"
    by (rule mint_intro [OF _ l d(3) _ _ m _ _ _ _ v_def e b])
      (simp_all add: d c_def reflow_decision_def ex_evaluation_def jfield_def aget_def, simp_all add: u_Cons)
  then show ?thesis using fe f by auto
qed

section \<open>Witnesses of composition\<close>

definition ex_commit :: json where
  "ex_commit = JObj [(u ''kind'', JStr (u ''reflow_transition'')), (u ''id'', JStr (u ''RT-1''))]"

lemma minted_event_extends_witness:
  "\<exists>e. mint_transition_event ascii_ext (ex_mint 4 VERIFYING CLOSED ex_commit) = Inr e
    \<and> predecessor_lineage (ex_chain 0 None [DETECTED, OPEN, ACTIVE, VERIFYING] @ [e])
        = Inr (ex_chain 0 None [DETECTED, OPEN, ACTIVE, VERIFYING] @ [e])"
proof -
  let ?es = "ex_chain 0 None [DETECTED, OPEN, ACTIVE, VERIFYING]"
  have p: "predecessor_lineage ?es = Inr ?es"
    by (rule ex_chain_accepted) (simp_all add: legal_transitions_def terminal_statuses_def)
  obtain e where e: "mint_transition_event ascii_ext (ex_mint 4 VERIFYING CLOSED ex_commit) = Inr e"
    "jfield e ''to_status'' = Some (status_json CLOSED)"
    using ex_mint_ok [of VERIFYING CLOSED ex_commit 4] by (auto simp: legal_transitions_def ex_commit_def)
  have "predecessor_lineage (?es @ [e]) = Inr (?es @ [e])"
    by (rule minted_event_extends [OF p e(1)]) (simp_all add: ex_mint_def ex_event_fields e(2) numeral_3_eq_3)
  then show ?thesis using e(1) by blast
qed

lemma closing_event_guarded_witness:
  "\<exists>e. mint_transition_event ascii_ext (ex_mint 4 VERIFYING CLOSED ex_commit) = Inr e
    \<and> jfield e ''reflow_transition_ref'' = Some ex_commit"
proof -
  obtain e where e: "mint_transition_event ascii_ext (ex_mint 4 VERIFYING CLOSED ex_commit) = Inr e"
    "jfield e ''to_status'' = Some (status_json CLOSED)"
    using ex_mint_ok [of VERIFYING CLOSED ex_commit 4] by (auto simp: legal_transitions_def ex_commit_def)
  then show ?thesis using closing_event_guarded [OF e] by (simp add: ex_mint_def)
qed

lemma observation_bound_extends_witness:
  "\<exists>e reason condition.
     observation_bound_event ascii_ext (JStr (u ''D-1'')) (JInt 2) (JStr (u ''FP-2'')) 3 (ex_event 2 (Some OPEN) ACTIVE)
       (JList []) (JList []) JNull = Inr (e, reason, condition)
    \<and> predecessor_lineage (ex_chain 0 None [DETECTED, OPEN, ACTIVE] @ [e])
        = Inr (ex_chain 0 None [DETECTED, OPEN, ACTIVE] @ [e])"
proof -
  let ?es = "ex_chain 0 None [DETECTED, OPEN, ACTIVE]"
  let ?h = "ex_event 2 (Some OPEN) ACTIVE"
  have p: "predecessor_lineage ?es = Inr ?es"
    by (rule ex_chain_accepted) (simp_all add: legal_transitions_def terminal_statuses_def)
  let ?v = "bound_record (JStr (u ''D-1'')) (JInt 2) (JStr (u ''FP-2'')) 3 (ex_event_id 2) (status_json ACTIVE)
    (JList []) (JList [])"
  have "\<exists>i. lifecycle_event_id ascii_ext ?v = Inr i"
    by (rule lifecycle_id_plain [of ?v "u ''D-1''" "u ''OBSERVATION_BOUND''" 3 "u ''D-EVT-'' @ dec_nat 2" "status_text ACTIVE"
          "status_text ACTIVE" 2 "u ''FP-2''" "u ''EQUIVALENT_REOBSERVATION_BOUND''"])
      (simp_all add: bound_record_def update_fields_field empty_event_fields ex_event_id_def,
       simp_all add: empty_event_def jfield_def u_Cons)
  then obtain e where i: "identify_event ascii_ext ?v = Inr e" by (auto simp: identify_event_def)
  then obtain reason where e: "observation_bound_event ascii_ext (JStr (u ''D-1'')) (JInt 2) (JStr (u ''FP-2'')) 3 ?h
       (JList []) (JList []) JNull = Inr (e, reason, None)"
    by (auto simp: observation_bound_event_def afield_def ex_event_fields)
  have l: "last ?es = ?h" "int (length ?es) = 3" by (simp_all add: numeral_2_eq_2)
  have "predecessor_lineage (?es @ [e]) = Inr (?es @ [e])"
    using observation_bound_extends [OF p, unfolded l, OF e] by (simp add: ex_event_fields)
  then show ?thesis using e by blast
qed

section \<open>A semantic state\<close>

definition ex_reference :: "string \<Rightarrow> string \<Rightarrow> json" where
  "ex_reference kind i = JObj [(u ''kind'', JStr (u kind)), (u ''id'', JStr (u i))]"

lemma ex_reference_key [simp]: "ref_key (ex_reference k i) = Inr (u k, u i)"
proof -
  have "astr (ex_reference k i) ''kind'' = Inr (u k)" "astr (ex_reference k i) ''id'' = Inr (u i)"
    by (simp_all add: ex_reference_def jfield_def)
  then show ?thesis unfolding ref_key_def by simp
qed

definition ex_semantic_state :: json where
  "ex_semantic_state = JObj
     [(u ''open_differences'', JList [ex_reference ''difference'' ''D-2'', ex_reference ''difference'' ''D-1'']),
      (u ''active_changes'', JList []), (u ''evidence'', JList []), (u ''unresolved_contradictions'', JList []),
      (u ''lineage'', JObj [(u ''status'', JStr (u ''BOUND'')), (u ''identity_refs'', JList [])])]"

lemma ex_unique_ok: "mapE ref_key refs = Inr ks \<Longrightarrow> \<exists>out. unique_sorted_refs refs = Inr out"
  unfolding unique_sorted_refs_iff by blast

lemma ex_bookkeeping:
  "\<exists>s'. apply_reflow_bookkeeping ex_semantic_state (ex_reference ''difference'' ''D-1'') (status_json t) []
     (ex_reference ''difference_event'' ''E-1'') [] (ex_reference ''reflow_transaction'' ''T-1'') = Inr s'"
proof -
  let ?d = "ex_reference ''difference'' ''D-1''"
  let ?open = "[ex_reference ''difference'' ''D-2'', ?d]"
  let ?l = "JObj [(u ''status'', JStr (u ''BOUND'')), (u ''identity_refs'', JList [])]"
  have k: "kept_open ?d ?open = Inr [ex_reference ''difference'' ''D-2'']"
    by (simp add: kept_open_def)
  let ?in = "if among (status_json t) removes_from_open_differences then [ex_reference ''difference'' ''D-2'']
    else [ex_reference ''difference'' ''D-2''] @ [?d]"
  have "\<exists>ks. mapE ref_key ?in = Inr ks" by simp
  then obtain open2 where o: "unique_sorted_refs ?in = Inr open2" using ex_unique_ok by blast
  have n: "unique_sorted_refs ([] @ []) = Inr []" by (simp add: unique_sorted_refs_def)
  obtain refs' where r: "unique_sorted_refs ([] @ [ex_reference ''difference_event'' ''E-1'']) = Inr refs'"
    using ex_unique_ok [of "[ex_reference ''difference_event'' ''E-1'']"] by auto
  have f: "jfield ex_semantic_state ''open_differences'' = Some (JList ?open)" "jfield ex_semantic_state ''evidence'' = Some (JList [])"
    "jfield ex_semantic_state ''unresolved_contradictions'' = Some (JList [])" "jfield ex_semantic_state ''lineage'' = Some ?l"
    "jfield ?l ''identity_refs'' = Some (JList [])"
    by (simp_all add: ex_semantic_state_def jfield_def)
  show ?thesis
    unfolding bookkeeping_iff
    by (rule exI [of _ "bookkept ex_semantic_state open2 [] [] ?l refs' (ex_reference ''reflow_transaction'' ''T-1'')"], rule exI [of _ ?open], rule exI [of _ "[ex_reference ''difference'' ''D-2'']"], rule exI [of _ open2],
        rule exI [of _ "[]"], rule exI [of _ "[]"], rule exI [of _ "[]"], rule exI [of _ "[]"], rule exI [of _ ?l],
        rule exI [of _ "[]"], rule exI [of _ refs'])
      (intro conjI f k o n r refl)
qed

lemma open_differences_tracked_witness:
  "\<exists>s' new. apply_reflow_bookkeeping ex_semantic_state (ex_reference ''difference'' ''D-1'') (status_json CLOSED) []
      (ex_reference ''difference_event'' ''E-1'') [] (ex_reference ''reflow_transaction'' ''T-1'') = Inr s'
    \<and> jfield s' ''open_differences'' = Some (JList new) \<and> mapE ref_key new = Inr [(u ''difference'', u ''D-2'')]"
proof -
  obtain s' where s': "apply_reflow_bookkeeping ex_semantic_state (ex_reference ''difference'' ''D-1'') (status_json CLOSED) []
      (ex_reference ''difference_event'' ''E-1'') [] (ex_reference ''reflow_transaction'' ''T-1'') = Inr s'"
    using ex_bookkeeping by blast
  obtain old new oks nks where t: "jfield ex_semantic_state ''open_differences'' = Some (JList old)" "mapE ref_key old = Inr oks"
    "jfield s' ''open_differences'' = Some (JList new)" "mapE ref_key new = Inr nks" "distinct nks"
    "set nks = (if among (status_json CLOSED) [SUPERSEDED, INVALIDATED, CLOSED]
       then set oks - {(u ''difference'', u ''D-1'')} else insert (u ''difference'', u ''D-1'') (set oks))"
    using open_differences_tracked [OF s' ex_reference_key] by blast
  have "oks = [(u ''difference'', u ''D-2''), (u ''difference'', u ''D-1'')]"
    using t(1,2) by (auto simp: ex_semantic_state_def jfield_def)
  then have n: "set nks = {(u ''difference'', u ''D-2'')}" by (simp add: t(6) insert_Diff_if)
  moreover have "length nks = 1" using distinct_card [OF t(5)] by (simp add: n)
  ultimately have "nks = [(u ''difference'', u ''D-2'')]" by (cases nks) auto
  then show ?thesis using s' t(3,4) by blast
qed

lemma bookkeeping_frame_witness:
  "\<exists>s'. apply_reflow_bookkeeping ex_semantic_state (ex_reference ''difference'' ''D-1'') (status_json CLOSED) []
      (ex_reference ''difference_event'' ''E-1'') [] (ex_reference ''reflow_transaction'' ''T-1'') = Inr s'
    \<and> jfield s' ''active_changes'' = jfield ex_semantic_state ''active_changes''"
proof -
  obtain s' where s': "apply_reflow_bookkeeping ex_semantic_state (ex_reference ''difference'' ''D-1'') (status_json CLOSED) []
      (ex_reference ''difference_event'' ''E-1'') [] (ex_reference ''reflow_transaction'' ''T-1'') = Inr s'"
    using ex_bookkeeping by blast
  have "jfield s' ''active_changes'' = jfield ex_semantic_state ''active_changes''"
    using bookkeeping_frame [OF s', of "''active_changes''" "''status''"] by simp
  then show ?thesis using s' by blast
qed

lemma bookkeeping_idempotent_witness:
  "\<exists>s'. apply_reflow_bookkeeping ex_semantic_state (ex_reference ''difference'' ''D-1'') (status_json BLOCKED) []
      (ex_reference ''difference_event'' ''E-1'') [] (ex_reference ''reflow_transaction'' ''T-1'') = Inr s'
    \<and> apply_reflow_bookkeeping s' (ex_reference ''difference'' ''D-1'') (status_json BLOCKED) []
      (ex_reference ''difference_event'' ''E-1'') [] (ex_reference ''reflow_transaction'' ''T-1'') = Inr s'"
proof -
  obtain s' where s': "apply_reflow_bookkeeping ex_semantic_state (ex_reference ''difference'' ''D-1'') (status_json BLOCKED) []
      (ex_reference ''difference_event'' ''E-1'') [] (ex_reference ''reflow_transaction'' ''T-1'') = Inr s'"
    using ex_bookkeeping by blast
  show ?thesis using bookkeeping_idempotent [OF s' ex_reference_key] s' by blast
qed

end
