(* ===== verification/Change.thy ===== *)
theory Change
  imports Authority
begin

text \<open>
  The deriver of a Change (\<open>change/engine.py\<close>, \<open>change/identity.py\<close>): it asks the Authority
  evaluator, compares the decision a caller claims with the one the evaluator reproduces, and derives
  the record of a Change from the reproduced decision alone.
\<close>

section \<open>Errors\<close>

text \<open>The classes of \<open>change/errors.py\<close>; \<open>Change_raised\<close> is what a callee raised, until the
  boundary of \<open>derive_change\<close> translates it.\<close>

datatype change_error =
  ChangeError
| ChangeValidationError
| UnauthorizedChangeError
| StaleChangeError
| AuthorityProvenanceError
| Change_raised auth_error

abbreviation called :: "auth_error + 'a \<Rightarrow> change_error + 'a" where
  "called \<equiv> mapErr Change_raised"

fun change_boundary :: "change_error \<Rightarrow> change_error" where
  "change_boundary (Change_raised StaleAuthorityInputError) = StaleChangeError"
| "change_boundary (Change_raised (AuthCanon UnicodeEncodeError)) = Change_raised (AuthCanon UnicodeEncodeError)"
| "change_boundary (Change_raised AuthPy) = Change_raised AuthPy"
| "change_boundary (Change_raised e) = ChangeError"
| "change_boundary e = e"

section \<open>Identities\<close>

definition change_semantic_fields :: "string list" where
  "change_semantic_fields = [''project_id'', ''difference_ref'', ''authority_ref'', ''before_state_fingerprint'',
     ''expected_state_revision'', ''action'', ''scope'']"

definition change_semantic_fingerprint :: "ext \<Rightarrow> json \<Rightarrow> auth_error + ustr" where
  "change_semantic_fingerprint E change = bindE (project_fields change_semantic_fields change) (digest E)"

definition change_id :: "ext \<Rightarrow> json \<Rightarrow> auth_error + ustr" where
  "change_id E change = bindE (project_fields change_semantic_fields change) (address E ''CHANGE-'')"

definition idempotency_key :: "ext \<Rightarrow> json \<Rightarrow> auth_error + ustr" where
  "idempotency_key E change = change_semantic_fingerprint E change"

section \<open>Admission\<close>

definition change_request_keys :: "string list" where
  "change_request_keys = [''schema_version'', ''authority_request'', ''authority_decision'']"

definition require_change_request :: "json \<Rightarrow> change_error + json" where
  "require_change_request request =
     bindE (called (require_object request)) (\<lambda>shaped.
     bindE (called (closed_keys change_request_keys shaped)) (\<lambda>_.
     bindE (called (afield shaped ''schema_version'')) (\<lambda>version.
     bindE (ensureE (version = schema_version) ChangeError) (\<lambda>_. Inr shaped))))"

definition decision_required_keys :: "string list" where
  "decision_required_keys = [''schema_version'', ''authority_decision_id'', ''project_id'', ''difference_ref'',
     ''requested_action'', ''requested_scope'', ''evaluated_state_revision'', ''evaluated_state_fingerprint'',
     ''resolved_rule_ref'', ''prohibition_refs'', ''approval_ref'', ''excluding_approval_refs'', ''decision'',
     ''decision_reason_codes'', ''decision_semantic_fingerprint'']"

definition known_keys :: "string list \<Rightarrow> json \<Rightarrow> bool" where
  "known_keys ks v = (case v of JObj kvs \<Rightarrow> list_all (\<lambda>(k, x). k \<in> set (map u ks)) kvs | _ \<Rightarrow> False)"

definition admit_claim :: "ext \<Rightarrow> json \<Rightarrow> change_error + json" where
  "admit_claim E v =
     bindE (called (require_object v)) (\<lambda>decision.
     bindE (called (aget decision ''schema_version'')) (\<lambda>version.
     bindE (ensureE (version = schema_version) ChangeError) (\<lambda>_.
     bindE (ensureE (known_keys decision_required_keys decision) ChangeError) (\<lambda>_.
     bindE (ensureE (ext_schema E (schema_base @ u ''authority/authority.schema.json'') decision) ChangeValidationError) (\<lambda>_.
     bindE (called (afield decision ''authority_decision_id'')) (\<lambda>declared.
     bindE (called (decision_id E decision)) (\<lambda>recomputed.
     bindE (ensureE (declared = JStr recomputed) ChangeError) (\<lambda>_.
     bindE (called (afield decision ''decision_semantic_fingerprint'')) (\<lambda>declared_fingerprint.
     bindE (called (decision_semantic_fingerprint E decision)) (\<lambda>recomputed_fingerprint.
     bindE (ensureE (declared_fingerprint = JStr recomputed_fingerprint) ChangeError) (\<lambda>_.
     Inr decision)))))))))))"

section \<open>Derivation\<close>

definition change_record :: "ext \<Rightarrow> json \<Rightarrow> change_error + json" where
  "change_record E reproduced =
     bindE (called (afield reproduced ''project_id'')) (\<lambda>project.
     bindE (called (afield reproduced ''difference_ref'')) (\<lambda>difference_ref.
     bindE (called (afield reproduced ''authority_decision_id'')) (\<lambda>identity.
     bindE (called (afield reproduced ''evaluated_state_fingerprint'')) (\<lambda>fingerprint.
     bindE (called (afield reproduced ''evaluated_state_revision'')) (\<lambda>revision.
     bindE (called (afield reproduced ''requested_action'')) (\<lambda>action.
     bindE (called (afield reproduced ''requested_scope'')) (\<lambda>scope.
     Inr (JObj (map (\<lambda>(k, v). (u k, v))
       [(''schema_version'', schema_version), (''change_id'', JStr []), (''project_id'', project),
        (''difference_ref'', difference_ref),
        (''authority_ref'', JObj [(u ''kind'', JStr (u ''authority_decision'')), (u ''id'', identity)]),
        (''before_state_fingerprint'', fingerprint), (''expected_state_revision'', revision),
        (''action'', action), (''scope'', scope), (''idempotency_key'', JStr []), (''execution_result'', JNull),
        (''status'', JStr (u ''AUTHORIZED'')), (''change_semantic_fingerprint'', JStr [])])))))))))"

definition identify_change :: "ext \<Rightarrow> json \<Rightarrow> change_error + json" where
  "identify_change E c0 =
     bindE (called (idempotency_key E c0)) (\<lambda>key.
     let c1 = aset ''idempotency_key'' (JStr key) c0
     in bindE (called (change_semantic_fingerprint E c1)) (\<lambda>fp.
        let c2 = aset ''change_semantic_fingerprint'' (JStr fp) c1
        in bindE (called (change_id E c2)) (\<lambda>i.
           let c3 = aset ''change_id'' (JStr i) c2
           in bindE (ensureE (ext_schema E (schema_base @ u ''change/change.schema.json'') c3) ChangeValidationError) (\<lambda>_.
              Inr c3))))"

definition derive :: "ext \<Rightarrow> json \<Rightarrow> change_error + json" where
  "derive E request =
     bindE (require_change_request request) (\<lambda>shaped.
     bindE (called (afield shaped ''authority_request'')) (\<lambda>authority_request.
     bindE (called (evaluate_authority E authority_request)) (\<lambda>reproduced.
     bindE (called (afield shaped ''authority_decision'')) (\<lambda>claim.
     bindE (admit_claim E claim) (\<lambda>claimed.
     bindE (called (afield claimed ''authority_decision_id'')) (\<lambda>a.
     bindE (called (afield reproduced ''authority_decision_id'')) (\<lambda>b.
     bindE (ensureE (py_eq a b) AuthorityProvenanceError) (\<lambda>_.
     bindE (ensureE (py_eq claimed reproduced) AuthorityProvenanceError) (\<lambda>_.
     bindE (called (afield reproduced ''decision'')) (\<lambda>decision.
     bindE (ensureE (decision = JStr (u ''AUTONOMOUS'')) UnauthorizedChangeError) (\<lambda>_.
     bindE (change_record E reproduced) (identify_change E))))))))))))"

definition derive_change :: "ext \<Rightarrow> json \<Rightarrow> change_error + json" where
  "derive_change E request = mapErr change_boundary (derive E request)"

end
