(* ===== verification/ChangeProps.thy ===== *)
theory ChangeProps
  imports Change AuthorityProps
begin

text \<open>
  A Change rests on the answer of the Authority evaluator, never on the claim of a caller: what a
  derived Change says is what the reproduced decision says, a touched prohibition forbids it, and its
  address does not move when its lifecycle does.
\<close>

section \<open>Parts of a derivation\<close>

lemma called_iff [simp]: "called x = Inr y \<longleftrightarrow> x = Inr y"
  by (cases x) auto

lemma derive_change_iff: "derive_change E request = Inr c \<longleftrightarrow> derive E request = Inr c"
  by (cases "derive E request") (auto simp: derive_change_def)

lemma closed_keys_obj: "closed_keys ks v = Inr () \<Longrightarrow> is_obj v"
  by (cases v) (auto simp: closed_keys_def)

lemma require_change_request_iff:
  "require_change_request request = Inr s \<longleftrightarrow> s = request \<and> require_object request = Inr request
     \<and> closed_keys change_request_keys request = Inr () \<and> jfield request ''schema_version'' = Some schema_version"
proof -
  have "require_object request = Inr s \<Longrightarrow> s = request" for s by (cases request) auto
  then show ?thesis by (auto simp: require_change_request_def)
qed

lemma derive_parts:
  assumes "derive E request = Inr c"
  obtains areq claim claimed d c0 where "jfield request ''authority_request'' = Some areq"
    and "evaluate_authority E areq = Inr d" and "jfield request ''authority_decision'' = Some claim"
    and "admit_claim E claim = Inr claimed" and "py_eq claimed d"
    and "jfield d ''decision'' = Some (JStr (u ''AUTONOMOUS''))"
    and "change_record E d = Inr c0" and "identify_change E c0 = Inr c"
  using assms by (auto simp: derive_def require_change_request_iff)

lemma admit_claim_same: "admit_claim E claim = Inr claimed \<Longrightarrow> claimed = claim"
  by (cases claim) (auto simp: admit_claim_def)

lemma change_record_fields:
  assumes "change_record E d = Inr c0"
  shows "is_obj c0" and "jfield c0 ''project_id'' = jfield d ''project_id''"
    and "jfield c0 ''difference_ref'' = jfield d ''difference_ref''"
    and "jfield c0 ''before_state_fingerprint'' = jfield d ''evaluated_state_fingerprint''"
    and "jfield c0 ''expected_state_revision'' = jfield d ''evaluated_state_revision''"
    and "jfield c0 ''action'' = jfield d ''requested_action''" and "jfield c0 ''scope'' = jfield d ''requested_scope''"
    and "\<exists>i. jfield d ''authority_decision_id'' = Some i
           \<and> jfield c0 ''authority_ref'' = Some (JObj [(u ''kind'', JStr (u ''authority_decision'')), (u ''id'', i)])"
    and "jfield c0 ''status'' = Some (JStr (u ''AUTHORIZED''))"
proof -
  obtain p r i f n a s where d: "jfield d ''project_id'' = Some p" "jfield d ''difference_ref'' = Some r"
    "jfield d ''authority_decision_id'' = Some i" "jfield d ''evaluated_state_fingerprint'' = Some f"
    "jfield d ''evaluated_state_revision'' = Some n" "jfield d ''requested_action'' = Some a"
    "jfield d ''requested_scope'' = Some s"
    and c0: "c0 = JObj (map (\<lambda>(k, v). (u k, v))
       [(''schema_version'', schema_version), (''change_id'', JStr []), (''project_id'', p),
        (''difference_ref'', r),
        (''authority_ref'', JObj [(u ''kind'', JStr (u ''authority_decision'')), (u ''id'', i)]),
        (''before_state_fingerprint'', f), (''expected_state_revision'', n),
        (''action'', a), (''scope'', s), (''idempotency_key'', JStr []), (''execution_result'', JNull),
        (''status'', JStr (u ''AUTHORIZED'')), (''change_semantic_fingerprint'', JStr [])])"
    using assms unfolding change_record_def by (elim bindE_InrE) simp
  show "is_obj c0" by (simp add: c0)
  show "jfield c0 ''project_id'' = jfield d ''project_id''" "jfield c0 ''difference_ref'' = jfield d ''difference_ref''"
    "jfield c0 ''before_state_fingerprint'' = jfield d ''evaluated_state_fingerprint''"
    "jfield c0 ''expected_state_revision'' = jfield d ''evaluated_state_revision''"
    "jfield c0 ''action'' = jfield d ''requested_action''" "jfield c0 ''scope'' = jfield d ''requested_scope''"
    "\<exists>i. jfield d ''authority_decision_id'' = Some i
       \<and> jfield c0 ''authority_ref'' = Some (JObj [(u ''kind'', JStr (u ''authority_decision'')), (u ''id'', i)])"
    "jfield c0 ''status'' = Some (JStr (u ''AUTHORIZED''))"
    unfolding d by (simp_all add: c0 jfield_def)
qed

lemma project_change_cong:
  "(\<And>k. k \<in> set change_semantic_fields \<Longrightarrow> jfield v k = jfield w k) \<Longrightarrow>
     change_id E v = change_id E w \<and> change_semantic_fingerprint E v = change_semantic_fingerprint E w"
  using project_fields_cong [of change_semantic_fields v w] by (simp add: change_id_def change_semantic_fingerprint_def)

lemma identified_change:
  assumes "identify_change E c0 = Inr c" and "is_obj c0"
  shows "is_obj c" and "\<And>k. k \<notin> {''idempotency_key'', ''change_semantic_fingerprint'', ''change_id''} \<Longrightarrow> jfield c k = jfield c0 k"
    and "\<exists>i f. jfield c ''change_id'' = Some (JStr i) \<and> change_id E c = Inr i
           \<and> jfield c ''change_semantic_fingerprint'' = Some (JStr f) \<and> change_semantic_fingerprint E c = Inr f
           \<and> jfield c ''idempotency_key'' = Some (JStr f)"
proof -
  obtain key fp i where k: "idempotency_key E c0 = Inr key"
    "change_semantic_fingerprint E (aset ''idempotency_key'' (JStr key) c0) = Inr fp"
    "change_id E (aset ''change_semantic_fingerprint'' (JStr fp) (aset ''idempotency_key'' (JStr key) c0)) = Inr i"
    and c: "c = aset ''change_id'' (JStr i) (aset ''change_semantic_fingerprint'' (JStr fp) (aset ''idempotency_key'' (JStr key) c0))"
    using assms(1) unfolding identify_change_def Let_def by (elim bindE_InrE) simp
  have o: "is_obj (aset k x v)" if "is_obj v" for k x v using that by (cases v) auto
  have f: "jfield c j = (if j = ''change_id'' then Some (JStr i) else if j = ''change_semantic_fingerprint'' then Some (JStr fp)
      else if j = ''idempotency_key'' then Some (JStr key) else jfield c0 j)" for j
    by (simp add: c jfield_aset o assms(2))
  have s: "change_id E v = change_id E c0 \<and> change_semantic_fingerprint E v = change_semantic_fingerprint E c0"
    if "v \<in> {c, aset ''idempotency_key'' (JStr key) c0,
           aset ''change_semantic_fingerprint'' (JStr fp) (aset ''idempotency_key'' (JStr key) c0)}" for v
    by (rule project_change_cong) (use that in \<open>auto simp: f jfield_aset o assms(2) change_semantic_fields_def\<close>)
  have "key = fp" using k(1,2) s by (simp add: idempotency_key_def)
  then show "\<exists>i f. jfield c ''change_id'' = Some (JStr i) \<and> change_id E c = Inr i
           \<and> jfield c ''change_semantic_fingerprint'' = Some (JStr f) \<and> change_semantic_fingerprint E c = Inr f
           \<and> jfield c ''idempotency_key'' = Some (JStr f)"
    using k s by (simp add: f)
  show "is_obj c" by (simp add: c o assms(2))
  show "jfield c k = jfield c0 k" if "k \<notin> {''idempotency_key'', ''change_semantic_fingerprint'', ''change_id''}" for k
    using that by (simp add: f)
qed

section \<open>Properties\<close>

text \<open>C11: a Change is what the Authority evaluator answers, not what a caller claims: the evaluator,
  run on the supplied request, permits it with \<open>AUTONOMOUS\<close>, the claim equals that answer, and every
  field of the Change is read from it.\<close>

theorem change_reproduced:
  assumes "derive_change E request = Inr c"
  shows "\<exists>areq claim d i. jfield request ''authority_request'' = Some areq \<and> evaluate_authority E areq = Inr d
    \<and> jfield request ''authority_decision'' = Some claim \<and> py_eq claim d
    \<and> jfield d ''decision'' = Some (JStr (u ''AUTONOMOUS''))
    \<and> jfield c ''project_id'' = jfield areq ''project_id'' \<and> jfield c ''action'' = jfield areq ''requested_action''
    \<and> jfield c ''expected_state_revision'' = jfield areq ''current_state_revision''
    \<and> jfield c ''before_state_fingerprint'' = jfield areq ''current_state_fingerprint''
    \<and> jfield c ''difference_ref'' = jfield d ''difference_ref'' \<and> jfield c ''scope'' = jfield d ''requested_scope''
    \<and> decision_id E d = Inr i
    \<and> jfield c ''authority_ref'' = Some (JObj [(u ''kind'', JStr (u ''authority_decision'')), (u ''id'', JStr i)])
    \<and> jfield c ''status'' = Some (JStr (u ''AUTHORIZED''))"
proof -
  obtain areq claim claimed d c0 where p: "jfield request ''authority_request'' = Some areq"
    "evaluate_authority E areq = Inr d" "jfield request ''authority_decision'' = Some claim"
    "admit_claim E claim = Inr claimed" "py_eq claimed d" "jfield d ''decision'' = Some (JStr (u ''AUTONOMOUS''))"
    "change_record E d = Inr c0" "identify_change E c0 = Inr c"
    by (rule derive_parts) (use assms in \<open>simp add: derive_change_iff\<close>)
  obtain q v where q: "request_of E areq q" and d: "decision_record E q v = Inr d"
    using evaluate_parts [OF p(2)] by metis
  note c0 = change_record_fields [OF p(7)] and c = identified_change [OF p(8) change_record_fields(1) [OF p(7)]]
  note df = decision_record_fields [OF d]
  obtain i where i: "jfield d ''authority_decision_id'' = Some (JStr i)" "decision_id E d = Inr i" using df(11) by blast
  have a: "jfield areq ''project_id'' = Some (JStr (q_project q))" "jfield areq ''requested_action'' = Some (q_action q)"
    "jfield areq ''current_state_revision'' = Some (JInt (q_revision q))"
    "jfield areq ''current_state_fingerprint'' = Some (q_fingerprint q)"
    using q by (auto simp: request_of_def)
  show ?thesis
    by (rule exI [of _ areq], rule exI [of _ claim], rule exI [of _ d], rule exI [of _ i])
      (use p(1-3,5,6) admit_claim_same [OF p(4)] c0 c(2) df a i in simp)
qed

lemma touched_prohibited:
  assumes "evaluate_authority E request = Inr d" and "request_of E request q"
    and "p \<in> set (q_prohibitions q)" and "touches (q_project q) (q_kind q) (q_scope q) p = Inr True"
  shows "jfield d ''decision'' = Some (JStr (u ''PROHIBITED''))"
proof -
  obtain v where v: "decide E q = Inr v" "decision_record E q v = Inr d"
    using assms(1) request_of_admit [OF assms(2)] by (auto simp: evaluate_authority_def)
  show ?thesis using decide_prohibited [OF v(1) assms(3,4)] decision_record_fields(1) [OF v(2)] by simp
qed

text \<open>C18: no Change is derived for an action a prohibition touches: if one prohibition of the Authority
  request applies to the project, names the action and overlaps the scope, the derivation fails,
  whatever rules, approvals and claimed decision are supplied.\<close>

theorem prohibited_never_changes:
  assumes "jfield request ''authority_request'' = Some areq"
    and "jfield areq ''prohibitions'' = Some (JList ps)" and "p \<in> set ps"
    and "jfield p ''prohibition_class'' = Some c"
    and "c = JStr (u ''CONSTITUTIONAL'') \<or> jfield p ''project_id'' = jfield areq ''project_id''"
    and "jfield areq ''requested_action'' = Some a" and "jfield a ''action_kind'' = Some kind"
    and "jfield p ''action_kinds'' = Some (JList ks)" and "kind \<in> set ks"
    and "jfield areq ''requested_scope'' = Some s" and "jfield p ''scope'' = Some forbidden"
    and "locations_of s \<inter> locations_of forbidden \<noteq> {}"
  shows "\<exists>e. derive_change E request = Inl e"
proof (rule ccontr)
  assume "\<not> ?thesis"
  then obtain r where r: "derive_change E request = Inr r" by (cases "derive_change E request") auto
  obtain areq' claim claimed d c0 where p: "jfield request ''authority_request'' = Some areq'"
    "evaluate_authority E areq' = Inr d" "jfield request ''authority_decision'' = Some claim"
    "admit_claim E claim = Inr claimed" "py_eq claimed d" "jfield d ''decision'' = Some (JStr (u ''AUTONOMOUS''))"
    "change_record E d = Inr c0" "identify_change E c0 = Inr r"
    by (rule derive_parts) (use r in \<open>simp add: derive_change_iff\<close>)
  then have d: "evaluate_authority E areq = Inr d" "jfield d ''decision'' = Some (JStr (u ''AUTONOMOUS''))"
    using assms(1) by simp_all
  obtain q where q: "request_of E areq q" using evaluate_parts [OF d(1)] by metis
  from prohibition_touches [OF q assms(2-12)] have "jfield d ''decision'' = Some (JStr (u ''PROHIBITED''))"
    using touched_prohibited [OF d(1) q] by blast
  then show False using d(2) by simp
qed

text \<open>C31: the address of a Change is a function of its meaning: it recomputes from the record, the
  idempotency key is its fingerprint, and neither moves when the status or the execution result
  changes.\<close>

theorem change_address_stable:
  assumes "derive_change E request = Inr c"
  shows "\<exists>i f. jfield c ''change_id'' = Some (JStr i) \<and> jfield c ''idempotency_key'' = Some (JStr f)
    \<and> change_id E (aset ''status'' x (aset ''execution_result'' y c)) = Inr i
    \<and> idempotency_key E (aset ''status'' x (aset ''execution_result'' y c)) = Inr f"
proof -
  obtain areq' claim claimed d c0 where p: "jfield request ''authority_request'' = Some areq'"
    "evaluate_authority E areq' = Inr d" "jfield request ''authority_decision'' = Some claim"
    "admit_claim E claim = Inr claimed" "py_eq claimed d" "jfield d ''decision'' = Some (JStr (u ''AUTONOMOUS''))"
    "change_record E d = Inr c0" "identify_change E c0 = Inr c"
    by (rule derive_parts) (use assms in \<open>simp add: derive_change_iff\<close>)
  note c = identified_change [OF p(8) change_record_fields(1) [OF p(7)]]
  let ?c = "aset ''status'' x (aset ''execution_result'' y c)"
  have o: "is_obj (aset k z v)" if "is_obj v" for k z v using that by (cases v) auto
  have "change_id E ?c = change_id E c \<and> change_semantic_fingerprint E ?c = change_semantic_fingerprint E c"
    by (rule project_change_cong) (auto simp: jfield_aset c(1) o change_semantic_fields_def)
  then show ?thesis using c(3) by (auto simp: idempotency_key_def)
qed

text \<open>the refusals keep their names: a stale Authority request is \<open>StaleChangeError\<close>, a well-formed
  claim that is not the reproduced decision is \<open>AuthorityProvenanceError\<close>, and a reproduced decision
  other than \<open>AUTONOMOUS\<close> is \<open>UnauthorizedChangeError\<close>.\<close>

theorem change_refusals:
  assumes "require_change_request request = Inr request"
    and "jfield request ''authority_request'' = Some areq" and "jfield request ''authority_decision'' = Some claim"
  shows "(evaluate_authority E areq = Inl StaleAuthorityInputError \<longrightarrow> derive_change E request = Inl StaleChangeError)
    \<and> (evaluate_authority E areq = Inr d \<and> admit_claim E claim = Inr claim \<and> \<not> py_eq claim d
         \<longrightarrow> derive_change E request = Inl AuthorityProvenanceError)
    \<and> (evaluate_authority E areq = Inr d \<and> admit_claim E claim = Inr claim \<and> claim = d
         \<and> jfield d ''decision'' \<noteq> Some (JStr (u ''AUTONOMOUS''))
         \<longrightarrow> derive_change E request = Inl UnauthorizedChangeError)"
proof -
  have f: "\<exists>x. jfield claim ''authority_decision_id'' = Some x" if "admit_claim E claim = Inr claim"
    using that by (auto simp: admit_claim_def)
  have g: "(\<exists>x. jfield d ''authority_decision_id'' = Some x) \<and> (\<exists>x. jfield d ''decision'' = Some x)" if ev: "evaluate_authority E areq = Inr d"
  proof -
    obtain q v where "request_of E areq q" "decision_record E q v = Inr d" using evaluate_parts [OF ev] by metis
    then show ?thesis using decision_record_fields(1,11) by blast
  qed
  have 1: "derive_change E request = Inl StaleChangeError" if "evaluate_authority E areq = Inl StaleAuthorityInputError"
    using assms that by (simp add: derive_change_def derive_def afield_def)
  have 2: "derive_change E request = Inl AuthorityProvenanceError"
    if d: "evaluate_authority E areq = Inr d" and a: "admit_claim E claim = Inr claim" and n: "\<not> py_eq claim d"
  proof -
    obtain x y where "jfield claim ''authority_decision_id'' = Some x" "jfield d ''authority_decision_id'' = Some y"
      using f [OF a] g [OF d] by blast
    then show ?thesis
      using assms d a n by (cases "py_eq x y") (simp_all add: derive_change_def derive_def afield_def)
  qed
  have 3: "derive_change E request = Inl UnauthorizedChangeError"
    if d: "evaluate_authority E areq = Inr d" and a: "admit_claim E claim = Inr claim" and e: "claim = d"
      and n: "jfield d ''decision'' \<noteq> Some (JStr (u ''AUTONOMOUS''))"
  proof -
    obtain y z where "jfield d ''authority_decision_id'' = Some y" "jfield d ''decision'' = Some z" using g [OF d] by blast
    then show ?thesis using assms d a n unfolding e by (simp add: derive_change_def derive_def afield_def)
  qed
  show ?thesis using 1 2 3 by blast
qed

end
