(* ===== verification/ChangeExample.thy ===== *)
theory ChangeExample
  imports ChangeProps ApprovalExample
begin

text \<open>Concrete Change requests and the witnesses of the Change properties on them.\<close>

section \<open>A permitted Change\<close>

definition ex_change_request :: "json \<Rightarrow> json \<Rightarrow> json" where
  "ex_change_request areq claim = JObj
     [(u ''schema_version'', schema_version), (u ''authority_request'', areq), (u ''authority_decision'', claim)]"

lemma ex_change_request_fields:
  "require_change_request (ex_change_request areq claim) = Inr (ex_change_request areq claim)"
  "jfield (ex_change_request areq claim) ''authority_request'' = Some areq"
  "jfield (ex_change_request areq claim) ''authority_decision'' = Some claim"
proof -
  show "jfield (ex_change_request areq claim) ''authority_request'' = Some areq"
    "jfield (ex_change_request areq claim) ''authority_decision'' = Some claim"
    by (simp_all add: ex_change_request_def jfield_def)
  have "closed_keys change_request_keys (ex_change_request areq claim) = Inr ()"
    unfolding closed_keys_def by (simp add: ex_change_request_def change_request_keys_def) (simp add: jfield_def)
  then show "require_change_request (ex_change_request areq claim) = Inr (ex_change_request areq claim)"
    unfolding require_change_request_iff by (simp add: ex_change_request_def) (simp add: jfield_def)
qed

lemma decision_record_keys:
  assumes "decision_record E q v = Inr d"
  shows "known_keys decision_required_keys d" and "is_obj d" and "jfield d ''schema_version'' = Some schema_version"
proof -
  have "known_keys decision_required_keys d \<and> is_obj d \<and> jfield d ''schema_version'' = Some schema_version"
    using assms unfolding decision_record_def Let_def
    by (elim bindE_InrE) (clarsimp simp: known_keys_def decision_required_keys_def jfield_def)
  then show "known_keys decision_required_keys d" "is_obj d" "jfield d ''schema_version'' = Some schema_version"
    by simp_all
qed

lemma admit_claim_decision:
  assumes "decision_record E q v = Inr d"
  shows "admit_claim E d = Inr d"
proof -
  note k = decision_record_keys [OF assms]
  obtain i f where f: "jfield d ''authority_decision_id'' = Some (JStr i)" "decision_id E d = Inr i"
    "jfield d ''decision_semantic_fingerprint'' = Some (JStr f)" "decision_semantic_fingerprint E d = Inr f"
    using decision_record_fields(11,12) [OF assms] by blast
  have r: "require_object d = Inr d" using k(2) by (cases d) auto
  show ?thesis
    unfolding admit_claim_def using k f decision_record_fields(13) [OF assms]
    by (simp add: r afield_def aget_def)
qed

lemma ex_change_ok:
  obtains d c where "evaluate_authority ascii_ext (ex_request ''EDIT'' [ex_permit] [] []) = Inr d"
    and "derive_change ascii_ext (ex_change_request (ex_request ''EDIT'' [ex_permit] [] []) d) = Inr c"
proof -
  let ?areq = "ex_request ''EDIT'' [ex_permit] [] []"
  obtain d where d: "evaluate_authority ascii_ext ?areq = Inr d" "jfield d ''decision'' = Some (JStr (u ''AUTONOMOUS''))"
    by (rule ex_permit_evaluates)
  obtain v where r: "decision_record ascii_ext (ex_question ''EDIT'' [ex_permit] [] []) v = Inr d"
    using d(1) ex_permit_admit by (auto simp: evaluate_authority_def)
  note f = decision_record_fields [OF r]
  obtain i where i: "jfield d ''authority_decision_id'' = Some (JStr i)" "decision_id ascii_ext d = Inr i" using f(11) by blast
  have ip: "plain_str i"
  proof -
    obtain p where "address ascii_ext ''AUTH-DEC-'' p = Inr i" using i(2) by (auto simp: decision_id_def)
    then obtain b where "i = u ''AUTH-DEC-'' @ ascii_upper (sha256_hex b)" by (auto simp: address_def)
    then show ?thesis by simp (simp add: u_Cons)
  qed
  have x: "jfield d ''difference_ref'' = Some (JObj [(u ''kind'', JStr (u ''difference'')), (u ''id'', JStr ex_difference_id)])"
    using f(7) by (simp add: ex_bound_fields)
  have q: "jfield d ''project_id'' = Some (JStr (u ''PRJ-A''))" "jfield d ''requested_action'' = Some (ex_action ''EDIT'')"
    "jfield d ''requested_scope'' = Some (ex_scope [''src/a'', ''src/b''])"
    "jfield d ''evaluated_state_revision'' = Some (JInt 2)" "jfield d ''evaluated_state_fingerprint'' = Some ex_state_fp"
    using f(2-6) by simp_all
  obtain c0 where c0: "change_record ascii_ext d = Inr c0"
    using i x q by (simp add: change_record_def afield_def)
  note g = change_record_fields [OF c0]
  let ?w = "JObj (map (\<lambda>(k, v). (u k, v)) [(''project_id'', JStr (u ''PRJ-A'')),
     (''difference_ref'', JObj [(u ''kind'', JStr (u ''difference'')), (u ''id'', JStr ex_difference_id)]),
     (''authority_ref'', JObj [(u ''kind'', JStr (u ''authority_decision'')), (u ''id'', JStr i)]),
     (''before_state_fingerprint'', ex_state_fp), (''expected_state_revision'', JInt 2),
     (''action'', ex_action ''EDIT''), (''scope'', ex_scope [''src/a'', ''src/b''])])"
  have keys: "list_all key_ok [''authority_ref'', ''before_state_fingerprint'', ''expected_state_revision'']"
    by (simp add: key_ok_def word_key_u secret_keys_def set_like_fields_def)
  have w: "project_fields change_semantic_fields v = Inr ?w"
    if "\<And>k. k \<in> set change_semantic_fields \<Longrightarrow> jfield v k = jfield c0 k" for v
  proof -
    have "project_fields change_semantic_fields v = project_fields change_semantic_fields c0"
      by (rule project_fields_cong) (rule that)
    also have "\<dots> = Inr ?w" using g i x q by (simp add: project_fields_def change_semantic_fields_def afield_def)
    finally show ?thesis .
  qed
  have "plain_any ascii_ext False ?w"
    using ex_keys keys ex_difference_id_plain ip ex_action_fp_plain [of "''EDIT''"] plain_codes
    by (simp add: ex_action_def ex_action_body_def ex_scope_def ex_state_fp_def) (simp add: u_Cons)
  note plain = digest_plain [OF this] address_plain [OF this]
  obtain F I where ids: "change_semantic_fingerprint ascii_ext c0 = Inr F" "change_id ascii_ext c0 = Inr I"
    using w [of c0] plain by (auto simp: change_semantic_fingerprint_def change_id_def)
  have o: "is_obj (aset k z v)" if "is_obj v" for k z v using that by (cases v) auto
  let ?c1 = "aset ''idempotency_key'' (JStr F) c0"
  let ?c2 = "aset ''change_semantic_fingerprint'' (JStr F) ?c1"
  have s1: "change_id ascii_ext ?c1 = change_id ascii_ext c0
      \<and> change_semantic_fingerprint ascii_ext ?c1 = change_semantic_fingerprint ascii_ext c0"
    by (rule project_change_cong) (auto simp: jfield_aset g(1) change_semantic_fields_def)
  have s2: "change_id ascii_ext ?c2 = change_id ascii_ext c0
      \<and> change_semantic_fingerprint ascii_ext ?c2 = change_semantic_fingerprint ascii_ext c0"
    by (rule project_change_cong) (auto simp: jfield_aset o g(1) change_semantic_fields_def)
  have "idempotency_key ascii_ext c0 = Inr F" "change_semantic_fingerprint ascii_ext ?c1 = Inr F" "change_id ascii_ext ?c2 = Inr I"
    using ids s1 s2 by (simp_all add: idempotency_key_def)
  then obtain c where c: "identify_change ascii_ext c0 = Inr c"
    unfolding identify_change_def Let_def by (simp add: ensureE_def)
  have "derive ascii_ext (ex_change_request ?areq d) = Inr c"
    unfolding derive_def using ex_change_request_fields [of ?areq d] d admit_claim_decision [OF r] i(1) c0 c
    by (simp add: afield_def)
  then show thesis using that [OF d(1)] by (simp add: derive_change_iff)
qed

section \<open>Witnesses\<close>

theorem change_reproduced_witness:
  "\<exists>areq d c. evaluate_authority ascii_ext areq = Inr d
     \<and> derive_change ascii_ext (ex_change_request areq d) = Inr c
     \<and> jfield c ''action'' = jfield areq ''requested_action'' \<and> jfield c ''status'' = Some (JStr (u ''AUTHORIZED''))"
proof -
  let ?areq = "ex_request ''EDIT'' [ex_permit] [] []"
  obtain d c where d: "evaluate_authority ascii_ext ?areq = Inr d"
    "derive_change ascii_ext (ex_change_request ?areq d) = Inr c"
    by (rule ex_change_ok)
  then show ?thesis using change_reproduced [OF d(2)] by (auto simp: ex_change_request_fields)
qed

theorem change_address_stable_witness:
  "\<exists>areq d c i. derive_change ascii_ext (ex_change_request areq d) = Inr c \<and> jfield c ''change_id'' = Some (JStr i)
     \<and> change_id ascii_ext (aset ''status'' (JStr (u ''EXECUTED'')) (aset ''execution_result'' (JInt 0) c)) = Inr i"
proof -
  let ?areq = "ex_request ''EDIT'' [ex_permit] [] []"
  obtain d c where d: "derive_change ascii_ext (ex_change_request ?areq d) = Inr c"
    by (rule ex_change_ok)
  obtain i where "jfield c ''change_id'' = Some (JStr i)"
    "change_id ascii_ext (aset ''status'' (JStr (u ''EXECUTED'')) (aset ''execution_result'' (JInt 0) c)) = Inr i"
    using change_address_stable [OF d, of "JStr (u ''EXECUTED'')" "JInt 0"] by blast
  then show ?thesis using d
    by - (rule exI [of _ ?areq], rule exI [of _ d], rule exI [of _ c], rule exI [of _ i], simp)
qed

abbreviation ex_prohibited_request :: json where
  "ex_prohibited_request \<equiv> ex_request ''EDIT'' [] [ex_prohibition ''EDIT''] []"

theorem change_refusals_witness:
  "\<exists>d. evaluate_authority ascii_ext ex_prohibited_request = Inr d
     \<and> derive_change ascii_ext (ex_change_request ex_prohibited_request d) = Inl UnauthorizedChangeError"
proof -
  obtain d where d: "evaluate_authority ascii_ext ex_prohibited_request = Inr d"
    using ex_prohibited_evaluates by blast
  obtain q v where q: "request_of ascii_ext ex_prohibited_request q" "decision_record ascii_ext q v = Inr d"
    using evaluate_parts [OF d] by metis
  have "locations_of (ex_scope [''src/b'', ''src/a'']) \<inter> locations_of (ex_scope [''src/b'']) \<noteq> {}"
    using resolved_a_b by (simp add: ex_scope_admitted(2))
  then have "ex_prohibition ''EDIT'' \<in> set (q_prohibitions q) \<and> touches (q_project q) (q_kind q) (q_scope q) (ex_prohibition ''EDIT'') = Inr True"
    using prohibition_touches [OF q(1), of "[ex_prohibition ''EDIT'']" "ex_prohibition ''EDIT''" "JStr (u ''CONSTITUTIONAL'')"
        "ex_action ''EDIT''" "JStr (u ''EDIT'')" "[JStr (u ''EDIT'')]" "ex_scope [''src/b'', ''src/a'']" "ex_scope [''src/b'']"]
    by (simp add: ex_request_fields ex_action_fields ex_prohibition_def seal_field ex_prohibition_fields)
  then have "jfield d ''decision'' = Some (JStr (u ''PROHIBITED''))"
    using touched_prohibited [OF d q(1)] by blast
  then show ?thesis
    using change_refusals [OF ex_change_request_fields(1) ex_change_request_fields(2,3), where d = d]
      admit_claim_decision [OF q(2)] d by simp
qed

theorem prohibited_never_changes_witness:
  "\<exists>e. derive_change ascii_ext (ex_change_request ex_prohibited_request JNull) = Inl e"
proof -
  have "locations_of (ex_scope [''src/b'', ''src/a'']) \<inter> locations_of (ex_scope [''src/b'']) \<noteq> {}"
    using resolved_a_b by (simp add: ex_scope_admitted(2))
  then show ?thesis
    using prohibited_never_changes [OF ex_change_request_fields(2), of ex_prohibited_request "[ex_prohibition ''EDIT'']"
        "ex_prohibition ''EDIT''" "JStr (u ''CONSTITUTIONAL'')"
        "ex_action ''EDIT''" "JStr (u ''EDIT'')" "[JStr (u ''EDIT'')]" "ex_scope [''src/b'', ''src/a'']" "ex_scope [''src/b'']"]
    by (simp add: ex_request_fields ex_action_fields ex_prohibition_def seal_field ex_prohibition_fields)
qed

end
