(* ===== verification/Clock.thy ===== *)
theory Clock
  imports InstantProps
begin

text \<open>
  The instants the freshness gates compare (\<open>observation/boundary.py\<close>): \<open>datetime.fromisoformat\<close>
  after \<open>Z\<close> is spelt as an offset, as whole microseconds since 1970. The extended form
  \<open>YYYY-MM-DD?HH:MM:SS[.f+]+HH:MM\<close> is read here; the other spellings of ISO 8601 the method accepts
  (basic form, week dates, a comma, offsets with seconds, an omitted part), and the text it refuses,
  are the argument \<open>other\<close>: the microseconds, or \<open>None\<close> for a \<open>ValueError\<close> or a missing offset.
  A fraction is cut to six digits, as the method does.
\<close>

section \<open>Reading an instant\<close>

type_synonym iso_reader = "ustr \<Rightarrow> int option"

text \<open>\<open>value.replace("Z", "+00:00")\<close>.\<close>

definition zulu_offset :: "ustr \<Rightarrow> ustr" where
  "zulu_offset v = concat (map (\<lambda>c. if c = 90 then u ''+00:00'' else [c]) v)"

definition offset_part :: "ustr \<Rightarrow> ustr" where
  "offset_part w = drop (length w - 6) w"

definition fraction_part :: "ustr \<Rightarrow> ustr" where
  "fraction_part w = take (length w - 25) (drop 19 w)"

definition extended_form :: "ustr \<Rightarrow> bool" where
  "extended_form w \<longleftrightarrow> clock_shape (\<lambda>_. True) w \<and> 25 \<le> length w
     \<and> numeric_offset (offset_part w) \<and> any_fraction (fraction_part w)"

definition fields_in_range :: "ustr \<Rightarrow> bool" where
  "fields_in_range w \<longleftrightarrow> valid_date (number_at w 0 4) (number_at w 5 2) (number_at w 8 2)
     \<and> number_at w 11 2 < 24 \<and> number_at w 14 2 < 60 \<and> number_at w 17 2 < 60"

definition clock_seconds :: "ustr \<Rightarrow> int" where
  "clock_seconds w = 86400 * (int (ordinal (number_at w 0 4) (number_at w 5 2) (number_at w 8 2))
       - int (ordinal 1970 1 1))
     + int (3600 * number_at w 11 2 + 60 * number_at w 14 2 + number_at w 17 2)"

text \<open>Six digits, the missing ones zero.\<close>

definition microseconds :: "ustr \<Rightarrow> nat" where
  "microseconds f = digits_value 0 (take 6 (f @ replicate 6 48))"

definition boundary_instant :: "iso_reader \<Rightarrow> ustr \<Rightarrow> int option" where
  "boundary_instant other v =
     (let w = zulu_offset v
      in if extended_form w \<and> fields_in_range w
         then Some (1000000 * (clock_seconds w - zone_seconds (offset_part w))
                    + int (microseconds (drop 1 (fraction_part w))))
         else other w)"

section \<open>Stored timestamps\<close>

lemma zulu_offset_last:
  assumes "\<forall>c \<in> set xs. c \<noteq> 90"
  shows "zulu_offset (xs @ [90]) = xs @ u ''+00:00''"
proof -
  have "concat (map (\<lambda>c. if c = 90 then u ''+00:00'' else [c]) xs) = xs"
    using assms by (induction xs) auto
  then show ?thesis by (simp add: zulu_offset_def)
qed

lemma take_19_clock:
  assumes "clock_shape (\<lambda>c. c = 84) v"
  shows "\<forall>c \<in> set (take 19 v). c \<noteq> 90"
proof
  fix c assume "c \<in> set (take 19 v)"
  then obtain i where i: "c = v ! i" "i < 19" by (auto simp: in_set_conv_nth)
  have dig: "v ! i < 90"
    if "(k, n) \<in> {(0, 4), (5, 2), (8, 2), (11, 2), (14, 2), (17, 2)}" "k \<le> i" "i < k + n" for k n
    using clock_digits [OF assms that] by (simp add: nth_digit_def is_digit_def)
  have sep: "i \<in> {4, 7, 10, 13, 16} \<Longrightarrow> v ! i < 90" using assms by (auto simp: clock_shape_def)
  have "v ! i < 90"
    using less_numeral_cases [OF i(2)]
    by (elim disjE) (rule dig [of 0 4] dig [of 5 2] dig [of 8 2] dig [of 11 2] dig [of 14 2] dig [of 17 2] sep; simp)+
  then show "c \<noteq> 90" using i(1) by simp
qed

lemma fraction_no_zulu: "any_fraction f \<Longrightarrow> \<forall>c \<in> set f. c \<noteq> 90"
  by (cases f) (auto simp: any_fraction_def is_digit_def list_all_iff)

lemma stored_zulu_offset:
  assumes "stored_form v"
  shows "zulu_offset v = take 19 v @ fraction_text v @ u ''+00:00''"
proof -
  have "any_fraction (fraction_text v)"
    using assms by (auto simp: stored_form_def canonical_fraction_def any_fraction_def)
  then have "\<forall>c \<in> set (take 19 v @ fraction_text v). c \<noteq> 90"
    using take_19_clock [of v] fraction_no_zulu assms by (auto simp: stored_form_def)
  from zulu_offset_last [OF this] show ?thesis
    using stored_parts(1) [OF assms] by simp
qed

lemma microseconds_floor:
  assumes "list_all is_digit f" and "length f \<le> n" and "6 \<le> n"
  shows "fraction_units n f div 10 ^ (n - 6) = microseconds f"
proof (cases "length f \<le> 6")
  case True
  have zeros: "digits_value a (replicate k 48) = a * 10 ^ k" for a k :: nat
    by (induction k arbitrary: a) (simp_all add: digits_value_def)
  have "digits_value 0 (f @ replicate k 48) = digits_value 0 f * 10 ^ k" for k
    using zeros [of "digits_value 0 f" k] by (simp add: digits_value_def)
  moreover have "take 6 (f @ replicate 6 48) = f @ replicate (6 - length f) 48"
    using True by simp
  moreover have "(10 :: nat) ^ (n - length f) = 10 ^ (6 - length f) * 10 ^ (n - 6)"
    using True assms(3) by (simp flip: power_add)
  ultimately show ?thesis
    by (simp add: microseconds_def fraction_units_def flip: mult.assoc)
next
  case False
  define a b where "a = take 6 f" and "b = drop 6 f"
  have b: "digits_value 0 b < 10 ^ length b"
    using assms(1) digits_value_bound [of b] by (simp add: b_def list_all_iff) (meson in_set_dropD)
  have f: "f = a @ b" by (simp add: a_def b_def)
  have "digits_value 0 f = digits_value 0 a * 10 ^ length b + digits_value 0 b"
    using digits_value_acc [of "digits_value 0 a" b] by (simp add: f digits_value_def)
  moreover have "length b = length f - 6" and "(10 :: nat) ^ (n - 6) = 10 ^ length b * 10 ^ (n - length f)"
    using False assms(2) by (simp_all add: b_def flip: power_add)
  moreover have "take 6 (f @ replicate 6 48) = a" using False by (simp add: a_def)
  ultimately show ?thesis
    using b by (simp add: microseconds_def fraction_units_def)
qed

lemma number_at_prefix: "i + k \<le> 19 \<Longrightarrow> 19 \<le> length v \<Longrightarrow> number_at (take 19 v @ x) i k = number_at v i k"
proof -
  assume a: "i + k \<le> 19" "19 \<le> length v"
  then have "k \<le> 19 - i" by arith
  with a show ?thesis by (simp add: number_at_def drop_take min_def)
qed

text \<open>The clock of the boundary on a stored timestamp.\<close>

lemma boundary_stored:
  assumes "stored_instant (JStr v) = Inr i"
  shows "boundary_instant other v = Some (1000000 * seconds_since_epoch i + int (microseconds (fraction_digits i)))"
proof -
  have v: "stored_form v" "parse_instant v = Inr i"
    using assms by (simp_all add: stored_instant_def split: if_splits)
  define w where "w = take 19 v @ fraction_text v @ u ''+00:00''"
  have w: "zulu_offset v = w" using stored_zulu_offset [OF v(1)] by (simp add: w_def)
  have len: "19 < length v" using v(1) by (simp add: stored_form_def clock_shape_def)
  have n: "number_at w a b = number_at v a b" if "a + b \<le> 19" for a b
    using number_at_prefix [OF that] len by (simp add: w_def)
  have parts: "offset_part w = u ''+00:00''" "fraction_part w = fraction_text v"
    using len by (simp_all add: w_def offset_part_def fraction_part_def u_Cons)
  have nth: "w ! k = v ! k" if "k < 19" for k
    using that len by (simp add: w_def nth_append)
  have frac: "any_fraction (fraction_text v)"
    using v(1) by (auto simp: stored_form_def canonical_fraction_def any_fraction_def)
  have lw: "length w = 25 + length (fraction_text v)"
    using len by (simp add: w_def u_Cons)
  have "clock_shape (\<lambda>_. True) w"
    using v(1) lw by (simp add: stored_form_def clock_shape_def nth_digit_def nth)
  then have ext: "extended_form w"
    using lw frac parts by (simp add: extended_form_def numeric_offset_def is_digit_def u_Cons)
  have "fields_in_range w" and i: "i = \<lparr> seconds_since_epoch = clock_seconds w,
      fraction_digits = strip_zeros (drop 1 (fraction_text v)) \<rparr>"
    using v(2) stored_parts(2) [OF v(1)]
    by (simp_all add: parse_instant_Inr clock_numbers_def fields_in_range_def clock_seconds_def n zone_seconds_def)
  moreover have "zone_seconds (offset_part w) = 0"
    by (simp add: parts zone_seconds_def number_at_def digits_value_def u_Cons)
  ultimately show ?thesis
    using ext stored_parts(3) [OF v(1)] by (simp add: boundary_instant_def w parts i)
qed

section \<open>Property\<close>

text \<open>C28: the clock the freshness gates compare is the exact instant of the authority grammar rounded
  down to a whole microsecond, at any number of fraction digits: it never puts a timestamp after its
  time, and it orders two timestamps wrongly only when they share a microsecond.\<close>

theorem boundary_clock_floor:
  assumes "stored_instant (JStr v) = Inr i" and "length (fraction_digits i) \<le> n" and "6 \<le> n"
  shows "boundary_instant other v = Some (instant_units n i div 10 ^ (n - 6))"
proof -
  have d: "list_all is_digit (fraction_digits i)"
    using stored_trimmed [OF assms(1)] by (simp add: trimmed_def)
  have p: "(10 :: int) ^ n = 1000000 * 10 ^ (n - 6)"
    using power_add [of "10 :: int" 6 "n - 6"] assms(3) by simp
  have "int (fraction_units n (fraction_digits i)) div 10 ^ (n - 6) = int (microseconds (fraction_digits i))"
    unfolding microseconds_floor [OF d assms(2,3), symmetric] by (simp add: zdiv_int)
  then show ?thesis
    using boundary_stored [OF assms(1)] by (simp add: instant_units_def p flip: mult.assoc)
qed

theorem boundary_clock_floor_witness:
  "boundary_instant (\<lambda>_. None) (u ''2026-06-01T00:00:00.5Z'') = Some 1780272000500000"
  using boundary_clock_floor [OF half_past, of 6 "\<lambda>_. None"]
  by (simp add: instant_units_def fraction_units_def digits_value_def u_Cons)

end
