(* ===== verification/ReflowCommit.thy ===== *)
theory ReflowCommit
  imports Clock Reflow StoreProps
begin

text \<open>
  The commit of a Reflow (\<open>reflow/commit.py\<close>): the successor state and the transition event that
  carries it, the freshness checks in front, and the store's own \<open>commit\<close> behind
  (\<open>store/commit.py\<close> passes its arguments through). The mandatory invariants and the digests of their
  definitions are those \<open>reflow/invariant_registry.py\<close> pins. The keyword \<open>records\<close> left out is the
  empty list, as are the bindings.
\<close>

section \<open>The pinned invariants\<close>

definition mandatory_gate_ids :: "string list" where
  "mandatory_gate_ids =
    [''K-001'', ''K-002'', ''K-003'', ''K-004'', ''A-001'', ''A-002'', ''A-003'', ''A-004'',
     ''A-005'', ''S-001'', ''S-002'', ''S-003'', ''S-004'', ''S-005'', ''O-001'', ''O-002'',
     ''O-003'', ''O-004'', ''D-001'', ''D-002'', ''D-003'', ''D-004'', ''C-001'', ''C-002'',
     ''C-003'', ''C-004'', ''C-005'', ''E-001'', ''E-002'', ''E-003'', ''E-004'', ''E-005'',
     ''R-001'', ''R-002'', ''R-003'', ''R-004'', ''R-005'', ''B-001'', ''B-002'', ''B-003'',
     ''B-004'', ''X-001'', ''X-002'', ''X-004'', ''P-001'', ''P-002'', ''P-003'', ''P-004'']"

definition excluded_post_reflow_ids :: "string list" where
  "excluded_post_reflow_ids = [''P-003'']"

definition expected_g19_invariant_ids :: "string list" where
  "expected_g19_invariant_ids = filter (\<lambda>i. i \<notin> set excluded_post_reflow_ids) mandatory_gate_ids"

definition invariant_definition_digests :: "(string \<times> string) list" where
  "invariant_definition_digests =
     [(''K-001'', ''0e8747f833b56ac5f1b756f280ad7d6f276597249831648a2418043022818c59''),
      (''K-002'', ''6aa9a3e018dbafd62d1e30cd02d62b01d7b9eac4e7c02503704f156cfc253067''),
      (''K-003'', ''46e88f95aa0bee9d336b5fb72cf09b38e5eebcfeca27a203d9660562835353c9''),
      (''K-004'', ''b105f6136e2d08229c9c62e61e38cf0a06f9444726f3cefa3c3cb850c17e9151''),
      (''A-001'', ''43926a695901431f5c287c2056a863cf280819c784c425ce727d0f5d232061e6''),
      (''A-002'', ''a51fd412dce483ff8b7f9a82a31a4c3a407d8822c609bea419f7a9b90c52c754''),
      (''A-003'', ''e635955491006bb0cb5e572598d54da7e4ba2dff46110e796f4a99c4b837ae08''),
      (''A-004'', ''9a991489f2aaad79165dbc9764a1006686a465ce1191fa62e76a0a7d75b30cb0''),
      (''A-005'', ''a97eb49d657f43172869aba5213532ef695f08c1d3bc6aa0f022b3ae4a999671''),
      (''S-001'', ''6931833977612105db24dc7f599121488b46637b555a3eb4fd83899263bb0402''),
      (''S-002'', ''238a2691b4afd1409c5adeb1bd0f0a8810adb17b622bcc04f31a34e9f9da0a56''),
      (''S-003'', ''77cdd71e73bfdfb716143551961674a34bdb0f53196a3f66e7a1b0d7418f0794''),
      (''S-004'', ''13c64bfd41644d2e66161721e3fd2465953c1deeb4d6bf3797f59fd0a425e727''),
      (''S-005'', ''ff65833c00a9573abfdb3f0267959151c20766a8df2a658f21850de33a96c5df''),
      (''O-001'', ''096611804717312280729c0228fb9d57d3a92e6e56b89c2b6b32b7b50962aca4''),
      (''O-002'', ''107a9ecf660648f71c4ca644eb7ccba4d965681be67b51257cc80066a524833b''),
      (''O-003'', ''7ea52536d4bbfa9ec3301144c4f959d8dc732a222bc6eebece598cff5e87e422''),
      (''O-004'', ''c9c9e0e75b05bbca76a22801229441d8f2a98a58cb222b90d61b22ef192e98f9''),
      (''D-001'', ''a06680f3239ce663e2e38ee44869dbd1cd6b0c9559d385acfb6d15b6c38520cd''),
      (''D-002'', ''282d39925938423be8a54b8405dfd79770da3f08ef00bba38b1fce80e91405c4''),
      (''D-003'', ''542d162b527417b78703dc3f9d5e61612be910410f1540a4de76d23795f42d4b''),
      (''D-004'', ''84cb64291fa9f5f000cc9b4acd784e430cf40ab61ad9317a225ff7e79da3cf28''),
      (''C-001'', ''ecc2f51d9997d2d70b142f6f0d9025f02fa952d3aef21492a73fa18fdffa11fe''),
      (''C-002'', ''871dc489bb81e0481778fb825c9d6e464c58b5009dda254d07d0bbe80a06564a''),
      (''C-003'', ''80825e80c5fd5a704d7d1aa804e8f255749bbeabdb10358b38a6b9ffae5cc156''),
      (''C-004'', ''72d5fca9ef5106bdd3b92ecee60442e42a955c1a9a1f078c5b4d65d1fe18f1dd''),
      (''C-005'', ''436317db9f806546f159b73603a865d8dd3921032c2f454d9499d633f178e9c4''),
      (''E-001'', ''e8e89561604902c6b470d85fd8b9624fb36404041a38abb2bd07dba1acf5acdb''),
      (''E-002'', ''c8c3232b895729d9dddc2a23ff29cfe54c85551e5aabf4d874fdb08264fc2a40''),
      (''E-003'', ''d12105d9ee60d5a168d88ac47d426315f5d74aad1cb5f8afb8fdc6a9f1370998''),
      (''E-004'', ''3e9f77b43efdf0fbbd3b1dc06dcf472595df5951ee12f9721773b367ed489d58''),
      (''E-005'', ''c287549c9995b62e3097a7c0811dc91bc989b97f88d30989df627bd9c3a1ff37''),
      (''R-001'', ''b8b34a0a81c3b38a033753498713de323d187512265e3474baad7f2f1dfdd4df''),
      (''R-002'', ''a12a5bb1b7fd98ed1e81b52cd9eac6ad9569b61d1a4885aa91c4a4dc2d45784b''),
      (''R-003'', ''fce31a6e7662601d27b2f8f3c18419fa3a49c1ccfc2641a78b83867f8a902b80''),
      (''R-004'', ''4be547ac580171def53836caa57d2da2e3d372c0c4916b1410d5128c2fb016cf''),
      (''R-005'', ''b25706da33260e672ce9179acc3c2043793784bb772aaeb9f5bb097135ebcb27''),
      (''B-001'', ''787318873c5e3753f7ea32ddaec847023f19bd72342c515c9b3b4f95bceb8966''),
      (''B-002'', ''4b02d7f908c9ae41b67af9be29943af4da0f800f111313094d31076202a7e1cf''),
      (''B-003'', ''9cfc888711261d0321abc7f281fae5b1c0ec987d96cdaf33101986e493946f4d''),
      (''B-004'', ''ea683cec99dc73bd775d5683e2dcf67effbc11156765bc189e3571fbf6766e18''),
      (''X-001'', ''6eb2f4cdf243518382b2dbbdfd7de47bff2314c9f87a3cef7e57c40894d57369''),
      (''X-002'', ''0eef84a3bd3060158e7ea8fc46924dcc4b3a5ba5f6ce1470dbe15307de10cfd8''),
      (''X-004'', ''072f366e9d78f36f0f260b7157a69f722f77e846104864998a3f9068664330b7''),
      (''P-001'', ''428a3572e180b9b1eb97368f00301d2b56fa64362518b87f8e194da2b140309b''),
      (''P-002'', ''a194b2ebac692ad3ee03b19f213294e9a756c125e25e2fd814e18ccf1af21fc8''),
      (''P-003'', ''f507084d44f680da2609c1ca86726430210e5ef1f948c59ddd116b0687e613bf''),
      (''P-004'', ''1f7b336781608c17615edb0901244eb4fe880cb681390890063a14c75f187a97'')]"

text \<open>\<open>v.get(k) or {}\<close>.\<close>

fun falsy :: "json \<Rightarrow> bool" where
  "falsy JNull = True"
| "falsy (JBool b) = (\<not> b)"
| "falsy (JInt i) = (i = 0)"
| "falsy (JFloat s) = list_all (\<lambda>c. c < 49 \<or> 57 < c) (takeWhile (\<lambda>c. c \<noteq> 101 \<and> c \<noteq> 69) s)"
| "falsy (JStr s) = (s = [])"
| "falsy (JList xs) = (xs = [])"
| "falsy (JObj kvs) = (kvs = [])"
| "falsy _ = False"

definition get_or_empty :: "json \<Rightarrow> string \<Rightarrow> store_error + json" where
  "get_or_empty v k = bindE (get_field v k) (\<lambda>x.
     Inr (case x of None \<Rightarrow> JObj [] | Some y \<Rightarrow> if falsy y then JObj [] else y))"

text \<open>\<open>x in frozenset\<close>: a list or a dict does not hash.\<close>

fun pinned_id :: "json option \<Rightarrow> store_error + string option" where
  "pinned_id (Some (JStr s)) = Inr (find (\<lambda>i. u i = s) expected_g19_invariant_ids)"
| "pinned_id (Some (JList _)) = Inl PyError"
| "pinned_id (Some (JObj _)) = Inl PyError"
| "pinned_id (Some (JObjBad _)) = Inl PyError"
| "pinned_id (Some JOther) = Inl PyError"
| "pinned_id _ = Inr None"

definition binding_matches :: "json \<Rightarrow> store_error + bool" where
  "binding_matches binding =
     bindE (get_or_empty binding ''invariant_ref'') (\<lambda>ref.
     bindE (get_field ref ''kind'') (\<lambda>kind.
     if \<not> is_some kind (JStr (u ''kernel_invariant'')) then Inr True else
     bindE (get_field ref ''id'') (\<lambda>identity.
     bindE (pinned_id identity) (\<lambda>pinned.
     case pinned of
       None \<Rightarrow> Inr True
     | Some i \<Rightarrow>
         bindE (get_or_empty binding ''invariant_definition_ref'') (\<lambda>d.
         bindE (get_field d ''invariant_definition_sha256'') (\<lambda>actual.
         Inr (\<exists>s. map_of invariant_definition_digests i = Some s
           \<and> actual = Some (JStr (u ''sha256:'' @ u s)))))))))"

text \<open>The loop stops at the first binding that disagrees.\<close>

fun mandatory_bindings_still_match :: "json list \<Rightarrow> store_error + bool" where
  "mandatory_bindings_still_match [] = Inr True"
| "mandatory_bindings_still_match (b # bs) =
     bindE (binding_matches b) (\<lambda>ok. if ok then mandatory_bindings_still_match bs else Inr False)"

section \<open>The transition\<close>

definition head_ref :: "ustr \<Rightarrow> json" where
  "head_ref tx = JObj [(u ''kind'', JStr (u ''state_transition'')), (u ''id'', JStr tx)]"

definition next_project_state :: "json \<Rightarrow> json \<Rightarrow> json \<Rightarrow> json \<Rightarrow> json \<Rightarrow> json \<Rightarrow> json \<Rightarrow> json \<Rightarrow> json list \<Rightarrow> ustr \<Rightarrow> json" where
  "next_project_state version project objective revision before_fp semantic_state fp metadata evidence tx =
     JObj (map (\<lambda>(k, v). (u k, v))
     [(''schema_version'', version), (''project_id'', project), (''objective_revision_id'', objective),
      (''state_revision'', revision), (''previous_state_fingerprint'', before_fp),
      (''semantic_state'', semantic_state), (''semantic_fingerprint'', fp), (''state_metadata'', metadata),
      (''evidence_refs'', JList evidence), (''lineage_head_ref'', head_ref tx)])"

definition transition_event :: "ustr \<Rightarrow> json \<Rightarrow> json \<Rightarrow> json \<Rightarrow> json \<Rightarrow> json \<Rightarrow> json \<Rightarrow> json list \<Rightarrow> ustr \<Rightarrow> json" where
  "transition_event tx project from_revision to_revision before_fp fp state evidence at =
     JObj (map (\<lambda>(k, v). (u k, v))
     [(''schema_version'', JStr (u ''0.1'')), (''transaction_id'', JStr tx), (''event_type'', JStr (u ''TRANSITION'')),
      (''project_id'', project), (''from_revision'', from_revision), (''to_revision'', to_revision),
      (''before_fingerprint'', before_fp), (''after_fingerprint'', fp), (''after_state'', state),
      (''evidence_refs'', JList evidence), (''committed_at'', JStr at)])"

definition build_state_transition ::
  "ext \<Rightarrow> json \<Rightarrow> json \<Rightarrow> ustr \<Rightarrow> json list \<Rightarrow> ustr \<Rightarrow> store_error + json \<times> json" where
  "build_state_transition E before next_semantic_state tx evidence at =
     bindE (mapErr CanonError (fingerprint_semantic_state E next_semantic_state)) (\<lambda>f.
     bindE (field before ''state_metadata'') (\<lambda>metadata.
     bindE (ensureE (is_obj metadata) PyError) (\<lambda>_.
     bindE (field before ''schema_version'') (\<lambda>version.
     bindE (field before ''project_id'') (\<lambda>project.
     bindE (field before ''objective_revision_id'') (\<lambda>objective.
     bindE (field before ''state_revision'') (\<lambda>revision.
     bindE (add_one revision) (\<lambda>next_revision.
     bindE (field before ''semantic_fingerprint'') (\<lambda>before_fp.
     let fp = fingerprint_dict f;
         state = next_project_state version project objective next_revision before_fp next_semantic_state fp
           (aset ''recorded_at'' (JStr at) metadata) evidence tx
     in Inr (state, transition_event tx project revision next_revision before_fp fp state evidence at))))))))))"

section \<open>The commit\<close>

text \<open>\<open>StoreFailed\<close> is an exception of the store or of Python, \<open>InvalidInstant\<close> the \<open>ValueError\<close> of
  \<open>instant\<close>.\<close>

datatype reflow_commit_error = InvalidReflow | StaleReflow | InvalidInstant | StoreFailed store_error

abbreviation of_store :: "store_error + 'a \<Rightarrow> reflow_commit_error + 'a" where
  "of_store \<equiv> mapErr StoreFailed"

definition check_expiry :: "iso_reader \<Rightarrow> ustr \<Rightarrow> ustr option \<Rightarrow> reflow_commit_error + unit" where
  "check_expiry other at expires_at =
     (case expires_at of
        None \<Rightarrow> Inr ()
      | Some e \<Rightarrow>
          bindE (orE (boundary_instant other at) InvalidInstant) (\<lambda>now.
          bindE (orE (boundary_instant other e) InvalidInstant) (\<lambda>deadline.
          ensureE (now \<le> deadline) StaleReflow)))"

definition reflow_guard ::
  "iso_reader \<Rightarrow> ustr \<Rightarrow> json \<Rightarrow> ustr \<Rightarrow> ustr option \<Rightarrow> json list \<Rightarrow> reflow_commit_error + unit" where
  "reflow_guard other pid before at expires_at bindings =
     bindE (of_store (differs before ''project_id'' (JStr pid))) (\<lambda>foreign.
     bindE (ensureE (\<not> foreign) InvalidReflow) (\<lambda>_.
     bindE (check_expiry other at expires_at) (\<lambda>_.
     bindE (of_store (mandatory_bindings_still_match bindings)) (\<lambda>pinned.
     ensureE pinned StaleReflow))))"

text \<open>A revision that is a number: the successor's was computed from it.\<close>

fun revision_int :: "json \<Rightarrow> int" where
  "revision_int (JInt i) = i"
| "revision_int (JBool b) = (if b then 1 else 0)"
| "revision_int _ = 0"

text \<open>\<open>commit_state_transition\<close> of \<open>store/commit.py\<close>.\<close>

definition commit_state_transition ::
  "ext \<Rightarrow> ustr \<Rightarrow> json \<Rightarrow> json \<Rightarrow> json \<Rightarrow> json \<Rightarrow> record_arg list \<Rightarrow> fault \<Rightarrow> json op" where
  "commit_state_transition E pid expected_revision expected_fingerprint next_state transition records fault =
     commit E pid (revision_int expected_revision) expected_fingerprint next_state transition records fault"

definition commit_reflow :: "ext \<Rightarrow> iso_reader \<Rightarrow> ustr \<Rightarrow> json \<Rightarrow> json \<Rightarrow> ustr \<Rightarrow> json list \<Rightarrow> ustr
    \<Rightarrow> record_arg list \<Rightarrow> ustr option \<Rightarrow> json list \<Rightarrow> fault \<Rightarrow> fs \<Rightarrow> (reflow_commit_error + json \<times> json) \<times> fs" where
  "commit_reflow E other pid before next_semantic_state tx evidence at records expires_at bindings fault fs =
     (case bindE (reflow_guard other pid before at expires_at bindings) (\<lambda>_.
           bindE (of_store (build_state_transition E before next_semantic_state tx evidence at)) (\<lambda>(state, event).
           bindE (of_store (field before ''state_revision'')) (\<lambda>revision.
           bindE (of_store (field before ''semantic_fingerprint'')) (\<lambda>before_fp.
           Inr (revision, before_fp, state, event))))) of
        Inl e \<Rightarrow> (Inl e, fs)
      | Inr (revision, before_fp, state, event) \<Rightarrow>
          (case commit_state_transition E pid revision before_fp state event records fault fs of
             (Inl e, fs') \<Rightarrow> (Inl (StoreFailed e), fs')
           | (Inr committed, fs') \<Rightarrow> (Inr (committed, head_ref tx), fs')))"

end
