(* ===== verification/ReflowCommitProps.thy ===== *)
theory ReflowCommitProps
  imports ReflowCommit
begin

text \<open>
  What the commit of a Reflow guarantees together with the store: the transition it builds passes
  the store's own verification, a commit that goes through is the next state of the history, and a
  stale one writes nothing.
\<close>

section \<open>The records it builds\<close>

lemma state_fields:
  fixes a b c d e f g h i tx
  defines "s \<equiv> next_project_state a b c d e f g h i tx"
  shows "field s ''schema_version'' = Inr a" "field s ''project_id'' = Inr b" "field s ''state_revision'' = Inr d"
    "field s ''previous_state_fingerprint'' = Inr e" "jfield s ''semantic_state'' = Some f"
    "field s ''semantic_fingerprint'' = Inr g" "field s ''lineage_head_ref'' = Inr (head_ref tx)"
  by (simp_all add: s_def next_project_state_def field_def jfield_def)

lemma event_fields:
  fixes tx b c d e f s i at
  defines "v \<equiv> transition_event tx b c d e f s i at"
  shows "field v ''project_id'' = Inr b" "field v ''from_revision'' = Inr c" "field v ''to_revision'' = Inr d"
    "field v ''before_fingerprint'' = Inr e" "field v ''after_fingerprint'' = Inr f"
    "field v ''after_state'' = Inr s" "field v ''event_type'' = Inr (JStr (u ''TRANSITION''))"
    "tx_of v = Some tx"
  by (simp_all add: v_def transition_event_def field_def jfield_def tx_of_def)

lemma built:
  assumes "build_state_transition E before ns tx ev at = Inr (state, event)"
  obtains f metadata version project objective revision next_revision before_fp where
    "fingerprint_semantic_state E ns = Inr f"
    "field before ''project_id'' = Inr project" "field before ''state_revision'' = Inr revision"
    "add_one revision = Inr next_revision" "field before ''semantic_fingerprint'' = Inr before_fp"
    "state = next_project_state version project objective next_revision before_fp ns (fingerprint_dict f)
       (aset ''recorded_at'' (JStr at) metadata) ev tx"
    "event = transition_event tx project revision next_revision before_fp (fingerprint_dict f) state ev at"
  using assms by (auto simp: build_state_transition_def Let_def)

lemma built_state_valid:
  assumes "fingerprint_semantic_state E ns = Inr f"
    and "s = next_project_state version project objective r fp ns (fingerprint_dict f) metadata ev tx"
    and "py_eq project (JStr pid)" and "ext_schema E project_state_schema_id s"
  shows "validate_state E pid s = Inr s"
proof -
  have n: "jfield s ''semantic_state'' = Some ns" by (simp add: assms(2) state_fields)
  have fp: "fingerprint_project_state E s = Inr f"
    using assms(1,4) n by (auto simp: fingerprint_project_state_iff)
  then obtain b where "canonical_semantic_state_bytes E s = Inr b"
    by (auto simp: fingerprint_project_state_def)
  moreover have "differs s ''project_id'' (JStr pid) = Inr False"
    "differs s ''semantic_fingerprint'' (fingerprint_dict f) = Inr False"
    using assms(3) by (simp_all add: differs_def assms(2) state_fields)
  ultimately show ?thesis using fp by (simp add: validate_state_def)
qed

lemma built_verifies:
  assumes b: "build_state_transition E before ns tx ev at = Inr (state, event)"
    and p: "differs before ''project_id'' (JStr pid) = Inr False"
    and s: "ext_schema E project_state_schema_id state" and t: "ext_schema E transition_schema_id event"
  shows "validate_state E pid state = Inr state \<and> verify_event E pid event (Some before) = Inr state"
proof -
  obtain f metadata version project objective revision next_revision before_fp where
    f: "fingerprint_semantic_state E ns = Inr f"
    and before: "field before ''project_id'' = Inr project" "field before ''state_revision'' = Inr revision"
      "add_one revision = Inr next_revision" "field before ''semantic_fingerprint'' = Inr before_fp"
    and state: "state = next_project_state version project objective next_revision before_fp ns (fingerprint_dict f)
       (aset ''recorded_at'' (JStr at) metadata) ev tx"
    and event: "event = transition_event tx project revision next_revision before_fp (fingerprint_dict f) state ev at"
    by (rule built [OF b])
  have pid: "py_eq project (JStr pid)" using p before(1) by (auto simp: differs_def)
  have v: "validate_state E pid state = Inr state" by (rule built_state_valid [OF f state pid s])
  have sf: "field state ''semantic_fingerprint'' = Inr (fingerprint_dict f)"
    "field state ''state_revision'' = Inr next_revision"
    "field state ''previous_state_fingerprint'' = Inr before_fp"
    by (simp_all add: state state_fields)
  have ef: "field event ''project_id'' = Inr project" "field event ''from_revision'' = Inr revision"
    "field event ''to_revision'' = Inr next_revision" "field event ''before_fingerprint'' = Inr before_fp"
    "field event ''after_fingerprint'' = Inr (fingerprint_dict f)" "field event ''after_state'' = Inr state"
    "field event ''event_type'' = Inr (JStr (u ''TRANSITION''))"
    by (simp_all add: event event_fields)
  have "verify_event E pid event (Some before) = Inr state"
    using t pid by (simp add: verify_event_def validateS_def validate_def ef sf v before differs_def)
  with v show ?thesis by simp
qed

section \<open>A Reflow the store will take\<close>

text \<open>What a caller of \<open>commit_reflow\<close> on a settled store at state \<open>st\<close> has: the guards pass, the records
  it builds are admitted by their schemas and can be written and read back (as \<open>e\<close>, giving \<open>st'\<close>), the
  transaction is a fresh one, and the immutable records can be staged. Nothing of the binding between the
  two states is assumed: \<open>built_verifies\<close> has it.\<close>

definition reflow_ready :: "ext \<Rightarrow> iso_reader \<Rightarrow> ustr \<Rightarrow> fs \<Rightarrow> json list \<Rightarrow> json \<Rightarrow> json \<Rightarrow> ustr \<Rightarrow> json list
    \<Rightarrow> ustr \<Rightarrow> record_arg list \<Rightarrow> ustr option \<Rightarrow> json list \<Rightarrow> json \<Rightarrow> json \<Rightarrow> json \<Rightarrow> json \<Rightarrow> bool" where
  "reflow_ready E other pid fs es st ns tx ev at records expires_at bindings state event e st' \<longleftrightarrow>
     reflow_guard other pid st at expires_at bindings = Inr ()
     \<and> build_state_transition E st ns tx ev at = Inr (state, event)
     \<and> (\<exists>r. field st ''state_revision'' = Inr (JInt r))
     \<and> ext_schema E project_state_schema_id state \<and> ext_schema E transition_schema_id event
     \<and> tx \<noteq> genesis_transaction_id \<and> Some tx \<notin> tx_of ` set es \<and> map_of (fs_recovery fs) tx = None
     \<and> canonical_tree E [] event = Inr e \<and> (\<exists>b. canonical E event = Inr b) \<and> line_safe e
     \<and> tx_of e = Some tx \<and> verify_event E pid e (Some st) = Inr st'
     \<and> (\<exists>b. canonical E st' = Inr b) \<and> (\<exists>b. canonical E state = Inr b)
     \<and> (\<exists>staged seen. foldE (stage_step E fs) ([], []) records = Inr (staged, seen)
          \<and> (\<forall>kb \<in> set staged. partition_stem (staged_stem (fst (fst kb)) (snd (fst kb))) = fst kb)
          \<and> (\<exists>m. canonical E (manifest_json (sort seen)) = Inr m))"

lemma guard_project:
  "reflow_guard other pid before at expires_at bindings = Inr () \<Longrightarrow> differs before ''project_id'' (JStr pid) = Inr False"
  by (auto simp: reflow_guard_def)

lemma reflow_ready_store:
  assumes "reflow_ready E other pid fs es st ns tx ev at records expires_at bindings state event e st'"
  obtains r fp where "field st ''state_revision'' = Inr (JInt r)" "field st ''semantic_fingerprint'' = Inr fp"
    "ready E pid fs es st r fp state event records tx e st'"
proof -
  have b: "build_state_transition E st ns tx ev at = Inr (state, event)"
    and g: "reflow_guard other pid st at expires_at bindings = Inr ()"
    and sch: "ext_schema E project_state_schema_id state" "ext_schema E transition_schema_id event"
    using assms by (simp_all add: reflow_ready_def)
  obtain r where r: "field st ''state_revision'' = Inr (JInt r)"
    using assms by (auto simp: reflow_ready_def)
  obtain fp where fp: "field st ''semantic_fingerprint'' = Inr fp" and tx: "tx_of event = Some tx"
    using built [OF b] event_fields(8) by metis
  have "ready E pid fs es st r fp state event records tx e st'"
    using assms built_verifies [OF b guard_project [OF g] sch] r fp tx
    unfolding ready_def reflow_ready_def by (simp add: differs_def)
  with r fp show thesis by (rule that)
qed

lemma commit_reflow_run:
  assumes "reflow_ready E other pid fs es st ns tx ev at records expires_at bindings state event e st'"
    and "field st ''state_revision'' = Inr (JInt r)" and "field st ''semantic_fingerprint'' = Inr fp"
  shows "commit_reflow E other pid st ns tx ev at records expires_at bindings fault fs =
    (case commit E pid r fp state event records fault fs of
       (Inl x, fs') \<Rightarrow> (Inl (StoreFailed x), fs') | (Inr s, fs') \<Rightarrow> (Inr (s, head_ref tx), fs'))"
proof -
  have "build_state_transition E st ns tx ev at = Inr (state, event)"
    "reflow_guard other pid st at expires_at bindings = Inr ()"
    using assms(1) by (simp_all add: reflow_ready_def)
  then show ?thesis
    using assms(2,3) by (simp add: commit_reflow_def commit_state_transition_def)
qed

section \<open>Properties\<close>

text \<open>C16: the transition a Reflow builds passes the store's verification against the state it was built
  from, by construction: whatever the next semantic state, the evidence, the instant and the
  transaction id, once the two records are admitted by their schemas the store finds their
  revisions, fingerprints and project right and reads back the state that was built.\<close>

theorem built_transition_accepted:
  assumes "build_state_transition E before ns tx ev at = Inr (state, event)"
    and "differs before ''project_id'' (JStr pid) = Inr False"
    and "ext_schema E project_state_schema_id state" and "ext_schema E transition_schema_id event"
  shows "verify_event E pid event (Some before) = Inr state
    \<and> field state ''previous_state_fingerprint'' = field before ''semantic_fingerprint''
    \<and> field state ''lineage_head_ref'' = Inr (head_ref tx) \<and> tx_of event = Some tx"
proof -
  have "field state ''previous_state_fingerprint'' = field before ''semantic_fingerprint''
    \<and> field state ''lineage_head_ref'' = Inr (head_ref tx) \<and> tx_of event = Some tx"
    by (rule built [OF assms(1)]) (simp add: state_fields event_fields)
  then show ?thesis using built_verifies [OF assms] by blast
qed

text \<open>C2: a Reflow is committed entirely or not at all. Run to the end it returns the state it built
  and the reference to its transition, which the history now ends with; cut off at any boundary of the
  store's commit it leaves the old state, and recovery completes it exactly when its intent was
  durable.\<close>

theorem reflow_atomic:
  assumes "nfc_idempotent E" and "settled E pid fs es st"
    and "reflow_ready E other pid fs es st ns tx ev at records expires_at bindings state event e st'"
  shows "(\<exists>fs'. commit_reflow E other pid st ns tx ev at records expires_at bindings no_fault fs
        = (Inr (state, head_ref tx), fs') \<and> settled E pid fs' (es @ [e]) st' \<and> reconstruct E pid fs' = Inr st')
    \<and> (\<exists>fs' fs''. commit_reflow E other pid st ns tx ev at records expires_at bindings (crash_at k) fs
        = (Inl (StoreFailed SimulatedCrash), fs') \<and> reconstruct E pid fs' = Inr st
      \<and> recover E pid fs' = (Inr (if past_intent k then st' else st), fs'')
      \<and> settled E pid fs'' (if past_intent k then es @ [e] else es) (if past_intent k then st' else st))"
proof (rule reflow_ready_store [OF assms(3)])
  fix r fp
  assume f: "field st ''state_revision'' = Inr (JInt r)" "field st ''semantic_fingerprint'' = Inr fp"
    and r: "ready E pid fs es st r fp state event records tx e st'"
  note run = commit_reflow_run [OF assms(3) f]
  obtain fs1 where "commit E pid r fp state event records no_fault fs = (Inr state, fs1)"
    "settled E pid fs1 (es @ [e]) st'"
    using commit_settles [OF assms(1,2) r] by blast
  moreover obtain fs2 fs3 where "commit E pid r fp state event records (crash_at k) fs = (Inl SimulatedCrash, fs2)"
    "reconstruct E pid fs2 = Inr st" "recover E pid fs2 = (Inr (if past_intent k then st' else st), fs3)"
    "settled E pid fs3 (if past_intent k then es @ [e] else es) (if past_intent k then st' else st)"
    using commit_crash_recover [OF assms(1,2) r, of k] by blast
  ultimately show ?thesis using settled_reconstruct by (simp add: run)
qed

text \<open>C20: a Reflow whose Evaluation has expired by the time of its commit, or whose invariant bindings no
  longer name the pinned definitions, is refused and leaves every file as it was. The second holds whether
  the Evaluation expires or not and whether it has or not. The refusal is a stale Reflow; it is an invalid
  instant when an expiry is to be compared and one of the two instants cannot be read.\<close>

theorem stale_reflow_writes_nothing:
  assumes "differs before ''project_id'' (JStr pid) = Inr False"
    and "(\<exists>x now deadline. expires_at = Some x \<and> boundary_instant other at = Some now
        \<and> boundary_instant other x = Some deadline \<and> deadline < now)
      \<or> mandatory_bindings_still_match bindings = Inr False"
  shows "commit_reflow E other pid before ns tx ev at records expires_at bindings fault fs
    = (Inl (case expires_at of None \<Rightarrow> StaleReflow
         | Some x \<Rightarrow> if boundary_instant other at = None \<or> boundary_instant other x = None then InvalidInstant
             else StaleReflow), fs)"
  using assms
  by (auto simp: commit_reflow_def reflow_guard_def check_expiry_def ensureE_def orE_def split: option.splits)

end
