(* ===== verification/ReflowExample.thy ===== *)
theory ReflowExample
  imports ReflowCommitProps
begin

text \<open>
  A Reflow on the concrete project of \<open>StoreExample\<close>: from the state of its genesis to the state whose
  counter is one, before the deadline of its Evaluation.
\<close>

section \<open>Sorted keys\<close>

lemma jfield_sort_keys:
  assumes "plain_any E b v"
  shows "jfield (sort_keys v) k = map_option sort_keys (jfield v k)"
proof (cases v)
  case (JObj kvs)
  have d: "distinct (map fst (map (\<lambda>(k, v). (k, sort_keys v)) kvs))"
    using assms JObj by (simp add: comp_def split_beta)
  have "map_of (map (\<lambda>(k, v). (k, sort_keys v)) kvs) x = map_option sort_keys (map_of kvs x)" for x
    by (induction kvs) auto
  then show ?thesis
    unfolding JObj sort_keys.simps jfield_def jget.simps map_of_sort_key [OF d] .
qed (simp_all add: jfield_def)

lemma field_sort_keys:
  "plain_any E b v \<Longrightarrow> field v k = Inr x \<Longrightarrow> field (sort_keys v) k = Inr (sort_keys x)"
  by (auto simp: field_def jfield_sort_keys)

section \<open>The transition\<close>

definition ex_at :: ustr where
  "ex_at = u ''2026-06-01T00:00:00.5Z''"

definition ex_tx :: ustr where
  "ex_tx = u ''TX-REFLOW''"

definition ex_digest_1 :: semantic_fingerprint where
  "ex_digest_1 = digest_of (map of_nat (dumps (ex_semantic 1)))"

definition ex_next :: json where
  "ex_next = next_project_state (JStr (u ''0.1'')) (JStr prj) (JStr (u ''OBJ-1'')) (JInt 1) (ex_fp 0) (ex_semantic 1)
     (fingerprint_dict ex_digest_1) (JObj [(u ''recorded_at'', JStr ex_at)]) [] ex_tx"

definition ex_event :: json where
  "ex_event = transition_event ex_tx (JStr prj) (JInt 0) (JInt 1) (ex_fp 0) (fingerprint_dict ex_digest_1) ex_next [] ex_at"

lemma ex_digest_1: "fingerprint_semantic_state ascii_ext (ex_semantic 1) = Inr ex_digest_1"
  using plain_canonical [of ascii_ext "ex_semantic 1"]
  by (simp add: fingerprint_semantic_state_iff ex_digest_1_def)

lemma ex_build:
  "build_state_transition ascii_ext (ex_state 0 JNull) (ex_semantic 1) ex_tx [] ex_at = Inr (ex_next, ex_event)"
proof -
  have "field (ex_state 0 JNull) ''schema_version'' = Inr (JStr (u ''0.1''))"
    "field (ex_state 0 JNull) ''project_id'' = Inr (JStr prj)"
    "field (ex_state 0 JNull) ''objective_revision_id'' = Inr (JStr (u ''OBJ-1''))"
    by (simp_all add: field_def jfield_def ex_state_def)
  then show ?thesis
    by (simp add: build_state_transition_def ex_digest_1 ex_state_fields Let_def ex_next_def ex_event_def)
qed

lemma ex_sorted: "sort_keys (fingerprint_dict ex_digest_1) = ex_fp 1" "sort_keys (ex_fp 0) = ex_fp 0"
  "sort_keys (ex_semantic 1) = ex_semantic 1"
  by (simp_all add: fingerprint_dict_def ex_fp_def ex_semantic_def ex_digest_1_def u_Cons)

lemma ex_plain_dict: "plain_any ascii_ext False (fingerprint_dict ex_digest_1)" "plain_any ascii_ext False (ex_fp 0)"
  "plain_any ascii_ext False (ex_semantic 1)"
  using ex_keys_not_secret by (simp_all add: fingerprint_dict_def ex_fp_def ex_semantic_def ex_digest_1_def u_Cons)

lemma ex_set_like: "k \<in> u ` {''after_fingerprint'', ''after_state'', ''before_fingerprint'', ''semantic_state'',
    ''semantic_fingerprint'', ''previous_state_fingerprint'', ''state_metadata'', ''lineage_head_ref''}
    \<Longrightarrow> k \<notin> set set_like_fields"
  by (auto simp: set_like_fields_def)

lemma ex_plain_next: "plain_any ascii_ext False ex_next"
  using ex_keys_not_secret ex_plain_dict ex_set_like
  by (simp add: ex_next_def next_project_state_def head_ref_def prj_def ex_tx_def ex_at_def u_Cons)

lemma ex_plain_event: "plain_any ascii_ext False ex_event"
  using ex_keys_not_secret ex_plain_dict ex_plain_next ex_set_like
  by (simp add: ex_event_def transition_event_def prj_def ex_tx_def ex_at_def u_Cons)

text \<open>The event and the state as they are read back.\<close>

lemma ex_next_read:
  "field (sort_keys ex_next) ''project_id'' = Inr (JStr prj)"
  "field (sort_keys ex_next) ''state_revision'' = Inr (JInt 1)"
  "field (sort_keys ex_next) ''semantic_fingerprint'' = Inr (ex_fp 1)"
  "field (sort_keys ex_next) ''previous_state_fingerprint'' = Inr (ex_fp 0)"
  "jfield (sort_keys ex_next) ''semantic_state'' = Some (ex_semantic 1)"
  using field_sort_keys [OF ex_plain_next] jfield_sort_keys [OF ex_plain_next, of "''semantic_state''"]
  by (simp_all add: ex_next_def state_fields ex_sorted)

lemma ex_next_valid: "validate_state ascii_ext prj (sort_keys ex_next) = Inr (sort_keys ex_next)"
proof -
  have fp: "fingerprint_project_state ascii_ext (sort_keys ex_next) = Inr ex_digest_1"
    using ex_digest_1 ex_next_read(5) by (simp add: fingerprint_project_state_iff)
  then obtain b where "canonical_semantic_state_bytes ascii_ext (sort_keys ex_next) = Inr b"
    by (auto simp: fingerprint_project_state_def)
  moreover have "py_eq (ex_fp 1) (fingerprint_dict ex_digest_1)" using ex_fp_eq by (simp add: ex_digest_1_def)
  ultimately show ?thesis using fp by (simp add: validate_state_def differs_def ex_next_read)
qed

lemma ex_event_read:
  "field (sort_keys ex_event) ''after_state'' = Inr (sort_keys ex_next)"
  "field (sort_keys ex_event) ''project_id'' = Inr (JStr prj)"
  "field (sort_keys ex_event) ''after_fingerprint'' = Inr (ex_fp 1)"
  "field (sort_keys ex_event) ''before_fingerprint'' = Inr (ex_fp 0)"
  "field (sort_keys ex_event) ''event_type'' = Inr (JStr (u ''TRANSITION''))"
  "field (sort_keys ex_event) ''from_revision'' = Inr (JInt 0)"
  "field (sort_keys ex_event) ''to_revision'' = Inr (JInt 1)"
  using field_sort_keys [OF ex_plain_event] by (simp_all add: ex_event_def event_fields ex_sorted)

lemma ex_event_verifies:
  "verify_event ascii_ext prj (sort_keys ex_event) (Some (ex_state 0 JNull)) = Inr (sort_keys ex_next)"
  by (simp add: verify_event_def validateS_def validate_def ex_event_read ex_next_valid ex_next_read
      ex_state_fields differs_def)

lemma ex_event_tx: "tx_of ex_event = Some ex_tx" "tx_of (sort_keys ex_event) = Some ex_tx"
proof -
  show t: "tx_of ex_event = Some ex_tx" by (simp add: ex_event_def event_fields)
  then show "tx_of (sort_keys ex_event) = Some ex_tx"
    using jfield_sort_keys [OF ex_plain_event, of "''transaction_id''"]
    by (auto simp: tx_of_def split: option.splits json.splits)
qed

lemma six_digits: "replicate 5 (c :: nat) = [c, c, c, c, c]" "replicate 6 (c :: nat) = [c, c, c, c, c, c]"
  by (simp_all add: eval_nat_numeral)

lemma ex_at_clock: "boundary_instant other ex_at = Some 1780272000500000"
  using boundary_stored [OF half_past] by (simp add: ex_at_def microseconds_def digits_value_def six_digits u_Cons)

lemma ex_guard: "reflow_guard (\<lambda>_. None) prj (ex_state 0 JNull) ex_at (Some ex_at) [] = Inr ()"
proof -
  have "field (ex_state 0 JNull) ''project_id'' = Inr (JStr prj)" by (simp add: field_def jfield_def ex_state_def)
  then show ?thesis by (simp add: reflow_guard_def differs_def check_expiry_def ex_at_clock)
qed

lemma ex_reflow_ready: "reflow_ready ascii_ext (\<lambda>_. None) prj ex_store [ex_genesis ex_rid] (ex_state 0 JNull)
    (ex_semantic 1) ex_tx [] ex_at [ex_record] (Some ex_at) [] ex_next ex_event (sort_keys ex_event) (sort_keys ex_next)"
proof -
  have staged: "\<exists>staged seen. foldE (stage_step ascii_ext ex_store) ([], []) [ex_record] = Inr (staged, seen)
      \<and> (\<forall>kb \<in> set staged. partition_stem (staged_stem (fst (fst kb)) (snd (fst kb))) = fst kb)
      \<and> (\<exists>m. canonical ascii_ext (manifest_json (sort seen)) = Inr m)"
    using ex_ready by (simp add: ready_def)
  have tree: "canonical_tree ascii_ext [] ex_event = Inr (sort_keys ex_event)"
    by (rule plain_any_tree [OF nfc_ascii_example ex_plain_event]) (simp add: set_like_def)
  have bytes: "\<exists>b. canonical ascii_ext v = Inr b" if "plain_any ascii_ext False v" for v
    using plain_any_canonical [OF nfc_ascii_example that] by (simp add: canonical_def)
  have sorted: "plain ascii_ext False (sort_keys v)" if "plain_any ascii_ext False v" for v
    using that by (rule plain_sort_keys)
  have "ex_tx \<noteq> genesis_transaction_id" by (simp add: ex_tx_def genesis_transaction_id_def)
  moreover have "\<exists>b. canonical ascii_ext (sort_keys ex_next) = Inr b"
    using plain_canonicalS(2) [OF sorted [OF ex_plain_next]] by blast
  moreover have "line_safe (sort_keys ex_event)" by (rule plain_canonicalS(3) [OF sorted [OF ex_plain_event]])
  ultimately show ?thesis
    using staged tree bytes [OF ex_plain_event] bytes [OF ex_plain_next] ex_event_verifies ex_event_tx(2)
      ex_guard ex_build ex_state_fields(2) [of 0 JNull]
    unfolding reflow_ready_def
    by (simp add: ex_store_fields ex_genesis_tx)
qed

section \<open>Witnesses\<close>

theorem built_transition_accepted_witness:
  "verify_event ascii_ext prj ex_event (Some (ex_state 0 JNull)) = Inr ex_next
    \<and> field ex_next ''previous_state_fingerprint'' = field (ex_state 0 JNull) ''semantic_fingerprint''
    \<and> field ex_next ''lineage_head_ref'' = Inr (head_ref ex_tx) \<and> tx_of ex_event = Some ex_tx"
  by (rule built_transition_accepted [OF ex_build guard_project [OF ex_guard]]) simp_all

theorem reflow_atomic_witness:
  "\<exists>fs' fs''. commit_reflow ascii_ext (\<lambda>_. None) prj (ex_state 0 JNull) (ex_semantic 1) ex_tx [] ex_at [ex_record]
        (Some ex_at) [] (crash_at After_Lineage_Append) ex_store = (Inl (StoreFailed SimulatedCrash), fs')
      \<and> reconstruct ascii_ext prj fs' = Inr (ex_state 0 JNull)
      \<and> recover ascii_ext prj fs' = (Inr (sort_keys ex_next), fs'')"
  using reflow_atomic [OF ascii_nfc_idempotent ex_store_settled ex_reflow_ready, of After_Lineage_Append]
  by (auto simp: past_intent_def)

definition ex_late :: ustr where
  "ex_late = u ''2026-06-01T00:00:01Z''"

lemma ex_late: "boundary_instant (\<lambda>_. None) ex_late = Some 1780272001000000"
proof -
  have "stored_form ex_late"
    by (simp add: ex_late_def stored_form_def clock_shape_def nth_digit_def is_digit_def u_Cons canonical_fraction_def
      fraction_text_def offset_length_def)
  then have "stored_instant (JStr ex_late) = Inr \<lparr> seconds_since_epoch = 1780272001, fraction_digits = [] \<rparr>"
    by (simp add: stored_instant_def) (simp add: ex_late_def instant_eval)
  from boundary_stored [OF this] show ?thesis by (simp add: microseconds_def digits_value_def six_digits)
qed

text \<open>A binding to a mandatory invariant under a definition that is not the pinned one.\<close>

definition ex_unpinned :: json where
  "ex_unpinned = JObj
     [(u ''invariant_ref'', JObj [(u ''kind'', JStr (u ''kernel_invariant'')), (u ''id'', JStr (u ''K-001''))]),
      (u ''invariant_definition_ref'', JObj [(u ''invariant_definition_sha256'', JStr (u ''sha256:0''))])]"

lemma ex_unpinned: "binding_matches ex_unpinned = Inr False"
  by (simp add: ex_unpinned_def binding_matches_def get_or_empty_def get_field_def is_some_def jfield_def
      expected_g19_invariant_ids_def mandatory_gate_ids_def excluded_post_reflow_ids_def invariant_definition_digests_def
      flip: u_append)

theorem stale_reflow_writes_nothing_witness:
  "commit_reflow ascii_ext (\<lambda>_. None) prj (ex_state 0 JNull) (ex_semantic 1) ex_tx [] ex_late [ex_record]
     (Some ex_at) [] no_fault ex_store = (Inl StaleReflow, ex_store)
   \<and> commit_reflow ascii_ext (\<lambda>_. None) prj (ex_state 0 JNull) (ex_semantic 1) ex_tx [] ex_late [ex_record]
     None [ex_unpinned] no_fault ex_store = (Inl StaleReflow, ex_store)"
proof
  note expired = stale_reflow_writes_nothing [OF guard_project [OF ex_guard] disjI1]
  note unpinned = stale_reflow_writes_nothing [OF guard_project [OF ex_guard] disjI2, where expires_at = None]
  show "commit_reflow ascii_ext (\<lambda>_. None) prj (ex_state 0 JNull) (ex_semantic 1) ex_tx [] ex_late [ex_record]
      (Some ex_at) [] no_fault ex_store = (Inl StaleReflow, ex_store)"
    by (subst expired) (simp_all add: ex_late ex_at_clock)
  show "commit_reflow ascii_ext (\<lambda>_. None) prj (ex_state 0 JNull) (ex_semantic 1) ex_tx [] ex_late [ex_record]
      None [ex_unpinned] no_fault ex_store = (Inl StaleReflow, ex_store)"
    by (subst unpinned) (simp_all add: ex_unpinned)
qed

text \<open>The deadline is compared in whole microseconds: a commit after it, within the same microsecond, is
  not stale.\<close>

lemma expired_within_microsecond:
  assumes "stored_instant (JStr x) = Inr i" and "stored_instant (JStr at) = Inr j"
    and "seconds_since_epoch i = seconds_since_epoch j"
    and "microseconds (fraction_digits i) = microseconds (fraction_digits j)"
  shows "check_expiry other at (Some x) = Inr ()"
  using boundary_stored [OF assms(1)] boundary_stored [OF assms(2)] assms(3,4) by (simp add: check_expiry_def)

end
