(* ===== verification/GitWitness.thy ===== *)
theory GitWitness
  imports Grants
begin

text \<open>
  The witness that a Git commit contains a file (\<open>reflow/git_witness.py\<close>): the raw bytes of the
  commit, of the trees on the path and of the blob. Every object is addressed by the SHA-1 of its
  bytes behind a header, so the proof reads nothing but the witness. A \<open>dict\<close> with a key that is not
  a string is read as no \<open>dict\<close>.
\<close>

section \<open>SHA-1\<close>

definition rotl :: "nat \<Rightarrow> word32 \<Rightarrow> word32" where
  "rotl n x = push_bit n x OR drop_bit (32 - n) x"

definition sha1_initial :: "word32 list" where
  "sha1_initial = [0x67452301, 0xEFCDAB89, 0x98BADCFE, 0x10325476, 0xC3D2E1F0]"

fun sha1_extend :: "nat \<Rightarrow> word32 list \<Rightarrow> word32 list" where
  "sha1_extend 0 ws = ws"
| "sha1_extend (Suc n) ws =
     (let l = length ws
      in sha1_extend n (ws @ [rotl 1 (ws ! (l - 3) XOR ws ! (l - 8) XOR ws ! (l - 14) XOR ws ! (l - 16))]))"

text \<open>The function and the constant of round \<open>i\<close>.\<close>

definition sha1_mix :: "nat \<Rightarrow> word32 \<Rightarrow> word32 \<Rightarrow> word32 \<Rightarrow> word32" where
  "sha1_mix i b c d =
     (if i < 20 then ((b AND c) OR (NOT b AND d)) + 0x5A827999
      else if i < 40 then (b XOR c XOR d) + 0x6ED9EBA1
      else if i < 60 then ((b AND c) OR (b AND d) OR (c AND d)) + 0x8F1BBCDC
      else (b XOR c XOR d) + 0xCA62C1D6)"

fun sha1_round :: "word32 list \<Rightarrow> nat \<times> word32 \<Rightarrow> word32 list" where
  "sha1_round [a, b, c, d, e] (i, w) = [rotl 5 a + sha1_mix i b c d + e + w, a, rotl 30 b, c, d]"
| "sha1_round st _ = st"

definition sha1_block :: "word32 list \<Rightarrow> bytes \<Rightarrow> word32 list" where
  "sha1_block h blk =
     map2 (+) h (foldl sha1_round h (zip [0..<80] (sha1_extend 64 (map be_word (blocks 4 blk)))))"

definition sha1 :: "bytes \<Rightarrow> bytes" where
  "sha1 m = concat (map word_bytes (foldl sha1_block sha1_initial (blocks 64 (pad_message m))))"

section \<open>Objects\<close>

text \<open>\<open>Refused\<close> is \<open>ReflowValidationError\<close>; \<open>Undecodable\<close> the \<open>UnicodeDecodeError\<close> of
  \<open>bytes.decode\<close>.\<close>

datatype witness_error = Refused | Undecodable

definition git_object :: "string \<Rightarrow> bytes \<Rightarrow> bytes" where
  "git_object kind content = ascii kind @ [32] @ map of_nat (dec_nat (length content)) @ [0] @ content"

definition git_object_sha1 :: "string \<Rightarrow> bytes \<Rightarrow> ustr" where
  "git_object_sha1 kind content = hex_bytes (sha1 (git_object kind content))"

text \<open>What stands before and after the first byte \<open>x\<close>.\<close>

fun cut_at :: "byte \<Rightarrow> bytes \<Rightarrow> (bytes \<times> bytes) option" where
  "cut_at x [] = None"
| "cut_at x (b # bs) = (if b = x then Some ([], bs) else map_option (\<lambda>(p, s). (b # p, s)) (cut_at x bs))"

definition ascii_decode :: "bytes \<Rightarrow> witness_error + ustr" where
  "ascii_decode bs = (if list_all (\<lambda>b. b < 128) bs then Inr (map unat bs) else Inl Undecodable)"

type_synonym tree_entry = "ustr \<times> ustr \<times> ustr"

text \<open>One entry: its name, mode and object id, and the bytes behind it.\<close>

definition tree_entry :: "bytes \<Rightarrow> witness_error + tree_entry \<times> bytes" where
  "tree_entry bs =
     bindE (orE (cut_at 32 bs) Refused) (\<lambda>(m, after_mode).
     bindE (ascii_decode m) (\<lambda>mode.
     bindE (orE (cut_at 0 after_mode) Refused) (\<lambda>(n, after_name).
     bindE (orE (utf8_decode n) Undecodable) (\<lambda>name.
     bindE (ensureE (20 \<le> length after_name) Refused) (\<lambda>_.
     Inr ((name, mode, hex_bytes (take 20 after_name)), drop 20 after_name))))))"

lemma cut_at_parts: "cut_at x bs = Some (p, s) \<Longrightarrow> bs = p @ x # s \<and> x \<notin> set p"
  by (induction bs arbitrary: p) (auto split: if_splits)

lemma tree_entry_shorter: "tree_entry bs = Inr (e, rest) \<Longrightarrow> length rest < length bs"
  by (auto simp: tree_entry_def dest!: cut_at_parts)

function tree_entries :: "tree_entry list \<Rightarrow> bytes \<Rightarrow> witness_error + tree_entry list" where
  "tree_entries seen bs =
     (if bs = [] then Inr seen else
      case tree_entry bs of
        Inl e \<Rightarrow> Inl e
      | Inr (e, rest) \<Rightarrow> if fst e \<in> fst ` set seen then Inl Refused else tree_entries (seen @ [e]) rest)"
  by pat_completeness auto
termination
  by (relation "measure (\<lambda>(seen, bs). length bs)") (auto dest: tree_entry_shorter)

declare tree_entries.simps [simp del]

definition parse_tree_entries :: "bytes \<Rightarrow> witness_error + tree_entry list" where
  "parse_tree_entries tree_object = tree_entries [] tree_object"

text \<open>The \<open>tree\<close> line of the header, which ends at the first empty line.\<close>

definition sha_shaped :: "ustr \<Rightarrow> bool" where
  "sha_shaped s \<longleftrightarrow> length s = 40 \<and> list_all (\<lambda>c. is_digit c \<or> 97 \<le> c \<and> c \<le> 102) s"

fun tree_line :: "ustr list \<Rightarrow> witness_error + ustr" where
  "tree_line [] = Inl Refused"
| "tree_line (l # ls) =
     (if l = [] then Inl Refused
      else if take 5 l = u ''tree '' then
        let candidate = py_strip (drop 5 l) in if sha_shaped candidate then Inr candidate else Inl Refused
      else tree_line ls)"

definition parse_commit_tree_sha :: "bytes \<Rightarrow> witness_error + ustr" where
  "parse_commit_tree_sha commit_object =
     bindE (orE (utf8_decode commit_object) Undecodable) (\<lambda>text. tree_line (py_splitlines text))"

section \<open>The witness\<close>

definition tree_modes :: "ustr list" where
  "tree_modes = [u ''40000'']"

definition blob_modes :: "ustr list" where
  "blob_modes = [u ''100644'', u ''100755'', u ''120000'']"

definition decode_hex_field :: "json \<Rightarrow> string \<Rightarrow> witness_error + bytes" where
  "decode_hex_field witness key =
     (case jfield witness key of
        Some (JStr s) \<Rightarrow> if s = [] then Inl Refused else orE (from_hex s) Refused
      | _ \<Rightarrow> Inl Refused)"

fun split_slash :: "ustr \<Rightarrow> ustr \<Rightarrow> ustr list" where
  "split_slash acc [] = [acc]"
| "split_slash acc (c # cs) = (if c = 47 then acc # split_slash [] cs else split_slash (acc @ [c]) cs)"

definition path_segments :: "ustr \<Rightarrow> ustr list" where
  "path_segments path = filter (\<lambda>s. s \<noteq> []) (split_slash [] path)"

definition tree_at :: "json \<Rightarrow> ustr \<Rightarrow> witness_error + tree_entry list" where
  "tree_at tree_objects sha =
     (case jget tree_objects sha of
        Some (JStr raw) \<Rightarrow>
          bindE (orE (from_hex raw) Refused) (\<lambda>content.
          bindE (ensureE (git_object_sha1 ''tree'' content = sha) Refused) (\<lambda>_.
          parse_tree_entries content))
      | _ \<Rightarrow> Inl Refused)"

fun walk_path :: "json \<Rightarrow> ustr \<Rightarrow> ustr \<Rightarrow> ustr list \<Rightarrow> witness_error + unit" where
  "walk_path tree_objects blob_sha sha [] = Inr ()"
| "walk_path tree_objects blob_sha sha (segment # rest) =
     bindE (tree_at tree_objects sha) (\<lambda>entries.
     bindE (orE (map_of entries segment) Refused) (\<lambda>(mode, next).
     if rest = [] then ensureE (mode \<in> set blob_modes \<and> next = blob_sha) Refused
     else bindE (ensureE (mode \<in> set tree_modes) Refused) (\<lambda>_.
       walk_path tree_objects blob_sha next rest)))"

definition verify_kernel_source_witness :: "json \<Rightarrow> ustr \<Rightarrow> ustr \<Rightarrow> ustr \<Rightarrow> ustr \<Rightarrow> witness_error + unit" where
  "verify_kernel_source_witness witness commit_sha tree_sha blob_sha path =
     bindE (decode_hex_field witness ''commit_object'') (\<lambda>commit_object.
     bindE (ensureE (git_object_sha1 ''commit'' commit_object = commit_sha) Refused) (\<lambda>_.
     bindE (parse_commit_tree_sha commit_object) (\<lambda>commit_tree.
     bindE (ensureE (commit_tree = tree_sha) Refused) (\<lambda>_.
     case jfield witness ''tree_objects'' of
       Some tree_objects \<Rightarrow>
         bindE (ensureE (is_obj tree_objects) Refused) (\<lambda>_.
         bindE (ensureE (path_segments path \<noteq> []) Refused) (\<lambda>_.
         bindE (walk_path tree_objects blob_sha tree_sha (path_segments path)) (\<lambda>_.
         bindE (decode_hex_field witness ''blob_object'') (\<lambda>blob_object.
         ensureE (git_object_sha1 ''blob'' blob_object = blob_sha) Refused))))
     | None \<Rightarrow> Inl Refused))))"

end
