(* ===== verification/GitWitnessProps.thy ===== *)
theory GitWitnessProps
  imports GitWitness StoreGenesis
begin

text \<open>
  What an accepted witness proves, and which witnesses are accepted: for one commit and one path there
  is one tree, one blob id and one blob, or the two witnesses hold two objects with the same SHA-1;
  and the objects a repository really holds are accepted.
\<close>

section \<open>One object per address\<close>

definition sha1_collision :: "bytes \<Rightarrow> bytes \<Rightarrow> bool" where
  "sha1_collision a b \<longleftrightarrow> a \<noteq> b \<and> hex_bytes (sha1 a) = hex_bytes (sha1 b)"

text \<open>The objects a witness carries.\<close>

definition carries :: "json \<Rightarrow> string \<Rightarrow> bytes \<Rightarrow> bool" where
  "carries w kind content \<longleftrightarrow>
     kind = ''commit'' \<and> decode_hex_field w ''commit_object'' = Inr content
   \<or> kind = ''blob'' \<and> decode_hex_field w ''blob_object'' = Inr content
   \<or> kind = ''tree'' \<and> (\<exists>ts sha raw. jfield w ''tree_objects'' = Some ts \<and> jget ts sha = Some (JStr raw)
       \<and> from_hex raw = Some content)"

definition witnesses_collide :: "json \<Rightarrow> json \<Rightarrow> bool" where
  "witnesses_collide v w \<longleftrightarrow> (\<exists>kind a b. carries v kind a \<and> carries w kind b
     \<and> sha1_collision (git_object kind a) (git_object kind b))"

lemma append_marked_eq: "x \<notin> set as \<Longrightarrow> x \<notin> set bs \<Longrightarrow> as @ x # cs = bs @ x # ds \<Longrightarrow> as = bs \<and> cs = ds"
proof (induction as arbitrary: bs)
  case Nil
  then show ?case by (cases bs) auto
next
  case (Cons a as)
  then show ?case by (cases bs) auto
qed

lemma dec_nat_bytes: "(0 :: byte) \<notin> set (map of_nat (dec_nat n))"
proof (induction n rule: dec_nat.induct)
  case (1 n)
  have "(of_nat (48 + k) :: byte) \<noteq> 0" if "k < 10" for k
  proof -
    have "unat (of_nat (48 + k) :: byte) = 48 + k"
      using that by (simp only: unat_of_nat) simp
    then show ?thesis by (metis add_is_0 unat_0 zero_neq_numeral)
  qed
  then show ?case using 1 by (subst dec_nat.simps) auto
qed

lemma git_object_inj: "git_object kind a = git_object kind b \<Longrightarrow> a = b"
  using append_marked_eq [OF dec_nat_bytes dec_nat_bytes, of "length a" a "length b" b]
  by (simp add: git_object_def)

lemma one_object:
  assumes "carries v kind a" and "carries w kind b" and "git_object_sha1 kind a = git_object_sha1 kind b"
  shows "a = b \<or> witnesses_collide v w"
  using assms git_object_inj [of kind a b]
  by (auto simp: witnesses_collide_def sha1_collision_def git_object_sha1_def)

lemma tree_at_carried:
  assumes "jfield w ''tree_objects'' = Some ts" and "tree_at ts sha = Inr es"
  obtains content where "carries w ''tree'' content" "git_object_sha1 ''tree'' content = sha"
    "parse_tree_entries content = Inr es"
  using assms by (auto simp: tree_at_def carries_def split: option.splits json.splits)

lemma one_path:
  assumes v: "jfield v ''tree_objects'' = Some ts" and w: "jfield w ''tree_objects'' = Some us"
  shows "walk_path ts b sha segs = Inr () \<Longrightarrow> walk_path us c sha segs = Inr () \<Longrightarrow> segs \<noteq> []
    \<Longrightarrow> b = c \<or> witnesses_collide v w"
proof (induction segs arbitrary: sha)
  case (Cons s rest)
  obtain es fs where e: "tree_at ts sha = Inr es" "tree_at us sha = Inr fs"
    using Cons.prems by auto
  obtain x where x: "carries v ''tree'' x" "git_object_sha1 ''tree'' x = sha" "parse_tree_entries x = Inr es"
    by (rule tree_at_carried [OF v e(1)])
  obtain y where y: "carries w ''tree'' y" "git_object_sha1 ''tree'' y = sha" "parse_tree_entries y = Inr fs"
    by (rule tree_at_carried [OF w e(2)])
  show ?case
  proof (cases "witnesses_collide v w")
    case False
    then have "x = y" using one_object [OF x(1) y(1)] x(2) y(2) by simp
    then have "fs = es" using x(3) y(3) by simp
    then show ?thesis
      using Cons e by (cases "rest = []") (auto split: if_splits)
  qed simp
qed simp

lemma accepted:
  assumes "verify_kernel_source_witness w commit_sha tree_sha blob_sha path = Inr ()"
  obtains c ts b where
    "carries w ''commit'' c" "git_object_sha1 ''commit'' c = commit_sha" "parse_commit_tree_sha c = Inr tree_sha"
    "jfield w ''tree_objects'' = Some ts" "path_segments path \<noteq> []"
    "walk_path ts blob_sha tree_sha (path_segments path) = Inr ()"
    "carries w ''blob'' b" "git_object_sha1 ''blob'' b = blob_sha" "decode_hex_field w ''blob_object'' = Inr b"
  using assms by (auto simp: verify_kernel_source_witness_def carries_def split: option.splits)

text \<open>C10: a witness binds: two witnesses accepted for the same commit and the same path prove the same
  root tree, the same blob id and carry the same file, or they hold two different Git objects with the
  same SHA-1.\<close>

theorem witness_binding:
  assumes "verify_kernel_source_witness v commit_sha tree_sha blob_sha path = Inr ()"
    and "verify_kernel_source_witness w commit_sha tree_sha' blob_sha' path = Inr ()"
  shows "tree_sha = tree_sha' \<and> blob_sha = blob_sha'
      \<and> decode_hex_field v ''blob_object'' = decode_hex_field w ''blob_object''
    \<or> witnesses_collide v w"
proof (rule accepted [OF assms(1)], rule accepted [OF assms(2)])
  fix c ts b c' us b'
  assume v: "carries v ''commit'' c" "git_object_sha1 ''commit'' c = commit_sha"
      "parse_commit_tree_sha c = Inr tree_sha" "jfield v ''tree_objects'' = Some ts" "path_segments path \<noteq> []"
      "walk_path ts blob_sha tree_sha (path_segments path) = Inr ()"
      "carries v ''blob'' b" "git_object_sha1 ''blob'' b = blob_sha" "decode_hex_field v ''blob_object'' = Inr b"
    and w: "carries w ''commit'' c'" "git_object_sha1 ''commit'' c' = commit_sha"
      "parse_commit_tree_sha c' = Inr tree_sha'" "jfield w ''tree_objects'' = Some us" "path_segments path \<noteq> []"
      "walk_path us blob_sha' tree_sha' (path_segments path) = Inr ()"
      "carries w ''blob'' b'" "git_object_sha1 ''blob'' b' = blob_sha'" "decode_hex_field w ''blob_object'' = Inr b'"
  show ?thesis
  proof (cases "witnesses_collide v w")
    case False
    then have "c = c'" using one_object [OF v(1) w(1)] v(2) w(2) by simp
    then have tree: "tree_sha = tree_sha'" using v(3) w(3) by simp
    then have blob: "blob_sha = blob_sha'"
      using one_path [OF v(4) w(4) v(6) _ v(5)] w(6) False by simp
    then have "b = b'" using one_object [OF v(7) w(7)] v(8) w(8) False by simp
    then show ?thesis using tree blob v(9) w(9) by simp
  qed simp
qed

section \<open>What a repository holds\<close>

text \<open>A tree object is written from its entries: name, mode and the twenty bytes of the id.\<close>

type_synonym git_entry = "ustr \<times> ustr \<times> bytes"

fun entry_bytes :: "git_entry \<Rightarrow> bytes" where
  "entry_bytes (name, mode, sha) =
     map of_nat mode @ [32] @ (case utf8_encode name of Some n \<Rightarrow> n | None \<Rightarrow> []) @ [0] @ sha"

definition tree_object :: "git_entry list \<Rightarrow> bytes" where
  "tree_object es = concat (map entry_bytes es)"

fun entry_ok :: "git_entry \<Rightarrow> bool" where
  "entry_ok (name, mode, sha) \<longleftrightarrow> list_all (\<lambda>c. c < 128 \<and> c \<noteq> 32) mode
     \<and> (\<exists>n. utf8_encode name = Some n \<and> 0 \<notin> set n) \<and> length sha = 20"

definition tree_ok :: "git_entry list \<Rightarrow> bool" where
  "tree_ok es \<longleftrightarrow> distinct (map fst es) \<and> list_all entry_ok es"

fun entry_read :: "git_entry \<Rightarrow> tree_entry" where
  "entry_read (name, mode, sha) = (name, mode, hex_bytes sha)"

lemma cut_at_marked: "x \<notin> set p \<Longrightarrow> cut_at x (p @ x # s) = Some (p, s)"
  by (induction p) auto

lemma small_byte: "c < 128 \<Longrightarrow> unat (of_nat c :: byte) = c"
  by (simp only: unat_of_nat) simp

lemma ascii_decode_mode:
  assumes "list_all (\<lambda>c. c < 128 \<and> c \<noteq> 32) mode"
  shows "ascii_decode (map of_nat mode) = Inr mode" and "(32 :: byte) \<notin> set (map of_nat mode)"
proof -
  have c: "unat (of_nat c :: byte) = c" if "c \<in> set mode" for c
    using assms that by (intro small_byte) (auto simp: list_all_iff)
  have "(of_nat c :: byte) < 128" if "c \<in> set mode" for c
    using c [OF that] assms that by (auto simp: word_less_nat_alt list_all_iff)
  then show "ascii_decode (map of_nat mode) = Inr mode"
    using c by (auto simp: ascii_decode_def list_all_iff intro: map_idI)
  have "(of_nat c :: byte) \<noteq> 32" if "c \<in> set mode" for c
  proof
    assume "(of_nat c :: byte) = 32"
    then have "unat (of_nat c :: byte) = 32" by simp
    then show False using c [OF that] assms that by (auto simp: list_all_iff)
  qed
  then show "(32 :: byte) \<notin> set (map of_nat mode)" by force
qed

lemma tree_entry_read:
  assumes "entry_ok e"
  shows "tree_entry (entry_bytes e @ rest) = Inr (entry_read e, rest)"
proof -
  obtain name mode sha where e: "e = (name, mode, sha)" by (metis prod.exhaust)
  obtain n where n: "utf8_encode name = Some n" "0 \<notin> set n" using assms e by auto
  have m: "list_all (\<lambda>c. c < 128 \<and> c \<noteq> 32) mode" and l: "length sha = 20" using assms e by auto
  have "cut_at 32 (map of_nat mode @ 32 # n @ 0 # sha @ rest) = Some (map of_nat mode, n @ 0 # sha @ rest)"
    by (rule cut_at_marked [OF ascii_decode_mode(2) [OF m]])
  moreover have "cut_at 0 (n @ 0 # sha @ rest) = Some (n, sha @ rest)" by (rule cut_at_marked [OF n(2)])
  ultimately show ?thesis
    using ascii_decode_mode(1) [OF m] utf8_roundtrip [OF n(1)] n(1) l by (simp add: e tree_entry_def)
qed

lemma entry_bytes_nonempty: "entry_bytes e \<noteq> []"
  by (cases e) auto

lemma fst_entry_read: "fst (entry_read e) = fst e"
  by (cases e) auto

lemma tree_entries_read:
  "list_all entry_ok es \<Longrightarrow> distinct (map fst es) \<Longrightarrow> fst ` set seen \<inter> fst ` set es = {} \<Longrightarrow>
     tree_entries seen (tree_object es) = Inr (seen @ map entry_read es)"
proof (induction es arbitrary: seen)
  case (Cons e es)
  have "tree_entries (seen @ [entry_read e]) (tree_object es) = Inr ((seen @ [entry_read e]) @ map entry_read es)"
    using Cons.prems by (intro Cons.IH) (auto simp: fst_entry_read)
  moreover have "tree_object (e # es) = entry_bytes e @ tree_object es" by (simp add: tree_object_def)
  ultimately show ?case
    using Cons.prems entry_bytes_nonempty [of e] tree_entry_read [of e "tree_object es"]
    by (simp add: tree_entries.simps [of seen "entry_bytes e @ tree_object es"] fst_entry_read)
qed (simp add: tree_object_def tree_entries.simps)

lemma parse_tree_object: "tree_ok es \<Longrightarrow> parse_tree_entries (tree_object es) = Inr (map entry_read es)"
  by (simp add: parse_tree_entries_def tree_entries_read tree_ok_def)

section \<open>Hexadecimal transport\<close>

lemma byte_nibbles: "unat (b :: byte) div 16 < 16" "unat b mod 16 < 16"
  using unsigned_less [where 'b = 8 and 'a = nat, of b] by (auto simp: less_mult_imp_div_less)

lemma hex_digit_sha: "n < 16 \<Longrightarrow> is_digit (hex_digit n) \<or> 97 \<le> hex_digit n \<and> hex_digit n \<le> 102"
  by (auto simp: hex_digit_def is_digit_def)

lemma from_hex_bytes: "from_hex (hex_bytes bs) = Some bs"
proof (induction bs)
  case (Cons b bs)
  have d: "hex_digit (unat b div 16) \<notin> {9, 10, 11, 12, 13, 32}"
    using hex_digit_sha [OF byte_nibbles(1) [of b]] by (auto simp: is_digit_def)
  have "16 * (unat b div 16) + unat b mod 16 = unat b" by simp
  moreover have "(of_nat (unat b) :: byte) = b" by simp
  ultimately have "(of_nat (16 * (unat b div 16) + unat b mod 16) :: byte) = b" by (simp only:)
  with d show ?case
    using Cons hex_value_digit [OF byte_nibbles(1) [of b]] hex_value_digit [OF byte_nibbles(2) [of b]]
    by (simp add: hex_bytes_def)
qed (simp add: hex_bytes_def)

lemma length_hex_bytes: "length (hex_bytes bs) = 2 * length bs"
  by (induction bs) (simp_all add: hex_bytes_def)

lemma length_sha1_round: "length h = 5 \<Longrightarrow> length (sha1_round h iw) = 5"
  by (cases "(h, iw)" rule: sha1_round.cases) auto

lemma length_sha1_block: "length h = 5 \<Longrightarrow> length (sha1_block h b) = 5"
proof -
  have "length (foldl sha1_round g iws) = 5" if "length g = 5" for g iws
    using that by (induction iws arbitrary: g) (auto simp: length_sha1_round)
  then show "length h = 5 \<Longrightarrow> length (sha1_block h b) = 5" by (simp add: sha1_block_def)
qed

lemma length_sha1: "length (sha1 m) = 20"
proof -
  have "length (foldl sha1_block h bs) = 5" if "length h = 5" for h bs
    using that by (induction bs arbitrary: h) (auto simp: length_sha1_block)
  then have l: "length (foldl sha1_block sha1_initial (blocks 64 (pad_message m))) = 5"
    by (simp add: sha1_initial_def)
  have "length (concat (map word_bytes ws)) = 4 * length ws" for ws
    by (induction ws) (auto simp: word_bytes_def)
  then show ?thesis by (simp add: sha1_def l)
qed

lemma git_sha_shaped: "sha_shaped (git_object_sha1 kind c)"
proof -
  have "list_all (\<lambda>c. is_digit c \<or> 97 \<le> c \<and> c \<le> 102) (hex_bytes bs)" for bs
    using hex_digit_sha byte_nibbles by (auto simp: hex_bytes_def list_all_iff)
  then show ?thesis by (simp add: sha_shaped_def git_object_sha1_def length_hex_bytes length_sha1)
qed

section \<open>Real objects are accepted\<close>

text \<open>The path from a tree to a blob through trees a repository holds.\<close>

inductive leads :: "bytes list \<Rightarrow> ustr \<Rightarrow> ustr list \<Rightarrow> ustr \<Rightarrow> bool" for objects :: "bytes list" where
  leads_file: "\<lbrakk>tree_object es \<in> set objects; tree_ok es; (s, mode, i) \<in> set es; mode \<in> set blob_modes\<rbrakk>
    \<Longrightarrow> leads objects (git_object_sha1 ''tree'' (tree_object es)) [s] (hex_bytes i)"
| leads_dir: "\<lbrakk>tree_object es \<in> set objects; tree_ok es; (s, mode, i) \<in> set es; mode \<in> set tree_modes;
      leads objects (hex_bytes i) path blob\<rbrakk>
    \<Longrightarrow> leads objects (git_object_sha1 ''tree'' (tree_object es)) (s # path) blob"

definition tree_addresses :: "bytes list \<Rightarrow> ustr list" where
  "tree_addresses objects = map (git_object_sha1 ''tree'') objects"

definition tree_json :: "bytes list \<Rightarrow> json" where
  "tree_json objects = JObj (map (\<lambda>t. (git_object_sha1 ''tree'' t, JStr (hex_bytes t))) objects)"

definition repository_witness :: "bytes \<Rightarrow> bytes list \<Rightarrow> bytes \<Rightarrow> json" where
  "repository_witness commit_object objects blob_object = JObj
     [(u ''commit_object'', JStr (hex_bytes commit_object)), (u ''tree_objects'', tree_json objects),
      (u ''blob_object'', JStr (hex_bytes blob_object))]"

lemma tree_at_held:
  assumes "distinct (tree_addresses objects)" and "tree_object es \<in> set objects" and "tree_ok es"
  shows "tree_at (tree_json objects) (git_object_sha1 ''tree'' (tree_object es)) = Inr (map entry_read es)"
proof -
  have d: "distinct (map fst (map (\<lambda>t. (git_object_sha1 ''tree'' t, JStr (hex_bytes t))) objects))"
    using assms(1) by (simp add: tree_addresses_def comp_def)
  have "jget (tree_json objects) (git_object_sha1 ''tree'' (tree_object es)) = Some (JStr (hex_bytes (tree_object es)))"
    using assms(2) unfolding tree_json_def jget.simps
    by (intro map_of_is_SomeI [OF d]) force
  then show ?thesis using parse_tree_object [OF assms(3)] by (simp add: tree_at_def from_hex_bytes)
qed

lemma entry_found:
  assumes "tree_ok es" and "(s, mode, i) \<in> set es"
  shows "map_of (map entry_read es) s = Some (mode, hex_bytes i)"
proof -
  have "distinct (map fst (map entry_read es))"
    using assms(1) by (simp add: tree_ok_def comp_def fst_entry_read)
  then show ?thesis
    using assms(2) by (intro map_of_is_SomeI) (force intro: image_eqI [of _ _ "(s, mode, i)"])+
qed

lemma leads_walk:
  assumes "leads objects sha path blob" and "distinct (tree_addresses objects)"
  shows "walk_path (tree_json objects) blob sha path = Inr () \<and> path \<noteq> [] \<and> sha_shaped sha"
  using assms(1)
proof (induction rule: leads.induct)
  case (leads_file es s mode i)
  then show ?case using tree_at_held [OF assms(2) leads_file(1,2)] entry_found [OF leads_file(2,3)] git_sha_shaped
    by simp
next
  case (leads_dir es s mode i path blob)
  then show ?case using tree_at_held [OF assms(2) leads_dir(1,2)] entry_found [OF leads_dir(2,3)] git_sha_shaped
    by simp
qed

lemma sha_line:
  assumes "sha_shaped sha"
  shows "py_strip sha = sha" and "\<forall>c \<in> set (u ''tree '' @ sha). \<not> is_linebreak c"
proof -
  have c: "\<not> is_space x \<and> \<not> is_linebreak x" if "x \<in> set sha" for x
  proof -
    have "48 \<le> x \<and> x \<le> 102" using assms that by (fastforce simp: sha_shaped_def list_all_iff is_digit_def)
    then show ?thesis by (auto simp: is_space_def is_linebreak_def)
  qed
  have drop: "dropWhile is_space xs = xs" if "\<forall>x \<in> set xs. \<not> is_space x" for xs
    using that by (cases xs) auto
  show "py_strip sha = sha" using c by (simp add: py_strip_def drop)
  have "\<forall>x \<in> set (u ''tree ''). \<not> is_linebreak x" by (simp add: u_Cons is_linebreak_def)
  then show "\<forall>c \<in> set (u ''tree '' @ sha). \<not> is_linebreak c" using c by auto
qed

lemma commit_tree_line:
  assumes "utf8_encode (u ''tree '' @ sha @ 10 # message) = Some c" and "sha_shaped sha"
  shows "parse_commit_tree_sha c = Inr sha" and "c \<noteq> []"
proof -
  have "utf8_decode c = Some ((u ''tree '' @ sha) @ 10 # message)" using utf8_roundtrip [OF assms(1)] by simp
  moreover have "py_splitlines ((u ''tree '' @ sha) @ 10 # message) = (u ''tree '' @ sha) # split_lines [] message"
    using split_lines_line [OF sha_line(2) [OF assms(2)], of "[]"] by (simp add: py_splitlines_def)
  moreover have "tree_line ((u ''tree '' @ sha) # ls) = Inr sha" for ls
    using assms(2) sha_line(1) [OF assms(2)] by (simp add: u_Cons)
  ultimately show "parse_commit_tree_sha c = Inr sha" by (simp add: parse_commit_tree_sha_def)
  show "c \<noteq> []"
    using utf8_roundtrip [OF assms(1)] by (auto simp: u_Cons)
qed

lemma repository_witness_accepted:
  assumes "utf8_encode (u ''tree '' @ tree_sha @ 10 # message) = Some c"
    and "leads objects tree_sha (path_segments path) (git_object_sha1 ''blob'' b)"
    and "distinct (tree_addresses objects)" and "b \<noteq> []"
  shows "verify_kernel_source_witness (repository_witness c objects b) (git_object_sha1 ''commit'' c)
    tree_sha (git_object_sha1 ''blob'' b) path = Inr ()"
proof -
  have w: "walk_path (tree_json objects) (git_object_sha1 ''blob'' b) tree_sha (path_segments path) = Inr ()"
    "path_segments path \<noteq> []" "sha_shaped tree_sha"
    using leads_walk [OF assms(2,3)] by simp_all
  note c = commit_tree_line [OF assms(1) w(3)]
  have hex: "hex_bytes c \<noteq> []" "hex_bytes b \<noteq> []"
    using c(2) assms(4) length_hex_bytes [of c] length_hex_bytes [of b] by auto
  have f: "jfield (repository_witness c objects b) ''commit_object'' = Some (JStr (hex_bytes c))"
    "jfield (repository_witness c objects b) ''tree_objects'' = Some (tree_json objects)"
    "jfield (repository_witness c objects b) ''blob_object'' = Some (JStr (hex_bytes b))"
    by (simp_all add: jfield_def repository_witness_def)
  then have "decode_hex_field (repository_witness c objects b) ''commit_object'' = Inr c"
    "decode_hex_field (repository_witness c objects b) ''blob_object'' = Inr b"
    using hex by (simp_all add: decode_hex_field_def from_hex_bytes)
  then show ?thesis
    using w c(1) f(2) by (simp add: verify_kernel_source_witness_def tree_json_def)
qed

text \<open>C23: nothing real is refused: the objects of a repository that lead from a commit over its root tree
  along a path to a non-empty file form a witness that is accepted, whatever else the trees hold.\<close>

theorem witness_complete:
  assumes "utf8_encode (u ''tree '' @ tree_sha @ 10 # message) = Some c"
    and "leads objects tree_sha (path_segments path) (git_object_sha1 ''blob'' b)"
    and "distinct (tree_addresses objects)" and "b \<noteq> []"
  shows "verify_kernel_source_witness (repository_witness c objects b) (git_object_sha1 ''commit'' c)
    tree_sha (git_object_sha1 ''blob'' b) path = Inr ()"
  using assms by (rule repository_witness_accepted)

text \<open>The commit text of the code's contract is UTF-8; any other commit with the right id is not refused
  but ends in the decoder's own exception.\<close>

lemma undecodable_commit:
  assumes "c \<noteq> []" and "utf8_decode c = None" and "jfield w ''commit_object'' = Some (JStr (hex_bytes c))"
  shows "verify_kernel_source_witness w (git_object_sha1 ''commit'' c) tree_sha blob_sha path = Inl Undecodable"
proof -
  have "hex_bytes c \<noteq> []" using assms(1) length_hex_bytes [of c] by auto
  then have "decode_hex_field w ''commit_object'' = Inr c"
    using assms(3) by (simp add: decode_hex_field_def from_hex_bytes)
  then show ?thesis using assms(2) by (simp add: verify_kernel_source_witness_def parse_commit_tree_sha_def)
qed

section \<open>A repository with one file\<close>

definition ex_blob :: bytes where
  "ex_blob = ascii ''invariants''"

definition ex_blob_id :: bytes where
  "ex_blob_id = sha1 (git_object ''blob'' ex_blob)"

definition ex_leaf :: "git_entry list" where
  "ex_leaf = [(u ''KERNEL.md'', u ''100644'', ex_blob_id)]"

definition ex_tree_sha :: ustr where
  "ex_tree_sha = git_object_sha1 ''tree'' (tree_object ex_leaf)"

definition ex_commit_text :: ustr where
  "ex_commit_text = u ''tree '' @ ex_tree_sha @ 10 # u ''author A''"

definition ex_commit :: bytes where
  "ex_commit = map of_nat ex_commit_text"

lemma ex_commit_encoded: "utf8_encode (u ''tree '' @ ex_tree_sha @ 10 # u ''author A'') = Some ex_commit"
proof -
  have p: "plain_str (u ''tree '' @ ex_tree_sha)" "plain_str (u ''author A'')"
    by (simp_all add: ex_tree_sha_def git_object_sha1_def plain_hex u_Cons)
  have "utf8_encode ((u ''tree '' @ ex_tree_sha) @ [10] @ u ''author A'') = Some ex_commit"
    unfolding utf8_encode_append [of "u ''tree '' @ ex_tree_sha"] utf8_encode_append [of "[10]"]
      utf8_encode_newline utf8_encode_plain [OF p(1)] utf8_encode_plain [OF p(2)]
    by (simp add: ex_commit_def ex_commit_text_def)
  then show ?thesis by simp
qed

lemma ex_leads: "leads [tree_object ex_leaf] ex_tree_sha (path_segments (u ''KERNEL.md'')) (git_object_sha1 ''blob'' ex_blob)"
proof -
  have ok: "tree_ok ex_leaf"
    by (simp add: tree_ok_def ex_leaf_def ex_blob_id_def length_sha1 u_Cons utf8_encode_def
      utf8_char_def encodable_def surrogate_def)
  have "path_segments (u ''KERNEL.md'') = [u ''KERNEL.md'']" by (simp add: path_segments_def u_Cons)
  then show ?thesis
    using leads_file [OF _ ok, of "[tree_object ex_leaf]" "u ''KERNEL.md''" "u ''100644''" ex_blob_id]
    by (simp add: ex_tree_sha_def ex_leaf_def ex_blob_id_def git_object_sha1_def blob_modes_def)
qed

theorem witness_complete_witness:
  "verify_kernel_source_witness (repository_witness ex_commit [tree_object ex_leaf] ex_blob)
     (git_object_sha1 ''commit'' ex_commit) ex_tree_sha (git_object_sha1 ''blob'' ex_blob) (u ''KERNEL.md'') = Inr ()"
  using witness_complete [OF ex_commit_encoded ex_leads] by (simp add: tree_addresses_def ex_blob_def ascii_def)

lemma ex_accepted:
  "verify_kernel_source_witness (repository_witness ex_commit [tree_object ex_leaf] ex_blob)
     (git_object_sha1 ''commit'' ex_commit) ex_tree_sha (git_object_sha1 ''blob'' ex_blob) (u ''KERNEL.md'') = Inr ()"
  by (rule repository_witness_accepted [OF ex_commit_encoded ex_leads])
    (simp_all add: tree_addresses_def ex_blob_def ascii_def)

theorem witness_binding_witness:
  "(ex_tree_sha = ex_tree_sha \<and> git_object_sha1 ''blob'' ex_blob = git_object_sha1 ''blob'' ex_blob
      \<and> decode_hex_field (repository_witness ex_commit [tree_object ex_leaf] ex_blob) ''blob_object''
        = decode_hex_field (repository_witness ex_commit [tree_object ex_leaf] ex_blob) ''blob_object'')
    \<or> witnesses_collide (repository_witness ex_commit [tree_object ex_leaf] ex_blob)
        (repository_witness ex_commit [tree_object ex_leaf] ex_blob)"
  by (rule witness_binding [OF ex_accepted ex_accepted])

end
