(* ===== verification/Claims.thy ===== *)
theory Claims
  imports Reflow
begin

text \<open>
  The series of completion-claim evaluations gate G21 trusts (\<open>reflow/claims.py\<close>): an append-only
  chain of events per Difference, Policy, candidate and Claim, rebuilt from the pool a caller supplies
  and compared with the binding at its one latest event. A revision that is no integer ends in Python's
  \<open>TypeError\<close>; the model raises it when the event is read, the code when the keys are sorted.
\<close>

section \<open>Identities\<close>

definition claim_event_domain :: bytes where
  "claim_event_domain = ascii ''MANOSUBE:CANDIDATE_CLAIM_EVALUATION_EVENT:0.1:''"

definition claim_series_domain :: bytes where
  "claim_series_domain = ascii ''MANOSUBE:CANDIDATE_CLAIM_EVALUATION_SERIES:0.1:''"

text \<open>\<open>prefix + sha256(domain + canonical_json_bytes(payload)).hexdigest().upper()\<close>.\<close>

definition domain_address :: "ext \<Rightarrow> string \<Rightarrow> bytes \<Rightarrow> json \<Rightarrow> auth_error + ustr" where
  "domain_address E prefix domain body =
     bindE (canonA E body) (\<lambda>b. Inr (u prefix @ ascii_upper (sha256_hex (domain @ b))))"

definition candidate_claim_evaluation_binding_id :: "ext \<Rightarrow> json \<Rightarrow> auth_error + ustr" where
  "candidate_claim_evaluation_binding_id E binding =
     domain_address E ''CAND-CLAIM-EVAL-'' [] (without ''binding_id'' binding)"

definition candidate_claim_evaluation_event_id :: "ext \<Rightarrow> json \<Rightarrow> auth_error + ustr" where
  "candidate_claim_evaluation_event_id E event =
     domain_address E ''CAND-CLAIM-EVT-'' claim_event_domain (without ''event_id'' event)"

record series_key =
  series_difference :: json
  series_policy :: json
  series_candidate :: json
  series_claim :: json

definition candidate_claim_evaluation_series_id :: "ext \<Rightarrow> series_key \<Rightarrow> auth_error + ustr" where
  "candidate_claim_evaluation_series_id E key =
     domain_address E ''CAND-CLAIM-SERIES-'' claim_series_domain
       (JObj [(u ''difference_id'', series_difference key), (u ''policy_ref'', series_policy key),
              (u ''candidate_id'', series_candidate key), (u ''required_claim_ref'', series_claim key)])"

section \<open>The series\<close>

text \<open>\<open>if v[k] != w: raise\<close> and \<open>if v.get(k) != w: raise\<close>.\<close>

definition same_field :: "json \<Rightarrow> string \<Rightarrow> json \<Rightarrow> reflow_error + unit" where
  "same_field v k w = bindE (raised (afield v k)) (\<lambda>x. ensureE (py_eq x w) ReflowValidationError)"

definition same_get :: "json \<Rightarrow> string \<Rightarrow> json \<Rightarrow> reflow_error + unit" where
  "same_get v k w = bindE (raised (aget v k)) (\<lambda>x. ensureE (py_eq x w) ReflowValidationError)"

fun event_revision_of :: "json \<Rightarrow> auth_error + int" where
  "event_revision_of (JInt i) = Inr i"
| "event_revision_of (JBool b) = Inr (if b then 1 else 0)"
| "event_revision_of _ = Inl AuthPy"

definition of_series :: "ustr \<Rightarrow> json \<Rightarrow> auth_error + bool" where
  "of_series series event = bindE (aget event ''evaluation_series_id'') (\<lambda>s. Inr (s = JStr series))"

text \<open>One event of the pool: a foreign one is skipped, one of this series must be what it says.\<close>

definition admit_claim_event ::
  "ext \<Rightarrow> series_key \<Rightarrow> ustr \<Rightarrow> (int \<times> json) list \<Rightarrow> json \<Rightarrow> reflow_error + (int \<times> json) list" where
  "admit_claim_event E key series by_revision event =
     bindE (raised (of_series series event)) (\<lambda>mine.
     if \<not> mine then Inr by_revision else
     bindE (raised (candidate_claim_evaluation_event_id E event)) (\<lambda>identity.
     bindE (same_get event ''event_id'' (JStr identity)) (\<lambda>_.
     bindE (same_field event ''difference_id'' (series_difference key)) (\<lambda>_.
     bindE (same_field event ''policy_ref'' (series_policy key)) (\<lambda>_.
     bindE (same_field event ''candidate_id'' (series_candidate key)) (\<lambda>_.
     bindE (same_field event ''required_claim_ref'' (series_claim key)) (\<lambda>_.
     bindE (raised (bindE (afield event ''event_revision'') event_revision_of)) (\<lambda>r.
     bindE (ensureE (case map_of by_revision r of None \<Rightarrow> True | Some other \<Rightarrow> py_eq other event)
       ReflowValidationError) (\<lambda>_.
     Inr (AList.update r event by_revision))))))))))"

text \<open>From the latest revision down; each predecessor is named by its recomputed identity.\<close>

fun claim_chain :: "ext \<Rightarrow> (int \<times> json) list \<Rightarrow> nat \<Rightarrow> reflow_error + json list" where
  "claim_chain E m 0 =
     bindE (orE (map_of m 0) (Reflow_raised AuthPy)) (\<lambda>event.
     bindE (raised (afield event ''predecessor_event_ref'')) (\<lambda>predecessor.
     bindE (ensureE (predecessor = JNull) ReflowValidationError) (\<lambda>_. Inr [event])))"
| "claim_chain E m (Suc n) =
     bindE (orE (map_of m (int (Suc n))) (Reflow_raised AuthPy)) (\<lambda>event.
     bindE (raised (afield event ''predecessor_event_ref'')) (\<lambda>predecessor.
     bindE (ensureE (predecessor \<noteq> JNull) ReflowValidationError) (\<lambda>_.
     bindE (orE (map_of m (int n)) (Reflow_raised AuthPy)) (\<lambda>previous.
     bindE (raised (candidate_claim_evaluation_event_id E previous)) (\<lambda>expected.
     bindE (same_get predecessor ''id'' (JStr expected)) (\<lambda>_.
     bindE (claim_chain E m n) (\<lambda>rest. Inr (event # rest))))))))"

definition reconstruct_claim_series :: "ext \<Rightarrow> json list \<Rightarrow> series_key \<Rightarrow> reflow_error + json list" where
  "reconstruct_claim_series E events key =
     bindE (raised (candidate_claim_evaluation_series_id E key)) (\<lambda>series.
     bindE (foldE (admit_claim_event E key series) [] events) (\<lambda>by_revision.
     bindE (ensureE (by_revision \<noteq> []) ReflowValidationError) (\<lambda>_.
     let latest = Max (set (map fst by_revision))
     in bindE (ensureE (sort (map fst by_revision) = [0..latest]) ReflowValidationError) (\<lambda>_.
        claim_chain E by_revision (nat latest)))))"

section \<open>The binding\<close>

definition verify_claim_binding_matches_latest :: "json \<Rightarrow> json \<Rightarrow> reflow_error + unit" where
  "verify_claim_binding_matches_latest binding head =
     bindE (raised (afield binding ''evaluation_head_event_ref'')) (\<lambda>head_ref.
     bindE (raised (aget head_ref ''id'')) (\<lambda>named.
     bindE (same_field head ''event_id'' named) (\<lambda>_.
     bindE (raised (afield binding ''completion_record_ref'')) (\<lambda>record_ref.
     bindE (same_field head ''completion_record_ref'' record_ref) (\<lambda>_.
     bindE (raised (afield binding ''evaluation_record_fingerprint'')) (\<lambda>fingerprint.
     bindE (same_field head ''completion_record_fingerprint'' fingerprint) (\<lambda>_.
     bindE (raised (afield binding ''evaluation_status'')) (\<lambda>status.
     bindE (same_field head ''evaluation_status'' status) (\<lambda>_.
     bindE (raised (afield binding ''candidate_id'')) (\<lambda>candidate.
     bindE (same_field head ''candidate_id'' candidate) (\<lambda>_.
     bindE (raised (aget binding ''policy_ref'')) (\<lambda>policy_ref.
     bindE (same_field head ''policy_ref'' policy_ref) (\<lambda>_.
     bindE (raised (afield binding ''evaluated_at'')) (\<lambda>evaluated_at.
     same_field head ''recorded_at'' evaluated_at))))))))))))))"

definition resolve_claim_binding :: "ext \<Rightarrow> json list \<Rightarrow> json \<Rightarrow> json \<Rightarrow> json \<Rightarrow> reflow_error + json list" where
  "resolve_claim_binding E events binding difference_ident candidate =
     bindE (raised (afield candidate ''candidate_id'')) (\<lambda>candidate_ident.
     bindE (same_get binding ''candidate_id'' candidate_ident) (\<lambda>_.
     bindE (raised (afield candidate ''semantic_fingerprint'')) (\<lambda>candidate_fp.
     bindE (same_get binding ''candidate_semantic_fingerprint'' candidate_fp) (\<lambda>_.
     bindE (same_get binding ''difference_id'' difference_ident) (\<lambda>_.
     bindE (raised (candidate_claim_evaluation_binding_id E binding)) (\<lambda>identity.
     bindE (same_get binding ''binding_id'' (JStr identity)) (\<lambda>_.
     bindE (raised (aget binding ''policy_ref'')) (\<lambda>policy_ref.
     bindE (ensureE (is_obj policy_ref) ReflowValidationError) (\<lambda>_.
     bindE (raised (afield binding ''candidate_id'')) (\<lambda>bound_candidate.
     bindE (raised (afield binding ''required_claim_ref'')) (\<lambda>claim_ref.
     let key = \<lparr> series_difference = difference_ident, series_policy = policy_ref,
                  series_candidate = bound_candidate, series_claim = claim_ref \<rparr>
     in bindE (raised (candidate_claim_evaluation_series_id E key)) (\<lambda>series.
        bindE (same_get binding ''evaluation_series_id'' (JStr series)) (\<lambda>_.
        bindE (reconstruct_claim_series E events key) (\<lambda>chain.
        bindE (verify_claim_binding_matches_latest binding (hd chain)) (\<lambda>_.
        Inr chain)))))))))))))))"

end
