(* ===== verification/ClaimsProps.thy ===== *)
theory ClaimsProps
  imports Claims
begin

text \<open>
  What a resolved claim binding guarantees: the series is complete, without a fork, linked by content
  addresses, and the binding speaks for its latest event.
\<close>

lemma same_field_Inr [simp]:
  "same_field v k w = Inr x \<longleftrightarrow> (\<exists>y. jfield v k = Some y \<and> py_eq y w)"
  by (auto simp: same_field_def afield_def)

text \<open>The admitted events: each under its own revision, all of the pool's events of the series.\<close>

definition at_revision :: "json \<Rightarrow> int \<Rightarrow> bool" where
  "at_revision event r \<longleftrightarrow> (\<exists>v. jfield event ''event_revision'' = Some v \<and> event_revision_of v = Inr r)"

definition admitted :: "ext \<Rightarrow> ustr \<Rightarrow> json list \<Rightarrow> (int \<times> json) list \<Rightarrow> bool" where
  "admitted E series events m \<longleftrightarrow> distinct (map fst m)
     \<and> (\<forall>r e. map_of m r = Some e \<longrightarrow> e \<in> set events \<and> at_revision e r \<and> of_series series e = Inr True)
     \<and> (\<forall>e \<in> set events. of_series series e = Inr True \<longrightarrow>
          (\<exists>r e'. at_revision e r \<and> map_of m r = Some e' \<and> py_eq e' e))"

lemma admit_step:
  assumes "admitted E series events m" and "admit_claim_event E key series m event = Inr m'"
  shows "admitted E series (events @ [event]) m'"
proof (cases "of_series series event = Inr True")
  case False
  then have "m' = m" and "of_series series event = Inr False"
    using assms(2) by (auto simp: admit_claim_event_def split: if_splits)
  then show ?thesis using assms(1) by (auto simp: admitted_def)
next
  case True
  then obtain r where r: "at_revision event r" "m' = AList.update r event m"
    "case map_of m r of None \<Rightarrow> True | Some other \<Rightarrow> py_eq other event"
    using assms(2) by (auto simp: admit_claim_event_def at_revision_def afield_def)
  have m: "map_of m' = (map_of m)(r \<mapsto> event)" by (simp add: r(2) update_conv')
  have keep: "\<exists>r' e'. at_revision e r' \<and> map_of m' r' = Some e' \<and> py_eq e' e"
    if e: "e \<in> set events" "of_series series e = Inr True" for e
  proof -
    obtain q f where q: "at_revision e q" "map_of m q = Some f" "py_eq f e"
      using assms(1) e unfolding admitted_def by blast
    show ?thesis
    proof (cases "q = r")
      case True
      then have "py_eq f event" using r(3) q(2) by simp
      then have "py_eq event e" using q(3) py_eq_sym py_eq_trans by blast
      then show ?thesis using q(1) True m by auto
    next
      case False
      then show ?thesis using q m by auto
    qed
  qed
  show ?thesis
    unfolding admitted_def
  proof (intro conjI allI impI ballI)
    show "distinct (map fst m')" using assms(1) by (simp add: admitted_def r(2) distinct_update)
    fix q e assume "map_of m' q = Some e"
    then show "e \<in> set (events @ [event])" "at_revision e q" "of_series series e = Inr True"
      using assms(1) r(1) True m by (auto simp: admitted_def split: if_splits)
  next
    fix e assume "e \<in> set (events @ [event])" "of_series series e = Inr True"
    then consider "e \<in> set events" "of_series series e = Inr True" | "e = event" by auto
    then show "\<exists>r' e'. at_revision e r' \<and> map_of m' r' = Some e' \<and> py_eq e' e"
    proof cases
      case 1
      then show ?thesis by (rule keep)
    next
      case 2
      then show ?thesis using r(1) m by (intro exI [of _ r] exI [of _ event]) simp
    qed
  qed
qed

lemma admit_all:
  assumes "foldE (admit_claim_event E key series) m xs = Inr m'" and "admitted E series ys m"
  shows "admitted E series (ys @ xs) m'"
  using assms
proof (induction xs arbitrary: ys m)
  case (Cons x xs)
  then obtain n where "admit_claim_event E key series m x = Inr n" "foldE (admit_claim_event E key series) n xs = Inr m'"
    by auto
  then show ?case using Cons.IH [of n "ys @ [x]"] admit_step [OF Cons.prems(2)] by simp
qed simp

text \<open>The chain: element \<open>i\<close> stands for revision \<open>n - i\<close>, and each names the one before it.\<close>

definition names_predecessor :: "ext \<Rightarrow> json \<Rightarrow> json \<Rightarrow> bool" where
  "names_predecessor E event previous \<longleftrightarrow> (\<exists>p i x. jfield event ''predecessor_event_ref'' = Some p
     \<and> candidate_claim_evaluation_event_id E previous = Inr i \<and> aget p ''id'' = Inr x \<and> py_eq x (JStr i))"

lemma chain_elements:
  "claim_chain E m n = Inr chain \<Longrightarrow> length chain = Suc n \<and>
     (\<forall>i \<le> n. map_of m (int (n - i)) = Some (chain ! i))
     \<and> (\<forall>i < n. names_predecessor E (chain ! i) (chain ! Suc i))
     \<and> jfield (chain ! n) ''predecessor_event_ref'' = Some JNull"
proof (induction n arbitrary: chain)
  case 0
  then show ?case by (auto simp: afield_def)
next
  case (Suc n)
  then obtain event p previous expected rest x where
    e: "map_of m (int (Suc n)) = Some event" "jfield event ''predecessor_event_ref'' = Some p"
    and prev: "map_of m (int n) = Some previous" "candidate_claim_evaluation_event_id E previous = Inr expected"
      "aget p ''id'' = Inr x" "py_eq x (JStr expected)"
    and rest: "claim_chain E m n = Inr rest" "chain = event # rest"
    by (auto simp: afield_def same_get_def)
  note IH = Suc.IH [OF rest(1)]
  have "rest ! 0 = previous" using IH prev(1) by auto
  then have first: "names_predecessor E event (rest ! 0)"
    using e(2) prev by (auto simp: names_predecessor_def)
  show ?case
  proof (intro conjI allI impI)
    show "length chain = Suc (Suc n)" using IH rest(2) by simp
    show "jfield (chain ! Suc n) ''predecessor_event_ref'' = Some JNull" using IH rest(2) by simp
    fix i
    show "i \<le> Suc n \<Longrightarrow> map_of m (int (Suc n - i)) = Some (chain ! i)"
      using IH e(1) rest(2) by (cases i) auto
    show "i < Suc n \<Longrightarrow> names_predecessor E (chain ! i) (chain ! Suc i)"
      using IH first rest(2) by (cases i) auto
  qed
qed

lemma py_eq_string: "py_eq x (JStr s) \<longleftrightarrow> x = JStr s"
  by (cases x) (auto simp: py_eq_def)

lemma admitted_event_ident:
  assumes "foldE (admit_claim_event E key series) m xs = Inr m'" and "e \<in> set xs" and "of_series series e = Inr True"
  shows "\<exists>i. candidate_claim_evaluation_event_id E e = Inr i \<and> aget e ''event_id'' = Inr (JStr i)"
  using assms
proof (induction xs arbitrary: m)
  case (Cons x xs)
  then obtain n where n: "admit_claim_event E key series m x = Inr n" "foldE (admit_claim_event E key series) n xs = Inr m'"
    by auto
  show ?case
  proof (cases "e = x")
    case True
    then show ?thesis using n(1) Cons.prems(3) by (auto simp: admit_claim_event_def same_get_def py_eq_string)
  next
    case False
    then show ?thesis using Cons.IH [OF n(2)] Cons.prems by simp
  qed
qed simp

lemma reconstructed:
  assumes "reconstruct_claim_series E events key = Inr chain"
  obtains series where "candidate_claim_evaluation_series_id E key = Inr series"
    "chain \<noteq> []" "set chain \<subseteq> set events"
    "\<forall>e \<in> set chain. \<exists>i. candidate_claim_evaluation_event_id E e = Inr i \<and> aget e ''event_id'' = Inr (JStr i)"
    "\<forall>e \<in> set events. of_series series e = Inr True \<longrightarrow>
       (\<exists>i < length chain. at_revision e (int (length chain - 1 - i)) \<and> py_eq (chain ! i) e)"
    "\<forall>i. Suc i < length chain \<longrightarrow> names_predecessor E (chain ! i) (chain ! Suc i)"
    "jfield (last chain) ''predecessor_event_ref'' = Some JNull"
proof -
  obtain series m where s: "candidate_claim_evaluation_series_id E key = Inr series"
    and f: "foldE (admit_claim_event E key series) [] events = Inr m" and ne: "m \<noteq> []"
    and keys: "sort (map fst m) = [0..Max (set (map fst m))]"
    and c: "claim_chain E m (nat (Max (set (map fst m)))) = Inr chain"
    using assms by (auto simp: reconstruct_claim_series_def Let_def)
  define n where "n = nat (Max (set (map fst m)))"
  have "admitted E series ([] @ events) m"
    by (rule admit_all [OF f]) (simp add: admitted_def)
  then have a: "admitted E series events m" by (simp only: append_Nil)
  define top where "top = Max (set (map fst m))"
  have "set (sort (map fst m)) = set [0..top]" by (simp only: keys top_def)
  then have set: "fst ` set m = {0..top}" by (simp only: set_sort set_map set_upto)
  have "top \<in> set (map fst m)" unfolding top_def by (rule Max_in) (use ne in auto)
  then have "0 \<le> top" using set by auto
  have "n = nat top" by (simp only: n_def top_def)
  then have all: "fst ` set m = {0..int n}" using set \<open>0 \<le> top\<close> by simp
  note ch = chain_elements [OF c [folded n_def]]
  have own: "x \<in> set events \<and> of_series series x = Inr True" if mem: "x \<in> set chain" for x
  proof -
    obtain i where i: "i < length chain" "x = chain ! i" using mem by (auto simp: in_set_conv_nth)
    then have "map_of m (int (n - i)) = Some x" using ch by (metis less_Suc_eq_le)
    then show ?thesis using a unfolding admitted_def by blast
  qed
  then have "set chain \<subseteq> set events" by blast
  moreover have "\<forall>e \<in> set chain. \<exists>i. candidate_claim_evaluation_event_id E e = Inr i \<and> aget e ''event_id'' = Inr (JStr i)"
    using own admitted_event_ident [OF f] by blast
  moreover have "\<exists>i < length chain. at_revision e (int (length chain - 1 - i)) \<and> py_eq (chain ! i) e"
    if e: "e \<in> set events" "of_series series e = Inr True" for e
  proof -
    obtain r e' where r: "at_revision e r" "map_of m r = Some e'" "py_eq e' e"
      using a e unfolding admitted_def by blast
    then have "r \<in> {0..int n}" using all map_of_SomeD by force
    then obtain k where k: "r = int k" "k \<le> n" by (metis atLeastAtMost_iff nonneg_int_cases of_nat_le_iff)
    have "map_of m (int (n - (n - k))) = Some (chain ! (n - k))" using ch by (metis diff_le_self)
    then have "chain ! (n - k) = e'" using r(2) k by simp
    moreover have "length chain - 1 - (n - k) = k" "n - k < length chain" using ch k(2) by simp_all
    ultimately show ?thesis using r(1,3) k(1) by metis
  qed
  moreover have "chain \<noteq> []" using ch by auto
  moreover have "last chain = chain ! n" using ch by (simp add: last_conv_nth \<open>chain \<noteq> []\<close>)
  ultimately show thesis
    using ch s by (intro that [of series]) auto
qed

text \<open>Binding field, head field: what the two must agree on.\<close>

definition bound_fields :: "(string \<times> string) list" where
  "bound_fields = [(''completion_record_ref'', ''completion_record_ref''),
     (''evaluation_record_fingerprint'', ''completion_record_fingerprint''),
     (''evaluation_status'', ''evaluation_status''), (''candidate_id'', ''candidate_id''),
     (''policy_ref'', ''policy_ref''), (''evaluated_at'', ''recorded_at'')]"

definition same_pair :: "json \<Rightarrow> json \<Rightarrow> string \<times> string \<Rightarrow> bool" where
  "same_pair binding head jk \<longleftrightarrow>
     (\<exists>v w. jfield binding (fst jk) = Some v \<and> jfield head (snd jk) = Some w \<and> py_eq w v)"

lemma matches_latest:
  assumes "verify_claim_binding_matches_latest binding head = Inr ()" and "jfield binding ''policy_ref'' = Some p"
  shows "list_all (same_pair binding head) bound_fields"
    and "\<exists>r i j. jfield binding ''evaluation_head_event_ref'' = Some r \<and> aget r ''id'' = Inr i
      \<and> jfield head ''event_id'' = Some j \<and> py_eq j i"
proof -
  have g: "aget binding ''policy_ref'' = Inr p" if "aget binding ''policy_ref'' = Inr q" for q
    using that assms(2) by (auto simp: aget_def split: if_splits)
  obtain r i j a a' b b' c c' d d' e e' h h' where
    "jfield binding ''evaluation_head_event_ref'' = Some r" "aget r ''id'' = Inr i"
    "jfield head ''event_id'' = Some j" "py_eq j i"
    "jfield binding ''completion_record_ref'' = Some a" "jfield head ''completion_record_ref'' = Some a'" "py_eq a' a"
    "jfield binding ''evaluation_record_fingerprint'' = Some b"
    "jfield head ''completion_record_fingerprint'' = Some b'" "py_eq b' b"
    "jfield binding ''evaluation_status'' = Some c" "jfield head ''evaluation_status'' = Some c'" "py_eq c' c"
    "jfield binding ''candidate_id'' = Some d" "jfield head ''candidate_id'' = Some d'" "py_eq d' d"
    "aget binding ''policy_ref'' = Inr e" "jfield head ''policy_ref'' = Some e'" "py_eq e' e"
    "jfield binding ''evaluated_at'' = Some h" "jfield head ''recorded_at'' = Some h'" "py_eq h' h"
    using assms(1) unfolding verify_claim_binding_matches_latest_def bindE_eq_Inr_iff same_field_Inr afield_iff
      mapErr_eq_Inr_iff by blast
  then show "list_all (same_pair binding head) bound_fields"
    and "\<exists>r i j. jfield binding ''evaluation_head_event_ref'' = Some r \<and> aget r ''id'' = Inr i
      \<and> jfield head ''event_id'' = Some j \<and> py_eq j i"
    using g assms(2) by (auto simp: bound_fields_def same_pair_def)
qed

lemma resolved:
  assumes "resolve_claim_binding E events binding d c = Inr chain"
  obtains key series where "candidate_claim_evaluation_series_id E key = Inr series"
    "series_difference key = d" "jfield binding ''policy_ref'' = Some (series_policy key)"
    "jfield binding ''candidate_id'' = Some (series_candidate key)"
    "jfield binding ''required_claim_ref'' = Some (series_claim key)"
    "reconstruct_claim_series E events key = Inr chain"
    "verify_claim_binding_matches_latest binding (hd chain) = Inr ()"
    "aget binding ''evaluation_series_id'' = Inr (JStr series)"
proof -
  obtain policy_ref bound_candidate claim_ref series where
    p: "aget binding ''policy_ref'' = Inr policy_ref" "is_obj policy_ref"
    and f: "jfield binding ''candidate_id'' = Some bound_candidate" "jfield binding ''required_claim_ref'' = Some claim_ref"
    and s: "candidate_claim_evaluation_series_id E \<lparr> series_difference = d, series_policy = policy_ref,
        series_candidate = bound_candidate, series_claim = claim_ref \<rparr> = Inr series"
    and b: "same_get binding ''evaluation_series_id'' (JStr series) = Inr ()"
    and r: "reconstruct_claim_series E events \<lparr> series_difference = d, series_policy = policy_ref,
        series_candidate = bound_candidate, series_claim = claim_ref \<rparr> = Inr chain"
    and v: "verify_claim_binding_matches_latest binding (hd chain) = Inr ()"
    using assms unfolding resolve_claim_binding_def Let_def bindE_eq_Inr_iff by auto
  from b have "aget binding ''evaluation_series_id'' = Inr (JStr series)"
    by (auto simp: same_get_def py_eq_string)
  moreover have "jfield binding ''policy_ref'' = Some policy_ref"
    using p by (auto simp: aget_def split: if_splits option.splits)
  ultimately show thesis using s r v f by (intro that) auto
qed

section \<open>Property\<close>

text \<open>C14: a claim binding that resolves speaks for the one latest event of its series. The series is the
  one recomputed from the Difference and from the policy, candidate and claim of the binding; the chain it
  resolves to holds every event of the pool that names the series, one per revision down to zero, each
  naming the recomputed identity of the one before. The event the binding names as its head is, by
  recomputed identity, the head of that chain, and the binding has the completion record and its
  fingerprint, the status, the candidate, the policy and the time of that event. So a binding that still
  points at an event a later one superseded never resolves.\<close>

theorem claim_binding_latest:
  assumes "resolve_claim_binding E events binding difference_ident candidate = Inr chain"
  shows "\<exists>series key r i. aget binding ''evaluation_series_id'' = Inr (JStr series)
    \<and> candidate_claim_evaluation_series_id E key = Inr series \<and> series_difference key = difference_ident
    \<and> jfield binding ''policy_ref'' = Some (series_policy key)
    \<and> jfield binding ''candidate_id'' = Some (series_candidate key)
    \<and> jfield binding ''required_claim_ref'' = Some (series_claim key)
    \<and> chain \<noteq> [] \<and> set chain \<subseteq> set events
    \<and> (\<forall>e \<in> set events. of_series series e = Inr True \<longrightarrow>
         (\<exists>i < length chain. at_revision e (int (length chain - 1 - i)) \<and> py_eq (chain ! i) e))
    \<and> (\<forall>i. Suc i < length chain \<longrightarrow> names_predecessor E (chain ! i) (chain ! Suc i))
    \<and> jfield binding ''evaluation_head_event_ref'' = Some r \<and> aget r ''id'' = Inr (JStr i)
    \<and> candidate_claim_evaluation_event_id E (hd chain) = Inr i
    \<and> list_all (same_pair binding (hd chain)) bound_fields"
proof -
  obtain key series where k: "candidate_claim_evaluation_series_id E key = Inr series" "series_difference key = difference_ident"
      "jfield binding ''policy_ref'' = Some (series_policy key)"
      "jfield binding ''candidate_id'' = Some (series_candidate key)"
      "jfield binding ''required_claim_ref'' = Some (series_claim key)"
      "aget binding ''evaluation_series_id'' = Inr (JStr series)"
    and r: "reconstruct_claim_series E events key = Inr chain"
    and v: "verify_claim_binding_matches_latest binding (hd chain) = Inr ()"
    by (rule resolved [OF assms])
  obtain series' where c: "candidate_claim_evaluation_series_id E key = Inr series'" "chain \<noteq> []"
    "set chain \<subseteq> set events"
    "\<forall>e \<in> set chain. \<exists>i. candidate_claim_evaluation_event_id E e = Inr i \<and> aget e ''event_id'' = Inr (JStr i)"
    "\<forall>e \<in> set events. of_series series' e = Inr True \<longrightarrow>
       (\<exists>i < length chain. at_revision e (int (length chain - 1 - i)) \<and> py_eq (chain ! i) e)"
    "\<forall>i. Suc i < length chain \<longrightarrow> names_predecessor E (chain ! i) (chain ! Suc i)"
    by (rule reconstructed [OF r])
  note m = matches_latest [OF v k(3)]
  obtain h i j where h: "jfield binding ''evaluation_head_event_ref'' = Some h" "aget h ''id'' = Inr i"
    "jfield (hd chain) ''event_id'' = Some j" "py_eq j i" using m(2) by blast
  obtain n where n: "candidate_claim_evaluation_event_id E (hd chain) = Inr n" "aget (hd chain) ''event_id'' = Inr (JStr n)"
    using c(2,4) by (meson hd_in_set)
  have "j = JStr n" using n(2) h(3) by (auto simp: aget_def split: if_splits)
  then have "i = JStr n" using h(4) py_eq_sym py_eq_string by metis
  then show ?thesis using k c(2,3,5,6) c(1) h(1,2) n(1) m(1) by auto
qed

end
