(* ===== verification/ClaimsExample.thy ===== *)
theory ClaimsExample
  imports ClaimsProps LifecycleExample
begin

text \<open>
  A claim series of two events, the second of which withdraws the first, and the binding that resolves
  against it.
\<close>

lemma ex_domain_address:
  assumes "plain_any ascii_ext False v"
  shows "domain_address ascii_ext p d v = Inr (u p @ ascii_upper (sha256_hex (d @ map of_nat (dumps (sort_keys v)))))"
  using plain_any_canonical [OF nfc_ascii_example assms] by (simp add: domain_address_def canonA_def)

lemma ex_claim_keys:
  assumes "k \<in> u ` {''difference_id'', ''policy_ref'', ''candidate_id'', ''required_claim_ref'', ''event_revision'',
    ''predecessor_event_ref'', ''completion_record_ref'', ''completion_record_fingerprint'', ''evaluation_status'',
    ''recorded_at'', ''evaluation_series_id'', ''kind'', ''id'', ''candidate_semantic_fingerprint'',
    ''evaluation_head_event_ref'', ''evaluation_record_fingerprint'', ''evaluated_at''}"
  shows "\<not> secret_key ascii_ext k" and "k \<notin> set set_like_fields"
proof -
  have "word_key k"
    using assms by (elim imageE insertE emptyE) (simp_all add: word_key_def u_Cons)
  moreover have "k \<notin> set secret_keys"
    using assms by (elim imageE insertE emptyE) (simp_all add: secret_keys_def)
  ultimately show "\<not> secret_key ascii_ext k" by (simp add: secret_word_key)
  show "k \<notin> set set_like_fields"
    using assms by (elim imageE insertE emptyE) (simp_all add: set_like_fields_def)
qed

definition ex_ref_of :: "string \<Rightarrow> ustr \<Rightarrow> json" where
  "ex_ref_of kind i = JObj [(u ''kind'', JStr (u kind)), (u ''id'', JStr i)]"

definition ex_series_key :: series_key where
  "ex_series_key = \<lparr> series_difference = JStr (u ''D-1''), series_policy = ex_ref_of ''closure_policy'' (u ''CP-1''),
     series_candidate = JStr (u ''STATE-CANDIDATE-1''), series_claim = ex_ref_of ''completion_claim'' (u ''CLAIM-1'') \<rparr>"

definition ex_series :: ustr where
  "ex_series = projr (candidate_claim_evaluation_series_id ascii_ext ex_series_key)"

definition ex_claim_fields :: "int \<Rightarrow> json \<Rightarrow> string \<Rightarrow> (ustr \<times> json) list" where
  "ex_claim_fields r predecessor status =
     [(u ''evaluation_series_id'', JStr ex_series), (u ''difference_id'', JStr (u ''D-1'')),
      (u ''policy_ref'', ex_ref_of ''closure_policy'' (u ''CP-1'')),
      (u ''candidate_id'', JStr (u ''STATE-CANDIDATE-1'')),
      (u ''required_claim_ref'', ex_ref_of ''completion_claim'' (u ''CLAIM-1'')),
      (u ''event_revision'', JInt r), (u ''predecessor_event_ref'', predecessor),
      (u ''completion_record_ref'', ex_ref_of ''candidate_completion_record'' (u ''CMP-1'')),
      (u ''completion_record_fingerprint'', JStr (u ''sha256:1'')),
      (u ''evaluation_status'', JStr (u status)), (u ''recorded_at'', JStr (u ''T1''))]"

definition ex_event_ident :: "int \<Rightarrow> json \<Rightarrow> string \<Rightarrow> ustr" where
  "ex_event_ident r predecessor status = u ''CAND-CLAIM-EVT-''
     @ ascii_upper (sha256_hex (claim_event_domain @ map of_nat (dumps (sort_keys (JObj (ex_claim_fields r predecessor status))))))"

definition ex_claim_event :: "int \<Rightarrow> json \<Rightarrow> string \<Rightarrow> json" where
  "ex_claim_event r predecessor status = JObj (ex_claim_fields r predecessor status
     @ [(u ''event_id'', JStr (ex_event_ident r predecessor status))])"

lemma ex_series_plain: "plain_any ascii_ext False (JObj [(u ''difference_id'', series_difference ex_series_key),
    (u ''policy_ref'', series_policy ex_series_key), (u ''candidate_id'', series_candidate ex_series_key),
    (u ''required_claim_ref'', series_claim ex_series_key)])"
  using ex_claim_keys by (simp add: ex_series_key_def ex_ref_of_def u_Cons)

lemma ex_series: "candidate_claim_evaluation_series_id ascii_ext ex_series_key = Inr ex_series" "plain_str ex_series"
  using ex_domain_address [OF ex_series_plain, of "''CAND-CLAIM-SERIES-''" claim_series_domain]
  by (simp_all add: ex_series_def candidate_claim_evaluation_series_id_def plain_upper u_Cons)

lemma ex_ref_plain: "plain_str i \<Longrightarrow> plain_str (u kind) \<Longrightarrow> plain_any ascii_ext b (ex_ref_of kind i)"
  using ex_claim_keys by (simp add: ex_ref_of_def u_Cons)

lemma ex_claim_plain:
  assumes "plain_any ascii_ext False predecessor" and "plain_str (u status)"
  shows "plain_any ascii_ext False (JObj (ex_claim_fields r predecessor status))"
  using assms ex_claim_keys ex_series(2) ex_ref_plain by (simp add: ex_claim_fields_def u_Cons)

lemma ex_event_id:
  assumes "plain_any ascii_ext False predecessor" and "plain_str (u status)"
  shows "candidate_claim_evaluation_event_id ascii_ext (ex_claim_event r predecessor status)
    = Inr (ex_event_ident r predecessor status)" and "plain_str (ex_event_ident r predecessor status)"
proof -
  have w: "without ''event_id'' (ex_claim_event r predecessor status) = JObj (ex_claim_fields r predecessor status)"
    by (simp add: ex_claim_event_def ex_claim_fields_def)
  show "candidate_claim_evaluation_event_id ascii_ext (ex_claim_event r predecessor status)
    = Inr (ex_event_ident r predecessor status)"
    unfolding candidate_claim_evaluation_event_id_def w
    by (simp add: ex_domain_address [OF ex_claim_plain [OF assms]] ex_event_ident_def)
  show "plain_str (ex_event_ident r predecessor status)" by (simp add: ex_event_ident_def plain_upper u_Cons)
qed

lemma ex_claim_event_fields:
  "jfield (ex_claim_event r p s) ''evaluation_series_id'' = Some (JStr ex_series)"
  "jfield (ex_claim_event r p s) ''difference_id'' = Some (JStr (u ''D-1''))"
  "jfield (ex_claim_event r p s) ''policy_ref'' = Some (ex_ref_of ''closure_policy'' (u ''CP-1''))"
  "jfield (ex_claim_event r p s) ''candidate_id'' = Some (JStr (u ''STATE-CANDIDATE-1''))"
  "jfield (ex_claim_event r p s) ''required_claim_ref'' = Some (ex_ref_of ''completion_claim'' (u ''CLAIM-1''))"
  "jfield (ex_claim_event r p s) ''event_revision'' = Some (JInt r)"
  "jfield (ex_claim_event r p s) ''predecessor_event_ref'' = Some p"
  "jfield (ex_claim_event r p s) ''completion_record_ref'' = Some (ex_ref_of ''candidate_completion_record'' (u ''CMP-1''))"
  "jfield (ex_claim_event r p s) ''completion_record_fingerprint'' = Some (JStr (u ''sha256:1''))"
  "jfield (ex_claim_event r p s) ''evaluation_status'' = Some (JStr (u s))"
  "jfield (ex_claim_event r p s) ''recorded_at'' = Some (JStr (u ''T1''))"
  "jfield (ex_claim_event r p s) ''event_id'' = Some (JStr (ex_event_ident r p s))"
  "is_obj (ex_claim_event r p s)"
  by (simp_all add: jfield_def ex_claim_event_def ex_claim_fields_def)

text \<open>The series: satisfied, then withdrawn.\<close>

definition ex_first :: json where
  "ex_first = ex_claim_event 0 JNull ''SATISFIED''"

definition ex_first_ref :: json where
  "ex_first_ref = ex_ref_of ''candidate_claim_evaluation_event'' (ex_event_ident 0 JNull ''SATISFIED'')"

definition ex_second :: json where
  "ex_second = ex_claim_event 1 ex_first_ref ''REVOKED''"

lemma ex_first_ref_plain: "plain_any ascii_ext False ex_first_ref"
  unfolding ex_first_ref_def by (rule ex_ref_plain) (simp_all add: ex_event_id u_Cons)

lemma ex_ids:
  "candidate_claim_evaluation_event_id ascii_ext ex_first = Inr (ex_event_ident 0 JNull ''SATISFIED'')"
  "candidate_claim_evaluation_event_id ascii_ext ex_second = Inr (ex_event_ident 1 ex_first_ref ''REVOKED'')"
  unfolding ex_first_def ex_second_def by (rule ex_event_id, simp_all add: ex_first_ref_plain u_Cons)+

lemma ex_admit:
  assumes "candidate_claim_evaluation_event_id ascii_ext (ex_claim_event r p s) = Inr (ex_event_ident r p s)"
    and "map_of m r = None"
  shows "admit_claim_event ascii_ext ex_series_key ex_series m (ex_claim_event r p s)
    = Inr (AList.update r (ex_claim_event r p s) m)"
  using assms by (simp add: admit_claim_event_def of_series_def aget_def ex_claim_event_fields same_get_def
      same_field_def afield_def ex_series_key_def)

lemma ex_reconstructed: "reconstruct_claim_series ascii_ext [ex_first, ex_second] ex_series_key = Inr [ex_second, ex_first]"
proof -
  have fold: "foldE (admit_claim_event ascii_ext ex_series_key ex_series) [] [ex_first, ex_second]
      = Inr [(0, ex_first), (1, ex_second)]"
    using ex_admit [of 0 JNull "''SATISFIED''" "[]"] ex_admit [of 1 ex_first_ref "''REVOKED''" "[(0, ex_first)]"] ex_ids
    by (simp add: ex_first_def ex_second_def)
  have chain: "claim_chain ascii_ext [(0, ex_first), (1, ex_second)] (Suc 0) = Inr [ex_second, ex_first]"
  proof -
    have "jfield ex_second ''predecessor_event_ref'' = Some ex_first_ref" "jfield ex_first ''predecessor_event_ref'' = Some JNull"
      by (simp_all add: ex_first_def ex_second_def ex_claim_event_fields)
    moreover have "ex_first_ref \<noteq> JNull" "aget ex_first_ref ''id'' = Inr (JStr (ex_event_ident 0 JNull ''SATISFIED''))"
      by (simp_all add: ex_first_ref_def ex_ref_of_def aget_def jfield_def)
    ultimately show ?thesis
      using ex_ids(1) by (simp add: One_nat_def afield_def aget_def same_get_def)
  qed
  have range: "[0..(1 :: int)] = [0, 1]" by (simp add: upto.simps)
  show ?thesis
    unfolding reconstruct_claim_series_def ex_series(1) mapErr.simps bindE.simps fold Let_def
    by (simp add: chain range ensureE_def del: bindE_eq_Inr_iff foldE.simps claim_chain.simps)
qed

text \<open>The binding, and the candidate it is for.\<close>

definition ex_candidate :: json where
  "ex_candidate = JObj [(u ''candidate_id'', JStr (u ''STATE-CANDIDATE-1'')),
     (u ''semantic_fingerprint'', JStr (u ''fp''))]"

definition ex_binding_fields :: "(ustr \<times> json) list" where
  "ex_binding_fields =
     [(u ''evaluation_series_id'', JStr ex_series), (u ''difference_id'', JStr (u ''D-1'')),
      (u ''policy_ref'', ex_ref_of ''closure_policy'' (u ''CP-1'')),
      (u ''candidate_id'', JStr (u ''STATE-CANDIDATE-1'')),
      (u ''candidate_semantic_fingerprint'', JStr (u ''fp'')),
      (u ''required_claim_ref'', ex_ref_of ''completion_claim'' (u ''CLAIM-1'')),
      (u ''evaluation_head_event_ref'',
        ex_ref_of ''candidate_claim_evaluation_event'' (ex_event_ident 1 ex_first_ref ''REVOKED'')),
      (u ''completion_record_ref'', ex_ref_of ''candidate_completion_record'' (u ''CMP-1'')),
      (u ''evaluation_record_fingerprint'', JStr (u ''sha256:1'')),
      (u ''evaluation_status'', JStr (u ''REVOKED'')), (u ''evaluated_at'', JStr (u ''T1''))]"

definition ex_binding_ident :: ustr where
  "ex_binding_ident = u ''CAND-CLAIM-EVAL-''
     @ ascii_upper (sha256_hex (map of_nat (dumps (sort_keys (JObj ex_binding_fields)))))"

definition ex_binding :: json where
  "ex_binding = JObj (ex_binding_fields @ [(u ''binding_id'', JStr ex_binding_ident)])"

lemma ex_binding_id: "candidate_claim_evaluation_binding_id ascii_ext ex_binding = Inr ex_binding_ident"
proof -
  have "without ''binding_id'' ex_binding = JObj ex_binding_fields"
    by (simp add: ex_binding_def ex_binding_fields_def)
  moreover have "plain_str (ex_event_ident 1 ex_first_ref ''REVOKED'')"
    by (rule ex_event_id(2) [OF ex_first_ref_plain]) (simp add: u_Cons)
  then have "plain_any ascii_ext False (JObj ex_binding_fields)"
    using ex_claim_keys ex_series(2) ex_ref_plain by (simp add: ex_binding_fields_def u_Cons)
  ultimately show ?thesis
    by (simp add: candidate_claim_evaluation_binding_id_def ex_domain_address ex_binding_ident_def)
qed

lemma ex_binding_get:
  "jfield ex_binding ''evaluation_series_id'' = Some (JStr ex_series)"
  "jfield ex_binding ''difference_id'' = Some (JStr (u ''D-1''))"
  "jfield ex_binding ''policy_ref'' = Some (ex_ref_of ''closure_policy'' (u ''CP-1''))"
  "jfield ex_binding ''candidate_id'' = Some (JStr (u ''STATE-CANDIDATE-1''))"
  "jfield ex_binding ''candidate_semantic_fingerprint'' = Some (JStr (u ''fp''))"
  "jfield ex_binding ''required_claim_ref'' = Some (ex_ref_of ''completion_claim'' (u ''CLAIM-1''))"
  "jfield ex_binding ''evaluation_head_event_ref'' =
     Some (ex_ref_of ''candidate_claim_evaluation_event'' (ex_event_ident 1 ex_first_ref ''REVOKED''))"
  "jfield ex_binding ''completion_record_ref'' = Some (ex_ref_of ''candidate_completion_record'' (u ''CMP-1''))"
  "jfield ex_binding ''evaluation_record_fingerprint'' = Some (JStr (u ''sha256:1''))"
  "jfield ex_binding ''evaluation_status'' = Some (JStr (u ''REVOKED''))"
  "jfield ex_binding ''evaluated_at'' = Some (JStr (u ''T1''))"
  "jfield ex_binding ''binding_id'' = Some (JStr ex_binding_ident)" "is_obj ex_binding"
  by (simp_all add: jfield_def ex_binding_def ex_binding_fields_def)

lemma ex_latest: "verify_claim_binding_matches_latest ex_binding ex_second = Inr ()"
proof -
  have "aget (ex_ref_of k i) ''id'' = Inr (JStr i)" for k i
    by (simp add: ex_ref_of_def aget_def jfield_def)
  then show ?thesis
    by (simp add: verify_claim_binding_matches_latest_def afield_def ex_binding_get aget_def same_field_def
        ex_second_def ex_claim_event_fields)
qed

lemma ex_resolved:
  "resolve_claim_binding ascii_ext [ex_first, ex_second] ex_binding (JStr (u ''D-1'')) ex_candidate
    = Inr [ex_second, ex_first]"
proof -
  have c: "jfield ex_candidate ''candidate_id'' = Some (JStr (u ''STATE-CANDIDATE-1''))"
    "jfield ex_candidate ''semantic_fingerprint'' = Some (JStr (u ''fp''))"
    by (simp_all add: jfield_def ex_candidate_def)
  have o: "is_obj (ex_ref_of k i)" for k i by (simp add: ex_ref_of_def)
  have k: "\<lparr> series_difference = JStr (u ''D-1''), series_policy = ex_ref_of ''closure_policy'' (u ''CP-1''),
      series_candidate = JStr (u ''STATE-CANDIDATE-1''),
      series_claim = ex_ref_of ''completion_claim'' (u ''CLAIM-1'') \<rparr> = ex_series_key"
    by (simp add: ex_series_key_def)
  show ?thesis
    by (simp add: resolve_claim_binding_def afield_def aget_def c ex_binding_get same_get_def ex_binding_id o k
        ex_series ex_reconstructed ex_latest)
qed

theorem claim_binding_latest_witness:
  "\<exists>series r i. aget ex_binding ''evaluation_series_id'' = Inr (JStr series)
    \<and> set [ex_second, ex_first] \<subseteq> set [ex_first, ex_second]
    \<and> names_predecessor ascii_ext ex_second ex_first
    \<and> jfield ex_binding ''evaluation_head_event_ref'' = Some r \<and> aget r ''id'' = Inr (JStr i)
    \<and> candidate_claim_evaluation_event_id ascii_ext ex_second = Inr i
    \<and> list_all (same_pair ex_binding ex_second) bound_fields"
  using claim_binding_latest [OF ex_resolved] by (auto dest: spec [of _ 0])

end
