(* ===== verification/Completion.thy ===== *)
theory Completion
  imports LifecycleBinding
begin

text \<open>
  Completion Records (\<open>difference/completion.py\<close>): the record a claim binding names is rebuilt from the
  Claim's descriptor and the inputs of the Evaluation, and must have the named identity and
  fingerprint. The Claim X-003 is mandatory; its identity is computed when the module is loaded, here
  where it is used.
\<close>

definition completion_id_domain :: bytes where
  "completion_id_domain = ascii ''MANOSUBE:CANDIDATE_COMPLETION_RECORD:0.1:''"

definition completion_fingerprint_domain :: bytes where
  "completion_fingerprint_domain = ascii ''MANOSUBE:COMPLETION_RECORD:0.1:''"

definition completion_record_scalars :: "string list" where
  "completion_record_scalars = [''completion_id'', ''subject_type'', ''subject_ref'', ''claim'',
     ''target_state_ref'', ''observed_state_ref'', ''closure_policy_ref'', ''evaluation_status'',
     ''evaluated_state_revision'', ''evaluated_state_fingerprint'', ''evaluated_at'']"

definition completion_record_set_fields :: "string list" where
  "completion_record_set_fields =
     [''required_evidence_refs'', ''invariant_evaluation_refs'', ''material_contradiction_refs'']"

definition mandatory_x003_claim_descriptor :: json where
  "mandatory_x003_claim_descriptor = JObj
     [(u ''subject_type'', JStr (u ''CONTRACT_COMPLETION'')),
      (u ''subject_ref'', JObj [(u ''kind'', JStr (u ''kernel_invariant'')), (u ''id'', JStr (u ''X-003''))]),
      (u ''claim'', JObj [(u ''AGENT_REQUIRED_FOR_KERNEL'', JBool False), (u ''SESSION_INDEPENDENT'', JBool True)]),
      (u ''target_state_ref'', JNull)]"

definition mandatory_x003_claim_id :: "ext \<Rightarrow> auth_error + ustr" where
  "mandatory_x003_claim_id E = completion_claim_id E mandatory_x003_claim_descriptor"

fun first_claim :: "json \<Rightarrow> json list \<Rightarrow> auth_error + json" where
  "first_claim named [] = Inl DifferenceError"
| "first_claim named (item # items) =
     bindE (aget item ''id'') (\<lambda>i. if py_eq i named then Inr item else first_claim named items)"

definition resolve_claim_descriptor :: "ext \<Rightarrow> json \<Rightarrow> json \<Rightarrow> auth_error + json" where
  "resolve_claim_descriptor E required_claim_ref policy =
     bindE (aget required_claim_ref ''id'') (\<lambda>named.
     bindE (mandatory_x003_claim_id E) (\<lambda>mandatory.
     if named = JStr mandatory then Inr mandatory_x003_claim_descriptor
     else bindE (alist policy ''required_claims'') (first_claim named)))"

definition projected_set :: "ext \<Rightarrow> json \<Rightarrow> string \<Rightarrow> auth_error + ustr \<times> json" where
  "projected_set E completion key =
     bindE (afield completion key) (\<lambda>wrapper.
     bindE (alist wrapper ''members'') (\<lambda>members.
     bindE (unordered_set E members) (\<lambda>s. Inr (u key, s))))"

definition completion_record_closed_projection :: "ext \<Rightarrow> json \<Rightarrow> auth_error + json" where
  "completion_record_closed_projection E completion =
     bindE (mapE (\<lambda>k. bindE (afield completion k) (\<lambda>x. Inr (u k, x))) completion_record_scalars) (\<lambda>scalars.
     bindE (mapE (projected_set E completion) completion_record_set_fields) (\<lambda>sets.
     Inr (JObj (scalars @ sets))))"

definition completion_record_fingerprint :: "ext \<Rightarrow> json \<Rightarrow> auth_error + ustr" where
  "completion_record_fingerprint E completion =
     bindE (completion_record_closed_projection E completion)
       (sha256_fingerprint E completion_fingerprint_domain)"

definition candidate_completion_record_id :: "ext \<Rightarrow> json \<Rightarrow> auth_error + ustr" where
  "candidate_completion_record_id E completion =
     bindE (completion_record_closed_projection E completion) (\<lambda>p.
     upper_id E ''CMP-'' completion_id_domain (without ''completion_id'' p))"

text \<open>The keyword arguments of \<open>build_completion_record\<close>.\<close>

record completion_args =
  ca_descriptor :: json
  ca_policy_ref :: json
  ca_observed_state_ref :: json
  ca_state_revision :: json
  ca_state_fingerprint :: json
  ca_status :: json
  ca_evaluated_at :: json
  ca_evidence_refs :: "json list"
  ca_invariant_refs :: "json list"
  ca_contradiction_refs :: "json list"

definition completion_schema :: ustr where
  "completion_schema = schema_base @ u ''difference/candidate_completion_record.schema.json''"

definition build_completion_record :: "ext \<Rightarrow> completion_args \<Rightarrow> json \<Rightarrow> auth_error + json" where
  "build_completion_record E a reflow_transition_ref =
     bindE (afield (ca_descriptor a) ''subject_type'') (\<lambda>subject_type.
     bindE (afield (ca_descriptor a) ''subject_ref'') (\<lambda>subject_ref.
     bindE (afield (ca_descriptor a) ''claim'') (\<lambda>claim.
     bindE (afield (ca_descriptor a) ''target_state_ref'') (\<lambda>target.
     bindE (unordered_set E (ca_evidence_refs a)) (\<lambda>evidence_set.
     bindE (unordered_set E (ca_invariant_refs a)) (\<lambda>invariant_set.
     bindE (unordered_set E (ca_contradiction_refs a)) (\<lambda>contradiction_set.
     let completion = JObj (map (\<lambda>(k, v). (u k, v))
       [(''schema_version'', JStr (u ''0.1'')), (''completion_id'', JStr []), (''subject_type'', subject_type),
        (''subject_ref'', subject_ref), (''claim'', claim), (''target_state_ref'', target),
        (''observed_state_ref'', ca_observed_state_ref a), (''closure_policy_ref'', ca_policy_ref a),
        (''required_evidence_refs'', evidence_set), (''invariant_evaluation_refs'', invariant_set),
        (''material_contradiction_refs'', contradiction_set), (''evaluation_status'', ca_status a),
        (''evaluated_state_revision'', ca_state_revision a),
        (''evaluated_state_fingerprint'', ca_state_fingerprint a), (''evaluated_at'', ca_evaluated_at a),
        (''reflow_transition_ref'', reflow_transition_ref)])
     in bindE (candidate_completion_record_id E completion) (\<lambda>identity.
        let completed = aset ''completion_id'' (JStr identity) completion
        in bindE (ensureE (ext_schema E completion_schema completed) DifferenceError) (\<lambda>_.
           Inr completed)))))))))"

definition members_or_empty :: "json \<Rightarrow> auth_error + json list" where
  "members_or_empty wrapper =
     (if is_obj wrapper then
        (case jfield wrapper ''members'' of
           None \<Rightarrow> Inr [] | Some (JList xs) \<Rightarrow> Inr xs | Some _ \<Rightarrow> Inl AuthPy)
      else Inl AuthPy)"

definition resolve_completion_record ::
  "ext \<Rightarrow> json \<Rightarrow> json \<Rightarrow> json \<Rightarrow> json \<Rightarrow> json \<Rightarrow> json list \<Rightarrow> json list \<Rightarrow> auth_error + json" where
  "resolve_completion_record E binding policy observed_state_ref state_revision state_fingerprint
       invariant_refs contradiction_refs =
     bindE (afield binding ''completion_record_ref'') (\<lambda>ref.
     bindE (aget ref ''kind'') (\<lambda>kind.
     bindE (ensureE (kind = JStr (u ''candidate_completion_record'')) DifferenceError) (\<lambda>_.
     bindE (afield binding ''required_claim_ref'') (\<lambda>claim_ref.
     bindE (resolve_claim_descriptor E claim_ref policy) (\<lambda>descriptor.
     bindE (afield binding ''policy_ref'') (\<lambda>policy_ref.
     bindE (afield binding ''evaluation_status'') (\<lambda>status.
     bindE (afield binding ''evaluated_at'') (\<lambda>evaluated_at.
     bindE (bindE (afield binding ''evaluation_evidence_refs'') members_or_empty) (\<lambda>evidence.
     bindE (build_completion_record E \<lparr> ca_descriptor = descriptor, ca_policy_ref = policy_ref,
         ca_observed_state_ref = observed_state_ref, ca_state_revision = state_revision,
         ca_state_fingerprint = state_fingerprint, ca_status = status, ca_evaluated_at = evaluated_at,
         ca_evidence_refs = evidence, ca_invariant_refs = invariant_refs,
         ca_contradiction_refs = contradiction_refs \<rparr> JNull) (\<lambda>completion.
     bindE (afield completion ''completion_id'') (\<lambda>identity.
     bindE (aget ref ''id'') (\<lambda>named.
     bindE (ensureE (py_eq named identity) DifferenceError) (\<lambda>_.
     bindE (completion_record_fingerprint E completion) (\<lambda>fingerprint.
     bindE (afield binding ''evaluation_record_fingerprint'') (\<lambda>declared.
     bindE (ensureE (declared = JStr fingerprint) DifferenceError) (\<lambda>_.
     Inr completion))))))))))))))))"

end
