(* ===== verification/Observed.thy ===== *)
theory Observed
  imports Clock Conformance Scope
begin

text \<open>
  What the later layers ask an Observation (\<open>observation/identity.py\<close>, \<open>observation/boundary.py\<close>,
  \<open>observation/scope.py\<close>, \<open>observation/source_snapshot.py\<close> and the status of
  \<open>observation/engine.py\<close>): its identity, whether its time boundary lies inside its Scope, the status
  its engine certifies, and the Source Snapshots it names. The engine's assembly of a bundle is not
  modelled. A freshness limit is read when it is an integer; the code compares it with
  \<open>total_seconds()\<close>, a double, which is exact to the microsecond for spans below 2^33 seconds.
\<close>

datatype obs_error = ObservationError | Obs_raised auth_error

abbreviation observed :: "auth_error + 'a \<Rightarrow> obs_error + 'a" where
  "observed \<equiv> mapErr Obs_raised"

section \<open>Identities\<close>

definition observation_domain :: bytes where
  "observation_domain = ascii ''MANOSUBE_AGENT_CIVILIZATION_OS'' @ [0] @ ascii ''OBSERVATION'' @ [0]
     @ ascii ''0.1'' @ [0]"

definition deterministic_id :: "ext \<Rightarrow> string \<Rightarrow> json \<Rightarrow> auth_error + ustr" where
  "deterministic_id E prefix v = bindE (canonA E v) (\<lambda>b.
     Inr (u prefix @ u ''-'' @ ascii_upper (sha256_hex (observation_domain @ b))))"

definition fact_semantic_fields :: "string list" where
  "fact_semantic_fields = [''project_id'', ''subject'', ''predicate'', ''value'', ''value_type'', ''unit'',
     ''effective_boundary'', ''normalization_profile'']"

definition fact_semantic_projection :: "json \<Rightarrow> auth_error + json" where
  "fact_semantic_projection v = project_fields fact_semantic_fields v"

definition fact_identity :: "ext \<Rightarrow> json \<Rightarrow> auth_error + ustr" where
  "fact_identity E v = bindE (fact_semantic_projection v) (deterministic_id E ''FACT'')"

definition binding_identity :: "ext \<Rightarrow> json \<Rightarrow> auth_error + ustr" where
  "binding_identity E binding =
     bindE (project_fields [''fact_id'', ''observation_id'', ''source_occurrence_id''] binding)
       (deterministic_id E ''BIND'')"

definition fact_evaluation_identity :: "ext \<Rightarrow> json \<Rightarrow> auth_error + ustr" where
  "fact_evaluation_identity E evaluation =
     bindE (project_fields [''fact_id'', ''evaluation_revision''] evaluation) (deterministic_id E ''FACT-EVAL'')"

definition observation_semantic_projection :: "json \<Rightarrow> auth_error + json" where
  "observation_semantic_projection observation =
     bindE (afield observation ''project_id'') (\<lambda>project.
     bindE (afield observation ''state_revision_observed'') (\<lambda>revision.
     bindE (afield observation ''state_fingerprint_observed'') (\<lambda>fingerprint.
     bindE (bindE (afield observation ''target'') (\<lambda>t. afield t ''target_identity'')) (\<lambda>target.
     bindE (bindE (afield observation ''scope_ref'') (\<lambda>s. afield s ''id'')) (\<lambda>scope.
     bindE (afield observation ''method_ref'') (\<lambda>method.
     bindE (afield observation ''time_boundary'') (\<lambda>boundary.
     bindE (afield observation ''source_snapshot_refs'') (\<lambda>sources.
     bindE (afield observation ''normalization_profile'') (\<lambda>profile.
     Inr (JObj (map (\<lambda>(k, v). (u k, v))
       [(''project_id'', project), (''state_revision_observed'', revision),
        (''state_fingerprint_observed'', fingerprint), (''target_identity'', target), (''scope_id'', scope),
        (''method_ref'', method), (''time_boundary'', boundary), (''source_snapshot_refs'', sources),
        (''normalization_profile'', profile)])))))))))))"

definition observation_identity :: "ext \<Rightarrow> json \<Rightarrow> auth_error + ustr" where
  "observation_identity E observation =
     bindE (observation_semantic_projection observation) (deterministic_id E ''OBS'')"

section \<open>The time boundary\<close>

text \<open>\<open>instant\<close> of a value: what is no string has no \<open>replace\<close>. Every failure reads as false.\<close>

definition instant_at :: "iso_reader \<Rightarrow> json \<Rightarrow> string \<Rightarrow> int option" where
  "instant_at other v k = (case jfield v k of Some (JStr s) \<Rightarrow> boundary_instant other s | _ \<Rightarrow> None)"

definition window_at :: "iso_reader \<Rightarrow> json \<Rightarrow> string \<Rightarrow> (int \<times> int) option" where
  "window_at other v k = (case jfield v k of
     Some w \<Rightarrow> (case (instant_at other w ''start'', instant_at other w ''end'') of
       (Some a, Some b) \<Rightarrow> Some (a, b) | _ \<Rightarrow> None)
   | None \<Rightarrow> None)"

record time_boundary =
  observed_start :: int
  observed_end :: int
  effective_start :: int
  effective_end :: int
  snapshot_at :: int

definition time_boundary_of :: "iso_reader \<Rightarrow> json \<Rightarrow> time_boundary option" where
  "time_boundary_of other observation = (case jfield observation ''time_boundary'' of
     Some b \<Rightarrow>
       (case (instant_at other b ''observation_started_at'', instant_at other b ''observation_ended_at'',
              instant_at other b ''target_effective_start'', instant_at other b ''target_effective_end'',
              instant_at other b ''source_snapshot_time'') of
          (Some os, Some oe, Some es, Some ee, Some s) \<Rightarrow>
            Some \<lparr> observed_start = os, observed_end = oe, effective_start = es, effective_end = ee, snapshot_at = s \<rparr>
        | _ \<Rightarrow> None)
   | None \<Rightarrow> None)"

definition boundary_inside :: "time_boundary \<Rightarrow> int \<times> int \<Rightarrow> int \<times> int \<Rightarrow> int \<Rightarrow> int \<Rightarrow> bool" where
  "boundary_inside t observation_window effective_window cutoff limit \<longleftrightarrow>
     observed_start t \<le> observed_end t \<and> effective_start t \<le> effective_end t
     \<and> fst observation_window \<le> observed_start t \<and> observed_end t \<le> snd observation_window
     \<and> fst effective_window \<le> effective_start t \<and> effective_end t \<le> snd effective_window
     \<and> effective_start t \<le> snapshot_at t \<and> snapshot_at t \<le> observed_end t
     \<and> snapshot_at t \<le> cutoff \<and> cutoff - snapshot_at t \<le> 1000000 * limit"

definition time_boundary_within_scope :: "iso_reader \<Rightarrow> json \<Rightarrow> json \<Rightarrow> bool" where
  "time_boundary_within_scope other observation scope =
     (case (time_boundary_of other observation, window_at other scope ''observation_window'',
            window_at other scope ''target_effective_window'', instant_at other scope ''cutoff'',
            jfield scope ''freshness_limit_seconds'') of
        (Some t, Some ow, Some ew, Some c, Some (JInt limit)) \<Rightarrow> boundary_inside t ow ew c limit
      | _ \<Rightarrow> False)"

section \<open>The boundary of a Fact\<close>

definition fact_boundary_observed :: "json \<Rightarrow> json \<Rightarrow> auth_error + bool" where
  "fact_boundary_observed boundary observation =
     bindE (aget boundary ''kind'') (\<lambda>kind.
     if kind = JStr (u ''SOURCE_SNAPSHOT'') then
       bindE (alist observation ''source_snapshot_refs'') (\<lambda>refs.
       bindE (mapE (\<lambda>r. afield r ''id'') refs) (\<lambda>declared.
       bindE (afield boundary ''identity'') (\<lambda>identity.
       bindE (afield boundary ''start'') (\<lambda>start.
       bindE (afield boundary ''end'') (\<lambda>ends.
       Inr (identity \<in> set declared \<and> start = JNull \<and> ends = JNull))))))
     else if kind = JStr (u ''TIME_INTERVAL'') then
       bindE (afield observation ''time_boundary'') (\<lambda>window.
       bindE (afield window ''target_effective_start'') (\<lambda>a.
       bindE (afield window ''target_effective_end'') (\<lambda>b.
       bindE (afield boundary ''start'') (\<lambda>start.
       bindE (afield boundary ''end'') (\<lambda>ends.
       Inr (py_eq start a \<and> py_eq ends b))))))
     else if kind = JStr (u ''STATE_REVISION'') then
       bindE (afield observation ''state_revision_observed'') (\<lambda>revision.
       bindE (afield boundary ''start'') (\<lambda>start.
       bindE (afield boundary ''end'') (\<lambda>ends.
       Inr (py_eq start revision \<and> py_eq ends revision))))
     else Inr False)"

section \<open>The status an observation certifies\<close>

definition scope_statuses :: "string list" where
  "scope_statuses = [''COMPLETE'', ''INCOMPLETE'', ''UNOBSERVED'', ''BLOCKED'', ''INVALID'', ''CONFLICTED'']"

definition one_of :: "string list \<Rightarrow> json \<Rightarrow> bool" where
  "one_of ks v \<longleftrightarrow> v \<in> set (map (\<lambda>k. JStr (u k)) ks)"

definition validate_scope :: "json \<Rightarrow> json \<Rightarrow> json \<Rightarrow> obs_error + unit" where
  "validate_scope scope project_id target_identity =
     bindE (observed (aget scope ''project_id'')) (\<lambda>p.
     bindE (ensureE (py_eq p project_id) ObservationError) (\<lambda>_.
     bindE (observed (aget scope ''target_identity'')) (\<lambda>t.
     bindE (ensureE (py_eq t target_identity) ObservationError) (\<lambda>_.
     bindE (observed (aget scope ''scope_status'')) (\<lambda>s.
     ensureE (one_of scope_statuses s) ObservationError)))))"

definition subject_in_scope :: "json \<Rightarrow> json \<Rightarrow> auth_error + bool" where
  "subject_in_scope subject scope =
     bindE (alist scope ''included_subjects'') (\<lambda>included.
     bindE (alist scope ''excluded_subjects'') (\<lambda>excluded.
     Inr (subject \<in> set included \<and> subject \<notin> set excluded)))"

definition blocks_completion :: "json \<Rightarrow> auth_error + bool" where
  "blocks_completion spot = bindE (afield spot ''impact'') (\<lambda>i. Inr (i = JStr (u ''BLOCKS_COMPLETION'')))"

definition observation_status ::
  "json \<Rightarrow> json list \<Rightarrow> json list \<Rightarrow> json list \<Rightarrow> bool \<Rightarrow> bool \<Rightarrow> bool \<Rightarrow> auth_error + json" where
  "observation_status scope attempts blind_spots outcomes has_facts collection_complete time_boundary_complete =
     bindE (afield scope ''scope_status'') (\<lambda>scope_status.
     if \<not> time_boundary_complete then Inr (JStr (u ''INCOMPLETE''))
     else if one_of [''INVALID'', ''CONFLICTED'', ''BLOCKED'', ''UNOBSERVED''] scope_status then Inr scope_status
     else bindE (mapE (\<lambda>a. afield a ''result'') attempts) (\<lambda>results.
       let combined = outcomes @ results
       in if JStr (u ''FAILED'') \<in> set combined then Inr (JStr (u ''FAILED''))
          else if JStr (u ''BLOCKED'') \<in> set combined then Inr (JStr (u ''BLOCKED''))
          else bindE (if scope_status = JStr (u ''INCOMPLETE'') \<or> JStr (u ''INCOMPLETE'') \<in> set combined
                        \<or> JStr (u ''PARTIAL'') \<in> set combined then Inr True
                      else anyE (map blocks_completion blind_spots)) (\<lambda>incomplete.
            Inr (JStr (u (
              if incomplete then ''INCOMPLETE''
              else if JStr (u ''UNKNOWN'') \<in> set combined then ''UNKNOWN''
              else if has_facts then ''COMPLETE''
              else if collection_complete \<and> results \<noteq> [] \<and> list_all (one_of [''COMPLETE'', ''EMPTY'']) results
              then ''EMPTY'' else ''UNKNOWN''))))))"

section \<open>Source Snapshots\<close>

definition source_snapshot_scalars :: "string list" where
  "source_snapshot_scalars = [''source_locator'', ''content_digest'', ''captured_at'', ''git_provenance'']"

definition source_snapshot_identity :: "ext \<Rightarrow> json \<Rightarrow> auth_error + ustr" where
  "source_snapshot_identity E v = bindE (project_fields source_snapshot_scalars v) (deterministic_id E ''SRC-SNAP'')"

text \<open>\<open>re.IGNORECASE\<close>: the code points whose case folds onto a letter of the pattern.\<close>

definition ignore_case :: "nat \<Rightarrow> nat" where
  "ignore_case c = (if 65 \<le> c \<and> c \<le> 90 then c + 32 else if c = 304 \<or> c = 305 then 105
     else if c = 383 then 115 else if c = 8490 then 107 else c)"

definition may_expose_secret :: "ustr \<Rightarrow> bool" where
  "may_expose_secret locator \<longleftrightarrow>
     list_ex (\<lambda>w. substring (u w) (map ignore_case locator)) [''password'', ''token'', ''secret'', ''credential'']"

definition validate_source_locator :: "json \<Rightarrow> obs_error + unit" where
  "validate_source_locator v = (case v of
     JStr locator \<Rightarrow>
       ensureE (locator \<noteq> [] \<and> hd locator \<noteq> 47 \<and> \<not> substring (u ''://'') locator
         \<and> u ''..'' \<notin> set (split_on 47 locator) \<and> \<not> may_expose_secret locator
         \<and> 10 \<notin> set locator \<and> 13 \<notin> set locator) ObservationError
   | _ \<Rightarrow> Inl (Obs_raised AuthPy))"

fun first_snapshot :: "json \<Rightarrow> json list \<Rightarrow> auth_error + json option" where
  "first_snapshot identity [] = Inr None"
| "first_snapshot identity (item # pool) =
     bindE (aget item ''source_snapshot_id'') (\<lambda>i.
     if py_eq i identity then Inr (Some item) else first_snapshot identity pool)"

definition snapshot_schema :: ustr where
  "snapshot_schema = schema_base @ u ''observation/source_snapshot.schema.json''"

definition resolve_source_snapshot :: "ext \<Rightarrow> json \<Rightarrow> json list \<Rightarrow> obs_error + json" where
  "resolve_source_snapshot E ref pool =
     bindE (observed (aget ref ''id'')) (\<lambda>identity.
     bindE (observed (first_snapshot identity pool)) (\<lambda>found.
     bindE (orE found ObservationError) (\<lambda>snapshot.
     bindE (ensureE (ext_schema E snapshot_schema snapshot) ObservationError) (\<lambda>_.
     bindE (observed (afield snapshot ''source_snapshot_id'')) (\<lambda>declared.
     bindE (ensureE (py_eq declared identity) ObservationError) (\<lambda>_.
     bindE (observed (source_snapshot_identity E snapshot)) (\<lambda>recomputed.
     bindE (ensureE (declared = JStr recomputed) ObservationError) (\<lambda>_.
     bindE (observed (afield snapshot ''source_locator'')) (\<lambda>locator.
     bindE (validate_source_locator locator) (\<lambda>_. Inr snapshot))))))))))"

end
