(* ===== verification/Policy.thy ===== *)
theory Policy
  imports Conformance
begin

text \<open>
  When a Closure Policy recomputes from its own content (\<open>difference/policy.py\<close>). A finding stands for
  a message of the code; the text is not modelled. The rule about reopen conditions is relational and
  is not modelled.
\<close>

datatype policy_finding =
  ClaimNotObject
| ClaimOmitsField
| ClaimFingerprintStale
| ClaimIdentityStale
| ClaimDuplicateMember
| ClaimTwoPayloads
| PolicyDuplicateMember string
| PolicyIncomplete
| PolicyFingerprintStale

definition claim_semantic_fields :: "string list" where
  "claim_semantic_fields = [''subject_type'', ''subject_ref'', ''claim'', ''target_state_ref'']"

definition policy_unordered_set_fields :: "string list" where
  "policy_unordered_set_fields = [''required_claims'', ''required_invariants'', ''allowed_terminal_states'',
     ''reopen_conditions'']"

text \<open>\<open>except (KeyError, TypeError)\<close>.\<close>

fun unreadable :: "auth_error + 'a \<Rightarrow> bool" where
  "unreadable (Inl AuthPy) = True"
| "unreadable _ = False"

definition found_if :: "bool \<Rightarrow> 'a \<Rightarrow> 'a list" where
  "found_if b x = (if b then [x] else [])"

definition claim_findings :: "ext \<Rightarrow> (ustr \<times> bytes) list \<Rightarrow> json \<Rightarrow> auth_error + (ustr \<times> bytes) list \<times> policy_finding list" where
  "claim_findings E seen claim =
     (if \<not> is_obj claim then Inr (seen, [ClaimNotObject])
      else case project_fields claim_semantic_fields claim of
        Inl _ \<Rightarrow> Inr (seen, [ClaimOmitsField])
      | Inr descriptor \<Rightarrow>
          bindE (aget claim ''id'') (\<lambda>identity.
          bindE (aget claim ''claim_semantic_fingerprint'') (\<lambda>declared.
          bindE (completion_claim_fingerprint E descriptor) (\<lambda>fingerprint.
          bindE (completion_claim_id E descriptor) (\<lambda>recomputed.
          bindE (has_recursive_set_duplicate E descriptor) (\<lambda>duplicate.
          bindE (canonical_bytes E claim) (\<lambda>encoded.
          let found = found_if (declared \<noteq> JStr fingerprint) ClaimFingerprintStale
                @ found_if (identity \<noteq> JStr recomputed) ClaimIdentityStale
                @ found_if duplicate ClaimDuplicateMember
          in Inr (case identity of
                JStr i \<Rightarrow>
                  (AList.update i encoded seen,
                   found @ found_if (map_of seen i \<noteq> None \<and> map_of seen i \<noteq> Some encoded) ClaimTwoPayloads)
              | _ \<Rightarrow> (seen, found)))))))))"

text \<open>\<open>policy.get("required_claims", []) or []\<close>, iterated.\<close>

fun iterated :: "json \<Rightarrow> auth_error + json list" where
  "iterated (JList xs) = Inr xs"
| "iterated (JObj kvs) = Inr (map (JStr \<circ> fst) kvs)"
| "iterated (JStr s) = Inr (map (\<lambda>c. JStr [c]) s)"
| "iterated JNull = Inr []"
| "iterated (JBool False) = Inr []"
| "iterated (JInt i) = (if i = 0 then Inr [] else Inl AuthPy)"
| "iterated _ = Inl AuthPy"

definition claim_errors :: "ext \<Rightarrow> json \<Rightarrow> auth_error + policy_finding list" where
  "claim_errors E policy =
     bindE (aget policy ''required_claims'') (\<lambda>v.
     bindE (iterated v) (\<lambda>claims.
     bindE (foldE (\<lambda>(seen, found) claim.
       bindE (claim_findings E seen claim) (\<lambda>(seen', more). Inr (seen', found @ more))) ([], []) claims) (\<lambda>(seen, found).
     Inr found)))"

definition duplicate_set_errors :: "ext \<Rightarrow> json \<Rightarrow> auth_error + policy_finding list" where
  "duplicate_set_errors E policy =
     (let projection = policy_semantic_projection E policy
      in if unreadable projection then Inr [] else
         bindE projection (\<lambda>p.
         bindE (filterE (\<lambda>k. bindE (afield p k) (has_duplicate_members E)) policy_unordered_set_fields) (\<lambda>ks.
         Inr (map PolicyDuplicateMember ks))))"

definition closure_policy_semantic_errors :: "ext \<Rightarrow> json \<Rightarrow> auth_error + policy_finding list" where
  "closure_policy_semantic_errors E policy =
     bindE (claim_errors E policy) (\<lambda>claims.
     bindE (duplicate_set_errors E policy) (\<lambda>duplicates.
     let recomputed = policy_semantic_fingerprint E policy
     in if unreadable recomputed then Inr (claims @ duplicates @ [PolicyIncomplete]) else
        bindE recomputed (\<lambda>fingerprint.
        bindE (aget policy ''policy_semantic_fingerprint'') (\<lambda>declared.
        Inr (claims @ duplicates @ found_if (declared \<noteq> JStr fingerprint) PolicyFingerprintStale)))))"

lemma policy_recomputes:
  assumes "closure_policy_semantic_errors E policy = Inr []"
  shows "\<exists>f. policy_semantic_fingerprint E policy = Inr f
    \<and> jfield policy ''policy_semantic_fingerprint'' = Some (JStr f)"
proof -
  obtain f where "policy_semantic_fingerprint E policy = Inr f"
    "aget policy ''policy_semantic_fingerprint'' = Inr (JStr f)"
    using assms by (auto simp: closure_policy_semantic_errors_def Let_def found_if_def split: if_splits)
  then show ?thesis by auto
qed

end
