(* ===== verification/Evidence.thy ===== *)
theory Evidence
  imports Observed Change ReflowCommit Policy
begin

text \<open>
  The one deriver of Evidence (\<open>evidence/engine.py\<close>, \<open>evidence/levels.py\<close>, \<open>evidence/identity.py\<close>).
  The owners it reproduces its predecessors with are \<open>observe\<close> and \<open>derive_differences\<close>, functions
  the model is given (\<open>owners\<close>), and \<open>derive_change\<close>, which is modelled. A \<open>dict\<close> is updated as the code
  does it; a \<open>JObjBad\<close> (a key that is no string) is unreadable.
\<close>

section \<open>Errors and owners\<close>

text \<open>What an owner raises: one of the classes the boundary translates (\<open>ObservationError\<close>,
  \<open>ChangeError\<close>, \<open>AuthorityError\<close>, \<open>DifferenceError\<close>, \<open>CanonicalizationError\<close>), a \<open>KeyError\<close>, \<open>TypeError\<close>
  or \<open>IndexError\<close>, another \<open>ValueError\<close>, anything else.\<close>

datatype owner_error = OwnerRefused | OwnerUnreadable | OwnerValueError | OwnerOther

datatype evidence_error =
  EvidenceError
| EvidenceValidationError
| UngroundedChangeResultEvidenceError
| UnsupportedEvidenceLevelError
| Evidence_raised owner_error

record owners =
  observe :: "json \<Rightarrow> owner_error + json"
  derive_differences :: "json \<Rightarrow> owner_error + json"
  clock :: iso_reader

fun owner_of :: "auth_error \<Rightarrow> owner_error" where
  "owner_of AuthPy = OwnerUnreadable"
| "owner_of (AuthCanon UnicodeEncodeError) = OwnerValueError"
| "owner_of _ = OwnerRefused"

fun change_owner_of :: "change_error \<Rightarrow> owner_error" where
  "change_owner_of (Change_raised e) = owner_of e"
| "change_owner_of _ = OwnerRefused"

abbreviation reading :: "auth_error + 'a \<Rightarrow> evidence_error + 'a" where
  "reading \<equiv> mapErr (\<lambda>e. Evidence_raised (owner_of e))"

text \<open>\<open>derive_evidence\<close> translates the refusals of its owners; \<open>_delegate\<close> what is unreadable.\<close>

fun evidence_boundary :: "evidence_error \<Rightarrow> evidence_error" where
  "evidence_boundary (Evidence_raised OwnerRefused) = EvidenceError"
| "evidence_boundary e = e"

fun unreadable_input :: "owner_error \<Rightarrow> evidence_error" where
  "unreadable_input OwnerUnreadable = EvidenceError"
| "unreadable_input e = Evidence_raised e"

definition delegate :: "(json \<Rightarrow> owner_error + 'a) \<Rightarrow> json \<Rightarrow> evidence_error + 'a" where
  "delegate owner request =
     mapErr unreadable_input (bindE (mapErr owner_of (require_object request)) owner)"

section \<open>Levels\<close>

definition evidence_level_scale :: "string list" where
  "evidence_level_scale = [''E0'', ''E1'', ''E2'', ''E3'', ''E4'', ''E5'', ''E6'']"

definition derivable_levels :: "string list" where
  "derivable_levels = [''E0'', ''E1'']"

definition confirming_statuses :: "string list" where
  "confirming_statuses = [''COMPLETE'', ''EMPTY'']"

fun position_in :: "'a list \<Rightarrow> 'a \<Rightarrow> nat option" where
  "position_in [] x = None"
| "position_in (y # ys) x = (if x = y then Some 0 else map_option Suc (position_in ys x))"

definition level_index :: "json \<Rightarrow> evidence_error + nat" where
  "level_index v = (case v of
     JStr s \<Rightarrow> orE (position_in (map u evidence_level_scale) s) UnsupportedEvidenceLevelError
   | _ \<Rightarrow> Inl UnsupportedEvidenceLevelError)"

text \<open>\<open>min(levels, key=level_index)\<close>: the first of the least.\<close>

fun weakest_from :: "json \<Rightarrow> nat \<Rightarrow> json list \<Rightarrow> evidence_error + json" where
  "weakest_from best i [] = Inr best"
| "weakest_from best i (x # xs) =
     bindE (level_index x) (\<lambda>j. if j < i then weakest_from x j xs else weakest_from best i xs)"

definition weakest :: "json list \<Rightarrow> evidence_error + json" where
  "weakest levels = (case levels of
     [] \<Rightarrow> Inl (Evidence_raised OwnerValueError)
   | x # xs \<Rightarrow> bindE (level_index x) (\<lambda>i. weakest_from x i xs))"

definition derive_level :: "json \<Rightarrow> evidence_error + ustr" where
  "derive_level observation =
     bindE (reading (aget observation ''status'')) (\<lambda>status.
     if \<not> one_of confirming_statuses status then Inr (u ''E0'') else
     bindE (reading (aget observation ''source_snapshot_refs'')) (\<lambda>refs.
     Inr (u (if falsy refs then ''E0'' else ''E1''))))"

section \<open>Identity\<close>

definition evidence_semantic_fields :: "string list" where
  "evidence_semantic_fields = [''evidence_position'', ''timestamp'', ''target'', ''difference_ref'',
     ''before_state'', ''observation_method'', ''change_identity'', ''authority_used'', ''after_state'',
     ''expected_result'', ''observed_result'', ''status'', ''artifact_references'', ''lineage'',
     ''remaining_differences'', ''evidence_level'', ''verification_result_provenance'']"

definition evidence_semantic_fingerprint :: "ext \<Rightarrow> json \<Rightarrow> auth_error + ustr" where
  "evidence_semantic_fingerprint E evidence =
     bindE (project_fields evidence_semantic_fields evidence) (digest E)"

definition evidence_id :: "ext \<Rightarrow> json \<Rightarrow> auth_error + ustr" where
  "evidence_id E evidence =
     bindE (project_fields evidence_semantic_fields evidence) (address E ''EVIDENCE-'')"

section \<open>The request\<close>

definition evidence_request_keys :: "string list" where
  "evidence_request_keys = [''schema_version'', ''recorded_at'', ''observation_request'', ''difference_request'',
     ''change_request'', ''post_change_observation_request'', ''verification_observation_request'',
     ''verification_result_provenance'', ''artifact_references'', ''predecessor_evidence_refs'',
     ''remaining_difference_refs'']"

definition exact_keys :: "string list \<Rightarrow> json \<Rightarrow> bool" where
  "exact_keys ks v \<longleftrightarrow> known_keys ks v \<and> list_all (\<lambda>k. jfield v k \<noteq> None) ks"

definition require_evidence_request :: "json \<Rightarrow> evidence_error + json" where
  "require_evidence_request request =
     bindE (reading (require_object request)) (\<lambda>shaped.
     bindE (ensureE (exact_keys evidence_request_keys shaped) EvidenceError) (\<lambda>_.
     bindE (reading (afield shaped ''schema_version'')) (\<lambda>version.
     bindE (ensureE (version = JStr (u ''0.1'')) EvidenceError) (\<lambda>_. Inr shaped))))"

section \<open>The reproduced predecessors\<close>

text \<open>\<open>bundle["observations"][-1]\<close>.\<close>

definition last_observation :: "json \<Rightarrow> owner_error + json" where
  "last_observation bundle = (case jfield bundle ''observations'' of
     Some (JList xs) \<Rightarrow> (if xs = [] then Inl OwnerUnreadable else Inr (last xs))
   | _ \<Rightarrow> Inl OwnerUnreadable)"

definition observed_by :: "owners \<Rightarrow> json \<Rightarrow> owner_error + json \<times> json" where
  "observed_by R request =
     bindE (observe R request) (\<lambda>bundle. bindE (last_observation bundle) (\<lambda>observation. Inr (bundle, observation)))"

definition minted_observation :: "owners \<Rightarrow> json \<Rightarrow> evidence_error + json \<times> json" where
  "minted_observation R request = delegate (observed_by R) request"

definition derived_difference :: "owners \<Rightarrow> json \<Rightarrow> json \<Rightarrow> evidence_error + json" where
  "derived_difference R request bundle =
     bindE (reading (require_object request)) (\<lambda>shaped.
     bindE (case jfield shaped ''bindings'' of Some (JList [b]) \<Rightarrow> Inr b | _ \<Rightarrow> Inl EvidenceError) (\<lambda>b.
     bindE (reading (require_object b)) (\<lambda>binding.
     let bound = aset ''bindings'' (JList [aset ''observation_bundle'' bundle binding]) shaped
     in bindE (delegate (derive_differences R) bound) (\<lambda>derived.
        bindE (reading (aget derived ''differences'')) (\<lambda>differences.
        case differences of JList [difference] \<Rightarrow> Inr difference | _ \<Rightarrow> Inl EvidenceError)))))"

section \<open>Parts of a record\<close>

fun nonempty_string :: "json \<Rightarrow> evidence_error + ustr" where
  "nonempty_string (JStr s) = (if s = [] then Inl EvidenceError else Inr s)"
| "nonempty_string _ = Inl EvidenceError"

text \<open>A member that repeats another under its identity is kept once; a different one is refused.\<close>

definition admit_member ::
  "(json \<Rightarrow> evidence_error + ustr) \<Rightarrow> (ustr \<times> json) list \<Rightarrow> json \<Rightarrow> evidence_error + (ustr \<times> json) list" where
  "admit_member read_id seen member =
     bindE (read_id member) (\<lambda>identity.
     bindE (ensureE (case map_of seen identity of None \<Rightarrow> True | Some other \<Rightarrow> py_eq other member)
       EvidenceError) (\<lambda>_.
     Inr (AList.update identity member seen)))"

definition member_list :: "(json \<Rightarrow> evidence_error + ustr) \<Rightarrow> json \<Rightarrow> evidence_error + json list" where
  "member_list read_id v = (case v of
     JList xs \<Rightarrow> bindE (foldE (admit_member read_id) [] xs) (\<lambda>seen. Inr (map snd (sort_key fst seen)))
   | _ \<Rightarrow> Inl EvidenceError)"

definition admit_reference :: "string \<Rightarrow> json \<Rightarrow> evidence_error + ustr" where
  "admit_reference kind member =
     bindE (reading (require_object member)) (\<lambda>reference.
     bindE (ensureE (known_keys [''kind'', ''id'', ''digest''] reference) EvidenceError) (\<lambda>_.
     bindE (reading (aget reference ''kind'')) (\<lambda>k.
     bindE (ensureE (k = JStr (u kind)) EvidenceError) (\<lambda>_.
     bindE (reading (aget reference ''id'')) nonempty_string))))"

definition typed_references :: "json \<Rightarrow> string \<Rightarrow> evidence_error + json list" where
  "typed_references v kind = member_list (admit_reference kind) v"

definition admit_artifact :: "json \<Rightarrow> evidence_error + ustr" where
  "admit_artifact member =
     bindE (reading (require_object member)) (\<lambda>artifact.
     bindE (reading (aget artifact ''id'')) nonempty_string)"

definition artifact_references :: "json \<Rightarrow> evidence_error + json list" where
  "artifact_references v = member_list admit_artifact v"

definition obj :: "(string \<times> json) list \<Rightarrow> json" where
  "obj kvs = JObj (map (\<lambda>(k, v). (u k, v)) kvs)"

definition typed_ref :: "string \<Rightarrow> json \<Rightarrow> json" where
  "typed_ref kind identity = obj [(''kind'', JStr (u kind)), (''id'', identity)]"

definition state_binding :: "json \<Rightarrow> evidence_error + json" where
  "state_binding observation =
     bindE (reading (afield observation ''state_revision_observed'')) (\<lambda>revision.
     bindE (reading (afield observation ''state_fingerprint_observed'')) (\<lambda>fingerprint.
     Inr (obj [(''state_revision'', revision), (''semantic_fingerprint'', fingerprint)])))"

definition reference_key :: "json \<Rightarrow> evidence_error + (ustr \<times> ustr) \<times> json" where
  "reference_key reference =
     bindE (reading (astr reference ''kind'')) (\<lambda>k.
     bindE (reading (astr reference ''id'')) (\<lambda>i. Inr ((k, i), reference)))"

definition sorted_references :: "json list \<Rightarrow> evidence_error + json list" where
  "sorted_references refs = bindE (mapE reference_key refs) (\<lambda>ks. Inr (map snd (sort_key fst ks)))"

definition ordered_list :: "json list \<Rightarrow> json" where
  "ordered_list members = obj [(''collection_kind'', JStr (u ''ORDERED_LIST'')), (''members'', JList members)]"

definition observed_result :: "json \<Rightarrow> evidence_error + json" where
  "observed_result observation =
     bindE (reading (afield observation ''observation_id'')) (\<lambda>identity.
     bindE (reading (afield observation ''status'')) (\<lambda>status.
     bindE (reading (bindE (afield observation ''blind_spots'') (\<lambda>b. afield b ''status''))) (\<lambda>spots.
     bindE (reading (alist observation ''normalized_fact_refs'')) (\<lambda>facts.
     bindE (sorted_references facts) (\<lambda>sorted_facts.
     bindE (reading (alist observation ''attempts'')) (\<lambda>attempts.
     bindE (reading (mapE (\<lambda>a. afield a ''result'') attempts)) (\<lambda>outcomes.
     Inr (obj [(''observation_ref'', typed_ref ''observation'' identity), (''observation_status'', status),
       (''blind_spot_status'', spots), (''normalized_fact_refs'', set_wrapper sorted_facts),
       (''attempt_outcomes'', ordered_list outcomes)]))))))))"

definition require_recorded_after :: "owners \<Rightarrow> json \<Rightarrow> json \<Rightarrow> evidence_error + json" where
  "require_recorded_after R recorded_at observation =
     bindE (nonempty_string recorded_at) (\<lambda>at.
     bindE (reading (bindE (afield observation ''time_boundary'') (\<lambda>b. afield b ''observation_ended_at''))) (\<lambda>ended_at.
     bindE (orE (boundary_instant (clock R) at) EvidenceError) (\<lambda>recorded.
     case ended_at of
       JStr e \<Rightarrow>
         bindE (orE (boundary_instant (clock R) e) EvidenceError) (\<lambda>ended.
         bindE (ensureE (ended \<le> recorded) EvidenceError) (\<lambda>_. Inr recorded_at))
     | _ \<Rightarrow> Inl (Evidence_raised OwnerOther))))"

definition common :: "owners \<Rightarrow> json \<Rightarrow> json \<Rightarrow> json \<Rightarrow> evidence_error + json" where
  "common R shaped grounding difference =
     bindE (bindE (reading (afield shaped ''artifact_references'')) artifact_references) (\<lambda>artifacts.
     bindE (bindE (reading (afield shaped ''remaining_difference_refs'')) (\<lambda>v. typed_references v ''difference'')) (\<lambda>remaining.
     bindE (reading (afield difference ''difference_id'')) (\<lambda>difference_id.
     let difference_ref = typed_ref ''difference'' difference_id
     in bindE (ensureE (\<not> list_ex (py_eq difference_ref) remaining) EvidenceError) (\<lambda>_.
        bindE (reading (afield shaped ''recorded_at'')) (\<lambda>recorded_at.
        bindE (require_recorded_after R recorded_at grounding) (\<lambda>timestamp.
        bindE (reading (afield grounding ''project_id'')) (\<lambda>project.
        bindE (reading (bindE (afield grounding ''target'') (\<lambda>t. afield t ''target_identity''))) (\<lambda>target.
        bindE (reading (bindE (afield grounding ''target'') (\<lambda>t. afield t ''kind''))) (\<lambda>target_kind.
        bindE (reading (afield grounding ''method_ref'')) (\<lambda>method.
        bindE (reading (afield grounding ''normalization_profile'')) (\<lambda>profile.
        bindE (observed_result grounding) (\<lambda>result.
        bindE (reading (afield grounding ''status'')) (\<lambda>status.
        bindE (derive_level grounding) (\<lambda>level.
        Inr (obj [(''schema_version'', JStr (u ''0.1'')), (''evidence_id'', JStr []), (''timestamp'', timestamp),
          (''target'', obj [(''project_id'', project), (''target_identity'', target), (''kind'', target_kind)]),
          (''difference_ref'', difference_ref),
          (''observation_method'', obj [(''method_ref'', method), (''normalization_profile'', profile)]),
          (''observed_result'', result), (''status'', status),
          (''artifact_references'', set_wrapper artifacts), (''remaining_differences'', set_wrapper remaining),
          (''evidence_level'', JStr level), (''verification_result_provenance'', JNull),
          (''evidence_semantic_fingerprint'', JStr [])])))))))))))))))"

definition lineage_of :: "json \<Rightarrow> json list \<Rightarrow> evidence_error + json" where
  "lineage_of shaped derived_from =
     bindE (sorted_references derived_from) (\<lambda>sources.
     bindE (bindE (reading (afield shaped ''predecessor_evidence_refs''))
       (\<lambda>v. typed_references v ''observation_evidence'')) (\<lambda>predecessors.
     Inr (obj [(''derived_from'', set_wrapper sources), (''predecessor_evidence_refs'', set_wrapper predecessors)])))"

definition evidence_schema :: ustr where
  "evidence_schema = schema_base @ u ''evidence/evidence.schema.json''"

definition finalize :: "ext \<Rightarrow> json \<Rightarrow> evidence_error + json" where
  "finalize E evidence =
     bindE (reading (evidence_semantic_fingerprint E evidence)) (\<lambda>fingerprint.
     let e1 = aset ''evidence_semantic_fingerprint'' (JStr fingerprint) evidence
     in bindE (reading (evidence_id E e1)) (\<lambda>identity.
        let e2 = aset ''evidence_id'' (JStr identity) e1
        in bindE (ensureE (ext_schema E evidence_schema e2) EvidenceValidationError) (\<lambda>_. Inr e2)))"

section \<open>The positions\<close>

definition observation_evidence :: "owners \<Rightarrow> ext \<Rightarrow> json \<Rightarrow> json \<Rightarrow> json \<Rightarrow> evidence_error + json" where
  "observation_evidence R E shaped observation difference =
     bindE (common R shaped observation difference) (\<lambda>evidence.
     bindE (state_binding observation) (\<lambda>before.
     bindE (reading (afield observation ''observation_id'')) (\<lambda>i.
     bindE (reading (afield difference ''difference_id'')) (\<lambda>d.
     bindE (lineage_of shaped [typed_ref ''observation'' i, typed_ref ''difference'' d]) (\<lambda>lineage.
     finalize E (update_fields
       [(''evidence_position'', JStr (u ''OBSERVATION_EVIDENCE'')), (''before_state'', before),
        (''change_identity'', JNull), (''authority_used'', JNull), (''after_state'', JNull),
        (''expected_result'', JNull), (''lineage'', lineage)] evidence))))))"

definition change_free_verification_evidence ::
  "owners \<Rightarrow> ext \<Rightarrow> json \<Rightarrow> json \<Rightarrow> json \<Rightarrow> json \<Rightarrow> json \<Rightarrow> evidence_error + json" where
  "change_free_verification_evidence R E shaped before_observation difference verification_request provenance =
     bindE (minted_observation R verification_request) (\<lambda>(bundle, verification).
     bindE (reading (afield verification ''observation_id'')) (\<lambda>v.
     bindE (reading (afield before_observation ''observation_id'')) (\<lambda>b.
     bindE (ensureE (\<not> py_eq v b) EvidenceError) (\<lambda>_.
     bindE (reading (afield verification ''project_id'')) (\<lambda>vp.
     bindE (reading (afield before_observation ''project_id'')) (\<lambda>bp.
     bindE (ensureE (py_eq vp bp) EvidenceError) (\<lambda>_.
     bindE (reading (afield verification ''target'')) (\<lambda>vt.
     bindE (reading (afield before_observation ''target'')) (\<lambda>bt.
     bindE (ensureE (py_eq vt bt) EvidenceError) (\<lambda>_.
     bindE (common R shaped verification difference) (\<lambda>evidence.
     bindE (state_binding before_observation) (\<lambda>before.
     bindE (state_binding verification) (\<lambda>after.
     bindE (reading (afield difference ''difference_id'')) (\<lambda>d.
     bindE (lineage_of shaped [typed_ref ''observation'' b, typed_ref ''observation'' v,
       typed_ref ''difference'' d]) (\<lambda>lineage.
     finalize E (update_fields
       [(''evidence_position'', JStr (u ''CHANGE_FREE_VERIFICATION_EVIDENCE'')), (''before_state'', before),
        (''change_identity'', JNull), (''authority_used'', JNull), (''after_state'', after),
        (''expected_result'', JNull), (''verification_result_provenance'', provenance),
        (''lineage'', lineage)] evidence))))))))))))))))"

text \<open>\<open>a < b\<close> of two integers.\<close>

fun int_of :: "json \<Rightarrow> evidence_error + int" where
  "int_of (JInt i) = Inr i"
| "int_of (JBool b) = Inr (if b then 1 else 0)"
| "int_of _ = Inl (Evidence_raised OwnerUnreadable)"

definition change_parts :: "json \<Rightarrow> json \<Rightarrow> auth_error + json \<times> json \<times> json" where
  "change_parts change ruling =
     bindE (afield change ''change_id'') (\<lambda>identity.
     bindE (afield change ''change_semantic_fingerprint'') (\<lambda>fingerprint.
     bindE (afield change ''idempotency_key'') (\<lambda>key.
     bindE (afield change ''execution_result'') (\<lambda>execution.
     bindE (afield change ''action'') (\<lambda>action.
     bindE (afield change ''scope'') (\<lambda>scope.
     bindE (afield change ''expected_state_revision'') (\<lambda>revision.
     bindE (afield ruling ''authority_decision_id'') (\<lambda>decision_identity.
     bindE (afield ruling ''decision'') (\<lambda>verdict.
     bindE (afield ruling ''decision_semantic_fingerprint'') (\<lambda>decision_fingerprint.
     Inr (obj [(''kind'', JStr (u ''change'')), (''id'', identity), (''change_semantic_fingerprint'', fingerprint),
            (''idempotency_key'', key), (''execution_result'', execution), (''causality_claimed'', JBool False)],
          obj [(''kind'', JStr (u ''authority_decision'')), (''id'', decision_identity), (''decision'', verdict),
            (''decision_semantic_fingerprint'', decision_fingerprint)],
          obj [(''declared_action'', action), (''declared_scope'', scope),
            (''expected_state_revision'', revision), (''causality_claimed'', JBool False),
            (''execution_receipt_present'', JBool False)])))))))))))"

definition change_result_evidence ::
  "owners \<Rightarrow> ext \<Rightarrow> json \<Rightarrow> json \<Rightarrow> json \<Rightarrow> json \<Rightarrow> json \<Rightarrow> evidence_error + json" where
  "change_result_evidence R E shaped before_observation difference change_request post_change_request =
     bindE (delegate (\<lambda>r. mapErr change_owner_of (derive_change E r)) change_request) (\<lambda>change.
     bindE (reading (bindE (require_object change_request) (\<lambda>r. bindE (afield r ''authority_decision'') require_object))) (\<lambda>ruling.
     bindE (reading (bindE (afield change ''difference_ref'') (\<lambda>r. afield r ''id''))) (\<lambda>authorized.
     bindE (reading (afield difference ''difference_id'')) (\<lambda>d.
     bindE (ensureE (py_eq authorized d) EvidenceError) (\<lambda>_.
     bindE (minted_observation R post_change_request) (\<lambda>(bundle, after_observation).
     bindE (reading (afield after_observation ''observation_id'')) (\<lambda>a.
     bindE (reading (afield before_observation ''observation_id'')) (\<lambda>b.
     bindE (ensureE (\<not> py_eq a b) EvidenceError) (\<lambda>_.
     bindE (bindE (reading (afield after_observation ''state_revision_observed'')) int_of) (\<lambda>observed_revision.
     bindE (bindE (reading (afield change ''expected_state_revision'')) int_of) (\<lambda>expected_revision.
     bindE (ensureE (expected_revision \<le> observed_revision) EvidenceError) (\<lambda>_.
     bindE (common R shaped after_observation difference) (\<lambda>evidence.
     bindE (state_binding before_observation) (\<lambda>before.
     bindE (reading (change_parts change ruling)) (\<lambda>(change_identity, authority_used, expected_result).
     bindE (state_binding after_observation) (\<lambda>after.
     bindE (reading (afield change ''change_id'')) (\<lambda>c.
     bindE (reading (afield ruling ''authority_decision_id'')) (\<lambda>z.
     bindE (lineage_of shaped [typed_ref ''observation'' b, typed_ref ''observation'' a,
       typed_ref ''difference'' d, typed_ref ''change'' c, typed_ref ''authority_decision'' z]) (\<lambda>lineage.
     finalize E (update_fields
       [(''evidence_position'', JStr (u ''CHANGE_RESULT_EVIDENCE'')), (''before_state'', before),
        (''change_identity'', change_identity), (''authority_used'', authority_used), (''after_state'', after),
        (''expected_result'', expected_result), (''lineage'', lineage)] evidence))))))))))))))))))))"

section \<open>The deriver\<close>

definition cites_observation :: "json \<Rightarrow> json \<Rightarrow> evidence_error + bool" where
  "cites_observation difference observation =
     bindE (reading (afield observation ''observation_id'')) (\<lambda>i.
     bindE (reading (alist difference ''observation_refs'')) (\<lambda>refs.
     Inr (list_ex (py_eq (typed_ref ''observation'' i)) refs)))"

definition grounded :: "owners \<Rightarrow> json \<Rightarrow> evidence_error + json \<times> json" where
  "grounded R shaped =
     bindE (bindE (reading (afield shaped ''observation_request'')) (minted_observation R)) (\<lambda>(bundle, observation).
     bindE (bindE (reading (afield shaped ''difference_request'')) (\<lambda>r. derived_difference R r bundle)) (\<lambda>difference.
     bindE (cites_observation difference observation) (\<lambda>cited.
     bindE (ensureE cited EvidenceError) (\<lambda>_. Inr (observation, difference)))))"

definition positioned :: "owners \<Rightarrow> ext \<Rightarrow> json \<Rightarrow> json \<Rightarrow> json \<Rightarrow> evidence_error + json" where
  "positioned R E shaped observation difference =
     bindE (reading (afield shaped ''change_request'')) (\<lambda>change_request.
     bindE (reading (afield shaped ''post_change_observation_request'')) (\<lambda>post_change_request.
     bindE (reading (afield shaped ''verification_observation_request'')) (\<lambda>verification_request.
     bindE (reading (afield shaped ''verification_result_provenance'')) (\<lambda>provenance.
     if change_request = JNull then
       if post_change_request \<noteq> JNull then Inl EvidenceError
       else if verification_request \<noteq> JNull then
         if provenance = JNull then Inl EvidenceError
         else change_free_verification_evidence R E shaped observation difference verification_request provenance
       else if provenance \<noteq> JNull then Inl EvidenceError
       else observation_evidence R E shaped observation difference
     else if verification_request \<noteq> JNull then Inl EvidenceError
     else if provenance \<noteq> JNull then Inl EvidenceError
     else if post_change_request = JNull then Inl UngroundedChangeResultEvidenceError
     else change_result_evidence R E shaped observation difference change_request post_change_request))))"

definition derive_evidence :: "owners \<Rightarrow> ext \<Rightarrow> json \<Rightarrow> evidence_error + json" where
  "derive_evidence R E request = mapErr evidence_boundary
     (bindE (require_evidence_request request) (\<lambda>shaped.
      bindE (grounded R shaped) (\<lambda>(observation, difference).
      positioned R E shaped observation difference)))"

definition derive_request_difference :: "owners \<Rightarrow> json \<Rightarrow> evidence_error + json" where
  "derive_request_difference R request = mapErr evidence_boundary
     (bindE (require_evidence_request request) (\<lambda>shaped.
      bindE (bindE (reading (afield shaped ''observation_request'')) (minted_observation R)) (\<lambda>(bundle, observation).
      bindE (reading (afield shaped ''difference_request'')) (\<lambda>r. derived_difference R r bundle))))"

section \<open>Terminal reasons\<close>

definition optional_id :: "json \<Rightarrow> json option" where
  "optional_id v = (if is_obj v then Some (case jfield v ''id'' of Some i \<Rightarrow> i | None \<Rightarrow> JNull) else None)"

definition about_difference :: "json \<Rightarrow> json \<Rightarrow> evidence_error + unit" where
  "about_difference difference record =
     bindE (reading (bindE (afield record ''difference_ref'') (\<lambda>r. afield r ''id''))) (\<lambda>named.
     bindE (reading (afield difference ''difference_id'')) (\<lambda>d.
     bindE (ensureE (py_eq named d) EvidenceError) (\<lambda>_.
     bindE (reading (bindE (afield record ''target'') (\<lambda>t. afield t ''project_id''))) (\<lambda>project.
     bindE (reading (afield difference ''project_id'')) (\<lambda>p.
     ensureE (py_eq project p) EvidenceError)))))"

definition resolve_terminal_reason_evidence ::
  "owners \<Rightarrow> ext \<Rightarrow> json list \<Rightarrow> json list \<Rightarrow> json \<Rightarrow> evidence_error + json list" where
  "resolve_terminal_reason_evidence R E refs requests difference =
     bindE (mapE (derive_evidence R E) requests) (\<lambda>reproduced.
     bindE (reading (mapE (\<lambda>r. afield r ''evidence_id'') reproduced)) (\<lambda>identities.
     bindE (ensureE (set identities = set (List.map_filter optional_id refs)) EvidenceError) (\<lambda>_.
     bindE (mapE (about_difference difference) reproduced) (\<lambda>_. Inr reproduced))))"

end
