(* ===== verification/Sufficiency.thy ===== *)
theory Sufficiency
  imports Evidence
begin

text \<open>
  Whether what was recorded is strong enough, fresh enough and present
  (\<open>evidence/sufficiency.py\<close>). What the code reports beside the result and never compares (the age in
  seconds, the texts about levels out of reach and about what is not evaluated) is not modelled.
  \<open>maximum_evidence_age\<close> is read when it is an integer; \<open>timedelta\<close> raises \<open>OverflowError\<close> past
  999999999 days.
\<close>

section \<open>Admission\<close>

definition completion_semantics_path :: string where
  "completion_semantics_path = ''00_KERNEL/COMPLETION_SEMANTICS.md''"

definition completion_semantics_blob_sha :: string where
  "completion_semantics_blob_sha = ''d377a3c8a73e556b3c52c0c79a54e7b2dbd34abb''"

definition evidence_level_scale_digest :: "ext \<Rightarrow> auth_error + ustr" where
  "evidence_level_scale_digest E =
     bindE (canonA E (obj [(''evidence_level_scale'', JList (map (\<lambda>l. JStr (u l)) evidence_level_scale))]))
       (\<lambda>b. Inr (sha256_hex b))"

definition sufficiency_request_keys :: "string list" where
  "sufficiency_request_keys = [''schema_version'', ''difference_ref'', ''closure_policy'',
     ''evidence_level_scale_ref'', ''evidence_requests'', ''evaluation_instant'']"

definition require_sufficiency_request :: "json \<Rightarrow> evidence_error + json" where
  "require_sufficiency_request request =
     bindE (reading (require_object request)) (\<lambda>shaped.
     bindE (ensureE (exact_keys sufficiency_request_keys shaped) EvidenceError) (\<lambda>_.
     bindE (reading (afield shaped ''schema_version'')) (\<lambda>version.
     bindE (ensureE (version = JStr (u ''0.1'')) EvidenceError) (\<lambda>_. Inr shaped))))"

definition require_scale_source :: "ext \<Rightarrow> json \<Rightarrow> evidence_error + json" where
  "require_scale_source E v =
     bindE (reading (require_object v)) (\<lambda>reference.
     bindE (ensureE (exact_keys [''kind'', ''path'', ''blob_sha'', ''evidence_level_scale_sha256''] reference)
       EvidenceError) (\<lambda>_.
     bindE (reading (afield reference ''kind'')) (\<lambda>kind.
     bindE (ensureE (kind = JStr (u ''evidence_level_scale_source'')) EvidenceError) (\<lambda>_.
     bindE (reading (afield reference ''path'')) (\<lambda>path.
     bindE (ensureE (path = JStr (u completion_semantics_path)) EvidenceError) (\<lambda>_.
     bindE (reading (afield reference ''blob_sha'')) (\<lambda>blob.
     bindE (ensureE (blob = JStr (u completion_semantics_blob_sha)) EvidenceError) (\<lambda>_.
     bindE (reading (evidence_level_scale_digest E)) (\<lambda>expected.
     bindE (reading (afield reference ''evidence_level_scale_sha256'')) (\<lambda>scale.
     bindE (ensureE (scale = JStr expected) EvidenceError) (\<lambda>_. Inr reference)))))))))))"

definition closure_policy_schema :: ustr where
  "closure_policy_schema = schema_base @ u ''difference/closure_policy.schema.json''"

definition require_policy :: "ext \<Rightarrow> json \<Rightarrow> json \<Rightarrow> evidence_error + json" where
  "require_policy E v difference_ref =
     bindE (reading (require_object v)) (\<lambda>policy.
     bindE (ensureE (ext_schema E closure_policy_schema policy) EvidenceValidationError) (\<lambda>_.
     bindE (reading (closure_policy_semantic_errors E policy)) (\<lambda>errors.
     bindE (ensureE (errors = []) EvidenceError) (\<lambda>_.
     bindE (reading (afield policy ''subject_difference_ref'')) (\<lambda>subject.
     bindE (reading (aget subject ''kind'')) (\<lambda>kind.
     bindE (reading (aget difference_ref ''kind'')) (\<lambda>expected_kind.
     bindE (ensureE (py_eq kind expected_kind) EvidenceError) (\<lambda>_.
     bindE (reading (aget subject ''id'')) (\<lambda>identity.
     bindE (reading (aget difference_ref ''id'')) (\<lambda>expected_identity.
     bindE (ensureE (py_eq identity expected_identity) EvidenceError) (\<lambda>_.
     bindE (nonempty_string expected_identity) (\<lambda>subject_id.
     bindE (reading (policy_semantic_fingerprint E policy)) (\<lambda>fingerprint.
     bindE (reading (closure_policy_id E fingerprint subject_id)) (\<lambda>recomputed.
     bindE (reading (afield policy ''closure_policy_id'')) (\<lambda>declared.
     bindE (ensureE (declared = JStr recomputed) EvidenceError) (\<lambda>_. Inr policy))))))))))))))))"

definition require_difference_ref :: "json \<Rightarrow> evidence_error + json" where
  "require_difference_ref v =
     bindE (reading (require_object v)) (\<lambda>reference.
     bindE (ensureE (known_keys [''kind'', ''id'', ''digest''] reference) EvidenceError) (\<lambda>_.
     bindE (reading (aget reference ''kind'')) (\<lambda>kind.
     bindE (ensureE (kind = JStr (u ''difference'')) EvidenceError) (\<lambda>_.
     bindE (reading (aget reference ''id'')) (\<lambda>identity.
     bindE (nonempty_string identity) (\<lambda>_. Inr reference))))))"

section \<open>The verdict\<close>

datatype reason =
  SUFFICIENT_REASON
| EVIDENCE_ABSENT
| EVIDENCE_LEVEL_BELOW_MINIMUM
| EVIDENCE_LEVEL_UNREACHABLE_IN_PHASE_6
| EVIDENCE_AGE_EXCEEDED
| EVIDENCE_FUTURE_DATED
| EVIDENCE_STATUS string

definition determinate_insufficient_statuses :: "string list" where
  "determinate_insufficient_statuses = [''BLOCKED'', ''FAILED'', ''INVALID'', ''CONFLICTED'']"

definition indeterminate_statuses :: "string list" where
  "indeterminate_statuses = [''INCOMPLETE'', ''UNKNOWN'', ''UNOBSERVED'']"

record verdict =
  stale :: bool
  determinate :: bool
  indeterminate :: bool
  reasons :: "reason list"

definition no_verdict :: verdict where
  "no_verdict = \<lparr> stale = False, determinate = False, indeterminate = False, reasons = [] \<rparr>"

text \<open>\<open>timedelta(seconds=n)\<close> in microseconds.\<close>

fun maximum_age :: "json \<Rightarrow> evidence_error + int option" where
  "maximum_age JNull = Inr None"
| "maximum_age (JInt n) =
     (if \<bar>n div 86400\<bar> \<le> 999999999 then Inr (Some (1000000 * n)) else Inl (Evidence_raised OwnerOther))"
| "maximum_age (JBool b) = Inr (Some (if b then 1000000 else 0))"
| "maximum_age _ = Inl (Evidence_raised OwnerUnreadable)"

definition instant_of :: "owners \<Rightarrow> json \<Rightarrow> evidence_error + int" where
  "instant_of R v = (case v of
     JStr s \<Rightarrow> orE (boundary_instant (clock R) s) (Evidence_raised OwnerValueError)
   | _ \<Rightarrow> Inl (Evidence_raised OwnerOther))"

definition judge_age :: "int \<Rightarrow> json \<Rightarrow> verdict \<Rightarrow> evidence_error + verdict" where
  "judge_age age limit v =
     (if age < 0 then Inr (v\<lparr> stale := True, reasons := EVIDENCE_FUTURE_DATED # reasons v \<rparr>)
      else bindE (maximum_age limit) (\<lambda>bound.
        case bound of
          None \<Rightarrow> Inr v
        | Some b \<Rightarrow> Inr (if b < age then v\<lparr> stale := True, reasons := EVIDENCE_AGE_EXCEEDED # reasons v \<rparr> else v)))"

definition status_in :: "string list \<Rightarrow> json \<Rightarrow> string option" where
  "status_in ks v = find (\<lambda>k. v = JStr (u k)) ks"

definition judge_status :: "json \<Rightarrow> verdict \<Rightarrow> verdict" where
  "judge_status status v =
     (case status_in determinate_insufficient_statuses status of
        Some k \<Rightarrow> v\<lparr> determinate := True, reasons := EVIDENCE_STATUS k # reasons v \<rparr>
      | None \<Rightarrow>
     (case status_in indeterminate_statuses status of
        Some k \<Rightarrow> v\<lparr> indeterminate := True, reasons := EVIDENCE_STATUS k # reasons v \<rparr>
      | None \<Rightarrow>
        if status = JStr (u ''EMPTY'') then v\<lparr> reasons := EVIDENCE_STATUS ''EMPTY'' # reasons v \<rparr> else v))"

definition judge_record :: "owners \<Rightarrow> int \<Rightarrow> json \<Rightarrow> verdict \<Rightarrow> json \<Rightarrow> evidence_error + verdict" where
  "judge_record R evaluated limit v record =
     bindE (bindE (reading (afield record ''timestamp'')) (instant_of R)) (\<lambda>at.
     bindE (judge_age (evaluated - at) limit v) (\<lambda>v'.
     bindE (reading (afield record ''status'')) (\<lambda>status. Inr (judge_status status v'))))"

definition effective_level :: "json list \<Rightarrow> evidence_error + json" where
  "effective_level records =
     (if records = [] then Inr (JStr (u ''E0''))
      else bindE (reading (mapE (\<lambda>r. afield r ''evidence_level'') records)) weakest)"

definition judge_level :: "json list \<Rightarrow> json \<Rightarrow> json \<Rightarrow> verdict \<Rightarrow> evidence_error + verdict" where
  "judge_level records minimum effective v =
     (if \<not> one_of derivable_levels minimum
      then Inr (v\<lparr> determinate := True, reasons := EVIDENCE_LEVEL_UNREACHABLE_IN_PHASE_6 # reasons v \<rparr>)
      else if records = [] then Inr v
      else bindE (level_index effective) (\<lambda>i. bindE (level_index minimum) (\<lambda>j.
        Inr (if i < j then v\<lparr> determinate := True, reasons := EVIDENCE_LEVEL_BELOW_MINIMUM # reasons v \<rparr> else v))))"

definition verdict_result :: "verdict \<Rightarrow> string" where
  "verdict_result v =
     (if stale v then ''STALE'' else if determinate v then ''INSUFFICIENT''
      else if indeterminate v then ''UNKNOWN'' else ''SUFFICIENT'')"

definition judge :: "owners \<Rightarrow> int \<Rightarrow> json \<Rightarrow> json \<Rightarrow> json list \<Rightarrow> evidence_error + json \<times> verdict" where
  "judge R evaluated limit minimum records =
     bindE (foldE (judge_record R evaluated limit) no_verdict records) (\<lambda>v.
     let v1 = (if records = [] then v\<lparr> determinate := True, reasons := EVIDENCE_ABSENT # reasons v \<rparr> else v)
     in bindE (effective_level records) (\<lambda>effective.
        bindE (judge_level records minimum effective v1) (\<lambda>v2.
        Inr (effective,
          if verdict_result v2 = ''SUFFICIENT'' then v2\<lparr> reasons := SUFFICIENT_REASON # reasons v2 \<rparr> else v2))))"

section \<open>The result\<close>

text \<open>What is returned beside the result: the codes and what each record contributed.\<close>

record sufficiency =
  result_record :: json
  result_reasons :: "reason list"
  recorded_instants :: "json list"

definition policy_reference :: "json \<Rightarrow> auth_error + json" where
  "policy_reference policy =
     bindE (afield policy ''closure_policy_id'') (\<lambda>i.
     bindE (afield policy ''policy_version'') (\<lambda>v.
     bindE (afield policy ''policy_semantic_fingerprint'') (\<lambda>f.
     Inr (obj [(''kind'', JStr (u ''closure_policy'')), (''id'', i), (''version'', v), (''semantic_fingerprint'', f)]))))"

definition sufficiency_schema :: ustr where
  "sufficiency_schema = schema_base @ u ''difference/evidence_sufficiency_result.schema.json''"

definition sufficiency_record ::
  "ext \<Rightarrow> json \<Rightarrow> json \<Rightarrow> json \<Rightarrow> json list \<Rightarrow> string \<Rightarrow> json \<Rightarrow> evidence_error + json" where
  "sufficiency_record E difference_ref policy level identities result evaluated_at =
     bindE (reading (policy_reference policy)) (\<lambda>policy_ref.
     bindE (sorted_references (map (typed_ref ''observation_evidence'') identities)) (\<lambda>refs.
     let r = obj [(''schema_version'', JStr (u ''0.1'')), (''evidence_sufficiency_id'', JStr []),
           (''difference_ref'', difference_ref), (''policy_ref'', policy_ref), (''evidence_level'', level),
           (''evidence_refs'', set_wrapper refs), (''result'', JStr (u result)), (''evaluated_at'', evaluated_at)]
     in bindE (reading (address E ''EVID-SUFF-'' (without ''evidence_sufficiency_id'' r))) (\<lambda>identity.
        let r' = aset ''evidence_sufficiency_id'' (JStr identity) r
        in bindE (ensureE (ext_schema E sufficiency_schema r') EvidenceValidationError) (\<lambda>_. Inr r'))))"

definition of_difference :: "json \<Rightarrow> json \<Rightarrow> evidence_error + bool" where
  "of_difference difference_ref record =
     bindE (reading (afield record ''difference_ref'')) (\<lambda>r. Inr (py_eq r difference_ref))"

definition evaluate :: "owners \<Rightarrow> ext \<Rightarrow> json \<Rightarrow> evidence_error + sufficiency" where
  "evaluate R E request =
     bindE (require_sufficiency_request request) (\<lambda>shaped.
     bindE (bindE (reading (afield shaped ''difference_ref'')) require_difference_ref) (\<lambda>difference_ref.
     bindE (bindE (reading (afield shaped ''closure_policy'')) (\<lambda>p. require_policy E p difference_ref)) (\<lambda>policy.
     bindE (bindE (reading (afield shaped ''evidence_level_scale_ref'')) (require_scale_source E)) (\<lambda>_.
     bindE (reading (afield shaped ''evaluation_instant'')) (\<lambda>evaluated_at.
     bindE (nonempty_string evaluated_at) (\<lambda>_.
     bindE (instant_of R evaluated_at) (\<lambda>evaluated.
     bindE (reading (afield shaped ''evidence_requests'')) (\<lambda>v.
     bindE (case v of JList xs \<Rightarrow> Inr xs | _ \<Rightarrow> Inl EvidenceError) (\<lambda>requests.
     bindE (mapE (\<lambda>r. bindE (reading (require_object r)) (derive_evidence R E)) requests) (\<lambda>records.
     bindE (mapE (of_difference difference_ref) records) (\<lambda>bound.
     bindE (ensureE (list_all id bound) EvidenceError) (\<lambda>_.
     bindE (reading (afield policy ''maximum_evidence_age'')) (\<lambda>limit.
     bindE (reading (afield policy ''minimum_evidence_level'')) (\<lambda>minimum.
     bindE (judge R evaluated limit minimum records) (\<lambda>(level, v).
     bindE (reading (mapE (\<lambda>r. afield r ''evidence_id'') records)) (\<lambda>identities.
     bindE (reading (mapE (\<lambda>r. afield r ''timestamp'') records)) (\<lambda>instants.
     bindE (sufficiency_record E difference_ref policy level identities (verdict_result v) evaluated_at) (\<lambda>r.
     Inr \<lparr> result_record = r, result_reasons = reasons v, recorded_instants = instants \<rparr>))))))))))))))))))"

text \<open>\<open>except (DifferenceError, ValueError)\<close>.\<close>

fun sufficiency_boundary :: "evidence_error \<Rightarrow> evidence_error" where
  "sufficiency_boundary (Evidence_raised OwnerRefused) = EvidenceError"
| "sufficiency_boundary (Evidence_raised OwnerValueError) = EvidenceError"
| "sufficiency_boundary e = e"

definition evaluate_sufficiency :: "owners \<Rightarrow> ext \<Rightarrow> json \<Rightarrow> evidence_error + sufficiency" where
  "evaluate_sufficiency R E request = mapErr sufficiency_boundary (evaluate R E request)"

end
