(* ===== verification/SufficiencyProps.thy ===== *)
theory SufficiencyProps
  imports Sufficiency AuthorityLemmas
begin

text \<open>What the verdict over Evidence says.\<close>

section \<open>The weakest level\<close>

lemma pair_left: "list_all2 P xs ys \<Longrightarrow> x \<in> set xs \<Longrightarrow> \<exists>y \<in> set ys. P x y"
  by (induction xs ys rule: list_all2_induct) auto

lemma pair_right: "list_all2 P xs ys \<Longrightarrow> y \<in> set ys \<Longrightarrow> \<exists>x \<in> set xs. P x y"
  by (induction xs ys rule: list_all2_induct) auto

lemma weakest_from_least:
  assumes "weakest_from best i levels = Inr e" and "level_index best = Inr i"
  shows "\<exists>k. level_index e = Inr k \<and> k \<le> i \<and> (\<forall>l \<in> set levels. \<exists>j. level_index l = Inr j \<and> k \<le> j)
    \<and> (e = best \<or> e \<in> set levels)"
  using assms
proof (induction levels arbitrary: best i)
  case (Cons x xs)
  then obtain j where x: "level_index x = Inr j" by auto
  show ?case
  proof (cases "j < i")
    case True
    then have "weakest_from x j xs = Inr e" using Cons.prems x by simp
    from Cons.IH [OF this x] show ?thesis using x True by auto
  next
    case False
    then have "weakest_from best i xs = Inr e" using Cons.prems x by simp
    from Cons.IH [OF this Cons.prems(2)] show ?thesis using x False by fastforce
  qed
qed auto

lemma weakest_least:
  assumes "weakest levels = Inr e"
  shows "\<exists>k. level_index e = Inr k \<and> e \<in> set levels \<and> (\<forall>l \<in> set levels. \<exists>j. level_index l = Inr j \<and> k \<le> j)"
proof -
  obtain x xs i where l: "levels = x # xs" "level_index x = Inr i" "weakest_from x i xs = Inr e"
    using assms by (cases levels) (auto simp: weakest_def)
  from weakest_from_least [OF l(3,2)] obtain k where
    k: "level_index e = Inr k" "k \<le> i" "\<forall>l \<in> set xs. \<exists>j. level_index l = Inr j \<and> k \<le> j" "e = x \<or> e \<in> set xs"
    by blast
  then show ?thesis using l(1,2) by (intro exI [of _ k]) auto
qed

section \<open>The verdict\<close>

definition fresh :: "owners \<Rightarrow> int \<Rightarrow> json \<Rightarrow> json \<Rightarrow> bool" where
  "fresh R evaluated limit r \<longleftrightarrow>
     (case bindE (reading (afield r ''timestamp'')) (instant_of R) of
        Inl _ \<Rightarrow> False
      | Inr at \<Rightarrow> at \<le> evaluated \<and>
          (case maximum_age limit of Inl _ \<Rightarrow> False | Inr None \<Rightarrow> True | Inr (Some b) \<Rightarrow> evaluated - at \<le> b))"

definition reports_status :: "string list \<Rightarrow> json \<Rightarrow> bool" where
  "reports_status ks r \<longleftrightarrow> (case jfield r ''status'' of None \<Rightarrow> False | Some s \<Rightarrow> one_of ks s)"

definition level_at_least :: "json \<Rightarrow> json \<Rightarrow> bool" where
  "level_at_least minimum r \<longleftrightarrow> (case jfield r ''evidence_level'' of None \<Rightarrow> False
     | Some l \<Rightarrow> (case (level_index minimum, level_index l) of (Inr j, Inr i) \<Rightarrow> j \<le> i | _ \<Rightarrow> False))"

lemma status_in_None: "status_in ks s = None \<longleftrightarrow> \<not> one_of ks s"
  by (auto simp: status_in_def one_of_def find_None_iff)

lemma statuses_apart: "one_of determinate_insufficient_statuses s \<Longrightarrow> \<not> one_of indeterminate_statuses s"
  by (auto simp: one_of_def determinate_insufficient_statuses_def indeterminate_statuses_def)

lemma judge_status_flags:
  "stale (judge_status s v) = stale v"
  "determinate (judge_status s v) \<longleftrightarrow> determinate v \<or> one_of determinate_insufficient_statuses s"
  "indeterminate (judge_status s v) \<longleftrightarrow> indeterminate v \<or> one_of indeterminate_statuses s"
  using status_in_None [of determinate_insufficient_statuses s] status_in_None [of indeterminate_statuses s]
    statuses_apart [of s]
  by (auto simp: judge_status_def split: option.splits)

lemma judge_age_flags:
  assumes "judge_age age limit v = Inr v'"
  shows "determinate v' = determinate v" and "indeterminate v' = indeterminate v"
    and "stale v' \<longleftrightarrow> stale v \<or> \<not> (0 \<le> age
      \<and> (case maximum_age limit of Inl _ \<Rightarrow> False | Inr None \<Rightarrow> True | Inr (Some b) \<Rightarrow> age \<le> b))"
proof -
  consider "age < 0" "v' = v\<lparr> stale := True, reasons := EVIDENCE_FUTURE_DATED # reasons v \<rparr>"
    | "0 \<le> age" "maximum_age limit = Inr None" "v' = v"
    | b where "0 \<le> age" "maximum_age limit = Inr (Some b)" "b < age"
        "v' = v\<lparr> stale := True, reasons := EVIDENCE_AGE_EXCEEDED # reasons v \<rparr>"
    | b where "0 \<le> age" "maximum_age limit = Inr (Some b)" "age \<le> b" "v' = v"
    using assms by (fastforce simp: judge_age_def split: if_splits option.splits)
  note cs = this
  show "determinate v' = determinate v" "indeterminate v' = indeterminate v" by (cases rule: cs; simp)+
  show "stale v' \<longleftrightarrow> stale v \<or> \<not> (0 \<le> age
      \<and> (case maximum_age limit of Inl _ \<Rightarrow> False | Inr None \<Rightarrow> True | Inr (Some b) \<Rightarrow> age \<le> b))"
    by (cases rule: cs) auto
qed

lemma judge_record_flags:
  assumes "judge_record R evaluated limit v r = Inr v'"
  shows "stale v' \<longleftrightarrow> stale v \<or> \<not> fresh R evaluated limit r"
    and "determinate v' \<longleftrightarrow> determinate v \<or> reports_status determinate_insufficient_statuses r"
    and "indeterminate v' \<longleftrightarrow> indeterminate v \<or> reports_status indeterminate_statuses r"
proof -
  obtain t at v1 s where
    t: "jfield r ''timestamp'' = Some t" "instant_of R t = Inr at" "judge_age (evaluated - at) limit v = Inr v1"
      "jfield r ''status'' = Some s" "v' = judge_status s v1"
    using assms by (auto simp: judge_record_def)
  note flags = judge_status_flags [of s v1] judge_age_flags [OF t(3)]
  show "determinate v' \<longleftrightarrow> determinate v \<or> reports_status determinate_insufficient_statuses r"
    and "indeterminate v' \<longleftrightarrow> indeterminate v \<or> reports_status indeterminate_statuses r"
    using flags t(4) by (simp_all add: t(5) reports_status_def)
  show "stale v' \<longleftrightarrow> stale v \<or> \<not> fresh R evaluated limit r"
    using flags t(1,2) by (simp add: t(5) fresh_def afield_def split: sum.splits option.splits)
qed

lemma judge_records_flags:
  assumes "foldE (judge_record R evaluated limit) v rs = Inr v'"
  shows "(stale v' \<longleftrightarrow> stale v \<or> (\<exists>r \<in> set rs. \<not> fresh R evaluated limit r))
    \<and> (determinate v' \<longleftrightarrow> determinate v \<or> (\<exists>r \<in> set rs. reports_status determinate_insufficient_statuses r))
    \<and> (indeterminate v' \<longleftrightarrow> indeterminate v \<or> (\<exists>r \<in> set rs. reports_status indeterminate_statuses r))"
  using assms
proof (induction rs arbitrary: v)
  case (Cons r rs)
  then obtain v1 where v1: "judge_record R evaluated limit v r = Inr v1"
    "foldE (judge_record R evaluated limit) v1 rs = Inr v'"
    by auto
  from Cons.IH [OF v1(2)] judge_record_flags [OF v1(1)] show ?case by simp
qed simp

lemma level_index_minimum: "one_of derivable_levels m \<Longrightarrow> \<exists>j. level_index m = Inr j"
  by (auto simp: one_of_def derivable_levels_def level_index_def evidence_level_scale_def)

text \<open>The weakest record decides: it is below the floor exactly when some record is.\<close>

lemma effective_level_floor:
  assumes "effective_level rs = Inr e" and "rs \<noteq> []" and "one_of derivable_levels m"
  shows "\<exists>i j. level_index e = Inr i \<and> level_index m = Inr j
    \<and> (i < j \<longleftrightarrow> (\<exists>r \<in> set rs. \<not> level_at_least m r))"
proof -
  obtain ls where ls: "mapE (\<lambda>r. afield r ''evidence_level'') rs = Inr ls" "weakest ls = Inr e"
    using assms(1,2) by (auto simp: effective_level_def)
  from weakest_least [OF ls(2)] obtain i where
    i: "level_index e = Inr i" "e \<in> set ls" "\<forall>l \<in> set ls. \<exists>k. level_index l = Inr k \<and> i \<le> k" by blast
  obtain j where j: "level_index m = Inr j" using level_index_minimum [OF assms(3)] by blast
  have pairs: "list_all2 (\<lambda>r l. jfield r ''evidence_level'' = Some l) rs ls"
    using ls(1) by (simp add: mapE_Inr_iff)
  have "level_at_least m r" if le: "j \<le> i" and r: "r \<in> set rs" for r
  proof -
    obtain l where l: "jfield r ''evidence_level'' = Some l" "l \<in> set ls"
      using pair_left [OF pairs r] by blast
    then obtain k where "level_index l = Inr k" "i \<le> k" using i(3) by blast
    then show "level_at_least m r" using l(1) j le by (simp add: level_at_least_def)
  qed
  moreover obtain r where r: "r \<in> set rs" "jfield r ''evidence_level'' = Some e"
    using pair_right [OF pairs i(2)] by blast
  have "\<not> level_at_least m r" if "i < j" using r(2) i(1) j that by (simp add: level_at_least_def)
  ultimately have "i < j \<longleftrightarrow> (\<exists>r \<in> set rs. \<not> level_at_least m r)" using r(1) by force
  then show ?thesis using i(1) j by blast
qed

lemma judge_level_flags:
  assumes "judge_level rs m e v = Inr v'" and "effective_level rs = Inr e"
  shows "stale v' = stale v" and "indeterminate v' = indeterminate v"
    and "determinate v' \<longleftrightarrow> determinate v \<or> \<not> one_of derivable_levels m \<or> (\<exists>r \<in> set rs. \<not> level_at_least m r)"
proof -
  consider "\<not> one_of derivable_levels m" | "one_of derivable_levels m" "rs = []"
    | i j where "one_of derivable_levels m" "rs \<noteq> []" "level_index e = Inr i" "level_index m = Inr j"
      "i < j \<longleftrightarrow> (\<exists>r \<in> set rs. \<not> level_at_least m r)"
    using effective_level_floor [OF assms(2)] by blast
  then have "stale v' = stale v \<and> indeterminate v' = indeterminate v
    \<and> (determinate v' \<longleftrightarrow> determinate v \<or> \<not> one_of derivable_levels m \<or> (\<exists>r \<in> set rs. \<not> level_at_least m r))"
    using assms(1) by cases (auto simp: judge_level_def split: if_splits)
  then show "stale v' = stale v" and "indeterminate v' = indeterminate v"
    and "determinate v' \<longleftrightarrow> determinate v \<or> \<not> one_of derivable_levels m \<or> (\<exists>r \<in> set rs. \<not> level_at_least m r)"
    by simp_all
qed

lemma judge_verdict:
  assumes "judge R evaluated limit minimum rs = Inr (e, v)"
  shows "verdict_result v =
     (if \<exists>r \<in> set rs. \<not> fresh R evaluated limit r then ''STALE''
      else if rs = [] \<or> \<not> one_of derivable_levels minimum
        \<or> (\<exists>r \<in> set rs. reports_status determinate_insufficient_statuses r \<or> \<not> level_at_least minimum r) then ''INSUFFICIENT''
      else if \<exists>r \<in> set rs. reports_status indeterminate_statuses r then ''UNKNOWN'' else ''SUFFICIENT'')"
proof -
  obtain v0 v2 where
    v0: "foldE (judge_record R evaluated limit) no_verdict rs = Inr v0" and e: "effective_level rs = Inr e" and
    v2: "judge_level rs minimum e
      (if rs = [] then v0\<lparr> determinate := True, reasons := EVIDENCE_ABSENT # reasons v0 \<rparr> else v0) = Inr v2" and
    v: "v = (if verdict_result v2 = ''SUFFICIENT'' then v2\<lparr> reasons := SUFFICIENT_REASON # reasons v2 \<rparr> else v2)"
    using assms by (auto simp: judge_def Let_def)
  have same: "stale v = stale v2" "determinate v = determinate v2" "indeterminate v = indeterminate v2"
    unfolding v by simp_all
  have start: "\<not> stale no_verdict" "\<not> determinate no_verdict" "\<not> indeterminate no_verdict"
    by (simp_all add: no_verdict_def)
  have f: "stale v \<longleftrightarrow> (\<exists>r \<in> set rs. \<not> fresh R evaluated limit r)"
    "determinate v \<longleftrightarrow> rs = [] \<or> \<not> one_of derivable_levels minimum
        \<or> (\<exists>r \<in> set rs. reports_status determinate_insufficient_statuses r \<or> \<not> level_at_least minimum r)"
    "indeterminate v \<longleftrightarrow> (\<exists>r \<in> set rs. reports_status indeterminate_statuses r)"
    using judge_records_flags [OF v0] judge_level_flags [OF v2 e] start same by (auto split: if_splits)
  show ?thesis unfolding verdict_result_def f ..
qed

section \<open>The result\<close>

lemma obj_field: "jfield (obj kvs) k = map_of kvs k"
proof -
  have "map_of (map (\<lambda>(k, v). (u k, v)) kvs) (u k) = map_of kvs k" by (induction kvs) auto
  then show ?thesis by (simp add: jfield_def obj_def)
qed

lemma obj_is_obj [simp]: "is_obj (obj kvs)"
  by (simp add: obj_def)

lemma sufficiency_record_fields:
  assumes "sufficiency_record E difference_ref policy level identities verdict evaluated_at = Inr r"
  shows "jfield r ''difference_ref'' = Some difference_ref" "jfield r ''result'' = Some (JStr (u verdict))"
    "jfield r ''evidence_level'' = Some level"
    "\<exists>p. policy_reference policy = Inr p \<and> jfield r ''policy_ref'' = Some p"
proof -
  obtain p refs identity where
    p: "policy_reference policy = Inr p" and
    r: "r = aset ''evidence_sufficiency_id'' (JStr identity)
      (obj [(''schema_version'', JStr (u ''0.1'')), (''evidence_sufficiency_id'', JStr []),
           (''difference_ref'', difference_ref), (''policy_ref'', p), (''evidence_level'', level),
           (''evidence_refs'', set_wrapper refs), (''result'', JStr (u verdict)), (''evaluated_at'', evaluated_at)])"
    using assms by (auto simp: sufficiency_record_def Let_def)
  show "jfield r ''difference_ref'' = Some difference_ref" "jfield r ''result'' = Some (JStr (u verdict))"
    "jfield r ''evidence_level'' = Some level"
    "\<exists>p. policy_reference policy = Inr p \<and> jfield r ''policy_ref'' = Some p"
    using p by (simp_all add: r jfield_aset obj_field)
qed

lemma request_kept: "require_sufficiency_request request = Inr shaped \<Longrightarrow> shaped = request"
  by (auto simp: require_sufficiency_request_def)

lemma policy_kept:
  assumes "require_policy E v difference_ref = Inr policy"
  shows "policy = v \<and> ext_schema E closure_policy_schema policy
    \<and> (\<exists>f i. policy_semantic_fingerprint E policy = Inr f \<and> aget difference_ref ''id'' = Inr (JStr i)
         \<and> bindE (closure_policy_id E f i) (\<lambda>p. Inr (JStr p)) = afield policy ''closure_policy_id'')"
proof -
  obtain x i f p where "policy = v" "ext_schema E closure_policy_schema v" "aget difference_ref ''id'' = Inr x"
    "nonempty_string x = Inr i" "policy_semantic_fingerprint E v = Inr f" "closure_policy_id E f i = Inr p"
    "afield v ''closure_policy_id'' = Inr (JStr p)"
    using assms by (auto simp: require_policy_def)
  moreover have "x = JStr i" using calculation(4) by (cases x) (auto split: if_splits)
  ultimately show ?thesis by (simp add: afield_def)
qed

text \<open>C7: what each result means. A sufficiency result is about the Difference of its request, under the
  Closure Policy that recomputes for that Difference, over the Evidence derived from the requests, each
  record of which was derived against the same Difference. It is STALE exactly when some record is dated
  after the evaluation instant or is older than the Policy allows. Failing that, it is INSUFFICIENT
  exactly when there is no record, the floor of the Policy is a level that cannot be derived at all, some
  record reports a failure, or some single record is below the floor: no number of records makes up for a
  weak one. Failing that, it is UNKNOWN exactly when some record reports a status that leaves the question
  open, and SUFFICIENT otherwise.\<close>

theorem sufficiency_verdict:
  assumes "evaluate_sufficiency R E request = Inr s"
  shows "\<exists>difference_ref policy requests records at evaluated limit minimum f i.
    jfield request ''difference_ref'' = Some difference_ref \<and> jfield request ''closure_policy'' = Some policy
    \<and> jfield request ''evidence_requests'' = Some (JList requests)
    \<and> jfield request ''evaluation_instant'' = Some (JStr at) \<and> boundary_instant (clock R) at = Some evaluated
    \<and> jfield policy ''maximum_evidence_age'' = Some limit \<and> jfield policy ''minimum_evidence_level'' = Some minimum
    \<and> policy_semantic_fingerprint E policy = Inr f \<and> aget difference_ref ''id'' = Inr (JStr i)
    \<and> bindE (closure_policy_id E f i) (\<lambda>p. Inr (JStr p)) = afield policy ''closure_policy_id''
    \<and> mapE (derive_evidence R E) requests = Inr records
    \<and> (\<forall>r \<in> set records. \<exists>d. jfield r ''difference_ref'' = Some d \<and> py_eq d difference_ref)
    \<and> jfield (result_record s) ''difference_ref'' = Some difference_ref
    \<and> jfield (result_record s) ''result'' = Some (JStr (u
        (if \<exists>r \<in> set records. \<not> fresh R evaluated limit r then ''STALE''
         else if records = [] \<or> \<not> one_of derivable_levels minimum
           \<or> (\<exists>r \<in> set records. reports_status determinate_insufficient_statuses r \<or> \<not> level_at_least minimum r)
         then ''INSUFFICIENT''
         else if \<exists>r \<in> set records. reports_status indeterminate_statuses r then ''UNKNOWN'' else ''SUFFICIENT'')))"
proof -
  have "evaluate R E request = Inr s" using assms by (simp add: evaluate_sufficiency_def)
  then obtain difference_ref d0 p0 policy requests records bound t evaluated limit minimum level v identities r0 where
    d: "jfield request ''difference_ref'' = Some d0" "require_difference_ref d0 = Inr difference_ref" and
    p: "jfield request ''closure_policy'' = Some p0" "require_policy E p0 difference_ref = Inr policy" and
    t: "jfield request ''evaluation_instant'' = Some t" "instant_of R t = Inr evaluated" and
    rs: "jfield request ''evidence_requests'' = Some (JList requests)"
      "mapE (\<lambda>r. bindE (reading (require_object r)) (derive_evidence R E)) requests = Inr records" and
    bound: "mapE (of_difference difference_ref) records = Inr bound" "list_all id bound" and
    lm: "jfield policy ''maximum_evidence_age'' = Some limit" "jfield policy ''minimum_evidence_level'' = Some minimum" and
    j: "judge R evaluated limit minimum records = Inr (level, v)" and
    r: "sufficiency_record E difference_ref policy level identities (verdict_result v) t = Inr r0"
       "result_record s = r0"
    unfolding evaluate_def by (elim bindE_InrE) (auto dest!: request_kept split: prod.splits json.splits)
  have kept: "difference_ref = d0" using d(2) by (auto simp: require_difference_ref_def)
  note pol = policy_kept [OF p(2)]
  obtain at where at: "t = JStr at" "boundary_instant (clock R) at = Some evaluated"
    using t(2) by (auto simp: instant_of_def split: json.splits)
  have derived: "mapE (derive_evidence R E) requests = Inr records"
    using rs(2) by (auto simp: mapE_Inr_iff elim: list_all2_mono)
  have about: "\<exists>d. jfield r ''difference_ref'' = Some d \<and> py_eq d difference_ref" if "r \<in> set records" for r
  proof -
    from that obtain n where n: "n < length records" "r = records ! n" by (auto simp: in_set_conv_nth)
    then have "of_difference difference_ref r = Inr (bound ! n)" "bound ! n"
      using bound by (auto simp: mapE_Inr_iff list_all2_conv_all_nth list_all_length)
    then show ?thesis by (auto simp: of_difference_def)
  qed
  note fields = sufficiency_record_fields [OF r(1), folded r(2)]
  note verdict = fields(2) [unfolded judge_verdict [OF j]]
  obtain f i where fi: "policy_semantic_fingerprint E policy = Inr f" "aget difference_ref ''id'' = Inr (JStr i)"
    "bindE (closure_policy_id E f i) (\<lambda>p. Inr (JStr p)) = afield policy ''closure_policy_id''"
    using pol by blast
  have pk: "p0 = policy" using pol by simp
  show ?thesis
    by (rule exI [of _ difference_ref], rule exI [of _ policy], rule exI [of _ requests], rule exI [of _ records],
        rule exI [of _ at], rule exI [of _ evaluated], rule exI [of _ limit], rule exI [of _ minimum],
        rule exI [of _ f], rule exI [of _ i])
      (use d(1) p(1) t(1) rs(1) lm fi fields(1) derived about verdict at kept pk in blast)
qed

end
