(* ===== verification/EvidenceProps.thy ===== *)
theory EvidenceProps
  imports SufficiencyProps ReflowProps AuthorityProps
begin

text \<open>What a derived Evidence record rests on.\<close>

section \<open>Fields\<close>

lemma recorded_kept: "require_recorded_after R x g = Inr y \<Longrightarrow> y = x"
  unfolding require_recorded_after_def by (elim bindE_InrE) (auto split: json.split_asm)

lemma common_fields:
  assumes "common R shaped grounding difference = Inr evidence"
  shows "is_obj evidence \<and> (\<exists>d l. jfield difference ''difference_id'' = Some d \<and> derive_level grounding = Inr l
    \<and> jfield evidence ''difference_ref'' = Some (typed_ref ''difference'' d)
    \<and> jfield evidence ''evidence_level'' = Some (JStr l)
    \<and> jfield evidence ''status'' = jfield grounding ''status''
    \<and> jfield evidence ''timestamp'' = jfield shaped ''recorded_at'')"
  using assms unfolding common_def Let_def
  by (elim bindE_InrE) (auto simp: obj_field dest!: recorded_kept)

lemma finalize_fields:
  assumes "finalize E e = Inr r" and "is_obj e"
  shows "(\<forall>k. k \<noteq> ''evidence_id'' \<longrightarrow> k \<noteq> ''evidence_semantic_fingerprint'' \<longrightarrow> jfield r k = jfield e k)
    \<and> (\<exists>i. evidence_id E r = Inr i \<and> jfield r ''evidence_id'' = Some (JStr i))"
proof -
  obtain f i where i: "evidence_id E (aset ''evidence_semantic_fingerprint'' (JStr f) e) = Inr i"
    and r: "r = aset ''evidence_id'' (JStr i) (aset ''evidence_semantic_fingerprint'' (JStr f) e)"
    using assms(1) by (auto simp: finalize_def Let_def)
  have o: "is_obj (aset ''evidence_semantic_fingerprint'' (JStr f) e)" using assms(2) by simp
  have "project_fields evidence_semantic_fields r
      = project_fields evidence_semantic_fields (aset ''evidence_semantic_fingerprint'' (JStr f) e)"
    by (rule project_fields_cong) (auto simp: r jfield_aset o evidence_semantic_fields_def)
  then have "evidence_id E r = Inr i" using i by (simp add: evidence_id_def)
  moreover have "jfield r k = jfield e k" if "k \<noteq> ''evidence_id''" "k \<noteq> ''evidence_semantic_fingerprint''" for k
    using that assms(2) by (simp add: r jfield_aset o)
  moreover have "jfield r ''evidence_id'' = Some (JStr i)" by (simp add: r jfield_aset o)
  ultimately show ?thesis by blast
qed

section \<open>Grounding\<close>

text \<open>The engine certified its scope completely observed, over at least one Source Snapshot.\<close>

definition certified :: "json \<Rightarrow> bool" where
  "certified observation \<longleftrightarrow>
     (\<exists>s. jfield observation ''status'' = Some s \<and> one_of confirming_statuses s)
     \<and> (\<exists>v. jfield observation ''source_snapshot_refs'' = Some v \<and> \<not> falsy v)"

lemma derive_level_certified:
  assumes "derive_level observation = Inr l"
  shows "l = u (if certified observation then ''E1'' else ''E0'')"
proof -
  have "\<not> one_of confirming_statuses JNull" by (simp add: one_of_def confirming_statuses_def)
  then show ?thesis
    using assms by (auto simp: derive_level_def certified_def aget_def split: if_splits option.splits)
qed

text \<open>What the record says is read from \<open>grounding\<close>, the observation it evidences.\<close>

definition reports :: "ext \<Rightarrow> json \<Rightarrow> json \<Rightarrow> json \<Rightarrow> json \<Rightarrow> bool" where
  "reports E shaped difference grounding r \<longleftrightarrow>
     (\<exists>d i. jfield difference ''difference_id'' = Some d
        \<and> jfield r ''difference_ref'' = Some (typed_ref ''difference'' d)
        \<and> evidence_id E r = Inr i \<and> jfield r ''evidence_id'' = Some (JStr i))
     \<and> jfield r ''status'' = jfield grounding ''status'' \<and> jfield r ''timestamp'' = jfield shaped ''recorded_at''
     \<and> jfield r ''evidence_level'' = Some (JStr (u (if certified grounding then ''E1'' else ''E0'')))"

lemma reported:
  assumes "common R shaped grounding difference = Inr evidence"
    and "finalize E (update_fields kvs evidence) = Inr r"
    and "list_all (\<lambda>k. k \<notin> {''difference_ref'', ''status'', ''timestamp'', ''evidence_level''}) (map fst kvs)"
  shows "reports E shaped difference grounding r"
proof -
  obtain d l where c: "is_obj evidence" "jfield difference ''difference_id'' = Some d" "derive_level grounding = Inr l"
    "jfield evidence ''difference_ref'' = Some (typed_ref ''difference'' d)"
    "jfield evidence ''evidence_level'' = Some (JStr l)" "jfield evidence ''status'' = jfield grounding ''status''"
    "jfield evidence ''timestamp'' = jfield shaped ''recorded_at''"
    using common_fields [OF assms(1)] by blast
  have kept: "jfield (update_fields kvs evidence) k = jfield evidence k"
    if "k \<in> {''difference_ref'', ''status'', ''timestamp'', ''evidence_level''}" for k
  proof -
    have "k \<notin> set (map fst kvs)" using assms(3) that by (auto simp: list_all_iff)
    then have "map_of (rev kvs) k = None" by (simp add: map_of_eq_None_iff)
    then show ?thesis using update_fields_field [OF c(1), of kvs k] by simp
  qed
  have o: "is_obj (update_fields kvs evidence)" using update_fields_field [OF c(1)] by blast
  show ?thesis
    using finalize_fields [OF assms(2) o] kept c derive_level_certified [OF c(3)] by (auto simp: reports_def)
qed

lemma position_kept:
  assumes "finalize E (update_fields ((''evidence_position'', p) # kvs) evidence) = Inr r"
    and "common R shaped grounding difference = Inr evidence" and "''evidence_position'' \<notin> fst ` set kvs"
  shows "jfield r ''evidence_position'' = Some p"
proof -
  have c: "is_obj evidence" using common_fields [OF assms(2)] by blast
  have "map_of (rev kvs @ [(''evidence_position'', p)]) ''evidence_position'' = Some p"
    using assms(3) by (auto simp: map_add_def map_of_eq_None_iff split: option.splits dest!: map_of_SomeD intro: rev_image_eqI)
  then have "jfield (update_fields ((''evidence_position'', p) # kvs) evidence) ''evidence_position'' = Some p"
    using update_fields_field [OF c, of "(''evidence_position'', p) # kvs" "''evidence_position''"] by simp
  moreover have "is_obj (update_fields ((''evidence_position'', p) # kvs) evidence)"
    using update_fields_field [OF c] by blast
  ultimately show ?thesis using finalize_fields [OF assms(1)] by simp
qed

lemma observation_position:
  assumes "observation_evidence R E shaped observation difference = Inr r"
  shows "jfield r ''evidence_position'' = Some (JStr (u ''OBSERVATION_EVIDENCE''))
    \<and> reports E shaped difference observation r"
proof -
  obtain evidence before lineage where e: "common R shaped observation difference = Inr evidence" and
    f: "finalize E (update_fields
       [(''evidence_position'', JStr (u ''OBSERVATION_EVIDENCE'')), (''before_state'', before),
        (''change_identity'', JNull), (''authority_used'', JNull), (''after_state'', JNull),
        (''expected_result'', JNull), (''lineage'', lineage)] evidence) = Inr r"
    using assms unfolding observation_evidence_def by (elim bindE_InrE) simp
  show ?thesis using position_kept [OF f e] reported [OF e f] by simp
qed

definition distinct_observations :: "json \<Rightarrow> json \<Rightarrow> bool" where
  "distinct_observations a b \<longleftrightarrow> (\<exists>x y. jfield a ''observation_id'' = Some x \<and> jfield b ''observation_id'' = Some y
     \<and> \<not> py_eq x y)"

lemma change_free_position:
  assumes "change_free_verification_evidence R E shaped before difference request provenance = Inr r"
  shows "jfield r ''evidence_position'' = Some (JStr (u ''CHANGE_FREE_VERIFICATION_EVIDENCE''))
    \<and> (\<exists>bundle grounding. minted_observation R request = Inr (bundle, grounding)
         \<and> distinct_observations grounding before \<and> reports E shaped difference grounding r)"
proof -
  obtain w grounding x y evidence b a lineage where
    m: "minted_observation R request = Inr (w, grounding)" and
    xy: "jfield grounding ''observation_id'' = Some x" "jfield before ''observation_id'' = Some y" "\<not> py_eq x y" and
    e: "common R shaped grounding difference = Inr evidence" and
    f: "finalize E (update_fields
       [(''evidence_position'', JStr (u ''CHANGE_FREE_VERIFICATION_EVIDENCE'')), (''before_state'', b),
        (''change_identity'', JNull), (''authority_used'', JNull), (''after_state'', a),
        (''expected_result'', JNull), (''verification_result_provenance'', provenance),
        (''lineage'', lineage)] evidence) = Inr r"
    using assms unfolding change_free_verification_evidence_def
    by - ((erule bind_pair | erule bindE_InrE)+, simp)
  show ?thesis using m xy position_kept [OF f e] reported [OF e f] by (auto simp: distinct_observations_def)
qed

lemma change_result_position:
  assumes "change_result_evidence R E shaped before difference change_request request = Inr r"
  shows "jfield r ''evidence_position'' = Some (JStr (u ''CHANGE_RESULT_EVIDENCE''))
    \<and> (\<exists>change bundle grounding x d.
         derive_change E change_request = Inr change \<and> jfield difference ''difference_id'' = Some d
         \<and> bindE (afield change ''difference_ref'') (\<lambda>v. afield v ''id'') = Inr x \<and> py_eq x d
         \<and> minted_observation R request = Inr (bundle, grounding)
         \<and> distinct_observations grounding before \<and> reports E shaped difference grounding r)"
proof -
  obtain change w grounding x d p q evidence b a lineage ci au er where
    c: "derive_change E change_request = Inr change" "jfield difference ''difference_id'' = Some d"
      "bindE (afield change ''difference_ref'') (\<lambda>v. afield v ''id'') = Inr x" "py_eq x d" and
    m: "minted_observation R request = Inr (w, grounding)" and
    xy: "jfield grounding ''observation_id'' = Some p" "jfield before ''observation_id'' = Some q" "\<not> py_eq p q" and
    e: "common R shaped grounding difference = Inr evidence" and
    f: "finalize E (update_fields
       [(''evidence_position'', JStr (u ''CHANGE_RESULT_EVIDENCE'')), (''before_state'', b),
        (''change_identity'', ci), (''authority_used'', au), (''after_state'', a),
        (''expected_result'', er), (''lineage'', lineage)] evidence) = Inr r"
    using assms unfolding change_result_evidence_def
    by - ((erule bind_triple | erule bind_pair | erule bindE_InrE)+, simp add: delegate_def)
  have "distinct_observations grounding before" using xy by (auto simp: distinct_observations_def)
  moreover have "jfield r ''evidence_position'' = Some (JStr (u ''CHANGE_RESULT_EVIDENCE''))"
    using position_kept [OF f e] by simp
  moreover have "reports E shaped difference grounding r" using reported [OF e f] by simp
  ultimately show ?thesis using c m by blast
qed

section \<open>The deriver\<close>

text \<open>The three positions, with the observation each one reports.\<close>

definition position_grounds :: "owners \<Rightarrow> ext \<Rightarrow> json \<Rightarrow> json \<Rightarrow> json \<Rightarrow> json \<Rightarrow> json \<Rightarrow> bool" where
  "position_grounds R E request observation difference grounding r \<longleftrightarrow>
     jfield r ''evidence_position'' = Some (JStr (u ''OBSERVATION_EVIDENCE''))
       \<and> jfield request ''change_request'' = Some JNull \<and> grounding = observation
     \<or> jfield r ''evidence_position'' = Some (JStr (u ''CHANGE_FREE_VERIFICATION_EVIDENCE''))
       \<and> jfield request ''change_request'' = Some JNull \<and> distinct_observations grounding observation
       \<and> (\<exists>q b. jfield request ''verification_observation_request'' = Some q \<and> minted_observation R q = Inr (b, grounding))
     \<or> jfield r ''evidence_position'' = Some (JStr (u ''CHANGE_RESULT_EVIDENCE''))
       \<and> distinct_observations grounding observation
       \<and> (\<exists>c change x d. jfield request ''change_request'' = Some c \<and> derive_change E c = Inr change
            \<and> jfield difference ''difference_id'' = Some d
            \<and> bindE (afield change ''difference_ref'') (\<lambda>v. afield v ''id'') = Inr x \<and> py_eq x d)
       \<and> (\<exists>q b. jfield request ''post_change_observation_request'' = Some q \<and> minted_observation R q = Inr (b, grounding))"

lemma positioned_grounds:
  assumes "positioned R E request observation difference = Inr r"
  shows "\<exists>grounding. position_grounds R E request observation difference grounding r
    \<and> reports E request difference grounding r"
proof -
  obtain c p v w where
    f: "jfield request ''change_request'' = Some c" "jfield request ''post_change_observation_request'' = Some p"
      "jfield request ''verification_observation_request'' = Some v"
      "jfield request ''verification_result_provenance'' = Some w" and
    r: "(if c = JNull then
       if p \<noteq> JNull then Inl EvidenceError
       else if v \<noteq> JNull then
         if w = JNull then Inl EvidenceError
         else change_free_verification_evidence R E request observation difference v w
       else if w \<noteq> JNull then Inl EvidenceError
       else observation_evidence R E request observation difference
     else if v \<noteq> JNull then Inl EvidenceError
     else if w \<noteq> JNull then Inl EvidenceError
     else if p = JNull then Inl UngroundedChangeResultEvidenceError
     else change_result_evidence R E request observation difference c p) = Inr r"
    using assms unfolding positioned_def by (elim bindE_InrE) simp
  consider "c = JNull" "change_free_verification_evidence R E request observation difference v w = Inr r"
    | "c = JNull" "observation_evidence R E request observation difference = Inr r"
    | "change_result_evidence R E request observation difference c p = Inr r"
    using r by (auto split: if_splits)
  then show ?thesis
  proof cases
    case 1
    from change_free_position [OF 1(2)] show ?thesis using f(1,3) 1(1) unfolding position_grounds_def by blast
  next
    case 2
    from observation_position [OF 2(2)] show ?thesis using f(1) 2(1) unfolding position_grounds_def by blast
  next
    case 3
    from change_result_position [OF 3] show ?thesis using f(1,2) unfolding position_grounds_def by blast
  qed
qed

text \<open>The Difference of a record is the one its own Observation leads to.\<close>

definition derived_from_request :: "owners \<Rightarrow> json \<Rightarrow> json \<Rightarrow> json \<Rightarrow> bool" where
  "derived_from_request R request observation difference \<longleftrightarrow>
     (\<exists>q b d. jfield request ''observation_request'' = Some q \<and> minted_observation R q = Inr (b, observation)
        \<and> jfield request ''difference_request'' = Some d \<and> derived_difference R d b = Inr difference)
     \<and> cites_observation difference observation = Inr True"

lemma grounded_derived:
  assumes "grounded R shaped = Inr (observation, difference)"
  shows "derived_from_request R shaped observation difference"
proof -
  obtain b q d where "jfield shaped ''observation_request'' = Some q" "minted_observation R q = Inr (b, observation)"
    "jfield shaped ''difference_request'' = Some d" "derived_difference R d b = Inr difference"
    "cites_observation difference observation = Inr True"
    using assms unfolding grounded_def by - ((erule bind_pair | erule bindE_InrE)+, simp)
  then show ?thesis by (auto simp: derived_from_request_def)
qed

lemma evidence_request_kept: "require_evidence_request request = Inr shaped \<Longrightarrow> shaped = request"
  by (auto simp: require_evidence_request_def)

text \<open>C8: no Evidence is written down, it is reproduced. A derived record is about the one Difference that
  the Difference owner derives from the Observation the request leads to, and that Difference cites the
  Observation; its position is read from the request and grounded accordingly, in that Observation, in a
  second and different one, or in a second one after a Change that the Authority permitted for the same
  Difference; its status and level are those of the grounding Observation, E1 only when the engine
  certified its scope completely observed over a Source Snapshot, never above; and the identity is the
  address of what it says.\<close>

theorem evidence_grounded:
  assumes "derive_evidence R E request = Inr r"
  shows "\<exists>observation difference grounding. derived_from_request R request observation difference
    \<and> position_grounds R E request observation difference grounding r
    \<and> reports E request difference grounding r"
proof -
  obtain shaped observation difference where d: "require_evidence_request request = Inr shaped"
    "grounded R shaped = Inr (observation, difference)" "positioned R E shaped observation difference = Inr r"
    using assms unfolding derive_evidence_def mapErr_eq_Inr_iff by - (erule bindE_InrE, erule bind_pair, simp)
  show ?thesis
    using positioned_grounds d(3) grounded_derived [OF d(2)] evidence_request_kept [OF d(1)] by blast
qed

end
