(* ===== verification/EvidenceExample.thy ===== *)
theory EvidenceExample
  imports EvidenceProps ReflowExample
begin

text \<open>
  One Observation Evidence record and the sufficiency of it: the owners answer with fixed records, the
  Closure Policy asks for level E1.
\<close>

section \<open>Hashing plain records\<close>

lemma plain_content_digest:
  assumes "plain_any ascii_ext False v"
  shows "digest ascii_ext v = Inr (u ''sha256:'' @ sha256_hex (map of_nat (dumps (sort_keys v))))"
    and "address ascii_ext p v = Inr (u p @ ascii_upper (sha256_hex (map of_nat (dumps (sort_keys v)))))"
  using plain_any_canonical [OF nfc_ascii_example assms] by (simp_all add: digest_def address_def)

definition ev_key :: "string \<Rightarrow> bool" where
  "ev_key k \<longleftrightarrow> word_key (u k) \<and> u k \<notin> set secret_keys"

lemma ev_key_free: "ev_key k \<Longrightarrow> \<not> secret_key ascii_ext (u k) \<and> plain_str (u k)"
  using word_key_plain by (auto simp: ev_key_def secret_word_key)

lemma plain_obj:
  assumes "distinct (map fst kvs)" and "list_all (\<lambda>(k, v). ev_key k \<and> plain_any ascii_ext (u k \<in> set set_like_fields) v) kvs"
  shows "plain_any ascii_ext b (obj kvs)"
proof -
  have "distinct (map fst (map (\<lambda>(k, v). (u k, v)) kvs))"
    using assms(1) by (auto simp: distinct_map inj_on_def split_beta comp_def)
  then show ?thesis
    using assms(2) ev_key_free by (auto simp: obj_def list_all_iff)
qed

section \<open>The records\<close>

definition ev_ref :: "string \<Rightarrow> string \<Rightarrow> json" where
  "ev_ref kind identity = typed_ref kind (JStr (u identity))"

definition ev_observation :: json where
  "ev_observation = obj
     [(''observation_id'', JStr (u ''OBS-1'')), (''project_id'', JStr (u ''PRJ-A'')), (''status'', JStr (u ''COMPLETE'')),
      (''target'', obj [(''target_identity'', JStr (u ''T-1'')), (''kind'', JStr (u ''SERVICE''))]),
      (''method_ref'', ev_ref ''observation_method'' ''M-1''), (''normalization_profile'', JStr (u ''FIXTURE-0.1'')),
      (''time_boundary'', obj [(''observation_ended_at'', JStr ex_at)]),
      (''source_snapshot_refs'', JList [ev_ref ''source_snapshot'' ''SNAP-1'']),
      (''blind_spots'', obj [(''status'', JStr (u ''NONE_KNOWN''))]), (''normalized_fact_refs'', JList []),
      (''attempts'', JList []), (''state_revision_observed'', JInt 3),
      (''state_fingerprint_observed'', JStr (u ''sha256:1''))]"

definition ev_difference :: json where
  "ev_difference = obj [(''difference_id'', JStr (u ''D-1'')), (''project_id'', JStr (u ''PRJ-A'')),
     (''observation_refs'', JList [ev_ref ''observation'' ''OBS-1''])]"

definition ev_owners :: owners where
  "ev_owners = \<lparr> observe = (\<lambda>_. Inr (obj [(''observations'', JList [ev_observation])])),
     derive_differences = (\<lambda>_. Inr (obj [(''differences'', JList [ev_difference])])), clock = (\<lambda>_. None) \<rparr>"

definition ev_request :: json where
  "ev_request = obj
     [(''schema_version'', JStr (u ''0.1'')), (''recorded_at'', JStr ex_at), (''observation_request'', obj []),
      (''difference_request'', obj [(''bindings'', JList [obj []])]), (''change_request'', JNull),
      (''post_change_observation_request'', JNull), (''verification_observation_request'', JNull),
      (''verification_result_provenance'', JNull), (''artifact_references'', JList []),
      (''predecessor_evidence_refs'', JList []), (''remaining_difference_refs'', JList [])]"

lemma ev_grounded: "grounded ev_owners ev_request = Inr (ev_observation, ev_difference)"
  by (simp add: grounded_def afield_def ev_request_def obj_field minted_observation_def delegate_def
      observed_by_def ev_owners_def last_observation_def derived_difference_def aget_def ev_difference_def
      cites_observation_def ev_observation_def alist_def ev_ref_def) (rule exI [of _ True], rule TrueI)

definition ev_common :: json where
  "ev_common = obj [(''schema_version'', JStr (u ''0.1'')), (''evidence_id'', JStr []), (''timestamp'', JStr ex_at),
     (''target'', obj [(''project_id'', JStr (u ''PRJ-A'')), (''target_identity'', JStr (u ''T-1'')), (''kind'', JStr (u ''SERVICE''))]),
     (''difference_ref'', ev_ref ''difference'' ''D-1''),
     (''observation_method'', obj [(''method_ref'', ev_ref ''observation_method'' ''M-1''),
        (''normalization_profile'', JStr (u ''FIXTURE-0.1''))]),
     (''observed_result'', obj [(''observation_ref'', ev_ref ''observation'' ''OBS-1''),
        (''observation_status'', JStr (u ''COMPLETE'')), (''blind_spot_status'', JStr (u ''NONE_KNOWN'')),
        (''normalized_fact_refs'', set_wrapper []), (''attempt_outcomes'', ordered_list [])]),
     (''status'', JStr (u ''COMPLETE'')), (''artifact_references'', set_wrapper []),
     (''remaining_differences'', set_wrapper []), (''evidence_level'', JStr (u ''E1'')),
     (''verification_result_provenance'', JNull), (''evidence_semantic_fingerprint'', JStr [])]"

lemma ev_recorded: "require_recorded_after ev_owners (JStr ex_at) ev_observation = Inr (JStr ex_at)"
proof -
  have "ex_at \<noteq> []" by (simp add: ex_at_def u_Cons)
  then show ?thesis
    by (simp add: require_recorded_after_def afield_def ev_observation_def obj_field ex_at_clock)
qed

lemma ev_common: "common ev_owners ev_request ev_observation ev_difference = Inr ev_common"
proof -
  have f: "jfield ev_request ''artifact_references'' = Some (JList [])"
    "jfield ev_request ''remaining_difference_refs'' = Some (JList [])"
    "jfield ev_request ''recorded_at'' = Some (JStr ex_at)" "jfield ev_difference ''difference_id'' = Some (JStr (u ''D-1''))"
    by (simp_all add: ev_request_def ev_difference_def obj_field)
  have l: "derive_level ev_observation = Inr (u ''E1'')"
    by (simp add: derive_level_def aget_def ev_observation_def obj_field one_of_def confirming_statuses_def)
  have r: "observed_result ev_observation = Inr (obj [(''observation_ref'', ev_ref ''observation'' ''OBS-1''),
        (''observation_status'', JStr (u ''COMPLETE'')), (''blind_spot_status'', JStr (u ''NONE_KNOWN'')),
        (''normalized_fact_refs'', set_wrapper []), (''attempt_outcomes'', ordered_list [])])"
    by (simp add: observed_result_def afield_def alist_def ev_observation_def obj_field sorted_references_def ev_ref_def)
  show ?thesis
    by (simp add: common_def f afield_def artifact_references_def typed_references_def member_list_def
        ev_recorded l r) (simp add: ev_observation_def ev_common_def obj_field ev_ref_def)
qed

definition ev_evidence :: json where
  "ev_evidence = update_fields
     [(''evidence_position'', JStr (u ''OBSERVATION_EVIDENCE'')),
      (''before_state'', obj [(''state_revision'', JInt 3), (''semantic_fingerprint'', JStr (u ''sha256:1''))]),
      (''change_identity'', JNull), (''authority_used'', JNull), (''after_state'', JNull), (''expected_result'', JNull),
      (''lineage'', obj [(''derived_from'', set_wrapper [ev_ref ''difference'' ''D-1'', ev_ref ''observation'' ''OBS-1'']),
         (''predecessor_evidence_refs'', set_wrapper [])])] ev_common"

lemma ev_common_obj: "is_obj ev_common" "is_obj ev_evidence"
  using update_fields_field [of ev_common] by (simp_all add: ev_common_def ev_evidence_def)

lemma ev_field:
  "jfield ev_evidence k = (case map_of (rev
     [(''evidence_position'', JStr (u ''OBSERVATION_EVIDENCE'')),
      (''before_state'', obj [(''state_revision'', JInt 3), (''semantic_fingerprint'', JStr (u ''sha256:1''))]),
      (''change_identity'', JNull), (''authority_used'', JNull), (''after_state'', JNull), (''expected_result'', JNull),
      (''lineage'', obj [(''derived_from'', set_wrapper [ev_ref ''difference'' ''D-1'', ev_ref ''observation'' ''OBS-1'']),
         (''predecessor_evidence_refs'', set_wrapper [])])]) k of Some x \<Rightarrow> Some x | None \<Rightarrow> jfield ev_common k)"
  using update_fields_field [OF ev_common_obj(1)] unfolding ev_evidence_def by blast

lemma ev_keys:
  "list_all ev_key [''evidence_position'', ''timestamp'', ''target'', ''difference_ref'', ''before_state'',
     ''observation_method'', ''change_identity'', ''authority_used'', ''after_state'', ''expected_result'',
     ''observed_result'', ''status'', ''artifact_references'', ''lineage'', ''remaining_differences'',
     ''evidence_level'', ''verification_result_provenance'', ''project_id'', ''target_identity'', ''kind'', ''id'',
     ''method_ref'', ''normalization_profile'', ''observation_ref'', ''observation_status'', ''blind_spot_status'',
     ''normalized_fact_refs'', ''attempt_outcomes'', ''collection_kind'', ''members'', ''state_revision'',
     ''semantic_fingerprint'', ''derived_from'', ''predecessor_evidence_refs'']"
  by (simp add: ev_key_def word_key_def secret_keys_def u_Cons)

lemma ev_ref_plain:
  assumes "plain_str (u kind)" and "plain_str (u identity)"
  shows "plain_any ascii_ext b (ev_ref kind identity)"
  unfolding ev_ref_def typed_ref_def using ev_keys assms by (intro plain_obj) simp_all

lemma ev_wrapper_plain:
  assumes "list_all (plain_any ascii_ext False) xs"
  shows "plain_any ascii_ext b (set_wrapper xs)" and "plain_any ascii_ext b (ordered_list xs)"
proof -
  have s: "set_wrapper xs = obj [(''collection_kind'', JStr (u ''UNORDERED_SET'')), (''members'', JList xs)]"
    by (simp add: set_wrapper_def obj_def)
  have m: "u ''members'' \<notin> set set_like_fields" by (simp add: set_like_fields_def)
  show "plain_any ascii_ext b (set_wrapper xs)" unfolding s
    using ev_keys assms m by (intro plain_obj) (simp_all add: list_all_iff u_Cons)
  show "plain_any ascii_ext b (ordered_list xs)" unfolding ordered_list_def
    using ev_keys assms m by (intro plain_obj) (simp_all add: list_all_iff u_Cons)
qed

lemma project_obj:
  assumes "list_all (\<lambda>k. jfield v k \<noteq> None) ks"
  shows "project_fields ks v = Inr (obj (map (\<lambda>k. (k, case jfield v k of Some x \<Rightarrow> x | None \<Rightarrow> JNull)) ks))"
proof -
  have "mapE (\<lambda>k. bindE (afield v k) (\<lambda>x. Inr (u k, x))) ks
      = Inr (map (\<lambda>k. (u k, case jfield v k of Some x \<Rightarrow> x | None \<Rightarrow> JNull)) ks)"
    using assms by (induction ks) (auto simp: afield_def)
  then show ?thesis by (simp add: project_fields_def obj_def comp_def)
qed

definition ev_projection :: json where
  "ev_projection = projr (project_fields evidence_semantic_fields ev_evidence)"

lemma ev_projection: "project_fields evidence_semantic_fields ev_evidence = Inr ev_projection"
    "plain_any ascii_ext False ev_projection"
proof -
  have at: "plain_str ex_at" by (simp add: ex_at_def u_Cons)
  have p: "project_fields evidence_semantic_fields ev_evidence = Inr (obj
    (map (\<lambda>k. (k, case jfield ev_evidence k of Some x \<Rightarrow> x | None \<Rightarrow> JNull)) evidence_semantic_fields))"
    by (rule project_obj) (simp add: evidence_semantic_fields_def ev_field ev_common_def obj_field)
  show "project_fields evidence_semantic_fields ev_evidence = Inr ev_projection"
    by (simp add: ev_projection_def p)
  show "plain_any ascii_ext False ev_projection"
    unfolding ev_projection_def p sum.sel
    by (rule plain_obj; simp add: evidence_semantic_fields_def ev_field ev_common_def obj_field)
      (use ev_keys at in \<open>auto intro!: plain_obj ev_ref_plain ev_wrapper_plain simp: u_Cons\<close>)
qed

definition ev_fingerprint :: ustr where
  "ev_fingerprint = u ''sha256:'' @ sha256_hex (map of_nat (dumps (sort_keys ev_projection)))"

definition ev_id :: ustr where
  "ev_id = u ''EVIDENCE-'' @ ascii_upper (sha256_hex (map of_nat (dumps (sort_keys ev_projection))))"

definition ev_record :: json where
  "ev_record = aset ''evidence_id'' (JStr ev_id) (aset ''evidence_semantic_fingerprint'' (JStr ev_fingerprint) ev_evidence)"

lemma ev_finalize: "finalize ascii_ext ev_evidence = Inr ev_record"
proof -
  have f: "evidence_semantic_fingerprint ascii_ext ev_evidence = Inr ev_fingerprint"
    using ev_projection plain_content_digest(1) by (simp add: evidence_semantic_fingerprint_def ev_fingerprint_def)
  let ?e = "aset ''evidence_semantic_fingerprint'' (JStr ev_fingerprint) ev_evidence"
  have "project_fields evidence_semantic_fields ?e = project_fields evidence_semantic_fields ev_evidence"
    by (rule project_fields_cong) (auto simp: jfield_aset ev_common_obj evidence_semantic_fields_def)
  then have "evidence_id ascii_ext ?e = Inr ev_id"
    using ev_projection plain_content_digest(2) by (simp add: evidence_id_def ev_id_def)
  then show ?thesis by (simp add: finalize_def Let_def f ev_record_def)
qed

lemma ev_lineage: "lineage_of ev_request [typed_ref ''observation'' (JStr (u ''OBS-1'')), typed_ref ''difference'' (JStr (u ''D-1''))]
    = Inr (obj [(''derived_from'', set_wrapper [ev_ref ''difference'' ''D-1'', ev_ref ''observation'' ''OBS-1'']),
         (''predecessor_evidence_refs'', set_wrapper [])])"
proof -
  have "\<not> u ''observation'' \<le> u ''difference''" "\<not> u ''observation'' < u ''difference''" by (simp_all add: u_Cons)
  then have s: "sorted_references [typed_ref ''observation'' (JStr (u ''OBS-1'')), typed_ref ''difference'' (JStr (u ''D-1''))]
      = Inr [ev_ref ''difference'' ''D-1'', ev_ref ''observation'' ''OBS-1'']"
    by (simp add: sorted_references_def reference_key_def astr_def typed_ref_def obj_field ev_ref_def less_eq_prod_def)
  show ?thesis
    by (simp add: lineage_of_def s afield_def ev_request_def obj_field typed_references_def member_list_def)
qed

lemma ev_derived: "derive_evidence ev_owners ascii_ext ev_request = Inr ev_record"
proof -
  have b: "state_binding ev_observation
      = Inr (obj [(''state_revision'', JInt 3), (''semantic_fingerprint'', JStr (u ''sha256:1''))])"
    by (simp add: state_binding_def afield_def ev_observation_def obj_field)
  have o: "observation_evidence ev_owners ascii_ext ev_request ev_observation ev_difference = Inr ev_record"
    unfolding observation_evidence_def ev_common b
    by (simp add: afield_def ev_observation_def ev_difference_def obj_field ev_lineage)
      (simp add: ev_finalize [unfolded ev_evidence_def])
  have r: "require_evidence_request ev_request = Inr ev_request"
    by (simp add: require_evidence_request_def exact_keys_def known_keys_def ev_request_def obj_def jfield_def
        evidence_request_keys_def afield_def)
  have "positioned ev_owners ascii_ext ev_request ev_observation ev_difference = Inr ev_record"
    unfolding positioned_def
    by (simp add: afield_def ev_request_def obj_field) (simp add: o [unfolded ev_request_def])
  then show ?thesis unfolding derive_evidence_def r bindE.simps ev_grounded by simp
qed

theorem evidence_grounded_witness:
  "\<exists>observation difference grounding. derived_from_request ev_owners ev_request observation difference
    \<and> position_grounds ev_owners ascii_ext ev_request observation difference grounding ev_record
    \<and> reports ascii_ext ev_request difference grounding ev_record"
  by (rule evidence_grounded [OF ev_derived])

section \<open>Sufficiency\<close>

definition ev_policy_semantics :: "(string \<times> json) list" where
  "ev_policy_semantics =
     [(''target_predicate_ref'', ev_ref ''target_predicate'' ''P-1''), (''required_observation_scope'', JNull),
      (''minimum_evidence_level'', JStr (u ''E1'')), (''required_claims'', JList []), (''required_invariants'', JList []),
      (''allowed_terminal_states'', JList []), (''independent_verification_required'', JBool False),
      (''maximum_evidence_age'', JInt 60), (''contradiction_policy'', JStr (u ''REJECT'')), (''reopen_conditions'', JList [])]"

definition ev_policy_fingerprint :: ustr where
  "ev_policy_fingerprint = u ''sha256:'' @ sha256_hex (map of_nat (dumps (sort_keys (obj ev_policy_semantics))))"

definition ev_policy_id :: ustr where
  "ev_policy_id = u ''CP-'' @ ascii_upper (sha256_hex (map of_nat (dumps (sort_keys
     (JObj [(u ''policy_semantic_fingerprint'', JStr ev_policy_fingerprint),
            (u ''subject_difference_id'', JStr (u ''D-1''))])))))"

definition ev_policy :: json where
  "ev_policy = obj (ev_policy_semantics
     @ [(''closure_policy_id'', JStr ev_policy_id), (''policy_version'', JInt 1),
        (''policy_semantic_fingerprint'', JStr ev_policy_fingerprint),
        (''subject_difference_ref'', ev_ref ''difference'' ''D-1'')])"

lemma ev_policy_keys: "list_all ev_key (map fst ev_policy_semantics)"
  "list_all ev_key [''policy_semantic_fingerprint'', ''subject_difference_id'', ''schema_version'', ''policy_ref'',
     ''evidence_refs'', ''result'', ''evaluated_at'', ''version'', ''evidence_level_scale'']"
  by (simp_all add: ev_policy_semantics_def ev_key_def word_key_def secret_keys_def u_Cons)

lemma plain_hashed:
  assumes "canonical_semantic ascii_ext v = Inr v" and "plain_any ascii_ext False v"
  shows "hashed ascii_ext [] v = Inr (sha256_hex (map of_nat (dumps (sort_keys v))))"
  using assms plain_any_canonical [OF nfc_ascii_example assms(2)]
  by (simp add: hashed_def canonical_bytes_def canonA_def)

lemma ev_policy_projection: "policy_semantic_projection ascii_ext ev_policy = Inr (obj ev_policy_semantics)"
proof -
  have p: "project_fields policy_semantic_fields ev_policy = Inr (obj ev_policy_semantics)"
    by (subst project_obj) (simp_all add: policy_semantic_fields_def ev_policy_def ev_policy_semantics_def obj_field)
  have s: "policy_set ascii_ext f k (obj ev_policy_semantics) = Inr (obj ev_policy_semantics)"
    if "k \<in> {''required_claims'', ''allowed_terminal_states'', ''reopen_conditions'', ''required_invariants''}" for f k
    using that
    by (elim insertE emptyE)
      (simp_all add: policy_set_def alist_def ev_policy_semantics_def obj_field sorted_canonical_def sort_encoded_def,
       simp_all add: obj_def)
  show ?thesis by (simp add: policy_semantic_projection_def p s)
qed

lemma ev_policy_fingerprint: "policy_semantic_fingerprint ascii_ext ev_policy = Inr ev_policy_fingerprint"
proof -
  have "canonical_semantic ascii_ext (obj ev_policy_semantics) = Inr (obj ev_policy_semantics)"
    by (simp add: obj_def ev_policy_semantics_def sort_members_def ev_ref_def typed_ref_def)
  moreover have "plain_any ascii_ext False (obj ev_policy_semantics)"
    using ev_policy_keys(1)
    by (intro plain_obj) (auto simp: ev_policy_semantics_def list_all_iff u_Cons intro!: ev_ref_plain)
  ultimately show ?thesis
    using plain_hashed
    by (simp add: policy_semantic_fingerprint_def ev_policy_projection sha256_fingerprint_def ev_policy_fingerprint_def)
qed

lemma ev_policy_id: "closure_policy_id ascii_ext ev_policy_fingerprint (u ''D-1'') = Inr ev_policy_id"
proof -
  let ?v = "JObj [(u ''policy_semantic_fingerprint'', JStr ev_policy_fingerprint), (u ''subject_difference_id'', JStr (u ''D-1''))]"
  have "?v = obj [(''policy_semantic_fingerprint'', JStr ev_policy_fingerprint), (''subject_difference_id'', JStr (u ''D-1''))]"
    by (simp add: obj_def)
  moreover have "plain_any ascii_ext False (obj [(''policy_semantic_fingerprint'', JStr ev_policy_fingerprint),
      (''subject_difference_id'', JStr (u ''D-1''))])"
    using ev_policy_keys(2) by (intro plain_obj) (simp_all add: ev_policy_fingerprint_def u_Cons)
  ultimately have "plain_any ascii_ext False ?v" by metis
  moreover have "canonical_semantic ascii_ext ?v = Inr ?v" by (simp add: sort_members_def)
  ultimately show ?thesis
    using plain_hashed by (simp add: closure_policy_id_def upper_id_def ev_policy_id_def del: canonical_semantic.simps)
qed

lemma ev_policy_fields:
  "jfield ev_policy ''required_claims'' = Some (JList [])" "jfield ev_policy ''closure_policy_id'' = Some (JStr ev_policy_id)"
  "jfield ev_policy ''policy_version'' = Some (JInt 1)" "jfield ev_policy ''maximum_evidence_age'' = Some (JInt 60)"
  "jfield ev_policy ''minimum_evidence_level'' = Some (JStr (u ''E1''))"
  "jfield ev_policy ''policy_semantic_fingerprint'' = Some (JStr ev_policy_fingerprint)"
  "jfield ev_policy ''subject_difference_ref'' = Some (ev_ref ''difference'' ''D-1'')" "is_obj ev_policy"
  by (simp_all add: ev_policy_def ev_policy_semantics_def obj_field)

lemma ev_policy_clean: "closure_policy_semantic_errors ascii_ext ev_policy = Inr []"
proof -
  have "claim_errors ascii_ext ev_policy = Inr []" by (simp add: claim_errors_def aget_def ev_policy_fields)
  moreover have "duplicate_set_errors ascii_ext ev_policy = Inr []"
    by (simp add: duplicate_set_errors_def ev_policy_projection policy_unordered_set_fields_def afield_def obj_field
        ev_policy_semantics_def has_duplicate_members_def)
  ultimately show ?thesis
    by (simp add: closure_policy_semantic_errors_def ev_policy_fingerprint aget_def ev_policy_fields found_if_def)
qed

definition ev_scale :: json where
  "ev_scale = obj [(''kind'', JStr (u ''evidence_level_scale_source'')), (''path'', JStr (u completion_semantics_path)),
     (''blob_sha'', JStr (u completion_semantics_blob_sha)),
     (''evidence_level_scale_sha256'', JStr (projr (evidence_level_scale_digest ascii_ext)))]"

definition ev_sufficiency_request :: json where
  "ev_sufficiency_request = obj [(''schema_version'', JStr (u ''0.1'')), (''difference_ref'', ev_ref ''difference'' ''D-1''),
     (''closure_policy'', ev_policy), (''evidence_level_scale_ref'', ev_scale),
     (''evidence_requests'', JList [ev_request]), (''evaluation_instant'', JStr ex_at)]"

lemma ev_digest: "\<exists>d. evidence_level_scale_digest ascii_ext = Inr d"
proof -
  have "plain_any ascii_ext False (obj [(''evidence_level_scale'', JList (map (\<lambda>l. JStr (u l)) evidence_level_scale))])"
    using ev_policy_keys(2)
    by (intro plain_obj) (simp_all add: evidence_level_scale_def u_Cons set_like_fields_def)
  from plain_any_canonical [OF nfc_ascii_example this] show ?thesis
    by (simp add: evidence_level_scale_digest_def canonA_def)
qed

lemma ev_scale_admitted: "require_scale_source ascii_ext ev_scale = Inr ev_scale"
  using ev_digest
  by (auto simp: require_scale_source_def exact_keys_def known_keys_def ev_scale_def obj_def jfield_def afield_def)

lemma ev_policy_admitted: "require_policy ascii_ext ev_policy (ev_ref ''difference'' ''D-1'') = Inr ev_policy"
  by (simp add: require_policy_def ev_policy_clean ev_policy_fields aget_def afield_def ev_ref_def typed_ref_def
      obj_field ev_policy_fingerprint ev_policy_id)

lemma ev_record_field: "jfield ev_record k = (if k = ''evidence_id'' then Some (JStr ev_id)
    else if k = ''evidence_semantic_fingerprint'' then Some (JStr ev_fingerprint) else jfield ev_evidence k)"
  by (simp add: ev_record_def jfield_aset ev_common_obj)

lemma ev_record_fields:
  "jfield ev_record ''timestamp'' = Some (JStr ex_at)" "jfield ev_record ''status'' = Some (JStr (u ''COMPLETE''))"
  "jfield ev_record ''evidence_level'' = Some (JStr (u ''E1''))" "jfield ev_record ''evidence_id'' = Some (JStr ev_id)"
  "jfield ev_record ''difference_ref'' = Some (ev_ref ''difference'' ''D-1'')"
  by (simp_all add: ev_record_field ev_field ev_common_def obj_field)

lemma ev_instant: "instant_of R (JStr ex_at) = Inr 1780272000500000"
  by (simp add: instant_of_def ex_at_clock)

lemma ev_level: "level_index (JStr (u ''E1'')) = Inr 1"
  by (simp add: level_index_def evidence_level_scale_def)

definition ev_verdict :: verdict where
  "ev_verdict = no_verdict\<lparr> reasons := [SUFFICIENT_REASON] \<rparr>"

lemma ev_judged:
  "judge ev_owners 1780272000500000 (JInt 60) (JStr (u ''E1'')) [ev_record] = Inr (JStr (u ''E1''), ev_verdict)"
proof -
  have "judge_record ev_owners 1780272000500000 (JInt 60) no_verdict ev_record = Inr no_verdict"
    by (simp add: judge_record_def afield_def ev_record_fields ev_instant judge_age_def judge_status_def status_in_def
        determinate_insufficient_statuses_def indeterminate_statuses_def)
  moreover have "effective_level [ev_record] = Inr (JStr (u ''E1''))"
    by (simp add: effective_level_def afield_def ev_record_fields weakest_def ev_level)
  moreover have "judge_level [ev_record] (JStr (u ''E1'')) (JStr (u ''E1'')) no_verdict = Inr no_verdict"
    by (simp add: judge_level_def one_of_def derivable_levels_def ev_level)
  moreover have "verdict_result no_verdict = ''SUFFICIENT''" by (simp add: verdict_result_def no_verdict_def)
  ultimately show ?thesis
    by (simp add: judge_def ev_verdict_def) (simp add: no_verdict_def)
qed

lemma ev_sufficient_record:
  "\<exists>r. sufficiency_record ascii_ext (ev_ref ''difference'' ''D-1'') ev_policy (JStr (u ''E1'')) [JStr ev_id]
     (verdict_result ev_verdict) (JStr ex_at) = Inr r"
proof -
  have v: "verdict_result ev_verdict = ''SUFFICIENT''"
    by (simp add: ev_verdict_def no_verdict_def verdict_result_def)
  define p where "p = obj [(''kind'', JStr (u ''closure_policy'')), (''id'', JStr ev_policy_id), (''version'', JInt 1),
    (''semantic_fingerprint'', JStr ev_policy_fingerprint)]"
  have p: "policy_reference ev_policy = Inr p" by (simp add: policy_reference_def afield_def ev_policy_fields p_def)
  define refs where "refs = set_wrapper [typed_ref ''observation_evidence'' (JStr ev_id)]"
  have s: "sorted_references [typed_ref ''observation_evidence'' (JStr ev_id)]
      = Inr [typed_ref ''observation_evidence'' (JStr ev_id)]"
    by (simp add: sorted_references_def reference_key_def astr_def typed_ref_def obj_field)
  define body where "body = obj [(''schema_version'', JStr (u ''0.1'')), (''difference_ref'', ev_ref ''difference'' ''D-1''),
    (''policy_ref'', p), (''evidence_level'', JStr (u ''E1'')), (''evidence_refs'', refs),
    (''result'', JStr (u ''SUFFICIENT'')), (''evaluated_at'', JStr ex_at)]"
  have at: "plain_str ex_at" "plain_str ev_id" "plain_str ev_policy_id" "plain_str ev_policy_fingerprint"
    by (simp_all add: ex_at_def ev_id_def ev_policy_id_def ev_policy_fingerprint_def plain_upper u_Cons)
  have ref: "plain_any ascii_ext b (typed_ref ''observation_evidence'' (JStr ev_id))" for b
    unfolding typed_ref_def using ev_keys at by (intro plain_obj) (simp_all add: u_Cons)
  have pp: "plain_any ascii_ext b p" for b
    unfolding p_def using ev_keys ev_policy_keys(2) at by (intro plain_obj) (simp_all add: u_Cons)
  have "plain_any ascii_ext b refs" for b unfolding refs_def using ref by (intro ev_wrapper_plain) simp
  then have "plain_any ascii_ext False body"
    unfolding body_def using ev_keys ev_policy_keys(2) at pp
    by (intro plain_obj) (auto simp: u_Cons intro!: ev_ref_plain)
  then obtain i where i: "address ascii_ext ''EVID-SUFF-'' body = Inr i" using plain_content_digest(2) by blast
  have "without ''evidence_sufficiency_id'' (obj [(''schema_version'', JStr (u ''0.1'')), (''evidence_sufficiency_id'', JStr []),
      (''difference_ref'', ev_ref ''difference'' ''D-1''), (''policy_ref'', p), (''evidence_level'', JStr (u ''E1'')),
      (''evidence_refs'', refs), (''result'', JStr (u ''SUFFICIENT'')), (''evaluated_at'', JStr ex_at)]) = body"
    by (simp add: body_def obj_def)
  then show ?thesis by (simp add: sufficiency_record_def v p s i Let_def flip: refs_def)
qed

lemma ev_sufficient: "\<exists>s. evaluate_sufficiency ev_owners ascii_ext ev_sufficiency_request = Inr s"
proof -
  obtain r where r: "sufficiency_record ascii_ext (ev_ref ''difference'' ''D-1'') ev_policy (JStr (u ''E1'')) [JStr ev_id]
     (verdict_result ev_verdict) (JStr ex_at) = Inr r" using ev_sufficient_record by blast
  have f: "jfield ev_sufficiency_request ''difference_ref'' = Some (ev_ref ''difference'' ''D-1'')"
    "jfield ev_sufficiency_request ''closure_policy'' = Some ev_policy"
    "jfield ev_sufficiency_request ''evidence_level_scale_ref'' = Some ev_scale"
    "jfield ev_sufficiency_request ''evidence_requests'' = Some (JList [ev_request])"
    "jfield ev_sufficiency_request ''evaluation_instant'' = Some (JStr ex_at)"
    by (simp_all add: ev_sufficiency_request_def obj_field)
  have q: "require_sufficiency_request ev_sufficiency_request = Inr ev_sufficiency_request"
    by (simp add: require_sufficiency_request_def exact_keys_def known_keys_def ev_sufficiency_request_def obj_def
        jfield_def sufficiency_request_keys_def afield_def)
  have d: "require_difference_ref (ev_ref ''difference'' ''D-1'') = Inr (ev_ref ''difference'' ''D-1'')"
    by (simp add: require_difference_ref_def known_keys_def ev_ref_def typed_ref_def obj_def aget_def jfield_def)
  have o: "ex_at \<noteq> []" "require_object ev_request = Inr ev_request" by (simp_all add: ex_at_def u_Cons ev_request_def)
  have b: "of_difference (ev_ref ''difference'' ''D-1'') ev_record = Inr True"
    by (simp add: of_difference_def afield_def ev_record_fields)
  have "evaluate ev_owners ascii_ext ev_sufficiency_request
      = Inr \<lparr> result_record = r, result_reasons = reasons ev_verdict, recorded_instants = [JStr ex_at] \<rparr>"
    unfolding evaluate_def q bindE.simps afield_def f orE_simps mapErr.simps d ev_policy_admitted ev_scale_admitted ev_instant
    by (simp add: o b ev_derived ev_record_fields ev_policy_fields ev_judged r del: bindE_eq_Inr_iff)
  then show ?thesis by (simp add: evaluate_sufficiency_def)
qed

theorem sufficiency_verdict_witness:
  "\<exists>s. evaluate_sufficiency ev_owners ascii_ext ev_sufficiency_request = Inr s
     \<and> jfield (result_record s) ''result'' = Some (JStr (u ''SUFFICIENT''))"
proof -
  obtain s where s: "evaluate_sufficiency ev_owners ascii_ext ev_sufficiency_request = Inr s" using ev_sufficient by blast
  have "fresh ev_owners 1780272000500000 (JInt 60) ev_record" "\<not> reports_status determinate_insufficient_statuses ev_record"
    "\<not> reports_status indeterminate_statuses ev_record" "level_at_least (JStr (u ''E1'')) ev_record"
    by (simp_all add: fresh_def reports_status_def level_at_least_def afield_def ev_record_fields ev_instant ev_level one_of_def
        determinate_insufficient_statuses_def indeterminate_statuses_def)
  then show ?thesis
    using sufficiency_verdict [OF s] s ev_derived
    by (auto simp: ev_sufficiency_request_def obj_field ev_policy_fields ex_at_clock one_of_def derivable_levels_def)
qed

end
