(* ===== verification/InvariantEvaluation.thy ===== *)
theory InvariantEvaluation
  imports Evidence Completion
begin

text \<open>
  Invariant Evaluations (\<open>difference/invariant_evaluation.py\<close>) and the context they are verified in
  (\<open>build_invariant_verification_context\<close> of \<open>difference/invariant_verifiers.py\<close>). The verifiers
  themselves analyse the source of the program; the verdict on one invariant in a context, and the
  stage and method it is verified by, are functions the model is given.
\<close>

section \<open>The context\<close>

text \<open>\<open>None\<close> is \<open>JNull\<close>; the keys of the request contract are a constant of the caller.\<close>

record invariant_context =
  ctx_policy :: json
  ctx_difference :: json
  ctx_current_state :: json
  ctx_candidate :: json
  ctx_resolution_mode :: json
  ctx_change_result_evidence :: "json list"
  ctx_change_free_evidence :: "json list"
  ctx_after_observation_ids :: "ustr set"
  ctx_source_snapshots :: "json list"
  ctx_sufficiency :: json
  ctx_material_contradictions :: "json list"
  ctx_blocking_contradictions :: "json list"
  ctx_proposed_terminal_status :: json
  ctx_evaluated_at :: json
  ctx_request_contract_keys :: "string list"

record invariant_rules =
  verify_invariant :: "json \<Rightarrow> invariant_context \<Rightarrow> auth_error + json \<times> json list"
  verification_stage_and_method :: "json \<Rightarrow> json \<times> json"

text \<open>A reference that does not resolve is left out.\<close>

fun resolved_snapshots :: "ext \<Rightarrow> json list \<Rightarrow> json list \<Rightarrow> auth_error + json list" where
  "resolved_snapshots E pool [] = Inr []"
| "resolved_snapshots E pool (r # refs) =
     (case resolve_source_snapshot E r pool of
        Inr snapshot \<Rightarrow> bindE (resolved_snapshots E pool refs) (\<lambda>rest. Inr (snapshot # rest))
      | Inl ObservationError \<Rightarrow> resolved_snapshots E pool refs
      | Inl (Obs_raised e) \<Rightarrow> Inl e)"

section \<open>The record\<close>

definition invariant_evaluation_domain :: bytes where
  "invariant_evaluation_domain = ascii ''MANOSUBE:INVARIANT_EVALUATION:0.1:''"

definition invariant_evaluation_scalars :: "string list" where
  "invariant_evaluation_scalars = [''evaluation_id'', ''invariant_id'', ''subject_ref'', ''state_revision'',
     ''state_fingerprint'', ''verification_stage'', ''method'', ''expected'', ''observed'', ''status'',
     ''evaluated_at'', ''evaluator_capability'', ''authority_ref'']"

definition invariant_evaluation_set_fields :: "string list" where
  "invariant_evaluation_set_fields = [''evidence_refs'', ''remaining_differences'']"

definition invariant_evaluation_closed_projection :: "ext \<Rightarrow> json \<Rightarrow> auth_error + json" where
  "invariant_evaluation_closed_projection E v =
     bindE (mapE (\<lambda>k. bindE (afield v k) (\<lambda>x. Inr (u k, x))) invariant_evaluation_scalars) (\<lambda>scalars.
     bindE (mapE (projected_set E v) invariant_evaluation_set_fields) (\<lambda>sets.
     Inr (JObj (scalars @ sets))))"

definition invariant_evaluation_fingerprint :: "ext \<Rightarrow> json \<Rightarrow> auth_error + ustr" where
  "invariant_evaluation_fingerprint E v =
     bindE (invariant_evaluation_closed_projection E v) (sha256_fingerprint E invariant_evaluation_domain)"

text \<open>\<open>(status, expected, observed, evidence_refs)\<close>.\<close>

definition expected_fields ::
  "invariant_rules \<Rightarrow> json \<Rightarrow> invariant_context \<Rightarrow> auth_error + json \<times> json \<times> json \<times> json list" where
  "expected_fields V invariant context =
     bindE (verify_invariant V invariant context) (\<lambda>(status, refs).
     Inr (status, obj [(''invariant_id'', invariant), (''result'', JStr (u ''PASS''))],
       obj [(''invariant_id'', invariant), (''result'', status)], refs))"

text \<open>The keyword arguments of \<open>build_invariant_evaluation\<close>.\<close>

record evaluation_args =
  ea_evaluation_id :: json
  ea_subject_ref :: json
  ea_state_revision :: json
  ea_state_fingerprint :: json
  ea_candidate_id :: json
  ea_candidate_fingerprint :: json
  ea_evaluated_at :: json
  ea_evaluator_capability :: json
  ea_authority_ref :: json

definition build_invariant_evaluation ::
  "invariant_rules \<Rightarrow> json \<Rightarrow> invariant_context \<Rightarrow> evaluation_args \<Rightarrow> auth_error + json" where
  "build_invariant_evaluation V invariant context a =
     bindE (expected_fields V invariant context) (\<lambda>(status, expected, observed, refs).
     let (stage, technique) = verification_stage_and_method V invariant
     in Inr (obj [(''schema_version'', JStr (u ''0.1'')), (''evaluation_id'', ea_evaluation_id a),
          (''invariant_id'', invariant), (''subject_ref'', ea_subject_ref a),
          (''state_revision'', ea_state_revision a), (''state_fingerprint'', ea_state_fingerprint a),
          (''candidate_id'', ea_candidate_id a),
          (''candidate_semantic_fingerprint'', ea_candidate_fingerprint a),
          (''verification_stage'', stage), (''method'', technique), (''expected'', expected),
          (''observed'', observed), (''status'', status), (''evaluated_at'', ea_evaluated_at a),
          (''evaluator_capability'', ea_evaluator_capability a), (''authority_ref'', ea_authority_ref a),
          (''evidence_refs'', set_wrapper refs), (''remaining_differences'', set_wrapper [])]))"

section \<open>Resolution\<close>

text \<open>The first item of the pool whose \<open>get(k)\<close> is the identity.\<close>

fun first_named :: "string \<Rightarrow> json \<Rightarrow> json list \<Rightarrow> auth_error + json option" where
  "first_named k identity [] = Inr None"
| "first_named k identity (item # pool) =
     bindE (aget item k) (\<lambda>i. if py_eq i identity then Inr (Some item) else first_named k identity pool)"

text \<open>\<open>if v[k] != w: raise DifferenceError\<close>, and the same for two sets.\<close>

definition agrees :: "json \<Rightarrow> string \<Rightarrow> json \<Rightarrow> auth_error + unit" where
  "agrees v k w = bindE (afield v k) (\<lambda>x. ensureE (py_eq x w) DifferenceError)"

definition set_agrees :: "ext \<Rightarrow> json \<Rightarrow> auth_error + json list \<Rightarrow> auth_error + unit" where
  "set_agrees E v members =
     bindE (bindE (bindE (afield v ''evidence_refs'') (\<lambda>w. alist w ''members'')) (unordered_set E)) (\<lambda>a.
     bindE (bindE members (unordered_set E)) (\<lambda>b. ensureE (py_eq a b) DifferenceError))"

definition invariant_evaluation_schema :: ustr where
  "invariant_evaluation_schema = schema_base @ u ''difference/invariant_evaluation.schema.json''"

text \<open>The record against the binding, the Candidate and the State.\<close>

definition record_bound :: "ext \<Rightarrow> json \<Rightarrow> json \<Rightarrow> json \<Rightarrow> json \<Rightarrow> auth_error + unit" where
  "record_bound E binding v base_state_ref candidate =
     bindE (afield binding ''evaluation_record_fingerprint'') (\<lambda>declared.
     bindE (invariant_evaluation_fingerprint E v) (\<lambda>fingerprint.
     bindE (ensureE (declared = JStr fingerprint) DifferenceError) (\<lambda>_.
     bindE (bindE (afield binding ''invariant_ref'') (\<lambda>r. afield r ''id'')) (\<lambda>invariant.
     bindE (agrees v ''invariant_id'' invariant) (\<lambda>_.
     bindE (afield binding ''evaluation_result'') (\<lambda>result.
     bindE (agrees v ''status'' result) (\<lambda>_.
     bindE (afield binding ''evaluated_at'') (\<lambda>at.
     bindE (agrees v ''evaluated_at'' at) (\<lambda>_.
     bindE (set_agrees E v (bindE (afield binding ''evaluation_evidence_refs'') members_or_empty)) (\<lambda>_.
     bindE (afield candidate ''candidate_id'') (\<lambda>candidate_ident.
     bindE (agrees v ''candidate_id'' candidate_ident) (\<lambda>_.
     bindE (afield candidate ''semantic_fingerprint'') (\<lambda>candidate_fingerprint.
     bindE (agrees v ''candidate_semantic_fingerprint'' candidate_fingerprint) (\<lambda>_.
     bindE (afield base_state_ref ''revision'') (\<lambda>revision.
     bindE (agrees v ''state_revision'' revision) (\<lambda>_.
     bindE (afield base_state_ref ''fingerprint'') (\<lambda>state_fingerprint.
     agrees v ''state_fingerprint'' state_fingerprint)))))))))))))))))"

text \<open>The record against what the verifier derives again.\<close>

definition record_verified :: "invariant_rules \<Rightarrow> ext \<Rightarrow> json \<Rightarrow> json \<Rightarrow> invariant_context \<Rightarrow> auth_error + unit" where
  "record_verified V E invariant v context =
     bindE (expected_fields V invariant context) (\<lambda>(status, expected, observed, refs).
     bindE (agrees v ''verification_stage'' (fst (verification_stage_and_method V invariant))) (\<lambda>_.
     bindE (agrees v ''method'' (snd (verification_stage_and_method V invariant))) (\<lambda>_.
     bindE (agrees v ''expected'' expected) (\<lambda>_.
     bindE (agrees v ''observed'' observed) (\<lambda>_.
     bindE (agrees v ''status'' status) (\<lambda>_.
     bindE (ensureE (status = JStr (u ''PASS'')) DifferenceError) (\<lambda>_.
     bindE (set_agrees E v (Inr refs)) (\<lambda>_.
     bindE (bindE (afield v ''remaining_differences'') (\<lambda>w. afield w ''members'')) (\<lambda>remaining.
     ensureE (falsy remaining) DifferenceError)))))))))"

definition resolve_invariant_evaluation ::
  "invariant_rules \<Rightarrow> ext \<Rightarrow> json \<Rightarrow> json list \<Rightarrow> json \<Rightarrow> json \<Rightarrow> invariant_context \<Rightarrow> auth_error + json" where
  "resolve_invariant_evaluation V E binding pool base_state_ref candidate context =
     bindE (bindE (afield binding ''invariant_evaluation_ref'') (\<lambda>r. aget r ''id'')) (\<lambda>identity.
     bindE (first_named ''evaluation_id'' identity pool) (\<lambda>found.
     bindE (orE found DifferenceError) (\<lambda>v.
     bindE (ensureE (ext_schema E invariant_evaluation_schema v) DifferenceError) (\<lambda>_.
     bindE (agrees v ''evaluation_id'' identity) (\<lambda>_.
     bindE (record_bound E binding v base_state_ref candidate) (\<lambda>_.
     bindE (bindE (afield binding ''invariant_ref'') (\<lambda>r. afield r ''id'')) (\<lambda>invariant.
     bindE (record_verified V E invariant v context) (\<lambda>_. Inr v))))))))"

end
