(* ===== verification/Gates.thy ===== *)
theory Gates
  imports InvariantEvaluation Sufficiency Claims GitWitness
begin

text \<open>
  The mandatory closure gates G1 to G22 (\<open>reflow/closure.py\<close>), each a step on the verdicts reached so
  far. The text of a failure is a function of the request and the gate (\<open>wording\<close>), since the code
  derives it from the request and a gate fails at most once; \<open>derive_differences\<close> and the verifier of
  invariants are functions the model is given. A body that is a \<open>dict\<close> with a key that is no string is
  read as no \<open>dict\<close>.
\<close>

section \<open>The environment and the errors\<close>

record closure_env =
  reobserve :: "json \<Rightarrow> owner_error + json"
  rederive :: "json \<Rightarrow> auth_error + json"
  timekeeper :: iso_reader
  invariants :: invariant_rules
  wording :: "json \<Rightarrow> string \<Rightarrow> ustr"

definition owners_of :: "closure_env \<Rightarrow> owners" where
  "owners_of V = \<lparr> observe = reobserve V, derive_differences = \<lambda>r. mapErr owner_of (rederive V r),
     clock = timekeeper V \<rparr>"

text \<open>An error that is neither of Reflow nor of a layer it names: \<open>Closure_escaped\<close>.\<close>

datatype closure_error = Closure_reflow reflow_error | Closure_escaped owner_error

abbreviation rd :: "auth_error + 'a \<Rightarrow> closure_error + 'a" where
  "rd \<equiv> mapErr (\<lambda>e. Closure_reflow (Reflow_raised e))"

abbreviation invalid :: closure_error where
  "invalid \<equiv> Closure_reflow ReflowValidationError"

text \<open>\<open>try\<close>: \<open>None\<close> when the expected class is caught.\<close>

fun attempt :: "auth_error + 'a \<Rightarrow> closure_error + 'a option" where
  "attempt (Inr x) = Inr (Some x)"
| "attempt (Inl DifferenceError) = Inr None"
| "attempt (Inl e) = Inl (Closure_reflow (Reflow_raised e))"

fun attempt_reflow :: "reflow_error + 'a \<Rightarrow> closure_error + 'a option" where
  "attempt_reflow (Inr x) = Inr (Some x)"
| "attempt_reflow (Inl ReflowValidationError) = Inr None"
| "attempt_reflow (Inl e) = Inl (Closure_reflow e)"

fun attempt_evidence :: "evidence_error + 'a \<Rightarrow> closure_error + 'a option" where
  "attempt_evidence (Inr x) = Inr (Some x)"
| "attempt_evidence (Inl (Evidence_raised e)) = Inl (Closure_escaped e)"
| "attempt_evidence (Inl e) = Inr None"

fun attempt_observation :: "obs_error + 'a \<Rightarrow> closure_error + 'a option" where
  "attempt_observation (Inr x) = Inr (Some x)"
| "attempt_observation (Inl ObservationError) = Inr None"
| "attempt_observation (Inl (Obs_raised e)) = Inl (Closure_reflow (Reflow_raised e))"

fun attempt_witness :: "witness_error + 'a \<Rightarrow> closure_error + 'a option" where
  "attempt_witness (Inr x) = Inr (Some x)"
| "attempt_witness (Inl Refused) = Inr None"
| "attempt_witness (Inl Undecodable) = Inl (Closure_escaped OwnerValueError)"

section \<open>Verdicts\<close>

datatype gate_value = PASS | FAIL | UNKNOWN | NOT_APPLICABLE

type_synonym gates = "(string \<times> gate_value) list"

definition gate_ids :: "string list" where
  "gate_ids = [''G1'', ''G2'', ''G3'', ''G4'', ''G5'', ''G6'', ''G7'', ''G8'', ''G9'', ''G10'', ''G11'', ''G12'',
     ''G13'', ''G14'', ''G15'', ''G16'', ''G17'', ''G18'', ''G19'', ''G20'', ''G21'', ''G22'']"

definition no_gates :: gates where
  "no_gates = map (\<lambda>g. (g, NOT_APPLICABLE)) gate_ids"

definition set_gate :: "string \<Rightarrow> gate_value \<Rightarrow> gates \<Rightarrow> gates" where
  "set_gate g v gs = AList.update g v gs"

fun set_all :: "string list \<Rightarrow> gate_value \<Rightarrow> gates \<Rightarrow> gates" where
  "set_all [] v gs = gs"
| "set_all (k # ks) v gs = set_all ks v (set_gate k v gs)"

definition pass_if :: "bool \<Rightarrow> gate_value" where
  "pass_if b = (if b then PASS else FAIL)"

fun gate_text :: "gate_value \<Rightarrow> string" where
  "gate_text PASS = ''PASS''"
| "gate_text FAIL = ''FAIL''"
| "gate_text UNKNOWN = ''UNKNOWN''"
| "gate_text NOT_APPLICABLE = ''NOT_APPLICABLE''"

fun closure_reference_id :: "json \<Rightarrow> ustr option" where
  "closure_reference_id v = (if is_obj v then (case jfield v ''id'' of Some (JStr s) \<Rightarrow> Some s | _ \<Rightarrow> None) else None)"

text \<open>A member of a set or a key of a \<open>dict\<close>.\<close>

fun as_key :: "json \<Rightarrow> auth_error + json" where
  "as_key (JList xs) = Inl AuthPy"
| "as_key (JObj kvs) = Inl AuthPy"
| "as_key (JObjBad kvs) = Inl AuthPy"
| "as_key v = Inr v"

section \<open>G1 to G6, G11, G20\<close>

definition evaluate_g1_g2 :: "ext \<Rightarrow> json \<Rightarrow> json \<Rightarrow> gates \<Rightarrow> closure_error + gates" where
  "evaluate_g1_g2 E difference held gs =
     bindE (rd (difference_id E difference)) (\<lambda>recomputed.
     bindE (rd (afield difference ''difference_id'')) (\<lambda>declared.
     Inr (set_gate ''G2'' (pass_if (held = JStr (u ''VERIFYING'')))
            (set_gate ''G1'' (pass_if (declared = JStr recomputed)) gs))))"

definition objective_schema :: ustr where
  "objective_schema = schema_base @ u ''objective/objective_revision.schema.json''"

text \<open>\<open>unique_target_predicates\<close>: one payload per identity.\<close>

definition admit_predicate :: "ext \<Rightarrow> (ustr \<times> bytes) list \<Rightarrow> json \<Rightarrow> auth_error + (ustr \<times> bytes) list" where
  "admit_predicate E seen predicate =
     bindE (bindE (aget predicate ''predicate_id'') require_scalar_tag) (\<lambda>identity.
     bindE (canonical_bytes E predicate) (\<lambda>encoded.
     bindE (ensureE (case map_of seen identity of None \<Rightarrow> True | Some other \<Rightarrow> other = encoded) DifferenceError) (\<lambda>_.
     Inr (AList.update identity encoded seen))))"

definition unique_target_predicates :: "ext \<Rightarrow> json \<Rightarrow> auth_error + unit" where
  "unique_target_predicates E objective =
     bindE (alist objective ''target_predicates'') (\<lambda>predicates.
     bindE (foldE (admit_predicate E) [] predicates) (\<lambda>_. Inr ()))"

definition validate_objective_revision :: "ext \<Rightarrow> json \<Rightarrow> auth_error + unit" where
  "validate_objective_revision E body =
     bindE (ensureE (ext_schema E objective_schema body) DifferenceError) (\<lambda>_.
     bindE (aget body ''schema_version'') (\<lambda>version.
     bindE (ensureE (version = JStr (u ''0.1'')) DifferenceError) (\<lambda>_.
     bindE (bindE (aget body ''objective_revision_id'') require_scalar_tag) (\<lambda>_.
     unique_target_predicates E body))))"

definition objective_body_bound :: "ext \<Rightarrow> json \<Rightarrow> json \<Rightarrow> closure_error + bool" where
  "objective_body_bound E difference body =
     (if \<not> is_obj body then Inr False else
      bindE (attempt (validate_objective_revision E body)) (\<lambda>valid.
      if valid = None then Inr False else
      bindE (rd (aget body ''objective_revision_id'')) (\<lambda>identity.
      bindE (rd (bindE (afield difference ''objective_revision_ref'') (\<lambda>r. afield r ''id''))) (\<lambda>bound.
      if \<not> py_eq identity bound then Inr False else
      bindE (rd (objective_semantic_fingerprint E body)) (\<lambda>fingerprint.
      bindE (rd (afield difference ''objective_semantic_fingerprint'')) (\<lambda>declared.
      Inr (declared = JStr fingerprint)))))))"

definition optional_field :: "json \<Rightarrow> string \<Rightarrow> json" where
  "optional_field v k = (case jfield v k of Some x \<Rightarrow> x | None \<Rightarrow> JNull)"

text \<open>The arguments that are a \<open>dict\<close> or \<open>None\<close> are \<open>JNull\<close> when they are no \<open>dict\<close>.\<close>

definition evaluate_g3_g4 ::
  "ext \<Rightarrow> json \<Rightarrow> json \<Rightarrow> json \<Rightarrow> json \<Rightarrow> json \<Rightarrow> json \<Rightarrow> bool \<Rightarrow> bool \<Rightarrow> gates \<Rightarrow> closure_error + gates" where
  "evaluate_g3_g4 E difference objective_revision_id reobservation body base_ref kernel_ref has_candidate verified gs =
     bindE (rd (bindE (afield difference ''objective_revision_ref'') (\<lambda>r. afield r ''id''))) (\<lambda>bound.
     bindE (if \<not> py_eq objective_revision_id bound then Inr False
            else if reobservation \<noteq> JNull
            then objective_body_bound E difference
                   (optional_field (optional_field reobservation ''derivation_request'') ''objective_revision'')
            else objective_body_bound E difference body) (\<lambda>g3.
     let same = py_eq (optional_field base_ref ''commit_sha'') (optional_field kernel_ref ''commit_sha'')
           \<and> py_eq (optional_field base_ref ''tree_sha'') (optional_field kernel_ref ''tree_sha'')
     in Inr (set_gate ''G4'' (pass_if (same \<and> (has_candidate \<longrightarrow> verified))) (set_gate ''G3'' (pass_if g3) gs))))"

fun valid_revision :: "json \<Rightarrow> int option" where
  "valid_revision (JInt i) = (if 0 \<le> i then Some i else None)"
| "valid_revision _ = None"

definition evaluate_g5_g20 :: "json \<Rightarrow> json \<Rightarrow> gates \<Rightarrow> closure_error + gates" where
  "evaluate_g5_g20 difference current_state gs =
     (case valid_revision (optional_field current_state ''revision'') of
        None \<Rightarrow> Inr (set_all [''G5'', ''G20''] FAIL gs)
      | Some revision \<Rightarrow>
          bindE (rd (bindE (afield difference ''observed_state_revision'') event_revision_of)) (\<lambda>baseline.
          Inr (set_all [''G5'', ''G20''] (pass_if (baseline \<le> revision)) gs)))"

definition evaluate_g6_g11 :: "json \<Rightarrow> json list \<Rightarrow> json list \<Rightarrow> json list \<Rightarrow> gates \<Rightarrow> gates" where
  "evaluate_g6_g11 mode changes change_results change_free gs =
     set_all [''G6'', ''G11''] (pass_if (
       if mode = JStr (u ''CHANGE_BOUND'') then changes \<noteq> [] \<and> change_results \<noteq> [] \<and> change_free = []
       else if mode = JStr (u ''CHANGE_FREE'') then changes = [] \<and> change_results = [] \<and> change_free \<noteq> []
       else False)) gs"

end
