(* ===== verification/Reproduction.thy ===== *)
theory Reproduction
  imports Gates
begin

text \<open>
  The gates one reproduction settles together: G7, G9, G10, G13 to G17, and G8
  (\<open>_evaluate_reproduction_gates\<close> of \<open>reflow/closure.py\<close>). The Difference is derived again from the
  observations after the Change, the Evidence of the Change from its own requests.
\<close>

definition reproduction_gates :: "string list" where
  "reproduction_gates = [''G7'', ''G9'', ''G10'', ''G13'', ''G14'', ''G15'', ''G16'', ''G17'']"

definition settled_as :: "gate_value \<Rightarrow> gates \<Rightarrow> gates" where
  "settled_as v gs = set_gate ''G8'' FAIL (set_all reproduction_gates v gs)"

section \<open>What the request carries\<close>

definition bundle_observations :: "json \<Rightarrow> json list" where
  "bundle_observations request =
     (case jfield request ''bindings'' of
        Some (JList (b # bs)) \<Rightarrow>
          (case jfield (optional_field b ''observation_bundle'') ''observations'' of Some (JList xs) \<Rightarrow> xs | _ \<Rightarrow> [])
      | _ \<Rightarrow> [])"

text \<open>An observation named by the identity its content has.\<close>

definition self_consistent :: "ext \<Rightarrow> json \<Rightarrow> auth_error + bool" where
  "self_consistent E v =
     (case jfield v ''observation_id'' of
        Some (JStr i) \<Rightarrow> if i = [] then Inr False else bindE (observation_identity E v) (\<lambda>j. Inr (i = j))
      | _ \<Rightarrow> Inr False)"

definition derive_after_observation_ids :: "ext \<Rightarrow> json \<Rightarrow> auth_error + ustr list" where
  "derive_after_observation_ids E request =
     bindE (filterE (self_consistent E) (bundle_observations request)) (\<lambda>os.
     mapE (\<lambda>v. astr v ''observation_id'') os)"

definition snapshot_ids :: "json \<Rightarrow> auth_error + ustr list" where
  "snapshot_ids v = bindE (iterated (optional_field v ''source_snapshot_refs''))
     (\<lambda>refs. Inr (List.map_filter closure_reference_id refs))"

definition derive_source_snapshot_ids :: "ext \<Rightarrow> json \<Rightarrow> auth_error + ustr list" where
  "derive_source_snapshot_ids E request =
     bindE (filterE (self_consistent E) (bundle_observations request)) (\<lambda>os.
     bindE (mapE snapshot_ids os) (\<lambda>ids. Inr (concat ids)))"

text \<open>The declared references name exactly the derived identities.\<close>

definition names_exactly :: "json list \<Rightarrow> ustr list \<Rightarrow> bool" where
  "names_exactly refs ids \<longleftrightarrow> set (map closure_reference_id refs) = Some ` set ids"

definition bound_to_predicate :: "json \<Rightarrow> json \<Rightarrow> auth_error + bool" where
  "bound_to_predicate request predicate =
     (case jfield request ''bindings'' of
        Some (JList bs) \<Rightarrow>
          bindE (mapE (\<lambda>b. bindE (aget b ''target_predicate_id'') as_key) bs) (\<lambda>ids.
          Inr (ids \<noteq> [] \<and> list_all (\<lambda>i. py_eq i predicate) ids))
      | _ \<Rightarrow> Inr False)"

fun snapshots_resolve :: "ext \<Rightarrow> json list \<Rightarrow> json list \<Rightarrow> closure_error + bool" where
  "snapshots_resolve E pool [] = Inr True"
| "snapshots_resolve E pool (r # refs) =
     bindE (attempt_observation (resolve_source_snapshot E r pool)) (\<lambda>found.
     if found = None then Inr False else snapshots_resolve E pool refs)"

definition predicate_satisfied :: "json \<Rightarrow> json \<Rightarrow> auth_error + bool" where
  "predicate_satisfied result predicate =
     bindE (if jfield result ''satisfied_target_predicates'' = None then Inr []
            else alist result ''satisfied_target_predicates'') (\<lambda>ids.
     Inr (list_ex (py_eq predicate) ids))"

section \<open>G8\<close>

text \<open>The Evidence the requests reproduce, when it is exactly the declared one.\<close>

definition reproduced_evidence ::
  "closure_env \<Rightarrow> ext \<Rightarrow> json list \<Rightarrow> closure_error + json list option" where
  "reproduced_evidence V E requests = attempt_evidence (mapE (derive_evidence (owners_of V) E) requests)"

definition evidence_named :: "json list \<Rightarrow> json list \<Rightarrow> auth_error + bool" where
  "evidence_named records refs =
     bindE (mapE (\<lambda>r. astr r ''evidence_id'') records) (\<lambda>ids. Inr (names_exactly refs ids))"

definition observed_sources :: "json \<Rightarrow> auth_error + json list" where
  "observed_sources record =
     bindE (bindE (afield record ''lineage'') (\<lambda>l. bindE (afield l ''derived_from'') (\<lambda>d. alist d ''members''))) (\<lambda>members.
     bindE (filterE (\<lambda>m. bindE (afield m ''kind'') (\<lambda>k. Inr (k = JStr (u ''observation'')))) members) (\<lambda>os.
     mapE (\<lambda>m. afield m ''id'') os))"

definition refs_overlap :: "json list \<Rightarrow> json list \<Rightarrow> bool" where
  "refs_overlap refs ids \<longleftrightarrow> list_ex (\<lambda>i. JStr i \<in> set ids) (List.map_filter closure_reference_id refs)"

type_synonym reproduced = "gates \<times> json list \<times> json list"

definition g8_change_bound ::
  "closure_env \<Rightarrow> ext \<Rightarrow> json list \<Rightarrow> json list \<Rightarrow> json list \<Rightarrow> gates \<Rightarrow> closure_error + reproduced" where
  "g8_change_bound V E after_refs refs requests gs =
     (if requests = [] then Inr (set_gate ''G8'' FAIL gs, [], []) else
      bindE (reproduced_evidence V E requests) (\<lambda>r.
      case r of
        None \<Rightarrow> Inr (set_gate ''G8'' FAIL gs, [], [])
      | Some records \<Rightarrow>
          bindE (rd (evidence_named records refs)) (\<lambda>exact.
          if \<not> exact then Inr (set_gate ''G8'' FAIL gs, [], []) else
          bindE (rd (mapE observed_sources records)) (\<lambda>sources.
          Inr (set_gate ''G8'' (pass_if (\<not> refs_overlap after_refs (concat sources))) gs, records, [])))))"

definition g8_change_free ::
  "closure_env \<Rightarrow> ext \<Rightarrow> json list \<Rightarrow> json list \<Rightarrow> json list \<Rightarrow> json list \<Rightarrow> gates \<Rightarrow> closure_error + reproduced" where
  "g8_change_free V E change_results change_requests refs requests gs =
     (if change_results \<noteq> [] \<or> change_requests \<noteq> [] \<or> requests = []
      then Inr (set_gate ''G8'' FAIL gs, [], []) else
      bindE (reproduced_evidence V E requests) (\<lambda>r.
      case r of
        None \<Rightarrow> Inr (set_gate ''G8'' FAIL gs, [], [])
      | Some records \<Rightarrow>
          bindE (rd (evidence_named records refs)) (\<lambda>exact.
          if \<not> exact then Inr (set_gate ''G8'' FAIL gs, [], records) else
          bindE (rd (anyE (map (\<lambda>v. anot v ''evidence_position'' (JStr (u ''CHANGE_FREE_VERIFICATION_EVIDENCE''))) records)))
            (\<lambda>foreign. Inr (set_gate ''G8'' (pass_if (\<not> foreign)) gs, [], records)))))"

section \<open>The reproduction\<close>

text \<open>The references and requests of a resolution.\<close>

record resolution =
  res_mode :: json
  res_change_refs :: "json list"
  res_change_evidence :: "json list"
  res_change_requests :: "json list"
  res_free_evidence :: "json list"
  res_free_requests :: "json list"
  res_snapshot_refs :: "json list"
  res_snapshots :: "json list"

definition g8 :: "closure_env \<Rightarrow> ext \<Rightarrow> resolution \<Rightarrow> json list \<Rightarrow> gates \<Rightarrow> closure_error + reproduced" where
  "g8 V E q after_refs gs =
     (if res_mode q = JStr (u ''CHANGE_BOUND'')
      then g8_change_bound V E after_refs (res_change_evidence q) (res_change_requests q) gs
      else if res_mode q = JStr (u ''CHANGE_FREE'')
      then g8_change_free V E (res_change_evidence q) (res_change_requests q) (res_free_evidence q) (res_free_requests q) gs
      else Inr (set_gate ''G8'' FAIL gs, [], []))"

definition reproduce ::
  "closure_env \<Rightarrow> ext \<Rightarrow> resolution \<Rightarrow> json \<Rightarrow> json \<Rightarrow> json list \<Rightarrow> gates \<Rightarrow> closure_error + reproduced" where
  "reproduce V E q request predicate after_refs gs =
     (let refused = Inr (settled_as FAIL gs, [], [])
      in bindE (rd (bound_to_predicate request predicate)) (\<lambda>bound.
         if \<not> bound then refused else
         bindE (rd (derive_after_observation_ids E request)) (\<lambda>observations.
         if \<not> names_exactly after_refs observations then refused else
         bindE (rd (derive_source_snapshot_ids E request)) (\<lambda>snapshots.
         if \<not> names_exactly (res_snapshot_refs q) snapshots then refused else
         bindE (snapshots_resolve E (res_snapshots q) (res_snapshot_refs q)) (\<lambda>resolved.
         if \<not> resolved then refused else
         bindE (attempt (rederive V request)) (\<lambda>derived.
         case derived of
           None \<Rightarrow> refused
         | Some result \<Rightarrow>
             bindE (rd (predicate_satisfied result predicate)) (\<lambda>satisfied.
             g8 V E q after_refs (set_all reproduction_gates (pass_if satisfied) gs))))))))"

definition evaluate_reproduction_gates ::
  "closure_env \<Rightarrow> ext \<Rightarrow> json \<Rightarrow> json \<Rightarrow> json \<Rightarrow> resolution \<Rightarrow> gates \<Rightarrow> closure_error + reproduced" where
  "evaluate_reproduction_gates V E difference policy reobservation q gs =
     bindE (rd (afield policy ''required_observation_scope'')) (\<lambda>scope.
     if scope \<noteq> JNull then Inr (settled_as FAIL gs, [], [])
     else if reobservation = JNull then Inr (settled_as UNKNOWN gs, [], [])
     else
       bindE (rd (bindE (aget reobservation ''derivation_request'') require_object)) (\<lambda>request.
       bindE (rd (bindE (aget reobservation ''after_observation_refs'') require_collection)) (\<lambda>after_refs.
       if after_refs = [] then Inr (settled_as FAIL gs, [], []) else
       bindE (rd (bindE (afield difference ''target_predicate_ref'') (\<lambda>r. afield r ''id''))) (\<lambda>predicate.
       reproduce V E q request predicate after_refs gs))))"

end
