(* ===== verification/Deadline.thy ===== *)
theory Deadline
  imports Clock
begin

text \<open>
  The instant an Evaluation expires at (\<open>_format_instant\<close> of \<open>reflow/closure.py\<close>): the UTC date of a
  number of microseconds since 1970, in the form of \<open>datetime.isoformat\<close> with \<open>Z\<close>. Outside the years
  \<open>datetime\<close> has, the addition before it raises \<open>OverflowError\<close>. The code adds in the zone the instant
  was written in, which for a stored timestamp is UTC.
\<close>

definition year_of :: "nat \<Rightarrow> nat option" where
  "year_of n = find (\<lambda>y. days_before_year y < n \<and> n \<le> days_before_year (Suc y)) [1..<10000]"

definition month_of :: "nat \<Rightarrow> nat \<Rightarrow> nat option" where
  "month_of y n = find (\<lambda>m. days_before_month y m < n \<and> n \<le> days_before_month y (Suc m)) [1..<13]"

definition date_of :: "nat \<Rightarrow> (nat \<times> nat \<times> nat) option" where
  "date_of n = (case year_of n of
     None \<Rightarrow> None
   | Some y \<Rightarrow>
       let r = n - days_before_year y
       in map_option (\<lambda>m. (y, m, r - days_before_month y m)) (month_of y r))"

fun decimal :: "nat \<Rightarrow> nat \<Rightarrow> ustr" where
  "decimal 0 n = []"
| "decimal (Suc w) n = decimal w (n div 10) @ [48 + n mod 10]"

definition clock_text :: "nat \<times> nat \<times> nat \<Rightarrow> nat \<Rightarrow> nat \<Rightarrow> ustr" where
  "clock_text d s us = (case d of (y, m, day) \<Rightarrow>
     decimal 4 y @ [45] @ decimal 2 m @ [45] @ decimal 2 day @ [84]
     @ decimal 2 (s div 3600) @ [58] @ decimal 2 (s div 60 mod 60) @ [58] @ decimal 2 (s mod 60)
     @ (if us = 0 then [] else [46] @ decimal 6 us) @ [90])"

definition format_instant :: "int \<Rightarrow> ustr option" where
  "format_instant t =
     (let days = t div 86400000000 + int (ordinal 1970 1 1); rest = nat (t mod 86400000000)
      in if days < 1 then None
         else map_option (\<lambda>d. clock_text d (rest div 1000000) (rest mod 1000000)) (date_of (nat days)))"

end
