(* ===== verification/Closure.thy ===== *)
theory Closure
  imports Reproduction Deadline
begin

text \<open>
  The evaluation of a closure (\<open>reflow/closure.py\<close>): the remaining gates G12, G18, G19, G21 and G22, the
  after-state candidate with the identities of \<open>reflow/identity.py\<close>, and \<open>evaluate_closure\<close>, which
  composes the gates and names the result. \<open>None\<close> is \<open>JNull\<close>.
\<close>

section \<open>Identities\<close>

definition candidate_domain :: bytes where
  "candidate_domain = ascii ''MANOSUBE:AFTER_STATE_CANDIDATE:0.1:''"

definition candidate_payload_fields :: "string list" where
  "candidate_payload_fields = [''base_state_ref'', ''kernel_source_ref'', ''producing_change_refs'',
     ''semantic_fingerprint'', ''semantic_state'', ''source_snapshot_refs'']"

definition after_state_candidate_id :: "ext \<Rightarrow> json \<Rightarrow> auth_error + ustr" where
  "after_state_candidate_id E candidate =
     bindE (project_fields candidate_payload_fields candidate) (domain_address E ''STATE-CANDIDATE-'' candidate_domain)"

definition closure_evaluation_id :: "ext \<Rightarrow> json \<Rightarrow> auth_error + ustr" where
  "closure_evaluation_id E evaluation =
     content_address E ''D-CLOSE-EVAL-'' (without ''reflow_transition_ref'' evaluation) ''closure_evaluation_id''"

definition closure_evaluation_decision_fingerprint :: "ext \<Rightarrow> json \<Rightarrow> auth_error + ustr" where
  "closure_evaluation_decision_fingerprint E evaluation =
     sha256_fingerprint E [] (without ''reflow_transition_ref'' evaluation)"

definition material_contradiction_id :: "ext \<Rightarrow> json \<Rightarrow> auth_error + ustr" where
  "material_contradiction_id E contradiction = content_address E ''CONTRA-'' contradiction ''material_contradiction_id''"

definition kernel_source_witness_id :: "ext \<Rightarrow> json \<Rightarrow> auth_error + ustr" where
  "kernel_source_witness_id E v = content_address E ''KERNEL-WITNESS-'' v ''kernel_source_witness_id''"

definition transaction_id :: "ext \<Rightarrow> json \<Rightarrow> json \<Rightarrow> json \<Rightarrow> json \<Rightarrow> json \<Rightarrow> json \<Rightarrow> auth_error + ustr" where
  "transaction_id E project difference decided sufficiency expected_revision reflow_instant =
     upper_id E ''TX-'' [] (obj [(''project_id'', project), (''difference_id'', difference),
       (''closure_decision_fingerprint'', decided), (''evidence_sufficiency_id'', sufficiency),
       (''expected_revision'', expected_revision), (''reflow_instant'', reflow_instant)])"

definition candidate_invariant_evaluation_binding_id :: "ext \<Rightarrow> json \<Rightarrow> auth_error + ustr" where
  "candidate_invariant_evaluation_binding_id E binding =
     domain_address E ''CAND-INV-EVAL-'' [] (without ''binding_id'' binding)"

section \<open>The pinned Kernel source\<close>

definition kernel_invariants_path :: string where
  "kernel_invariants_path = ''00_KERNEL/KERNEL_INVARIANTS.md''"

definition kernel_invariants_blob_sha :: string where
  "kernel_invariants_blob_sha = ''f4fa6336dc3b655297292b707493f3ab92423d53''"

definition kernel_source_verified :: "json \<Rightarrow> ustr \<Rightarrow> ustr \<Rightarrow> closure_error + bool" where
  "kernel_source_verified witness commit_sha tree_sha =
     bindE (attempt_witness (verify_kernel_source_witness witness commit_sha tree_sha
       (u kernel_invariants_blob_sha) (u kernel_invariants_path))) (\<lambda>r. Inr (r \<noteq> None))"

definition build_kernel_source_witness_record ::
  "ext \<Rightarrow> ustr \<Rightarrow> ustr \<Rightarrow> ustr \<Rightarrow> ustr \<Rightarrow> json \<Rightarrow> auth_error + json" where
  "build_kernel_source_witness_record E commit_sha tree_sha blob_sha path witness =
     bindE (afield witness ''commit_object'') (\<lambda>commit_object.
     bindE (afield witness ''tree_objects'') (\<lambda>tree_objects.
     bindE (afield witness ''blob_object'') (\<lambda>blob_object.
     let v = obj [(''schema_version'', JStr (u ''0.1'')), (''kernel_source_witness_id'', JStr []),
           (''commit_sha'', JStr commit_sha), (''tree_sha'', JStr tree_sha), (''blob_sha'', JStr blob_sha),
           (''path'', JStr path), (''commit_object'', commit_object), (''tree_objects'', tree_objects),
           (''blob_object'', blob_object)]
     in bindE (kernel_source_witness_id E v) (\<lambda>identity.
        Inr (aset ''kernel_source_witness_id'' (JStr identity) v)))))"

text \<open>The two hashes a Kernel source reference names, when both are strings.\<close>

definition source_shas :: "json \<Rightarrow> (ustr \<times> ustr) option" where
  "source_shas kernel_ref = (case (jfield kernel_ref ''commit_sha'', jfield kernel_ref ''tree_sha'') of
     (Some (JStr c), Some (JStr t)) \<Rightarrow> Some (c, t) | _ \<Rightarrow> None)"

definition kernel_witness_ref :: "ext \<Rightarrow> json \<Rightarrow> json \<Rightarrow> closure_error + json" where
  "kernel_witness_ref E kernel_ref witness =
     (if kernel_ref = JNull \<or> witness = JNull then Inr JNull
      else case source_shas kernel_ref of
        None \<Rightarrow> Inr JNull
      | Some (c, t) \<Rightarrow>
          bindE (kernel_source_verified witness c t) (\<lambda>verified.
          if \<not> verified then Inr JNull else
          bindE (rd (build_kernel_source_witness_record E c t (u kernel_invariants_blob_sha)
            (u kernel_invariants_path) witness)) (\<lambda>v.
          bindE (rd (afield v ''kernel_source_witness_id'')) (\<lambda>identity.
          Inr (typed_ref ''kernel_source_witness'' identity)))))"

section \<open>G12 and G18\<close>

text \<open>An error of the Evidence layer outside a \<open>try\<close>: \<open>EvidenceError\<close> is a \<open>ValueError\<close>.\<close>

fun escaping :: "evidence_error \<Rightarrow> closure_error" where
  "escaping (Evidence_raised e) = Closure_escaped e"
| "escaping e = Closure_escaped OwnerValueError"

definition earliest :: "int list \<Rightarrow> int option" where
  "earliest ts = (case ts of [] \<Rightarrow> None | t # rest \<Rightarrow> Some (foldl min t rest))"

definition oldest_recorded :: "closure_env \<Rightarrow> sufficiency \<Rightarrow> closure_error + int option" where
  "oldest_recorded V s =
     bindE (mapErr escaping (mapE (instant_of (owners_of V)) (recorded_instants s))) (\<lambda>ts. Inr (earliest ts))"

definition evaluate_g12_g18 ::
  "closure_env \<Rightarrow> ext \<Rightarrow> json \<Rightarrow> json \<Rightarrow> json \<Rightarrow> gates \<Rightarrow> closure_error + gates \<times> json \<times> int option" where
  "evaluate_g12_g18 V E difference policy request gs =
     (let refused = Inr (set_all [''G12'', ''G18''] FAIL gs, JNull, None)
      in if request = JNull then refused else
         bindE (attempt_evidence (evaluate_sufficiency (owners_of V) E request)) (\<lambda>r.
         case r of None \<Rightarrow> refused | Some s \<Rightarrow>
           let v = result_record s
           in bindE (rd (bindE (afield v ''difference_ref'') (\<lambda>d. afield d ''id''))) (\<lambda>named.
              bindE (rd (afield difference ''difference_id'')) (\<lambda>own.
              if \<not> py_eq named own then refused else
              bindE (rd (bindE (afield v ''policy_ref'') (\<lambda>p. afield p ''semantic_fingerprint''))) (\<lambda>bound.
              bindE (rd (policy_semantic_fingerprint E policy)) (\<lambda>fingerprint.
              if bound \<noteq> JStr fingerprint then refused else
              bindE (rd (afield v ''result'')) (\<lambda>result.
              bindE (oldest_recorded V s) (\<lambda>oldest.
              Inr (set_gate ''G18'' (pass_if (result \<noteq> JStr (u ''STALE'')))
                     (set_gate ''G12'' (pass_if (result = JStr (u ''SUFFICIENT''))) gs), v, oldest)))))))))"

section \<open>G19\<close>

type_synonym invariant_entries = "(json \<times> json \<times> json) list"

text \<open>\<open>expected_g19_invariant_entries\<close>.\<close>

definition mandatory_entries :: invariant_entries where
  "mandatory_entries = List.map_filter (\<lambda>i. map_option
     (\<lambda>d. (JStr (u i), JStr (u ''kernel_invariant''), JStr (u ''sha256:'' @ u d)))
     (map_of invariant_definition_digests i)) expected_g19_invariant_ids"

text \<open>\<open>None\<close>: two definitions of one invariant.\<close>

fun policy_entries :: "invariant_entries \<Rightarrow> json list \<Rightarrow> auth_error + invariant_entries option" where
  "policy_entries seen [] = Inr (Some seen)"
| "policy_entries seen (item # items) =
     bindE (bindE (afield item ''id'') as_key) (\<lambda>invariant.
     bindE (bindE (afield item ''contract_source_ref'') (\<lambda>r. afield r ''invariant_definition_sha256'')) (\<lambda>digest.
     if (case map_of seen invariant of None \<Rightarrow> False | Some (k, other) \<Rightarrow> \<not> py_eq other digest) then Inr None else
     bindE (afield item ''kind'') (\<lambda>kind.
     policy_entries (AList.update invariant (kind, digest) seen) items)))"

definition expected_entries :: "invariant_entries \<Rightarrow> invariant_entries option" where
  "expected_entries declared =
     (if list_ex (\<lambda>(i, k, d). case map_of declared i of None \<Rightarrow> False | Some (k', d') \<Rightarrow> \<not> py_eq d' d) mandatory_entries
      then None
      else Some (mandatory_entries @ filter (\<lambda>e. fst e \<notin> fst ` set mandatory_entries) declared))"

definition invariants_grounded :: "json \<Rightarrow> json \<Rightarrow> json \<Rightarrow> closure_error + bool" where
  "invariants_grounded kernel_ref witness candidate =
     (if kernel_ref = JNull \<or> witness = JNull then Inr False
      else case source_shas kernel_ref of
        None \<Rightarrow> Inr False
      | Some (c, t) \<Rightarrow> bindE (kernel_source_verified witness c t) (\<lambda>verified. Inr (verified \<and> candidate \<noteq> JNull)))"

text \<open>The candidate a binding names.\<close>

definition names_candidate :: "json \<Rightarrow> json \<Rightarrow> auth_error + bool" where
  "names_candidate binding candidate =
     bindE (aget binding ''candidate_id'') (\<lambda>i.
     bindE (afield candidate ''candidate_id'') (\<lambda>ci.
     bindE (aget binding ''candidate_semantic_fingerprint'') (\<lambda>f.
     bindE (afield candidate ''semantic_fingerprint'') (\<lambda>cf. Inr (py_eq i ci \<and> py_eq f cf)))))"

definition admit_binding ::
  "closure_env \<Rightarrow> ext \<Rightarrow> json list \<Rightarrow> json \<Rightarrow> invariant_context \<Rightarrow> invariant_entries \<Rightarrow> json
    \<Rightarrow> closure_error + invariant_entries option" where
  "admit_binding V E evaluations candidate context got binding =
     bindE (rd (aget binding ''binding_id'')) (\<lambda>declared.
     bindE (rd (candidate_invariant_evaluation_binding_id E binding)) (\<lambda>identity.
     if declared \<noteq> JStr identity then Inr None else
     bindE (rd (aget binding ''evaluation_result'')) (\<lambda>result.
     if result \<noteq> JStr (u ''PASS'') \<or> candidate = JNull then Inr None else
     bindE (rd (names_candidate binding candidate)) (\<lambda>same.
     if \<not> same then Inr None else
     bindE (rd (bindE (bindE (afield binding ''invariant_ref'') (\<lambda>r. afield r ''id'')) as_key)) (\<lambda>invariant.
     if map_of got invariant \<noteq> None then Inr None else
     bindE (rd (afield binding ''base_state_ref'')) (\<lambda>base.
     bindE (attempt (resolve_invariant_evaluation (invariants V) E binding evaluations base candidate context)) (\<lambda>r.
     if r = None then Inr None else
     bindE (rd (bindE (afield binding ''invariant_ref'') (\<lambda>r. afield r ''kind''))) (\<lambda>kind.
     bindE (rd (bindE (afield binding ''invariant_definition_ref'') (\<lambda>r. afield r ''invariant_definition_sha256''))) (\<lambda>digest.
     Inr (Some (AList.update invariant (kind, digest) got)))))))))))"

fun admit_bindings ::
  "closure_env \<Rightarrow> ext \<Rightarrow> json list \<Rightarrow> json \<Rightarrow> invariant_context \<Rightarrow> invariant_entries \<Rightarrow> json list
    \<Rightarrow> closure_error + invariant_entries option" where
  "admit_bindings V E evaluations candidate context got [] = Inr (Some got)"
| "admit_bindings V E evaluations candidate context got (b # bs) =
     bindE (admit_binding V E evaluations candidate context got b) (\<lambda>r.
     case r of None \<Rightarrow> Inr None | Some got' \<Rightarrow> admit_bindings V E evaluations candidate context got' bs)"

definition invariants_hold ::
  "closure_env \<Rightarrow> ext \<Rightarrow> json \<Rightarrow> json list \<Rightarrow> json \<Rightarrow> json \<Rightarrow> json list \<Rightarrow> json \<Rightarrow> invariant_context \<Rightarrow> closure_error + bool" where
  "invariants_hold V E policy bindings kernel_ref witness evaluations candidate context =
     bindE (rd (bindE (alist policy ''required_invariants'') (policy_entries []))) (\<lambda>declared.
     case (case declared of None \<Rightarrow> None | Some d \<Rightarrow> expected_entries d) of
       None \<Rightarrow> Inr False
     | Some expected \<Rightarrow>
         bindE (if bindings = [] then Inr True else invariants_grounded kernel_ref witness candidate) (\<lambda>grounded.
         if \<not> grounded then Inr False else
         bindE (admit_bindings V E evaluations candidate context [] bindings) (\<lambda>got.
         Inr (case got of None \<Rightarrow> False | Some g \<Rightarrow> set g = set expected))))"

end
