(* ===== verification/ClosureEvaluation.thy ===== *)
theory ClosureEvaluation
  imports Closure
begin

text \<open>
  G21, G22, the after-state candidate and \<open>evaluate_closure\<close> (\<open>reflow/closure.py\<close>).
\<close>

section \<open>G21\<close>

definition or_empty :: "json \<Rightarrow> json" where
  "or_empty v = (if falsy v then JObj [] else v)"

text \<open>The claim of a binding and whether its latest event is SATISFIED; \<open>None\<close> when the gate fails.\<close>

definition settle_claim ::
  "ext \<Rightarrow> json \<Rightarrow> json \<Rightarrow> json \<Rightarrow> json list \<Rightarrow> json list \<Rightarrow> json list \<Rightarrow> json \<Rightarrow> json \<Rightarrow> json \<Rightarrow> json
    \<Rightarrow> closure_error + (json \<times> bool) option" where
  "settle_claim E policy identity observed_state events invariant_refs contradiction_refs revision fingerprint candidate binding =
     bindE (rd (bindE (bindE (afield binding ''required_claim_ref'') (\<lambda>r. afield r ''id'')) as_key)) (\<lambda>claim.
     bindE (rd (aget binding ''base_state_ref'')) (\<lambda>base.
     bindE (rd (aget (or_empty base) ''revision'')) (\<lambda>base_revision.
     bindE (rd (aget (or_empty base) ''fingerprint'')) (\<lambda>base_fingerprint.
     if \<not> (py_eq base_revision revision \<and> py_eq base_fingerprint fingerprint) then Inr None else
     bindE (attempt_reflow (resolve_claim_binding E events binding identity candidate)) (\<lambda>r.
     case r of None \<Rightarrow> Inr None | Some chain \<Rightarrow>
       bindE (attempt (resolve_completion_record E binding policy observed_state revision fingerprint
         invariant_refs contradiction_refs)) (\<lambda>completion.
       if completion = None then Inr None else
       bindE (rd (afield (hd chain) ''evaluation_status'')) (\<lambda>status.
       Inr (Some (claim, status = JStr (u ''SATISFIED''))))))))))"

fun settle_claims :: "(json \<Rightarrow> closure_error + (json \<times> bool) option) \<Rightarrow> json list \<Rightarrow> closure_error + (json \<times> bool) list option" where
  "settle_claims f [] = Inr (Some [])"
| "settle_claims f (b # bs) =
     bindE (f b) (\<lambda>r.
     case r of None \<Rightarrow> Inr None | Some s \<Rightarrow>
       bindE (settle_claims f bs) (\<lambda>rest. Inr (map_option (\<lambda>ss. s # ss) rest)))"

definition claims_hold ::
  "ext \<Rightarrow> json \<Rightarrow> json \<Rightarrow> json \<Rightarrow> json list \<Rightarrow> json list \<Rightarrow> json list \<Rightarrow> json list \<Rightarrow> json \<Rightarrow> closure_error + bool" where
  "claims_hold E policy identity current_state bindings events invariant_refs contradiction_refs candidate =
     bindE (rd (mandatory_x003_claim_id E)) (\<lambda>mandatory.
     bindE (rd (bindE (alist policy ''required_claims'') (mapE (\<lambda>c. bindE (afield c ''id'') as_key)))) (\<lambda>required.
     bindE (rd (afield current_state ''revision'')) (\<lambda>revision.
     bindE (rd (afield current_state ''fingerprint'')) (\<lambda>fingerprint.
     if bindings \<noteq> [] \<and> candidate = JNull then Inr False else
     bindE (settle_claims (settle_claim E policy identity
         (obj [(''kind'', JStr (u ''state'')), (''revision'', revision), (''fingerprint'', fingerprint)])
         events invariant_refs contradiction_refs revision fingerprint candidate) bindings) (\<lambda>settled.
     Inr (case settled of None \<Rightarrow> False | Some cs \<Rightarrow>
       fst ` set cs = set (JStr mandatory # required)
       \<and> fst ` set (filter snd cs) = set (JStr mandatory # required)))))))"

section \<open>G22\<close>

definition terminal_status_allowed :: "json \<Rightarrow> json \<Rightarrow> auth_error + bool" where
  "terminal_status_allowed policy proposed =
     bindE (as_key proposed) (\<lambda>_.
     if \<not> one_of [''CLOSED'', ''BLOCKED'', ''RETAINED''] proposed then Inr False
     else bindE (alist policy ''allowed_terminal_states'') (\<lambda>allowed. Inr (proposed \<in> set allowed)))"

section \<open>The request\<close>

definition closure_request_keys :: "string list" where
  "closure_request_keys = [''difference'', ''current_status'', ''policy'', ''difference_event_head_ref'',
     ''current_state'', ''objective_revision_id'', ''objective_revision'', ''kernel_source_ref'',
     ''base_kernel_source_ref'', ''resolution_mode'', ''change_refs'', ''change_result_evidence_refs'',
     ''change_result_evidence_requests'', ''change_free_verification_evidence_refs'',
     ''change_free_verification_evidence_requests'', ''reobservation'', ''evidence_sufficiency_request'',
     ''after_state_semantic_state'', ''source_snapshot_refs'', ''source_snapshots'', ''producing_change_refs'',
     ''candidate_invariant_evaluation_bindings'', ''candidate_claim_evaluation_bindings'',
     ''candidate_claim_evaluation_events'', ''invariant_evaluations'', ''kernel_source_witness'',
     ''material_contradictions'', ''terminal_reason_evidence_refs'', ''terminal_reason_evidence_requests'',
     ''proposed_terminal_status'', ''evaluated_at'']"

definition require_closure_request :: "json \<Rightarrow> closure_error + json" where
  "require_closure_request request =
     bindE (rd (require_object request)) (\<lambda>shaped.
     bindE (ensureE (exact_keys closure_request_keys shaped) invalid) (\<lambda>_. Inr shaped))"

definition dict_or_none :: "json \<Rightarrow> json" where
  "dict_or_none v = (if is_obj v then v else JNull)"

abbreviation optional_dict :: "json \<Rightarrow> string \<Rightarrow> json" where
  "optional_dict shaped k \<equiv> dict_or_none (optional_field shaped k)"

definition items :: "json \<Rightarrow> string \<Rightarrow> closure_error + json list" where
  "items shaped k = rd (require_collection (optional_field shaped k))"

definition dict_at :: "json \<Rightarrow> string \<Rightarrow> closure_error + json" where
  "dict_at shaped k = rd (require_object (optional_field shaped k))"

section \<open>The candidate\<close>

definition build_after_state_candidate ::
  "ext \<Rightarrow> json \<Rightarrow> json \<Rightarrow> json \<Rightarrow> json \<Rightarrow> json list \<Rightarrow> json list \<Rightarrow> auth_error + json" where
  "build_after_state_candidate E current_state kernel_ref semantic_state fingerprint snapshot_refs producing =
     bindE (afield current_state ''revision'') (\<lambda>revision.
     bindE (afield current_state ''fingerprint'') (\<lambda>state_fingerprint.
     bindE (unordered_set E snapshot_refs) (\<lambda>snapshots.
     bindE (unordered_set E producing) (\<lambda>changes.
     let candidate = obj [(''kind'', JStr (u ''after_state_candidate'')), (''candidate_id'', JStr []),
           (''kernel_source_ref'', kernel_ref),
           (''base_state_ref'', obj [(''kind'', JStr (u ''state'')), (''revision'', revision),
              (''fingerprint'', state_fingerprint)]),
           (''semantic_state'', semantic_state), (''semantic_fingerprint'', fingerprint),
           (''source_snapshot_refs'', snapshots), (''producing_change_refs'', changes)]
     in bindE (after_state_candidate_id E candidate) (\<lambda>identity.
        Inr (aset ''candidate_id'' (JStr identity) candidate))))))"

definition candidate_of :: "ext \<Rightarrow> json \<Rightarrow> json \<Rightarrow> closure_error + json" where
  "candidate_of E shaped current_state =
     (if optional_field shaped ''after_state_semantic_state'' = JNull then Inr JNull else
      bindE (dict_at shaped ''after_state_semantic_state'') (\<lambda>semantic_state.
      bindE (rd (mapErr AuthCanon (fingerprint_semantic_state E semantic_state))) (\<lambda>fingerprint.
      bindE (dict_at shaped ''kernel_source_ref'') (\<lambda>kernel_ref.
      bindE (items shaped ''source_snapshot_refs'') (\<lambda>snapshot_refs.
      bindE (items shaped ''producing_change_refs'') (\<lambda>producing.
      rd (build_after_state_candidate E current_state kernel_ref semantic_state (fingerprint_dict fingerprint)
        snapshot_refs producing)))))))"

section \<open>The subject of the request\<close>

definition closure_subject :: "closure_env \<Rightarrow> json \<Rightarrow> closure_error + json \<times> json \<times> json" where
  "closure_subject V shaped =
     bindE (dict_at shaped ''difference'') (\<lambda>difference.
     bindE (dict_at shaped ''policy'') (\<lambda>policy.
     bindE (rd (bindE (afield policy ''subject_difference_ref'') (\<lambda>r. afield r ''id''))) (\<lambda>governed.
     bindE (rd (afield difference ''difference_id'')) (\<lambda>identity.
     bindE (ensureE (py_eq governed identity) invalid) (\<lambda>_.
     bindE (case optional_field shaped ''evaluated_at'' of
              JStr s \<Rightarrow> (if s = [] then Inl invalid else Inr s) | _ \<Rightarrow> Inl invalid) (\<lambda>at.
     bindE (orE (boundary_instant (timekeeper V) at) (Closure_escaped OwnerValueError)) (\<lambda>_.
     bindE (dict_at shaped ''current_state'') (\<lambda>current_state.
     Inr (difference, policy, current_state)))))))))"

definition resolution_of :: "json \<Rightarrow> closure_error + resolution" where
  "resolution_of shaped =
     bindE (items shaped ''change_refs'') (\<lambda>changes.
     bindE (items shaped ''change_result_evidence_refs'') (\<lambda>results.
     bindE (items shaped ''change_free_verification_evidence_refs'') (\<lambda>free.
     bindE (items shaped ''change_result_evidence_requests'') (\<lambda>result_requests.
     bindE (items shaped ''change_free_verification_evidence_requests'') (\<lambda>free_requests.
     bindE (items shaped ''source_snapshot_refs'') (\<lambda>snapshot_refs.
     bindE (items shaped ''source_snapshots'') (\<lambda>snapshots.
     Inr \<lparr> res_mode = optional_field shaped ''resolution_mode'', res_change_refs = changes,
       res_change_evidence = results, res_change_requests = result_requests, res_free_evidence = free,
       res_free_requests = free_requests, res_snapshot_refs = snapshot_refs, res_snapshots = snapshots \<rparr>)))))))"

section \<open>The gates together\<close>

record findings =
  found_gates :: gates
  found_sufficiency :: json
  found_oldest :: "int option"
  found_contradictions :: "json list"
  found_blocking :: "json list"
  found_invariant_bindings :: "json list"
  found_claim_bindings :: "json list"

definition first_gates ::
  "ext \<Rightarrow> json \<Rightarrow> json \<Rightarrow> json \<Rightarrow> json \<Rightarrow> bool \<Rightarrow> closure_error + gates" where
  "first_gates E shaped difference current_state witness_ref has_candidate =
     bindE (evaluate_g1_g2 E difference (optional_field shaped ''current_status'') no_gates) (\<lambda>g1.
     bindE (case optional_field shaped ''objective_revision_id'' of
              JStr s \<Rightarrow> (if s = [] then Inl invalid else Inr (JStr s)) | _ \<Rightarrow> Inl invalid) (\<lambda>objective.
     bindE (dict_at shaped ''base_kernel_source_ref'') (\<lambda>base_ref.
     bindE (dict_at shaped ''kernel_source_ref'') (\<lambda>kernel_ref.
     bindE (evaluate_g3_g4 E difference objective (optional_dict shaped ''reobservation'')
       (optional_dict shaped ''objective_revision'') base_ref kernel_ref has_candidate (witness_ref \<noteq> JNull) g1) (\<lambda>g2.
     evaluate_g5_g20 difference current_state g2)))))"

definition contradiction_ref :: "json \<Rightarrow> auth_error + json" where
  "contradiction_ref item =
     bindE (afield item ''material_contradiction_id'') (\<lambda>i. Inr (typed_ref ''material_contradiction'' i))"

definition is_material :: "json \<Rightarrow> auth_error + bool" where
  "is_material item = bindE (aget item ''impact'') (\<lambda>i. Inr (i = JStr (u ''MATERIAL'')))"

definition after_ids :: "json \<Rightarrow> auth_error + ustr list" where
  "after_ids reobservation =
     (if reobservation = JNull then Inr []
      else bindE (iterated (optional_field reobservation ''after_observation_refs''))
        (\<lambda>refs. Inr (List.map_filter closure_reference_id refs)))"

definition verification_context ::
  "ext \<Rightarrow> json \<Rightarrow> json \<Rightarrow> json \<Rightarrow> json \<Rightarrow> json \<Rightarrow> resolution \<Rightarrow> json list \<Rightarrow> json list \<Rightarrow> json
    \<Rightarrow> json list \<Rightarrow> json list \<Rightarrow> auth_error + invariant_context" where
  "verification_context E shaped difference policy current_state candidate q change_results change_free sufficiency
       contradictions blocking =
     bindE (after_ids (optional_dict shaped ''reobservation'')) (\<lambda>ids.
     bindE (resolved_snapshots E (res_snapshots q) (res_snapshot_refs q)) (\<lambda>snapshots.
     Inr \<lparr> ctx_policy = policy, ctx_difference = difference, ctx_current_state = current_state,
       ctx_candidate = candidate, ctx_resolution_mode = res_mode q, ctx_change_result_evidence = change_results,
       ctx_change_free_evidence = change_free, ctx_after_observation_ids = set ids,
       ctx_source_snapshots = snapshots, ctx_sufficiency = sufficiency,
       ctx_material_contradictions = contradictions, ctx_blocking_contradictions = blocking,
       ctx_proposed_terminal_status = optional_field shaped ''proposed_terminal_status'',
       ctx_evaluated_at = optional_field shaped ''evaluated_at'',
       ctx_request_contract_keys = closure_request_keys \<rparr>))"

definition last_gates ::
  "closure_env \<Rightarrow> ext \<Rightarrow> json \<Rightarrow> json \<Rightarrow> json \<Rightarrow> json \<Rightarrow> json \<Rightarrow> resolution \<Rightarrow> reproduced \<Rightarrow> closure_error + findings" where
  "last_gates V E shaped difference policy current_state candidate q r = (case r of (g3, change_results, change_free) \<Rightarrow>
     bindE (evaluate_g12_g18 V E difference policy (optional_dict shaped ''evidence_sufficiency_request'') g3)
       (\<lambda>(g4, sufficiency, oldest).
     bindE (items shaped ''material_contradictions'') (\<lambda>contradictions.
     bindE (rd (mapE contradiction_ref contradictions)) (\<lambda>contradiction_refs.
     bindE (rd (filterE is_material contradictions)) (\<lambda>blocking.
     bindE (items shaped ''candidate_invariant_evaluation_bindings'') (\<lambda>invariant_bindings.
     bindE (items shaped ''invariant_evaluations'') (\<lambda>evaluations.
     bindE (rd (verification_context E shaped difference policy current_state candidate q change_results change_free
       sufficiency contradictions blocking)) (\<lambda>context.
     bindE (invariants_hold V E policy invariant_bindings (optional_dict shaped ''kernel_source_ref'')
       (optional_dict shaped ''kernel_source_witness'') evaluations candidate context) (\<lambda>g19.
     bindE (items shaped ''candidate_claim_evaluation_bindings'') (\<lambda>claim_bindings.
     bindE (items shaped ''candidate_claim_evaluation_events'') (\<lambda>events.
     bindE (rd (mapE (\<lambda>b. afield b ''invariant_evaluation_ref'') invariant_bindings)) (\<lambda>invariant_refs.
     bindE (rd (afield difference ''difference_id'')) (\<lambda>identity.
     bindE (claims_hold E policy identity current_state claim_bindings events invariant_refs contradiction_refs
       candidate) (\<lambda>g21.
     bindE (rd (terminal_status_allowed policy (optional_field shaped ''proposed_terminal_status''))) (\<lambda>g22.
     Inr \<lparr> found_gates = set_gate ''G22'' (pass_if g22) (set_gate ''G21'' (pass_if g21)
           (set_gate ''G19'' (pass_if g19) g4)),
       found_sufficiency = sufficiency, found_oldest = oldest, found_contradictions = contradiction_refs,
       found_blocking = blocking, found_invariant_bindings = invariant_bindings,
       found_claim_bindings = claim_bindings \<rparr>)))))))))))))))"

definition evaluate_gates ::
  "closure_env \<Rightarrow> ext \<Rightarrow> json \<Rightarrow> json \<Rightarrow> json \<Rightarrow> json \<Rightarrow> json \<Rightarrow> json \<Rightarrow> closure_error + resolution \<times> findings" where
  "evaluate_gates V E shaped difference policy current_state candidate witness_ref =
     bindE (first_gates E shaped difference current_state witness_ref (candidate \<noteq> JNull)) (\<lambda>g1.
     bindE (resolution_of shaped) (\<lambda>q.
     let g2 = evaluate_g6_g11 (res_mode q) (res_change_refs q) (res_change_evidence q) (res_free_evidence q) g1
     in bindE (evaluate_reproduction_gates V E difference policy (optional_dict shaped ''reobservation'') q g2) (\<lambda>r.
        bindE (last_gates V E shaped difference policy current_state candidate q r) (\<lambda>f. Inr (q, f)))))"

section \<open>The result\<close>

definition all_pass :: "gates \<Rightarrow> bool" where
  "all_pass gs \<longleftrightarrow> list_all (\<lambda>(g, v). v = PASS \<or> v = NOT_APPLICABLE) gs"

text \<open>\<open>(result, evaluation_mode)\<close>.\<close>

definition closure_result :: "bool \<Rightarrow> bool \<Rightarrow> bool \<Rightarrow> bool \<Rightarrow> gates \<Rightarrow> string \<times> string" where
  "closure_result has_candidate contradicted outdated missing gs =
     (if \<not> has_candidate then (''BLOCKED'', ''TERMINAL_POLICY_ONLY'')
      else if contradicted then (''CONTRADICTED'', ''CANDIDATE_TERMINAL'')
      else if outdated then (''STALE'', ''CANDIDATE_TERMINAL'')
      else if missing then (''BLOCKED'', ''CANDIDATE_TERMINAL'')
      else if all_pass gs then (''SATISFIED'', ''CANDIDATE_CLOSURE'')
      else (''NOT_SATISFIED'', ''CANDIDATE_TERMINAL''))"

definition result_of :: "json \<Rightarrow> bool \<Rightarrow> findings \<Rightarrow> string \<times> string" where
  "result_of shaped has_candidate f =
     closure_result has_candidate (found_blocking f \<noteq> [])
       (jfield (found_sufficiency f) ''result'' = Some (JStr (u ''STALE'')))
       (optional_dict shaped ''reobservation'' = JNull \<or> optional_dict shaped ''evidence_sufficiency_request'' = JNull)
       (found_gates f)"

definition terminal_reasons_resolve ::
  "closure_env \<Rightarrow> ext \<Rightarrow> json \<Rightarrow> json \<Rightarrow> json list \<Rightarrow> closure_error + unit" where
  "terminal_reasons_resolve V E shaped difference refs =
     bindE (ensureE (refs \<noteq> []) invalid) (\<lambda>_.
     bindE (items shaped ''terminal_reason_evidence_requests'') (\<lambda>requests.
     bindE (ensureE (requests \<noteq> []) invalid) (\<lambda>_.
     bindE (attempt_evidence (resolve_terminal_reason_evidence (owners_of V) E refs requests difference)) (\<lambda>r.
     ensureE (r \<noteq> None) invalid))))"

definition admit_result ::
  "closure_env \<Rightarrow> ext \<Rightarrow> json \<Rightarrow> json \<Rightarrow> findings \<Rightarrow> json list \<Rightarrow> string \<Rightarrow> closure_error + unit" where
  "admit_result V E shaped difference f refs mode =
     (let proposed = optional_field shaped ''proposed_terminal_status''
      in if mode = ''CANDIDATE_CLOSURE'' then
           bindE (ensureE (proposed = JStr (u ''CLOSED'')) invalid) (\<lambda>_.
           ensureE (map_of (found_gates f) ''G22'' = Some PASS) invalid)
         else
           bindE (ensureE (one_of [''BLOCKED'', ''RETAINED''] proposed) invalid) (\<lambda>_.
           terminal_reasons_resolve V E shaped difference refs))"

definition evaluation_deadline :: "closure_env \<Rightarrow> json \<Rightarrow> findings \<Rightarrow> closure_error + json" where
  "evaluation_deadline V policy f =
     bindE (rd (afield policy ''maximum_evidence_age'')) (\<lambda>limit.
     case found_oldest f of
       None \<Rightarrow> Inr JNull
     | Some oldest \<Rightarrow>
         bindE (mapErr escaping (maximum_age limit)) (\<lambda>bound.
         case bound of
           None \<Rightarrow> Inr JNull
         | Some age \<Rightarrow> bindE (orE (format_instant (oldest + age)) (Closure_escaped OwnerOther)) (\<lambda>t. Inr (JStr t))))"

section \<open>The record\<close>

definition failure_reasons :: "closure_env \<Rightarrow> json \<Rightarrow> gates \<Rightarrow> json list" where
  "failure_reasons V request gs =
     map JStr (sort (remdups (map (wording V request \<circ> fst) (filter (\<lambda>(g, v). v = FAIL \<or> v = UNKNOWN) gs))))"

definition gate_results :: "gates \<Rightarrow> json" where
  "gate_results gs = obj (map (\<lambda>(g, v). (g, JStr (u (gate_text v)))) gs)"

text \<open>\<open>list(v)\<close>.\<close>

fun as_list :: "json \<Rightarrow> auth_error + json list" where
  "as_list (JList xs) = Inr xs"
| "as_list (JObj kvs) = Inr (map (JStr \<circ> fst) kvs)"
| "as_list (JStr s) = Inr (map (\<lambda>c. JStr [c]) s)"
| "as_list _ = Inl AuthPy"

text \<open>Without a candidate the references of a resolution are left out.\<close>

definition resolution_fields :: "json \<Rightarrow> bool \<Rightarrow> resolution \<Rightarrow> findings \<Rightarrow> closure_error + (string \<times> json) list" where
  "resolution_fields shaped has_candidate q f =
     (if \<not> has_candidate then
        Inr [(''resolution_mode'', JNull), (''change_refs'', JList []), (''after_observation_refs'', JList []),
          (''change_result_evidence_refs'', JList []), (''change_free_verification_evidence_refs'', JList []),
          (''evidence_sufficiency_ref'', JNull)]
      else
        bindE (case jfield (optional_dict shaped ''reobservation'') ''after_observation_refs'' of
                 None \<Rightarrow> Inr [] | Some v \<Rightarrow> rd (as_list v)) (\<lambda>after.
        bindE (if found_sufficiency f = JNull then Inr JNull
               else bindE (rd (afield (found_sufficiency f) ''evidence_sufficiency_id''))
                 (\<lambda>i. Inr (typed_ref ''evidence_sufficiency_result'' i))) (\<lambda>sufficiency_ref.
        Inr [(''resolution_mode'', res_mode q), (''change_refs'', JList (res_change_refs q)),
          (''after_observation_refs'', JList after), (''change_result_evidence_refs'', JList (res_change_evidence q)),
          (''change_free_verification_evidence_refs'', JList (res_free_evidence q)),
          (''evidence_sufficiency_ref'', sufficiency_ref)])))"

definition listed :: "(string \<times> json) list \<Rightarrow> string \<Rightarrow> string \<times> json" where
  "listed kvs k = (k, case map_of kvs k of Some v \<Rightarrow> v | None \<Rightarrow> JNull)"

definition evaluation_fields ::
  "closure_env \<Rightarrow> json \<Rightarrow> json \<Rightarrow> json \<Rightarrow> json \<Rightarrow> json \<Rightarrow> json \<Rightarrow> (string \<times> json) list \<Rightarrow> findings \<Rightarrow> json list
    \<Rightarrow> json \<Rightarrow> string \<times> string \<Rightarrow> closure_error + (string \<times> json) list" where
  "evaluation_fields V shaped difference policy current_state candidate witness_ref rs f refs deadline result =
     bindE (rd (afield difference ''difference_id'')) (\<lambda>identity.
     bindE (dict_at shaped ''base_kernel_source_ref'') (\<lambda>base_ref.
     bindE (dict_at shaped ''kernel_source_ref'') (\<lambda>kernel_ref.
     bindE (dict_at shaped ''difference_event_head_ref'') (\<lambda>head_ref.
     bindE (rd (afield difference ''target_predicate_ref'')) (\<lambda>predicate.
     bindE (rd (afield difference ''objective_revision_ref'')) (\<lambda>objective.
     bindE (rd (afield difference ''objective_semantic_fingerprint'')) (\<lambda>objective_fingerprint.
     bindE (rd (afield current_state ''revision'')) (\<lambda>revision.
     bindE (rd (afield current_state ''fingerprint'')) (\<lambda>fingerprint.
     bindE (rd (policy_reference policy)) (\<lambda>policy_ref.
     bindE (rd (afield policy ''policy_version'')) (\<lambda>version.
     bindE (rd (afield policy ''policy_semantic_fingerprint'')) (\<lambda>policy_fingerprint.
     Inr [(''schema_version'', JStr (u ''0.1'')), (''closure_evaluation_id'', JStr []),
       (''difference_id'', identity), (''evaluation_mode'', JStr (u (snd result))),
       (''terminal_reason_evidence_refs'', JList refs), (''base_kernel_source_ref_evaluated'', base_ref),
       (''kernel_source_ref_evaluated'', kernel_ref), (''kernel_source_witness_ref'', witness_ref),
       (''difference_event_head_ref'', head_ref), (''target_predicate_ref'', predicate),
       (''objective_revision_ref_evaluated'', objective),
       (''objective_semantic_fingerprint_evaluated'', objective_fingerprint),
       (''before_state_ref'', obj [(''kind'', JStr (u ''state'')), (''revision'', revision), (''fingerprint'', fingerprint)]),
       listed rs ''resolution_mode'', listed rs ''change_refs'', (''after_state_candidate'', candidate),
       listed rs ''after_observation_refs'', listed rs ''change_result_evidence_refs'',
       listed rs ''change_free_verification_evidence_refs'', (''verification_independence_ref'', JNull),
       listed rs ''evidence_sufficiency_ref'',
       (''candidate_invariant_evaluation_bindings'', JList (found_invariant_bindings f)),
       (''candidate_claim_evaluation_bindings'', JList (found_claim_bindings f)),
       (''contradiction_refs'', JList (found_contradictions f)), (''evaluated_state_revision'', revision),
       (''evaluated_state_fingerprint'', fingerprint), (''evaluated_at'', optional_field shaped ''evaluated_at''),
       (''evaluation_expires_at'', deadline), (''policy_ref'', policy_ref), (''policy_version_evaluated'', version),
       (''policy_semantic_fingerprint_evaluated'', policy_fingerprint),
       (''proposed_terminal_status'', optional_field shaped ''proposed_terminal_status''),
       (''gate_results'', gate_results (found_gates f)), (''result'', JStr (u (fst result))),
       (''failure_reasons'', JList (failure_reasons V shaped (found_gates f))),
       (''reflow_transition_ref'', JNull)]))))))))))))"

definition legal_closure :: "json \<Rightarrow> closure_error + unit" where
  "legal_closure shaped =
     bindE (rd (as_key (optional_field shaped ''current_status''))) (\<lambda>held.
     ensureE (is_legal_transition held (optional_field shaped ''proposed_terminal_status'')) invalid)"

definition finish_evaluation :: "ext \<Rightarrow> json \<Rightarrow> (string \<times> json) list \<Rightarrow> closure_error + json" where
  "finish_evaluation E shaped kvs =
     bindE (rd (closure_evaluation_id E (obj kvs))) (\<lambda>identity.
     bindE (legal_closure shaped) (\<lambda>_.
     Inr (aset ''closure_evaluation_id'' (JStr identity) (obj kvs))))"

definition evaluate_closure :: "closure_env \<Rightarrow> ext \<Rightarrow> json \<Rightarrow> closure_error + json" where
  "evaluate_closure V E request =
     bindE (require_closure_request request) (\<lambda>shaped.
     bindE (closure_subject V shaped) (\<lambda>(difference, policy, current_state).
     bindE (candidate_of E shaped current_state) (\<lambda>candidate.
     bindE (kernel_witness_ref E (optional_dict shaped ''kernel_source_ref'')
       (optional_dict shaped ''kernel_source_witness'')) (\<lambda>witness_ref.
     bindE (evaluate_gates V E shaped difference policy current_state candidate witness_ref) (\<lambda>(q, f).
     bindE (evaluation_deadline V policy f) (\<lambda>deadline.
     bindE (items shaped ''terminal_reason_evidence_refs'') (\<lambda>refs.
     let result = result_of shaped (candidate \<noteq> JNull) f
     in bindE (admit_result V E shaped difference f refs (snd result)) (\<lambda>_.
        bindE (resolution_fields shaped (candidate \<noteq> JNull) q f) (\<lambda>rs.
        bindE (evaluation_fields V shaped difference policy current_state candidate witness_ref rs f refs deadline result) (\<lambda>kvs.
        finish_evaluation E shaped kvs))))))))))"

end
