(* ===== verification/ClosureLemmas.thy ===== *)
theory ClosureLemmas
  imports ClosureEvaluation SufficiencyProps
begin

text \<open>
  Every step of the evaluation settles its gates and leaves the others alone; what a gate that passed
  says of the request.
\<close>

section \<open>Settled gates\<close>

definition settles :: "string list \<Rightarrow> gates \<Rightarrow> gates \<Rightarrow> bool" where
  "settles ks gs gs' \<longleftrightarrow>
     (map fst gs = gate_ids \<longrightarrow> map fst gs' = gate_ids)
     \<and> (\<forall>g. g \<notin> set ks \<longrightarrow> map_of gs' g = map_of gs g)
     \<and> (\<forall>g \<in> set ks. \<exists>v. map_of gs' g = Some v \<and> v \<noteq> NOT_APPLICABLE)"

lemma gate_set [simp]: "map_of (set_gate g v gs) = (map_of gs)(g \<mapsto> v)"
  by (simp add: set_gate_def update_conv')

lemma set_gate_keys: "g \<in> set gate_ids \<Longrightarrow> map fst gs = gate_ids \<Longrightarrow> map fst (set_gate g v gs) = gate_ids"
  by (simp add: set_gate_def update_keys)

lemma settles_set_gate:
  "v \<noteq> NOT_APPLICABLE \<Longrightarrow> g \<in> set gate_ids \<Longrightarrow> settles [g] gs (set_gate g v gs)"
  using set_gate_keys by (auto simp: settles_def)

lemma settles_trans: "settles ks a b \<Longrightarrow> settles ls b c \<Longrightarrow> settles (ks @ ls) a c"
  unfolding settles_def by (smt (verit, best) Un_iff set_append)

lemma settles_refl: "settles [] gs gs"
  by (simp add: settles_def)

lemma settles_set_all:
  "v \<noteq> NOT_APPLICABLE \<Longrightarrow> set ks \<subseteq> set gate_ids \<Longrightarrow> settles ks gs (set_all ks v gs)"
proof (induction ks arbitrary: gs)
  case Nil
  then show ?case by (simp add: settles_refl)
next
  case (Cons k ks)
  then show ?case using settles_trans [OF settles_set_gate [of v k gs] Cons.IH [of "set_gate k v gs"]] by simp
qed

lemma settles_same: "set ks = set ls \<Longrightarrow> settles ks a b \<Longrightarrow> settles ls a b"
  by (simp add: settles_def)

lemma pass_if_applicable [simp]: "pass_if b \<noteq> NOT_APPLICABLE" "pass_if b = PASS \<longleftrightarrow> b"
  by (auto simp: pass_if_def)

lemma gate_set_all: "map_of (set_all ks v gs) g = (if g \<in> set ks then Some v else map_of gs g)"
  by (induction ks arbitrary: gs) auto

lemma settled_gate: "settles ks a b \<Longrightarrow> g \<notin> set ks \<Longrightarrow> map_of b g = map_of a g"
  by (simp add: settles_def)

section \<open>The steps\<close>

lemma gate_ids_set: "set gate_ids = {''G1'', ''G2'', ''G3'', ''G4'', ''G5'', ''G6'', ''G7'', ''G8'', ''G9'', ''G10'',
    ''G11'', ''G12'', ''G13'', ''G14'', ''G15'', ''G16'', ''G17'', ''G18'', ''G19'', ''G20'', ''G21'', ''G22''}"
  by (simp add: gate_ids_def)

lemma g1_g2_settles:
  assumes "evaluate_g1_g2 E difference held gs = Inr gs'"
  shows "settles [''G1'', ''G2''] gs gs'"
proof -
  obtain b c where "gs' = set_gate ''G2'' (pass_if c) (set_gate ''G1'' (pass_if b) gs)"
    using assms by (auto simp: evaluate_g1_g2_def)
  then show ?thesis
    using settles_trans [OF settles_set_gate [of "pass_if b" "''G1''" gs]
      settles_set_gate [of "pass_if c" "''G2''" "set_gate ''G1'' (pass_if b) gs"]]
    by (simp add: gate_ids_set)
qed

lemma g3_g4_settles:
  assumes "evaluate_g3_g4 E difference objective reobservation body base_ref kernel_ref has verified gs = Inr gs'"
  shows "settles [''G3'', ''G4''] gs gs'"
proof -
  obtain b c where "gs' = set_gate ''G4'' (pass_if c) (set_gate ''G3'' (pass_if b) gs)"
    using assms unfolding evaluate_g3_g4_def Let_def by (elim bindE_InrE) auto
  then show ?thesis
    using settles_trans [OF settles_set_gate [of "pass_if b" "''G3''" gs]
      settles_set_gate [of "pass_if c" "''G4''" "set_gate ''G3'' (pass_if b) gs"]]
    by (simp add: gate_ids_set)
qed

lemma g5_g20_settles:
  assumes "evaluate_g5_g20 difference current_state gs = Inr gs'"
  shows "settles [''G5'', ''G20''] gs gs'"
proof -
  obtain v where "gs' = set_all [''G5'', ''G20''] v gs" "v \<noteq> NOT_APPLICABLE"
    using assms by (auto simp: evaluate_g5_g20_def split: option.splits)
  then show ?thesis using settles_set_all [of v "[''G5'', ''G20'']" gs] by (simp add: gate_ids_set)
qed

lemma g6_g11_settles: "settles [''G6'', ''G11''] gs (evaluate_g6_g11 mode changes results free gs)"
  unfolding evaluate_g6_g11_def by (rule settles_set_all) (auto simp: gate_ids_set)

lemma reproduction_ids: "set reproduction_gates \<subseteq> set gate_ids" "''G8'' \<in> set gate_ids"
  by (auto simp: gate_ids_set reproduction_gates_def)

lemma settled_as_settles:
  "v \<noteq> NOT_APPLICABLE \<Longrightarrow> settles (reproduction_gates @ [''G8'']) gs (settled_as v gs)"
  unfolding settled_as_def
  using settles_trans [OF settles_set_all settles_set_gate] reproduction_ids by blast

lemma settles_g8 [simp]: "v \<noteq> NOT_APPLICABLE \<Longrightarrow> settles [''G8''] gs (set_gate ''G8'' v gs)"
  using settles_set_gate reproduction_ids(2) by blast

lemma g8_bound_settles: "g8_change_bound V E after_refs refs requests gs = Inr r \<Longrightarrow> settles [''G8''] gs (fst r)"
  unfolding g8_change_bound_def by (auto split: if_splits option.splits elim!: bindE_InrE)

lemma g8_free_settles:
  "g8_change_free V E results change_requests refs requests gs = Inr r \<Longrightarrow> settles [''G8''] gs (fst r)"
  unfolding g8_change_free_def by (auto split: if_splits option.splits elim!: bindE_InrE)

lemma g8_settles: "g8 V E q after_refs gs = Inr r \<Longrightarrow> settles [''G8''] gs (fst r)"
  unfolding g8_def using g8_bound_settles g8_free_settles by (auto split: if_splits)

lemma attempt_Some: "attempt x = Inr (Some y) \<longleftrightarrow> x = Inr y"
proof (cases x)
  case (Inl e)
  then show ?thesis by (cases e) auto
qed simp

lemma settled_as_G10: "map_of (settled_as v gs) ''G10'' = Some v"
  by (simp add: settled_as_def gate_set_all reproduction_gates_def)

lemma settled_as_G8: "map_of (settled_as v gs) ''G8'' = Some FAIL"
  by (simp add: settled_as_def)

text \<open>The derivation request is about the predicate, and names exactly what was observed after the
  Change.\<close>

definition reobserved_as_named :: "ext \<Rightarrow> json \<Rightarrow> json \<Rightarrow> json list \<Rightarrow> json list \<Rightarrow> bool" where
  "reobserved_as_named E request predicate after_refs snapshot_refs \<longleftrightarrow>
     bound_to_predicate request predicate = Inr True
     \<and> (\<exists>ids. derive_after_observation_ids E request = Inr ids \<and> names_exactly after_refs ids)
     \<and> (\<exists>ids. derive_source_snapshot_ids E request = Inr ids \<and> names_exactly snapshot_refs ids)"

definition derived_satisfied :: "closure_env \<Rightarrow> json \<Rightarrow> json \<Rightarrow> bool" where
  "derived_satisfied V request predicate \<longleftrightarrow>
     (\<exists>result. rederive V request = Inr result \<and> predicate_satisfied result predicate = Inr True)"

lemma reproduce_cases:
  assumes "reproduce V E q request predicate after_refs gs = Inr r"
  shows "r = (settled_as FAIL gs, [], []) \<or>
    (\<exists>result sat. rederive V request = Inr result \<and> predicate_satisfied result predicate = Inr sat
      \<and> reobserved_as_named E request predicate after_refs (res_snapshot_refs q)
      \<and> g8 V E q after_refs (set_all reproduction_gates (pass_if sat) gs) = Inr r)"
  using assms unfolding reproduce_def Let_def reobserved_as_named_def
  by (auto split: if_splits option.splits elim!: bindE_InrE simp: attempt_Some)

lemma reproduce_settles:
  assumes "reproduce V E q request predicate after_refs gs = Inr r"
  shows "settles (reproduction_gates @ [''G8'']) gs (fst r)"
    and "map_of (fst r) ''G10'' = Some PASS \<Longrightarrow>
      reobserved_as_named E request predicate after_refs (res_snapshot_refs q) \<and> derived_satisfied V request predicate"
    and "map_of (fst r) ''G8'' = Some PASS \<Longrightarrow> \<exists>gs'. g8 V E q after_refs gs' = Inr r"
proof -
  let ?B = "\<lambda>sat. set_all reproduction_gates (pass_if sat) gs"
  have ten: "map_of (fst r) ''G10'' = Some (pass_if sat)" and all: "settles (reproduction_gates @ [''G8'']) gs (fst r)"
    if "g8 V E q after_refs (?B sat) = Inr r" for sat
  proof -
    have one: "settles [''G8''] (?B sat) (fst r)" using g8_settles that by blast
    show "map_of (fst r) ''G10'' = Some (pass_if sat)"
      using settled_gate [OF one, of "''G10''"] by (simp add: gate_set_all reproduction_gates_def)
    show "settles (reproduction_gates @ [''G8'']) gs (fst r)"
      using settles_trans [OF settles_set_all one] reproduction_ids by simp
  qed
  consider "r = (settled_as FAIL gs, [], [])"
    | result sat where "rederive V request = Inr result" "predicate_satisfied result predicate = Inr sat"
        "reobserved_as_named E request predicate after_refs (res_snapshot_refs q)" "g8 V E q after_refs (?B sat) = Inr r"
    using reproduce_cases [OF assms] by blast
  note cs = this
  show "settles (reproduction_gates @ [''G8'']) gs (fst r)"
    by (cases rule: cs) (auto simp: settled_as_settles intro: all)
  show "reobserved_as_named E request predicate after_refs (res_snapshot_refs q) \<and> derived_satisfied V request predicate"
    if "map_of (fst r) ''G10'' = Some PASS"
    by (cases rule: cs) (use that ten in \<open>auto simp: settled_as_G10 derived_satisfied_def\<close>)
  show "\<exists>gs'. g8 V E q after_refs gs' = Inr r" if "map_of (fst r) ''G8'' = Some PASS"
    by (cases rule: cs) (use that in \<open>auto simp: settled_as_G8\<close>)
qed

text \<open>What the reproduction gates say when they pass: the Difference was derived again, from exactly the
  observations and snapshots the request names.\<close>

definition reproduced_satisfied :: "closure_env \<Rightarrow> ext \<Rightarrow> json \<Rightarrow> json \<Rightarrow> json list \<Rightarrow> bool" where
  "reproduced_satisfied V E difference reobservation snapshot_refs \<longleftrightarrow>
     (\<exists>request predicate after_refs. jfield reobservation ''derivation_request'' = Some request
        \<and> jfield reobservation ''after_observation_refs'' = Some (JList after_refs) \<and> after_refs \<noteq> []
        \<and> (\<exists>t. jfield difference ''target_predicate_ref'' = Some t \<and> jfield t ''id'' = Some predicate)
        \<and> reobserved_as_named E request predicate after_refs snapshot_refs
        \<and> derived_satisfied V request predicate)"

lemma reproduction_settles:
  assumes "evaluate_reproduction_gates V E difference policy reobservation q gs = Inr r"
  shows "settles (reproduction_gates @ [''G8'']) gs (fst r)"
    and "map_of (fst r) ''G10'' = Some PASS \<Longrightarrow>
      reproduced_satisfied V E difference reobservation (res_snapshot_refs q)"
    and "map_of (fst r) ''G8'' = Some PASS \<Longrightarrow> \<exists>gs' after_refs.
      jfield reobservation ''after_observation_refs'' = Some (JList after_refs) \<and> g8 V E q after_refs gs' = Inr r"
proof -
  consider v where "r = (settled_as v gs, [], [])" "v = FAIL \<or> v = UNKNOWN"
    | request predicate after_refs where "aget reobservation ''derivation_request'' = Inr request" "is_obj request"
        "aget reobservation ''after_observation_refs'' = Inr (JList after_refs)" "after_refs \<noteq> []"
        "\<exists>t. jfield difference ''target_predicate_ref'' = Some t \<and> jfield t ''id'' = Some predicate"
        "reproduce V E q request predicate after_refs gs = Inr r"
    using assms unfolding evaluate_reproduction_gates_def
    by (auto split: if_splits elim!: bindE_InrE)
  note cs = this
  have f: "jfield reobservation k = Some v" if "aget reobservation k = Inr v" "v \<noteq> JNull" for k v
    using that by (auto simp: aget_iff split: option.splits)
  show "settles (reproduction_gates @ [''G8'']) gs (fst r)"
    by (cases rule: cs) (auto simp: settled_as_settles intro: reproduce_settles(1))
  show "reproduced_satisfied V E difference reobservation (res_snapshot_refs q)"
    if g: "map_of (fst r) ''G10'' = Some PASS"
  proof (cases rule: cs)
    case (1 v)
    then show ?thesis using g by (auto simp: settled_as_G10)
  next
    case (2 request predicate after_refs)
    have "request \<noteq> JNull" using 2(2) by auto
    then show ?thesis
      using reproduce_settles(2) [OF 2(6) g] f [OF 2(1)] f [OF 2(3)] 2(4,5) unfolding reproduced_satisfied_def by blast
  qed
  show "\<exists>gs' after_refs. jfield reobservation ''after_observation_refs'' = Some (JList after_refs)
      \<and> g8 V E q after_refs gs' = Inr r" if g: "map_of (fst r) ''G8'' = Some PASS"
  proof (cases rule: cs)
    case (1 v)
    then show ?thesis using g by (auto simp: settled_as_G8)
  next
    case (2 request predicate after_refs)
    then show ?thesis using reproduce_settles(3) [OF 2(6) g] f [OF 2(3)] by blast
  qed
qed

end
