(* ===== verification/ClosureEarned.thy ===== *)
theory ClosureEarned
  imports ClosureLemmas
begin

text \<open>
  What each gate that passed says of the request: the facts a closed Difference has earned, over the
  fields of the request, one predicate per gate or group of gates.
\<close>

lemma attempt_evidence_Some: "attempt_evidence x = Inr (Some y) \<longleftrightarrow> x = Inr y"
proof (cases x)
  case (Inl e)
  then show ?thesis by (cases e) auto
qed simp

lemma attempt_reflow_Some: "attempt_reflow x = Inr (Some y) \<longleftrightarrow> x = Inr y"
proof (cases x)
  case (Inl e)
  then show ?thesis by (cases e) auto
qed simp

definition entries :: "json \<Rightarrow> string \<Rightarrow> json list" where
  "entries v k = (case optional_field v k of JList xs \<Rightarrow> xs | _ \<Rightarrow> [])"

lemma items_entries: "items v k = Inr xs \<Longrightarrow> entries v k = xs"
  by (simp add: items_def entries_def)

section \<open>G3, G4, G5 and G20\<close>

text \<open>G3: the Objective revision is the one the Difference was derived for, in name and in meaning.\<close>

definition objective_held :: "ext \<Rightarrow> json \<Rightarrow> json \<Rightarrow> json \<Rightarrow> bool" where
  "objective_held E difference objective body \<longleftrightarrow>
     (\<exists>r bound i fp. jfield difference ''objective_revision_ref'' = Some r \<and> jfield r ''id'' = Some bound
        \<and> py_eq objective bound \<and> validate_objective_revision E body = Inr ()
        \<and> aget body ''objective_revision_id'' = Inr i \<and> py_eq i bound
        \<and> objective_semantic_fingerprint E body = Inr fp
        \<and> jfield difference ''objective_semantic_fingerprint'' = Some (JStr fp))"

text \<open>G4: the Kernel source has not moved since the Difference was observed.\<close>

definition kernel_unmoved :: "json \<Rightarrow> json \<Rightarrow> bool" where
  "kernel_unmoved base_ref kernel_ref \<longleftrightarrow>
     py_eq (optional_field base_ref ''commit_sha'') (optional_field kernel_ref ''commit_sha'')
     \<and> py_eq (optional_field base_ref ''tree_sha'') (optional_field kernel_ref ''tree_sha'')"

text \<open>G5 and G20: the State is no older than the one the Difference was observed in.\<close>

definition state_not_older :: "json \<Rightarrow> json \<Rightarrow> bool" where
  "state_not_older difference current_state \<longleftrightarrow>
     (\<exists>r v b. optional_field current_state ''revision'' = JInt r \<and> 0 \<le> r
        \<and> jfield difference ''observed_state_revision'' = Some v \<and> event_revision_of v = Inr b \<and> b \<le> r)"

lemma attempt_not_None: "attempt x = Inr r \<Longrightarrow> r \<noteq> None \<Longrightarrow> \<exists>y. x = Inr y"
  by (cases r) (auto simp: attempt_Some)

lemma objective_body_bound_held:
  assumes "objective_body_bound E difference body = Inr True"
    and "jfield difference ''objective_revision_ref'' = Some r" "jfield r ''id'' = Some bound" "py_eq objective bound"
  shows "objective_held E difference objective body"
  using assms unfolding objective_body_bound_def objective_held_def
  by (fastforce split: if_splits elim!: bindE_InrE dest: attempt_not_None)

lemma g3_g4_earned:
  assumes "evaluate_g3_g4 E difference objective reobservation body base_ref kernel_ref has verified gs = Inr gs'"
    and "reobservation \<noteq> JNull"
  shows "map_of gs' ''G3'' = Some PASS \<Longrightarrow> objective_held E difference objective
      (optional_field (optional_field reobservation ''derivation_request'') ''objective_revision'')"
    and "map_of gs' ''G4'' = Some PASS \<Longrightarrow> kernel_unmoved base_ref kernel_ref"
  using assms unfolding evaluate_g3_g4_def Let_def kernel_unmoved_def
  by (auto split: if_splits elim!: bindE_InrE intro: objective_body_bound_held)

lemma g5_g20_earned:
  assumes "evaluate_g5_g20 difference current_state gs = Inr gs'"
    and "map_of gs' ''G5'' = Some PASS"
  shows "state_not_older difference current_state"
  using assms unfolding evaluate_g5_g20_def state_not_older_def
  by (auto split: option.splits if_splits elim!: bindE_InrE valid_revision.elims simp: gate_set_all)

section \<open>G6, G8 and G11\<close>

text \<open>A Difference is resolved by Changes or without one, never both.\<close>

definition resolved_one_way :: "resolution \<Rightarrow> bool" where
  "resolved_one_way q \<longleftrightarrow>
     (if res_mode q = JStr (u ''CHANGE_BOUND'')
      then res_change_refs q \<noteq> [] \<and> res_change_evidence q \<noteq> [] \<and> res_free_evidence q = []
      else res_mode q = JStr (u ''CHANGE_FREE'')
        \<and> res_change_refs q = [] \<and> res_change_evidence q = [] \<and> res_free_evidence q \<noteq> [])"

lemma g6_g11_earned:
  "map_of (evaluate_g6_g11 (res_mode q) (res_change_refs q) (res_change_evidence q) (res_free_evidence q) gs) ''G6''
     = Some PASS \<Longrightarrow> resolved_one_way q"
  by (auto simp: evaluate_g6_g11_def resolved_one_way_def gate_set_all split: if_splits)

text \<open>G8: the requests reproduce Evidence whose identities are exactly the declared ones. With a Change
  the Evidence of it does not rest on an observation made after it; without one it is Evidence of a
  verification without a Change.\<close>

definition names_reproduced :: "closure_env \<Rightarrow> ext \<Rightarrow> json list \<Rightarrow> json list \<Rightarrow> json list \<Rightarrow> bool" where
  "names_reproduced V E requests refs records \<longleftrightarrow>
     requests \<noteq> [] \<and> mapE (derive_evidence (owners_of V) E) requests = Inr records
     \<and> (\<exists>ids. mapE (\<lambda>r. astr r ''evidence_id'') records = Inr ids \<and> names_exactly refs ids)"

definition resolution_evidenced :: "closure_env \<Rightarrow> ext \<Rightarrow> resolution \<Rightarrow> json list \<Rightarrow> bool" where
  "resolution_evidenced V E q after_refs \<longleftrightarrow>
     (if res_mode q = JStr (u ''CHANGE_BOUND'')
      then \<exists>records sources. names_reproduced V E (res_change_requests q) (res_change_evidence q) records
        \<and> mapE observed_sources records = Inr sources \<and> \<not> refs_overlap after_refs (concat sources)
      else \<exists>records. names_reproduced V E (res_free_requests q) (res_free_evidence q) records
        \<and> anyE (map (\<lambda>v. anot v ''evidence_position'' (JStr (u ''CHANGE_FREE_VERIFICATION_EVIDENCE''))) records)
          = Inr False)"

lemma evidence_named_reproduced:
  assumes "reproduced_evidence V E requests = Inr (Some records)" "evidence_named records refs = Inr True"
    "requests \<noteq> []"
  shows "names_reproduced V E requests refs records"
  using assms unfolding reproduced_evidence_def evidence_named_def names_reproduced_def
  by (auto simp: attempt_evidence_Some elim!: bindE_InrE)

lemma g8_bound_earned:
  assumes "g8_change_bound V E after_refs refs requests gs = Inr r" "map_of (fst r) ''G8'' = Some PASS"
  shows "\<exists>records sources. names_reproduced V E requests refs records
    \<and> mapE observed_sources records = Inr sources \<and> \<not> refs_overlap after_refs (concat sources)"
  using assms unfolding g8_change_bound_def
  by (auto split: if_splits option.splits elim!: bindE_InrE) (use evidence_named_reproduced in blast)+

lemma g8_free_earned:
  assumes "g8_change_free V E results change_requests refs requests gs = Inr r" "map_of (fst r) ''G8'' = Some PASS"
  shows "\<exists>records. names_reproduced V E requests refs records
    \<and> anyE (map (\<lambda>v. anot v ''evidence_position'' (JStr (u ''CHANGE_FREE_VERIFICATION_EVIDENCE''))) records) = Inr False"
  using assms unfolding g8_change_free_def
  by (auto split: if_splits option.splits elim!: bindE_InrE) (use evidence_named_reproduced in blast)+

lemma g8_earned:
  assumes "g8 V E q after_refs gs = Inr r" "map_of (fst r) ''G8'' = Some PASS"
  shows "resolution_evidenced V E q after_refs"
  using assms g8_bound_earned g8_free_earned unfolding g8_def resolution_evidenced_def
  by (auto split: if_splits)

section \<open>G12\<close>

text \<open>The Evidence of the request is evaluated as SUFFICIENT, for this Difference and by this Policy.\<close>

definition sufficient_for :: "closure_env \<Rightarrow> ext \<Rightarrow> json \<Rightarrow> json \<Rightarrow> json \<Rightarrow> bool" where
  "sufficient_for V E difference policy request \<longleftrightarrow>
     (\<exists>s d i own p fp. evaluate_sufficiency (owners_of V) E request = Inr s
        \<and> jfield (result_record s) ''result'' = Some (JStr (u ''SUFFICIENT''))
        \<and> jfield (result_record s) ''difference_ref'' = Some d \<and> jfield d ''id'' = Some i
        \<and> jfield difference ''difference_id'' = Some own \<and> py_eq i own
        \<and> jfield (result_record s) ''policy_ref'' = Some p
        \<and> policy_semantic_fingerprint E policy = Inr fp \<and> jfield p ''semantic_fingerprint'' = Some (JStr fp))"

lemma g12_g18_cases:
  assumes "evaluate_g12_g18 V E difference policy request gs = Inr (gs', v, oldest)"
  shows "gs' = set_all [''G12'', ''G18''] FAIL gs \<or>
    (\<exists>b c. gs' = set_gate ''G18'' (pass_if c) (set_gate ''G12'' (pass_if b) gs)
       \<and> (b \<longrightarrow> sufficient_for V E difference policy request))"
proof (cases "gs' = set_all [''G12'', ''G18''] FAIL gs")
  case False
  obtain s d i own result ok p fp where r: "evaluate_sufficiency (owners_of V) E request = Inr s"
      "jfield (result_record s) ''difference_ref'' = Some d" "jfield d ''id'' = Some i"
      "jfield difference ''difference_id'' = Some own" "py_eq i own"
      "jfield (result_record s) ''policy_ref'' = Some p" "jfield p ''semantic_fingerprint'' = Some (JStr fp)"
      "policy_semantic_fingerprint E policy = Inr fp" "jfield (result_record s) ''result'' = Some result"
      "gs' = set_gate ''G18'' (pass_if ok) (set_gate ''G12'' (pass_if (result = JStr (u ''SUFFICIENT''))) gs)"
    using assms False unfolding evaluate_g12_g18_def Let_def
    by (auto split: if_splits option.splits elim!: bindE_InrE simp: attempt_evidence_Some)
  then show ?thesis unfolding sufficient_for_def by blast
qed simp

lemma g12_g18_earned:
  assumes "evaluate_g12_g18 V E difference policy request gs = Inr (gs', v, oldest)"
  shows "settles [''G12'', ''G18''] gs gs'"
    and "map_of gs' ''G12'' = Some PASS \<Longrightarrow> sufficient_for V E difference policy request"
proof -
  show "settles [''G12'', ''G18''] gs gs'"
    using g12_g18_cases [OF assms] settles_set_all [of FAIL "[''G12'', ''G18'']" gs]
      settles_trans [OF settles_set_gate settles_set_gate] by (auto simp: gate_ids_set)
  show "sufficient_for V E difference policy request" if "map_of gs' ''G12'' = Some PASS"
    using g12_g18_cases [OF assms] that by (auto simp: gate_set_all)
qed

lemma g12_g18_fresh:
  assumes "evaluate_g12_g18 V E difference policy request gs = Inr (gs', v, oldest)"
  shows "map_of gs' ''G12'' = Some PASS \<Longrightarrow> request \<noteq> JNull"
    and "map_of gs' ''G18'' = Some PASS \<Longrightarrow> jfield v ''result'' \<noteq> Some (JStr (u ''STALE''))"
  using assms unfolding evaluate_g12_g18_def Let_def
  by (auto split: if_splits option.splits elim!: bindE_InrE simp: gate_set_all)

section \<open>G19\<close>

text \<open>The Kernel source is witnessed to contain the pinned invariants.\<close>

definition source_pinned :: "json \<Rightarrow> json \<Rightarrow> bool" where
  "source_pinned kernel_ref witness \<longleftrightarrow>
     (\<exists>c t. source_shas kernel_ref = Some (c, t)
        \<and> verify_kernel_source_witness witness c t (u kernel_invariants_blob_sha) (u kernel_invariants_path) = Inr ())"

text \<open>An invariant, pinned by the digest of its definition, passed for the candidate: a binding of the
  request says so and resolves to a verified evaluation.\<close>

definition invariant_passed ::
  "closure_env \<Rightarrow> ext \<Rightarrow> json list \<Rightarrow> json list \<Rightarrow> json \<Rightarrow> invariant_context \<Rightarrow> json \<times> json \<times> json \<Rightarrow> bool" where
  "invariant_passed V E bindings evaluations candidate ctx entry \<longleftrightarrow>
     (\<exists>b \<in> set bindings. \<exists>base v d i.
        aget b ''evaluation_result'' = Inr (JStr (u ''PASS'')) \<and> names_candidate b candidate = Inr True
        \<and> candidate_invariant_evaluation_binding_id E b = Inr i \<and> aget b ''binding_id'' = Inr (JStr i)
        \<and> resolve_invariant_evaluation (invariants V) E b evaluations base candidate ctx = Inr v
        \<and> (\<exists>r. jfield b ''invariant_ref'' = Some r \<and> jfield r ''id'' = Some (fst entry)
             \<and> jfield r ''kind'' = Some (fst (snd entry)))
        \<and> jfield b ''invariant_definition_ref'' = Some d
        \<and> jfield d ''invariant_definition_sha256'' = Some (snd (snd entry)))"

lemma as_key_id: "as_key v = Inr w \<Longrightarrow> w = v"
  by (cases v) auto

lemma admit_binding_passed:
  assumes "admit_binding V E evaluations candidate ctx got b = Inr (Some got')" "b \<in> set bindings"
  shows "\<forall>e \<in> set got'. e \<in> set got \<or> invariant_passed V E bindings evaluations candidate ctx e"
proof -
  obtain i k d base v ident r where r: "candidate_invariant_evaluation_binding_id E b = Inr ident"
      "aget b ''binding_id'' = Inr (JStr ident)" "aget b ''evaluation_result'' = Inr (JStr (u ''PASS''))"
      "names_candidate b candidate = Inr True" "jfield b ''invariant_ref'' = Some r" "jfield r ''id'' = Some i"
      "jfield r ''kind'' = Some k"
      "resolve_invariant_evaluation (invariants V) E b evaluations base candidate ctx = Inr v"
      "\<exists>d'. jfield b ''invariant_definition_ref'' = Some d' \<and> jfield d' ''invariant_definition_sha256'' = Some d"
      "got' = AList.update i (k, d) got"
    using assms(1) unfolding admit_binding_def
    by (auto split: if_splits option.splits elim!: bindE_InrE dest!: as_key_id attempt_not_None)
  have "set got' \<subseteq> insert (i, k, d) (set got)"
    unfolding r(10) by (induction got) auto
  moreover have "invariant_passed V E bindings evaluations candidate ctx (i, k, d)"
    using r assms(2) unfolding invariant_passed_def by fastforce
  ultimately show ?thesis by blast
qed

lemma admit_bindings_passed:
  assumes "admit_bindings V E evaluations candidate ctx got bs = Inr (Some got')" "set bs \<subseteq> set bindings"
    "\<forall>e \<in> set got. invariant_passed V E bindings evaluations candidate ctx e"
  shows "\<forall>e \<in> set got'. invariant_passed V E bindings evaluations candidate ctx e"
  using assms
proof (induction bs arbitrary: got)
  case (Cons b bs)
  then obtain g where g: "admit_binding V E evaluations candidate ctx got b = Inr (Some g)"
      "admit_bindings V E evaluations candidate ctx g bs = Inr (Some got')"
    by (auto split: option.splits elim!: bindE_InrE)
  have "\<forall>e \<in> set g. invariant_passed V E bindings evaluations candidate ctx e"
    using admit_binding_passed [OF g(1), of bindings] Cons.prems(2,3) by auto
  then show ?case using Cons.IH [OF g(2)] Cons.prems(2) by simp
qed simp

lemma kernel_source_verified_True:
  "kernel_source_verified witness c t = Inr True \<Longrightarrow>
     verify_kernel_source_witness witness c t (u kernel_invariants_blob_sha) (u kernel_invariants_path) = Inr ()"
  unfolding kernel_source_verified_def
  by (cases "verify_kernel_source_witness witness c t (u kernel_invariants_blob_sha) (u kernel_invariants_path)")
    (auto elim!: bindE_InrE attempt_witness.elims)

lemma mandatory_entries_nonempty: "mandatory_entries \<noteq> []"
proof -
  have "\<exists>e. map_option (\<lambda>d. (JStr (u ''K-001''), JStr (u ''kernel_invariant''), JStr (u ''sha256:'' @ u d)))
      (map_of invariant_definition_digests ''K-001'') = Some e"
    by (simp add: invariant_definition_digests_def)
  moreover have "''K-001'' \<in> set expected_g19_invariant_ids"
    by (simp add: expected_g19_invariant_ids_def mandatory_gate_ids_def excluded_post_reflow_ids_def)
  ultimately show ?thesis unfolding mandatory_entries_def by (auto simp: map_filter_def filter_empty_conv)
qed

text \<open>Every invariant that the registry makes mandatory passed, and every one the Policy requires.\<close>

definition invariants_passed ::
  "closure_env \<Rightarrow> ext \<Rightarrow> json \<Rightarrow> json list \<Rightarrow> json list \<Rightarrow> json \<Rightarrow> invariant_context \<Rightarrow> bool" where
  "invariants_passed V E policy bindings evaluations candidate ctx \<longleftrightarrow>
     (\<exists>declared expected. bindE (alist policy ''required_invariants'') (policy_entries []) = Inr (Some declared)
        \<and> expected_entries declared = Some expected \<and> set mandatory_entries \<subseteq> set expected
        \<and> (\<forall>e \<in> set expected. invariant_passed V E bindings evaluations candidate ctx e))"

lemma invariants_hold_earned:
  assumes "invariants_hold V E policy bindings kernel_ref witness evaluations candidate ctx = Inr True"
  shows "source_pinned kernel_ref witness" "candidate \<noteq> JNull"
    "invariants_passed V E policy bindings evaluations candidate ctx"
proof -
  obtain declared expected got where
    p: "bindE (alist policy ''required_invariants'') (policy_entries []) = Inr (Some declared)" and
    d: "expected_entries declared = Some expected" and
    g: "bindings = [] \<or> invariants_grounded kernel_ref witness candidate = Inr True" and
    b: "admit_bindings V E evaluations candidate ctx [] bindings = Inr (Some got)" "set got = set expected"
    using assms unfolding invariants_hold_def
    by (auto split: if_splits option.splits elim!: bindE_InrE simp del: bindE_eq_Inr_iff)
  have e: "set mandatory_entries \<subseteq> set expected" using d by (auto simp: expected_entries_def split: if_splits)
  have "bindings \<noteq> []" using e b mandatory_entries_nonempty by (cases bindings) auto
  then have "invariants_grounded kernel_ref witness candidate = Inr True" using g by simp
  then show "source_pinned kernel_ref witness" "candidate \<noteq> JNull"
    unfolding invariants_grounded_def source_pinned_def
    by (auto split: if_splits option.splits elim!: bindE_InrE intro: kernel_source_verified_True)
  show "invariants_passed V E policy bindings evaluations candidate ctx"
    unfolding invariants_passed_def using admit_bindings_passed [OF b(1), of bindings] b(2) p d e by auto
qed

section \<open>G21 and G22\<close>

text \<open>A completion claim is SATISFIED for the candidate: a binding of the request made in the State of
  the request resolves to a chain of events whose latest says so, and to a completion record.\<close>

definition claim_satisfied ::
  "ext \<Rightarrow> json \<Rightarrow> json \<Rightarrow> json \<Rightarrow> json list \<Rightarrow> json list \<Rightarrow> json \<Rightarrow> json \<Rightarrow> bool" where
  "claim_satisfied E policy identity current_state events bindings candidate claim \<longleftrightarrow>
     (\<exists>b \<in> set bindings. \<exists>r chain base revision fingerprint.
        jfield b ''required_claim_ref'' = Some r \<and> jfield r ''id'' = Some claim
        \<and> resolve_claim_binding E events b identity candidate = Inr chain
        \<and> jfield (hd chain) ''evaluation_status'' = Some (JStr (u ''SATISFIED''))
        \<and> aget b ''base_state_ref'' = Inr base
        \<and> jfield current_state ''revision'' = Some revision \<and> jfield current_state ''fingerprint'' = Some fingerprint
        \<and> py_eq (optional_field (or_empty base) ''revision'') revision
        \<and> py_eq (optional_field (or_empty base) ''fingerprint'') fingerprint
        \<and> (\<exists>observed_ref invariant_refs contradiction_refs record.
             resolve_completion_record E b policy observed_ref revision fingerprint invariant_refs contradiction_refs
               = Inr record))"

definition claims_satisfied :: "ext \<Rightarrow> json \<Rightarrow> json \<Rightarrow> json \<Rightarrow> json list \<Rightarrow> json list \<Rightarrow> json \<Rightarrow> bool" where
  "claims_satisfied E policy identity current_state events bindings candidate \<longleftrightarrow>
     (\<exists>mandatory required. mandatory_x003_claim_id E = Inr mandatory
        \<and> bindE (alist policy ''required_claims'') (mapE (\<lambda>c. bindE (afield c ''id'') as_key)) = Inr required
        \<and> (\<forall>c \<in> set (JStr mandatory # required).
             claim_satisfied E policy identity current_state events bindings candidate c))"

lemma settle_claims_each:
  "settle_claims f bs = Inr (Some cs) \<Longrightarrow> c \<in> set cs \<Longrightarrow> \<exists>b \<in> set bs. f b = Inr (Some c)"
  by (induction bs arbitrary: cs) (auto split: option.splits elim!: bindE_InrE)

lemma settle_claim_satisfied:
  assumes "settle_claim E policy identity observed_ref events invariant_refs contradiction_refs revision fingerprint candidate b
      = Inr (Some (claim, True))"
    and "b \<in> set bindings" "jfield current_state ''revision'' = Some revision"
      "jfield current_state ''fingerprint'' = Some fingerprint"
  shows "claim_satisfied E policy identity current_state events bindings candidate claim"
proof -
  obtain r base br bf chain done_rec where "jfield b ''required_claim_ref'' = Some r" "jfield r ''id'' = Some claim"
      "aget b ''base_state_ref'' = Inr base" "aget (or_empty base) ''revision'' = Inr br"
      "aget (or_empty base) ''fingerprint'' = Inr bf" "py_eq br revision" "py_eq bf fingerprint"
      "resolve_claim_binding E events b identity candidate = Inr chain"
      "resolve_completion_record E b policy observed_ref revision fingerprint invariant_refs contradiction_refs = Inr done_rec"
      "jfield (hd chain) ''evaluation_status'' = Some (JStr (u ''SATISFIED''))"
    using assms(1) unfolding settle_claim_def
    by (auto split: if_splits option.splits elim!: bindE_InrE dest!: as_key_id attempt_not_None simp: attempt_reflow_Some)
  moreover have "optional_field v k = w" if "aget v k = Inr w" for v k w
    using that by (simp add: aget_iff optional_field_def)
  ultimately show ?thesis unfolding claim_satisfied_def using assms(2-4) by blast
qed

lemma claims_hold_earned:
  assumes "claims_hold E policy identity current_state bindings events invariant_refs contradiction_refs candidate
      = Inr True"
  shows "claims_satisfied E policy identity current_state events bindings candidate"
proof -
  obtain mandatory required revision fingerprint observed_ref cs where
    m: "mandatory_x003_claim_id E = Inr mandatory"
      "bindE (alist policy ''required_claims'') (mapE (\<lambda>c. bindE (afield c ''id'') as_key)) = Inr required" and
    s: "jfield current_state ''revision'' = Some revision" "jfield current_state ''fingerprint'' = Some fingerprint" and
    c: "settle_claims (settle_claim E policy identity observed_ref events invariant_refs contradiction_refs revision
      fingerprint candidate) bindings = Inr (Some cs)" "fst ` set (filter snd cs) = set (JStr mandatory # required)"
    using assms unfolding claims_hold_def
    by (auto split: if_splits option.splits elim!: bindE_InrE simp del: bindE_eq_Inr_iff set_filter)
  have "claim_satisfied E policy identity current_state events bindings candidate x"
    if "x \<in> set (JStr mandatory # required)" for x
  proof -
    have "(x, True) \<in> set cs" using that unfolding c(2) [symmetric] by auto
    then show ?thesis using settle_claims_each [OF c(1)] settle_claim_satisfied s by blast
  qed
  then show ?thesis using m unfolding claims_satisfied_def by blast
qed

lemma terminal_status_allowed_True:
  "terminal_status_allowed policy proposed = Inr True \<Longrightarrow> proposed \<in> set (entries policy ''allowed_terminal_states'')"
  by (auto simp: terminal_status_allowed_def entries_def optional_field_def alist_def
      split: if_splits option.splits json.splits elim!: bindE_InrE)

end
