(* ===== verification/ClosureProps.thy ===== *)
theory ClosureProps
  imports ClosureEarned
begin

text \<open>
  What a Closure Evaluation means: every gate is decided, and SATISFIED is reached only by a Difference
  that was derived again and found satisfied, on sufficient Evidence, at the pinned Kernel source, without
  a material contradiction.
\<close>

section \<open>All gates\<close>

definition subject_earned :: "ext \<Rightarrow> json \<Rightarrow> json \<Rightarrow> json \<Rightarrow> bool" where
  "subject_earned E request difference current_state \<longleftrightarrow>
     (\<exists>i. difference_id E difference = Inr i \<and> jfield difference ''difference_id'' = Some (JStr i))
     \<and> optional_field request ''current_status'' = JStr (u ''VERIFYING'')
     \<and> objective_held E difference (optional_field request ''objective_revision_id'')
          (optional_field (optional_field (optional_dict request ''reobservation'') ''derivation_request'')
            ''objective_revision'')
     \<and> kernel_unmoved (optional_field request ''base_kernel_source_ref'') (optional_field request ''kernel_source_ref'')
     \<and> state_not_older difference current_state"

lemma dict_at_iff [simp]: "dict_at v k = Inr x \<longleftrightarrow> optional_field v k = x \<and> is_obj x"
  by (auto simp: dict_at_def)

lemma first_gates_settle:
  assumes "first_gates E shaped difference current_state witness_ref has = Inr gs"
  shows "settles [''G1'', ''G2'', ''G3'', ''G4'', ''G5'', ''G20''] no_gates gs"
    and "list_all (\<lambda>g. map_of gs g = Some PASS) [''G1'', ''G2'', ''G3'', ''G4'', ''G5''] \<Longrightarrow>
      optional_dict shaped ''reobservation'' \<noteq> JNull \<Longrightarrow> subject_earned E shaped difference current_state"
proof -
  obtain a b objective verified where
    a: "evaluate_g1_g2 E difference (optional_field shaped ''current_status'') no_gates = Inr a" and
    o: "objective = optional_field shaped ''objective_revision_id''" and
    b: "evaluate_g3_g4 E difference objective (optional_dict shaped ''reobservation'')
      (optional_dict shaped ''objective_revision'') (optional_field shaped ''base_kernel_source_ref'')
      (optional_field shaped ''kernel_source_ref'') has verified a = Inr b" and
    c: "evaluate_g5_g20 difference current_state b = Inr gs"
    using assms unfolding first_gates_def by (auto elim!: bindE_InrE split: json.splits if_splits)
  note st = g1_g2_settles [OF a] g3_g4_settles [OF b] g5_g20_settles [OF c]
  show "settles [''G1'', ''G2'', ''G3'', ''G4'', ''G5'', ''G20''] no_gates gs"
    using settles_trans [OF settles_trans [OF st(1,2)] st(3)] by simp
  show "subject_earned E shaped difference current_state"
    if p: "list_all (\<lambda>g. map_of gs g = Some PASS) [''G1'', ''G2'', ''G3'', ''G4'', ''G5'']"
      and r: "optional_dict shaped ''reobservation'' \<noteq> JNull"
  proof -
    have "map_of a ''G1'' = Some PASS" "map_of a ''G2'' = Some PASS" "map_of b ''G3'' = Some PASS"
      "map_of b ''G4'' = Some PASS" "map_of gs ''G5'' = Some PASS"
      using p settled_gate [OF st(2)] settled_gate [OF st(3)] by simp_all
    then show ?thesis
      using a g3_g4_earned [OF b r] g5_g20_earned [OF c] unfolding subject_earned_def o
      by (auto simp: evaluate_g1_g2_def)
  qed
qed

definition closing_earned ::
  "closure_env \<Rightarrow> ext \<Rightarrow> json \<Rightarrow> json \<Rightarrow> json \<Rightarrow> json \<Rightarrow> json \<Rightarrow> bool" where
  "closing_earned V E request difference policy current_state candidate \<longleftrightarrow>
     sufficient_for V E difference policy (optional_dict request ''evidence_sufficiency_request'')
     \<and> source_pinned (optional_dict request ''kernel_source_ref'') (optional_dict request ''kernel_source_witness'')
     \<and> candidate \<noteq> JNull
     \<and> (\<exists>ctx. ctx_policy ctx = policy \<and> ctx_difference ctx = difference \<and> ctx_current_state ctx = current_state
          \<and> ctx_candidate ctx = candidate
          \<and> invariants_passed V E policy (entries request ''candidate_invariant_evaluation_bindings'')
               (entries request ''invariant_evaluations'') candidate ctx)
     \<and> (\<exists>identity. jfield difference ''difference_id'' = Some identity
          \<and> claims_satisfied E policy identity current_state (entries request ''candidate_claim_evaluation_events'')
               (entries request ''candidate_claim_evaluation_bindings'') candidate)
     \<and> optional_field request ''proposed_terminal_status'' \<in> set (entries policy ''allowed_terminal_states'')"

lemma verification_context_subject:
  "verification_context E shaped difference policy current_state candidate q change_results change_free sufficiency
     contradictions blocking = Inr ctx \<Longrightarrow> ctx_policy ctx = policy \<and> ctx_difference ctx = difference
     \<and> ctx_current_state ctx = current_state \<and> ctx_candidate ctx = candidate"
  by (auto simp: verification_context_def elim!: bindE_InrE)

lemma last_gates_stages:
  assumes "last_gates V E shaped difference policy current_state candidate (q :: resolution) (a, c, d) = Inr f"
  obtains b s oldest ms bindings evaluations ctx g19 claim_bindings events invariant_refs contradiction_refs
    identity g21 g22 where
    "evaluate_g12_g18 V E difference policy (optional_dict shaped ''evidence_sufficiency_request'') a = Inr (b, s, oldest)"
    "items shaped ''material_contradictions'' = Inr ms" "filterE is_material ms = Inr (found_blocking f)"
    "items shaped ''candidate_invariant_evaluation_bindings'' = Inr bindings"
    "items shaped ''invariant_evaluations'' = Inr evaluations"
    "invariants_hold V E policy bindings (optional_dict shaped ''kernel_source_ref'')
       (optional_dict shaped ''kernel_source_witness'') evaluations candidate ctx = Inr g19"
    "ctx_policy ctx = policy \<and> ctx_difference ctx = difference \<and> ctx_current_state ctx = current_state
      \<and> ctx_candidate ctx = candidate"
    "items shaped ''candidate_claim_evaluation_bindings'' = Inr claim_bindings"
    "items shaped ''candidate_claim_evaluation_events'' = Inr events"
    "jfield difference ''difference_id'' = Some identity"
    "claims_hold E policy identity current_state claim_bindings events invariant_refs contradiction_refs candidate = Inr g21"
    "terminal_status_allowed policy (optional_field shaped ''proposed_terminal_status'') = Inr g22"
    "found_gates f = set_gate ''G22'' (pass_if g22) (set_gate ''G21'' (pass_if g21) (set_gate ''G19'' (pass_if g19) b))"
    "found_sufficiency f = s"
  using assms unfolding last_gates_def prod.case
  by - ((erule bind_triple | erule bindE_InrE)+, simp only: mapErr_eq_Inr_iff afield_iff sum.inject, rule that,
      (assumption | erule verification_context_subject | force)+)

lemma last_gates_settle:
  assumes "last_gates V E shaped difference policy current_state candidate q (a, c, d) = Inr f"
  shows "settles [''G12'', ''G18'', ''G19'', ''G21'', ''G22''] a (found_gates f)"
    and "list_all (\<lambda>g. map_of (found_gates f) g = Some PASS) [''G12'', ''G19'', ''G21'', ''G22''] \<Longrightarrow>
      closing_earned V E shaped difference policy current_state candidate"
    and "\<exists>ms. optional_field shaped ''material_contradictions'' = JList ms
      \<and> filterE is_material ms = Inr (found_blocking f)"
    and "map_of (found_gates f) ''G12'' = Some PASS \<Longrightarrow> optional_dict shaped ''evidence_sufficiency_request'' \<noteq> JNull"
    and "map_of (found_gates f) ''G18'' = Some PASS \<Longrightarrow>
      jfield (found_sufficiency f) ''result'' \<noteq> Some (JStr (u ''STALE''))"
proof -
  obtain b s oldest ms bindings evaluations ctx g19 claim_bindings events invariant_refs contradiction_refs
    identity g21 g22 where
    b: "evaluate_g12_g18 V E difference policy (optional_dict shaped ''evidence_sufficiency_request'') a = Inr (b, s, oldest)" and
    ms: "items shaped ''material_contradictions'' = Inr ms" "filterE is_material ms = Inr (found_blocking f)" and
    i: "items shaped ''candidate_invariant_evaluation_bindings'' = Inr bindings"
      "items shaped ''invariant_evaluations'' = Inr evaluations"
      "invariants_hold V E policy bindings (optional_dict shaped ''kernel_source_ref'')
       (optional_dict shaped ''kernel_source_witness'') evaluations candidate ctx = Inr g19"
      "ctx_policy ctx = policy \<and> ctx_difference ctx = difference \<and> ctx_current_state ctx = current_state
        \<and> ctx_candidate ctx = candidate" and
    k: "items shaped ''candidate_claim_evaluation_bindings'' = Inr claim_bindings"
      "items shaped ''candidate_claim_evaluation_events'' = Inr events"
      "jfield difference ''difference_id'' = Some identity"
      "claims_hold E policy identity current_state claim_bindings events invariant_refs contradiction_refs candidate = Inr g21" and
    t: "terminal_status_allowed policy (optional_field shaped ''proposed_terminal_status'') = Inr g22" and
    f: "found_gates f = set_gate ''G22'' (pass_if g22) (set_gate ''G21'' (pass_if g21) (set_gate ''G19'' (pass_if g19) b))"
      "found_sufficiency f = s"
    by (rule last_gates_stages [OF assms])
  note st = g12_g18_earned(1) [OF b]
  have "settles [''G19'', ''G21'', ''G22''] b (found_gates f)"
    using settles_trans [OF settles_trans [OF settles_set_gate [of "pass_if g19" "''G19''" b]
      settles_set_gate [of "pass_if g21" "''G21''"]] settles_set_gate [of "pass_if g22" "''G22''"]]
    by (simp add: f gate_ids_set)
  from settles_trans [OF st this]
  show "settles [''G12'', ''G18'', ''G19'', ''G21'', ''G22''] a (found_gates f)" by simp
  show "closing_earned V E shaped difference policy current_state candidate"
    if "list_all (\<lambda>g. map_of (found_gates f) g = Some PASS) [''G12'', ''G19'', ''G21'', ''G22'']"
  proof -
    have g: "map_of b ''G12'' = Some PASS" "g19 = True" "g21 = True" "g22 = True" using that by (simp_all add: f)
    show ?thesis
      using g12_g18_earned(2) [OF b g(1)] invariants_hold_earned [OF i(3) [unfolded g(2)]] i(4) k(3)
        claims_hold_earned [OF k(4) [unfolded g(3)]] terminal_status_allowed_True [OF t [unfolded g(4)]]
      unfolding closing_earned_def items_entries [OF i(1)] items_entries [OF i(2)] items_entries [OF k(1)]
        items_entries [OF k(2)] by blast
  qed
  show "\<exists>ms. optional_field shaped ''material_contradictions'' = JList ms
      \<and> filterE is_material ms = Inr (found_blocking f)"
    using ms by (auto simp: items_def)
  show "optional_dict shaped ''evidence_sufficiency_request'' \<noteq> JNull" if "map_of (found_gates f) ''G12'' = Some PASS"
    using g12_g18_fresh(1) [OF b] that by (simp add: f)
  show "jfield (found_sufficiency f) ''result'' \<noteq> Some (JStr (u ''STALE''))" if "map_of (found_gates f) ''G18'' = Some PASS"
    using g12_g18_fresh(2) [OF b] that by (simp add: f)
qed

definition resolution_earned :: "closure_env \<Rightarrow> ext \<Rightarrow> json \<Rightarrow> json \<Rightarrow> bool" where
  "resolution_earned V E request difference \<longleftrightarrow>
     (\<exists>q after_refs. resolution_of request = Inr q \<and> resolved_one_way q
        \<and> reproduced_satisfied V E difference (optional_dict request ''reobservation'') (res_snapshot_refs q)
        \<and> jfield (optional_dict request ''reobservation'') ''after_observation_refs'' = Some (JList after_refs)
        \<and> resolution_evidenced V E q after_refs)"

lemma evaluate_gates_stages:
  assumes "evaluate_gates V E shaped difference policy current_state candidate witness_ref = Inr (q, f)"
  obtains a r c d where "first_gates E shaped difference current_state witness_ref (candidate \<noteq> JNull) = Inr a"
    "resolution_of shaped = Inr q"
    "evaluate_reproduction_gates V E difference policy (optional_dict shaped ''reobservation'') q
      (evaluate_g6_g11 (res_mode q) (res_change_refs q) (res_change_evidence q) (res_free_evidence q) a) = Inr (r, c, d)"
    "last_gates V E shaped difference policy current_state candidate q (r, c, d) = Inr f"
  using assms unfolding evaluate_gates_def Let_def by (auto elim!: bindE_InrE)

lemma evaluate_gates_decided:
  assumes "evaluate_gates V E shaped difference policy current_state candidate witness_ref = Inr (q, f)"
  shows "map fst (found_gates f) = gate_ids"
    and "g \<in> set gate_ids \<Longrightarrow> \<exists>v. map_of (found_gates f) g = Some v \<and> v \<noteq> NOT_APPLICABLE"
proof -
  obtain a r c d where a: "first_gates E shaped difference current_state witness_ref (candidate \<noteq> JNull) = Inr a" and
    r: "evaluate_reproduction_gates V E difference policy (optional_dict shaped ''reobservation'') q
      (evaluate_g6_g11 (res_mode q) (res_change_refs q) (res_change_evidence q) (res_free_evidence q) a) = Inr (r, c, d)" and
    f: "last_gates V E shaped difference policy current_state candidate q (r, c, d) = Inr f"
    by (rule evaluate_gates_stages [OF assms])
  have "settles ([''G1'', ''G2'', ''G3'', ''G4'', ''G5'', ''G20''] @ [''G6'', ''G11''] @ (reproduction_gates @ [''G8''])
      @ [''G12'', ''G18'', ''G19'', ''G21'', ''G22'']) no_gates (found_gates f)"
    using settles_trans [OF first_gates_settle(1) [OF a] settles_trans [OF g6_g11_settles
      settles_trans [OF reproduction_settles(1) [OF r, unfolded fst_conv] last_gates_settle(1) [OF f]]]] by simp
  then have st: "settles gate_ids no_gates (found_gates f)"
    by (rule settles_same [rotated]) (auto simp: gate_ids_set reproduction_gates_def)
  have "map fst no_gates = gate_ids" by (simp add: no_gates_def comp_def)
  then show "map fst (found_gates f) = gate_ids" using st by (simp add: settles_def)
  show "\<exists>v. map_of (found_gates f) g = Some v \<and> v \<noteq> NOT_APPLICABLE" if "g \<in> set gate_ids"
    using st that by (simp add: settles_def)
qed

lemma all_pass_keys:
  assumes "map fst gs = gate_ids" "\<And>g. g \<in> set gate_ids \<Longrightarrow> map_of gs g = Some PASS"
  shows "all_pass gs"
proof -
  have d: "distinct (map fst gs)" unfolding assms(1) by (simp add: gate_ids_def)
  have "v = PASS" if m: "(g, v) \<in> set gs" for g v
  proof -
    have "g \<in> set gate_ids" using m unfolding assms(1) [symmetric] by force
    then show ?thesis using assms(2) map_of_is_SomeI [OF d m] by simp
  qed
  then show ?thesis by (auto simp: all_pass_def list_all_iff)
qed

definition gates_earned :: "closure_env \<Rightarrow> ext \<Rightarrow> json \<Rightarrow> json \<Rightarrow> json \<Rightarrow> json \<Rightarrow> json \<Rightarrow> bool" where
  "gates_earned V E request difference policy current_state candidate \<longleftrightarrow>
     subject_earned E request difference current_state \<and> resolution_earned V E request difference
     \<and> closing_earned V E request difference policy current_state candidate"

lemma evaluate_gates_earned:
  assumes "evaluate_gates V E shaped difference policy current_state candidate witness_ref = Inr (q, f)"
    and p: "\<And>g. g \<in> set gate_ids \<Longrightarrow> map_of (found_gates f) g = Some PASS"
  shows "gates_earned V E shaped difference policy current_state candidate"
    "result_of shaped (candidate \<noteq> JNull) f =
      (if found_blocking f = [] then (''SATISFIED'', ''CANDIDATE_CLOSURE'') else (''CONTRADICTED'', ''CANDIDATE_TERMINAL''))"
proof -
  obtain a r c d where a: "first_gates E shaped difference current_state witness_ref (candidate \<noteq> JNull) = Inr a" and
    q: "resolution_of shaped = Inr q" and
    r: "evaluate_reproduction_gates V E difference policy (optional_dict shaped ''reobservation'') q
      (evaluate_g6_g11 (res_mode q) (res_change_refs q) (res_change_evidence q) (res_free_evidence q) a) = Inr (r, c, d)" and
    f: "last_gates V E shaped difference policy current_state candidate q (r, c, d) = Inr f"
    by (rule evaluate_gates_stages [OF assms(1)])
  note l = settled_gate [OF last_gates_settle(1) [OF f]] settled_gate [OF reproduction_settles(1) [OF r]]
    settled_gate [OF g6_g11_settles]
  have "map_of a g = Some PASS" if "g \<in> set [''G1'', ''G2'', ''G3'', ''G4'', ''G5'']" for g
    using l(1) [of g] l(2) [of g] l(3) [of g] p [of g] that by (auto simp: gate_ids_set reproduction_gates_def)
  then have early: "list_all (\<lambda>g. map_of a g = Some PASS) [''G1'', ''G2'', ''G3'', ''G4'', ''G5'']"
    by (simp only: list_all_iff) blast
  have mid: "map_of r ''G10'' = Some PASS" "map_of r ''G8'' = Some PASS"
    using l(1) [of "''G10''"] l(1) [of "''G8''"] p [of "''G10''"] p [of "''G8''"] by (simp_all add: gate_ids_set)
  have six: "map_of (evaluate_g6_g11 (res_mode q) (res_change_refs q) (res_change_evidence q) (res_free_evidence q) a)
      ''G6'' = Some PASS"
    using l(1) [of "''G6''"] l(2) [of "''G6''"] p [of "''G6''"] by (simp add: gate_ids_set reproduction_gates_def)
  have closing: "closing_earned V E shaped difference policy current_state candidate"
    using last_gates_settle(2) [OF f] p by (simp add: gate_ids_set)
  have resolution: "resolution_earned V E shaped difference"
    using q g6_g11_earned [OF six] reproduction_settles(2,3) [OF r, unfolded fst_conv] g8_earned mid
    unfolding resolution_earned_def by fastforce
  then have re: "optional_dict shaped ''reobservation'' \<noteq> JNull"
    unfolding resolution_earned_def by (auto simp: jfield_def)
  show "gates_earned V E shaped difference policy current_state candidate"
    using first_gates_settle(2) [OF a early re] resolution closing unfolding gates_earned_def by blast
  have "all_pass (found_gates f)"
    using all_pass_keys evaluate_gates_decided(1) [OF assms(1)] p by blast
  then show "result_of shaped (candidate \<noteq> JNull) f =
      (if found_blocking f = [] then (''SATISFIED'', ''CANDIDATE_CLOSURE'') else (''CONTRADICTED'', ''CANDIDATE_TERMINAL''))"
    using last_gates_settle(4,5) [OF f] p [of "''G12''"] p [of "''G18''"] re closing
    by (simp add: gate_ids_set result_of_def closure_result_def closing_earned_def)
qed

section \<open>The evaluation\<close>

lemma closure_stages:
  assumes "evaluate_closure V E request = Inr ev"
  shows "\<exists>difference policy current_state candidate witness_ref q f deadline refs rs kvs identity.
    closure_subject V request = Inr (difference, policy, current_state)
    \<and> candidate_of E request current_state = Inr candidate
    \<and> evaluate_gates V E request difference policy current_state candidate witness_ref = Inr (q, f)
    \<and> optional_field request ''terminal_reason_evidence_refs'' = JList refs
    \<and> admit_result V E request difference f refs (snd (result_of request (candidate \<noteq> JNull) f)) = Inr ()
    \<and> evaluation_fields V request difference policy current_state candidate witness_ref rs f refs deadline
        (result_of request (candidate \<noteq> JNull) f) = Inr kvs
    \<and> closure_evaluation_id E (obj kvs) = Inr identity \<and> legal_closure request = Inr ()
    \<and> ev = aset ''closure_evaluation_id'' (JStr identity) (obj kvs)"
proof -
  have [simp]: "require_closure_request request = Inr shaped \<longleftrightarrow> shaped = request
      \<and> is_obj request \<and> exact_keys closure_request_keys request" for shaped
    by (auto simp: require_closure_request_def)
  show ?thesis
    using assms unfolding evaluate_closure_def finish_evaluation_def Let_def
    by (elim bindE_InrE bind_pair bind_triple) (fastforce simp: items_def)
qed

lemma evaluation_field:
  assumes "evaluation_fields V shaped difference policy current_state candidate witness_ref rs f refs deadline result = Inr kvs"
  shows "map_of kvs ''gate_results'' = Some (gate_results (found_gates f))"
    and "map_of kvs ''result'' = Some (JStr (u (fst result)))"
    and "map_of kvs ''proposed_terminal_status'' = Some (optional_field shaped ''proposed_terminal_status'')"
  using assms unfolding evaluation_fields_def by (auto elim!: bindE_InrE simp: listed_def)

lemma gate_results_by_id:
  assumes "map fst gs = gate_ids"
  shows "gate_results gs = obj (map (\<lambda>g. (g, JStr (u (gate_text (the (map_of gs g)))))) gate_ids)"
proof -
  have d: "distinct (map fst gs)" unfolding assms by (simp add: gate_ids_def)
  have "map (\<lambda>(g, v). (g, JStr (u (gate_text v)))) gs
      = map (\<lambda>g. (g, JStr (u (gate_text (the (map_of gs g)))))) (map fst gs)"
    using d by (auto simp: map_of_is_SomeI)
  then show ?thesis unfolding gate_results_def assms [symmetric] by (rule arg_cong)
qed

definition no_material :: "json \<Rightarrow> bool" where
  "no_material request \<longleftrightarrow>
     (\<exists>ms. optional_field request ''material_contradictions'' = JList ms \<and> filterE is_material ms = Inr [])"

lemma closure_result_satisfied:
  "fst (closure_result has contradicted outdated missing gs) = ''SATISFIED'' \<longleftrightarrow>
     has \<and> \<not> contradicted \<and> \<not> outdated \<and> \<not> missing \<and> all_pass gs"
  "snd (closure_result has contradicted outdated missing gs) = ''CANDIDATE_CLOSURE'' \<longleftrightarrow>
     fst (closure_result has contradicted outdated missing gs) = ''SATISFIED''"
  by (simp_all add: closure_result_def)

lemma evaluate_gates_blocking:
  assumes "evaluate_gates V E shaped difference policy current_state candidate witness_ref = Inr (q, f)"
  shows "no_material shaped \<longleftrightarrow> found_blocking f = []"
proof -
  obtain r c d where "last_gates V E shaped difference policy current_state candidate q (r, c, d) = Inr f"
    by (rule evaluate_gates_stages [OF assms])
  from last_gates_settle(3) [OF this] show ?thesis by (auto simp: no_material_def)
qed

lemma all_pass_every:
  assumes k: "map fst gs = gate_ids" and a: "\<And>g. g \<in> set gate_ids \<Longrightarrow> \<exists>v. map_of gs g = Some v \<and> v \<noteq> NOT_APPLICABLE"
  shows "all_pass gs \<longleftrightarrow> (\<forall>g \<in> set gate_ids. the (map_of gs g) = PASS)"
proof
  assume l: "all_pass gs"
  show "\<forall>g \<in> set gate_ids. the (map_of gs g) = PASS"
  proof
    fix g
    assume "g \<in> set gate_ids"
    then obtain v where v: "map_of gs g = Some v" "v \<noteq> NOT_APPLICABLE" using a by blast
    then show "the (map_of gs g) = PASS"
      using l map_of_SomeD [OF v(1)] by (auto simp: all_pass_def list_all_iff)
  qed
next
  assume r: "\<forall>g \<in> set gate_ids. the (map_of gs g) = PASS"
  show "all_pass gs" using all_pass_keys [OF k] a r by (metis option.sel)
qed

lemma closure_subject_fields:
  "closure_subject V request = Inr (difference, policy, current_state) \<Longrightarrow>
     jfield request ''difference'' = Some difference \<and> jfield request ''policy'' = Some policy
     \<and> jfield request ''current_state'' = Some current_state"
  by (auto simp: closure_subject_def optional_field_def elim!: bindE_InrE split: option.splits)

lemma closes_as_satisfied:
  assumes "evaluate_gates V E request difference policy current_state candidate witness_ref = Inr (q, f)"
    and "admit_result V E request difference f refs (snd (result_of request (candidate \<noteq> JNull) f)) = Inr ()"
  shows "(\<forall>g \<in> set gate_ids. the (map_of (found_gates f) g) = PASS) \<Longrightarrow>
      gates_earned V E request difference policy current_state candidate"
    and "fst (result_of request (candidate \<noteq> JNull) f) = ''SATISFIED'' \<longleftrightarrow>
      (\<forall>g \<in> set gate_ids. the (map_of (found_gates f) g) = PASS) \<and> no_material request"
    and "optional_field request ''proposed_terminal_status'' = JStr (u ''CLOSED'') \<longleftrightarrow>
      fst (result_of request (candidate \<noteq> JNull) f) = ''SATISFIED''"
proof -
  let ?all = "\<forall>g \<in> set gate_ids. the (map_of (found_gates f) g) = PASS"
  note keys = evaluate_gates_decided [OF assms(1)]
  have pass: "gates_earned V E request difference policy current_state candidate"
      "result_of request (candidate \<noteq> JNull) f =
        (if found_blocking f = [] then (''SATISFIED'', ''CANDIDATE_CLOSURE'') else (''CONTRADICTED'', ''CANDIDATE_TERMINAL''))"
    if ?all
    using evaluate_gates_earned [OF assms(1)] keys(2) that by (metis option.sel)+
  show "gates_earned V E request difference policy current_state candidate" if ?all using pass(1) that .
  have every: "all_pass (found_gates f) \<longleftrightarrow> ?all" using all_pass_every keys by blast
  show "fst (result_of request (candidate \<noteq> JNull) f) = ''SATISFIED'' \<longleftrightarrow> ?all \<and> no_material request"
  proof
    show "?all \<and> no_material request" if "fst (result_of request (candidate \<noteq> JNull) f) = ''SATISFIED''"
      using that unfolding result_of_def closure_result_satisfied(1) every evaluate_gates_blocking [OF assms(1)] by blast
    show "fst (result_of request (candidate \<noteq> JNull) f) = ''SATISFIED''" if "?all \<and> no_material request"
      using that pass(2) evaluate_gates_blocking [OF assms(1)] by simp
  qed
  show "optional_field request ''proposed_terminal_status'' = JStr (u ''CLOSED'') \<longleftrightarrow>
      fst (result_of request (candidate \<noteq> JNull) f) = ''SATISFIED''"
    using assms(2) closure_result_satisfied(2) unfolding admit_result_def Let_def result_of_def one_of_def
    by (auto split: if_splits elim!: bindE_InrE)
qed

text \<open>C3: what SATISFIED means. An evaluation decides every one of the 22 gates: none stays
  NOT_APPLICABLE, although the code would let such a gate count as passed. It is SATISFIED exactly when
  every gate is PASS and no contradiction of the request is material, and CLOSED is proposed exactly by a
  SATISFIED evaluation. When every gate is PASS the Difference has earned it: it is VERIFYING and
  recomputes to its own identity, for the Objective revision it was derived for, at the Kernel source and
  in no older State than it was observed in; it was resolved by Changes or without one, shown by Evidence
  that is reproduced and named exactly; deriving it again from exactly the observations named after the
  Change found its predicate satisfied; the Evidence of the request is SUFFICIENT for it by this Policy;
  the Kernel source is witnessed to contain the pinned invariants, and every mandatory or required
  invariant passed for the candidate State, at its pinned definition; the mandatory and the required
  completion claims are SATISFIED for the candidate; and the Policy allows the status proposed.\<close>

theorem closure_satisfied:
  assumes "evaluate_closure V E request = Inr ev"
  shows "\<exists>difference policy current_state candidate verdicts. jfield request ''difference'' = Some difference
    \<and> jfield request ''policy'' = Some policy \<and> jfield request ''current_state'' = Some current_state
    \<and> candidate_of E request current_state = Inr candidate
    \<and> jfield ev ''gate_results'' = Some (obj (map (\<lambda>g. (g, JStr (u (gate_text (verdicts g))))) gate_ids))
    \<and> (\<forall>g \<in> set gate_ids. verdicts g \<noteq> NOT_APPLICABLE)
    \<and> (jfield ev ''result'' = Some (JStr (u ''SATISFIED'')) \<longleftrightarrow>
         (\<forall>g \<in> set gate_ids. verdicts g = PASS) \<and> no_material request)
    \<and> ((\<forall>g \<in> set gate_ids. verdicts g = PASS) \<longrightarrow>
         gates_earned V E request difference policy current_state candidate)
    \<and> (jfield ev ''proposed_terminal_status'' = Some (JStr (u ''CLOSED'')) \<longleftrightarrow>
         jfield ev ''result'' = Some (JStr (u ''SATISFIED'')))"
proof -
  obtain difference policy current_state candidate witness_ref q f deadline refs rs kvs identity where
    d: "closure_subject V request = Inr (difference, policy, current_state)" and
    c: "candidate_of E request current_state = Inr candidate" and
    g: "evaluate_gates V E request difference policy current_state candidate witness_ref = Inr (q, f)" and
    a: "admit_result V E request difference f refs (snd (result_of request (candidate \<noteq> JNull) f)) = Inr ()" and
    k: "evaluation_fields V request difference policy current_state candidate witness_ref rs f refs deadline
        (result_of request (candidate \<noteq> JNull) f) = Inr kvs" and
    ev: "ev = aset ''closure_evaluation_id'' (JStr identity) (obj kvs)"
    using closure_stages [OF assms] by blast
  let ?v = "\<lambda>g. the (map_of (found_gates f) g)"
  note keys = evaluate_gates_decided [OF g] and outcome = closes_as_satisfied [OF g a]
  have fields: "jfield ev ''gate_results'' = Some (obj (map (\<lambda>g. (g, JStr (u (gate_text (?v g))))) gate_ids))"
    "jfield ev ''result'' = Some (JStr (u (fst (result_of request (candidate \<noteq> JNull) f))))"
    "jfield ev ''proposed_terminal_status'' = Some (optional_field request ''proposed_terminal_status'')"
    using evaluation_field [OF k] by (simp_all add: ev jfield_aset obj_field gate_results_by_id [OF keys(1)])
  have "jfield ev ''result'' = Some (JStr (u ''SATISFIED'')) \<longleftrightarrow>
      (\<forall>g \<in> set gate_ids. ?v g = PASS) \<and> no_material request"
    using outcome(2) by (simp add: fields(2))
  moreover have "jfield ev ''proposed_terminal_status'' = Some (JStr (u ''CLOSED'')) \<longleftrightarrow>
      jfield ev ''result'' = Some (JStr (u ''SATISFIED''))"
    using outcome(3) by (simp add: fields(2,3))
  moreover have "\<forall>g \<in> set gate_ids. ?v g \<noteq> NOT_APPLICABLE" using keys(2) by (metis option.sel)
  moreover have "(\<forall>g \<in> set gate_ids. ?v g = PASS) \<longrightarrow>
      gates_earned V E request difference policy current_state candidate" using outcome(1) by blast
  ultimately show ?thesis
    using fields(1) c closure_subject_fields [OF d]
    by - (rule exI [of _ difference], rule exI [of _ policy], rule exI [of _ current_state],
        rule exI [of _ candidate], rule exI [of _ ?v], simp only: simp_thms)
qed

section \<open>Terminal reasons\<close>

lemma terminal_reasons_cited:
  assumes "terminal_reasons_resolve V E shaped difference refs = Inr x"
  shows "\<exists>requests records. refs \<noteq> [] \<and> optional_field shaped ''terminal_reason_evidence_requests'' = JList requests
    \<and> requests \<noteq> [] \<and> resolve_terminal_reason_evidence (owners_of V) E refs requests difference = Inr records"
proof -
  obtain requests r where r: "refs \<noteq> []" "requests \<noteq> []"
      "optional_field shaped ''terminal_reason_evidence_requests'' = JList requests"
      "attempt_evidence (resolve_terminal_reason_evidence (owners_of V) E refs requests difference) = Inr r" "r \<noteq> None"
    using assms unfolding terminal_reasons_resolve_def by (auto elim!: bindE_InrE simp: items_def)
  then obtain records where "r = Some records" by blast
  then have "resolve_terminal_reason_evidence (owners_of V) E refs requests difference = Inr records"
    using r(4) by (simp add: attempt_evidence_Some)
  then show ?thesis using r(1-3) by blast
qed

lemma mapE_all: "mapE f xs = Inr ys \<Longrightarrow> x \<in> set xs \<Longrightarrow> \<exists>y. f x = Inr y"
  by (induction xs arbitrary: ys) auto

definition reason_about :: "json \<Rightarrow> json \<Rightarrow> bool" where
  "reason_about difference v \<longleftrightarrow>
     (\<exists>d i own. jfield v ''difference_ref'' = Some d \<and> jfield d ''id'' = Some i
        \<and> jfield difference ''difference_id'' = Some own \<and> py_eq i own)
     \<and> (\<exists>t p own. jfield v ''target'' = Some t \<and> jfield t ''project_id'' = Some p
        \<and> jfield difference ''project_id'' = Some own \<and> py_eq p own)"

lemma terminal_reasons_exact:
  assumes "resolve_terminal_reason_evidence R E refs requests difference = Inr records"
  shows "mapE (derive_evidence R E) requests = Inr records"
    and "\<exists>ids. mapE (\<lambda>r. afield r ''evidence_id'') records = Inr ids \<and> set ids = set (List.map_filter optional_id refs)"
    and "\<forall>v \<in> set records. reason_about difference v"
proof -
  obtain ids xs where r: "mapE (derive_evidence R E) requests = Inr records"
      "mapE (\<lambda>r. afield r ''evidence_id'') records = Inr ids" "set ids = set (List.map_filter optional_id refs)"
      "mapE (about_difference difference) records = Inr xs"
    using assms unfolding resolve_terminal_reason_evidence_def by (auto elim!: bindE_InrE)
  show "mapE (derive_evidence R E) requests = Inr records"
    "\<exists>ids. mapE (\<lambda>r. afield r ''evidence_id'') records = Inr ids \<and> set ids = set (List.map_filter optional_id refs)"
    using r(1-3) by blast+
  show "\<forall>v \<in> set records. reason_about difference v"
  proof
    fix v
    assume "v \<in> set records"
    then obtain x where "about_difference difference v = Inr x" using mapE_all [OF r(4)] by blast
    then show "reason_about difference v" by (auto simp: about_difference_def reason_about_def)
  qed
qed

lemma terminal_refs_field:
  "evaluation_fields V shaped difference policy current_state candidate witness_ref rs f refs deadline result = Inr kvs
     \<Longrightarrow> map_of kvs ''terminal_reason_evidence_refs'' = Some (JList refs)"
  unfolding evaluation_fields_def by (auto elim!: bindE_InrE simp: listed_def)

text \<open>C9: an evaluation that does not close says why, with Evidence. It proposes BLOCKED or RETAINED, a
  transition the lifecycle permits from the status held; it names at least one terminal reason; and the
  reasons are exactly the identities of the Evidence the requests of the caller reproduce, all of it
  about the Difference and the project of the evaluation.\<close>

theorem closure_terminal_grounded:
  assumes "evaluate_closure V E request = Inr ev"
    and "jfield ev ''result'' \<noteq> Some (JStr (u ''SATISFIED''))"
  shows "\<exists>difference refs requests records. jfield request ''difference'' = Some difference
    \<and> one_of [''BLOCKED'', ''RETAINED''] (optional_field request ''proposed_terminal_status'')
    \<and> is_legal_transition (optional_field request ''current_status'') (optional_field request ''proposed_terminal_status'')
    \<and> jfield ev ''terminal_reason_evidence_refs'' = Some (JList refs) \<and> refs \<noteq> []
    \<and> optional_field request ''terminal_reason_evidence_requests'' = JList requests \<and> requests \<noteq> []
    \<and> mapE (derive_evidence (owners_of V) E) requests = Inr records
    \<and> (\<exists>ids. mapE (\<lambda>r. afield r ''evidence_id'') records = Inr ids
         \<and> set ids = set (List.map_filter optional_id refs))
    \<and> (\<forall>v \<in> set records. reason_about difference v)"
proof -
  obtain difference policy current_state candidate witness_ref q f deadline refs rs kvs identity where
    d: "closure_subject V request = Inr (difference, policy, current_state)" and
    a: "admit_result V E request difference f refs (snd (result_of request (candidate \<noteq> JNull) f)) = Inr ()" and
    k: "evaluation_fields V request difference policy current_state candidate witness_ref rs f refs deadline
        (result_of request (candidate \<noteq> JNull) f) = Inr kvs" and
    l: "legal_closure request = Inr ()" and
    ev: "ev = aset ''closure_evaluation_id'' (JStr identity) (obj kvs)"
    using closure_stages [OF assms(1)] by blast
  have "fst (result_of request (candidate \<noteq> JNull) f) \<noteq> ''SATISFIED''"
    using assms(2) evaluation_field(2) [OF k] by (simp add: ev jfield_aset obj_field)
  then have "snd (result_of request (candidate \<noteq> JNull) f) \<noteq> ''CANDIDATE_CLOSURE''"
    using closure_result_satisfied(2) unfolding result_of_def by blast
  then have p: "one_of [''BLOCKED'', ''RETAINED''] (optional_field request ''proposed_terminal_status'')"
      "terminal_reasons_resolve V E request difference refs = Inr ()"
    using a by (auto simp: admit_result_def Let_def elim!: bindE_InrE)
  have legal: "is_legal_transition (optional_field request ''current_status'') (optional_field request ''proposed_terminal_status'')"
    using l unfolding legal_closure_def by (auto elim!: bindE_InrE as_key.elims)
  have refs: "jfield ev ''terminal_reason_evidence_refs'' = Some (JList refs)"
    using terminal_refs_field [OF k] by (simp add: ev jfield_aset obj_field)
  have "jfield request ''difference'' = Some difference" using closure_subject_fields [OF d] by blast
  moreover obtain requests records where r: "refs \<noteq> []"
      "optional_field request ''terminal_reason_evidence_requests'' = JList requests" "requests \<noteq> []"
      "resolve_terminal_reason_evidence (owners_of V) E refs requests difference = Inr records"
    using terminal_reasons_cited [OF p(2)] by blast
  ultimately show ?thesis
    using p(1) legal refs r(1-3) terminal_reasons_exact [OF r(4)]
    by - (rule exI [of _ difference], rule exI [of _ refs], rule exI [of _ requests], rule exI [of _ records],
        intro conjI)
qed

section \<open>Identity\<close>

lemma without_aset [simp]: "without k (aset k x v) = without k v"
proof (cases v)
  case (JObj kvs)
  have "filter (\<lambda>(j, x). j \<noteq> u k) (AList.update (u k) x kvs) = filter (\<lambda>(j, x). j \<noteq> u k) kvs"
    by (induction kvs) auto
  then show ?thesis by (simp add: JObj)
qed auto

lemma without_swap: "without k (without j v) = without j (without k v)"
proof (cases v)
  case (JObj kvs)
  have "filter P (filter Q kvs) = filter Q (filter P kvs)" for P Q by (simp add: conj_commute)
  then show ?thesis unfolding JObj without.simps by (rule arg_cong)
qed auto

text \<open>An evaluation is addressed by what it decides. Its identity is the content address of the
  record without the identity and without the receipt of the transition that commits it, so stamping the
  receipt later does not move it.\<close>

theorem closure_identity:
  assumes "evaluate_closure V E request = Inr ev"
  shows "\<exists>i. jfield ev ''closure_evaluation_id'' = Some (JStr i)
    \<and> closure_evaluation_id E (aset ''reflow_transition_ref'' receipt ev) = Inr i"
proof -
  obtain kvs identity where e: "closure_evaluation_id E (obj kvs) = Inr identity"
    "ev = aset ''closure_evaluation_id'' (JStr identity) (obj kvs)"
    using closure_stages [OF assms] by blast
  let ?c = "''closure_evaluation_id''" and ?r = "''reflow_transition_ref''"
  have "without ?c (without ?r (aset ?r receipt ev)) = without ?c (without ?r (obj kvs))"
    unfolding without_aset by (simp add: e(2) without_swap [of ?c ?r])
  then have "closure_evaluation_id E (aset ?r receipt ev) = Inr identity"
    using e(1) by (simp add: closure_evaluation_id_def content_address_def)
  then show ?thesis by (simp add: e(2) jfield_aset)
qed

end
