(* ===== verification/ClosureExample.thy ===== *)
theory ClosureExample
  imports ClosureProps EvidenceExample
begin

text \<open>
  One evaluation that does not close: a VERIFYING Difference is proposed as BLOCKED, without a candidate,
  on the Observation Evidence of \<open>EvidenceExample\<close>.
\<close>

section \<open>The environment and the request\<close>

definition cl_env :: closure_env where
  "cl_env = \<lparr> reobserve = (\<lambda>_. Inr (obj [(''observations'', JList [ev_observation])])),
     rederive = (\<lambda>_. Inr (obj [(''differences'', JList [ev_difference])])), timekeeper = (\<lambda>_. None),
     invariants = \<lparr> verify_invariant = (\<lambda>_ _. Inr (JStr (u ''PASS''), [])), verification_stage_and_method = (\<lambda>_. (JNull, JNull)) \<rparr>,
     wording = (\<lambda>_ g. u g) \<rparr>"

lemma cl_owners: "owners_of cl_env = ev_owners"
  by (simp add: owners_of_def cl_env_def ev_owners_def)

definition cl_text :: "string \<Rightarrow> json" where
  "cl_text s = JStr (u s)"

definition cl_difference :: json where
  "cl_difference = obj
     [(''difference_id'', cl_text ''D-1''), (''project_id'', cl_text ''PRJ-A''), (''objective_semantic_fingerprint'', cl_text ''sha256:0''),
      (''target_predicate_ref'', ev_ref ''target_predicate'' ''P-1''), (''subject'', cl_text ''service''),
      (''observation_scope'', cl_text ''whole''), (''effective_boundary'', cl_text ''now''),
      (''normalized_target_state'', cl_text ''up''), (''structural_difference'', cl_text ''down''),
      (''closure_policy'', obj [(''semantic_fingerprint'', cl_text ''sha256:2'')]),
      (''objective_revision_ref'', ev_ref ''objective_revision'' ''OBJ-1''), (''observed_state_revision'', JInt 3)]"

definition cl_reason :: json where
  "cl_reason = typed_ref ''observation_evidence'' (JStr ev_id)"

definition cl_request :: json where
  "cl_request = obj
     [(''difference'', cl_difference), (''current_status'', cl_text ''VERIFYING''), (''policy'', ev_policy),
      (''difference_event_head_ref'', ev_ref ''difference_event'' ''D-EVT-1''),
      (''current_state'', obj [(''revision'', JInt 3), (''fingerprint'', cl_text ''sha256:1'')]),
      (''objective_revision_id'', cl_text ''OBJ-1''), (''objective_revision'', JNull),
      (''kernel_source_ref'', obj [(''commit_sha'', cl_text ''c0'')]),
      (''base_kernel_source_ref'', obj [(''commit_sha'', cl_text ''c0'')]), (''resolution_mode'', JNull),
      (''change_refs'', JList []), (''change_result_evidence_refs'', JList []),
      (''change_result_evidence_requests'', JList []), (''change_free_verification_evidence_refs'', JList []),
      (''change_free_verification_evidence_requests'', JList []), (''reobservation'', JNull),
      (''evidence_sufficiency_request'', JNull), (''after_state_semantic_state'', JNull),
      (''source_snapshot_refs'', JList []), (''source_snapshots'', JList []), (''producing_change_refs'', JList []),
      (''candidate_invariant_evaluation_bindings'', JList []), (''candidate_claim_evaluation_bindings'', JList []),
      (''candidate_claim_evaluation_events'', JList []), (''invariant_evaluations'', JList []),
      (''kernel_source_witness'', JNull), (''material_contradictions'', JList []),
      (''terminal_reason_evidence_refs'', JList [cl_reason]), (''terminal_reason_evidence_requests'', JList [ev_request]),
      (''proposed_terminal_status'', cl_text ''BLOCKED''), (''evaluated_at'', JStr ex_at)]"

lemma cl_get:
  "optional_field cl_request ''difference'' = cl_difference" "optional_field cl_request ''current_status'' = cl_text ''VERIFYING''"
  "optional_field cl_request ''policy'' = ev_policy"
  "optional_field cl_request ''difference_event_head_ref'' = ev_ref ''difference_event'' ''D-EVT-1''"
  "optional_field cl_request ''current_state'' = obj [(''revision'', JInt 3), (''fingerprint'', cl_text ''sha256:1'')]"
  "optional_field cl_request ''objective_revision_id'' = cl_text ''OBJ-1''"
  "optional_field cl_request ''objective_revision'' = JNull"
  "optional_field cl_request ''kernel_source_ref'' = obj [(''commit_sha'', cl_text ''c0'')]"
  "optional_field cl_request ''base_kernel_source_ref'' = obj [(''commit_sha'', cl_text ''c0'')]"
  "optional_field cl_request ''resolution_mode'' = JNull" "optional_field cl_request ''reobservation'' = JNull"
  "optional_field cl_request ''evidence_sufficiency_request'' = JNull"
  "optional_field cl_request ''after_state_semantic_state'' = JNull"
  "optional_field cl_request ''kernel_source_witness'' = JNull"
  "optional_field cl_request ''terminal_reason_evidence_refs'' = JList [cl_reason]"
  "optional_field cl_request ''terminal_reason_evidence_requests'' = JList [ev_request]"
  "optional_field cl_request ''proposed_terminal_status'' = cl_text ''BLOCKED''"
  "optional_field cl_request ''evaluated_at'' = JStr ex_at"
  by (simp_all add: optional_field_def cl_request_def obj_field)

lemma cl_lists:
  "k \<in> {''change_refs'', ''change_result_evidence_refs'', ''change_result_evidence_requests'',
     ''change_free_verification_evidence_refs'', ''change_free_verification_evidence_requests'',
     ''source_snapshot_refs'', ''source_snapshots'', ''producing_change_refs'',
     ''candidate_invariant_evaluation_bindings'', ''candidate_claim_evaluation_bindings'',
     ''candidate_claim_evaluation_events'', ''invariant_evaluations'', ''material_contradictions''}
   \<Longrightarrow> items cl_request k = Inr []"
  by (elim insertE emptyE) (simp_all add: items_def optional_field_def cl_request_def obj_field)

lemma cl_admitted: "require_closure_request cl_request = Inr cl_request"
  by (simp add: require_closure_request_def exact_keys_def known_keys_def cl_request_def obj_def jfield_def
      closure_request_keys_def)

lemma cl_subject: "closure_subject cl_env cl_request
    = Inr (cl_difference, ev_policy, obj [(''revision'', JInt 3), (''fingerprint'', cl_text ''sha256:1'')])"
proof -
  have "ex_at \<noteq> []" by (simp add: ex_at_def u_Cons)
  then show ?thesis
    by (simp add: closure_subject_def dict_at_def cl_get ev_policy_fields afield_def ex_at_clock cl_difference_def
        obj_field ev_ref_def typed_ref_def cl_text_def)
qed

section \<open>Records that are their own projection\<close>

lemma semantic_obj:
  assumes "list_all (\<lambda>(k, v). k \<noteq> ''collection_kind'' \<and> canonical_semantic E v = Inr v) kvs"
  shows "canonical_semantic E (obj kvs) = Inr (obj kvs)"
proof -
  have "mapE (\<lambda>(k, x). bindE (canonical_semantic E x) (\<lambda>y. Inr (k, y))) (map (\<lambda>(k, v). (u k, v)) kvs)
      = Inr (map (\<lambda>(k, v). (u k, v)) kvs)"
    using assms by (induction kvs) auto
  moreover have "map_of (map (\<lambda>(k, v). (u k, v)) kvs) (u ''collection_kind'') = None"
    using assms by (auto simp: map_of_eq_None_iff list_all_iff)
  ultimately show ?thesis by (simp add: obj_def sort_members_def)
qed

lemma semantic_list: "list_all (\<lambda>v. canonical_semantic E v = Inr v) xs \<Longrightarrow> canonical_semantic E (JList xs) = Inr (JList xs)"
proof -
  assume "list_all (\<lambda>v. canonical_semantic E v = Inr v) xs"
  then have "mapE (canonical_semantic E) xs = Inr xs" by (induction xs) auto
  then show ?thesis by simp
qed

lemma plain_hash_exists:
  assumes "canonical_semantic ascii_ext v = Inr v" and "plain_any ascii_ext False v"
  shows "\<exists>h. hashed ascii_ext d v = Inr h \<and> plain_str h"
  using assms plain_any_canonical [OF nfc_ascii_example assms(2)]
  by (simp add: hashed_def canonical_bytes_def canonA_def)

lemma ref_semantic: "canonical_semantic E (typed_ref k v) = Inr (typed_ref k v)" if "canonical_semantic E v = Inr v"
  unfolding typed_ref_def using that by (intro semantic_obj) simp

lemma cl_difference_id: "\<exists>i. difference_id ascii_ext cl_difference = Inr i"
proof -
  let ?kvs = "map (\<lambda>(k, f). (k, optional_field cl_difference f)) identity_sources
    @ [(''closure_policy_semantic_fingerprint'', cl_text ''sha256:2''), (''identity_profile'', JStr identity_profile)]"
  have i: "difference_identity_input cl_difference = Inr (obj ?kvs)"
    by (simp add: difference_identity_input_def closure_policy_fingerprint_def identity_sources_def afield_def
        cl_difference_def obj_field optional_field_def) (simp add: obj_def)
  have "canonical_semantic ascii_ext (obj ?kvs) = Inr (obj ?kvs)"
    by (rule semantic_obj) (simp add: identity_sources_def cl_difference_def obj_field optional_field_def cl_text_def
        ev_ref_def ref_semantic)
  moreover have "plain_any ascii_ext False (obj ?kvs)"
  proof (rule plain_obj)
    show "distinct (map fst ?kvs)" by (simp add: identity_sources_def)
    have "list_all ev_key (map fst ?kvs)"
      by (simp add: identity_sources_def ev_key_def word_key_def secret_keys_def u_Cons)
    then show "list_all (\<lambda>(k, v). ev_key k \<and> plain_any ascii_ext (u k \<in> set set_like_fields) v) ?kvs"
      by (auto simp: identity_sources_def cl_difference_def obj_field optional_field_def cl_text_def identity_profile_def
          u_Cons intro!: ev_ref_plain)
  qed
  ultimately show ?thesis
    using plain_hash_exists by (fastforce simp: difference_id_def i upper_id_def)
qed

section \<open>The gates\<close>

lemma x003_keys:
  "\<not> secret_key ascii_ext (u ''AGENT_REQUIRED_FOR_KERNEL'')" "\<not> secret_key ascii_ext (u ''SESSION_INDEPENDENT'')"
  by (simp_all add: secret_key_def normalized_key_for_secret_check_def ascii_ext_def secret_keys_def py_strip_def
      is_space_def ascii_lower_def u_Cons)

lemma claim_id_exists: "\<exists>i. mandatory_x003_claim_id ascii_ext = Inr i"
proof -
  let ?d = "[(''subject_type'', cl_text ''CONTRACT_COMPLETION''), (''subject_ref'', ev_ref ''kernel_invariant'' ''X-003''),
    (''claim'', obj [(''AGENT_REQUIRED_FOR_KERNEL'', JBool False), (''SESSION_INDEPENDENT'', JBool True)]),
    (''target_state_ref'', JNull)]"
  have m: "mandatory_x003_claim_descriptor = obj ?d"
    by (simp add: mandatory_x003_claim_descriptor_def obj_def cl_text_def ev_ref_def typed_ref_def)
  have k: "list_all ev_key [''subject_type'', ''subject_ref'', ''claim'', ''target_state_ref'', ''claim_semantic_fingerprint'']"
    by (simp add: ev_key_def word_key_def secret_keys_def u_Cons)
  have c: "plain_any ascii_ext b (obj [(''AGENT_REQUIRED_FOR_KERNEL'', JBool False), (''SESSION_INDEPENDENT'', JBool True)])" for b
    using x003_keys by (simp add: obj_def u_Cons)
  have "plain_any ascii_ext False (obj ?d)"
    using k c by (intro plain_obj) (auto simp: cl_text_def u_Cons intro!: ev_ref_plain)
  moreover have "canonical_semantic ascii_ext (obj ?d) = Inr (obj ?d)"
    by (rule semantic_obj) (simp add: cl_text_def ev_ref_def ref_semantic semantic_obj)
  ultimately obtain h where h: "hashed ascii_ext [] (obj ?d) = Inr h" "plain_str h" using plain_hash_exists by blast
  have "project_fields [''subject_type'', ''subject_ref'', ''claim'', ''target_state_ref''] (obj ?d) = Inr (obj ?d)"
    by (subst project_obj) (simp_all add: obj_field)
  then have f: "completion_claim_fingerprint ascii_ext (obj ?d) = Inr (u ''sha256:'' @ h)"
    using h by (simp add: completion_claim_fingerprint_def sha256_fingerprint_def)
  let ?c = "[(''subject_type'', cl_text ''CONTRACT_COMPLETION''), (''subject_ref'', ev_ref ''kernel_invariant'' ''X-003''),
    (''claim_semantic_fingerprint'', JStr (u ''sha256:'' @ h))]"
  have "plain_any ascii_ext False (obj ?c)"
    using k h(2) by (intro plain_obj) (auto simp: cl_text_def u_Cons intro!: ev_ref_plain)
  moreover have "canonical_semantic ascii_ext (obj ?c) = Inr (obj ?c)"
    by (rule semantic_obj) (simp add: cl_text_def ev_ref_def ref_semantic)
  ultimately obtain h' where h': "hashed ascii_ext claim_domain (obj ?c) = Inr h'" using plain_hash_exists by blast
  have o: "JObj [(u ''subject_type'', cl_text ''CONTRACT_COMPLETION''), (u ''subject_ref'', ev_ref ''kernel_invariant'' ''X-003''),
    (u ''claim_semantic_fingerprint'', JStr (u ''sha256:'' @ h))] = obj ?c" by (simp add: obj_def)
  have j: "jfield (obj ?d) ''subject_type'' = Some (cl_text ''CONTRACT_COMPLETION'')"
    "jfield (obj ?d) ''subject_ref'' = Some (ev_ref ''kernel_invariant'' ''X-003'')" by (simp_all add: obj_field)
  show ?thesis
    unfolding mandatory_x003_claim_id_def m completion_claim_id_def afield_def j f
    by (simp add: upper_id_def o h')
qed

lemma cl_invariants: "\<exists>b. invariants_hold cl_env ascii_ext ev_policy [] k w es c ctx = Inr b"
proof -
  have "alist ev_policy ''required_invariants'' = Inr []"
    by (simp add: alist_def ev_policy_def ev_policy_semantics_def obj_field)
  then show ?thesis by (auto simp: invariants_hold_def split: option.splits)
qed

lemma cl_claims: "\<exists>b. claims_hold ascii_ext ev_policy i (obj [(''revision'', JInt 3), (''fingerprint'', cl_text ''sha256:1'')])
    [] es rs cs JNull = Inr b"
proof -
  obtain m where "mandatory_x003_claim_id ascii_ext = Inr m" using claim_id_exists by blast
  then show ?thesis by (auto simp: claims_hold_def alist_def ev_policy_fields afield_def obj_field)
qed

lemma cl_terminal: "\<exists>b. terminal_status_allowed ev_policy (cl_text ''BLOCKED'') = Inr b"
proof -
  have "alist ev_policy ''allowed_terminal_states'' = Inr []"
    by (simp add: alist_def ev_policy_def ev_policy_semantics_def obj_field)
  then show ?thesis by (auto simp: terminal_status_allowed_def cl_text_def one_of_def)
qed

lemma cl_resolution: "resolution_of cl_request = Inr \<lparr> res_mode = JNull, res_change_refs = [], res_change_evidence = [],
    res_change_requests = [], res_free_evidence = [], res_free_requests = [], res_snapshot_refs = [], res_snapshots = [] \<rparr>"
  by (simp add: resolution_of_def cl_lists cl_get)

lemma opt_obj: "optional_field (obj kvs) k = (case map_of kvs k of Some x \<Rightarrow> x | None \<Rightarrow> JNull)"
  by (simp add: optional_field_def obj_field)

lemma cl_first: "\<exists>gs. first_gates ascii_ext cl_request cl_difference
    (obj [(''revision'', JInt 3), (''fingerprint'', cl_text ''sha256:1'')]) JNull False = Inr gs"
proof -
  obtain i where i: "difference_id ascii_ext cl_difference = Inr i" using cl_difference_id by blast
  have f: "jfield cl_difference ''difference_id'' = Some (cl_text ''D-1'')"
    "jfield cl_difference ''objective_revision_ref'' = Some (ev_ref ''objective_revision'' ''OBJ-1'')"
    "jfield cl_difference ''observed_state_revision'' = Some (JInt 3)"
    by (simp_all add: cl_difference_def obj_field)
  have t: "cl_text ''OBJ-1'' = JStr (u ''OBJ-1'')" "u ''OBJ-1'' \<noteq> []" by (simp_all add: cl_text_def u_Cons)
  show ?thesis
    unfolding first_gates_def cl_get t(1)
    by (simp add: evaluate_g1_g2_def i f t(2) dict_at_def cl_get evaluate_g3_g4_def ev_ref_def typed_ref_def obj_field
        objective_body_bound_def dict_or_none_def evaluate_g5_g20_def opt_obj afield_def Let_def)
qed

lemma cl_last: "\<exists>f. last_gates cl_env ascii_ext cl_request cl_difference ev_policy
      (obj [(''revision'', JInt 3), (''fingerprint'', cl_text ''sha256:1'')]) JNull
      \<lparr> res_mode = JNull, res_change_refs = [], res_change_evidence = [], res_change_requests = [],
        res_free_evidence = [], res_free_requests = [], res_snapshot_refs = [], res_snapshots = [] \<rparr> (gs, [], []) = Inr f
    \<and> found_sufficiency f = JNull \<and> found_oldest f = None \<and> found_contradictions f = []
    \<and> found_invariant_bindings f = [] \<and> found_claim_bindings f = []"
proof -
  obtain c where c: "verification_context ascii_ext cl_request cl_difference ev_policy
      (obj [(''revision'', JInt 3), (''fingerprint'', cl_text ''sha256:1'')]) JNull
      \<lparr> res_mode = JNull, res_change_refs = [], res_change_evidence = [], res_change_requests = [],
        res_free_evidence = [], res_free_requests = [], res_snapshot_refs = [], res_snapshots = [] \<rparr> [] [] JNull [] [] = Inr c"
    by (simp add: verification_context_def cl_get dict_or_none_def after_ids_def)
  obtain b19 where b19: "invariants_hold cl_env ascii_ext ev_policy [] (obj [(''commit_sha'', cl_text ''c0'')]) JNull [] JNull c = Inr b19"
    using cl_invariants by blast
  obtain b21 where b21: "claims_hold ascii_ext ev_policy (cl_text ''D-1'')
      (obj [(''revision'', JInt 3), (''fingerprint'', cl_text ''sha256:1'')]) [] [] [] [] JNull = Inr b21"
    using cl_claims by blast
  obtain b22 where b22: "terminal_status_allowed ev_policy (cl_text ''BLOCKED'') = Inr b22" using cl_terminal by blast
  have d: "jfield cl_difference ''difference_id'' = Some (cl_text ''D-1'')" by (simp add: cl_difference_def obj_field)
  show ?thesis
    unfolding last_gates_def prod.case cl_get
    by (simp add: evaluate_g12_g18_def dict_or_none_def cl_lists c b19 b21 b22 d afield_def del: bindE_eq_Inr_iff)
qed

lemma cl_gates: "\<exists>q f. evaluate_gates cl_env ascii_ext cl_request cl_difference ev_policy
      (obj [(''revision'', JInt 3), (''fingerprint'', cl_text ''sha256:1'')]) JNull JNull = Inr (q, f)
    \<and> found_sufficiency f = JNull \<and> found_oldest f = None \<and> found_contradictions f = []
    \<and> found_invariant_bindings f = [] \<and> found_claim_bindings f = [] \<and> map fst (found_gates f) = gate_ids"
proof -
  obtain gs where gs: "first_gates ascii_ext cl_request cl_difference
    (obj [(''revision'', JInt 3), (''fingerprint'', cl_text ''sha256:1'')]) JNull False = Inr gs" using cl_first by blast
  have s: "jfield ev_policy ''required_observation_scope'' = Some JNull"
    by (simp add: ev_policy_def ev_policy_semantics_def obj_field)
  have r: "evaluate_reproduction_gates cl_env ascii_ext cl_difference ev_policy JNull q g = Inr (settled_as UNKNOWN g, [], [])" for q g
    by (simp add: evaluate_reproduction_gates_def s afield_def)
  let ?q = "\<lparr> res_mode = JNull, res_change_refs = [], res_change_evidence = [], res_change_requests = [],
        res_free_evidence = [], res_free_requests = [], res_snapshot_refs = [], res_snapshots = [] \<rparr>"
  obtain f where f: "last_gates cl_env ascii_ext cl_request cl_difference ev_policy
      (obj [(''revision'', JInt 3), (''fingerprint'', cl_text ''sha256:1'')]) JNull ?q
      (settled_as UNKNOWN (evaluate_g6_g11 JNull [] [] [] gs), [], []) = Inr f"
    "found_sufficiency f = JNull" "found_oldest f = None" "found_contradictions f = []"
    "found_invariant_bindings f = []" "found_claim_bindings f = []"
    using cl_last by blast
  have "evaluate_gates cl_env ascii_ext cl_request cl_difference ev_policy
      (obj [(''revision'', JInt 3), (''fingerprint'', cl_text ''sha256:1'')]) JNull JNull = Inr (?q, f)"
    by (simp add: evaluate_gates_def gs cl_resolution cl_get dict_or_none_def r f(1) Let_def del: bindE_eq_Inr_iff)
  with evaluate_gates_decided(1) [OF this] f show ?thesis by blast
qed

end
