(* ===== verification/ClosureWitness.thy ===== *)
theory ClosureWitness
  imports ClosureExample
begin

text \<open>
  The evaluation of \<open>ClosureExample\<close> goes through: its record is plain text that can be hashed, its
  terminal reason is the Evidence the request reproduces, and the properties of \<open>ClosureProps\<close> apply to it.
\<close>

section \<open>The record\<close>

lemma gate_keys: "g \<in> set gate_ids \<Longrightarrow> \<not> secret_key ascii_ext (u g) \<and> plain_str (u g) \<and> u g \<notin> set set_like_fields"
  unfolding gate_ids_set
  by (elim insertE emptyE) (simp_all add: secret_key_def normalized_key_for_secret_check_def ascii_ext_def
      secret_keys_def py_strip_def is_space_def ascii_lower_def set_like_fields_def u_Cons)

lemma gate_text_plain: "plain_str (u (gate_text v))"
  by (cases v) (simp_all add: u_Cons)

lemma gates_plain:
  assumes "map fst gs = gate_ids"
  shows "plain_any ascii_ext b (gate_results gs)" and "canonical_semantic E (gate_results gs) = Inr (gate_results gs)"
proof -
  have i: "fst x \<in> set gate_ids" if "x \<in> set gs" for x
    using that unfolding assms [symmetric] by simp
  have n: "''collection_kind'' \<notin> set gate_ids" by (simp add: gate_ids_set)
  have "distinct (map u gate_ids)" by (simp add: distinct_map inj_on_def gate_ids_def)
  then have d: "distinct (map (\<lambda>x. u (fst x)) gs)"
    unfolding assms [symmetric] by (simp add: comp_def)
  show "plain_any ascii_ext b (gate_results gs)"
    unfolding gate_results_def obj_def using d i gate_keys gate_text_plain by (auto simp: split_beta comp_def)
  show "canonical_semantic E (gate_results gs) = Inr (gate_results gs)"
    unfolding gate_results_def using i n by (intro semantic_obj) (auto simp: list_all_iff)
qed

lemma reasons_plain:
  assumes "map fst gs = gate_ids"
  shows "list_all (\<lambda>v. plain_any ascii_ext False v \<and> canonical_semantic E v = Inr v) (failure_reasons cl_env r gs)"
proof -
  have "fst x \<in> set gate_ids" if "x \<in> set gs" for x
    using that unfolding assms [symmetric] by simp
  then show ?thesis using gate_keys by (auto simp: failure_reasons_def cl_env_def list_all_iff)
qed

definition good :: "string \<times> json \<Rightarrow> bool" where
  "good kv \<longleftrightarrow> ev_key (fst kv) \<and> fst kv \<noteq> ''collection_kind'' \<and> canonical_semantic ascii_ext (snd kv) = Inr (snd kv)
     \<and> plain_any ascii_ext (u (fst kv) \<in> set set_like_fields) (snd kv)"

lemma without_obj: "without k (obj kvs) = obj (filter (\<lambda>(j, v). j \<noteq> k) kvs)"
  by (simp add: obj_def) (induction kvs, auto)

lemma good_hashed:
  assumes "list_all good kvs" and "distinct (map fst kvs)"
  shows "\<exists>i. closure_evaluation_id ascii_ext (obj kvs) = Inr i"
proof -
  define ls where "ls = filter (\<lambda>(j, v). j \<noteq> ''closure_evaluation_id'') (filter (\<lambda>(j, v). j \<noteq> ''reflow_transition_ref'') kvs)"
  have l: "list_all good ls" "distinct (map fst ls)"
    using assms by (auto simp: ls_def list_all_iff distinct_map_filter)
  have "canonical_semantic ascii_ext (obj ls) = Inr (obj ls)"
    using l(1) by (intro semantic_obj) (auto simp: list_all_iff good_def)
  moreover have "plain_any ascii_ext False (obj ls)"
    using l by (intro plain_obj) (auto simp: list_all_iff good_def)
  ultimately obtain h where "hashed ascii_ext [] (obj ls) = Inr h" using plain_hash_exists by blast
  then show ?thesis
    unfolding closure_evaluation_id_def content_address_def without_obj ls_def [symmetric] by simp
qed

lemma cl_keys: "list_all (\<lambda>k. ev_key k \<and> k \<noteq> ''collection_kind'')
    [''schema_version'', ''closure_evaluation_id'', ''difference_id'', ''evaluation_mode'',
     ''terminal_reason_evidence_refs'', ''base_kernel_source_ref_evaluated'', ''kernel_source_ref_evaluated'',
     ''kernel_source_witness_ref'', ''difference_event_head_ref'', ''target_predicate_ref'',
     ''objective_revision_ref_evaluated'', ''objective_semantic_fingerprint_evaluated'', ''before_state_ref'',
     ''resolution_mode'', ''change_refs'', ''after_state_candidate'', ''after_observation_refs'',
     ''change_result_evidence_refs'', ''change_free_verification_evidence_refs'', ''verification_independence_ref'',
     ''evidence_sufficiency_ref'', ''candidate_invariant_evaluation_bindings'', ''candidate_claim_evaluation_bindings'',
     ''contradiction_refs'', ''evaluated_state_revision'', ''evaluated_state_fingerprint'', ''evaluated_at'',
     ''evaluation_expires_at'', ''policy_ref'', ''policy_version_evaluated'', ''policy_semantic_fingerprint_evaluated'',
     ''proposed_terminal_status'', ''gate_results'', ''result'', ''failure_reasons'', ''reflow_transition_ref'',
     ''kind'', ''id'', ''revision'', ''fingerprint'', ''commit_sha'', ''version'', ''semantic_fingerprint'']"
  by (simp add: ev_key_def word_key_def secret_keys_def u_Cons)

lemma good_text: "ev_key k \<and> k \<noteq> ''collection_kind'' \<Longrightarrow> plain_str s \<Longrightarrow> good (k, JStr s)"
  by (simp add: good_def)

lemma good_ref: "ev_key k \<and> k \<noteq> ''collection_kind'' \<Longrightarrow> plain_str (u a) \<Longrightarrow> plain_str (u b) \<Longrightarrow> good (k, ev_ref a b)"
  using ev_ref_plain by (simp add: good_def ev_ref_def ref_semantic)

lemma good_atom: "ev_key k \<and> k \<noteq> ''collection_kind'' \<Longrightarrow> good (k, JNull)" "ev_key k \<and> k \<noteq> ''collection_kind'' \<Longrightarrow> good (k, JInt i)"
  "ev_key k \<and> k \<noteq> ''collection_kind'' \<Longrightarrow> good (k, JList [])"
  by (simp_all add: good_def)

lemma good_obj: "ev_key k \<and> k \<noteq> ''collection_kind'' \<Longrightarrow> list_all good kvs \<Longrightarrow> distinct (map fst kvs) \<Longrightarrow> good (k, obj kvs)"
proof -
  assume k: "ev_key k \<and> k \<noteq> ''collection_kind''" and l: "list_all good kvs" "distinct (map fst kvs)"
  have "canonical_semantic ascii_ext (obj kvs) = Inr (obj kvs)"
    using l(1) by (intro semantic_obj) (auto simp: list_all_iff good_def)
  moreover have "plain_any ascii_ext b (obj kvs)" for b
    using l by (intro plain_obj) (auto simp: list_all_iff good_def)
  ultimately show "good (k, obj kvs)" using k by (simp add: good_def)
qed

lemma good_list: "list_all good []" "good kv \<Longrightarrow> list_all good kvs \<Longrightarrow> list_all good (kv # kvs)"
  by simp_all

lemma require_obj: "is_obj v \<Longrightarrow> require_object v = Inr v"
  by simp

lemma cl_fields:
  assumes g: "map fst (found_gates f) = gate_ids" and f: "found_contradictions f = []"
    "found_invariant_bindings f = []" "found_claim_bindings f = []"
  shows "\<exists>kvs. evaluation_fields cl_env cl_request cl_difference ev_policy
      (obj [(''revision'', JInt 3), (''fingerprint'', cl_text ''sha256:1'')]) JNull JNull
      [(''resolution_mode'', JNull), (''change_refs'', JList []), (''after_observation_refs'', JList []),
          (''change_result_evidence_refs'', JList []), (''change_free_verification_evidence_refs'', JList []),
          (''evidence_sufficiency_ref'', JNull)] f [cl_reason] JNull (''BLOCKED'', ''TERMINAL_POLICY_ONLY'') = Inr kvs
    \<and> list_all good kvs \<and> distinct (map fst kvs)"
proof -
  define G where "G = gate_results (found_gates f)"
  define F where "F = failure_reasons cl_env cl_request (found_gates f)"
  have at: "plain_str ex_at" "plain_str ev_id" "plain_str ev_policy_id" "plain_str ev_policy_fingerprint"
    by (simp_all add: ex_at_def ev_id_def ev_policy_id_def ev_policy_fingerprint_def plain_upper u_Cons)
  have "canonical_semantic ascii_ext (JList F) = Inr (JList F)"
    unfolding F_def using reasons_plain [OF g, of ascii_ext] by (intro semantic_list) (auto simp: list_all_iff)
  then have fl: "mapE (canonical_semantic ascii_ext) F = Inr F" by simp
  have gk: "good (''gate_results'', G)" "good (''failure_reasons'', JList F)"
    using gates_plain [OF g] cl_keys fl reasons_plain [OF g, of ascii_ext cl_request, folded F_def]
    by (simp_all add: good_def G_def list_all_iff set_like_fields_def)
  have rk: "good (''terminal_reason_evidence_refs'', JList [cl_reason])"
  proof -
    have "good (''id'', cl_reason)"
      unfolding cl_reason_def typed_ref_def using cl_keys at by (intro good_obj) (auto simp: u_Cons intro!: good_text)
    then show ?thesis using cl_keys by (simp add: good_def set_like_fields_def)
  qed
  have d: "jfield cl_difference ''difference_id'' = Some (cl_text ''D-1'')"
    "jfield cl_difference ''target_predicate_ref'' = Some (ev_ref ''target_predicate'' ''P-1'')"
    "jfield cl_difference ''objective_revision_ref'' = Some (ev_ref ''objective_revision'' ''OBJ-1'')"
    "jfield cl_difference ''objective_semantic_fingerprint'' = Some (cl_text ''sha256:0'')"
    by (simp_all add: cl_difference_def obj_field)
  let ?fp = "cl_text ''sha256:1''"
  define kvs where "kvs = [(''schema_version'', JStr (u ''0.1'')), (''closure_evaluation_id'', JStr []),
       (''difference_id'', cl_text ''D-1''), (''evaluation_mode'', JStr (u ''TERMINAL_POLICY_ONLY'')),
       (''terminal_reason_evidence_refs'', JList [cl_reason]),
       (''base_kernel_source_ref_evaluated'', obj [(''commit_sha'', cl_text ''c0'')]),
       (''kernel_source_ref_evaluated'', obj [(''commit_sha'', cl_text ''c0'')]), (''kernel_source_witness_ref'', JNull),
       (''difference_event_head_ref'', ev_ref ''difference_event'' ''D-EVT-1''),
       (''target_predicate_ref'', ev_ref ''target_predicate'' ''P-1''),
       (''objective_revision_ref_evaluated'', ev_ref ''objective_revision'' ''OBJ-1''),
       (''objective_semantic_fingerprint_evaluated'', cl_text ''sha256:0''),
       (''before_state_ref'', obj [(''kind'', JStr (u ''state'')), (''revision'', JInt 3), (''fingerprint'', ?fp)]),
       (''resolution_mode'', JNull), (''change_refs'', JList []), (''after_state_candidate'', JNull),
       (''after_observation_refs'', JList []), (''change_result_evidence_refs'', JList []),
       (''change_free_verification_evidence_refs'', JList []), (''verification_independence_ref'', JNull),
       (''evidence_sufficiency_ref'', JNull), (''candidate_invariant_evaluation_bindings'', JList []),
       (''candidate_claim_evaluation_bindings'', JList []), (''contradiction_refs'', JList []),
       (''evaluated_state_revision'', JInt 3), (''evaluated_state_fingerprint'', ?fp), (''evaluated_at'', JStr ex_at),
       (''evaluation_expires_at'', JNull),
       (''policy_ref'', obj [(''kind'', JStr (u ''closure_policy'')), (''id'', JStr ev_policy_id), (''version'', JInt 1),
          (''semantic_fingerprint'', JStr ev_policy_fingerprint)]),
       (''policy_version_evaluated'', JInt 1), (''policy_semantic_fingerprint_evaluated'', JStr ev_policy_fingerprint),
       (''proposed_terminal_status'', cl_text ''BLOCKED''), (''gate_results'', G), (''result'', JStr (u ''BLOCKED'')),
       (''failure_reasons'', JList F), (''reflow_transition_ref'', JNull)]"
  have "evaluation_fields cl_env cl_request cl_difference ev_policy
      (obj [(''revision'', JInt 3), (''fingerprint'', cl_text ''sha256:1'')]) JNull JNull
      [(''resolution_mode'', JNull), (''change_refs'', JList []), (''after_observation_refs'', JList []),
          (''change_result_evidence_refs'', JList []), (''change_free_verification_evidence_refs'', JList []),
          (''evidence_sufficiency_ref'', JNull)] f [cl_reason] JNull (''BLOCKED'', ''TERMINAL_POLICY_ONLY'') = Inr kvs"
    unfolding evaluation_fields_def G_def [symmetric] F_def [symmetric] f
    by (simp add: d afield_def dict_at_def cl_get obj_field policy_reference_def ev_policy_fields listed_def kvs_def
        require_obj ev_ref_def typed_ref_def del: bindE_eq_Inr_iff)
  moreover have "list_all good kvs"
    unfolding kvs_def cl_text_def
    using cl_keys at gk rk
    by (intro good_list good_text good_ref good_atom good_obj) (simp_all add: u_Cons)
  moreover have "distinct (map fst kvs)" by (simp add: kvs_def)
  ultimately show ?thesis by blast
qed

section \<open>The evaluation\<close>

lemma cl_reasons: "terminal_reasons_resolve cl_env ascii_ext cl_request cl_difference [cl_reason] = Inr ()"
proof -
  have d: "jfield (ev_ref ''difference'' ''D-1'') ''id'' = Some (cl_text ''D-1'')"
    "jfield cl_difference ''difference_id'' = Some (cl_text ''D-1'')"
    "jfield cl_difference ''project_id'' = Some (cl_text ''PRJ-A'')"
    by (simp_all add: ev_ref_def typed_ref_def cl_text_def cl_difference_def obj_field)
  have t: "\<exists>t. jfield ev_record ''target'' = Some t \<and> jfield t ''project_id'' = Some (cl_text ''PRJ-A'')"
    by (simp add: ev_record_field ev_field ev_common_def obj_field cl_text_def)
  have i: "optional_id cl_reason = Some (JStr ev_id)"
    by (simp add: optional_id_def cl_reason_def typed_ref_def obj_field)
  have "about_difference cl_difference ev_record = Inr ()"
    using t by (auto simp: about_difference_def afield_def ev_record_fields d)
  then have "resolve_terminal_reason_evidence ev_owners ascii_ext [cl_reason] [ev_request] cl_difference = Inr [ev_record]"
    by (simp add: resolve_terminal_reason_evidence_def ev_derived afield_def ev_record_fields i)
  then show ?thesis
    by (simp add: terminal_reasons_resolve_def items_def cl_get cl_owners)
qed

lemma cl_evaluated: "\<exists>ev. evaluate_closure cl_env ascii_ext cl_request = Inr ev
    \<and> jfield ev ''result'' = Some (JStr (u ''BLOCKED''))"
proof -
  let ?s = "obj [(''revision'', JInt 3), (''fingerprint'', cl_text ''sha256:1'')]"
  obtain q f where g: "evaluate_gates cl_env ascii_ext cl_request cl_difference ev_policy ?s JNull JNull = Inr (q, f)"
    and f: "found_sufficiency f = JNull" "found_oldest f = None" "found_contradictions f = []"
      "found_invariant_bindings f = []" "found_claim_bindings f = []" "map fst (found_gates f) = gate_ids"
    using cl_gates by blast
  let ?rs = "[(''resolution_mode'', JNull), (''change_refs'', JList []), (''after_observation_refs'', JList []),
          (''change_result_evidence_refs'', JList []), (''change_free_verification_evidence_refs'', JList []),
          (''evidence_sufficiency_ref'', JNull)]"
  obtain kvs where k: "evaluation_fields cl_env cl_request cl_difference ev_policy ?s JNull JNull ?rs f [cl_reason]
      JNull (''BLOCKED'', ''TERMINAL_POLICY_ONLY'') = Inr kvs" "list_all good kvs" "distinct (map fst kvs)"
    using cl_fields [OF f(6,3,4,5)] by blast
  obtain i where i: "closure_evaluation_id ascii_ext (obj kvs) = Inr i" using good_hashed [OF k(2,3)] by blast
  have w: "kernel_witness_ref ascii_ext x JNull = Inr JNull" "optional_dict cl_request ''kernel_source_witness'' = JNull" for x
    by (simp_all add: kernel_witness_ref_def cl_get dict_or_none_def)
  have c: "candidate_of ascii_ext cl_request ?s = Inr JNull" by (simp add: candidate_of_def cl_get)
  have d: "evaluation_deadline cl_env ev_policy f = Inr JNull"
    by (simp add: evaluation_deadline_def f afield_def ev_policy_fields)
  have t: "items cl_request ''terminal_reason_evidence_refs'' = Inr [cl_reason]" by (simp add: items_def cl_get)
  have r: "result_of cl_request False f = (''BLOCKED'', ''TERMINAL_POLICY_ONLY'')"
    by (simp add: result_of_def closure_result_def)
  have a: "admit_result cl_env ascii_ext cl_request cl_difference f [cl_reason] ''TERMINAL_POLICY_ONLY'' = Inr ()"
    by (simp add: admit_result_def cl_get cl_text_def one_of_def cl_reasons)
  have l: "legal_closure cl_request = Inr ()"
    by (simp add: legal_closure_def cl_get cl_text_def is_legal_transition_def legal_transitions_def status_text.simps)
  have "finish_evaluation ascii_ext cl_request kvs = Inr (aset ''closure_evaluation_id'' (JStr i) (obj kvs))"
    by (simp add: finish_evaluation_def i l)
  then have e: "evaluate_closure cl_env ascii_ext cl_request = Inr (aset ''closure_evaluation_id'' (JStr i) (obj kvs))"
    by (simp add: evaluate_closure_def cl_admitted cl_subject c w g d t r a resolution_fields_def k(1) Let_def
        del: bindE_eq_Inr_iff)
  show ?thesis
    using e evaluation_field(2) [OF k(1)] by (simp add: jfield_aset obj_field)
qed

section \<open>Witnesses\<close>

theorem closure_satisfied_witness:
  "\<exists>ev verdicts. evaluate_closure cl_env ascii_ext cl_request = Inr ev
     \<and> jfield ev ''gate_results'' = Some (obj (map (\<lambda>g. (g, JStr (u (gate_text (verdicts g))))) gate_ids))
     \<and> jfield ev ''proposed_terminal_status'' \<noteq> Some (JStr (u ''CLOSED''))"
proof -
  obtain ev where ev: "evaluate_closure cl_env ascii_ext cl_request = Inr ev" "jfield ev ''result'' = Some (JStr (u ''BLOCKED''))"
    using cl_evaluated by blast
  then have "jfield ev ''result'' \<noteq> Some (JStr (u ''SATISFIED''))" by simp
  with closure_satisfied [OF ev(1)] ev(1) show ?thesis by blast
qed

theorem closure_terminal_grounded_witness:
  "\<exists>ev. evaluate_closure cl_env ascii_ext cl_request = Inr ev
     \<and> jfield ev ''terminal_reason_evidence_refs'' \<noteq> Some (JList [])
     \<and> is_legal_transition (cl_text ''VERIFYING'') (cl_text ''BLOCKED'')"
proof -
  obtain ev where ev: "evaluate_closure cl_env ascii_ext cl_request = Inr ev" "jfield ev ''result'' = Some (JStr (u ''BLOCKED''))"
    using cl_evaluated by blast
  then have "jfield ev ''result'' \<noteq> Some (JStr (u ''SATISFIED''))" by simp
  from closure_terminal_grounded [OF ev(1) this] ev(1) show ?thesis by (auto simp: cl_get)
qed

end
