(* ===== verification/Spec2Isabelle.thy ===== *)
theory Spec2Isabelle
  imports StoreLimits LedgerProps ApprovalExample DeclarationExample LifecycleExample ChangeExample
    ReflowExample GitWitnessProps ClaimsExample Completion EvidenceExample ClosureWitness
begin

text \<open>
  Verification development of the agent civilization OS
  (\<open>src/src/manosube_agent_civilization\<close>): the records the Kernel addresses by content, the store it
  commits them to, the authorities it asks, the lifecycle of a Difference, and the Reflow that closes one.

  \<^bold>\<open>The program.\<close> Every record is a JSON value in one canonical form and is named by a digest of it. A
  project's state is the last of a linear history of revisions; the store (\<open>store/file_store.py\<close>) extends
  that history by one event and a set of records, through a journal, so that a crash leaves the old state
  or one that \<open>recover\<close> completes. What may be done is asked of evaluators (\<open>authority/\<close>) that answer from
  rules, prohibitions, approvals and signed grants, each recomputed from its content before it counts. A
  Difference is a gap between what an Observation reports and an Objective; it moves through a table of
  statuses by an append-only chain of events (\<open>difference/\<close>). A Change (\<open>change/\<close>) is derived from an
  Authority decision, Evidence (\<open>evidence/\<close>) from a reproduced Observation, and a Reflow (\<open>reflow/\<close>)
  reads them, decides the event that is minted, rewrites the bookkeeping of the semantic state and
  commits the next state under the guards of its deadline.

  \<^bold>\<open>How code is written here.\<close> A Python value is a \<open>json\<close>, with \<open>JObjBad\<close> for a \<open>dict\<close> some key of
  which is no string; a \<open>str\<close> is a list of code points (\<open>ustr\<close>), \<open>bytes\<close> a list of 8-bit words, a \<open>dict\<close>
  an association list in insertion order. A function that may raise answers a sum, \<open>Inl\<close> the exception;
  one that writes to disk is a function from the file system to a result and the file system it leaves
  (\<open>bindS\<close>), with a fault boundary after each durable step at which an argument of the operation may
  raise. \<open>reading\<close>, \<open>raised\<close> and \<open>observed\<close> embed the errors of one layer in those of the next, as an
  \<open>except\<close> clause does. Each definition has the name of the function it models where that name is free.

  \<^bold>\<open>Parameters.\<close> Nothing is assumed as an axiom. What the code takes from outside is an argument:
  the record \<open>ext\<close> holds \<open>unicodedata.normalize\<close>, \<open>str.lower\<close> and whether a JSON schema, named by its
  id, admits a value; \<open>verifier\<close> is the Ed25519 primitive; \<open>iso_reader\<close> reads the spellings of
  \<open>datetime.fromisoformat\<close> outside the extended form, which is modelled; \<open>owners\<close> holds \<open>observe\<close> and
  \<open>derive_differences\<close>, whose assembly of records is not modelled; \<open>closure_env\<close> holds them for the closure
  gates, with the verdict on one Kernel invariant in a context, the stage and method it is verified by,
  and the wording of a failure reason. Each theorem states in its hypotheses what it needs of them (that NFC is idempotent and leaves ASCII alone, for example), and its witness
  instantiates them with concrete functions. SHA-256 and SHA-1 are written out; a theorem that would need
  one of them to be injective names the two colliding inputs instead.

  \<^bold>\<open>The canonical layer.\<close>
  \<^item> \<open>Prelude\<close>: strings, errors, ordered dictionaries, sorting by a key. \<open>Text\<close>: UTF-8, \<open>splitlines\<close>,
    digits, hexadecimal. \<open>Sha256\<close>: the digest.
  \<^item> \<open>Json\<close>: \<open>json.dumps\<close> and \<open>json.loads\<close>, with the round trip and the totality of the parser. The
    recursive part runs on fuel, two units per character of the text and two to spare: every call but the
    first of an element follows a consumed character, so more fuel never changes the answer (\<open>parse_total\<close>).
  \<^item> \<open>Canonical\<close> (\<open>state/canonicalize.py\<close>): one form per value, idempotent, injective, readable again.
    \<open>Fingerprint\<close> (\<open>state/fingerprint.py\<close>): the address of a semantic state. \<open>Plain\<close>: ASCII values, for
    the identities the program itself writes and for the witnesses.

  \<^bold>\<open>The store.\<close>
  \<^item> \<open>StoreBase\<close>, \<open>Store\<close> (\<open>store/file_store.py\<close>, \<open>store/errors.py\<close>): the files of a
    project, what is read from them, and \<open>initialize\<close>, \<open>commit\<close>, \<open>recover\<close>, \<open>load_current\<close>.
  \<^item> \<open>StoreSafety\<close>: what every operation keeps, however it is interrupted. \<open>StoreCommit\<close>, \<open>StoreGenesis\<close>:
    the refinement of the files to a list of events and a state (\<open>settled\<close>, \<open>pending\<close>). \<open>StoreProps\<close>:
    atomicity, durability, append-only history, refusal of stale and divergent writers. \<open>StoreLimits\<close>: the
    edges of the contract, which the code does not promise. \<open>StoreExample\<close>: a concrete project.
  \<^item> \<open>Ledger\<close>, \<open>LedgerProps\<close>: the coordination ledger of the same module, with the repair of a torn line.

  \<^bold>\<open>Authority.\<close>
  \<^item> \<open>AuthBase\<close>, \<open>Levels\<close>, \<open>Scope\<close>, \<open>Instant\<close>, \<open>InstantProps\<close>, \<open>Conformance\<close>: reading a caller's value, the
    three levels, the scope algebra as set operations, the time grammar and its order, the admission of
    records by recomputed identity (\<open>authority/levels.py\<close>, \<open>scope.py\<close>, \<open>conformance.py\<close>, \<open>identity.py\<close>).
  \<^item> \<open>Authority\<close>, \<open>AuthorityLemmas\<close>, \<open>AuthorityProps\<close>, \<open>AuthorityOrder\<close> (\<open>authority/engine.py\<close>,
    \<open>prohibition.py\<close>, \<open>approval.py\<close>): prohibitions dominate, an autonomous answer is justified, an approval
    covers exactly what it names, the order of supplied records is immaterial.
  \<^item> \<open>Grants\<close>, \<open>GrantEvaluators\<close>, \<open>GrantLaws\<close>, \<open>GrantProps\<close> (\<open>authority/verifier_selection.py\<close>,
    \<open>projection_authorization.py\<close>, \<open>model_execution_authorization.py\<close>, \<open>binding/signature.py\<close>): three
    evaluators that share one contract, stated as a locale and interpreted on each of them.
  \<^item> \<open>AuthorityExample\<close>, \<open>ApprovalExample\<close>, \<open>GrantExample\<close>, \<open>DeclarationExample\<close>: the witnesses.

  \<^bold>\<open>Differences, Changes and Observations.\<close>
  \<^item> \<open>DifferenceIdentity\<close>, \<open>DifferenceProps\<close> (\<open>difference/canonical.py\<close>, \<open>identity.py\<close>), \<open>Policy\<close>
    (\<open>policy.py\<close>), \<open>Completion\<close> (\<open>completion.py\<close>): identities and what recomputes from them.
  \<^item> \<open>Lifecycle\<close>, \<open>LifecycleBinding\<close>, \<open>Lineage\<close>, \<open>LineageProps\<close> (\<open>lifecycle.py\<close>, \<open>predecessor.py\<close> and the
    event chain of \<open>engine.py\<close>): an accepted chain refines to a walk of the transition table, in which
    nothing closes unverified; from every accepted head a closure can be reached.
  \<^item> \<open>Change\<close>, \<open>ChangeProps\<close> (\<open>change/engine.py\<close>, \<open>identity.py\<close>): a Change rests on the reproduced decision.
  \<^item> \<open>Clock\<close>, \<open>Observed\<close> (\<open>observation/boundary.py\<close>, \<open>identity.py\<close>, \<open>scope.py\<close>, \<open>source_snapshot.py\<close>): the
    clock of the freshness gates, exact to the microsecond below the time grammar, and what the later
    layers ask of an Observation.

  \<^bold>\<open>Evidence and Reflow.\<close>
  \<^item> \<open>Evidence\<close>, \<open>EvidenceProps\<close> (\<open>evidence/engine.py\<close>, \<open>levels.py\<close>, \<open>identity.py\<close>): a record is about what
    its request reproduces. \<open>Sufficiency\<close>, \<open>SufficiencyProps\<close> (\<open>evidence/sufficiency.py\<close>): when the result
    is STALE, INSUFFICIENT, UNKNOWN and SUFFICIENT, in terms of every single record.
  \<^item> \<open>Reflow\<close>, \<open>ReflowProps\<close>, \<open>BookkeepingProps\<close> (\<open>reflow/engine.py\<close>, \<open>reopen.py\<close>, \<open>lifecycle.py\<close>,
    \<open>bookkeeping.py\<close>): the decision, the minted event (it extends every accepted chain), the bookkeeping.
  \<^item> \<open>ReflowCommit\<close>, \<open>ReflowCommitProps\<close> (\<open>reflow/commit.py\<close>, \<open>invariant_registry.py\<close>, \<open>store/commit.py\<close>): the
    built transition passes the store's verification; a Reflow is atomic; a stale one writes nothing.
  \<^item> \<open>GitWitness\<close>, \<open>GitWitnessProps\<close> (\<open>git_witness.py\<close>): an accepted witness binds a path of a commit to one
    blob, up to a collision it exhibits. \<open>Claims\<close>, \<open>ClaimsProps\<close> (\<open>claims.py\<close>): a resolved claim binding
    speaks for the latest event of an unforked series.
  \<^item> \<open>InvariantEvaluation\<close> (\<open>difference/invariant_evaluation.py\<close>): the record of an invariant's verdict, its
    fingerprint and its resolution against a binding. \<open>Gates\<close>, \<open>Reproduction\<close>, \<open>Closure\<close>,
    \<open>ClosureEvaluation\<close> (\<open>reflow/closure.py\<close>, \<open>identity.py\<close>, \<open>invariant_registry.py\<close>): the gates G1 to G22,
    each a step on an association of gates to verdicts; G7 to G10 and G13 to G17 from one reproduction of
    the Difference; \<open>evaluate_closure\<close>, the result, the terminal status and the record. \<open>Deadline\<close>:
    \<open>_format_instant\<close>, the calendar date of an expiry.
  \<^item> \<open>ClosureLemmas\<close>, \<open>ClosureEarned\<close>, \<open>ClosureProps\<close>: which gates each stage settles, that no gate is left
    undecided, what each gate that passed says of the request, what SATISFIED means and what a proposal
    that does not close rests on.
  \<^item> \<open>LifecycleExample\<close>, \<open>ChangeExample\<close>, \<open>ReflowExample\<close>, \<open>ClaimsExample\<close>, \<open>EvidenceExample\<close>,
    \<open>ClosureExample\<close>, \<open>ClosureWitness\<close>: the witnesses.

  \<^bold>\<open>Composition.\<close> The layers meet in the theorems: the commit of a Reflow is a commit of the store, so its
  atomicity is the store's; the event a Reflow mints is one the Difference chain accepts; a Change is what
  the Authority evaluator reproduces; sufficiency quantifies over the records the Evidence deriver
  derives; a closure evaluation calls the sufficiency evaluator, the Evidence deriver, the Git witness and
  the claim series as they are modelled; the clock of the deadline is compared with the time grammar of the records.

  \<^bold>\<open>Not modelled.\<close> Schemas are asked, not read. The exclusive file lock makes an operation of the store one
  step; concurrent processes without the lock are outside the model, as are \<open>fsync\<close> failures that lie about
  durability. The assembly of an Observation bundle and of a Difference bundle
  (\<open>observation/engine.py\<close>, \<open>difference/engine.py\<close> beyond the event chain) and the relational gates over a
  whole bundle are not modelled; neither are the verifiers of the Kernel invariants
  (\<open>difference/invariant_verifiers.py\<close>, which walks the syntax trees of the repository) and the route of a
  Reflow (\<open>reflow/route.py\<close>), of which the parts listed above are the modelled pieces. The change executor, the projection
  to GitHub, the model runtime, URL boot and the command line are input and output around the records; the
  decisions they ask for are modelled. \<open>scripts/\<close>, \<open>development_binding/\<close> and the acceptance bundles govern
  the development of the repository itself. Messages of exceptions are dropped everywhere.
\<close>

end
